(* ===== verification/Prelude.thy ===== *)
theory Prelude
  imports Complex_Main "HOL-Library.Multiset"
begin

text \<open>
  What every component of the model shares: Go's error values as a datatype and results as
  sums, \<open>errors.Join\<close>, the instants of Go's \<open>time.Time\<close>, the comparison results of
  \<open>cmp.Compare\<close>, and the sorting functions of package \<open>slices\<close> with the contract a
  three-way comparator has to meet (locale \<open>comparator\<close>).
\<close>

section \<open>Errors and results\<close>

text \<open>
  An error is what \<open>errors.New\<close>, \<open>fmt.Errorf\<close> with \<open>%w\<close>, \<open>errors.Join\<close>,
  \<open>models.NewGenericValidationError\<close> and \<open>billing.ValidationError\<close> build. The
  messages keep the fixed text of the source; values interpolated with \<open>%s\<close>, \<open>%d\<close> or
  \<open>%v\<close> are left out.
\<close>

datatype error =
    Err string
  | Wrap string error
  | Joined "error list"
  | GenericValidation error
  | ValidationError error

type_synonym 'a result = "error + 'a"

text \<open>\<open>if err != nil { return ..., err }\<close> followed by the rest of the function.\<close>

definition bind_result :: "'a result \<Rightarrow> ('a \<Rightarrow> 'b result) \<Rightarrow> 'b result" where
  "bind_result r f = (case r of Inl e \<Rightarrow> Inl e | Inr x \<Rightarrow> f x)"

definition wrap_result :: "string \<Rightarrow> 'a result \<Rightarrow> 'a result" where
  "wrap_result msg r = (case r of Inl e \<Rightarrow> Inl (Wrap msg e) | Inr x \<Rightarrow> Inr x)"

text \<open>A method that returns only an error: \<open>None\<close> is \<open>nil\<close>.\<close>

definition check_then :: "error option \<Rightarrow> 'b result \<Rightarrow> 'b result" where
  "check_then e r = (case e of Some x \<Rightarrow> Inl x | None \<Rightarrow> r)"

text \<open>\<open>errors.Join(errs...)\<close> is \<open>nil\<close> when no error was appended.\<close>

definition join_errors :: "error list \<Rightarrow> error option" where
  "join_errors es = (if es = [] then None else Some (Joined es))"

text \<open>\<open>if cond { errs = append(errs, e) }\<close>\<close>

definition err_if :: "bool \<Rightarrow> error \<Rightarrow> error list" where
  "err_if c e = (if c then [e] else [])"

text \<open>\<open>if err := x.Validate(); err != nil { errs = append(errs, wrap(err)) }\<close>\<close>

definition err_of :: "(error \<Rightarrow> error) \<Rightarrow> error option \<Rightarrow> error list" where
  "err_of w r = (case r of None \<Rightarrow> [] | Some e \<Rightarrow> [w e])"

definition nillable_validation :: "error option \<Rightarrow> error option" where
  "nillable_validation e = map_option GenericValidation e"

named_theorems result_simps "unfold the plumbing of results and error lists"

lemma bind_result_simps [simp]:
  "bind_result (Inl e) f = Inl e"
  "bind_result (Inr x) f = f x"
  by (simp_all add: bind_result_def)

lemma bind_result_Inr [result_simps]:
  "bind_result r f = Inr y \<longleftrightarrow> (\<exists>x. r = Inr x \<and> f x = Inr y)"
  by (cases r) auto

lemma wrap_result_simps [simp]:
  "wrap_result m (Inl e) = Inl (Wrap m e)"
  "wrap_result m (Inr x) = Inr x"
  by (simp_all add: wrap_result_def)

lemma wrap_result_Inr [result_simps]: "wrap_result m r = Inr x \<longleftrightarrow> r = Inr x"
  by (cases r) auto

lemma check_then_simps [simp]:
  "check_then None r = r"
  "check_then (Some e) r = Inl e"
  by (simp_all add: check_then_def)

lemma check_then_Inr [result_simps]: "check_then e r = Inr x \<longleftrightarrow> e = None \<and> r = Inr x"
  by (cases e) auto

lemma join_errors_None [simp]: "join_errors es = None \<longleftrightarrow> es = []"
  by (simp add: join_errors_def)

lemma err_if_Nil [simp]: "err_if c e = [] \<longleftrightarrow> \<not> c"
  by (simp add: err_if_def)

lemma err_of_Nil [simp]: "err_of w r = [] \<longleftrightarrow> r = None"
  by (simp add: err_of_def split: option.splits)

lemma nillable_validation_None [simp]: "nillable_validation e = None \<longleftrightarrow> e = None"
  by (simp add: nillable_validation_def)

section \<open>Instants\<close>

text \<open>
  A \<open>time.Time\<close> is the number of nanoseconds since Go's zero time (January 1, year 1, 00:00
  UTC), so \<open>IsZero\<close> is equality with 0, \<open>Before\<close>, \<open>After\<close>, \<open>Equal\<close> and
  \<open>Compare\<close> are the order of the integers and \<open>Add\<close> is addition. The location, which
  only changes how an instant is displayed and how calendar dates are read off it, is UTC
  throughout. \<open>Truncate\<close> rounds down to a multiple of the duration since the zero time.
\<close>

type_synonym time = int
type_synonym duration = int

definition IsZeroTime :: "time \<Rightarrow> bool" where
  "IsZeroTime t \<longleftrightarrow> t = 0"

definition Truncate :: "duration \<Rightarrow> time \<Rightarrow> time" where
  "Truncate d t = (if d \<le> 0 then t else t - t mod d)"

text \<open>
  A \<open>time.Duration\<close> is an \<open>int64\<close> of nanoseconds: its arithmetic wraps around, while
  \<open>Time.Sub\<close> returns the closest duration when the difference does not fit.
\<close>

definition wrap64 :: "int \<Rightarrow> int" where
  "wrap64 x = signed_take_bit 63 x"

definition sat64 :: "int \<Rightarrow> int" where
  "sat64 x = max (- (2 ^ 63)) (min (2 ^ 63 - 1) x)"

definition time_Sub :: "time \<Rightarrow> time \<Rightarrow> duration" where
  "time_Sub a b = sat64 (a - b)"

lemma wrap64_id: "- (2 ^ 63) \<le> x \<Longrightarrow> x < 2 ^ 63 \<Longrightarrow> wrap64 x = x"
  by (simp add: wrap64_def signed_take_bit_int_eq_self)

lemma sat64_id: "- (2 ^ 63) \<le> x \<Longrightarrow> x < 2 ^ 63 \<Longrightarrow> sat64 x = x"
  by (simp add: sat64_def)

lemma sat64_le_0 [simp]: "sat64 x \<le> 0 \<longleftrightarrow> x \<le> 0"
  by (simp add: sat64_def min_def max_def)

definition nsSecond :: duration where "nsSecond = 1000000000"
definition nsMinute :: duration where "nsMinute = 60000000000"
definition nsHour :: duration where "nsHour = 3600000000000"
definition nsDay :: duration where "nsDay = 86400000000000"

lemmas ns_defs = nsSecond_def nsMinute_def nsHour_def nsDay_def

lemma Truncate_le: "Truncate d t \<le> t"
  by (simp add: Truncate_def)

lemma Truncate_gt: "0 < d \<Longrightarrow> t - d < Truncate d t"
  using pos_mod_bound [of d t] by (simp add: Truncate_def)

lemma Truncate_mono: "s \<le> t \<Longrightarrow> Truncate d s \<le> Truncate d t"
  by (simp add: Truncate_def minus_mod_eq_mult_div zdiv_mono1)

lemma Truncate_idem: "Truncate d (Truncate d t) = Truncate d t"
  by (simp add: Truncate_def minus_mod_eq_mult_div)

lemma Truncate_dvd: "0 < d \<Longrightarrow> d dvd Truncate d t"
  by (simp add: Truncate_def minus_mod_eq_mult_div)

section \<open>Three-way comparison and sorting\<close>

text \<open>\<open>cmp.Compare\<close>, \<open>time.Compare\<close>, \<open>Decimal.Cmp\<close>: -1, 0 or 1.\<close>

definition compare_values :: "'a::linorder \<Rightarrow> 'a \<Rightarrow> int" where
  "compare_values a b = (if a < b then -1 else if b < a then 1 else 0)"

lemma compare_values_simps [simp]:
  "compare_values a b = 0 \<longleftrightarrow> a = b"
  "compare_values a b < 0 \<longleftrightarrow> a < b"
  "0 < compare_values a b \<longleftrightarrow> b < a"
  "compare_values a b \<le> 0 \<longleftrightarrow> a \<le> b"
  by (auto simp: compare_values_def)

text \<open>
  \<open>slices.SortStableFunc\<close>: a stable sort by a three-way comparison. \<open>slices.SortFunc\<close>
  promises no order among elements that compare equal; it is modelled by the same function,
  which is one of the results it may return.
\<close>

fun insert_by :: "('a \<Rightarrow> 'a \<Rightarrow> int) \<Rightarrow> 'a \<Rightarrow> 'a list \<Rightarrow> 'a list" where
  "insert_by cmp x [] = [x]"
| "insert_by cmp x (y # ys) = (if cmp x y \<le> 0 then x # y # ys else y # insert_by cmp x ys)"

fun sort_by :: "('a \<Rightarrow> 'a \<Rightarrow> int) \<Rightarrow> 'a list \<Rightarrow> 'a list" where
  "sort_by cmp [] = []"
| "sort_by cmp (x # xs) = insert_by cmp x (sort_by cmp xs)"

lemma mset_insert_by [simp]: "mset (insert_by cmp x xs) = add_mset x (mset xs)"
  by (induction xs) auto

lemma mset_sort_by [simp]: "mset (sort_by cmp xs) = mset xs"
  by (induction xs) auto

lemma set_insert_by [simp]: "set (insert_by cmp x xs) = insert x (set xs)"
  by (induction xs) auto

lemma set_sort_by [simp]: "set (sort_by cmp xs) = set xs"
  by (induction xs) auto

lemma length_sort_by [simp]: "length (sort_by cmp xs) = length xs"
  by (metis mset_sort_by size_mset)

lemma distinct_sort_by [simp]: "distinct (sort_by cmp xs) = distinct xs"
  using mset_eq_imp_distinct_iff mset_sort_by by blast

lemma sort_by_Nil [simp]: "sort_by cmp xs = [] \<longleftrightarrow> xs = []"
  by (metis length_0_conv length_sort_by)

text \<open>
  What a comparison function owes to the sorting functions: it orders its arguments
  consistently. The results below hold for every comparison that keeps this contract.
\<close>

locale comparator =
  fixes cmp :: "'a \<Rightarrow> 'a \<Rightarrow> int"
  assumes sym: "cmp a b < 0 \<longleftrightarrow> 0 < cmp b a"
    and trans: "cmp a b \<le> 0 \<Longrightarrow> cmp b c \<le> 0 \<Longrightarrow> cmp a c \<le> 0"
begin

lemma refl: "cmp a a = 0"
  using sym [of a a] by linarith

lemma total: "cmp a b \<le> 0 \<or> cmp b a \<le> 0"
  using sym [of a b] by linarith

lemma eq_sym: "cmp a b = 0 \<longleftrightarrow> cmp b a = 0"
  using sym [of a b] sym [of b a] by linarith

lemma gt_imp_le: "\<not> cmp a b \<le> 0 \<Longrightarrow> cmp b a \<le> 0"
  using total by blast

lemma sorted_insert_by:
  "sorted_wrt (\<lambda>a b. cmp a b \<le> 0) xs \<Longrightarrow> sorted_wrt (\<lambda>a b. cmp a b \<le> 0) (insert_by cmp x xs)"
  by (induction xs) (auto intro: trans gt_imp_le)

lemma sorted_sort_by: "sorted_wrt (\<lambda>a b. cmp a b \<le> 0) (sort_by cmp xs)"
  by (induction xs) (auto intro: sorted_insert_by)

lemma eq_class_le: "cmp k x = 0 \<Longrightarrow> cmp k y = 0 \<Longrightarrow> cmp x y \<le> 0"
  by (metis eq_sym order_refl trans)

lemma filter_insert_by:
  "filter (\<lambda>y. cmp k y = 0) (insert_by cmp x xs) = filter (\<lambda>y. cmp k y = 0) (x # xs)"
  by (induction xs) (auto dest: eq_class_le)

text \<open>Stability: elements that compare equal keep their order.\<close>

lemma stable_sort_by:
  "filter (\<lambda>y. cmp k y = 0) (sort_by cmp xs) = filter (\<lambda>y. cmp k y = 0) xs"
proof (induction xs)
  case (Cons x xs)
  then show ?case
    using filter_insert_by [of k x "sort_by cmp xs"] by auto
qed simp

lemma sorted_idem: "sorted_wrt (\<lambda>a b. cmp a b \<le> 0) xs \<Longrightarrow> sort_by cmp xs = xs"
proof (induction xs)
  case (Cons x xs)
  then show ?case by (cases xs) auto
qed simp

end

text \<open>Comparing by a key into a linear order keeps the contract.\<close>

interpretation key_comparator: comparator "\<lambda>a b. compare_values (f a) (f b)" for f :: "'a \<Rightarrow> 'b::linorder"
  by unfold_locales auto

section \<open>Lists\<close>

lemma sum_list_map_diff:
  "(\<And>x. x \<in> set xs \<Longrightarrow> f x = g x + (h x :: 'a::comm_monoid_add)) \<Longrightarrow>
    sum_list (map f xs) = sum_list (map g xs) + sum_list (map h xs)"
  by (induction xs) (auto simp: ac_simps)

lemma sum_list_mset_cong: "mset xs = mset ys \<Longrightarrow> sum_list xs = (sum_list ys :: 'a::comm_monoid_add)"
  by (metis sum_mset_sum_list)

text \<open>\<open>slicesx.MapWithErr\<close> (pkg/slicesx/map.go): every element is mapped and the errors are joined
  one by one.\<close>

fun map_with_err_acc :: "('a \<Rightarrow> 'b result) \<Rightarrow> 'a list \<Rightarrow> error list \<times> 'b list" where
  "map_with_err_acc f [] = ([], [])"
| "map_with_err_acc f (x # xs) =
     (let (es, ys) = map_with_err_acc f xs
      in case f x of Inl e \<Rightarrow> (e # es, ys) | Inr y \<Rightarrow> (es, y # ys))"

definition join_more :: "error option \<Rightarrow> error \<Rightarrow> error option" where
  "join_more outErr e = Some (Joined (case outErr of None \<Rightarrow> [e] | Some x \<Rightarrow> [x, e]))"

definition MapWithErr :: "('a \<Rightarrow> 'b result) \<Rightarrow> 'a list \<Rightarrow> 'b list result" where
  "MapWithErr f xs =
     (let (es, ys) = map_with_err_acc f xs
      in case foldl join_more None es of Some e \<Rightarrow> Inl e | None \<Rightarrow> Inr ys)"

lemma foldl_join_more: "foldl join_more a es = None \<longleftrightarrow> a = None \<and> es = []"
proof (induction es arbitrary: a)
  case (Cons e es)
  then show ?case by (simp add: join_more_def)
qed simp

lemma map_with_err_acc_ok:
  "fst (map_with_err_acc f xs) = [] \<longleftrightarrow> (\<forall>x \<in> set xs. \<exists>y. f x = Inr y)"
  by (induction xs) (auto split: sum.splits prod.splits)

lemma map_with_err_acc_vals:
  "fst (map_with_err_acc f xs) = [] \<Longrightarrow> map f xs = map Inr (snd (map_with_err_acc f xs))"
  by (induction xs) (auto split: sum.splits prod.splits)

lemma MapWithErr_Inr: "MapWithErr f xs = Inr ys \<longleftrightarrow> map f xs = map Inr ys"
proof -
  obtain es zs where p: "map_with_err_acc f xs = (es, zs)" by fastforce
  have ok: "es = [] \<longleftrightarrow> (\<forall>x \<in> set xs. \<exists>y. f x = Inr y)"
    using map_with_err_acc_ok [of f xs] p by simp
  have vals: "es = [] \<Longrightarrow> map f xs = map Inr zs"
    using map_with_err_acc_vals [of f xs] p by simp
  have inj: "map Inr zs = (map Inr ys :: (error + _) list) \<longleftrightarrow> zs = ys"
    by (rule inj_map_eq_map) (simp add: inj_on_def)
  show ?thesis
  proof (cases "es = []")
    case True
    then show ?thesis using p vals inj by (simp add: MapWithErr_def)
  next
    case False
    then have "MapWithErr f xs \<noteq> Inr ys"
      using p foldl_join_more [of None es] by (auto simp: MapWithErr_def split: option.splits)
    moreover have "map f xs \<noteq> map Inr ys"
      using False ok by (metis imageE list.set_map rev_image_eqI)
    ultimately show ?thesis by blast
  qed
qed

end
