(* ===== verification/Timeutil.thy ===== *)
theory Timeutil
  imports Prelude
begin

text \<open>
  Package \<open>pkg/timeutil\<close>: the three period types and the \<open>Period\<close> interface they
  implement (locale \<open>period\<close>), the boundary flag and the timeline. A pointer to an
  optional bound is an option.
\<close>

section \<open>Boundaries (boundary.go)\<close>

text \<open>The string type has two valid values; any other string fails \<open>Validate\<close>.\<close>

datatype Boundary = Exclusive | Inclusive | OtherBoundary string

definition Boundary_Validate :: "Boundary \<Rightarrow> error option" where
  "Boundary_Validate b =
     (if b \<notin> {Exclusive, Inclusive} then Some (Err ''invalid boundary type'') else None)"

lemma Boundary_Validate_None [simp]:
  "Boundary_Validate b = None \<longleftrightarrow> b = Exclusive \<or> b = Inclusive"
  by (auto simp: Boundary_Validate_def)

section \<open>Closed periods (closedperiod.go)\<close>

record ClosedPeriod =
  cp_From :: time
  cp_To :: time

definition CP_Duration :: "ClosedPeriod \<Rightarrow> duration" where
  "CP_Duration p = time_Sub (cp_To p) (cp_From p)"

definition CP_ContainsInclusive :: "ClosedPeriod \<Rightarrow> time \<Rightarrow> bool" where
  "CP_ContainsInclusive p t =
     (if t = cp_From p \<or> t = cp_To p then True else cp_From p < t \<and> t < cp_To p)"

definition CP_Contains :: "ClosedPeriod \<Rightarrow> time \<Rightarrow> bool" where
  "CP_Contains p t = ((cp_From p < t \<or> t = cp_From p) \<and> t < cp_To p)"

definition CP_ContainsExclusive :: "ClosedPeriod \<Rightarrow> time \<Rightarrow> bool" where
  "CP_ContainsExclusive p t = (CP_Contains p t \<and> t \<noteq> cp_From p)"

definition CP_Overlaps :: "ClosedPeriod \<Rightarrow> ClosedPeriod \<Rightarrow> bool" where
  "CP_Overlaps p q =
     (if cp_To p < cp_From q \<or> cp_To p = cp_From q then False
      else if cp_To q < cp_From p \<or> cp_To q = cp_From p then False
      else True)"

definition CP_ContainsPeriodInclusive :: "ClosedPeriod \<Rightarrow> ClosedPeriod \<Rightarrow> bool" where
  "CP_ContainsPeriodInclusive p q =
     (CP_ContainsInclusive p (cp_From q) \<and> CP_ContainsInclusive p (cp_To q))"

definition CP_OverlapsInclusive :: "ClosedPeriod \<Rightarrow> ClosedPeriod \<Rightarrow> bool" where
  "CP_OverlapsInclusive p q =
     (CP_ContainsInclusive p (cp_From q) \<or> CP_ContainsInclusive p (cp_To q) \<or>
      CP_ContainsInclusive q (cp_From p) \<or> CP_ContainsInclusive q (cp_To p))"

definition CP_Intersection :: "ClosedPeriod \<Rightarrow> ClosedPeriod \<Rightarrow> ClosedPeriod option" where
  "CP_Intersection p q =
     (let newFrom = (if cp_From q < cp_From p then cp_From p else cp_From q);
          newTo = (if cp_To p < cp_To q then cp_To p else cp_To q)
      in if \<not> newFrom < newTo then None
         else Some \<lparr>cp_From = newFrom, cp_To = newTo\<rparr>)"

definition CP_Validate :: "ClosedPeriod \<Rightarrow> error option" where
  "CP_Validate p = (if cp_To p < cp_From p then Some (Err ''from must be before to'') else None)"

definition CP_ValidateAsRequired :: "ClosedPeriod \<Rightarrow> error option" where
  "CP_ValidateAsRequired p =
     (if IsZeroTime (cp_From p) \<or> IsZeroTime (cp_To p) then
        join_errors (err_if (IsZeroTime (cp_From p)) (Err ''from is required'') @
                     err_if (IsZeroTime (cp_To p)) (Err ''to is required''))
      else CP_Validate p)"

definition CP_Truncate :: "duration \<Rightarrow> ClosedPeriod \<Rightarrow> ClosedPeriod" where
  "CP_Truncate d p = \<lparr>cp_From = Truncate d (cp_From p), cp_To = Truncate d (cp_To p)\<rparr>"

definition CP_Equal :: "ClosedPeriod \<Rightarrow> ClosedPeriod \<Rightarrow> bool" where
  "CP_Equal p q = (cp_From p = cp_From q \<and> cp_To p = cp_To q)"

definition CP_IsEmpty :: "ClosedPeriod \<Rightarrow> bool" where
  "CP_IsEmpty p = (CP_Duration p \<le> 0)"

section \<open>Open periods (openperiod.go)\<close>

record OpenPeriod =
  op_From :: "time option"
  op_To :: "time option"

definition CP_Open :: "ClosedPeriod \<Rightarrow> OpenPeriod" where
  "CP_Open p = \<lparr>op_From = Some (cp_From p), op_To = Some (cp_To p)\<rparr>"

text \<open>Conditions of the form \<open>p.X != nil && c(*p.X)\<close>.\<close>

definition if_set :: "'a option \<Rightarrow> ('a \<Rightarrow> bool) \<Rightarrow> bool" where
  "if_set x c = (case x of None \<Rightarrow> False | Some v \<Rightarrow> c v)"

definition if_set2 :: "'a option \<Rightarrow> 'b option \<Rightarrow> ('a \<Rightarrow> 'b \<Rightarrow> bool) \<Rightarrow> bool" where
  "if_set2 x y c = (case x of None \<Rightarrow> False | Some v \<Rightarrow> (case y of None \<Rightarrow> False | Some w \<Rightarrow> c v w))"

lemma if_set_simps [simp]:
  "if_set None c = False" "if_set (Some v) c = c v"
  "if_set2 None y d = False" "if_set2 x None d = False" "if_set2 (Some v) (Some w) d = d v w"
  by (simp_all add: if_set_def if_set2_def split: option.splits)

definition OP_Validate :: "OpenPeriod \<Rightarrow> error option" where
  "OP_Validate p =
     (if if_set2 (op_From p) (op_To p) (\<lambda>f t. \<not> f < t)
      then Some (Err ''from must be before to'') else None)"

definition OP_Equals :: "OpenPeriod \<Rightarrow> OpenPeriod \<Rightarrow> bool" where
  "OP_Equals p q =
     (if (op_From p = None) \<noteq> (op_From q = None) then False
      else if if_set2 (op_From p) (op_From q) (\<lambda>a b. a \<noteq> b) then False
      else if (op_To p = None) \<noteq> (op_To q = None) then False
      else if if_set2 (op_To p) (op_To q) (\<lambda>a b. a \<noteq> b) then False
      else True)"

definition OP_ContainsInclusive :: "OpenPeriod \<Rightarrow> time \<Rightarrow> bool" where
  "OP_ContainsInclusive p t =
     (if if_set (op_From p) (\<lambda>f. t < f) then False
      else if if_set (op_To p) (\<lambda>e. e < t) then False
      else True)"

definition OP_ContainsExclusive :: "OpenPeriod \<Rightarrow> time \<Rightarrow> bool" where
  "OP_ContainsExclusive p t =
     (if if_set (op_From p) (\<lambda>f. t < f \<or> t = f) then False
      else if if_set (op_To p) (\<lambda>e. e < t \<or> t = e) then False
      else True)"

definition OP_Contains :: "OpenPeriod \<Rightarrow> time \<Rightarrow> bool" where
  "OP_Contains p t =
     (if if_set (op_From p) (\<lambda>f. t < f) then False
      else if if_set (op_To p) (\<lambda>e. e < t \<or> t = e) then False
      else True)"

definition latest_from :: "time option \<Rightarrow> time option \<Rightarrow> time option" where
  "latest_from a b =
     (case (a, b) of
        (None, None) \<Rightarrow> None
      | (None, Some y) \<Rightarrow> Some y
      | (Some x, None) \<Rightarrow> Some x
      | (Some x, Some y) \<Rightarrow> Some (if y < x then x else y))"

definition earliest_to :: "time option \<Rightarrow> time option \<Rightarrow> time option" where
  "earliest_to a b =
     (case (a, b) of
        (None, None) \<Rightarrow> None
      | (None, Some y) \<Rightarrow> Some y
      | (Some x, None) \<Rightarrow> Some x
      | (Some x, Some y) \<Rightarrow> Some (if x < y then x else y))"

definition OP_Intersection :: "OpenPeriod \<Rightarrow> OpenPeriod \<Rightarrow> OpenPeriod option" where
  "OP_Intersection p q =
     (if op_From p = None \<and> op_To p = None \<and> op_From q = None \<and> op_To q = None
      then Some \<lparr>op_From = None, op_To = None\<rparr>
      else let newFrom = latest_from (op_From p) (op_From q);
               newTo = earliest_to (op_To p) (op_To q)
           in if if_set2 newFrom newTo (\<lambda>f t. \<not> f < t) then None
              else if if_set2 (op_From p) (op_To q) (\<lambda>f t. \<not> f < t) \<or>
                      if_set2 (op_From q) (op_To p) (\<lambda>f t. \<not> f < t) then None
              else Some \<lparr>op_From = newFrom, op_To = newTo\<rparr>)"

definition OP_Difference :: "OpenPeriod \<Rightarrow> OpenPeriod \<Rightarrow> OpenPeriod list" where
  "OP_Difference p q =
     (case OP_Intersection p q of
        None \<Rightarrow> [p]
      | Some i \<Rightarrow>
          if (op_From p = None) = (op_From i = None) \<and> (op_To p = None) = (op_To i = None) \<and>
             (op_From p = None \<or> op_From p = op_From i) \<and> (op_To p = None \<or> op_To p = op_To i)
          then []
          else (if (op_From p = None \<and> op_From i \<noteq> None) \<or>
                   if_set2 (op_From p) (op_From i) (\<lambda>a b. a < b)
                then [\<lparr>op_From = op_From p, op_To = op_From i\<rparr>] else []) @
               (if (op_To p = None \<and> op_To i \<noteq> None) \<or>
                   if_set2 (op_To p) (op_To i) (\<lambda>a b. b < a)
                then [\<lparr>op_From = op_To i, op_To = op_To p\<rparr>] else []))"

definition OP_Union :: "OpenPeriod \<Rightarrow> OpenPeriod \<Rightarrow> OpenPeriod" where
  "OP_Union p q =
     (if (op_From p = None \<and> op_To p = None) \<or> (op_From q = None \<and> op_To q = None)
      then \<lparr>op_From = None, op_To = None\<rparr>
      else \<lparr>op_From = (case (op_From p, op_From q) of
                         (Some x, Some y) \<Rightarrow> Some (if x < y then x else y) | _ \<Rightarrow> None),
            op_To = (case (op_To p, op_To q) of
                       (Some x, Some y) \<Rightarrow> Some (if y < x then x else y) | _ \<Rightarrow> None)\<rparr>)"

definition OP_IsSupersetOf :: "OpenPeriod \<Rightarrow> OpenPeriod \<Rightarrow> bool" where
  "OP_IsSupersetOf p q =
     (if op_From p = None \<and> op_To p = None then True
      else if op_From q = None \<and> op_To q = None then False
      else if if_set (op_From p) (\<lambda>f. op_From q = None \<or> if_set (op_From q) (\<lambda>g. g < f)) then False
      else if if_set (op_To p) (\<lambda>e. op_To q = None \<or> if_set (op_To q) (\<lambda>g. e < g)) then False
      else if if_set2 (op_To p) (op_From q) (=) \<or> if_set2 (op_From p) (op_To q) (=) then False
      else True)"

definition OP_OverlapsInclusive :: "OpenPeriod \<Rightarrow> OpenPeriod \<Rightarrow> bool" where
  "OP_OverlapsInclusive p q =
     (if OP_Intersection p q \<noteq> None then True
      else if if_set2 (op_From p) (op_To q) (=) \<or> if_set2 (op_To p) (op_From q) (=) then True
      else False)"

definition OP_Closed :: "OpenPeriod \<Rightarrow> ClosedPeriod result" where
  "OP_Closed p =
     (case (op_From p, op_To p) of
        (Some f, Some t) \<Rightarrow> Inr \<lparr>cp_From = f, cp_To = t\<rparr>
      | _ \<Rightarrow> Inl (Err ''cannot convert open period to closed period with nil boundaries''))"

section \<open>Start-bounded periods (boundedperiod.go)\<close>

record StartBoundedPeriod =
  sb_From :: time
  sb_To :: "time option"

definition SB_Validate :: "StartBoundedPeriod \<Rightarrow> error option" where
  "SB_Validate p =
     (if IsZeroTime (sb_From p) then Some (Err ''from is required'')
      else if if_set (sb_To p) (\<lambda>e. e < sb_From p) then Some (Err ''from must be before to'')
      else None)"

definition SB_ContainsInclusive :: "StartBoundedPeriod \<Rightarrow> time \<Rightarrow> bool" where
  "SB_ContainsInclusive p t =
     (if t < sb_From p then False
      else if if_set (sb_To p) (\<lambda>e. e < t) then False
      else True)"

definition SB_ContainsExclusive :: "StartBoundedPeriod \<Rightarrow> time \<Rightarrow> bool" where
  "SB_ContainsExclusive p t =
     (if t < sb_From p \<or> t = sb_From p then False
      else if if_set (sb_To p) (\<lambda>e. e < t \<or> t = e) then False
      else True)"

definition SB_Contains :: "StartBoundedPeriod \<Rightarrow> time \<Rightarrow> bool" where
  "SB_Contains p t =
     (if t < sb_From p then False
      else if if_set (sb_To p) (\<lambda>e. e < t \<or> t = e) then False
      else True)"

definition SB_Open :: "StartBoundedPeriod \<Rightarrow> OpenPeriod" where
  "SB_Open p = \<lparr>op_From = Some (sb_From p), op_To = sb_To p\<rparr>"

lemmas CP_defs = CP_Duration_def CP_ContainsInclusive_def CP_Contains_def CP_ContainsExclusive_def
  CP_Overlaps_def CP_ContainsPeriodInclusive_def CP_OverlapsInclusive_def CP_Validate_def
  CP_Equal_def CP_IsEmpty_def CP_Open_def

lemmas OP_defs = OP_Validate_def OP_ContainsInclusive_def OP_ContainsExclusive_def OP_Contains_def

lemmas SB_defs = SB_Validate_def SB_ContainsInclusive_def SB_ContainsExclusive_def SB_Contains_def
  SB_Open_def


section \<open>The interface of periods (period.go)\<close>

text \<open>
  The Go interface \<open>Period\<close> has the methods \<open>ContainsInclusive\<close>, \<open>ContainsExclusive\<close> and
  \<open>Contains\<close>, documented as closed, open and half-open on the right. The contract below is
  what a caller may rely on whatever the period type is; \<open>valid\<close> is the type's own
  notion of an ordered period.
\<close>

locale period =
  fixes incl :: "'p \<Rightarrow> time \<Rightarrow> bool"
    and excl :: "'p \<Rightarrow> time \<Rightarrow> bool"
    and cont :: "'p \<Rightarrow> time \<Rightarrow> bool"
    and valid :: "'p \<Rightarrow> bool"
  assumes excl_cont: "excl p t \<Longrightarrow> cont p t"
    and cont_incl: "cont p t \<Longrightarrow> incl p t"
    and between: "valid p \<Longrightarrow> incl p s \<Longrightarrow> incl p u \<Longrightarrow> s < t \<Longrightarrow> t < u \<Longrightarrow> excl p t"
    and start_in: "valid p \<Longrightarrow> incl p t \<Longrightarrow> incl p u \<Longrightarrow> t < u \<Longrightarrow> cont p t"
begin

lemma end_is_last: "valid p \<Longrightarrow> incl p t \<Longrightarrow> \<not> cont p t \<Longrightarrow> incl p u \<Longrightarrow> u \<le> t"
  using start_in by fastforce

lemma start_is_first:
  "valid p \<Longrightarrow> cont p t \<Longrightarrow> \<not> excl p t \<Longrightarrow> incl p s \<Longrightarrow> incl p u \<Longrightarrow> t < u \<Longrightarrow> t \<le> s"
  by (metis between not_le_imp_less)

lemma convex: "valid p \<Longrightarrow> incl p s \<Longrightarrow> incl p u \<Longrightarrow> s \<le> t \<Longrightarrow> t \<le> u \<Longrightarrow> incl p t"
  using between excl_cont cont_incl by (metis order_le_less)

lemma cont_convex: "valid p \<Longrightarrow> cont p s \<Longrightarrow> cont p u \<Longrightarrow> s \<le> t \<Longrightarrow> t \<le> u \<Longrightarrow> cont p t"
  using between excl_cont cont_incl by (metis order_le_less)

end

interpretation cp: period CP_ContainsInclusive CP_ContainsExclusive CP_Contains
  "\<lambda>p. CP_Validate p = None"
  by unfold_locales (auto simp: CP_defs split: if_splits)

interpretation op: period OP_ContainsInclusive OP_ContainsExclusive OP_Contains
  "\<lambda>p. OP_Validate p = None"
  by unfold_locales (auto simp: OP_defs if_set_def split: if_splits option.splits)

interpretation sb: period SB_ContainsInclusive SB_ContainsExclusive SB_Contains
  "\<lambda>p. SB_Validate p = None"
  by unfold_locales (auto simp: SB_defs if_set_def split: if_splits option.splits)

lemma SB_Open_Contains [simp]: "OP_Contains (SB_Open p) t = SB_Contains p t"
  by (simp add: SB_defs OP_defs)

lemma CP_Open_Contains [simp]: "OP_Contains (CP_Open p) t = CP_Contains p t"
  by (auto simp: CP_defs OP_defs)

section \<open>Set operations on periods\<close>

lemma CP_Intersection_iff:
  "(case CP_Intersection p q of None \<Rightarrow> False | Some r \<Rightarrow> CP_Contains r t)
     \<longleftrightarrow> CP_Contains p t \<and> CP_Contains q t"
  by (auto simp: CP_Intersection_def CP_Contains_def Let_def)

lemma CP_Overlaps_iff: "CP_Validate p = None \<Longrightarrow> CP_Validate q = None \<Longrightarrow>
    cp_From p < cp_To p \<Longrightarrow> cp_From q < cp_To q \<Longrightarrow>
    CP_Overlaps p q \<longleftrightarrow> CP_Intersection p q \<noteq> None"
  by (auto simp: CP_defs CP_Intersection_def Let_def)

text \<open>The bounds of an open period, read as conditions on an instant.\<close>

definition from_ok :: "time option \<Rightarrow> time \<Rightarrow> bool" where
  "from_ok f t = (case f of None \<Rightarrow> True | Some x \<Rightarrow> x \<le> t)"

definition to_ok :: "time option \<Rightarrow> time \<Rightarrow> bool" where
  "to_ok e t = (case e of None \<Rightarrow> True | Some x \<Rightarrow> t < x)"

definition to_le :: "time option \<Rightarrow> time \<Rightarrow> bool" where
  "to_le e t = (case e of None \<Rightarrow> True | Some x \<Rightarrow> t \<le> x)"

lemma bound_simps [simp]:
  "from_ok None t" "from_ok (Some x) t = (x \<le> t)"
  "to_ok None t" "to_ok (Some x) t = (t < x)"
  "to_le None t" "to_le (Some x) t = (t \<le> x)"
  by (simp_all add: from_ok_def to_ok_def to_le_def)

lemma OP_Contains_alt: "OP_Contains p t \<longleftrightarrow> from_ok (op_From p) t \<and> to_ok (op_To p) t"
  by (auto simp: OP_Contains_def if_set_def from_ok_def to_ok_def split: option.splits)

lemma OP_ContainsInclusive_alt:
  "OP_ContainsInclusive p t \<longleftrightarrow> from_ok (op_From p) t \<and> to_le (op_To p) t"
  by (auto simp: OP_ContainsInclusive_def if_set_def from_ok_def to_le_def split: option.splits)

lemma latest_from_ok [simp]: "from_ok (latest_from a b) t \<longleftrightarrow> from_ok a t \<and> from_ok b t"
  by (auto simp: latest_from_def split: option.splits)

lemma earliest_to_ok [simp]: "to_ok (earliest_to a b) t \<longleftrightarrow> to_ok a t \<and> to_ok b t"
  by (auto simp: earliest_to_def split: option.splits)

lemma earliest_to_le [simp]: "to_le (earliest_to a b) t \<longleftrightarrow> to_le a t \<and> to_le b t"
  by (auto simp: earliest_to_def split: option.splits)

lemma bounds_disjoint: "if_set2 f e (\<lambda>f t. \<not> f < t) \<Longrightarrow> from_ok f t \<Longrightarrow> \<not> to_ok e t"
  by (auto simp: if_set2_def split: option.splits)

text \<open>
  The second emptiness check of \<open>Intersection\<close> is implied by the first, since the later start
  and the earlier end are the tightest pair.
\<close>

lemma crossing_bounds:
  "if_set2 (op_From p) (op_To q) (\<lambda>f t. \<not> f < t) \<or> if_set2 (op_From q) (op_To p) (\<lambda>f t. \<not> f < t) \<Longrightarrow>
   if_set2 (latest_from (op_From p) (op_From q)) (earliest_to (op_To p) (op_To q)) (\<lambda>f t. \<not> f < t)"
  by (auto simp: if_set2_def latest_from_def earliest_to_def split: option.splits if_splits)

lemma OP_Intersection_alt:
  "OP_Intersection p q =
     (if if_set2 (latest_from (op_From p) (op_From q)) (earliest_to (op_To p) (op_To q)) (\<lambda>f t. \<not> f < t)
      then None
      else Some \<lparr>op_From = latest_from (op_From p) (op_From q), op_To = earliest_to (op_To p) (op_To q)\<rparr>)"
  using crossing_bounds [of p q]
  by (auto simp: OP_Intersection_def Let_def latest_from_def earliest_to_def)

lemma OP_Intersection_iff:
  "(case OP_Intersection p q of None \<Rightarrow> False | Some r \<Rightarrow> OP_Contains r t)
     \<longleftrightarrow> OP_Contains p t \<and> OP_Contains q t"
  using bounds_disjoint [of "latest_from (op_From p) (op_From q)" "earliest_to (op_To p) (op_To q)" t]
  by (auto simp: OP_Intersection_alt OP_Contains_alt)

lemma OP_Difference_iff:
  "(\<exists>r \<in> set (OP_Difference p q). OP_Contains r t) \<longleftrightarrow> OP_Contains p t \<and> \<not> OP_Contains q t"
proof (cases "OP_Intersection p q")
  case None
  then show ?thesis
    using OP_Intersection_iff [where p = p and q = q and t = t] by (auto simp: OP_Difference_def)
next
  case (Some i)
  then have i: "op_From i = latest_from (op_From p) (op_From q)"
      "op_To i = earliest_to (op_To p) (op_To q)"
    and ne: "\<not> if_set2 (op_From i) (op_To i) (\<lambda>f t. \<not> f < t)"
    by (auto simp: OP_Intersection_alt split: if_splits)
  show ?thesis
    using ne
    by (cases "op_From p"; cases "op_From q"; cases "op_To p"; cases "op_To q")
       (auto simp: OP_Difference_def Some OP_Contains_alt i latest_from_def earliest_to_def
         split: if_splits)
qed

lemma OP_Union_superset:
  "OP_Contains p t \<or> OP_Contains q t \<Longrightarrow> OP_Contains (OP_Union p q) t"
  by (auto simp: OP_Union_def OP_Contains_alt split: option.splits)

lemma OP_IsSupersetOf_contains:
  "OP_IsSupersetOf p q \<Longrightarrow> OP_Contains q t \<Longrightarrow> OP_Contains p t"
  by (auto simp: OP_IsSupersetOf_def OP_Contains_alt if_set_def from_ok_def to_ok_def
      split: if_splits option.splits)

lemma OP_Equals_iff [simp]: "OP_Equals p q \<longleftrightarrow> p = q"
  by (cases "op_From p"; cases "op_To p"; cases "op_From q"; cases "op_To q")
     (auto simp: OP_Equals_def intro: OpenPeriod.equality)

lemma valid_incl_nonempty:
  assumes "\<not> if_set2 f e (\<lambda>f t. t < f)"
  shows "\<exists>t. from_ok f t \<and> to_le e t"
proof (cases f)
  case None
  then show ?thesis by (cases e) auto
next
  case (Some a)
  then show ?thesis using assms by (intro exI [of _ a]) (cases e; auto)
qed

lemma OP_OverlapsInclusive_alt:
  assumes "OP_Validate p = None" and "OP_Validate q = None"
  shows "OP_OverlapsInclusive p q \<longleftrightarrow>
    \<not> if_set2 (latest_from (op_From p) (op_From q)) (earliest_to (op_To p) (op_To q)) (\<lambda>f t. t < f)"
  using assms
  by (cases "op_From p"; cases "op_To p"; cases "op_From q"; cases "op_To q")
     (auto simp: OP_OverlapsInclusive_def OP_Intersection_alt OP_Validate_def latest_from_def
        earliest_to_def)

lemma OP_OverlapsInclusive_iff:
  assumes "OP_Validate p = None" and "OP_Validate q = None"
  shows "OP_OverlapsInclusive p q \<longleftrightarrow> (\<exists>t. OP_ContainsInclusive p t \<and> OP_ContainsInclusive q t)"
proof -
  let ?f = "latest_from (op_From p) (op_From q)" and ?e = "earliest_to (op_To p) (op_To q)"
  have "(\<exists>t. OP_ContainsInclusive p t \<and> OP_ContainsInclusive q t) \<longleftrightarrow> (\<exists>t. from_ok ?f t \<and> to_le ?e t)"
    by (auto simp: OP_ContainsInclusive_alt)
  also have "\<dots> \<longleftrightarrow> \<not> if_set2 ?f ?e (\<lambda>f t. t < f)"
    using valid_incl_nonempty by (cases ?f; cases ?e) fastforce+
  finally show ?thesis using OP_OverlapsInclusive_alt [OF assms] by simp
qed

section \<open>Properties\<close>

text \<open>
  Intersection and difference split an open period exactly: an instant of \<open>p\<close> is either in
  the intersection with \<open>q\<close> or in exactly the pieces of the difference, and nothing else is in
  either; missing bounds are unbounded.
\<close>

theorem OP_split:
  "(case OP_Intersection p q of None \<Rightarrow> False | Some r \<Rightarrow> OP_Contains r t)
     = (OP_Contains p t \<and> OP_Contains q t) \<and>
   (\<exists>r \<in> set (OP_Difference p q). OP_Contains r t) = (OP_Contains p t \<and> \<not> OP_Contains q t)"
  by (rule conjI [OF OP_Intersection_iff OP_Difference_iff])

text \<open>
  \<open>OverlapsInclusive\<close> on two valid open periods decides whether some instant is in both, both
  bounds counted as inside.
\<close>

theorem OP_OverlapsInclusive_common:
  assumes "OP_Validate p = None" and "OP_Validate q = None"
  shows "OP_OverlapsInclusive p q = (\<exists>t. OP_ContainsInclusive p t \<and> OP_ContainsInclusive q t)"
  using OP_OverlapsInclusive_iff [OF assms] .

theorem OP_OverlapsInclusive_common_witness:
  "OP_OverlapsInclusive \<lparr>op_From = Some 1, op_To = Some 5\<rparr> \<lparr>op_From = Some 5, op_To = None\<rparr> =
    (\<exists>t. OP_ContainsInclusive \<lparr>op_From = Some 1, op_To = Some 5\<rparr> t \<and>
         OP_ContainsInclusive \<lparr>op_From = Some 5, op_To = None\<rparr> t)"
  by (rule OP_OverlapsInclusive_common) (simp_all add: OP_Validate_def if_set2_def)

end
