(* ===== verification/Timeline.thy ===== *)
theory Timeline
  imports Timeutil
begin

text \<open>
  \<open>pkg/timeutil/timeline.go\<close>: values paired with the function that reads their instant, kept
  sorted, and the periods between neighbouring instants. The binary search is Go's
  \<open>sort.Search\<close>.
\<close>

section \<open>Timed values and timelines\<close>

record 'a Timed =
  td_val :: 'a
  td_fn :: "'a \<Rightarrow> time"

definition GetTime :: "'a Timed \<Rightarrow> time" where
  "GetTime t = td_fn t (td_val t)"

definition GetValue :: "'a Timed \<Rightarrow> 'a" where
  "GetValue t = td_val t"

definition AsTimed :: "('a \<Rightarrow> time) \<Rightarrow> 'a \<Rightarrow> 'a Timed" where
  "AsTimed f = (\<lambda>v. \<lparr>td_val = v, td_fn = f\<rparr>)"

definition Timed_Equal :: "'a Timed \<Rightarrow> 'a Timed \<Rightarrow> bool" where
  "Timed_Equal a b = (if GetTime a \<noteq> GetTime b then False else GetValue a = GetValue b)"

record 'a Timeline =
  tl_times :: "'a Timed list"

definition compare_timed :: "'a Timed \<Rightarrow> 'a Timed \<Rightarrow> int" where
  "compare_timed a b = compare_values (GetTime a) (GetTime b)"

definition NewTimeline :: "'a Timed list \<Rightarrow> 'a Timeline" where
  "NewTimeline ts = \<lparr>tl_times = sort_by compare_timed ts\<rparr>"

definition NewSimpleTimeline :: "time list \<Rightarrow> time Timeline" where
  "NewSimpleTimeline ts = NewTimeline (map (AsTimed (\<lambda>t. t)) ts)"

definition TL_After :: "'a Timeline \<Rightarrow> time \<Rightarrow> 'a Timeline" where
  "TL_After t tm = NewTimeline (filter (\<lambda>x. tm < GetTime x) (tl_times t))"

definition TL_Before :: "'a Timeline \<Rightarrow> time \<Rightarrow> 'a Timeline" where
  "TL_Before t tm = NewTimeline (filter (\<lambda>x. GetTime x < tm) (tl_times t))"

definition GetTimes :: "'a Timeline \<Rightarrow> time list" where
  "GetTimes t = map GetTime (tl_times t)"

definition TL_Len :: "'a Timeline \<Rightarrow> nat" where
  "TL_Len t = length (tl_times t)"

text \<open>
  \<open>sort.Search(n, f)\<close> looks for the smallest index at which \<open>f\<close> holds, halving the range.
\<close>

function sort_Search_loop :: "(nat \<Rightarrow> bool) \<Rightarrow> nat \<Rightarrow> nat \<Rightarrow> nat" where
  "sort_Search_loop f i j =
     (if i < j then
        let h = (i + j) div 2
        in if \<not> f h then sort_Search_loop f (h + 1) j else sort_Search_loop f i h
      else i)"
  by pat_completeness auto
termination
  by (relation "measure (\<lambda>(f, i, j). j - i)") auto

declare sort_Search_loop.simps [simp del]

definition sort_Search :: "nat \<Rightarrow> (nat \<Rightarrow> bool) \<Rightarrow> nat" where
  "sort_Search n f = sort_Search_loop f 0 n"

definition LastIndexNotAfter :: "'a Timeline \<Rightarrow> time \<Rightarrow> int" where
  "LastIndexNotAfter t tm =
     int (sort_Search (length (tl_times t)) (\<lambda>i. tm < GetTime (tl_times t ! i))) - 1"

text \<open>\<open>t.times[idx]\<close>: an index out of range panics.\<close>

definition GetAt :: "'a Timeline \<Rightarrow> int \<Rightarrow> 'a Timed option" where
  "GetAt t idx =
     (if 0 \<le> idx \<and> idx < int (length (tl_times t)) then Some (tl_times t ! nat idx) else None)"

definition GetBoundingPeriod :: "'a Timeline \<Rightarrow> ClosedPeriod" where
  "GetBoundingPeriod t =
     (if tl_times t = [] then \<lparr>cp_From = 0, cp_To = 0\<rparr>
      else \<lparr>cp_From = GetTime (hd (tl_times t)), cp_To = GetTime (last (tl_times t))\<rparr>)"

fun periods_between :: "time list \<Rightarrow> ClosedPeriod list" where
  "periods_between (a # b # ts) = \<lparr>cp_From = a, cp_To = b\<rparr> # periods_between (b # ts)"
| "periods_between _ = []"

definition GetClosedPeriods :: "'a Timeline \<Rightarrow> ClosedPeriod list" where
  "GetClosedPeriods t =
     (case GetTimes t of
        [] \<Rightarrow> []
      | [a] \<Rightarrow> [\<lparr>cp_From = a, cp_To = a\<rparr>]
      | ts \<Rightarrow> periods_between ts)"

definition GetOpenPeriods :: "'a Timeline \<Rightarrow> OpenPeriod list" where
  "GetOpenPeriods t =
     (case GetTimes t of
        [] \<Rightarrow> []
      | ts \<Rightarrow> [\<lparr>op_From = None, op_To = Some (hd ts)\<rparr>] @
              map CP_Open (periods_between ts) @
              [\<lparr>op_From = Some (last ts), op_To = None\<rparr>])"

section \<open>Order\<close>

interpretation timed_order: comparator compare_timed
  by unfold_locales (auto simp: compare_timed_def)

definition timeline_sorted :: "'a Timeline \<Rightarrow> bool" where
  "timeline_sorted t \<longleftrightarrow> sorted (GetTimes t)"

lemma NewTimeline_sorted: "timeline_sorted (NewTimeline ts)"
  using timed_order.sorted_sort_by [of ts]
  by (simp add: timeline_sorted_def NewTimeline_def GetTimes_def sorted_map compare_timed_def)

lemma NewTimeline_mset: "mset (tl_times (NewTimeline ts)) = mset ts"
  by (simp add: NewTimeline_def)

lemma filter_sorted_times:
  "sorted (map GetTime xs) \<Longrightarrow> sort_by compare_timed (filter P xs) = filter P xs"
  by (rule timed_order.sorted_idem)
     (simp add: compare_timed_def sorted_map sorted_wrt_filter)

lemma TL_After_times:
  "timeline_sorted t \<Longrightarrow> GetTimes (TL_After t tm) = filter (\<lambda>x. tm < x) (GetTimes t)"
  by (simp add: TL_After_def NewTimeline_def GetTimes_def timeline_sorted_def filter_sorted_times
      filter_map comp_def)

lemma TL_Before_times:
  "timeline_sorted t \<Longrightarrow> GetTimes (TL_Before t tm) = filter (\<lambda>x. x < tm) (GetTimes t)"
  by (simp add: TL_Before_def NewTimeline_def GetTimes_def timeline_sorted_def filter_sorted_times
      filter_map comp_def)

lemma NewSimpleTimeline_times: "mset (GetTimes (NewSimpleTimeline ts)) = mset ts"
proof -
  have "mset (GetTimes (NewSimpleTimeline ts)) = image_mset GetTime (mset (map (AsTimed (\<lambda>t. t)) ts))"
    by (simp only: GetTimes_def NewSimpleTimeline_def mset_map NewTimeline_mset)
  then show ?thesis
    by (simp add: GetTime_def AsTimed_def image_mset.compositionality comp_def)
qed

lemma NewSimpleTimeline_GetTimes: "GetTimes (NewSimpleTimeline ts) = sort ts"
  using NewTimeline_sorted [of "map (AsTimed (\<lambda>t. t)) ts"] NewSimpleTimeline_times [of ts]
  by (metis NewSimpleTimeline_def properties_for_sort timeline_sorted_def)

section \<open>Binary search\<close>

lemma sort_Search_loop_spec:
  assumes "i \<le> j" and "j \<le> n" and "\<forall>k < i. \<not> f k" and "\<forall>k. j \<le> k \<and> k < n \<longrightarrow> f k"
    and "\<forall>k l. f k \<and> k \<le> l \<and> l < n \<longrightarrow> f l"
  shows "(\<forall>k < sort_Search_loop f i j. \<not> f k) \<and>
         (\<forall>k. sort_Search_loop f i j \<le> k \<and> k < n \<longrightarrow> f k) \<and> sort_Search_loop f i j \<le> n"
  using assms
proof (induction f i j rule: sort_Search_loop.induct)
  case (1 f i j)
  let ?h = "(i + j) div 2"
  show ?case
  proof (cases "i < j")
    case True
    then have h: "i \<le> ?h" "?h < j" "?h < n" using "1.prems"(2) by auto
    show ?thesis
    proof (cases "f ?h")
      case fh: True
      have "\<forall>k. ?h \<le> k \<and> k < n \<longrightarrow> f k" using "1.prems"(5) fh by blast
      with fh h "1.prems"(3) have IH: "(\<forall>k < sort_Search_loop f i ?h. \<not> f k) \<and>
          (\<forall>k. sort_Search_loop f i ?h \<le> k \<and> k < n \<longrightarrow> f k) \<and> sort_Search_loop f i ?h \<le> n"
        by (intro "1.IH"(2) [OF True refl]) (use "1.prems"(5) in simp_all)
      have "sort_Search_loop f i j = sort_Search_loop f i ?h"
        using True fh by (subst sort_Search_loop.simps) (simp add: Let_def)
      then show ?thesis using IH by simp
    next
      case False
      have below: "\<forall>k < ?h + 1. \<not> f k"
      proof (intro allI impI notI)
        fix k assume "k < ?h + 1" and "f k"
        then have "k \<le> ?h" by simp
        with \<open>f k\<close> h(3) "1.prems"(5) have "f ?h" by blast
        with False show False ..
      qed
      with h "1.prems"(2,4) have IH: "(\<forall>k < sort_Search_loop f (?h + 1) j. \<not> f k) \<and>
          (\<forall>k. sort_Search_loop f (?h + 1) j \<le> k \<and> k < n \<longrightarrow> f k) \<and> sort_Search_loop f (?h + 1) j \<le> n"
        by (intro "1.IH"(1) [OF True refl False]) (use "1.prems"(5) in simp_all)
      have "sort_Search_loop f i j = sort_Search_loop f (?h + 1) j"
        using True False by (subst sort_Search_loop.simps) (simp add: Let_def)
      then show ?thesis using IH by simp
    qed
  next
    case False
    with "1.prems"(1) have "i = j" by simp
    moreover from False have "sort_Search_loop f i j = i"
      by (simp add: sort_Search_loop.simps [of f i j])
    ultimately show ?thesis using "1.prems"(2-4) by (metis not_le)
  qed
qed

lemma sort_Search_spec:
  assumes "\<forall>k l. f k \<and> k \<le> l \<and> l < n \<longrightarrow> f l"
  shows "sort_Search n f \<le> n" "\<forall>k < sort_Search n f. \<not> f k"
    and "\<forall>k. sort_Search n f \<le> k \<and> k < n \<longrightarrow> f k"
proof -
  have "(\<forall>k < sort_Search_loop f 0 n. \<not> f k) \<and>
      (\<forall>k. sort_Search_loop f 0 n \<le> k \<and> k < n \<longrightarrow> f k) \<and> sort_Search_loop f 0 n \<le> n"
    by (rule sort_Search_loop_spec [OF _ _ _ _ assms]) auto
  then show "sort_Search n f \<le> n" "\<forall>k < sort_Search n f. \<not> f k"
    and "\<forall>k. sort_Search n f \<le> k \<and> k < n \<longrightarrow> f k"
    unfolding sort_Search_def by blast+
qed

lemma GetTimes_nth: "i < length (tl_times t) \<Longrightarrow> GetTime (tl_times t ! i) = GetTimes t ! i"
  by (simp add: GetTimes_def)

lemma length_GetTimes [simp]: "length (GetTimes t) = length (tl_times t)"
  by (simp add: GetTimes_def)

text \<open>The index returned is the last one whose instant is not after the argument.\<close>

lemma LastIndexNotAfter_spec:
  assumes "timeline_sorted t"
  shows "-1 \<le> LastIndexNotAfter t tm" "LastIndexNotAfter t tm < int (TL_Len t)"
    and "\<forall>i < TL_Len t. GetTimes t ! i \<le> tm \<longleftrightarrow> int i \<le> LastIndexNotAfter t tm"
proof -
  let ?f = "\<lambda>i. tm < GetTime (tl_times t ! i)" and ?n = "length (tl_times t)"
  have "GetTimes t ! k \<le> GetTimes t ! l" if "k \<le> l" "l < ?n" for k l
    using assms that by (simp add: timeline_sorted_def sorted_nth_mono)
  then have mono': "\<forall>k l. ?f k \<and> k \<le> l \<and> l < ?n \<longrightarrow> ?f l"
    by (auto simp: GetTimes_nth) (metis GetTimes_nth order_less_le_trans order_le_less_trans)
  note sp = sort_Search_spec [OF mono']
  show "-1 \<le> LastIndexNotAfter t tm" "LastIndexNotAfter t tm < int (TL_Len t)"
    using sp(1) by (auto simp: LastIndexNotAfter_def TL_Len_def)
  show "\<forall>i < TL_Len t. GetTimes t ! i \<le> tm \<longleftrightarrow> int i \<le> LastIndexNotAfter t tm"
  proof (intro allI impI)
    fix i assume i: "i < TL_Len t"
    then have "GetTimes t ! i \<le> tm \<longleftrightarrow> \<not> ?f i"
      by (simp add: TL_Len_def GetTimes_nth not_less)
    also have "\<dots> \<longleftrightarrow> i < sort_Search ?n ?f"
      using sp(2,3) i unfolding TL_Len_def by (meson not_le)
    finally show "GetTimes t ! i \<le> tm \<longleftrightarrow> int i \<le> LastIndexNotAfter t tm"
      by (auto simp: LastIndexNotAfter_def)
  qed
qed

section \<open>Periods between instants\<close>

text \<open>A chain of periods, each starting where the one before ends.\<close>

fun contiguous :: "ClosedPeriod list \<Rightarrow> bool" where
  "contiguous (p # q # ps) \<longleftrightarrow> cp_To p = cp_From q \<and> contiguous (q # ps)"
| "contiguous _ \<longleftrightarrow> True"

lemma contiguous_append:
  "contiguous (xs @ ys) \<longleftrightarrow> contiguous xs \<and> contiguous ys \<and>
     (xs \<noteq> [] \<and> ys \<noteq> [] \<longrightarrow> cp_To (last xs) = cp_From (hd ys))"
proof (induction xs)
  case (Cons p ps)
  then show ?case by (cases ps; cases ys) auto
qed simp

lemma periods_between_Nil [simp]: "periods_between ts = [] \<longleftrightarrow> length ts \<le> 1"
  by (induction ts rule: periods_between.induct) auto

lemma periods_between_contiguous: "contiguous (periods_between ts)"
proof (induction ts rule: periods_between.induct)
  case (1 a b ts)
  then show ?case by (cases ts) auto
qed auto

lemma periods_between_ends:
  "2 \<le> length ts \<Longrightarrow>
     cp_From (hd (periods_between ts)) = hd ts \<and> cp_To (last (periods_between ts)) = last ts"
proof (induction ts rule: periods_between.induct)
  case (1 a b ts)
  then show ?case by (cases ts) auto
qed auto

lemma periods_between_ordered:
  "sorted ts \<Longrightarrow> p \<in> set (periods_between ts) \<Longrightarrow> cp_From p \<le> cp_To p"
  by (induction ts rule: periods_between.induct) auto

lemma length_periods_between: "length (periods_between ts) = length ts - 1"
  by (induction ts rule: periods_between.induct) auto

lemma GetClosedPeriods_ne: "GetTimes t \<noteq> [] \<Longrightarrow> GetClosedPeriods t \<noteq> []"
  by (auto simp: GetClosedPeriods_def split: list.splits)

lemma GetClosedPeriods_cases:
  "GetTimes t = [] \<and> GetClosedPeriods t = [] \<or>
   (\<exists>a. GetTimes t = [a] \<and> GetClosedPeriods t = [\<lparr>cp_From = a, cp_To = a\<rparr>]) \<or>
   2 \<le> length (GetTimes t) \<and> GetClosedPeriods t = periods_between (GetTimes t)"
  by (auto simp: GetClosedPeriods_def simp del: length_GetTimes split: list.splits)

lemma GetBoundingPeriod_ends:
  assumes "GetTimes t \<noteq> []"
  shows "cp_From (GetBoundingPeriod t) = hd (GetTimes t)" "cp_To (GetBoundingPeriod t) = last (GetTimes t)"
  using assms by (simp_all add: GetBoundingPeriod_def GetTimes_def hd_map last_map)

text \<open>The closed periods of a timeline tile its bounding period.\<close>

lemma GetClosedPeriods_tile:
  assumes "timeline_sorted t" and "GetTimes t \<noteq> []"
  shows "contiguous (GetClosedPeriods t)"
    and "cp_From (hd (GetClosedPeriods t)) = cp_From (GetBoundingPeriod t)"
    and "cp_To (last (GetClosedPeriods t)) = cp_To (GetBoundingPeriod t)"
    and "\<forall>p \<in> set (GetClosedPeriods t). cp_From p \<le> cp_To p"
proof -
  note b = GetBoundingPeriod_ends [OF assms(2)]
  from GetClosedPeriods_cases [of t] assms b
  show "contiguous (GetClosedPeriods t)"
    and "cp_From (hd (GetClosedPeriods t)) = cp_From (GetBoundingPeriod t)"
    and "cp_To (last (GetClosedPeriods t)) = cp_To (GetBoundingPeriod t)"
    and "\<forall>p \<in> set (GetClosedPeriods t). cp_From p \<le> cp_To p"
    by (auto simp: periods_between_contiguous periods_between_ends timeline_sorted_def
        dest: periods_between_ordered)
qed

section \<open>Properties\<close>

lemma sorted_ends:
  fixes xs :: "time list"
  assumes "sorted xs" and "xs \<noteq> []"
  shows "hd xs = Min (set xs)" "last xs = Max (set xs)"
proof -
  have "\<forall>x \<in> set xs. hd xs \<le> x" using assms by (cases xs) auto
  then show "hd xs = Min (set xs)" using assms(2) by (intro Min_eqI [symmetric]) auto
  have "\<forall>x \<in> set xs. x \<le> last xs"
    using assms by (induction xs) (auto split: if_splits)
  then show "last xs = Max (set xs)" using assms(2) by (intro Max_eqI [symmetric]) auto
qed

text \<open>
  The periods \<open>GetClosedPeriods\<close> cuts out of a set of instants tile the bounding period: each
  starts where the one before ends, the first starts at the earliest instant, the last ends at
  the latest, and none runs backwards, whatever the order the instants were given in.
\<close>

theorem closed_periods_tile:
  assumes "ts \<noteq> []"
  shows "contiguous (GetClosedPeriods (NewSimpleTimeline ts)) \<and>
    cp_From (hd (GetClosedPeriods (NewSimpleTimeline ts))) = Min (set ts) \<and>
    cp_To (last (GetClosedPeriods (NewSimpleTimeline ts))) = Max (set ts) \<and>
    (\<forall>p \<in> set (GetClosedPeriods (NewSimpleTimeline ts)). cp_From p \<le> cp_To p)"
proof -
  let ?t = "NewSimpleTimeline ts"
  have g: "GetTimes ?t = sort ts" by (rule NewSimpleTimeline_GetTimes)
  have ne: "GetTimes ?t \<noteq> []" using assms g by (metis length_0_conv length_sort)
  note b = GetBoundingPeriod_ends [OF ne, unfolded g]
  have ts: "sort ts \<noteq> []" using ne g by simp
  have "hd (sort ts) = Min (set ts)" "last (sort ts) = Max (set ts)"
    using sorted_ends [OF _ ts] by simp_all
  moreover have "timeline_sorted ?t" unfolding NewSimpleTimeline_def by (rule NewTimeline_sorted)
  ultimately show ?thesis using GetClosedPeriods_tile [OF _ ne] b by simp
qed

theorem closed_periods_tile_witness:
  "contiguous (GetClosedPeriods (NewSimpleTimeline [5, 2, 9])) \<and>
   cp_From (hd (GetClosedPeriods (NewSimpleTimeline [5, 2, 9]))) = 2 \<and>
   cp_To (last (GetClosedPeriods (NewSimpleTimeline [5, 2, 9]))) = 9"
  using closed_periods_tile [of "[5, 2, 9]"] by simp

text \<open>
  \<open>LastIndexNotAfter\<close>, a binary search, returns on every timeline built by \<open>NewTimeline\<close>
  the index that separates the instants not after the argument from those after it; it is -1 if
  all are after.
\<close>

theorem LastIndexNotAfter_separates:
  "i < TL_Len (NewTimeline ts) \<Longrightarrow>
    (GetTime (tl_times (NewTimeline ts) ! i) \<le> tm) = (int i \<le> LastIndexNotAfter (NewTimeline ts) tm)"
  using LastIndexNotAfter_spec(3) [OF NewTimeline_sorted, of ts tm]
  by (simp add: GetTimes_nth TL_Len_def)

theorem LastIndexNotAfter_separates_witness:
  "(GetTime (tl_times (NewTimeline (map (AsTimed id) [4, 1])) ! 1) \<le> 3) =
    (int 1 \<le> LastIndexNotAfter (NewTimeline (map (AsTimed id) [4, 1])) 3)"
  by (rule LastIndexNotAfter_separates) (simp add: TL_Len_def NewTimeline_def)

end
