(* ===== verification/Datetime.thy ===== *)
theory Datetime
  imports Prelude
begin

text \<open>
  \<open>pkg/datetime\<close>: adding an ISO 8601 duration to an instant without overflowing months
  (datetime.go), on the proleptic Gregorian calendar that \<open>time.Date\<close> and \<open>Time.Date\<close>
  read in UTC. A \<open>period.Period\<close> (github.com/rickb777/period) is the record of what its
  accessors return; its own operations, multiplication and sign, are parameters.
\<close>

section \<open>The calendar of package time\<close>

text \<open>
  Days are counted from January 1 of year 1. Inside the computation a year starts on March 1, so
  that the leap day is its last day: \<open>march_days y\<close> is the number of days from March 1 of
  year 0 to March 1 of year \<open>y\<close>, and \<open>march_months\<close> the days of the months before the
  \<open>mp\<close>-th month counted from March.
\<close>

definition march_days :: "int \<Rightarrow> int" where
  "march_days y = 365 * y + y div 4 - y div 100 + y div 400"

definition march_months :: "int \<Rightarrow> int" where
  "march_months mp = (153 * mp + 2) div 5"

definition days_from_civil :: "int \<Rightarrow> int \<Rightarrow> int \<Rightarrow> int" where
  "days_from_civil y m d =
     (if m > 2 then march_days y + march_months (m - 3)
      else march_days (y - 1) + march_months (m + 9)) + (d - 1) - 306"

definition march_year :: "int \<Rightarrow> int" where
  "march_year z =
     (let y0 = (400 * z) div 146097 in if march_days (y0 + 1) \<le> z then y0 + 1 else y0)"

definition civil_from_days :: "int \<Rightarrow> int \<times> int \<times> int" where
  "civil_from_days n =
     (let z = n + 306;
          y = march_year z;
          doy = z - march_days y;
          mp = (5 * doy + 2) div 153;
          d = doy - march_months mp + 1
      in if mp < 10 then (y, mp + 3, d) else (y + 1, mp - 9, d))"

text \<open>\<open>t.Date()\<close> and the time of day, \<open>t.Clock()\<close> with \<open>t.Nanosecond()\<close>.\<close>

definition time_civil :: "time \<Rightarrow> int \<times> int \<times> int" where
  "time_civil t = civil_from_days (t div nsDay)"

definition time_clock :: "time \<Rightarrow> int" where
  "time_clock t = t mod nsDay"

text \<open>\<open>time.Date\<close> normalises the month into the year, then the day of the month into the date.\<close>

definition time_Date :: "int \<Rightarrow> int \<Rightarrow> int \<Rightarrow> int \<Rightarrow> time" where
  "time_Date y m d clock =
     (days_from_civil (y + (m - 1) div 12) ((m - 1) mod 12 + 1) 1 + (d - 1)) * nsDay + clock"

definition time_AddDate :: "time \<Rightarrow> int \<Rightarrow> int \<Rightarrow> int \<Rightarrow> time" where
  "time_AddDate t years months days =
     (case time_civil t of (y, m, d) \<Rightarrow> time_Date (y + years) (m + months) (d + days) (time_clock t))"

lemma days_from_civil_day: "days_from_civil y m d = days_from_civil y m 1 + (d - 1)"
  by (simp add: days_from_civil_def Let_def)

lemma march_days_step_bounds:
  "march_days y + 364 \<le> march_days (y + 1)" "march_days (y + 1) \<le> march_days y + 367"
proof -
  have d: "y div 4 \<le> (y + 1) div 4" "(y + 1) div 4 \<le> y div 4 + 1"
    "y div 100 \<le> (y + 1) div 100" "(y + 1) div 100 \<le> y div 100 + 1"
    "y div 400 \<le> (y + 1) div 400" "(y + 1) div 400 \<le> y div 400 + 1"
    by linarith+
  show "march_days y + 364 \<le> march_days (y + 1)"
    using d(1,4,5) by (simp add: march_days_def del: div_add_self1 div_add_self2)
  show "march_days (y + 1) \<le> march_days y + 367"
    using d(2,3,6) by (simp add: march_days_def del: div_add_self1 div_add_self2)
qed

lemma march_days_mono: "x \<le> y \<Longrightarrow> march_days x \<le> march_days y"
proof (induction y rule: int_ge_induct)
  case (step i)
  then show ?case using march_days_step_bounds(1) [of i] by linarith
qed simp

lemma march_days_bounds:
  "400 * march_days y < 146097 * y + 400" "146097 * y - 700 < 400 * march_days y"
proof -
  have d: "4 * (y div 4) \<le> y" "y < 4 * (y div 4) + 4" "100 * (y div 100) \<le> y"
    "y < 100 * (y div 100) + 100" "400 * (y div 400) \<le> y" "y < 400 * (y div 400) + 400"
    by linarith+
  have e: "400 * march_days y = 146000 * y + 400 * (y div 4) - 400 * (y div 100) + 400 * (y div 400)"
    by (simp add: march_days_def algebra_simps)
  have "146000 * y + 400 * a - 400 * b + 400 * c < 146097 * y + 400"
    "146097 * y - 700 < 146000 * y + 400 * a - 400 * b + 400 * c"
    if "4 * a \<le> y" "y < 4 * a + 4" "100 * b \<le> y" "y < 100 * b + 100" "400 * c \<le> y"
      "y < 400 * c + 400" for a b c :: int
    using that by linarith+
  from this [OF d] show "400 * march_days y < 146097 * y + 400" "146097 * y - 700 < 400 * march_days y"
    by (simp_all only: e)
qed

lemma march_year_bounds: "march_days (march_year z) \<le> z" "z < march_days (march_year z + 1)"
proof -
  let ?y = "(400 * z) div 146097"
  have y: "146097 * ?y \<le> 400 * z" "400 * z < 146097 * ?y + 146097" by linarith+
  have lo: "march_days ?y \<le> z" using march_days_bounds(1) [of ?y] y(1) by linarith
  have "z < march_days (a + 2)" if "400 * z < 146097 * a + 146097" for a
    using march_days_bounds(2) [of "a + 2"] that by (simp add: algebra_simps)
  from this [OF y(2)] have hi: "z < march_days (?y + 2)" .
  show "march_days (march_year z) \<le> z" using lo by (simp add: march_year_def Let_def)
  show "z < march_days (march_year z + 1)"
    using hi by (auto simp: march_year_def Let_def add.assoc)
qed

lemma march_year_unique:
  assumes "march_days y \<le> z" and "z < march_days (y + 1)"
  shows "march_year z = y"
proof -
  let ?m = "march_year z"
  have "\<not> y < ?m" using march_days_mono [of "y + 1" ?m] march_year_bounds(1) [of z] assms by auto
  moreover have "\<not> ?m < y"
    using march_days_mono [of "?m + 1" y] march_year_bounds(2) [of z] assms by auto
  ultimately show ?thesis by simp
qed

lemma civil_fields:
  assumes "civil_from_days n = (y, m, d)"
  shows "1 \<le> m" "m \<le> 12" "1 \<le> d" "d \<le> 31" "days_from_civil y m d = n"
proof -
  let ?z = "n + 306" and ?y = "march_year (n + 306)"
  let ?doy = "?z - march_days ?y"
  let ?mp = "(5 * ?doy + 2) div 153"
  have doy: "0 \<le> ?doy" "?doy \<le> 366"
    using march_year_bounds [of ?z] march_days_step_bounds(2) [of ?y] by linarith+
  have mp: "0 \<le> (5 * x + 2) div 153 \<and> (5 * x + 2) div 153 \<le> 11"
    if "0 \<le> x" "x \<le> 366" for x :: int using that by linarith
  note mp = mp [OF doy]
  have d: "d = ?doy - march_months ?mp + 1"
    and ym: "(y, m) = (if ?mp < 10 then (?y, ?mp + 3) else (?y + 1, ?mp - 9))"
    using assms by (auto simp: civil_from_days_def Let_def split: if_splits)
  have dd: "(153 * ((5 * x + 2) div 153) + 2) div 5 \<le> x \<and> x - (153 * ((5 * x + 2) div 153) + 2) div 5 \<le> 30"
    if "0 \<le> x" "x \<le> 366" for x :: int using that by linarith
  show "1 \<le> m" "m \<le> 12" using ym mp by (auto split: if_splits)
  show "1 \<le> d" "d \<le> 31" unfolding d march_months_def using dd [OF doy] by simp_all
  show "days_from_civil y m d = n"
    using ym mp d by (auto simp: days_from_civil_def split: if_splits)
qed


text \<open>
  The first day of the month after \<open>(y, m)\<close>, and the converse reading: a day inside a month
  has that year, that month and its offset as its date.
\<close>

definition next_month :: "int \<Rightarrow> int \<Rightarrow> int" where
  "next_month y m = days_from_civil (y + m div 12) (m mod 12 + 1) 1"

lemma next_month_march:
  assumes "0 \<le> mp" and "mp \<le> 11" and "(y, m) = (if mp < 10 then (Y, mp + 3) else (Y + 1, mp - 9))"
  shows "next_month y m = (if mp < 11 then march_days Y + march_months (mp + 1) else march_days (Y + 1)) - 306"
proof -
  consider "mp \<le> 8" | "mp = 9" | "mp = 10" | "mp = 11" using assms(2) by linarith
  then show ?thesis
    using assms by cases (auto simp: next_month_def days_from_civil_def march_months_def)
qed

lemma civil_before_next:
  assumes "civil_from_days n = (y, m, d)"
  shows "n < next_month y m"
proof -
  let ?z = "n + 306" and ?y = "march_year (n + 306)"
  let ?doy = "?z - march_days ?y"
  let ?mp = "(5 * ?doy + 2) div 153"
  have doy: "0 \<le> ?doy" "?doy \<le> 366" and z: "?z < march_days (?y + 1)"
    using march_year_bounds [of ?z] march_days_step_bounds(2) [of ?y] by linarith+
  have mp: "0 \<le> (5 * x + 2) div 153 \<and> (5 * x + 2) div 153 \<le> 11 \<and>
      x < (153 * ((5 * x + 2) div 153 + 1) + 2) div 5"
    if "0 \<le> x" "x \<le> 366" for x :: int
  proof -
    have "5 * x + 2 < 153 * ((5 * x + 2) div 153) + 153" by linarith
    then have "x < (153 * q + 155) div 5" if "q = (5 * x + 2) div 153" for q using that by linarith
    moreover have "0 \<le> (5 * x + 2) div 153 \<and> (5 * x + 2) div 153 \<le> 11" using that by linarith
    ultimately show ?thesis by (simp add: algebra_simps)
  qed
  note mp = mp [OF doy]
  have ym: "(y, m) = (if ?mp < 10 then (?y, ?mp + 3) else (?y + 1, ?mp - 9))"
    using assms by (auto simp: civil_from_days_def Let_def split: if_splits)
  have "next_month y m =
      (if ?mp < 11 then march_days ?y + march_months (?mp + 1) else march_days (?y + 1)) - 306"
    by (rule next_month_march) (use mp ym in auto)
  then show ?thesis using mp z by (auto simp: march_months_def)
qed

lemma civil_of_days:
  assumes "1 \<le> m" "m \<le> 12" "1 \<le> d" and lt: "days_from_civil y m d < next_month y m"
  shows "civil_from_days (days_from_civil y m d) = (y, m, d)"
proof -
  let ?Y = "if m > 2 then y else y - 1" and ?mp = "if m > 2 then m - 3 else m + 9"
  have mp: "0 \<le> ?mp" "?mp \<le> 11" using assms by auto
  have ym: "(y, m) = (if ?mp < 10 then (?Y, ?mp + 3) else (?Y + 1, ?mp - 9))" using assms by auto
  let ?doy = "march_months ?mp + (d - 1)"
  have z: "days_from_civil y m d + 306 = march_days ?Y + ?doy" by (simp add: days_from_civil_def)
  have nm: "next_month y m + 306 =
      (if ?mp < 11 then march_days ?Y + march_months (?mp + 1) else march_days (?Y + 1))"
    using next_month_march [OF mp ym] by simp
  have doy_lt: "?doy < (if ?mp < 11 then march_months (?mp + 1) else 367)"
    using lt z nm march_days_step_bounds(2) [of ?Y] by (auto split: if_splits)
  have key: "(5 * (march_months p + e) + 2) div 153 = p"
    if "0 \<le> p" "p < 11" "0 \<le> e" "march_months p + e < march_months (p + 1)" for p e
  proof -
    from that(1,2) have "p = 0 \<or> p = 1 \<or> p = 2 \<or> p = 3 \<or> p = 4 \<or> p = 5 \<or> p = 6 \<or> p = 7 \<or>
        p = 8 \<or> p = 9 \<or> p = 10" by arith
    then show ?thesis using that(3,4) unfolding march_months_def by (elim disjE) simp_all
  qed
  have key11: "(5 * (march_months 11 + e) + 2) div 153 = 11" if "0 \<le> e" "march_months 11 + e < 367" for e
    using that unfolding march_months_def by simp
  have mpd: "(5 * ?doy + 2) div 153 = ?mp"
  proof (cases "?mp < 11")
    case True
    then show ?thesis using key [of ?mp "d - 1"] mp assms(3) doy_lt by simp
  next
    case False
    then have "?mp = 11" using mp by linarith
    then show ?thesis using key11 [of "d - 1"] assms(3) doy_lt by simp
  qed
  have lo: "0 \<le> ?doy" using mp assms(3) by (simp add: march_months_def)
  have hi: "march_days ?Y + ?doy < march_days (?Y + 1)"
  proof (cases "?mp < 11")
    case True
    then have "march_months (?mp + 1) \<le> 337" using mp by (simp add: march_months_def)
    then show ?thesis using True doy_lt march_days_step_bounds(1) [of ?Y] by simp
  next
    case False
    then show ?thesis using lt z nm by simp
  qed
  have my: "march_year (days_from_civil y m d + 306) = ?Y"
    unfolding z by (rule march_year_unique) (use lo hi in simp_all)
  have doyz: "days_from_civil y m d + 306 - march_days ?Y = ?doy" using z by linarith
  have "civil_from_days (days_from_civil y m d) =
      (if ?mp < 10 then (?Y, ?mp + 3, ?doy - march_months ?mp + 1)
       else (?Y + 1, ?mp - 9, ?doy - march_months ?mp + 1))"
    unfolding civil_from_days_def Let_def my doyz mpd by (rule refl)
  then show ?thesis using ym by (auto split: if_splits)
qed

lemma time_Date_civil:
  assumes "time_civil t = (y, m, d)"
  shows "time_Date y m (d + n) (time_clock t) = t + n * nsDay"
proof -
  from assms have c: "civil_from_days (t div nsDay) = (y, m, d)" by (simp add: time_civil_def)
  note f = civil_fields [OF c]
  have m: "(m - 1) div 12 = 0" "(m - 1) mod 12 + 1 = m" using f(1,2) by simp_all
  have "days_from_civil y m 1 + (d + n - 1) = t div nsDay + n"
    using f(5) by (simp add: days_from_civil_def)
  then have "time_Date y m (d + n) (time_clock t) = (t div nsDay + n) * nsDay + t mod nsDay"
    by (simp add: time_Date_def m time_clock_def)
  then show ?thesis by (simp add: distrib_right)
qed

lemma time_AddDate_days: "time_AddDate t 0 0 n = t + n * nsDay"
proof (cases "time_civil t")
  case (fields y m d)
  then show ?thesis using time_Date_civil [OF fields, of n] by (simp add: time_AddDate_def)
qed

section \<open>Durations (duration.go)\<close>

record ISODuration =
  iso_Years :: int
  iso_Months :: int
  iso_Weeks :: int
  iso_Days :: int
  iso_Hours :: int
  iso_Minutes :: int
  iso_Seconds :: rat

text \<open>
  What the code calls of the period library: \<open>Period.Mul\<close>, which may fail, and \<open>Period.Sign\<close>.
\<close>

record period_lib =
  pl_Mul :: "int \<Rightarrow> ISODuration \<Rightarrow> ISODuration result"
  pl_Sign :: "ISODuration \<Rightarrow> int"

definition ISO_Mul :: "period_lib \<Rightarrow> ISODuration \<Rightarrow> int \<Rightarrow> ISODuration result" where
  "ISO_Mul P d n = pl_Mul P n d"

text \<open>
  The documented multiplication, field by field, and sign, for concrete instances.
\<close>

definition std_Mul :: "int \<Rightarrow> ISODuration \<Rightarrow> ISODuration result" where
  "std_Mul n d = Inr \<lparr>iso_Years = n * iso_Years d, iso_Months = n * iso_Months d,
     iso_Weeks = n * iso_Weeks d, iso_Days = n * iso_Days d, iso_Hours = n * iso_Hours d,
     iso_Minutes = n * iso_Minutes d, iso_Seconds = of_int n * iso_Seconds d\<rparr>"

definition std_period_lib :: period_lib where
  "std_period_lib = \<lparr>pl_Mul = std_Mul,
     pl_Sign = (\<lambda>d. if d = \<lparr>iso_Years = 0, iso_Months = 0, iso_Weeks = 0, iso_Days = 0, iso_Hours = 0,
                       iso_Minutes = 0, iso_Seconds = 0\<rparr> then 0
                     else if iso_Years d < 0 \<or> iso_Months d < 0 \<or> iso_Weeks d < 0 \<or> iso_Days d < 0 \<or>
                       iso_Hours d < 0 \<or> iso_Minutes d < 0 \<or> iso_Seconds d < 0 then -1 else 1)\<rparr>"

section \<open>Adding a duration to an instant (datetime.go)\<close>

text \<open>
  \<open>shiftClockTo\<close> moves by the difference to the target, a saturating \<open>time.Duration\<close>.
\<close>

definition shiftClockTo :: "time \<Rightarrow> time \<Rightarrow> time" where
  "shiftClockTo d t = d + time_Sub t d"

definition AddYearsNoOverflow :: "int \<Rightarrow> time \<Rightarrow> time" where
  "AddYearsNoOverflow years t =
     (case time_civil t of (year, month, day) \<Rightarrow>
        (case time_civil (time_Date (year + years) (month + 1) 0 (time_clock t)) of
           (lastYear, lastMonth, lastDay) \<Rightarrow>
             let day' = (if lastDay < day then lastDay else day)
             in shiftClockTo t (time_Date lastYear lastMonth day' (time_clock t))))"

definition AddMonthsNoOverflow :: "int \<Rightarrow> time \<Rightarrow> time" where
  "AddMonthsNoOverflow months t =
     (case time_civil t of (year, month, day) \<Rightarrow>
        (case time_civil (time_Date year (month + (months + 1)) 0 (time_clock t)) of
           (lastYear, lastMonth, lastDay) \<Rightarrow>
             let day' = (if lastDay < day then lastDay else day)
             in shiftClockTo t (time_Date lastYear lastMonth day' (time_clock t))))"

definition AddWeeks :: "int \<Rightarrow> time \<Rightarrow> time" where
  "AddWeeks weeks t = shiftClockTo t (time_AddDate t 0 0 (weeks * 7))"

definition AddDays :: "int \<Rightarrow> time \<Rightarrow> time" where
  "AddDays days t = shiftClockTo t (time_AddDate t 0 0 days)"

definition AddHours :: "int \<Rightarrow> time \<Rightarrow> time" where
  "AddHours hours t = shiftClockTo t (t + wrap64 (hours * nsHour))"

definition AddMinutes :: "int \<Rightarrow> time \<Rightarrow> time" where
  "AddMinutes minutes t = shiftClockTo t (t + wrap64 (minutes * nsMinute))"

text \<open>\<open>BigInt()\<close> keeps the integer part of a decimal; \<open>Int64()\<close> its low 64 bits.\<close>

definition integer_part :: "rat \<Rightarrow> int" where
  "integer_part x = (if x < 0 then \<lceil>x\<rceil> else \<lfloor>x\<rfloor>)"

definition AddSeconds :: "rat \<Rightarrow> time \<Rightarrow> time" where
  "AddSeconds seconds t =
     (let nano = wrap64 (integer_part (seconds * of_int nsSecond))
      in shiftClockTo t (t + nano))"

definition AddDateNoOverflow :: "int \<Rightarrow> int \<Rightarrow> int \<Rightarrow> time \<Rightarrow> time" where
  "AddDateNoOverflow years months days t =
     AddDays days (AddMonthsNoOverflow months (AddYearsNoOverflow years t))"

definition DateTime_Add :: "ISODuration \<Rightarrow> time \<Rightarrow> time" where
  "DateTime_Add d t =
     AddSeconds (iso_Seconds d)
       (AddMinutes (iso_Minutes d)
         (AddHours (iso_Hours d)
           (AddDays (iso_Days d)
             (AddWeeks (iso_Weeks d)
               (AddMonthsNoOverflow (iso_Months d)
                 (AddYearsNoOverflow (iso_Years d) t))))))"

definition AddTo :: "ISODuration \<Rightarrow> time \<Rightarrow> time \<times> bool" where
  "AddTo d t = (DateTime_Add d t, True)"

section \<open>Facts about the additions\<close>

text \<open>A shift is exact as long as the difference fits a \<open>time.Duration\<close>.\<close>

lemma shiftClockTo_id: "\<bar>t - d\<bar> < 2 ^ 63 \<Longrightarrow> shiftClockTo d t = t"
  by (simp add: shiftClockTo_def time_Sub_def sat64_id)

lemma shiftClockTo_bounds: "\<bar>shiftClockTo d t - d\<bar> \<le> 2 ^ 63"
  by (simp add: shiftClockTo_def time_Sub_def sat64_def min_def max_def) linarith

lemma AddDays_eq: "\<bar>n * nsDay\<bar> < 2 ^ 63 \<Longrightarrow> AddDays n t = t + n * nsDay"
  by (simp add: AddDays_def time_AddDate_days shiftClockTo_id)

lemma AddWeeks_eq: "\<bar>n * 7 * nsDay\<bar> < 2 ^ 63 \<Longrightarrow> AddWeeks n t = t + n * 7 * nsDay"
  by (simp add: AddWeeks_def time_AddDate_days shiftClockTo_id)

lemma AddHours_eq: "\<bar>n * nsHour\<bar> < 2 ^ 63 \<Longrightarrow> AddHours n t = t + n * nsHour"
  by (simp add: AddHours_def wrap64_id shiftClockTo_id)

lemma AddMinutes_eq: "\<bar>n * nsMinute\<bar> < 2 ^ 63 \<Longrightarrow> AddMinutes n t = t + n * nsMinute"
  by (simp add: AddMinutes_def wrap64_id shiftClockTo_id)

lemma AddSeconds_0 [simp]: "AddSeconds 0 t = t"
  by (simp add: AddSeconds_def integer_part_def wrap64_def shiftClockTo_id)

text \<open>Adding no months is the identity: the day always exists in its own month.\<close>

lemma next_month_normal: "1 \<le> m \<Longrightarrow> m \<le> 12 \<Longrightarrow>
    time_Date y (m + 1) 0 clock = (next_month y m - 1) * nsDay + clock"
  by (simp add: time_Date_def next_month_def)

lemma time_clock_bounds: "0 \<le> time_clock t" "time_clock t < nsDay"
  by (simp_all add: time_clock_def nsDay_def)

lemma time_civil_days: "0 \<le> c \<Longrightarrow> c < nsDay \<Longrightarrow> time_civil (n * nsDay + c) = civil_from_days n"
  by (simp add: time_civil_def nsDay_def)

lemma last_day_of_month:
  assumes "1 \<le> m" "m \<le> 12"
  shows "civil_from_days (next_month y m - 1) = (y, m, next_month y m - days_from_civil y m 1)"
proof -
  let ?l = "next_month y m - days_from_civil y m 1"
  have e: "days_from_civil y m ?l = next_month y m - 1"
    using days_from_civil_day [of y m ?l] by simp
  have "m = 1 \<or> m = 2 \<or> m = 3 \<or> m = 4 \<or> m = 5 \<or> m = 6 \<or> m = 7 \<or> m = 8 \<or> m = 9 \<or>
      m = 10 \<or> m = 11 \<or> m = 12" using assms by arith
  then have "1 \<le> ?l"
    using march_days_step_bounds(1) [of "y - 1"]
    by (elim disjE) (simp_all add: next_month_def days_from_civil_def march_months_def)
  then show ?thesis using civil_of_days [of m ?l y] assms e by simp
qed

lemma AddMonthsNoOverflow_0: "AddMonthsNoOverflow 0 t = t"
proof (cases "time_civil t")
  case (fields y m d)
  then have c: "civil_from_days (t div nsDay) = (y, m, d)" by (simp add: time_civil_def)
  note f = civil_fields [OF c]
  have "time_civil (time_Date y (m + (0 + 1)) 0 (time_clock t)) =
      (y, m, next_month y m - days_from_civil y m 1)"
    using next_month_normal [OF f(1,2)] last_day_of_month [OF f(1,2)] time_clock_bounds [of t]
    by (simp add: time_civil_days)
  moreover have "d \<le> next_month y m - days_from_civil y m 1"
    using civil_before_next [OF c] f(5) days_from_civil_day [of y m d] by linarith
  moreover have "shiftClockTo t (time_Date y m d (time_clock t)) = t"
    using time_Date_civil [OF fields, of 0] by (simp add: shiftClockTo_id)
  ultimately show ?thesis using fields by (simp add: AddMonthsNoOverflow_def)
qed

lemma AddYearsNoOverflow_0: "AddYearsNoOverflow 0 t = t"
  using AddMonthsNoOverflow_0 [of t] by (simp add: AddMonthsNoOverflow_def AddYearsNoOverflow_def)

text \<open>
  Adding months lands in the normalised month, on the same day or on the month's last day if it
  is shorter, at the same time of day: no overflow into the next month.
\<close>

lemma month_normalised:
  fixes k :: int
  shows "(k + 1) div 12 = k div 12 + (k mod 12 + 1) div 12" "(k + 1) mod 12 = (k mod 12 + 1) mod 12"
proof -
  have "k + 1 = (k mod 12 + 1) + (k div 12) * 12" by (simp add: mult.commute)
  then have "(k + 1) div 12 = ((k mod 12 + 1) + (k div 12) * 12) div 12" by (rule arg_cong)
  then show "(k + 1) div 12 = k div 12 + (k mod 12 + 1) div 12" by (simp only: div_mult_self1)
qed (simp add: mod_add_left_eq)

lemma month_length: "1 \<le> m \<Longrightarrow> m \<le> 12 \<Longrightarrow>
    1 \<le> next_month y m - days_from_civil y m 1 \<and> next_month y m - days_from_civil y m 1 \<le> 31"
  using civil_fields(3,4) [OF last_day_of_month [of m y]] by simp

lemma days_fit: "\<bar>k\<bar> \<le> 100031 \<Longrightarrow> x = k * nsDay \<Longrightarrow> \<bar>x\<bar> < 2 ^ 63" for x :: int
  by (simp add: nsDay_def)

lemma AddMonthsNoOverflow_spec:
  assumes t: "time_civil t = (y, m, d)"
    and y': "y' = y + (m + n - 1) div 12" and m': "m' = (m + n - 1) mod 12 + 1"
    and near: "\<bar>next_month y' m' - t div nsDay\<bar> \<le> 100000"
  shows "time_civil (AddMonthsNoOverflow n t) = (y', m', min d (next_month y' m' - days_from_civil y' m' 1))"
    and "time_clock (AddMonthsNoOverflow n t) = time_clock t"
proof -
  let ?len = "next_month y' m' - days_from_civil y' m' 1"
  let ?day = "min d ?len" and ?c = "time_clock t"
  have m12: "1 \<le> m'" "m' \<le> 12" by (simp_all add: m')
  have d1: "1 \<le> d" using t civil_fields(3) [of "t div nsDay" y m d] by (simp add: time_civil_def)
  note len = month_length [OF m12, of y']
  have "time_Date y (m + (n + 1)) 0 ?c = (next_month y' m' - 1) * nsDay + ?c"
    using month_normalised [of "m + n - 1"]
    by (simp add: time_Date_def next_month_def y' m' algebra_simps)
  then have last: "time_civil (time_Date y (m + (n + 1)) 0 ?c) = (y', m', ?len)"
    using last_day_of_month [OF m12] time_clock_bounds [of t] by (simp add: time_civil_days)
  have dd: "days_from_civil y' m' ?day = days_from_civil y' m' 1 + (?day - 1)"
    by (rule days_from_civil_day)
  have tgt: "time_Date y' m' ?day ?c = days_from_civil y' m' ?day * nsDay + ?c"
    using m12 unfolding time_Date_def by (subst dd) simp
  have civ: "civil_from_days (days_from_civil y' m' ?day) = (y', m', ?day)"
    by (rule civil_of_days) (use m12 d1 len dd in auto)
  let ?k = "days_from_civil y' m' ?day - t div nsDay"
  have "\<bar>?k\<bar> \<le> 100031" using near len dd d1 by linarith
  moreover have "time_Date y' m' ?day ?c - t = ?k * nsDay"
    using div_mult_mod_eq [of t nsDay] unfolding tgt left_diff_distrib unfolding time_clock_def by linarith
  ultimately have "\<bar>time_Date y' m' ?day ?c - t\<bar> < 2 ^ 63"
    by (rule days_fit)
  then have "shiftClockTo t (time_Date y' m' ?day ?c) = time_Date y' m' ?day ?c"
    by (rule shiftClockTo_id)
  then have "AddMonthsNoOverflow n t = time_Date y' m' ?day ?c"
    using t last by (simp add: AddMonthsNoOverflow_def min_def split: if_splits)
  then show "time_civil (AddMonthsNoOverflow n t) = (y', m', ?day)"
    "time_clock (AddMonthsNoOverflow n t) = time_clock t"
    unfolding \<open>AddMonthsNoOverflow n t = _\<close> tgt
    using civ time_clock_bounds [of t] by (simp_all add: time_civil_days) (simp add: time_clock_def)
qed

section \<open>Durations of fixed length\<close>

definition fixed_length :: "ISODuration \<Rightarrow> bool" where
  "fixed_length d \<longleftrightarrow> iso_Years d = 0 \<and> iso_Months d = 0 \<and> iso_Seconds d = 0"

definition fixed_ns :: "ISODuration \<Rightarrow> int" where
  "fixed_ns d = (7 * iso_Weeks d + iso_Days d) * nsDay + iso_Hours d * nsHour + iso_Minutes d * nsMinute"

definition small_fields :: "ISODuration \<Rightarrow> bool" where
  "small_fields d \<longleftrightarrow> \<bar>iso_Weeks d * 7 * nsDay\<bar> < 2 ^ 63 \<and> \<bar>iso_Days d * nsDay\<bar> < 2 ^ 63 \<and>
     \<bar>iso_Hours d * nsHour\<bar> < 2 ^ 63 \<and> \<bar>iso_Minutes d * nsMinute\<bar> < 2 ^ 63"

lemma DateTime_Add_fixed:
  assumes "fixed_length d" and "small_fields d"
  shows "DateTime_Add d t = t + fixed_ns d"
  using assms
  by (simp add: DateTime_Add_def fixed_length_def small_fields_def AddYearsNoOverflow_0
      AddMonthsNoOverflow_0 AddWeeks_eq AddDays_eq AddHours_eq AddMinutes_eq fixed_ns_def
      algebra_simps)

section \<open>Properties\<close>

text \<open>
  Adding months never overflows into the following month: the result lies in the month counted
  from the month of \<open>t\<close>, on the same day or, where that month is shorter, on its last day,
  at the same time of day. The additional hypothesis keeps the target within the reach of a
  \<open>time.Duration\<close>.
\<close>

theorem AddMonthsNoOverflow_clamps:
  assumes "time_civil t = (y, m, d)"
    and "y' = y + (m + n - 1) div 12" and "m' = (m + n - 1) mod 12 + 1"
    and "\<bar>next_month y' m' - t div nsDay\<bar> \<le> 100000"
  shows "time_civil (AddMonthsNoOverflow n t) = (y', m', min d (next_month y' m' - days_from_civil y' m' 1)) \<and>
    time_clock (AddMonthsNoOverflow n t) = time_clock t"
  using AddMonthsNoOverflow_spec [OF assms] by blast

theorem AddMonthsNoOverflow_clamps_witness:
  "time_civil (AddMonthsNoOverflow 1 (time_Date 2024 1 31 0)) = (2024, 2, min 31 (next_month 2024 2 - days_from_civil 2024 2 1)) \<and>
    time_clock (AddMonthsNoOverflow 1 (time_Date 2024 1 31 0)) = time_clock (time_Date 2024 1 31 0) \<and>
    next_month 2024 2 - days_from_civil 2024 2 1 = 29"
proof -
  have c: "time_civil (time_Date 2024 1 31 0) = (2024, 1, 31)"
    by (simp add: time_civil_def time_Date_def nsDay_def civil_from_days_def days_from_civil_def
        march_year_def march_days_def march_months_def)
  have n: "\<bar>next_month 2024 2 - time_Date 2024 1 31 0 div nsDay\<bar> \<le> 100000"
    by (simp add: next_month_def time_Date_def nsDay_def days_from_civil_def march_days_def march_months_def)
  have "next_month 2024 2 - days_from_civil 2024 2 1 = 29"
    by (simp add: next_month_def days_from_civil_def march_days_def march_months_def)
  moreover have "(2024::int) = 2024 + (1 + 1 - 1) div 12" "(2::int) = (1 + 1 - 1) mod 12 + 1"
    by simp_all
  ultimately show ?thesis using AddMonthsNoOverflow_clamps [OF c _ _ n] by blast
qed

end
