(* ===== verification/Recurrence.thy ===== *)
theory Recurrence
  imports Timeutil Datetime
begin

text \<open>
  Recurrences (pkg/timeutil/recurrence.go): the occurrences of a recurrence are its anchor plus
  whole multiples of its interval; the functions search for the occurrence next to an instant
  by stepping away from the anchor, at most \<open>MAX_SAFE_ITERATIONS\<close> times. The locale
  \<open>occurrences\<close> is what the search relies on of the interval arithmetic.
\<close>

section \<open>State and operations\<close>

definition MAX_SAFE_ITERATIONS :: int where
  "MAX_SAFE_ITERATIONS = 1000000"

record Recurrence =
  rc_Interval :: ISODuration
  rc_Anchor :: time

definition RC_Validate :: "period_lib \<Rightarrow> Recurrence \<Rightarrow> error option" where
  "RC_Validate P r = join_errors
     (err_if (pl_Sign P (rc_Interval r) \<noteq> 1) (Err ''recurrence interval must be positive'') @
      err_if (IsZeroTime (rc_Anchor r)) (Err ''recurrence anchor must be set''))"

definition NewRecurrence :: "period_lib \<Rightarrow> ISODuration \<Rightarrow> time \<Rightarrow> Recurrence result" where
  "NewRecurrence P i anchor =
     (let rec = \<lparr>rc_Interval = i, rc_Anchor = anchor\<rparr>
      in check_then (RC_Validate P rec) (Inr rec))"

definition addIntervalNTimes :: "period_lib \<Rightarrow> Recurrence \<Rightarrow> time \<Rightarrow> int \<Rightarrow> time result" where
  "addIntervalNTimes P r t n =
     bind_result (ISO_Mul P (rc_Interval r) n)
       (\<lambda>interval. let (m, ok) = AddTo interval t
         in if \<not> ok then Inl (Err ''next recurrence calculation wasn't exact, likely a fractional duration'')
            else Inr m)"

record RecurrenceIterator =
  it_r :: Recurrence
  it_iteration :: int
  it_At :: time

definition RC_Iterator :: "Recurrence \<Rightarrow> RecurrenceIterator" where
  "RC_Iterator r = \<lparr>it_r = r, it_iteration = 0, it_At = rc_Anchor r\<rparr>"

definition iteratorWithDelta :: "period_lib \<Rightarrow> RecurrenceIterator \<Rightarrow> int \<Rightarrow> RecurrenceIterator result" where
  "iteratorWithDelta P i delta =
     (let n = it_iteration i + delta
      in bind_result (addIntervalNTimes P (it_r i) (rc_Anchor (it_r i)) n)
           (\<lambda>res. Inr (i\<lparr>it_iteration := n, it_At := res\<rparr>)))"

definition IT_Next :: "period_lib \<Rightarrow> RecurrenceIterator \<Rightarrow> RecurrenceIterator result" where
  "IT_Next P i = iteratorWithDelta P i 1"

definition IT_Prev :: "period_lib \<Rightarrow> RecurrenceIterator \<Rightarrow> RecurrenceIterator result" where
  "IT_Prev P i = iteratorWithDelta P i (- 1)"

text \<open>
  The four loops, over the function \<open>occ\<close> that computes the occurrence of an index. Each
  carries the candidate \<open>res\<close> and the counter \<open>ic\<close> and returns both.
\<close>

function next_after_back :: "(int \<Rightarrow> time result) \<Rightarrow> time \<Rightarrow> time \<Rightarrow> int \<Rightarrow> (time \<times> int) result" where
  "next_after_back occ t res ic =
     (if t < res then
        if ic \<le> - MAX_SAFE_ITERATIONS then Inl (Err ''recurrence.NextAfter: too many iterations'')
        else (case occ (ic - 1) of
                Inl e \<Rightarrow> Inl e
              | Inr v \<Rightarrow> if v < t then Inr (res, ic - 1) else next_after_back occ t v (ic - 1))
      else Inr (res, ic))"
  by pat_completeness auto
termination
  by (relation "measure (\<lambda>(occ, t, res, ic). nat (ic + MAX_SAFE_ITERATIONS))") auto

function next_after_forth :: "(int \<Rightarrow> time result) \<Rightarrow> time \<Rightarrow> time \<Rightarrow> int \<Rightarrow> (time \<times> int) result" where
  "next_after_forth occ t res ic =
     (if res < t then
        if ic \<ge> MAX_SAFE_ITERATIONS then Inl (Err ''recurrence.NextAfter: too many iterations'')
        else (case occ (ic + 1) of
                Inl e \<Rightarrow> Inl e
              | Inr v \<Rightarrow> next_after_forth occ t v (ic + 1))
      else Inr (res, ic))"
  by pat_completeness auto
termination
  by (relation "measure (\<lambda>(occ, t, res, ic). nat (MAX_SAFE_ITERATIONS - ic))") auto

function prev_before_back :: "(int \<Rightarrow> time result) \<Rightarrow> time \<Rightarrow> time \<Rightarrow> int \<Rightarrow> (time \<times> int) result" where
  "prev_before_back occ t res ic =
     (if t < res then
        if ic \<le> - MAX_SAFE_ITERATIONS then Inl (Err ''recurrence.PrevBefore: too many iterations'')
        else (case occ (ic - 1) of
                Inl e \<Rightarrow> Inl e
              | Inr v \<Rightarrow> prev_before_back occ t v (ic - 1))
      else Inr (res, ic))"
  by pat_completeness auto
termination
  by (relation "measure (\<lambda>(occ, t, res, ic). nat (ic + MAX_SAFE_ITERATIONS))") auto

function prev_before_forth :: "(int \<Rightarrow> time result) \<Rightarrow> time \<Rightarrow> time \<Rightarrow> int \<Rightarrow> (time \<times> int) result" where
  "prev_before_forth occ t res ic =
     (if res < t then
        if ic \<ge> MAX_SAFE_ITERATIONS then Inl (Err ''recurrence.PrevBefore: too many iterations'')
        else (case occ (ic + 1) of
                Inl e \<Rightarrow> Inl e
              | Inr v \<Rightarrow> if t < v then Inr (res, ic + 1) else prev_before_forth occ t v (ic + 1))
      else Inr (res, ic))"
  by pat_completeness auto
termination
  by (relation "measure (\<lambda>(occ, t, res, ic). nat (MAX_SAFE_ITERATIONS - ic))") auto

declare next_after_back.simps [simp del] next_after_forth.simps [simp del]
  prev_before_back.simps [simp del] prev_before_forth.simps [simp del]

definition iterator_at :: "Recurrence \<Rightarrow> time \<times> int \<Rightarrow> RecurrenceIterator" where
  "iterator_at r = (\<lambda>(res, ic). \<lparr>it_r = r, it_iteration = ic, it_At = res\<rparr>)"

definition iterateFromNextAfterInclusive :: "period_lib \<Rightarrow> Recurrence \<Rightarrow> time \<Rightarrow> RecurrenceIterator result" where
  "iterateFromNextAfterInclusive P r t =
     (let occ = addIntervalNTimes P r (rc_Anchor r)
      in if t < rc_Anchor r
         then bind_result (next_after_back occ t (rc_Anchor r) 0) (\<lambda>x. Inr (iterator_at r x))
         else if rc_Anchor r < t
         then bind_result (next_after_forth occ t (rc_Anchor r) 0) (\<lambda>x. Inr (iterator_at r x))
         else Inr (RC_Iterator r))"

definition iterateFromPrevBeforeInclusive :: "period_lib \<Rightarrow> Recurrence \<Rightarrow> time \<Rightarrow> RecurrenceIterator result" where
  "iterateFromPrevBeforeInclusive P r t =
     (let occ = addIntervalNTimes P r (rc_Anchor r)
      in if t < rc_Anchor r
         then bind_result (prev_before_back occ t (rc_Anchor r) 0) (\<lambda>x. Inr (iterator_at r x))
         else if rc_Anchor r < t
         then bind_result (prev_before_forth occ t (rc_Anchor r) 0) (\<lambda>x. Inr (iterator_at r x))
         else Inr (RC_Iterator r))"

definition IterateFromNextAfter :: "period_lib \<Rightarrow> Recurrence \<Rightarrow> time \<Rightarrow> Boundary \<Rightarrow> RecurrenceIterator result" where
  "IterateFromNextAfter P r t b =
     check_then (Boundary_Validate b)
       (if IsZeroTime t then Inl (Err ''t cannot be zero'')
        else bind_result (iterateFromNextAfterInclusive P r t)
          (\<lambda>i. if b = Exclusive \<and> it_At i = t then IT_Next P i else Inr i))"

definition IterateFromPrevBefore :: "period_lib \<Rightarrow> Recurrence \<Rightarrow> time \<Rightarrow> Boundary \<Rightarrow> RecurrenceIterator result" where
  "IterateFromPrevBefore P r t b =
     check_then (Boundary_Validate b)
       (if IsZeroTime t then Inl (Err ''t cannot be zero'')
        else bind_result (iterateFromPrevBeforeInclusive P r t)
          (\<lambda>i. if b = Exclusive \<and> it_At i = t then IT_Prev P i else Inr i))"

definition NextAfter :: "period_lib \<Rightarrow> Recurrence \<Rightarrow> time \<Rightarrow> Boundary \<Rightarrow> time result" where
  "NextAfter P r t b = bind_result (IterateFromNextAfter P r t b) (\<lambda>i. Inr (it_At i))"

definition PrevBefore :: "period_lib \<Rightarrow> Recurrence \<Rightarrow> time \<Rightarrow> Boundary \<Rightarrow> time result" where
  "PrevBefore P r t b = bind_result (IterateFromPrevBefore P r t b) (\<lambda>i. Inr (it_At i))"

definition GetPeriodAt :: "period_lib \<Rightarrow> Recurrence \<Rightarrow> time \<Rightarrow> ClosedPeriod result" where
  "GetPeriodAt P r t =
     bind_result (IterateFromNextAfter P r t Exclusive)
       (\<lambda>nxt. if it_At nxt = t
          then bind_result (IT_Next P nxt)
                 (\<lambda>e. Inr \<lparr>cp_From = it_At nxt, cp_To = it_At e\<rparr>)
          else bind_result (IterateFromPrevBefore P r t Inclusive)
                 (\<lambda>prev. Inr \<lparr>cp_From = it_At prev, cp_To = it_At nxt\<rparr>))"

section \<open>The interval arithmetic the search relies on\<close>

text \<open>
  \<open>occ k\<close> succeeds with \<open>f k\<close> for indices between \<open>-N\<close> and \<open>N\<close>, and later indices are
  later instants. The bound is needed: \<open>shiftClockTo\<close> saturates at about 292 years.
\<close>

locale occurrences =
  fixes occ :: "int \<Rightarrow> time result" and f :: "int \<Rightarrow> time" and N :: int
  assumes exact: "- N \<le> k \<Longrightarrow> k \<le> N \<Longrightarrow> occ k = Inr (f k)"
    and incr: "- N \<le> j \<Longrightarrow> j < k \<Longrightarrow> k \<le> N \<Longrightarrow> f j < f k"
    and some: "0 < N" and within: "N \<le> MAX_SAFE_ITERATIONS"
begin

lemma incr_le: "- N \<le> j \<Longrightarrow> j \<le> k \<Longrightarrow> k \<le> N \<Longrightarrow> f j \<le> f k"
  using incr [of j k] by (cases "j = k") auto

lemma less_iff: "- N \<le> j \<Longrightarrow> j \<le> N \<Longrightarrow> - N \<le> k \<Longrightarrow> k \<le> N \<Longrightarrow> f j < f k \<longleftrightarrow> j < k"
  using incr [of j k] incr_le [of k j] by (meson not_less)

text \<open>
  Stepping back stops at the first occurrence at or after \<open>t\<close>. When it is after \<open>t\<close> the counter
  has already moved past it.
\<close>

lemma next_after_back:
  assumes "f (- N) < t" and "- N < ic" and "ic \<le> N" and "t \<le> f ic"
  shows "\<exists>k. - N < k \<and> k \<le> ic \<and> t \<le> f k \<and> f (k - 1) < t \<and>
    next_after_back occ t (f ic) ic = Inr (f k, if f k = t then k else k - 1)"
  using assms(2-)
proof (induction "nat (ic + N)" arbitrary: ic rule: less_induct)
  case less
  show ?case
  proof (cases "t < f ic")
    case False
    then have "f ic = t" using less.prems by simp
    moreover have "f (ic - 1) < f ic" using less.prems incr [of "ic - 1" ic] by simp
    ultimately show ?thesis using less.prems by (intro exI [of _ ic]) (simp add: next_after_back.simps)
  next
    case True
    have e: "occ (ic - 1) = Inr (f (ic - 1))" using exact [of "ic - 1"] less.prems by simp
    have m: "\<not> ic \<le> - MAX_SAFE_ITERATIONS" using less.prems within by simp
    show ?thesis
    proof (cases "f (ic - 1) < t")
      case True
      then show ?thesis using e m less.prems \<open>t < f ic\<close>
        by (intro exI [of _ ic]) (simp add: next_after_back.simps)
    next
      case False
      then have "- N \<noteq> ic - 1" using assms(1) by metis
      then have "- N < ic - 1" using less.prems by simp
      moreover from False have "t \<le> f (ic - 1)" by simp
      ultimately obtain k where "- N < k" "k \<le> ic - 1" "t \<le> f k" "f (k - 1) < t"
        "next_after_back occ t (f (ic - 1)) (ic - 1) = Inr (f k, if f k = t then k else k - 1)"
        using less.hyps [of "ic - 1"] less.prems by auto
      then show ?thesis using True False e m
        by (intro exI [of _ k]) (simp add: next_after_back.simps [of _ _ _ ic])
    qed
  qed
qed

lemma next_after_forth:
  assumes "t \<le> f N" and "- N < ic" and "ic \<le> N" and "f (ic - 1) < t"
  shows "\<exists>k. ic \<le> k \<and> k \<le> N \<and> t \<le> f k \<and> f (k - 1) < t \<and>
    next_after_forth occ t (f ic) ic = Inr (f k, k)"
  using assms(2-)
proof (induction "nat (N - ic)" arbitrary: ic rule: less_induct)
  case less
  show ?case
  proof (cases "f ic < t")
    case False
    then show ?thesis using less.prems by (intro exI [of _ ic]) (simp add: next_after_forth.simps)
  next
    case True
    then have "ic \<noteq> N" using assms(1) by auto
    then have n: "ic < N" using less.prems by simp
    then have e: "occ (ic + 1) = Inr (f (ic + 1))" using exact [of "ic + 1"] less.prems by simp
    have m: "\<not> ic \<ge> MAX_SAFE_ITERATIONS" using n within by simp
    obtain k where "ic + 1 \<le> k" "k \<le> N" "t \<le> f k" "f (k - 1) < t"
      "next_after_forth occ t (f (ic + 1)) (ic + 1) = Inr (f k, k)"
      using less.hyps [of "ic + 1"] less.prems n True by auto
    then show ?thesis using True e m
      by (intro exI [of _ k]) (simp add: next_after_forth.simps [of _ _ _ ic])
  qed
qed

lemma prev_before_back:
  assumes "f (- N) \<le> t" and "- N \<le> ic" and "ic < N" and "t < f (ic + 1)"
  shows "\<exists>k. - N \<le> k \<and> k \<le> ic \<and> f k \<le> t \<and> t < f (k + 1) \<and>
    prev_before_back occ t (f ic) ic = Inr (f k, k)"
  using assms(2-)
proof (induction "nat (ic + N)" arbitrary: ic rule: less_induct)
  case less
  show ?case
  proof (cases "t < f ic")
    case False
    then show ?thesis using less.prems by (intro exI [of _ ic]) (simp add: prev_before_back.simps)
  next
    case True
    then have "ic \<noteq> - N" using assms(1) by auto
    then have n: "- N < ic" using less.prems by simp
    then have e: "occ (ic - 1) = Inr (f (ic - 1))" using exact [of "ic - 1"] less.prems by simp
    have m: "\<not> ic \<le> - MAX_SAFE_ITERATIONS" using n within by simp
    obtain k where "- N \<le> k" "k \<le> ic - 1" "f k \<le> t" "t < f (k + 1)"
      "prev_before_back occ t (f (ic - 1)) (ic - 1) = Inr (f k, k)"
      using less.hyps [of "ic - 1"] less.prems n True by auto
    then show ?thesis using True e m
      by (intro exI [of _ k]) (simp add: prev_before_back.simps [of _ _ _ ic])
  qed
qed

lemma prev_before_forth:
  assumes "t < f N" and "- N \<le> ic" and "ic < N" and "f ic \<le> t"
  shows "\<exists>k. ic \<le> k \<and> k < N \<and> f k \<le> t \<and> t < f (k + 1) \<and>
    prev_before_forth occ t (f ic) ic = Inr (f k, if f k = t then k else k + 1)"
  using assms(2-)
proof (induction "nat (N - ic)" arbitrary: ic rule: less_induct)
  case less
  show ?case
  proof (cases "f ic < t")
    case False
    then have "f ic = t" using less.prems by simp
    moreover have "f ic < f (ic + 1)" using less.prems incr [of ic "ic + 1"] by simp
    ultimately show ?thesis using less.prems by (intro exI [of _ ic]) (simp add: prev_before_forth.simps)
  next
    case True
    have e: "occ (ic + 1) = Inr (f (ic + 1))" using exact [of "ic + 1"] less.prems by simp
    have m: "\<not> ic \<ge> MAX_SAFE_ITERATIONS" using less.prems within by simp
    show ?thesis
    proof (cases "t < f (ic + 1)")
      case True
      then show ?thesis using e m less.prems \<open>f ic < t\<close>
        by (intro exI [of _ ic]) (simp add: prev_before_forth.simps)
    next
      case False
      then have "N \<noteq> ic + 1" using assms(1) by metis
      then have "ic + 1 < N" using less.prems by simp
      moreover from False have "f (ic + 1) \<le> t" by simp
      ultimately obtain k where "ic + 1 \<le> k" "k < N" "f k \<le> t" "t < f (k + 1)"
        "prev_before_forth occ t (f (ic + 1)) (ic + 1) = Inr (f k, if f k = t then k else k + 1)"
        using less.hyps [of "ic + 1"] less.prems by auto
      then show ?thesis using True False e m
        by (intro exI [of _ k]) (simp add: prev_before_forth.simps [of _ _ _ ic])
    qed
  qed
qed

lemma unique:
  assumes "- N < j" "j \<le> N" "- N < k" "k \<le> N" "t \<le> f j" "f (j - 1) < t" "t \<le> f k" "f (k - 1) < t"
  shows "j = k"
proof -
  have "f (j - 1) < f k" "f (k - 1) < f j" using assms by linarith+
  then have "j - 1 < k" "k - 1 < j"
    using less_iff [of "j - 1" k] less_iff [of "k - 1" j] assms by auto
  then show ?thesis by simp
qed

end

section \<open>What the operations return\<close>

locale recurrence_occurrences =
  occurrences "addIntervalNTimes P r (rc_Anchor r)" f N
  for P :: period_lib and r :: Recurrence and f :: "int \<Rightarrow> time" and N :: int +
  assumes anchor: "f 0 = rc_Anchor r"
begin

lemma delta:
  "- N \<le> it_iteration i + d \<Longrightarrow> it_iteration i + d \<le> N \<Longrightarrow> it_r i = r \<Longrightarrow>
   iteratorWithDelta P i d =
     Inr (i\<lparr>it_iteration := it_iteration i + d, it_At := f (it_iteration i + d)\<rparr>)"
  using exact by (simp add: iteratorWithDelta_def Let_def)

text \<open>
  The first occurrence at or after \<open>t\<close>; the counter is one behind exactly if the search went
  backwards and ended after \<open>t\<close>.
\<close>

lemma next_inclusive:
  assumes "f (- N) < t" and "t \<le> f N"
  shows "\<exists>k. - N < k \<and> k \<le> N \<and> t \<le> f k \<and> f (k - 1) < t \<and>
    iterateFromNextAfterInclusive P r t =
      Inr \<lparr>it_r = r, it_iteration = (if t < rc_Anchor r \<and> f k \<noteq> t then k - 1 else k), it_At = f k\<rparr>"
proof -
  note N = some
  consider "t < rc_Anchor r" | "rc_Anchor r < t" | "rc_Anchor r = t" by linarith
  then show ?thesis
  proof cases
    case 1
    then obtain k where "- N < k" "k \<le> 0" "t \<le> f k" "f (k - 1) < t" and
      "next_after_back (addIntervalNTimes P r (rc_Anchor r)) t (f 0) 0 =
         Inr (f k, if f k = t then k else k - 1)"
      using next_after_back [OF assms(1), of 0] N anchor by auto
    then show ?thesis using 1 N anchor
      by (intro exI [of _ k]) (auto simp: iterateFromNextAfterInclusive_def iterator_at_def)
  next
    case 2
    then obtain k where "0 \<le> k" "k \<le> N" "t \<le> f k" "f (k - 1) < t" and
      "next_after_forth (addIntervalNTimes P r (rc_Anchor r)) t (f 0) 0 = Inr (f k, k)"
      using next_after_forth [OF assms(2), of 0] N anchor incr [of "- 1" 0] by auto
    then show ?thesis using 2 N anchor
      by (intro exI [of _ k]) (auto simp: iterateFromNextAfterInclusive_def iterator_at_def)
  next
    case 3
    then show ?thesis using N anchor incr [of "- 1" 0]
      by (intro exI [of _ 0]) (simp add: iterateFromNextAfterInclusive_def RC_Iterator_def)
  qed
qed

lemma prev_inclusive:
  assumes "f (- N) \<le> t" and "t < f N"
  shows "\<exists>k. - N \<le> k \<and> k < N \<and> f k \<le> t \<and> t < f (k + 1) \<and>
    iterateFromPrevBeforeInclusive P r t =
      Inr \<lparr>it_r = r, it_iteration = (if rc_Anchor r < t \<and> f k \<noteq> t then k + 1 else k), it_At = f k\<rparr>"
proof -
  note N = some
  consider "t < rc_Anchor r" | "rc_Anchor r < t" | "rc_Anchor r = t" by linarith
  then show ?thesis
  proof cases
    case 1
    then obtain k where "- N \<le> k" "k \<le> 0" "f k \<le> t" "t < f (k + 1)" and
      "prev_before_back (addIntervalNTimes P r (rc_Anchor r)) t (f 0) 0 = Inr (f k, k)"
      using prev_before_back [OF assms(1), of 0] N anchor incr [of 0 1] by auto
    then show ?thesis using 1 N anchor
      by (intro exI [of _ k]) (auto simp: iterateFromPrevBeforeInclusive_def iterator_at_def)
  next
    case 2
    then obtain k where "0 \<le> k" "k < N" "f k \<le> t" "t < f (k + 1)" and
      "prev_before_forth (addIntervalNTimes P r (rc_Anchor r)) t (f 0) 0 =
         Inr (f k, if f k = t then k else k + 1)"
      using prev_before_forth [OF assms(2), of 0] N anchor by auto
    then show ?thesis using 2 N anchor
      by (intro exI [of _ k]) (auto simp: iterateFromPrevBeforeInclusive_def iterator_at_def)
  next
    case 3
    then show ?thesis using N anchor incr [of 0 1]
      by (intro exI [of _ 0]) (simp add: iterateFromPrevBeforeInclusive_def RC_Iterator_def)
  qed
qed

lemma NextAfter_inclusive:
  assumes "f (- N) < t" and "t \<le> f N" and "\<not> IsZeroTime t"
  shows "\<exists>k. - N < k \<and> k \<le> N \<and> t \<le> f k \<and> f (k - 1) < t \<and> NextAfter P r t Inclusive = Inr (f k)"
  using next_inclusive [OF assms(1,2)] assms(3)
  by (auto simp: NextAfter_def IterateFromNextAfter_def Boundary_Validate_def)

lemma NextAfter_exclusive:
  assumes "f (- N) < t" and "t < f N" and "\<not> IsZeroTime t"
  shows "\<exists>k i. - N < k \<and> k \<le> N \<and> t < f k \<and> f (k - 1) \<le> t \<and>
    IterateFromNextAfter P r t Exclusive = Inr i \<and> it_r i = r \<and> it_At i = f k"
proof -
  obtain k where k: "- N < k" "k \<le> N" "t \<le> f k" "f (k - 1) < t" and
    it: "iterateFromNextAfterInclusive P r t =
      Inr \<lparr>it_r = r, it_iteration = (if t < rc_Anchor r \<and> f k \<noteq> t then k - 1 else k), it_At = f k\<rparr>"
    using next_inclusive [of t] assms by auto
  show ?thesis
  proof (cases "f k = t")
    case True
    then have "k < N" using assms(2) k(2) by (cases "k = N") auto
    then show ?thesis using k it True assms(3) incr [of k "k + 1"]
      by (intro exI [of _ "k + 1"])
         (auto simp: IterateFromNextAfter_def Boundary_Validate_def IT_Next_def delta)
  next
    case False
    then show ?thesis using k it assms(3)
      by (intro exI [of _ k]) (auto simp: IterateFromNextAfter_def Boundary_Validate_def)
  qed
qed

lemma PrevBefore_inclusive:
  assumes "f (- N) \<le> t" and "t < f N" and "\<not> IsZeroTime t"
  shows "\<exists>k i. - N \<le> k \<and> k < N \<and> f k \<le> t \<and> t < f (k + 1) \<and>
    IterateFromPrevBefore P r t Inclusive = Inr i \<and> it_At i = f k"
  using prev_inclusive [OF assms(1,2)] assms(3)
  by (auto simp: IterateFromPrevBefore_def Boundary_Validate_def)

text \<open>The period at \<open>t\<close> is the one between two consecutive occurrences that contains it.\<close>

lemma GetPeriodAt:
  assumes "f (- N) < t" and "t < f N" and "\<not> IsZeroTime t"
  shows "\<exists>k. - N \<le> k \<and> k < N \<and> GetPeriodAt P r t = Inr \<lparr>cp_From = f k, cp_To = f (k + 1)\<rparr> \<and>
    f k \<le> t \<and> t < f (k + 1)"
proof -
  obtain k i where k: "- N < k" "k \<le> N" "t < f k" "f (k - 1) \<le> t"
    and i: "IterateFromNextAfter P r t Exclusive = Inr i" "it_r i = r" "it_At i = f k"
    using NextAfter_exclusive [OF assms] by blast
  obtain j i' where j: "- N \<le> j" "j < N" "f j \<le> t" "t < f (j + 1)"
    and i': "IterateFromPrevBefore P r t Inclusive = Inr i'" "it_At i' = f j"
    using PrevBefore_inclusive [of t] assms by auto
  have "f j < f k" "f (k - 1) < f (j + 1)" using k j by linarith+
  then have "j < k" "k - 1 < j + 1" using less_iff [of j k] less_iff [of "k - 1" "j + 1"] k j by auto
  then have "k = j + 1" by simp
  then show ?thesis using k j i i' by (intro exI [of _ j]) (auto simp: GetPeriodAt_def)
qed

text \<open>
  An iterator obtained by searching forward, or landing on \<open>t\<close>, continues with the following
  occurrence; one that stepped back past \<open>t\<close> repeats its instant.
\<close>

lemma Next_continues:
  assumes "f (- N) < t" and "t < f N" and "\<not> IsZeroTime t" and "rc_Anchor r \<le> t"
  shows "\<exists>k i. - N < k \<and> k \<le> N \<and> t \<le> f k \<and> f (k - 1) < t \<and> it_At i = f k \<and>
    IterateFromNextAfter P r t Inclusive = Inr i \<and>
    (k < N \<longrightarrow> (\<exists>j. IT_Next P i = Inr j \<and> it_At j = f (k + 1)))"
  using next_inclusive [of t] assms
  by (fastforce simp: IterateFromNextAfter_def Boundary_Validate_def IT_Next_def delta)

lemma Next_repeats:
  assumes "f (- N) < t" and "t < rc_Anchor r" and "\<not> IsZeroTime t"
    and "\<And>k. - N \<le> k \<Longrightarrow> k \<le> N \<Longrightarrow> f k \<noteq> t"
  shows "\<exists>i j. IterateFromNextAfter P r t Inclusive = Inr i \<and> IT_Next P i = Inr j \<and>
    it_At j = it_At i \<and> t < it_At i"
proof -
  have "t \<le> f N" using assms(2) anchor incr [of 0 N] some by simp
  from next_inclusive [OF assms(1) this] obtain k where k: "- N < k" "k \<le> N" "t \<le> f k" and
    "iterateFromNextAfterInclusive P r t =
      Inr \<lparr>it_r = r, it_iteration = (if t < rc_Anchor r \<and> f k \<noteq> t then k - 1 else k), it_At = f k\<rparr>"
    by auto
  moreover have "f k \<noteq> t" using assms(4) [of k] k by simp
  ultimately show ?thesis using assms(2,3) k
    by (auto simp: IterateFromNextAfter_def Boundary_Validate_def IT_Next_def delta)
qed

end

section \<open>Intervals of fixed length\<close>

text \<open>
  Documented behaviour of \<open>Period.Mul\<close>: it multiplies every field; overflow of the library's
  decimals is an error, so the law is stated for the multiples a search uses.
\<close>

definition mul_exact :: "period_lib \<Rightarrow> ISODuration \<Rightarrow> int \<Rightarrow> bool" where
  "mul_exact P d N \<longleftrightarrow> (\<forall>k. - N \<le> k \<longrightarrow> k \<le> N \<longrightarrow> pl_Mul P k d = std_Mul k d)"

definition nonneg_fields :: "ISODuration \<Rightarrow> bool" where
  "nonneg_fields d \<longleftrightarrow> 0 \<le> iso_Weeks d \<and> 0 \<le> iso_Days d \<and> 0 \<le> iso_Hours d \<and> 0 \<le> iso_Minutes d"

lemma scaled_field_small:
  fixes L :: int
  assumes "N * L < 2 ^ 63" "0 \<le> x" "x \<le> L" "- N \<le> k" "k \<le> N" "y = k * x"
  shows "\<bar>y\<bar> < 2 ^ 63"
proof -
  have "\<bar>k * x\<bar> \<le> N * L" unfolding abs_mult using assms by (intro mult_mono) auto
  then show ?thesis using assms by linarith
qed

lemma fixed_fields_le:
  assumes "nonneg_fields d"
  shows "iso_Weeks d * 7 * nsDay \<le> fixed_ns d" "iso_Days d * nsDay \<le> fixed_ns d"
    "iso_Hours d * nsHour \<le> fixed_ns d" "iso_Minutes d * nsMinute \<le> fixed_ns d"
  using assms unfolding nonneg_fields_def fixed_ns_def ns_defs by (simp_all add: algebra_simps)

lemma small_scaled:
  assumes "nonneg_fields d" "N * fixed_ns d < 2 ^ 63" "- N \<le> k" "k \<le> N" "std_Mul k d = Inr e"
  shows "small_fields e"
proof -
  note f = fixed_fields_le [OF assms(1)] and n = assms(1) [unfolded nonneg_fields_def]
  have e: "e = \<lparr>iso_Years = k * iso_Years d, iso_Months = k * iso_Months d,
     iso_Weeks = k * iso_Weeks d, iso_Days = k * iso_Days d, iso_Hours = k * iso_Hours d,
     iso_Minutes = k * iso_Minutes d, iso_Seconds = of_int k * iso_Seconds d\<rparr>"
    using assms(5) by (simp add: std_Mul_def)
  note small = scaled_field_small [OF assms(2) _ _ assms(3,4)]
  show ?thesis unfolding small_fields_def e ISODuration.simps
    using small [OF _ f(1) refl] small [OF _ f(2) refl] small [OF _ f(3) refl] small [OF _ f(4) refl] n
    by (simp add: ns_defs mult.assoc)
qed

lemma fixed_occurrences:
  assumes "fixed_length d" and "nonneg_fields d" and "0 < fixed_ns d" and "N * fixed_ns d < 2 ^ 63"
    and "0 < N" and "N \<le> MAX_SAFE_ITERATIONS" and "mul_exact P d N"
  shows "recurrence_occurrences P \<lparr>rc_Interval = d, rc_Anchor = a\<rparr> (\<lambda>k. a + k * fixed_ns d) N"
proof unfold_locales
  fix k assume k: "- N \<le> k" "k \<le> N"
  obtain e where e: "std_Mul k d = Inr e" by (simp add: std_Mul_def)
  then have "fixed_length e" "fixed_ns e = k * fixed_ns d"
    using assms(1) by (auto simp: std_Mul_def fixed_length_def fixed_ns_def algebra_simps)
  then show "addIntervalNTimes P \<lparr>rc_Interval = d, rc_Anchor = a\<rparr> (rc_Anchor \<lparr>rc_Interval = d, rc_Anchor = a\<rparr>) k
      = Inr (a + k * fixed_ns d)"
    using assms(7) k e small_scaled [OF assms(2,4) k e]
    by (simp add: addIntervalNTimes_def ISO_Mul_def mul_exact_def AddTo_def DateTime_Add_fixed)
qed (use assms in auto)

definition DurationDay :: ISODuration where
  "DurationDay = \<lparr>iso_Years = 0, iso_Months = 0, iso_Weeks = 0, iso_Days = 1, iso_Hours = 0,
     iso_Minutes = 0, iso_Seconds = 0\<rparr>"

definition DurationWeek :: ISODuration where
  "DurationWeek = \<lparr>iso_Years = 0, iso_Months = 0, iso_Weeks = 1, iso_Days = 0, iso_Hours = 0,
     iso_Minutes = 0, iso_Seconds = 0\<rparr>"

definition RecurrencePeriodDaily :: "time \<Rightarrow> Recurrence" where
  "RecurrencePeriodDaily a = \<lparr>rc_Interval = DurationDay, rc_Anchor = a\<rparr>"

definition RecurrencePeriodWeek :: "time \<Rightarrow> Recurrence" where
  "RecurrencePeriodWeek a = \<lparr>rc_Interval = DurationWeek, rc_Anchor = a\<rparr>"

lemma fixed_days:
  "fixed_length DurationDay" "nonneg_fields DurationDay" "fixed_ns DurationDay = nsDay"
  "fixed_length DurationWeek" "nonneg_fields DurationWeek" "fixed_ns DurationWeek = 7 * nsDay"
  by (simp_all add: DurationDay_def DurationWeek_def fixed_length_def nonneg_fields_def fixed_ns_def)

lemma mul_exact_std [simp]: "mul_exact std_period_lib d N"
  by (simp add: mul_exact_def std_period_lib_def)

interpretation daily: recurrence_occurrences std_period_lib "RecurrencePeriodDaily a"
  "\<lambda>k. a + k * nsDay" 106751 for a
  unfolding RecurrencePeriodDaily_def
  using fixed_occurrences [OF fixed_days(1,2), of 106751 std_period_lib a]
  by (simp add: fixed_days MAX_SAFE_ITERATIONS_def ns_defs)

interpretation weekly: recurrence_occurrences std_period_lib "RecurrencePeriodWeek a"
  "\<lambda>k. a + k * (7 * nsDay)" 15250 for a
  unfolding RecurrencePeriodWeek_def
  using fixed_occurrences [OF fixed_days(4,5), of 15250 std_period_lib a]
  by (simp add: fixed_days MAX_SAFE_ITERATIONS_def ns_defs)

section \<open>Properties\<close>

text \<open>
  What the properties assume of a recurrence: an interval of weeks, days, hours and minutes whose
  multiples up to \<open>N\<close> fit a \<open>time.Duration\<close> and are computed exactly by the library.
\<close>

definition fixed_recurrence :: "period_lib \<Rightarrow> Recurrence \<Rightarrow> int \<Rightarrow> bool" where
  "fixed_recurrence P r N \<longleftrightarrow> fixed_length (rc_Interval r) \<and> nonneg_fields (rc_Interval r) \<and>
     0 < fixed_ns (rc_Interval r) \<and> N * fixed_ns (rc_Interval r) < 2 ^ 63 \<and>
     0 < N \<and> N \<le> MAX_SAFE_ITERATIONS \<and> mul_exact P (rc_Interval r) N"

definition occurrence :: "Recurrence \<Rightarrow> int \<Rightarrow> time" where
  "occurrence r k = rc_Anchor r + k * fixed_ns (rc_Interval r)"

lemma fixed_recurrence_occurrences:
  "fixed_recurrence P r N \<Longrightarrow> recurrence_occurrences P r (occurrence r) N"
  using fixed_occurrences [of "rc_Interval r" N P "rc_Anchor r"]
  by (cases r) (simp add: fixed_recurrence_def occurrence_def [abs_def])

lemma fixed_recurrence_daily: "fixed_recurrence std_period_lib (RecurrencePeriodDaily a) 106751"
  using fixed_days by (simp add: fixed_recurrence_def RecurrencePeriodDaily_def MAX_SAFE_ITERATIONS_def nsDay_def)

lemma occurrence_daily: "occurrence (RecurrencePeriodDaily a) k = a + k * nsDay"
  using fixed_days by (simp add: occurrence_def RecurrencePeriodDaily_def)

text \<open>
  C33. \<open>NextAfter\<close> with the inclusive boundary returns the earliest occurrence that is not before
  \<open>t\<close>, whether the anchor is before or after \<open>t\<close>: the occurrence of index \<open>k\<close> is returned,
  the one of index \<open>k - 1\<close> is before \<open>t\<close>. It returns (no error) whenever \<open>t\<close> is within the
  \<open>N\<close> occurrences on both sides of the anchor.
\<close>

theorem NextAfter_earliest:
  assumes "fixed_recurrence P r N" and "occurrence r (- N) < t" and "t \<le> occurrence r N"
    and "\<not> IsZeroTime t"
  shows "\<exists>k. NextAfter P r t Inclusive = Inr (occurrence r k) \<and> t \<le> occurrence r k \<and>
    occurrence r (k - 1) < t"
  using recurrence_occurrences.NextAfter_inclusive [OF fixed_recurrence_occurrences [OF assms(1)] assms(2-4)]
  by blast

theorem NextAfter_earliest_witness:
  "\<exists>k. NextAfter std_period_lib (RecurrencePeriodDaily nsDay) 1 Inclusive = Inr (nsDay + k * nsDay) \<and>
    1 \<le> nsDay + k * nsDay \<and> nsDay + (k - 1) * nsDay < 1"
  using NextAfter_earliest [OF fixed_recurrence_daily [of nsDay], of 1]
  by (simp add: occurrence_daily IsZeroTime_def nsDay_def)

text \<open>
  \<open>GetPeriodAt\<close> returns the half-open period of one interval that contains \<open>t\<close> and starts
  at an occurrence.
\<close>

theorem GetPeriodAt_contains:
  assumes "fixed_recurrence P r N" and "occurrence r (- N) < t" and "t < occurrence r N"
    and "\<not> IsZeroTime t"
  shows "\<exists>p k. GetPeriodAt P r t = Inr p \<and> CP_Contains p t \<and> cp_From p = occurrence r k \<and>
    cp_To p = occurrence r (k + 1)"
  using recurrence_occurrences.GetPeriodAt [OF fixed_recurrence_occurrences [OF assms(1)] assms(2-4)]
  by (fastforce simp: CP_Contains_def)

theorem GetPeriodAt_contains_witness:
  "\<exists>p k. GetPeriodAt std_period_lib (RecurrencePeriodDaily nsDay) 1 = Inr p \<and> CP_Contains p 1 \<and>
    cp_From p = nsDay + k * nsDay \<and> cp_To p = nsDay + (k + 1) * nsDay"
  using GetPeriodAt_contains [OF fixed_recurrence_daily [of nsDay], of 1]
  by (simp add: occurrence_daily IsZeroTime_def nsDay_def)

text \<open>
  An iterator does not always advance. When the anchor is after \<open>t\<close> and \<open>t\<close> is not an
  occurrence, the backwards search leaves the counter one occurrence behind the instant it
  returns, so the first call of \<open>Next\<close> returns that same instant again.
\<close>

theorem IterateFromNextAfter_repeats:
  assumes "fixed_recurrence P r N" and "occurrence r (- N) < t" and "t < rc_Anchor r"
    and "\<not> IsZeroTime t" and "(t - rc_Anchor r) mod fixed_ns (rc_Interval r) \<noteq> 0"
  shows "\<exists>i j. IterateFromNextAfter P r t Inclusive = Inr i \<and> t < it_At i \<and>
    IT_Next P i = Inr j \<and> it_At j = it_At i"
proof -
  have "occurrence r k \<noteq> t" for k
    using assms(5) by (auto simp: occurrence_def)
  then show ?thesis
    using recurrence_occurrences.Next_repeats [OF fixed_recurrence_occurrences [OF assms(1)] assms(2-4)]
    by blast
qed

theorem IterateFromNextAfter_repeats_witness:
  "\<exists>i j. IterateFromNextAfter std_period_lib (RecurrencePeriodDaily nsDay) 1 Inclusive = Inr i \<and>
    1 < it_At i \<and> IT_Next std_period_lib i = Inr j \<and> it_At j = it_At i"
  using IterateFromNextAfter_repeats [OF fixed_recurrence_daily [of nsDay], of 1] fixed_days(3)
  by (simp add: occurrence_def IsZeroTime_def RecurrencePeriodDaily_def nsDay_def)

end
