(* ===== verification/CalendarOccurrences.thy ===== *)
theory CalendarOccurrences
  imports Recurrence
begin

text \<open>
  The occurrences of any recurrence whose interval has no negative field: months and years are added on the
  calendar (pkg/datetime/datetime.go), the rest has a fixed length. Successive occurrences of an interval with
  months lie in different months, so they are increasing although a month may be shorter than the day of the
  anchor; this makes every such recurrence an instance of the locale that the search works in.
\<close>

section \<open>Months\<close>

text \<open>The first day of a month, counted in months from the year 0, and the month of an instant.\<close>

definition first_day :: "int \<Rightarrow> int" where
  "first_day M = days_from_civil (M div 12) (M mod 12 + 1) 1"

definition month_index :: "time \<Rightarrow> int" where
  "month_index t = (case time_civil t of (y, m, d) \<Rightarrow> 12 * y + (m - 1))"

lemma index_normal:
  fixes m y :: int
  assumes "1 \<le> m" and "m \<le> 12"
  shows "(12 * y + (m - 1)) div 12 = y" "(12 * y + (m - 1)) mod 12 = m - 1"
  using assms by simp_all

lemma first_day_civil: "1 \<le> m \<Longrightarrow> m \<le> 12 \<Longrightarrow> first_day (12 * y + (m - 1)) = days_from_civil y m 1"
  by (simp add: first_day_def index_normal)

lemma first_day_next: "1 \<le> m \<Longrightarrow> m \<le> 12 \<Longrightarrow> first_day (12 * y + (m - 1) + 1) = next_month y m"
  by (cases "m = 12") (simp_all add: first_day_def next_month_def add.commute)

lemma first_day_step: "first_day M < first_day (M + 1)" "first_day (M + 1) \<le> first_day M + 31"
proof -
  let ?y = "M div 12" and ?m = "M mod 12 + 1"
  have m: "1 \<le> ?m" "?m \<le> 12" by simp_all
  have M: "12 * ?y + (?m - 1) = M" by simp
  show "first_day M < first_day (M + 1)" "first_day (M + 1) \<le> first_day M + 31"
    using month_length [OF m, of ?y] first_day_civil [OF m, of ?y] first_day_next [OF m, of ?y] unfolding M by simp_all
qed

lemma first_day_within: "first_day M + int n \<le> first_day (M + int n) \<and> first_day (M + int n) \<le> first_day M + 31 * int n"
proof (induction n)
  case (Suc n)
  then show ?case using first_day_step [of "M + int n"] by (simp add: algebra_simps)
qed simp

lemma first_day_near: "\<bar>first_day (M + n) - first_day M\<bar> \<le> 31 * \<bar>n\<bar>"
  using first_day_within [of M "nat n"] first_day_within [of "M + n" "nat (- n)"] by (cases "0 \<le> n") auto

lemma first_day_mono: "M \<le> M' \<Longrightarrow> first_day M \<le> first_day M'"
  using first_day_within [of M "nat (M' - M)"] by simp

lemma month_of_day: "first_day (month_index t) \<le> t div nsDay" "t div nsDay < first_day (month_index t + 1)"
proof -
  obtain y m d where c: "civil_from_days (t div nsDay) = (y, m, d)" by (metis prod_cases3)
  note f = civil_fields [OF c]
  have i: "month_index t = 12 * y + (m - 1)" by (simp add: month_index_def time_civil_def c)
  show "first_day (month_index t) \<le> t div nsDay"
    using f(3,5) days_from_civil_day [of y m d] unfolding i first_day_civil [OF f(1,2)] by simp
  show "t div nsDay < first_day (month_index t + 1)"
    using civil_before_next [OF c] unfolding i first_day_next [OF f(1,2)] .
qed

lemma month_less: "month_index s < month_index t \<Longrightarrow> s < t"
proof -
  assume "month_index s < month_index t"
  then have "first_day (month_index s + 1) \<le> first_day (month_index t)" by (intro first_day_mono) simp
  then have "s div nsDay < t div nsDay" using month_of_day [of s] month_of_day [of t] by linarith
  then show "s < t" using zdiv_mono1 [of t s nsDay] by (force simp: nsDay_def)
qed

text \<open>Adding months moves to the month counted from that of the instant; adding years adds twelve each.\<close>

lemma AddMonths_index:
  assumes "31 * \<bar>n\<bar> \<le> 99900"
  shows "month_index (AddMonthsNoOverflow n t) = month_index t + n"
proof -
  obtain y m d where t: "time_civil t = (y, m, d)" by (metis prod_cases3)
  then have f: "1 \<le> m" "m \<le> 12" using civil_fields(1,2) [of "t div nsDay" y m d] by (simp_all add: time_civil_def)
  let ?y = "y + (m + n - 1) div 12" and ?m = "(m + n - 1) mod 12 + 1"
  have i: "month_index t = 12 * y + (m - 1)" by (simp add: month_index_def t)
  have M: "12 * ?y + (?m - 1) = month_index t + n"
    using mult_div_mod_eq [of 12 "m + n - 1"] unfolding i by (simp add: algebra_simps)
  have m: "1 \<le> ?m" "?m \<le> 12" by simp_all
  have "next_month ?y ?m = first_day (month_index t + (n + 1))"
    using first_day_next [OF m, of ?y] unfolding M by (simp add: add.assoc)
  moreover have "31 * \<bar>n + 1\<bar> \<le> 99931" using assms by (cases "0 \<le> n + 1"; cases "0 \<le> n") simp_all
  moreover have "\<bar>a - b\<bar> \<le> q \<Longrightarrow> c \<le> b + 31 \<Longrightarrow> b \<le> x \<Longrightarrow> x < c \<Longrightarrow> q \<le> 99931 \<Longrightarrow> \<bar>a - x\<bar> \<le> 100000" for a b c q x :: int
    by linarith
  from this [OF first_day_near first_day_step(2) month_of_day calculation(2)]
  have "\<bar>first_day (month_index t + (n + 1)) - t div nsDay\<bar> \<le> 100000" .
  ultimately have "\<bar>next_month ?y ?m - t div nsDay\<bar> \<le> 100000" by (simp only:)
  from AddMonthsNoOverflow_spec(1) [OF t refl refl this] show ?thesis
    using M by (simp add: month_index_def)
qed

lemma AddYears_months: "AddYearsNoOverflow n t = AddMonthsNoOverflow (12 * n) t"
proof -
  have "time_Date (y + n) (m + 1) 0 c = time_Date y (m + (12 * n + 1)) 0 c" for y m c
  proof -
    have "m + (12 * n + 1) - 1 = m + n * 12" by simp
    then show ?thesis unfolding time_Date_def by (simp add: add.assoc)
  qed
  then show ?thesis by (simp add: AddYearsNoOverflow_def AddMonthsNoOverflow_def)
qed

section \<open>Occurrences\<close>

text \<open>An interval: its months, its seconds in nanoseconds, and what of it has a fixed length.\<close>

definition interval_months :: "ISODuration \<Rightarrow> int" where
  "interval_months d = 12 * iso_Years d + iso_Months d"

definition second_ns :: "ISODuration \<Rightarrow> int" where
  "second_ns d = integer_part (iso_Seconds d * of_int nsSecond)"

definition clock_ns :: "ISODuration \<Rightarrow> int" where
  "clock_ns d = fixed_ns d + second_ns d"

text \<open>
  What the properties assume of a recurrence: an interval with no negative field, not zero, its seconds whole
  nanoseconds; and that its multiples up to \<open>N\<close> stay within the 292 years of a \<open>time.Duration\<close> and are computed
  exactly by the library.
\<close>

definition regular_recurrence :: "period_lib \<Rightarrow> Recurrence \<Rightarrow> int \<Rightarrow> bool" where
  "regular_recurrence P r N \<longleftrightarrow> (let d = rc_Interval r in
     0 \<le> iso_Years d \<and> 0 \<le> iso_Months d \<and> nonneg_fields d \<and> 0 \<le> iso_Seconds d \<and>
     of_int (second_ns d) = iso_Seconds d * of_int nsSecond \<and> 0 < interval_months d + clock_ns d \<and>
     31 * (N * interval_months d) \<le> 99900 \<and> N * clock_ns d < 2 ^ 63 \<and>
     0 < N \<and> N \<le> MAX_SAFE_ITERATIONS \<and> mul_exact P d N)"

text \<open>The occurrence of index \<open>k\<close>: \<open>k\<close> times the years and months on the calendar, then \<open>k\<close> times the rest.\<close>

definition calendar_part :: "Recurrence \<Rightarrow> int \<Rightarrow> time" where
  "calendar_part r k = AddMonthsNoOverflow (k * iso_Months (rc_Interval r))
     (AddYearsNoOverflow (k * iso_Years (rc_Interval r)) (rc_Anchor r))"

definition occurrence_of :: "Recurrence \<Rightarrow> int \<Rightarrow> time" where
  "occurrence_of r k = calendar_part r k + k * clock_ns (rc_Interval r)"

lemma scaled_le:
  fixes k N x :: int
  assumes "- N \<le> k" "k \<le> N" "0 \<le> x"
  shows "\<bar>k * x\<bar> \<le> N * x"
  unfolding abs_mult using assms by (intro mult_mono) auto

lemma calendar_index:
  assumes r: "regular_recurrence P r N" and k: "- N \<le> k" "k \<le> N"
  shows "month_index (calendar_part r k) = month_index (rc_Anchor r) + k * interval_months (rc_Interval r)"
proof -
  let ?d = "rc_Interval r"
  have d: "0 \<le> iso_Years ?d" "0 \<le> iso_Months ?d" "31 * (N * interval_months ?d) \<le> 99900"
    using r by (simp_all add: regular_recurrence_def Let_def)
  have "0 \<le> N * (12 * iso_Years ?d)" "0 \<le> N * iso_Months ?d" using d k by simp_all
  then have "31 * \<bar>k * (12 * iso_Years ?d)\<bar> \<le> 99900" "31 * \<bar>k * iso_Months ?d\<bar> \<le> 99900"
    using scaled_le [OF k, of "12 * iso_Years ?d"] scaled_le [OF k, of "iso_Months ?d"] d
    by (simp_all add: interval_months_def distrib_left)
  then show ?thesis
    by (simp add: calendar_part_def AddYears_months AddMonths_index interval_months_def algebra_simps)
qed

lemma calendar_mono:
  assumes r: "regular_recurrence P r N" and k: "- N \<le> j" "j < k" "k \<le> N"
  shows "calendar_part r j \<le> calendar_part r k \<and>
    (0 < interval_months (rc_Interval r) \<longrightarrow> calendar_part r j < calendar_part r k)"
proof (cases "interval_months (rc_Interval r) = 0")
  case True
  then have "iso_Years (rc_Interval r) = 0" "iso_Months (rc_Interval r) = 0"
    using r by (auto simp: regular_recurrence_def Let_def interval_months_def)
  then show ?thesis using True by (simp add: calendar_part_def AddYearsNoOverflow_0 AddMonthsNoOverflow_0)
next
  case False
  then have "0 < interval_months (rc_Interval r)"
    using r by (auto simp: regular_recurrence_def Let_def interval_months_def)
  then have "j * interval_months (rc_Interval r) < k * interval_months (rc_Interval r)" using k by simp
  moreover have "month_index (calendar_part r j) = month_index (rc_Anchor r) + j * interval_months (rc_Interval r)"
    "month_index (calendar_part r k) = month_index (rc_Anchor r) + k * interval_months (rc_Interval r)"
    by (rule calendar_index [OF r]; use k in linarith)+
  ultimately have "calendar_part r j < calendar_part r k" by - (rule month_less, linarith)
  then show ?thesis by simp
qed

lemma AddSeconds_whole:
  assumes "of_int j = s * of_int nsSecond" and "\<bar>k * j\<bar> < 2 ^ 63"
  shows "AddSeconds (of_int k * s) t = t + k * j"
proof -
  have "of_int k * s * of_int nsSecond = (of_int (k * j) :: rat)" using assms(1) by (simp add: mult.assoc)
  moreover have "integer_part (of_int i) = i" for i by (simp add: integer_part_def)
  ultimately have "integer_part (of_int k * s * of_int nsSecond) = k * j" by (simp only:)
  then show ?thesis using assms(2) by (simp add: AddSeconds_def Let_def wrap64_id shiftClockTo_id)
qed

theorem regular_recurrence_occurrences:
  assumes r: "regular_recurrence P r N"
  shows "recurrence_occurrences P r (occurrence_of r) N"
proof unfold_locales
  let ?d = "rc_Interval r" and ?a = "rc_Anchor r"
  have d: "0 \<le> iso_Years ?d" "0 \<le> iso_Months ?d" "nonneg_fields ?d" "0 \<le> iso_Seconds ?d" "N * clock_ns ?d < 2 ^ 63"
    "of_int (second_ns ?d) = iso_Seconds ?d * of_int nsSecond" "0 < interval_months ?d + clock_ns ?d"
    and N: "0 < N" "N \<le> MAX_SAFE_ITERATIONS" and mul: "mul_exact P ?d N"
    using r by (simp_all add: regular_recurrence_def Let_def)
  have "(0 :: rat) \<le> of_int (second_ns ?d)" using d(4,6) by (simp add: nsSecond_def)
  then have s0: "0 \<le> second_ns ?d" by simp
  have f0: "0 \<le> fixed_ns ?d" using d(3) by (simp add: fixed_ns_def nonneg_fields_def ns_defs)
  have c: "N * fixed_ns ?d < 2 ^ 63" "N * second_ns ?d < 2 ^ 63"
    using d(5) s0 f0 N(1) by (simp_all add: clock_ns_def distrib_left) (smt (verit) mult_nonneg_nonneg)+
  show "occurrence_of r 0 = ?a"
    by (simp add: occurrence_of_def calendar_part_def AddYearsNoOverflow_0 AddMonthsNoOverflow_0)
  show "0 < N" "N \<le> MAX_SAFE_ITERATIONS" by (fact N)+
  fix j k
  show "occurrence_of r j < occurrence_of r k" if k: "- N \<le> j" "j < k" "k \<le> N"
  proof -
    have "0 \<le> clock_ns ?d" using s0 f0 by (simp add: clock_ns_def)
    then have "j * clock_ns ?d \<le> k * clock_ns ?d" "0 < clock_ns ?d \<longrightarrow> j * clock_ns ?d < k * clock_ns ?d"
      using k by (simp_all add: mult_right_mono)
    then show ?thesis using calendar_mono [OF r k] d(7) unfolding occurrence_of_def
      by (cases "0 < clock_ns ?d") (auto intro: add_less_le_mono add_le_less_mono)
  qed
  show "addIntervalNTimes P r ?a k = Inr (occurrence_of r k)" if k: "- N \<le> k" "k \<le> N"
  proof -
    obtain e where e: "std_Mul k ?d = Inr e" by (simp add: std_Mul_def)
    then have fields: "iso_Years e = k * iso_Years ?d" "iso_Months e = k * iso_Months ?d"
      "iso_Seconds e = of_int k * iso_Seconds ?d" "fixed_ns e = k * fixed_ns ?d"
      by (auto simp: std_Mul_def fixed_ns_def algebra_simps)
    have "small_fields e" by (rule small_scaled [OF d(3) c(1) k e])
    moreover have "\<bar>k * second_ns ?d\<bar> < 2 ^ 63" using scaled_le [OF k s0] c(2) by linarith
    ultimately have "DateTime_Add e ?a = occurrence_of r k"
      using AddSeconds_whole [OF d(6), of k]
      by (simp add: DateTime_Add_def small_fields_def AddWeeks_eq AddDays_eq AddHours_eq AddMinutes_eq fields(1-3)
          occurrence_of_def calendar_part_def clock_ns_def distrib_left fields(4) [symmetric])
        (simp add: fixed_ns_def algebra_simps)
    then show ?thesis using mul k e by (simp add: addIntervalNTimes_def ISO_Mul_def mul_exact_def AddTo_def)
  qed
qed

text \<open>Recurrences of fixed length are a special case.\<close>

lemma occurrence_of_fixed: "fixed_length (rc_Interval r) \<Longrightarrow> occurrence_of r k = occurrence r k"
  by (simp add: fixed_length_def occurrence_of_def occurrence_def calendar_part_def AddYearsNoOverflow_0
      AddMonthsNoOverflow_0 clock_ns_def second_ns_def integer_part_def)

lemma fixed_is_regular: "fixed_recurrence P r N \<Longrightarrow> regular_recurrence P r N"
  by (simp add: fixed_recurrence_def regular_recurrence_def Let_def fixed_length_def interval_months_def clock_ns_def
      second_ns_def integer_part_def)

section \<open>Months and years\<close>

definition DurationMonth :: ISODuration where
  "DurationMonth = \<lparr>iso_Years = 0, iso_Months = 1, iso_Weeks = 0, iso_Days = 0, iso_Hours = 0,
     iso_Minutes = 0, iso_Seconds = 0\<rparr>"

definition DurationYear :: ISODuration where
  "DurationYear = \<lparr>iso_Years = 1, iso_Months = 0, iso_Weeks = 0, iso_Days = 0, iso_Hours = 0,
     iso_Minutes = 0, iso_Seconds = 0\<rparr>"

definition RecurrencePeriodMonth :: "time \<Rightarrow> Recurrence" where
  "RecurrencePeriodMonth a = \<lparr>rc_Interval = DurationMonth, rc_Anchor = a\<rparr>"

definition RecurrencePeriodYear :: "time \<Rightarrow> Recurrence" where
  "RecurrencePeriodYear a = \<lparr>rc_Interval = DurationYear, rc_Anchor = a\<rparr>"

lemma regular_monthly: "regular_recurrence std_period_lib (RecurrencePeriodMonth a) 3222"
  by (simp add: regular_recurrence_def RecurrencePeriodMonth_def DurationMonth_def interval_months_def clock_ns_def
      second_ns_def integer_part_def fixed_ns_def nonneg_fields_def MAX_SAFE_ITERATIONS_def)

lemma regular_yearly: "regular_recurrence std_period_lib (RecurrencePeriodYear a) 268"
  by (simp add: regular_recurrence_def RecurrencePeriodYear_def DurationYear_def interval_months_def clock_ns_def
      second_ns_def integer_part_def fixed_ns_def nonneg_fields_def MAX_SAFE_ITERATIONS_def)

interpretation monthly: recurrence_occurrences std_period_lib "RecurrencePeriodMonth a"
  "occurrence_of (RecurrencePeriodMonth a)" 3222 for a
  by (rule regular_recurrence_occurrences [OF regular_monthly])

interpretation yearly: recurrence_occurrences std_period_lib "RecurrencePeriodYear a"
  "occurrence_of (RecurrencePeriodYear a)" 268 for a
  by (rule regular_recurrence_occurrences [OF regular_yearly])

text \<open>The occurrences of a month are at least a day apart for each step: enough to see how far they reach.\<close>

lemma monthly_index: "- 3222 \<le> k \<Longrightarrow> k \<le> 3222 \<Longrightarrow> month_index (occurrence_of (RecurrencePeriodMonth a) k) = month_index a + k"
  using calendar_index [OF regular_monthly, of k a]
  by (simp add: occurrence_of_def RecurrencePeriodMonth_def DurationMonth_def interval_months_def clock_ns_def second_ns_def
      integer_part_def fixed_ns_def)

lemma day_bounds: "t div nsDay * nsDay \<le> t" "t < (t div nsDay + 1) * nsDay"
  using div_mult_mod_eq [of t nsDay] pos_mod_bound [of nsDay t] pos_mod_sign [of nsDay t]
  by (simp_all add: nsDay_def distrib_right)

lemma monthly_reach:
  assumes "1 \<le> k" and "k \<le> 3222"
  shows "a + (k - 1) * nsDay < occurrence_of (RecurrencePeriodMonth a) k"
    "occurrence_of (RecurrencePeriodMonth a) (- k) < a - (k - 1) * nsDay"
proof -
  let ?f = "occurrence_of (RecurrencePeriodMonth a)" and ?M = "month_index a"
  have i: "month_index (?f k) = ?M + k" "month_index (?f (- k)) = ?M - k" using assms by (simp_all add: monthly_index)
  have "first_day (?M + 1) + (k - 1) \<le> first_day (?M + k)" "first_day (?M - k + 1) + (k - 1) \<le> first_day ?M"
    using first_day_within [of "?M + 1" "nat (k - 1)"] first_day_within [of "?M - k + 1" "nat (k - 1)"] assms
    by (simp_all add: algebra_simps)
  then have d: "a div nsDay + k \<le> ?f k div nsDay" "?f (- k) div nsDay \<le> a div nsDay - k"
    using month_of_day [of a] month_of_day [of "?f k"] month_of_day [of "?f (- k)"] unfolding i by linarith+
  have "(a div nsDay + k) * nsDay \<le> ?f k" "?f (- k) < (a div nsDay - k + 1) * nsDay"
    using mult_right_mono [OF d(1), of nsDay] mult_right_mono [OF d(2), of nsDay] day_bounds(1) [of "?f k"]
      day_bounds(2) [of "?f (- k)"]
    by (simp_all add: nsDay_def algebra_simps)
  then show "a + (k - 1) * nsDay < ?f k" "?f (- k) < a - (k - 1) * nsDay"
    using day_bounds [of a] by (simp_all add: algebra_simps)
qed

end
