(* ===== verification/Floats.thy ===== *)
theory Floats
  imports Prelude "HOL-Library.Log_Nat"
begin

text \<open>
  \<open>float64\<close> as Go has it: a finite value is a rational number and every arithmetic operation
  rounds its exact result to the nearest representable number, ties to even (\<open>fl64\<close>). Infinities
  and NaN are not represented, so results are those of the code as long as no operation
  overflows. The conversions between \<open>float64\<close> and the decimals of the third-party
  decimal package are a parameter (\<open>float_lib\<close>).
\<close>

section \<open>Rounding to an integer\<close>

definition round_half_even :: "rat \<Rightarrow> int" where
  "round_half_even x =
     (let n = \<lfloor>x\<rfloor>; f = x - of_int n
      in if f < 1/2 then n else if 1/2 < f then n + 1 else if even n then n else n + 1)"

lemma round_half_even_int [simp]: "round_half_even (of_int n) = n"
  by (simp add: round_half_even_def)

lemma round_half_even_bounds: "\<lfloor>x\<rfloor> \<le> round_half_even x" "round_half_even x \<le> \<lfloor>x\<rfloor> + 1"
  by (simp_all add: round_half_even_def Let_def)

lemma round_half_even_mono:
  assumes "x \<le> y"
  shows "round_half_even x \<le> round_half_even y"
proof (cases "\<lfloor>x\<rfloor> = \<lfloor>y\<rfloor>")
  case True
  then show ?thesis using assms by (auto simp: round_half_even_def Let_def)
next
  case False
  then have "\<lfloor>x\<rfloor> + 1 \<le> \<lfloor>y\<rfloor>" using floor_mono [OF assms] by simp
  then show ?thesis using round_half_even_bounds(2) [of x] round_half_even_bounds(1) [of y] by linarith
qed

section \<open>Rounding to a double\<close>

text \<open>
  A magnitude is counted in units of the smallest subnormal, \<open>2^-1074\<close>. Numbers of more than 53
  bits are rounded to a multiple of \<open>2 ^ ulp_exp\<close>, which leaves 53 bits.
\<close>

definition ulp_exp :: "rat \<Rightarrow> nat" where
  "ulp_exp a = floorlog 2 (nat \<lfloor>a\<rfloor>) - 53"

definition fl_mag :: "rat \<Rightarrow> rat" where
  "fl_mag a = of_int (round_half_even (a / 2 ^ ulp_exp a)) * 2 ^ ulp_exp a"

definition fl64 :: "rat \<Rightarrow> rat" where
  "fl64 x = (if x < 0 then - (fl_mag (- x * 2 ^ 1074) / 2 ^ 1074) else fl_mag (x * 2 ^ 1074) / 2 ^ 1074)"

definition is_float :: "rat \<Rightarrow> bool" where
  "is_float x \<longleftrightarrow> fl64 x = x"

lemma ulp_exp_mono: "a \<le> b \<Longrightarrow> ulp_exp a \<le> ulp_exp b"
  unfolding ulp_exp_def by (intro diff_le_mono floorlog_mono nat_mono floor_mono)

lemma below_ulp: "0 \<le> a \<Longrightarrow> a < 2 ^ (53 + ulp_exp a)"
proof -
  assume a: "0 \<le> a"
  let ?n = "nat \<lfloor>a\<rfloor>"
  have "?n < 2 ^ (53 + ulp_exp a)"
  proof (cases "?n = 0")
    case False
    then have "?n < 2 ^ floorlog 2 ?n" using floorlog_bounds [of ?n 2] by simp
    also have "(2::nat) ^ floorlog 2 ?n \<le> 2 ^ (53 + ulp_exp a)"
      by (intro power_increasing) (auto simp: ulp_exp_def)
    finally show ?thesis .
  qed simp
  then have "\<lfloor>a\<rfloor> < 2 ^ (53 + ulp_exp a)" using a by (simp add: nat_less_iff)
  then show ?thesis by (simp add: floor_less_iff)
qed

lemma above_ulp: "0 < ulp_exp a \<Longrightarrow> 2 ^ (52 + ulp_exp a) \<le> a"
proof -
  assume k: "0 < ulp_exp a"
  let ?n = "nat \<lfloor>a\<rfloor>"
  have f: "floorlog 2 ?n = 53 + ulp_exp a" using k by (simp add: ulp_exp_def)
  then have "0 < ?n" by (cases "?n = 0") (simp_all add: floorlog_def)
  then have "2 ^ (52 + ulp_exp a) \<le> ?n" using floorlog_bounds [of ?n 2] f by simp
  then have "2 ^ (52 + ulp_exp a) \<le> \<lfloor>a\<rfloor>" using \<open>0 < ?n\<close> by (simp add: le_nat_iff)
  then show ?thesis by (simp add: le_floor_iff)
qed

lemma fl_mag_nonneg: "0 \<le> a \<Longrightarrow> 0 \<le> fl_mag a"
  using round_half_even_mono [of 0 "a / 2 ^ ulp_exp a"] round_half_even_int [of 0]
  by (simp add: fl_mag_def)

lemma fl_mag_mono:
  assumes "0 \<le> a" and "a \<le> b"
  shows "fl_mag a \<le> fl_mag b"
proof (cases "ulp_exp a = ulp_exp b")
  case True
  then show ?thesis using round_half_even_mono [of "a / 2 ^ ulp_exp a" "b / 2 ^ ulp_exp a"] assms
    by (simp add: fl_mag_def divide_right_mono)
next
  case False
  then have k: "ulp_exp a < ulp_exp b" using ulp_exp_mono [OF assms(2)] by simp
  have "a / 2 ^ ulp_exp a \<le> of_int (2 ^ 53)"
    using below_ulp [OF assms(1)] by (simp add: power_add pos_divide_le_eq)
  from round_half_even_mono [OF this] have "round_half_even (a / 2 ^ ulp_exp a) \<le> 2 ^ 53"
    by (simp only: round_half_even_int)
  then have "fl_mag a \<le> of_int (2 ^ 53) * 2 ^ ulp_exp a"
    unfolding fl_mag_def by (intro mult_right_mono) (simp_all only: of_int_le_iff zero_le_power zero_le_numeral)
  also have "\<dots> \<le> 2 ^ (52 + ulp_exp b)"
  proof -
    have "of_int (2 ^ 53) * 2 ^ ulp_exp a = (2::rat) ^ (53 + ulp_exp a)" by (simp add: power_add)
    also have "\<dots> \<le> 2 ^ (52 + ulp_exp b)" using k by (intro power_increasing) auto
    finally show ?thesis .
  qed
  also have "\<dots> \<le> fl_mag b"
  proof -
    have "of_int (2 ^ 52) \<le> b / 2 ^ ulp_exp b"
      using above_ulp [of b] k by (simp add: power_add pos_le_divide_eq)
    from round_half_even_mono [OF this] have "2 ^ 52 \<le> round_half_even (b / 2 ^ ulp_exp b)"
      by (simp only: round_half_even_int)
    then have "of_int (2 ^ 52) * 2 ^ ulp_exp b \<le> fl_mag b"
      unfolding fl_mag_def by (intro mult_right_mono) (simp_all only: of_int_le_iff zero_le_power zero_le_numeral)
    then show ?thesis by (simp add: power_add)
  qed
  finally show ?thesis .
qed

lemma fl_mag_divisible:
  assumes "k' = ulp_exp (of_int c * 2 ^ k)" and "k' \<le> k"
  shows "fl_mag (of_int c * 2 ^ k) = of_int c * 2 ^ k"
proof -
  have "(2::rat) ^ k = 2 ^ (k - k') * 2 ^ k'" using assms(2) by (simp flip: power_add)
  then have "(of_int c * 2 ^ k :: rat) / 2 ^ k' = of_int (c * 2 ^ (k - k'))" by simp
  then have "fl_mag (of_int c * 2 ^ k) = of_int (c * 2 ^ (k - k')) * 2 ^ k'"
    unfolding fl_mag_def assms(1) [symmetric] by (simp only: round_half_even_int)
  also have "\<dots> = of_int c * (2 ^ (k - k') * 2 ^ k')" by simp
  also have "\<dots> = of_int c * 2 ^ k" using assms(2) by (simp only: power_add [symmetric]) simp
  finally show ?thesis .
qed

text \<open>Every multiple of a power of two by at most 53 bits is representable.\<close>

lemma fl_mag_exact:
  assumes "0 \<le> c" and "c \<le> 2 ^ 53"
  shows "fl_mag (of_int c * 2 ^ k) = of_int c * 2 ^ k"
proof -
  have "(of_int c * 2 ^ k :: rat) = of_int (c * 2 ^ k)" by simp
  then have f: "\<lfloor>of_int c * 2 ^ k :: rat\<rfloor> = c * 2 ^ k" by (simp only: floor_of_int)
  show ?thesis
  proof (cases "c = 2 ^ 53")
    case True
    have "nat (c * 2 ^ k) = 1 * 2 ^ (53 + k)" using True by (simp add: nat_mult_distrib nat_power_eq power_add)
    then have "floorlog 2 (nat (c * 2 ^ k)) = 54 + k"
      using floorlog_power [of 1 2 "53 + k"] by (simp add: floorlog_def)
    then have "ulp_exp (of_int c * 2 ^ k) = k + 1" by (simp add: ulp_exp_def f)
    moreover have "(of_int c * 2 ^ k :: rat) = of_int (2 ^ 52) * 2 ^ (k + 1)" using True by simp
    ultimately show ?thesis using fl_mag_divisible [of "k + 1" "2 ^ 52" "k + 1"] by simp
  next
    case False
    have "ulp_exp (of_int c * 2 ^ k) \<le> k"
    proof (cases "c = 0")
      case False
      then have n: "nat (c * 2 ^ k) = nat c * 2 ^ k" "0 < nat c"
        using assms by (simp_all add: nat_mult_distrib nat_power_eq)
      have "floorlog 2 (nat c) \<le> 53"
        using \<open>c \<noteq> 2 ^ 53\<close> assms by (intro floorlog_leI) (simp_all add: nat_less_iff)
      then show ?thesis using floorlog_power [OF n(2), of 2 k] by (simp add: ulp_exp_def f n(1))
    qed (simp add: ulp_exp_def floorlog_def)
    then show ?thesis using fl_mag_divisible [OF refl] by blast
  qed
qed

lemma fl_mag_form:
  assumes "0 \<le> a"
  shows "\<exists>c. 0 \<le> c \<and> c \<le> 2 ^ 53 \<and> fl_mag a = of_int c * 2 ^ ulp_exp a"
proof -
  have "a / 2 ^ ulp_exp a \<le> of_int (2 ^ 53)"
    using below_ulp [OF assms] by (simp add: power_add pos_divide_le_eq)
  from round_half_even_mono [OF this] have "round_half_even (a / 2 ^ ulp_exp a) \<le> 2 ^ 53"
    by (simp only: round_half_even_int)
  moreover have "0 \<le> round_half_even (a / 2 ^ ulp_exp a)"
    using round_half_even_mono [of 0 "a / 2 ^ ulp_exp a"] round_half_even_int [of 0] assms by simp
  ultimately show ?thesis unfolding fl_mag_def by blast
qed

lemma fl_mag_idem: "0 \<le> a \<Longrightarrow> fl_mag (fl_mag a) = fl_mag a"
  using fl_mag_form [of a] fl_mag_exact by auto

section \<open>Laws of the rounding\<close>

lemma fl_mag_0 [simp]: "fl_mag 0 = 0"
  using fl_mag_exact [of 0 0] by simp

lemma fl64_0 [simp]: "fl64 0 = 0"
  by (simp add: fl64_def)

lemma fl64_uminus: "fl64 (- x) = - fl64 x"
proof -
  have "x < 0 \<or> x = 0 \<or> 0 < x" by auto
  then show ?thesis by (elim disjE) (simp_all add: fl64_def)
qed

lemma fl64_nonneg: "0 \<le> x \<Longrightarrow> 0 \<le> fl64 x"
  by (simp add: fl64_def fl_mag_nonneg)

lemma fl64_mono:
  assumes "x \<le> y"
  shows "fl64 x \<le> fl64 y"
proof -
  have pos: "fl64 u \<le> fl64 v" if "0 \<le> u" "u \<le> v" for u v
    using fl_mag_mono [of "u * 2 ^ 1074" "v * 2 ^ 1074"] that
    by (simp add: fl64_def divide_right_mono)
  consider "0 \<le> x" | "x < 0" "0 \<le> y" | "y < 0" by linarith
  then show ?thesis
  proof cases
    case 2
    then show ?thesis using fl64_nonneg [of y] fl64_nonneg [of "- x"] by (simp add: fl64_uminus)
  next
    case 3
    then show ?thesis using pos [of "- y" "- x"] assms by (simp add: fl64_uminus)
  qed (use assms pos in simp)
qed

lemma fl64_idem [simp]: "fl64 (fl64 x) = fl64 x"
proof -
  have pos: "fl64 (fl64 u) = fl64 u" if "0 \<le> u" for u
    using that fl64_nonneg [OF that] fl_mag_idem [of "u * 2 ^ 1074"] by (simp add: fl64_def)
  show ?thesis
  proof (cases "0 \<le> x")
    case False
    then show ?thesis using pos [of "- x"] by (simp add: fl64_uminus)
  qed (rule pos)
qed

lemma fl64_of_int: "\<bar>n\<bar> \<le> 2 ^ 53 \<Longrightarrow> fl64 (of_int n) = of_int n"
  using fl_mag_exact [of n 1074] fl_mag_exact [of "- n" 1074] by (simp add: fl64_def)

lemma is_float_fl64 [simp]: "is_float (fl64 x)"
  by (simp add: is_float_def)

lemma is_float_0 [simp]: "is_float 0"
  by (simp add: is_float_def)

text \<open>Subtracting a part from a float leaves a float between zero and the whole.\<close>

lemma fl64_sub_bounds:
  assumes "0 \<le> b" and "b \<le> a" and "is_float a"
  shows "0 \<le> fl64 (a - b)" and "fl64 (a - b) \<le> a"
  using fl64_mono [of "a - b" a] assms by (simp_all add: fl64_nonneg is_float_def)

section \<open>Conversions to and from decimals\<close>

text \<open>
  The decimal package's \<open>NewFromFloat\<close> and \<open>InexactFloat64\<close>. Documented behaviour:
  converting a float and back returns it, converting back respects the order and yields a float,
  and whole numbers of up to 53 bits are converted exactly.
\<close>

record float_lib =
  NewFromFloat :: "rat \<Rightarrow> rat"
  InexactFloat64 :: "rat \<Rightarrow> rat"

definition float_ok :: "float_lib \<Rightarrow> bool" where
  "float_ok F \<longleftrightarrow>
     (\<forall>x. is_float x \<longrightarrow> InexactFloat64 F (NewFromFloat F x) = x) \<and>
     (\<forall>x y. x \<le> y \<longrightarrow> InexactFloat64 F x \<le> InexactFloat64 F y) \<and>
     (\<forall>x. is_float (InexactFloat64 F x)) \<and>
     (\<forall>n. \<bar>n\<bar> \<le> 2 ^ 53 \<longrightarrow> NewFromFloat F (of_int n) = of_int n)"

definition std_float_lib :: float_lib where
  "std_float_lib = \<lparr>NewFromFloat = (\<lambda>x. x), InexactFloat64 = fl64\<rparr>"

lemma float_ok_std: "float_ok std_float_lib"
  by (simp add: float_ok_def std_float_lib_def is_float_def fl64_mono fl64_of_int)

text \<open>Whole numbers small enough to be exact in every conversion.\<close>

definition whole53 :: "rat \<Rightarrow> bool" where
  "whole53 x \<longleftrightarrow> (\<exists>n. x = of_int n \<and> \<bar>n\<bar> \<le> 2 ^ 53)"

lemma is_float_whole: "whole53 x \<Longrightarrow> is_float x"
  by (auto simp: whole53_def is_float_def fl64_of_int)

lemma whole53_0 [simp]: "whole53 0"
  unfolding whole53_def by (rule exI [of _ 0]) simp

locale float_conversions =
  fixes F :: float_lib
  assumes ok: "float_ok F"
begin

lemma to_float_from: "is_float x \<Longrightarrow> InexactFloat64 F (NewFromFloat F x) = x"
  using ok by (simp add: float_ok_def)

lemma to_float_mono: "x \<le> y \<Longrightarrow> InexactFloat64 F x \<le> InexactFloat64 F y"
  using ok by (simp add: float_ok_def)

lemma to_float_float: "is_float (InexactFloat64 F x)"
  using ok by (simp add: float_ok_def)

lemma from_float_whole: "whole53 x \<Longrightarrow> NewFromFloat F x = x"
  using ok by (auto simp: float_ok_def whole53_def)

lemma to_float_whole: "whole53 x \<Longrightarrow> InexactFloat64 F x = x"
  using to_float_from [of x] from_float_whole [of x] is_float_whole [of x] by simp

lemma from_float_0: "NewFromFloat F 0 = 0"
  by (rule from_float_whole) simp

lemma to_float_0: "InexactFloat64 F 0 = 0"
  by (rule to_float_whole) simp

lemma from_float_le: "is_float x \<Longrightarrow> is_float y \<Longrightarrow> NewFromFloat F x \<le> NewFromFloat F y \<Longrightarrow> x \<le> y"
  using to_float_mono [of "NewFromFloat F x" "NewFromFloat F y"] to_float_from by simp

lemma from_float_pos: "is_float x \<Longrightarrow> 0 < x \<Longrightarrow> 0 < NewFromFloat F x"
  using from_float_le [of x 0] from_float_0 by (metis is_float_0 linorder_not_le)

end

interpretation std_floats: float_conversions std_float_lib
  by unfold_locales (rule float_ok_std)

end
