(* ===== verification/Decimal.thy ===== *)
theory Decimal
  imports Prelude
begin

text \<open>
  Exact decimals. A value of the third-party decimal package is a rational number; \<open>Add\<close>,
  \<open>Sub\<close>, \<open>Mul\<close>, \<open>Cmp\<close>, \<open>Sign\<close> and \<open>IsZero\<close> are exact. The operations that scale or round
  (\<open>Div\<close>, \<open>Mod\<close>, \<open>Shift\<close> and the \<open>Round\<close> family) and \<open>String\<close> are a parameter of the model, \<open>decimal_lib\<close>;
  \<open>decimal_ok\<close> states their documented behaviour and \<open>std_decimal_lib\<close> is an executable instance.
\<close>

type_synonym decimal = rat

definition dec_Sign :: "decimal \<Rightarrow> int" where
  "dec_Sign x = (if x < 0 then -1 else if 0 < x then 1 else 0)"

lemma dec_Sign_simps [simp]:
  "dec_Sign x < 0 \<longleftrightarrow> x < 0" "dec_Sign x \<le> 0 \<longleftrightarrow> x \<le> 0" "0 < dec_Sign x \<longleftrightarrow> 0 < x" "dec_Sign x = 0 \<longleftrightarrow> x = 0"
  by (auto simp: dec_Sign_def)

record decimal_lib =
  dl_Div :: "decimal \<Rightarrow> decimal \<Rightarrow> decimal"
  dl_Mod :: "decimal \<Rightarrow> decimal \<Rightarrow> decimal"
  dl_Round :: "int \<Rightarrow> decimal \<Rightarrow> decimal"
  dl_RoundUp :: "int \<Rightarrow> decimal \<Rightarrow> decimal"
  dl_RoundDown :: "int \<Rightarrow> decimal \<Rightarrow> decimal"
  dl_RoundCeil :: "int \<Rightarrow> decimal \<Rightarrow> decimal"
  dl_RoundFloor :: "int \<Rightarrow> decimal \<Rightarrow> decimal"
  dl_Shift :: "decimal \<Rightarrow> int \<Rightarrow> decimal"
  dl_String :: "decimal \<Rightarrow> string"

text \<open>\<open>%d\<close> of package \<open>fmt\<close> on a natural number.\<close>

fun show_nat :: "nat \<Rightarrow> string" where
  "show_nat n = (if n < 10 then [char_of (48 + n)] else show_nat (n div 10) @ [char_of (48 + n mod 10)])"

declare show_nat.simps [simp del]

fun read_nat :: "string \<Rightarrow> nat" where
  "read_nat s = foldl (\<lambda>acc ch. acc * 10 + (of_char ch - 48)) 0 s"

lemma read_show_nat [simp]: "read_nat (show_nat n) = n"
proof (induction n rule: show_nat.induct)
  case (1 n)
  have d: "of_char (char_of (48 + k :: nat) :: char) - 48 = (k :: nat)" if "k < 10" for k
    using that by (simp add: of_char_of)
  show ?case
  proof (cases "n < 10")
    case True
    then show ?thesis using d [of n] by (simp add: show_nat.simps [of n])
  next
    case False
    then have "foldl (\<lambda>acc ch. acc * 10 + (of_char ch - 48)) 0 (show_nat (n div 10)) = n div 10" using 1 by simp
    then show ?thesis using False d [of "n mod 10"] by (subst show_nat.simps) simp
  qed
qed

lemma show_nat_inj [simp]: "show_nat m = show_nat n \<longleftrightarrow> m = n"
  by (metis read_show_nat)

section \<open>Documented behaviour of the rounding operations\<close>

text \<open>Rounding at \<open>p\<close> decimal places: half away from zero, toward zero, away from zero, down, up.\<close>

definition at_places :: "(rat \<Rightarrow> int) \<Rightarrow> nat \<Rightarrow> decimal \<Rightarrow> decimal" where
  "at_places f p x = of_int (f (x * 10 ^ p)) / 10 ^ p"

definition int_half_away :: "rat \<Rightarrow> int" where
  "int_half_away x = (if x < 0 then - \<lfloor>- x + 1/2\<rfloor> else \<lfloor>x + 1/2\<rfloor>)"

definition int_to_zero :: "rat \<Rightarrow> int" where
  "int_to_zero x = (if x < 0 then \<lceil>x\<rceil> else \<lfloor>x\<rfloor>)"

definition int_from_zero :: "rat \<Rightarrow> int" where
  "int_from_zero x = (if x < 0 then \<lfloor>x\<rfloor> else \<lceil>x\<rceil>)"

text \<open>The package keeps 16 decimal places of a quotient that has more.\<close>

definition div_places :: nat where
  "div_places = 16"

definition decimal_ok :: "decimal_lib \<Rightarrow> bool" where
  "decimal_ok L \<longleftrightarrow>
     (\<forall>p x. dl_Round L (int p) x = at_places int_half_away p x) \<and>
     (\<forall>p x. dl_RoundUp L (int p) x = at_places int_from_zero p x) \<and>
     (\<forall>p x. dl_RoundDown L (int p) x = at_places int_to_zero p x) \<and>
     (\<forall>p x. dl_RoundCeil L (int p) x = at_places ceiling p x) \<and>
     (\<forall>p x. dl_RoundFloor L (int p) x = at_places floor p x) \<and>
     (\<forall>p x. dl_Shift L x (- int p) = x / 10 ^ p) \<and>
     (\<forall>x y. y \<noteq> 0 \<longrightarrow> dl_Mod L x y = x - y * of_int (int_to_zero (x / y))) \<and>
     (\<forall>x y. y \<noteq> 0 \<longrightarrow> \<bar>dl_Div L x y - x / y\<bar> \<le> 1 / 10 ^ div_places) \<and>
     (\<forall>x y. 0 \<le> x \<longrightarrow> 0 < y \<longrightarrow> 0 \<le> dl_Div L x y) \<and>
     (\<forall>x y k. y \<noteq> 0 \<longrightarrow> x / y = of_int k / 10 ^ div_places \<longrightarrow> dl_Div L x y = x / y)"

definition std_decimal_lib :: decimal_lib where
  "std_decimal_lib =
     \<lparr>dl_Div = (\<lambda>x y. at_places int_half_away div_places (x / y)),
      dl_Mod = (\<lambda>x y. x - y * of_int (int_to_zero (x / y))),
      dl_Round = (\<lambda>p. at_places int_half_away (nat p)),
      dl_RoundUp = (\<lambda>p. at_places int_from_zero (nat p)),
      dl_RoundDown = (\<lambda>p. at_places int_to_zero (nat p)),
      dl_RoundCeil = (\<lambda>p. at_places ceiling (nat p)),
      dl_RoundFloor = (\<lambda>p. at_places floor (nat p)),
      dl_Shift = (\<lambda>x n. if 0 \<le> n then x * 10 ^ nat n else x / 10 ^ nat (- n)),
      dl_String = (\<lambda>x. case quotient_of x of (n, d) \<Rightarrow>
         (if n < 0 then ''-'' else '''') @ show_nat (nat \<bar>n\<bar>) @ ''/'' @ show_nat (nat d))\<rparr>"

section \<open>Rounding to a grid\<close>

text \<open>The multiples of the smallest unit at \<open>p\<close> places.\<close>

definition on_grid :: "nat \<Rightarrow> decimal \<Rightarrow> bool" where
  "on_grid p x \<longleftrightarrow> (\<exists>k. x = of_int k / 10 ^ p)"

lemma on_grid_at_places [simp]: "on_grid p (at_places f p x)"
  by (auto simp: on_grid_def at_places_def)

lemma on_grid_0 [simp]: "on_grid p 0"
  unfolding on_grid_def by (rule exI [of _ 0]) simp

lemma on_grid_add: "on_grid p x \<Longrightarrow> on_grid p y \<Longrightarrow> on_grid p (x + y)"
  unfolding on_grid_def by (metis add_divide_distrib of_int_add)

lemma on_grid_uminus: "on_grid p x \<Longrightarrow> on_grid p (- x)"
  unfolding on_grid_def by (metis minus_divide_left of_int_minus)

lemma on_grid_sub: "on_grid p x \<Longrightarrow> on_grid p y \<Longrightarrow> on_grid p (x - y)"
  using on_grid_add [of p x "- y"] on_grid_uminus by simp

lemma on_grid_sum: "(\<And>x. x \<in> set xs \<Longrightarrow> on_grid p (f x)) \<Longrightarrow> on_grid p (sum_list (map f xs))"
  by (induction xs) (auto intro: on_grid_add)

lemma on_grid_unit [simp]: "on_grid p (1 / 10 ^ p)"
  unfolding on_grid_def by (rule exI [of _ 1]) simp

lemma on_grid_numeral [simp]: "on_grid p 1" "on_grid p (numeral n)"
  unfolding on_grid_def by (rule exI [of _ "10 ^ p"], simp, rule exI [of _ "numeral n * 10 ^ p"], simp)

text \<open>Two grid points less than a unit apart are equal.\<close>

lemma on_grid_lt_unit:
  assumes "on_grid p x" and "0 \<le> x" and "x < 1 / 10 ^ p"
  shows "x = 0"
proof -
  from assms(1) obtain k where k: "x = of_int k / 10 ^ p" by (auto simp: on_grid_def)
  have e: "x * 10 ^ p = of_int k" using k by simp
  have "0 \<le> x * 10 ^ p" using assms(2) by simp
  then have "0 \<le> k" unfolding e by simp
  have "x * 10 ^ p < 1" using assms(3) by (simp add: pos_less_divide_eq)
  then have "k < 1" unfolding e by simp
  with \<open>0 \<le> k\<close> have "k = 0" by simp
  then show ?thesis using k by simp
qed

lemma on_grid_ge_unit: "on_grid p x \<Longrightarrow> 0 < x \<Longrightarrow> 1 / 10 ^ p \<le> x"
  using on_grid_lt_unit [of p x] by fastforce

lemma on_grid_scale: "on_grid p x \<Longrightarrow> \<exists>k. x * 10 ^ p = of_int k"
  by (auto simp: on_grid_def)

lemma at_places_fixed:
  assumes "\<And>k. f (of_int k) = k" and "on_grid p x"
  shows "at_places f p x = x"
  using assms by (auto simp: at_places_def on_grid_def)

lemma at_places_mono:
  assumes "\<And>x y. x \<le> y \<Longrightarrow> f x \<le> f y" and "x \<le> y"
  shows "at_places f p x \<le> at_places f p y"
  using assms by (simp add: at_places_def divide_right_mono)

lemma int_half_away_of_int [simp]: "int_half_away (of_int k) = k"
proof -
  have "\<lfloor>of_int j + 1/2 :: rat\<rfloor> = j" for j by linarith
  from this [of k] this [of "- k"] show ?thesis by (simp add: int_half_away_def)
qed

lemma int_to_zero_of_int [simp]: "int_to_zero (of_int k) = k"
  by (simp add: int_to_zero_def)

lemma int_from_zero_of_int [simp]: "int_from_zero (of_int k) = k"
  by (simp add: int_from_zero_def)

lemma int_half_away_mono: "x \<le> y \<Longrightarrow> int_half_away x \<le> int_half_away y"
  unfolding int_half_away_def by (auto; linarith)

lemma at_places_0: "at_places int_half_away p 0 = 0"
  by (rule at_places_fixed) simp_all

lemma int_half_away_near: "\<bar>of_int (int_half_away x) - x\<bar> \<le> 1/2"
proof (cases "x < 0")
  case True
  have "\<bar>of_int \<lfloor>- x + 1/2\<rfloor> + x\<bar> \<le> 1/2" by linarith
  then show ?thesis using True by (simp only: int_half_away_def if_True of_int_minus)
next
  case False
  have "\<bar>of_int \<lfloor>x + 1/2\<rfloor> - x\<bar> \<le> 1/2" by linarith
  then show ?thesis using False by (simp only: int_half_away_def if_False)
qed

lemma int_to_zero_nonneg: "0 \<le> x \<Longrightarrow> 0 \<le> int_to_zero x \<and> of_int (int_to_zero x) \<le> x \<and> x < of_int (int_to_zero x) + 1"
  unfolding int_to_zero_def by (auto; linarith)

lemma at_places_near: "\<bar>at_places int_half_away p x - x\<bar> \<le> 1 / (2 * 10 ^ p)"
proof -
  have "at_places int_half_away p x - x = (of_int (int_half_away (x * 10 ^ p)) - x * 10 ^ p) / 10 ^ p"
    by (simp add: at_places_def diff_divide_distrib)
  also have "\<bar>\<dots>\<bar> = \<bar>of_int (int_half_away (x * 10 ^ p)) - x * 10 ^ p\<bar> / 10 ^ p" by simp
  also have "\<dots> \<le> (1/2) / 10 ^ p" by (intro divide_right_mono int_half_away_near) simp
  finally show ?thesis by simp
qed

lemma decimal_ok_std: "decimal_ok std_decimal_lib"
proof -
  have "\<bar>at_places int_half_away div_places z - z\<bar> \<le> 1 / 10 ^ div_places" for z
    using at_places_near [of div_places z] by (rule order_trans) (simp add: divide_simps)
  moreover have "at_places int_half_away div_places (of_int k / 10 ^ div_places) = of_int k / 10 ^ div_places" for k
    by (rule at_places_fixed) (auto simp: on_grid_def)
  moreover have "0 \<le> at_places int_half_away div_places (x / y)" if "0 \<le> x" "0 < y" for x y :: rat
    using at_places_mono [of int_half_away 0 "x / y", OF int_half_away_mono] that by (simp add: at_places_0)
  ultimately show ?thesis by (simp add: decimal_ok_def std_decimal_lib_def)
qed

lemma dl_rounding:
  assumes "decimal_ok L" and "0 \<le> n"
  shows "dl_Round L n x = at_places int_half_away (nat n) x"
    and "dl_RoundUp L n x = at_places int_from_zero (nat n) x"
    and "dl_RoundDown L n x = at_places int_to_zero (nat n) x"
    and "dl_RoundCeil L n x = at_places ceiling (nat n) x"
    and "dl_RoundFloor L n x = at_places floor (nat n) x"
proof -
  have "n = int (nat n)" using assms(2) by simp
  then show "dl_Round L n x = at_places int_half_away (nat n) x"
    "dl_RoundUp L n x = at_places int_from_zero (nat n) x"
    "dl_RoundDown L n x = at_places int_to_zero (nat n) x"
    "dl_RoundCeil L n x = at_places ceiling (nat n) x"
    "dl_RoundFloor L n x = at_places floor (nat n) x"
    using assms(1) unfolding decimal_ok_def by metis+
qed

lemma div_error: "decimal_ok L \<Longrightarrow> y \<noteq> 0 \<Longrightarrow> \<bar>dl_Div L x y - x / y\<bar> \<le> 1 / 10 ^ div_places"
  by (simp add: decimal_ok_def)

lemma div_nonneg: "decimal_ok L \<Longrightarrow> 0 \<le> x \<Longrightarrow> 0 < y \<Longrightarrow> 0 \<le> dl_Div L x y"
  by (simp add: decimal_ok_def)

lemma div_exact: "decimal_ok L \<Longrightarrow> y \<noteq> 0 \<Longrightarrow> on_grid div_places (x / y) \<Longrightarrow> dl_Div L x y = x / y"
  unfolding decimal_ok_def on_grid_def by blast

end
