(* ===== verification/UnitConfig.thy ===== *)
theory UnitConfig
  imports Decimal "HOL-Library.Word"
begin

text \<open>
  Unit configuration (openmeter/productcatalog/unitconfig): the conversion of a metered quantity
  into a billing quantity, its validation, its equality and its rounding.
\<close>

text \<open>The string types hold any string; the known values are constructors.\<close>

datatype UnitConfigOperation = OpMultiply | OpDivide | OtherOperation string

datatype UnitConfigRoundingMode = RoundNone | RoundEmpty | RoundCeiling | RoundFloorMode | RoundHalfUp
  | OtherRounding string

record UnitConfig =
  uc_Operation :: UnitConfigOperation
  uc_ConversionFactor :: decimal
  uc_Rounding :: UnitConfigRoundingMode
  uc_Precision :: int
  uc_DisplayUnit :: "string option"

definition Operation_Validate :: "UnitConfigOperation \<Rightarrow> error option" where
  "Operation_Validate op =
     (if op \<notin> {OpMultiply, OpDivide} then Some (Err ''invalid unit config operation'') else None)"

definition Rounding_IsNone :: "UnitConfigRoundingMode \<Rightarrow> bool" where
  "Rounding_IsNone r \<longleftrightarrow> r = RoundEmpty \<or> r = RoundNone"

definition Rounding_Validate :: "UnitConfigRoundingMode \<Rightarrow> error option" where
  "Rounding_Validate r =
     (if r = RoundEmpty then None
      else if r \<notin> {RoundNone, RoundCeiling, RoundFloorMode, RoundHalfUp}
      then Some (Err ''invalid unit config rounding mode'') else None)"

definition UC_Validate :: "UnitConfig option \<Rightarrow> error option" where
  "UC_Validate cfg =
     (case cfg of None \<Rightarrow> None
      | Some c \<Rightarrow> nillable_validation (join_errors
          (err_of (Wrap ''operation'') (Operation_Validate (uc_Operation c)) @
           err_if (dec_Sign (uc_ConversionFactor c) \<le> 0)
             (Err ''conversion_factor must be greater than zero'') @
           err_of (Wrap ''rounding'') (Rounding_Validate (uc_Rounding c)) @
           (if \<not> Rounding_IsNone (uc_Rounding c) then
              err_if (uc_Precision c < 0) (Err ''precision must not be negative'') @
              err_if (uc_Precision c > 2 ^ 31 - 1) (Err ''precision overflows int32'')
            else []))))"

definition FromPtr_string :: "string option \<Rightarrow> string" where
  "FromPtr_string s = (case s of None \<Rightarrow> [] | Some x \<Rightarrow> x)"

definition UC_Equal :: "UnitConfig option \<Rightarrow> UnitConfig option \<Rightarrow> bool" where
  "UC_Equal cfg cfg' =
     (case (cfg, cfg') of
        (None, None) \<Rightarrow> True
      | (Some c, Some v) \<Rightarrow>
          if uc_Operation c \<noteq> uc_Operation v then False
          else if uc_ConversionFactor c \<noteq> uc_ConversionFactor v then False
          else if Rounding_IsNone (uc_Rounding c) \<noteq> Rounding_IsNone (uc_Rounding v) then False
          else if \<not> Rounding_IsNone (uc_Rounding c) \<and>
                  (uc_Rounding c \<noteq> uc_Rounding v \<or> uc_Precision c \<noteq> uc_Precision v) then False
          else if FromPtr_string (uc_DisplayUnit c) \<noteq> FromPtr_string (uc_DisplayUnit v) then False
          else True
      | _ \<Rightarrow> False)"

text \<open>\<open>int32(c.Precision)\<close> keeps the low 32 bits.\<close>

definition int32_of :: "int \<Rightarrow> int" where
  "int32_of n = sint (word_of_int n :: 32 word)"

definition UC_Apply :: "decimal_lib \<Rightarrow> UnitConfig option \<Rightarrow> decimal \<Rightarrow> decimal \<times> decimal" where
  "UC_Apply L cfg raw =
     (case cfg of None \<Rightarrow> (raw, raw)
      | Some c \<Rightarrow>
          (case (case uc_Operation c of
                   OpMultiply \<Rightarrow> Some (raw * uc_ConversionFactor c)
                 | OpDivide \<Rightarrow> Some (dl_Div L raw (uc_ConversionFactor c))
                 | OtherOperation _ \<Rightarrow> None) of
             None \<Rightarrow> (raw, raw)
           | Some converted \<Rightarrow>
               let places = int32_of (uc_Precision c)
               in (converted,
                   case uc_Rounding c of
                     RoundCeiling \<Rightarrow> dl_RoundCeil L places converted
                   | RoundFloorMode \<Rightarrow> dl_RoundFloor L places converted
                   | RoundHalfUp \<Rightarrow> dl_Round L places converted
                   | _ \<Rightarrow> converted)))"

definition UC_Clone :: "UnitConfig \<Rightarrow> UnitConfig" where
  "UC_Clone c = \<lparr>uc_Operation = uc_Operation c, uc_ConversionFactor = uc_ConversionFactor c,
     uc_Rounding = uc_Rounding c, uc_Precision = uc_Precision c,
     uc_DisplayUnit = (case uc_DisplayUnit c of None \<Rightarrow> None | Some u \<Rightarrow> Some u)\<rparr>"

section \<open>Facts\<close>

lemma UC_Clone_id [simp]: "UC_Clone c = c"
  by (cases "uc_DisplayUnit c") (simp_all add: UC_Clone_def)

lemma UC_Equal_refl [simp]: "UC_Equal c c"
  by (cases c) (simp_all add: UC_Equal_def)

lemma UC_Equal_sym: "UC_Equal c v \<Longrightarrow> UC_Equal v c"
  by (auto simp: UC_Equal_def split: option.splits if_splits)

lemma UC_Equal_trans: "UC_Equal c v \<Longrightarrow> UC_Equal v w \<Longrightarrow> UC_Equal c w"
  by (auto simp: UC_Equal_def split: option.splits if_splits)

text \<open>Equal configurations convert alike.\<close>

lemma UC_Apply_Equal:
  assumes "UC_Equal c v"
  shows "UC_Apply L c x = UC_Apply L v x"
proof (cases c)
  case None
  then show ?thesis using assms by (cases v) (simp_all add: UC_Equal_def)
next
  case (Some a)
  then obtain b where b: "v = Some b" using assms by (cases v) (simp_all add: UC_Equal_def)
  have o: "uc_Operation a = uc_Operation b" "uc_ConversionFactor a = uc_ConversionFactor b"
    and n: "Rounding_IsNone (uc_Rounding a) = Rounding_IsNone (uc_Rounding b)"
    and r: "\<not> Rounding_IsNone (uc_Rounding a) \<Longrightarrow> uc_Rounding a = uc_Rounding b \<and> uc_Precision a = uc_Precision b"
    using assms Some b by (auto simp: UC_Equal_def split: if_splits)
  show ?thesis
  proof (cases "Rounding_IsNone (uc_Rounding a)")
    case True
    then show ?thesis using n o Some b
      by (cases "uc_Operation b"; cases "uc_Rounding a"; cases "uc_Rounding b")
         (simp_all add: UC_Apply_def Rounding_IsNone_def)
  next
    case False
    then show ?thesis using r o Some b by (cases "uc_Operation b") (simp_all add: UC_Apply_def)
  qed
qed

lemma int32_of_id: "0 \<le> n \<Longrightarrow> n \<le> 2 ^ 31 - 1 \<Longrightarrow> int32_of n = n"
  by (simp add: int32_of_def sint_sbintrunc' signed_take_bit_int_eq_self)

text \<open>
  What rounding does to a valid configuration: the invoiced quantity is the converted one moved
  to the configured number of places in the configured direction.
\<close>

lemma UC_Apply_ceiling:
  assumes "decimal_ok L" and "UC_Validate (Some c) = None" and "uc_Rounding c = RoundCeiling"
  shows "snd (UC_Apply L (Some c) x) = at_places ceiling (nat (uc_Precision c)) (fst (UC_Apply L (Some c) x))"
proof -
  have p: "0 \<le> uc_Precision c" "uc_Precision c \<le> 2 ^ 31 - 1"
    and op: "uc_Operation c \<in> {OpMultiply, OpDivide}"
    using assms(2,3)
    by (auto simp: UC_Validate_def Rounding_IsNone_def Operation_Validate_def split: if_splits)
  then show ?thesis
    using assms(3) dl_rounding(4) [OF assms(1) p(1)] by (auto simp: UC_Apply_def int32_of_id [OF p])
qed

lemma at_places_ceiling_bounds: "x \<le> at_places ceiling p x" "at_places ceiling p x < x + 1 / 10 ^ p"
proof -
  have e: "x = x * 10 ^ p / 10 ^ p" by simp
  have "x * 10 ^ p \<le> of_int \<lceil>x * 10 ^ p\<rceil>" by linarith
  then show "x \<le> at_places ceiling p x"
    unfolding at_places_def by (simp add: pos_le_divide_eq)
  have "of_int \<lceil>x * 10 ^ p\<rceil> < x * 10 ^ p + 1" by linarith
  then have "at_places ceiling p x < (x * 10 ^ p + 1) / 10 ^ p"
    unfolding at_places_def by (intro divide_strict_right_mono) simp_all
  then show "at_places ceiling p x < x + 1 / 10 ^ p" by (simp add: add_divide_distrib)
qed

section \<open>Properties\<close>

text \<open>
  \<open>Equal\<close> is the right test for reusing balances: configurations it calls equal convert and
  invoice every quantity alike, although it ignores the difference between no rounding and an empty
  rounding mode, and the precision when nothing is rounded.
\<close>

theorem UC_Equal_converts_alike:
  assumes "UC_Equal c v"
  shows "UC_Apply L c raw = UC_Apply L v raw"
  using UC_Apply_Equal [OF assms] .

theorem UC_Equal_converts_alike_witness:
  "UC_Apply std_decimal_lib (Some \<lparr>uc_Operation = OpDivide, uc_ConversionFactor = 4, uc_Rounding = RoundNone,
      uc_Precision = 2, uc_DisplayUnit = None\<rparr>) 10 =
   UC_Apply std_decimal_lib (Some \<lparr>uc_Operation = OpDivide, uc_ConversionFactor = 4, uc_Rounding = RoundEmpty,
      uc_Precision = 7, uc_DisplayUnit = Some []\<rparr>) 10"
  by (rule UC_Equal_converts_alike) (simp add: UC_Equal_def Rounding_IsNone_def FromPtr_string_def)

text \<open>
  A valid configuration that rounds up never invoices less than was converted, and less than one
  unit of its precision more: nothing is given away and at most one unit is added.
\<close>

theorem UC_Apply_ceiling_bounds:
  assumes "decimal_ok L" and "UC_Validate (Some c) = None" and "uc_Rounding c = RoundCeiling"
    and "UC_Apply L (Some c) raw = (converted, invoiced)"
  shows "converted \<le> invoiced \<and> invoiced < converted + 1 / 10 ^ nat (uc_Precision c)"
  using UC_Apply_ceiling [OF assms(1-3), of raw] at_places_ceiling_bounds [where x = converted and p = "nat (uc_Precision c)"] assms(4)
  by simp

theorem UC_Apply_ceiling_bounds_witness:
  "\<exists>converted invoiced. UC_Apply std_decimal_lib (Some \<lparr>uc_Operation = OpDivide, uc_ConversionFactor = 3,
      uc_Rounding = RoundCeiling, uc_Precision = 2, uc_DisplayUnit = None\<rparr>) 10 = (converted, invoiced) \<and>
    converted \<le> invoiced \<and> invoiced < converted + 1 / 100"
proof -
  let ?c = "\<lparr>uc_Operation = OpDivide, uc_ConversionFactor = 3, uc_Rounding = RoundCeiling,
      uc_Precision = 2, uc_DisplayUnit = None\<rparr>"
  obtain x y where a: "UC_Apply std_decimal_lib (Some ?c) 10 = (x, y)" by (rule prod.exhaust)
  have "UC_Validate (Some ?c) = None"
    by (simp add: UC_Validate_def Operation_Validate_def Rounding_Validate_def Rounding_IsNone_def
        nillable_validation_def join_errors_def err_of_def err_if_def)
  then show ?thesis using UC_Apply_ceiling_bounds [OF decimal_ok_std _ _ a] a by auto
qed

end
