(* ===== verification/Grant.thy ===== *)
theory Grant
  imports Recurrence Floats UnitConfig "HOL-Library.List_Lexorder" "HOL-Library.Char_ord"
begin

text \<open>
  Credit grants (openmeter/credit/grant), the map of grant balances and the snapshots the engine
  starts from and returns (openmeter/credit/balance), and the order in which grants burn down
  (openmeter/credit/engine/grant.go).
\<close>

section \<open>Grants\<close>

datatype ExpirationPeriodDuration = ExpHour | ExpDay | ExpWeek | ExpMonth | ExpYear | ExpOther string

record ExpirationPeriod =
  exp_Count :: "32 word"
  exp_Duration :: ExpirationPeriodDuration

text \<open>\<open>time.Hour * time.Duration(c.Count)\<close> is an \<open>int64\<close>, \<open>c.Count*7\<close> a \<open>uint32\<close>: both wrap.\<close>

definition EP_GetExpiration :: "ExpirationPeriod \<Rightarrow> time \<Rightarrow> time" where
  "EP_GetExpiration c t =
     (case exp_Duration c of
        ExpHour \<Rightarrow> t + wrap64 (nsHour * uint (exp_Count c))
      | ExpDay \<Rightarrow> time_AddDate t 0 0 (uint (exp_Count c))
      | ExpWeek \<Rightarrow> time_AddDate t 0 0 (uint (exp_Count c * 7))
      | ExpMonth \<Rightarrow> time_AddDate t 0 (uint (exp_Count c)) 0
      | ExpYear \<Rightarrow> time_AddDate t (uint (exp_Count c)) 0 0
      | ExpOther _ \<Rightarrow> 0)"

text \<open>The embedded models' timestamps, without annotations and metadata, which the engine never reads.\<close>

record Grant =
  gr_ID :: string
  gr_OwnerID :: string
  gr_CreatedAt :: time
  gr_DeletedAt :: "time option"
  gr_Amount :: rat
  gr_Priority :: "8 word"
  gr_EffectiveAt :: time
  gr_Expiration :: "ExpirationPeriod option"
  gr_ExpiresAt :: "time option"
  gr_VoidedAt :: "time option"
  gr_ResetMaxRollover :: rat
  gr_ResetMinRollover :: rat
  gr_Recurrence :: "Recurrence option"

definition GetExpiration :: "Grant \<Rightarrow> time option" where
  "GetExpiration g = map_option (\<lambda>e. EP_GetExpiration e (gr_EffectiveAt g)) (gr_Expiration g)"

text \<open>Bounding the end of the effective period by a deletion or a voiding.\<close>

definition bound_to :: "time option \<Rightarrow> time option \<Rightarrow> time option" where
  "bound_to p_To x =
     (case x of None \<Rightarrow> p_To
      | Some d \<Rightarrow> (case p_To of None \<Rightarrow> x | Some e \<Rightarrow> if d < e then x else p_To))"

definition GetEffectivePeriod :: "Grant \<Rightarrow> StartBoundedPeriod" where
  "GetEffectivePeriod g =
     (let to = bound_to (bound_to (gr_ExpiresAt g) (gr_DeletedAt g)) (gr_VoidedAt g);
          to' = (case to of None \<Rightarrow> None
                 | Some e \<Rightarrow> if e < gr_EffectiveAt g then Some (gr_EffectiveAt g) else to)
      in \<lparr>sb_From = gr_EffectiveAt g, sb_To = to'\<rparr>)"

definition ActiveAt :: "Grant \<Rightarrow> time \<Rightarrow> bool" where
  "ActiveAt g t = SB_Contains (GetEffectivePeriod g) t"

definition RecurrenceBalance :: "Grant \<Rightarrow> rat \<Rightarrow> rat" where
  "RecurrenceBalance g currentBalance =
     (case gr_Recurrence g of None \<Rightarrow> currentBalance | Some _ \<Rightarrow> gr_Amount g)"

definition RolloverBalance :: "Grant \<Rightarrow> rat \<Rightarrow> rat" where
  "RolloverBalance g endingBalance =
     min (gr_ResetMaxRollover g) (max (gr_ResetMinRollover g) endingBalance)"

lemma ActiveAt_iff:
  "ActiveAt g t \<longleftrightarrow> gr_EffectiveAt g \<le> t \<and> to_ok (gr_ExpiresAt g) t \<and> to_ok (gr_DeletedAt g) t \<and>
     to_ok (gr_VoidedAt g) t"
  by (auto simp: ActiveAt_def SB_Contains_def GetEffectivePeriod_def bound_to_def Let_def if_set_def
      split: option.splits if_splits)

lemma GetEffectivePeriod_valid: "\<not> IsZeroTime (gr_EffectiveAt g) \<Longrightarrow> SB_Validate (GetEffectivePeriod g) = None"
  by (auto simp: SB_Validate_def GetEffectivePeriod_def Let_def if_set_def split: option.splits)

lemma RolloverBalance_bounds:
  assumes "gr_ResetMinRollover g \<le> gr_ResetMaxRollover g"
  shows "gr_ResetMinRollover g \<le> RolloverBalance g b" "RolloverBalance g b \<le> gr_ResetMaxRollover g"
  using assms by (auto simp: RolloverBalance_def)

section \<open>Balances\<close>

text \<open>A Go map of balances; reading a missing key yields 0.\<close>

type_synonym BalanceMap = "string \<Rightarrow> rat option"

definition bm_get :: "BalanceMap \<Rightarrow> string \<Rightarrow> rat" where
  "bm_get g k = (case g k of None \<Rightarrow> 0 | Some v \<Rightarrow> v)"

definition BM_Clone :: "BalanceMap \<Rightarrow> BalanceMap" where
  "BM_Clone g = (\<lambda>k. case g k of None \<Rightarrow> None | Some v \<Rightarrow> Some v)"

definition BM_Burn :: "BalanceMap \<Rightarrow> string \<Rightarrow> rat \<Rightarrow> BalanceMap" where
  "BM_Burn g grantID amount = g(grantID \<mapsto> fl64 (bm_get g grantID - amount))"

definition BM_Set :: "BalanceMap \<Rightarrow> string \<Rightarrow> rat \<Rightarrow> BalanceMap" where
  "BM_Set g grantID amount = g(grantID \<mapsto> amount)"

text \<open>The order in which Go ranges over a map is not specified: \<open>order\<close> lists the keys.\<close>

definition BM_Balance :: "string list \<Rightarrow> BalanceMap \<Rightarrow> rat" where
  "BM_Balance order g = foldl (\<lambda>balance k. fl64 (balance + bm_get g k)) 0 order"

definition ExactlyForGrants :: "BalanceMap \<Rightarrow> Grant list \<Rightarrow> bool" where
  "ExactlyForGrants g grants =
     (let gmap = gr_ID ` set grants
      in if card gmap \<noteq> card (dom g) then False else gmap \<subseteq> dom g)"

record SnapshottedUsage =
  su_Usage :: rat
  su_Since :: time

definition SU_IsZero :: "SnapshottedUsage \<Rightarrow> bool" where
  "SU_IsZero s \<longleftrightarrow> su_Usage s = 0 \<and> IsZeroTime (su_Since s)"

record UsageSnapshot =
  us_Usage :: rat
  us_TotalGrantUsage :: rat

record Snapshot =
  sn_Usage :: SnapshottedUsage
  sn_UsageSnapshot :: "UsageSnapshot option"
  sn_Balances :: BalanceMap
  sn_Overage :: rat
  sn_At :: time
  sn_UnitConfig :: "UnitConfig option"

definition SN_Clone :: "Snapshot \<Rightarrow> Snapshot" where
  "SN_Clone s = s\<lparr>sn_Balances := BM_Clone (sn_Balances s),
     sn_UsageSnapshot := (case sn_UsageSnapshot s of None \<Rightarrow> None | Some u \<Rightarrow> Some u),
     sn_UnitConfig := map_option UC_Clone (sn_UnitConfig s)\<rparr>"

definition SN_Balance :: "string list \<Rightarrow> Snapshot \<Rightarrow> rat" where
  "SN_Balance order s = BM_Balance order (sn_Balances s)"

definition NewStartingSnapshot :: "Grant list \<Rightarrow> time \<Rightarrow> Snapshot" where
  "NewStartingSnapshot grants tm =
     \<lparr>sn_Usage = \<lparr>su_Usage = 0, su_Since = tm\<rparr>,
      sn_UsageSnapshot = Some \<lparr>us_Usage = 0, us_TotalGrantUsage = 0\<rparr>,
      sn_Balances = foldl (\<lambda>balances g. if ActiveAt g tm then BM_Set balances (gr_ID g) (gr_Amount g)
                                       else BM_Set balances (gr_ID g) 0) Map.empty grants,
      sn_Overage = 0, sn_At = tm, sn_UnitConfig = None\<rparr>"

lemma BM_Clone_id [simp]: "BM_Clone g = g"
  by (rule ext) (simp add: BM_Clone_def split: option.splits)

lemma SN_Clone_id [simp]: "SN_Clone s = s"
  by (cases "sn_UsageSnapshot s"; cases "sn_UnitConfig s") (simp_all add: SN_Clone_def)

lemma bm_get_upd [simp]: "bm_get (g(k \<mapsto> v)) k' = (if k' = k then v else bm_get g k')"
  by (simp add: bm_get_def)

lemma bm_get_Set [simp]: "bm_get (BM_Set g k v) k' = (if k' = k then v else bm_get g k')"
  by (simp add: BM_Set_def)

lemma dom_BM_Set [simp]: "dom (BM_Set g k v) = insert k (dom g)"
  by (simp add: BM_Set_def)

lemma dom_BM_Burn [simp]: "dom (BM_Burn g k v) = insert k (dom g)"
  by (simp add: BM_Burn_def)

lemma bm_get_Burn [simp]: "bm_get (BM_Burn g k v) k' = (if k' = k then fl64 (bm_get g k - v) else bm_get g k')"
  by (simp add: BM_Burn_def)

lemma ExactlyForGrants_iff:
  "finite (dom g) \<Longrightarrow> ExactlyForGrants g grants \<longleftrightarrow> dom g = gr_ID ` set grants"
  unfolding ExactlyForGrants_def Let_def by (metis card_subset_eq subset_refl)

lemma dom_NewStartingSnapshot: "dom (sn_Balances (NewStartingSnapshot grants tm)) = gr_ID ` set grants"
proof -
  have "dom (foldl (\<lambda>b g. if ActiveAt g tm then BM_Set b (gr_ID g) (gr_Amount g) else BM_Set b (gr_ID g) 0) m grants)
      = dom m \<union> gr_ID ` set grants" for m
    by (induction grants arbitrary: m) auto
  from this [of Map.empty] show ?thesis by (simp add: NewStartingSnapshot_def)
qed

lemma NewStartingSnapshot_exact: "ExactlyForGrants (sn_Balances (NewStartingSnapshot grants tm)) grants"
  by (simp add: ExactlyForGrants_iff dom_NewStartingSnapshot)

section \<open>Burn-down order\<close>

text \<open>\<open>Time.Unix\<close>: whole seconds since 1970.\<close>

definition Unix :: "time \<Rightarrow> int" where
  "Unix t = t div nsSecond - 62135596800"

definition compareGrantsByBurnDownOrder :: "Grant \<Rightarrow> Grant \<Rightarrow> int" where
  "compareGrantsByBurnDownOrder i j =
     (let priorityOrder = compare_values (uint (gr_Priority i)) (uint (gr_Priority j))
      in if priorityOrder \<noteq> 0 then priorityOrder
         else let iExpiration = GetExpiration i; jExpiration = GetExpiration j
         in if iExpiration = None \<and> jExpiration \<noteq> None then 1
            else if iExpiration \<noteq> None \<and> jExpiration = None then -1
            else let expirationOrder = (case (iExpiration, jExpiration) of
                       (Some a, Some b) \<Rightarrow> compare_values (Unix a) (Unix b) | _ \<Rightarrow> 0)
            in if expirationOrder \<noteq> 0 then expirationOrder
               else let creationOrder = compare_values (gr_CreatedAt i) (gr_CreatedAt j)
               in if creationOrder \<noteq> 0 then creationOrder
                  else compare_values (gr_ID i) (gr_ID j))"

definition PrioritizeGrants :: "Grant list \<Rightarrow> Grant list" where
  "PrioritizeGrants grants = sort_by compareGrantsByBurnDownOrder grants"

text \<open>A comparison that falls back to a second one on ties is consistent if both are.\<close>

definition then_compare :: "('a \<Rightarrow> 'a \<Rightarrow> int) \<Rightarrow> ('a \<Rightarrow> 'a \<Rightarrow> int) \<Rightarrow> 'a \<Rightarrow> 'a \<Rightarrow> int" where
  "then_compare c1 c2 a b = (if c1 a b \<noteq> 0 then c1 a b else c2 a b)"

lemma comparator_then:
  assumes c1: "comparator c1" and c2: "comparator c2"
  shows "comparator (then_compare c1 c2)"
proof
  fix a b c
  show "then_compare c1 c2 a b < 0 \<longleftrightarrow> 0 < then_compare c1 c2 b a"
    using comparator.sym [OF c1, of a b] comparator.sym [OF c2, of a b] comparator.eq_sym [OF c1, of a b]
    by (simp add: then_compare_def)
  assume ab: "then_compare c1 c2 a b \<le> 0" and bc: "then_compare c1 c2 b c \<le> 0"
  then have le: "c1 a b \<le> 0" "c1 b c \<le> 0" by (auto simp: then_compare_def split: if_splits)
  then have ac: "c1 a c \<le> 0" using comparator.trans [OF c1] by blast
  show "then_compare c1 c2 a c \<le> 0"
  proof (cases "c1 a c = 0")
    case True
    then have "c1 c a \<le> 0" using comparator.eq_sym [OF c1, of a c] by simp
    then have "c1 b a \<le> 0" "c1 c b \<le> 0" using le comparator.trans [OF c1] by blast+
    then have "c1 a b = 0" "c1 b c = 0"
      using le comparator.sym [OF c1, of a b] comparator.sym [OF c1, of b c] by auto
    then show ?thesis using True ab bc comparator.trans [OF c2, of a b c] by (simp add: then_compare_def)
  qed (use ac in \<open>simp add: then_compare_def\<close>)
qed

text \<open>The expiration ranks as infinitely late when there is none.\<close>

definition expiration_rank :: "Grant \<Rightarrow> int \<times> int" where
  "expiration_rank g = (case GetExpiration g of None \<Rightarrow> (1, 0) | Some e \<Rightarrow> (0, Unix e))"

definition compare_expirations :: "Grant \<Rightarrow> Grant \<Rightarrow> int" where
  "compare_expirations = then_compare
     (\<lambda>i j. compare_values (fst (expiration_rank i)) (fst (expiration_rank j)))
     (\<lambda>i j. compare_values (snd (expiration_rank i)) (snd (expiration_rank j)))"

lemma compareGrants_alt:
  "compareGrantsByBurnDownOrder =
     then_compare (\<lambda>i j. compare_values (uint (gr_Priority i)) (uint (gr_Priority j)))
       (then_compare compare_expirations
         (then_compare (\<lambda>i j. compare_values (gr_CreatedAt i) (gr_CreatedAt j))
           (\<lambda>i j. compare_values (gr_ID i) (gr_ID j))))"
proof (intro ext)
  fix i j
  show "compareGrantsByBurnDownOrder i j =
     then_compare (\<lambda>i j. compare_values (uint (gr_Priority i)) (uint (gr_Priority j)))
       (then_compare compare_expirations
         (then_compare (\<lambda>i j. compare_values (gr_CreatedAt i) (gr_CreatedAt j))
           (\<lambda>i j. compare_values (gr_ID i) (gr_ID j)))) i j"
    by (cases "GetExpiration i"; cases "GetExpiration j")
       (simp_all add: compareGrantsByBurnDownOrder_def then_compare_def compare_expirations_def
         expiration_rank_def compare_values_def Let_def)
qed

interpretation burn_down: comparator compareGrantsByBurnDownOrder
  unfolding compareGrants_alt compare_expirations_def
  by (intro comparator_then key_comparator.comparator_axioms)

lemma set_PrioritizeGrants [simp]: "set (PrioritizeGrants gs) = set gs"
  by (simp add: PrioritizeGrants_def)

lemma mset_PrioritizeGrants [simp]: "mset (PrioritizeGrants gs) = mset gs"
  by (simp add: PrioritizeGrants_def)

lemma distinct_ids_PrioritizeGrants [simp]:
  "distinct (map gr_ID (PrioritizeGrants gs)) = distinct (map gr_ID gs)"
  by (metis mset_PrioritizeGrants mset_map mset_eq_imp_distinct_iff)

text \<open>A grant with the given ID, amount and priority, always effective, for concrete instances.\<close>

definition plain_grant :: "string \<Rightarrow> rat \<Rightarrow> 8 word \<Rightarrow> Grant" where
  "plain_grant i amount prio = \<lparr>gr_ID = i, gr_OwnerID = ''owner'', gr_CreatedAt = 1, gr_DeletedAt = None,
     gr_Amount = amount, gr_Priority = prio, gr_EffectiveAt = 1, gr_Expiration = None, gr_ExpiresAt = None,
     gr_VoidedAt = None, gr_ResetMaxRollover = amount, gr_ResetMinRollover = 0, gr_Recurrence = None\<rparr>"

section \<open>Properties\<close>

text \<open>
  Burn-down order: \<open>PrioritizeGrants\<close> permutes the grants into an order in which a grant never
  precedes one that the precedence (priority number, then expiration with no expiration last,
  then creation, then ID) puts strictly before it, and it is idempotent.
\<close>

theorem PrioritizeGrants_sorted:
  "mset (PrioritizeGrants gs) = mset gs \<and>
   sorted_wrt (\<lambda>i j. compareGrantsByBurnDownOrder i j \<le> 0) (PrioritizeGrants gs) \<and>
   PrioritizeGrants (PrioritizeGrants gs) = PrioritizeGrants gs"
  unfolding PrioritizeGrants_def
  by (simp add: burn_down.sorted_sort_by burn_down.sorted_idem)

text \<open>
  A grant is active exactly in the half-open interval from \<open>EffectiveAt\<close> to the earliest of
  its expiration, deletion and voiding.
\<close>

theorem ActiveAt_interval:
  "ActiveAt g t = (gr_EffectiveAt g \<le> t \<and>
     (case gr_ExpiresAt g of None \<Rightarrow> True | Some e \<Rightarrow> t < e) \<and>
     (case gr_DeletedAt g of None \<Rightarrow> True | Some e \<Rightarrow> t < e) \<and>
     (case gr_VoidedAt g of None \<Rightarrow> True | Some e \<Rightarrow> t < e))"
  by (simp add: ActiveAt_iff to_ok_def)

end
