(* ===== verification/BurnDown.thy ===== *)
theory BurnDown
  imports Grant
begin

text \<open>
  The burn-down itself (openmeter/credit/engine/run.go, \<open>burnDownGrants\<close>): usage is taken from the
  grants in the given order until it is used up; what is left is the overage. Balances and
  usages are floats, the running remainder is a decimal.
\<close>

datatype GrantUsageTerminationReason = GrantExhausted | SegmentTermination

record GrantUsage =
  gu_GrantID :: string
  gu_Usage :: rat
  gu_TerminationReason :: GrantUsageTerminationReason

text \<open>\<open>GrantUsages.Sum\<close> (history.go)\<close>

definition GrantUsages_Sum :: "float_lib \<Rightarrow> GrantUsage list \<Rightarrow> rat" where
  "GrantUsages_Sum F u = foldl (\<lambda>total usage. total + NewFromFloat F (gu_Usage usage)) (NewFromFloat F 0) u"

definition burn_step :: "float_lib \<Rightarrow> BalanceMap \<times> GrantUsage list \<times> rat \<Rightarrow> Grant
    \<Rightarrow> BalanceMap \<times> GrantUsage list \<times> rat" where
  "burn_step F = (\<lambda>(balances, uses, exactUsage) grant.
     let grantBalance = bm_get balances (gr_ID grant)
     in if grantBalance = 0 then (balances, uses, exactUsage)
        else let exactBalance = NewFromFloat F grantBalance
        in if exactBalance \<le> exactUsage
           then (BM_Set balances (gr_ID grant) 0,
                 uses @ [\<lparr>gu_GrantID = gr_ID grant, gu_Usage = grantBalance,
                          gu_TerminationReason = GrantExhausted\<rparr>],
                 exactUsage - exactBalance)
           else (BM_Burn balances (gr_ID grant) (InexactFloat64 F exactUsage),
                 uses @ [\<lparr>gu_GrantID = gr_ID grant, gu_Usage = InexactFloat64 F exactUsage,
                          gu_TerminationReason = SegmentTermination\<rparr>],
                 NewFromFloat F 0))"

definition burnDownGrants :: "float_lib \<Rightarrow> BalanceMap \<Rightarrow> Grant list \<Rightarrow> rat
    \<Rightarrow> BalanceMap \<times> GrantUsage list \<times> rat" where
  "burnDownGrants F startingBalances prioritized usage =
     (case foldl (burn_step F) (BM_Clone startingBalances, [], NewFromFloat F usage) prioritized of
        (balances, uses, exactUsage) \<Rightarrow> (balances, uses, InexactFloat64 F exactUsage))"

section \<open>Bounds for all floats\<close>

text \<open>What every step keeps: balances are floats between 0 and what they were, the remainder is not negative.\<close>

definition burn_inv :: "BalanceMap \<Rightarrow> BalanceMap \<times> GrantUsage list \<times> rat \<Rightarrow> bool" where
  "burn_inv b0 = (\<lambda>(b, us, x). (\<forall>k. 0 \<le> bm_get b k \<and> bm_get b k \<le> bm_get b0 k \<and> is_float (bm_get b k)) \<and>
     dom b = dom b0 \<and> 0 \<le> x)"

lemma burn_step_inv:
  assumes ok: "float_ok F" and inv: "burn_inv b0 (b, us, x)"
  shows "burn_inv b0 (burn_step F (b, us, x) g)"
proof -
  note fc = float_conversions.intro [OF ok]
  let ?v = "bm_get b (gr_ID g)" and ?u = "InexactFloat64 F x"
  have v: "0 \<le> ?v" "?v \<le> bm_get b0 (gr_ID g)" "is_float ?v" and x: "0 \<le> x" and d: "dom b = dom b0"
    using inv by (auto simp: burn_inv_def)
  have id: "gr_ID g \<in> dom b0" if "?v \<noteq> 0"
    using that d by (auto simp: bm_get_def split: option.splits)
  consider "?v = 0" | "?v \<noteq> 0" "NewFromFloat F ?v \<le> x" | "?v \<noteq> 0" "x < NewFromFloat F ?v" by linarith
  then show ?thesis
  proof cases
    case 1
    then show ?thesis using inv by (simp add: burn_step_def)
  next
    case 2
    have "0 \<le> bm_get b0 (gr_ID g)" using v(1,2) by linarith
    then show ?thesis using 2 inv d id [OF 2(1)] by (auto simp: burn_step_def burn_inv_def Let_def)
  next
    case 3
    have "0 \<le> ?u" using float_conversions.to_float_mono [OF fc x] float_conversions.to_float_0 [OF fc] by simp
    moreover have "?u \<le> ?v"
      using float_conversions.to_float_mono [OF fc, of x "NewFromFloat F ?v"] 3(2)
        float_conversions.to_float_from [OF fc v(3)] by simp
    ultimately have u: "0 \<le> fl64 (?v - ?u)" "fl64 (?v - ?u) \<le> ?v" using fl64_sub_bounds v(3) by blast+
    have e: "burn_step F (b, us, x) g = (BM_Burn b (gr_ID g) ?u, us @ [\<lparr>gu_GrantID = gr_ID g,
        gu_Usage = ?u, gu_TerminationReason = SegmentTermination\<rparr>], 0)"
      using 3 by (simp add: burn_step_def Let_def float_conversions.from_float_0 [OF fc])
    show ?thesis unfolding e using inv d id [OF 3(1)] u order_trans [OF u(2) v(2)] by (auto simp: burn_inv_def)
  qed
qed

lemma burn_fold_inv:
  assumes ok: "float_ok F"
  shows "burn_inv b0 st \<Longrightarrow> burn_inv b0 (foldl (burn_step F) st gs)"
proof (induction gs arbitrary: st)
  case (Cons g gs)
  obtain b us x where st: "st = (b, us, x)" by (cases st)
  have "burn_inv b0 (burn_step F st g)" using burn_step_inv [OF ok, of b0 b us x g] Cons.prems st by simp
  then show ?case using Cons by simp
qed simp

text \<open>Balances that are representable and not negative.\<close>

definition balances_ok :: "BalanceMap \<Rightarrow> bool" where
  "balances_ok b \<longleftrightarrow> (\<forall>k. 0 \<le> bm_get b k \<and> is_float (bm_get b k))"

lemma burnDown_bounds:
  assumes "float_ok F" and "is_float usage" and "0 \<le> usage" and "balances_ok b"
    and "burnDownGrants F b gs usage = (b', us, overage)"
  shows "balances_ok b'" and "bm_get b' k \<le> bm_get b k" and "dom b' = dom b" and "0 \<le> overage" and "is_float overage"
proof -
  note fc = float_conversions.intro [OF assms(1)]
  have "0 \<le> NewFromFloat F usage"
    using float_conversions.from_float_pos [OF fc assms(2)] assms(3) float_conversions.from_float_0 [OF fc]
    by (cases "usage = 0") auto
  then have "burn_inv b (b, [], NewFromFloat F usage)" using assms(4) by (simp add: burn_inv_def balances_ok_def)
  then have "burn_inv b (foldl (burn_step F) (b, [], NewFromFloat F usage) gs)"
    by (rule burn_fold_inv [OF assms(1)])
  then obtain x where "burn_inv b (b', us, x)" "overage = InexactFloat64 F x"
    using assms(5) by (cases "foldl (burn_step F) (b, [], NewFromFloat F usage) gs") (simp add: burnDownGrants_def)
  then show "balances_ok b'" and "bm_get b' k \<le> bm_get b k" and "dom b' = dom b" and "0 \<le> overage" and "is_float overage"
    using float_conversions.to_float_mono [OF fc, of 0 x] float_conversions.to_float_0 [OF fc]
      float_conversions.to_float_float [OF fc, of x] by (simp_all add: burn_inv_def balances_ok_def)
qed

section \<open>Exact result for whole amounts\<close>

definition total_balance :: "BalanceMap \<Rightarrow> Grant list \<Rightarrow> rat" where
  "total_balance b gs = sum_list (map (\<lambda>g. bm_get b (gr_ID g)) gs)"

text \<open>What a grant contributes: its balance, or what the grants before it leave of the usage.\<close>

definition contribution :: "BalanceMap \<Rightarrow> Grant list \<Rightarrow> rat \<Rightarrow> Grant \<Rightarrow> rat" where
  "contribution b before usage g = min (bm_get b (gr_ID g)) (max 0 (usage - total_balance b before))"

lemma whole53_sub: "whole53 x \<Longrightarrow> whole53 y \<Longrightarrow> 0 \<le> y \<Longrightarrow> y \<le> x \<Longrightarrow> whole53 (x - y)"
  unfolding whole53_def
proof (elim exE conjE)
  fix n m assume a: "x = of_int n" "\<bar>n\<bar> \<le> 2 ^ 53" "y = of_int m" "\<bar>m\<bar> \<le> 2 ^ 53" "0 \<le> y" "y \<le> x"
  then have "0 \<le> m" "m \<le> n" by auto
  then show "\<exists>k. x - y = of_int k \<and> \<bar>k\<bar> \<le> 2 ^ 53" using a by (intro exI [of _ "n - m"]) auto
qed

lemma burn_step_whole:
  assumes ok: "float_ok F" and v: "whole53 (bm_get b (gr_ID g))" "0 \<le> bm_get b (gr_ID g)"
    and x: "whole53 x" "0 \<le> x"
  shows "\<exists>us'. burn_step F (b, us, x) g =
      (if bm_get b (gr_ID g) = 0 then b else b(gr_ID g \<mapsto> bm_get b (gr_ID g) - min (bm_get b (gr_ID g)) x),
       us @ us', max 0 (x - bm_get b (gr_ID g))) \<and>
      sum_list (map gu_Usage us') = min (bm_get b (gr_ID g)) x \<and> (\<forall>u \<in> set us'. gu_GrantID u = gr_ID g)"
proof -
  note fc = float_conversions.intro [OF ok]
  let ?v = "bm_get b (gr_ID g)"
  have c: "NewFromFloat F ?v = ?v" "InexactFloat64 F x = x" "NewFromFloat F 0 = 0"
    using float_conversions.from_float_whole [OF fc v(1)] float_conversions.to_float_whole [OF fc x(1)]
      float_conversions.from_float_0 [OF fc] by simp_all
  consider "?v = 0" | "?v \<noteq> 0" "?v \<le> x" | "?v \<noteq> 0" "x < ?v" by linarith
  then show ?thesis
  proof cases
    case 3
    have "fl64 (?v - x) = ?v - x"
      using whole53_sub [OF v(1) x(1,2)] 3(2) is_float_whole by (simp add: is_float_def)
    then show ?thesis using 3 c by (auto simp: burn_step_def BM_Burn_def Let_def)
  qed (use c x(2) in \<open>auto simp: burn_step_def BM_Set_def Let_def\<close>)
qed

lemma total_balance_cong:
  "(\<And>g. g \<in> set gs \<Longrightarrow> bm_get b' (gr_ID g) = bm_get b (gr_ID g)) \<Longrightarrow> total_balance b' gs = total_balance b gs"
  unfolding total_balance_def by (induction gs) simp_all

lemma total_balance_nonneg:
  "(\<And>g. g \<in> set gs \<Longrightarrow> 0 \<le> bm_get b (gr_ID g)) \<Longrightarrow> 0 \<le> total_balance b gs"
  unfolding total_balance_def by (induction gs) simp_all

lemma total_balance_Cons [simp]: "total_balance b (g # gs) = bm_get b (gr_ID g) + total_balance b gs"
  by (simp add: total_balance_def)

lemma total_balance_Nil [simp]: "total_balance b [] = 0"
  by (simp add: total_balance_def)

lemma whole53_remainder:
  assumes "whole53 x" "0 \<le> x" "whole53 v" "0 \<le> v"
  shows "whole53 (max 0 (x - v))"
  using whole53_sub [OF assms(1,3,4)] by (cases "v \<le> x") (simp_all add: max_def)

definition whole_balances :: "BalanceMap \<Rightarrow> Grant list \<Rightarrow> bool" where
  "whole_balances b gs \<longleftrightarrow> (\<forall>g \<in> set gs. whole53 (bm_get b (gr_ID g)) \<and> 0 \<le> bm_get b (gr_ID g))"

lemma max_chain: "0 \<le> t \<Longrightarrow> max 0 (max 0 (x - v) - t) = max 0 (x - (v + t))" for t x v :: rat
  by (simp add: max_def)

lemma burn_fold_whole:
  assumes ok: "float_ok F"
  shows "distinct (map gr_ID gs) \<Longrightarrow> whole_balances b gs \<Longrightarrow> whole53 x \<Longrightarrow> 0 \<le> x \<Longrightarrow>
    \<exists>b' us'. foldl (burn_step F) (b, us, x) gs = (b', us @ us', max 0 (x - total_balance b gs)) \<and>
      sum_list (map gu_Usage us') = min x (total_balance b gs) \<and>
      (\<forall>k. k \<notin> gr_ID ` set gs \<longrightarrow> bm_get b' k = bm_get b k) \<and>
      (\<forall>as g cs. gs = as @ g # cs \<longrightarrow>
         bm_get b' (gr_ID g) = bm_get b (gr_ID g) - contribution b as x g) \<and>
      (\<forall>k. whole53 (bm_get b k) \<longrightarrow> whole53 (bm_get b' k))"
proof (induction gs arbitrary: b us x)
  case (Cons g gs)
  let ?v = "bm_get b (gr_ID g)"
  let ?b = "if ?v = 0 then b else b(gr_ID g \<mapsto> ?v - min ?v x)" and ?x = "max 0 (x - ?v)"
  have v: "whole53 ?v" "0 \<le> ?v" and bs: "whole_balances b gs"
    using Cons.prems by (simp_all add: whole_balances_def)
  obtain us1 where st: "burn_step F (b, us, x) g = (?b, us @ us1, ?x)"
    and s1: "sum_list (map gu_Usage us1) = min ?v x"
    using burn_step_whole [OF ok v Cons.prems(3,4), of us] by blast
  have nin: "gr_ID g \<notin> gr_ID ` set gs" and dis: "distinct (map gr_ID gs)" using Cons.prems(1) by simp_all
  have same: "bm_get ?b k = bm_get b k" if "k \<noteq> gr_ID g" for k using that by simp
  have same_gs: "bm_get ?b (gr_ID h) = bm_get b (gr_ID h)" if "h \<in> set gs" for h
    using nin that by (intro same) (metis imageI)
  have tot: "total_balance ?b hs = total_balance b hs" if "set hs \<subseteq> set gs" for hs
    by (rule total_balance_cong) (use same_gs that in blast)
  have nn: "0 \<le> total_balance b hs" if "set hs \<subseteq> set gs" for hs
    by (rule total_balance_nonneg) (use bs that in \<open>auto simp: whole_balances_def\<close>)
  have "whole_balances ?b gs" using bs same_gs by (simp add: whole_balances_def)
  from Cons.IH [OF dis this whole53_remainder [OF Cons.prems(3,4) v]] obtain b' us' where
    f: "foldl (burn_step F) (?b, us @ us1, ?x) gs = (b', (us @ us1) @ us', max 0 (?x - total_balance ?b gs))"
    and s2: "sum_list (map gu_Usage us') = min ?x (total_balance ?b gs)"
    and o: "\<forall>k. k \<notin> gr_ID ` set gs \<longrightarrow> bm_get b' k = bm_get ?b k"
    and c: "\<forall>as h cs. gs = as @ h # cs \<longrightarrow> bm_get b' (gr_ID h) = bm_get ?b (gr_ID h) - contribution ?b as ?x h"
    and w: "\<forall>k. whole53 (bm_get ?b k) \<longrightarrow> whole53 (bm_get b' k)"
    by (meson max.cobounded1)
  have "whole53 (?v - min ?v x)"
    using whole53_sub [OF v(1) Cons.prems(3,4)] whole53_sub [OF v(1) v(1) v(2)] by (cases "?v \<le> x") auto
  then have w': "\<forall>k. whole53 (bm_get b k) \<longrightarrow> whole53 (bm_get b' k)" using w v(1) by simp
  have "max 0 (?x - total_balance ?b gs) = max 0 (x - total_balance b (g # gs))"
    using nn [of gs] tot [of gs] by (simp add: max_chain)
  then have "foldl (burn_step F) (b, us, x) (g # gs) =
      (b', us @ (us1 @ us'), max 0 (x - total_balance b (g # gs)))"
    using f st by simp
  moreover have "sum_list (map gu_Usage (us1 @ us')) = min x (total_balance b (g # gs))"
    using s1 s2 tot [of gs] nn [of gs] v(2) Cons.prems(4) by (simp add: min_def max_def)
  moreover have "\<forall>k. k \<notin> gr_ID ` set (g # gs) \<longrightarrow> bm_get b' k = bm_get b k"
    using o same by simp
  moreover have "bm_get b' (gr_ID h) = bm_get b (gr_ID h) - contribution b as x h"
    if e: "g # gs = as @ h # cs" for as h cs
  proof (cases as)
    case Nil
    then have "h = g" using e by simp
    then have "bm_get b' (gr_ID h) = bm_get ?b (gr_ID g)" using o nin by simp
    then show ?thesis using \<open>h = g\<close> Nil Cons.prems(4) v(2) by (simp add: contribution_def)
  next
    case (Cons a as')
    then have g: "a = g" "gs = as' @ h # cs" using e by simp_all
    then have sub: "set as' \<subseteq> set gs" "h \<in> set gs" by auto
    have "contribution ?b as' ?x h = contribution b as x h"
      using tot [OF sub(1)] same_gs [OF sub(2)] nn [OF sub(1)] Cons g(1)
      by (simp add: contribution_def max_chain)
    then show ?thesis using c g(2) same_gs [OF sub(2)] by metis
  qed
  ultimately show ?case using w' by blast
qed (simp add: total_balance_def)

lemma burnDown_exact:
  assumes "float_ok F" and "distinct (map gr_ID gs)" and "whole_balances b gs"
    and "whole53 usage" and "0 \<le> usage" and "burnDownGrants F b gs usage = (b', us, overage)"
  shows "overage = max 0 (usage - total_balance b gs) \<and>
    sum_list (map gu_Usage us) = usage - overage \<and>
    (\<forall>before g after. gs = before @ g # after \<longrightarrow>
       bm_get b' (gr_ID g) = bm_get b (gr_ID g) - contribution b before usage g) \<and>
    (\<forall>k. k \<notin> gr_ID ` set gs \<longrightarrow> bm_get b' k = bm_get b k) \<and> whole53 overage \<and>
    (\<forall>k. whole53 (bm_get b k) \<longrightarrow> whole53 (bm_get b' k))"
proof -
  note fc = float_conversions.intro [OF assms(1)]
  obtain c vs where f: "foldl (burn_step F) (b, [], usage) gs = (c, vs, max 0 (usage - total_balance b gs))"
    and s: "sum_list (map gu_Usage vs) = min usage (total_balance b gs)"
    and g: "\<forall>as g cs. gs = as @ g # cs \<longrightarrow> bm_get c (gr_ID g) = bm_get b (gr_ID g) - contribution b as usage g"
    and o: "\<forall>k. k \<notin> gr_ID ` set gs \<longrightarrow> bm_get c k = bm_get b k"
    and w: "\<forall>k. whole53 (bm_get b k) \<longrightarrow> whole53 (bm_get c k)"
    using burn_fold_whole [OF assms(1-5), of "[]"] by auto
  have nn: "0 \<le> total_balance b gs"
    by (rule total_balance_nonneg) (use assms(3) in \<open>simp add: whole_balances_def\<close>)
  obtain n where n: "usage = of_int n" "\<bar>n\<bar> \<le> 2 ^ 53" using assms(4) by (auto simp: whole53_def)
  have "\<exists>k. total_balance b gs = of_int k"
    using assms(3) by (induction gs) (auto simp: whole_balances_def whole53_def total_balance_def, metis of_int_add)
  then obtain k where k: "total_balance b gs = of_int k" by blast
  have "max 0 (usage - total_balance b gs) = of_int (max 0 (n - k))" using n(1) k by (simp add: max_def)
  moreover have "\<bar>max 0 (n - k)\<bar> \<le> 2 ^ 53" using n assms(5) nn k by auto
  ultimately have wo: "whole53 (max 0 (usage - total_balance b gs))" unfolding whole53_def by blast
  then have "b' = c" "us = vs" "overage = max 0 (usage - total_balance b gs)"
    using assms(6) f float_conversions.from_float_whole [OF fc assms(4)] float_conversions.to_float_whole [OF fc]
    by (simp_all add: burnDownGrants_def)
  moreover have "min usage (total_balance b gs) = usage - max 0 (usage - total_balance b gs)"
    by (simp add: min_def max_def)
  ultimately show ?thesis using s g o w wo by simp
qed

section \<open>Properties\<close>

text \<open>
  C22. Burning down whole amounts is exact and follows the given order: every grant gives its
  balance or, once the usage left by the grants before it is smaller, that remainder; the usages
  booked add up to the usage less the overage; the overage is the usage beyond all balances.
\<close>

theorem burnDownGrants_exact:
  assumes "float_ok F" and "distinct (map gr_ID gs)" and "whole_balances b gs"
    and "whole53 usage" and "0 \<le> usage" and "burnDownGrants F b gs usage = (b', us, overage)"
  shows "overage = max 0 (usage - total_balance b gs) \<and>
    sum_list (map gu_Usage us) = usage - overage \<and>
    (\<forall>before g after. gs = before @ g # after \<longrightarrow>
       bm_get b' (gr_ID g) = bm_get b (gr_ID g) - contribution b before usage g)"
  using burnDown_exact [OF assms] by blast

theorem burnDownGrants_exact_witness:
  "\<exists>b' us overage.
     burnDownGrants std_float_lib [''a'' \<mapsto> 5, ''b'' \<mapsto> 3] [plain_grant ''a'' 5 1, plain_grant ''b'' 3 2] 6
       = (b', us, overage) \<and>
     overage = 0 \<and> sum_list (map gu_Usage us) = 6 \<and> bm_get b' ''a'' = 0 \<and> bm_get b' ''b'' = 2"
proof -
  let ?gs = "[plain_grant ''a'' 5 1, plain_grant ''b'' 3 2]" and ?b = "[''a'' \<mapsto> 5, ''b'' \<mapsto> 3]"
  obtain b' us ov where r: "burnDownGrants std_float_lib ?b ?gs 6 = (b', us, ov)" by (rule prod_cases3)
  have w: "whole53 5" "whole53 3" "whole53 6"
    unfolding whole53_def by (rule exI [of _ 5], simp, rule exI [of _ 3], simp, rule exI [of _ 6], simp)
  then have "whole_balances ?b ?gs" by (simp add: whole_balances_def plain_grant_def bm_get_def)
  moreover have "distinct (map gr_ID ?gs)" by (simp add: plain_grant_def)
  ultimately have t: "ov = max 0 (6 - total_balance ?b ?gs)" "sum_list (map gu_Usage us) = 6 - ov"
      "\<And>before g after. ?gs = before @ g # after \<Longrightarrow>
         bm_get b' (gr_ID g) = bm_get ?b (gr_ID g) - contribution ?b before 6 g"
    using burnDownGrants_exact [OF float_ok_std _ _ w(3) _ r] by auto
  have "bm_get b' ''a'' = 0" "bm_get b' ''b'' = 2"
    using t(3) [of "[]" "plain_grant ''a'' 5 1"] t(3) [of "[plain_grant ''a'' 5 1]" "plain_grant ''b'' 3 2"]
    by (simp_all add: plain_grant_def contribution_def bm_get_def)
  moreover have "ov = 0" using t(1) by (simp add: plain_grant_def bm_get_def)
  ultimately show ?thesis using r t(2) by auto
qed

text \<open>
  With any float balances and usage, whatever rounding does, burning down never makes a
  balance negative or larger than it was, touches no other key, keeps balances representable,
  and the overage is not negative.
\<close>

theorem burnDownGrants_bounds:
  assumes "float_ok F" and "is_float usage" and "0 \<le> usage" and "balances_ok b"
    and "burnDownGrants F b gs usage = (b', us, overage)"
  shows "balances_ok b' \<and> bm_get b' k \<le> bm_get b k \<and> dom b' = dom b \<and> 0 \<le> overage \<and> is_float overage"
  using burnDown_bounds [OF assms] by blast

theorem burnDownGrants_bounds_witness:
  "\<exists>b' us overage.
     burnDownGrants std_float_lib [''a'' \<mapsto> 5] [plain_grant ''a'' 5 1] 6 = (b', us, overage) \<and>
     0 \<le> bm_get b' ''a'' \<and> bm_get b' ''a'' \<le> 5 \<and> 0 \<le> overage"
proof -
  obtain b' us ov where r: "burnDownGrants std_float_lib [''a'' \<mapsto> 5] [plain_grant ''a'' 5 1] 6 = (b', us, ov)"
    by (rule prod_cases3)
  have "is_float 5" "is_float 6" using fl64_of_int [of 5] fl64_of_int [of 6] by (simp_all add: is_float_def)
  then have "balances_ok [''a'' \<mapsto> 5]" by (simp add: balances_ok_def bm_get_def)
  then have "balances_ok b'" "bm_get b' ''a'' \<le> 5" "0 \<le> ov"
    using burnDownGrants_bounds [OF float_ok_std \<open>is_float 6\<close> _ _ r, of "''a''"] by (simp_all add: bm_get_def)
  then show ?thesis using r by (auto simp: balances_ok_def)
qed

end
