(* ===== verification/Phases.thy ===== *)
theory Phases
  imports Grant Timeline CalendarOccurrences
begin

text \<open>
  Splitting a period without resets into burn phases (openmeter/credit/engine/grant.go and
  burnphase.go): the instants at which a grant's activity changes or a grant recurs, merged into
  consecutive phases.
\<close>

section \<open>Activity changes\<close>

definition in_period :: "ClosedPeriod \<Rightarrow> time option \<Rightarrow> time list" where
  "in_period per x = (case x of None \<Rightarrow> [] | Some t \<Rightarrow> if CP_Contains per t then [t] else [])"

text \<open>The loop that drops an instant equal to the last one kept.\<close>

definition dedupe_times :: "time list \<Rightarrow> time list" where
  "dedupe_times ts = foldl (\<lambda>deduped t. if deduped = [] \<or> last deduped \<noteq> t then deduped @ [t] else deduped) [] ts"

definition getGrantActivityChanges :: "Grant list \<Rightarrow> ClosedPeriod \<Rightarrow> time list" where
  "getGrantActivityChanges grants per =
     (let activityChanges = concat (map (\<lambda>g.
            in_period per (Some (gr_EffectiveAt g)) @ in_period per (gr_ExpiresAt g) @
            in_period per (gr_DeletedAt g) @ in_period per (gr_VoidedAt g)) grants);
          truncated = map (Truncate nsMinute) activityChanges;
          sorted_changes = sort_by compare_values truncated
      in dedupe_times sorted_changes)"

section \<open>Recurrence times\<close>

definition inPeriod :: "ClosedPeriod \<Rightarrow> Boundary \<Rightarrow> time \<Rightarrow> bool" where
  "inPeriod per endBoundaryBehavior t =
     (let behavior = (if CP_IsEmpty per \<and> t = cp_From per then Inclusive else endBoundaryBehavior)
      in case behavior of
           Inclusive \<Rightarrow> CP_ContainsInclusive per t
         | Exclusive \<Rightarrow> CP_Contains per t
         | OtherBoundary _ \<Rightarrow> False)"

text \<open>
  The loop over one grant's recurrences has no bound of its own: \<open>None\<close> is not returning. The
  inner result is the error of \<open>Next\<close>.
\<close>

partial_function (option) recurrence_loop ::
  "period_lib \<Rightarrow> (time \<Rightarrow> bool) \<Rightarrow> RecurrenceIterator \<Rightarrow> time list result option" where
  "recurrence_loop lib go it =
     (if go (it_At it)
      then (case IT_Next lib it of
              Inl e \<Rightarrow> Some (Inl e)
            | Inr it' \<Rightarrow> Option.bind (recurrence_loop lib go it')
                (\<lambda>r. Some (bind_result r (\<lambda>ts. Inr (it_At it # ts)))))
      else Some (Inr []))"

definition grant_recurrences :: "period_lib \<Rightarrow> ClosedPeriod \<Rightarrow> Boundary \<Rightarrow> Grant \<Rightarrow> Recurrence
    \<Rightarrow> (time \<times> string) list result option" where
  "grant_recurrences P per b g r =
     (case IterateFromNextAfter P r (max (gr_EffectiveAt g) (cp_From per)) Inclusive of
        Inl e \<Rightarrow> Some (Inl e)
      | Inr it \<Rightarrow> map_option (\<lambda>res. bind_result res (\<lambda>ts. Inr (map (\<lambda>t. (t, gr_ID g)) ts)))
          (recurrence_loop P (\<lambda>t. inPeriod per b t \<and> ActiveAt g t) it))"

fun all_recurrences :: "period_lib \<Rightarrow> ClosedPeriod \<Rightarrow> Boundary \<Rightarrow> Grant list
    \<Rightarrow> (time \<times> string) list result option" where
  "all_recurrences P per b [] = Some (Inr [])"
| "all_recurrences P per b (g # gs) =
     (case gr_Recurrence g of
        None \<Rightarrow> all_recurrences P per b gs
      | Some r \<Rightarrow> Option.bind (grant_recurrences P per b g r)
          (\<lambda>res. case res of
             Inl e \<Rightarrow> Some (Inl e)
           | Inr ts \<Rightarrow> map_option (\<lambda>res'. bind_result res' (\<lambda>rest. Inr (ts @ rest)))
               (all_recurrences P per b gs)))"

record recurrence_time =
  rt_time :: time
  rt_grantIDs :: "string list"

definition dedupe_recurrences :: "(time \<times> string) list \<Rightarrow> recurrence_time list" where
  "dedupe_recurrences ts = foldl (\<lambda>deduped (t, i).
     if deduped = [] \<or> rt_time (last deduped) \<noteq> t
     then deduped @ [\<lparr>rt_time = t, rt_grantIDs = [i]\<rparr>]
     else butlast deduped @ [(last deduped)\<lparr>rt_grantIDs := rt_grantIDs (last deduped) @ [i]\<rparr>]) [] ts"

definition getGrantRecurrenceTimes :: "period_lib \<Rightarrow> Grant list \<Rightarrow> ClosedPeriod \<Rightarrow> Boundary
    \<Rightarrow> recurrence_time list result option" where
  "getGrantRecurrenceTimes P grants per endBoundaryBehavior =
     (let grantsWithRecurrence = filter (\<lambda>g. gr_Recurrence g \<noteq> None) grants
      in if grantsWithRecurrence = [] then Some (Inr [])
         else map_option (\<lambda>res. bind_result res (\<lambda>times.
                Inr (dedupe_recurrences (sort_by (\<lambda>a b. compare_values (fst a) (fst b)) times))))
              (all_recurrences P per endBoundaryBehavior grantsWithRecurrence))"

section \<open>Relevant grants\<close>

definition filterRelevantGrants :: "Grant list \<Rightarrow> BalanceMap \<Rightarrow> ClosedPeriod \<Rightarrow> Grant list" where
  "filterRelevantGrants grants bm per =
     filter (\<lambda>g. OP_OverlapsInclusive (SB_Open (GetEffectivePeriod g)) (CP_Open per)
               \<or> bm (gr_ID g) \<noteq> None) grants"

section \<open>Burn phases (burnphase.go)\<close>

record burnPhase =
  bp_from :: time
  bp_to :: time
  bp_grantsRecurredAtEnd :: "string list"
  bp_priorityChange :: bool

record phasePlan =
  pp_phases :: "burnPhase list"
  pp_grantsRecurredAtStart :: "string list"

text \<open>\<open>appendPhase\<close> keeps a phase only if it is not empty; the pair is \<open>phases\<close> and \<open>phaseFrom\<close>.\<close>

definition appendPhase :: "burnPhase list \<times> time \<Rightarrow> burnPhase \<Rightarrow> burnPhase list \<times> time" where
  "appendPhase = (\<lambda>(phases, phaseFrom) phase.
     if \<not> bp_from phase < bp_to phase then (phases, phaseFrom) else (phases @ [phase], bp_to phase))"

definition activity_phase :: "burnPhase list \<times> time \<Rightarrow> time \<Rightarrow> burnPhase list \<times> time" where
  "activity_phase st t = appendPhase st
     \<lparr>bp_from = snd st, bp_to = t, bp_grantsRecurredAtEnd = [], bp_priorityChange = True\<rparr>"

definition recurrence_phase :: "burnPhase list \<times> time \<Rightarrow> recurrence_time \<Rightarrow> burnPhase list \<times> time" where
  "recurrence_phase st rt = appendPhase st
     \<lparr>bp_from = snd st, bp_to = rt_time rt, bp_grantsRecurredAtEnd = rt_grantIDs rt, bp_priorityChange = False\<rparr>"

fun merge_events :: "burnPhase list \<times> time \<Rightarrow> time list \<Rightarrow> recurrence_time list
    \<Rightarrow> (burnPhase list \<times> time) \<times> time list \<times> recurrence_time list" where
  "merge_events st (ac # acs) (rt # rts) =
     (if ac < rt_time rt then merge_events (activity_phase st ac) acs (rt # rts)
      else if rt_time rt < ac then merge_events (recurrence_phase st rt) (ac # acs) rts
      else merge_events (appendPhase st \<lparr>bp_from = snd st, bp_to = ac,
             bp_grantsRecurredAtEnd = rt_grantIDs rt, bp_priorityChange = True\<rparr>) acs rts)"
| "merge_events st acs rts = (st, acs, rts)"

definition closing_phases :: "ClosedPeriod \<Rightarrow> burnPhase list \<times> time \<Rightarrow> burnPhase list" where
  "closing_phases per st =
     (let st1 = (if snd st < cp_To per
                 then appendPhase st \<lparr>bp_from = snd st, bp_to = cp_To per,
                        bp_grantsRecurredAtEnd = [], bp_priorityChange = False\<rparr>
                 else st);
          phases = fst st1;
          phases' = (if phases \<noteq> [] \<and> bp_to (last phases) = cp_To per \<and>
                        bp_grantsRecurredAtEnd (last phases) \<noteq> []
                     then phases @ [\<lparr>bp_from = cp_To per, bp_to = cp_To per,
                            bp_grantsRecurredAtEnd = [], bp_priorityChange = False\<rparr>]
                     else phases)
      in if phases' = []
         then [\<lparr>bp_from = cp_From per, bp_to = cp_To per, bp_grantsRecurredAtEnd = [],
                bp_priorityChange = False\<rparr>]
         else phases')"

definition build_phases :: "ClosedPeriod \<Rightarrow> time list \<Rightarrow> recurrence_time list \<Rightarrow> burnPhase list" where
  "build_phases per acs rts =
     (case merge_events ([], cp_From per) acs rts of
        (st, acs', rts') \<Rightarrow>
          closing_phases per (foldl recurrence_phase (foldl activity_phase st acs') rts'))"

definition getPhases :: "period_lib \<Rightarrow> Grant list \<Rightarrow> ClosedPeriod \<Rightarrow> Boundary \<Rightarrow> phasePlan result option" where
  "getPhases P grants per recurrenceEndBoundaryBehavior =
     (let activityChanges = getGrantActivityChanges grants per
      in map_option (\<lambda>res. case res of
           Inl e \<Rightarrow> Inl (Wrap ''failed to get grant recurrence times'' e)
         | Inr recurrenceTimes \<Rightarrow>
             let atStart = takeWhile (\<lambda>rt. rt_time rt = cp_From per) recurrenceTimes;
                 rest = dropWhile (\<lambda>rt. rt_time rt = cp_From per) recurrenceTimes;
                 grantsRecurredAtStart = concat (map rt_grantIDs atStart)
             in if activityChanges = [] \<and> rest = []
                then Inr \<lparr>pp_phases = [\<lparr>bp_from = cp_From per, bp_to = cp_To per,
                       bp_grantsRecurredAtEnd = [], bp_priorityChange = False\<rparr>],
                     pp_grantsRecurredAtStart = grantsRecurredAtStart\<rparr>
                else Inr \<lparr>pp_phases = build_phases per activityChanges rest,
                       pp_grantsRecurredAtStart = grantsRecurredAtStart\<rparr>)
         (getGrantRecurrenceTimes P grants per recurrenceEndBoundaryBehavior))"

section \<open>Sorted, deduplicated events\<close>

lemma dedupe_times_remdups: "dedupe_times ts = remdups_adj ts"
proof -
  have "foldl (\<lambda>d t. if d = [] \<or> last d \<noteq> t then d @ [t] else d) (remdups_adj us) ts = remdups_adj (us @ ts)"
    for us ts :: "time list"
  proof (induction ts arbitrary: us)
    case (Cons t ts)
    have "(if remdups_adj us = [] \<or> last (remdups_adj us) \<noteq> t then remdups_adj us @ [t] else remdups_adj us)
        = remdups_adj (us @ [t])"
      by (cases us rule: rev_cases) (auto simp: remdups_adj_append_two remdups_adj_append')
    then show ?case using Cons.IH [of "us @ [t]"] by simp
  qed simp
  from this [of "[]" ts] show ?thesis by (simp add: dedupe_times_def)
qed

lemma set_dedupe_times [simp]: "set (dedupe_times ts) = set ts"
  by (simp add: dedupe_times_remdups)

lemma sort_by_values: "sort_by compare_values xs = sort xs" for xs :: "'a::linorder list"
  using key_comparator.sorted_sort_by [of "\<lambda>x. x" xs]
  by (intro properties_for_sort [symmetric]) simp_all

lemma sorted_dedupe: "sorted (dedupe_times (sort_by compare_values ts))"
  by (simp add: dedupe_times_remdups sort_by_values sorted_remdups_adj)

lemma ActivityChanges_sorted: "sorted (getGrantActivityChanges grants per)"
  by (simp add: getGrantActivityChanges_def sorted_dedupe)

lemma set_in_period: "set (in_period per x) = {t. x = Some t \<and> CP_Contains per t}"
  by (auto simp: in_period_def split: option.splits)

lemma ActivityChanges_set:
  "set (getGrantActivityChanges grants per) =
     Truncate nsMinute ` {t. CP_Contains per t \<and> (\<exists>g \<in> set grants. gr_EffectiveAt g = t \<or>
        gr_ExpiresAt g = Some t \<or> gr_DeletedAt g = Some t \<or> gr_VoidedAt g = Some t)}"
  unfolding getGrantActivityChanges_def Let_def set_dedupe_times set_sort_by set_map
  by (rule arg_cong [where f = "image (Truncate nsMinute)"]) (auto simp: set_in_period)

lemma ActivityChanges_before_end:
  assumes "t \<in> set (getGrantActivityChanges grants per)"
  shows "t \<le> cp_To per"
proof -
  from assms obtain u where "t = Truncate nsMinute u" "CP_Contains per u"
    unfolding ActivityChanges_set by blast
  then show ?thesis using Truncate_le [of nsMinute u] by (auto simp: CP_Contains_def split: if_splits)
qed

lemma dedupe_recurrences_facts:
  assumes "sorted (map fst ts)"
  shows "sorted (map rt_time (dedupe_recurrences ts))"
    and "set (map rt_time (dedupe_recurrences ts)) = set (map fst ts)"
proof -
  have "sorted (map rt_time (foldl (\<lambda>deduped (t, i).
     if deduped = [] \<or> rt_time (last deduped) \<noteq> t
     then deduped @ [\<lparr>rt_time = t, rt_grantIDs = [i]\<rparr>]
     else butlast deduped @ [(last deduped)\<lparr>rt_grantIDs := rt_grantIDs (last deduped) @ [i]\<rparr>]) d ts)) \<and>
    set (map rt_time (foldl (\<lambda>deduped (t, i).
     if deduped = [] \<or> rt_time (last deduped) \<noteq> t
     then deduped @ [\<lparr>rt_time = t, rt_grantIDs = [i]\<rparr>]
     else butlast deduped @ [(last deduped)\<lparr>rt_grantIDs := rt_grantIDs (last deduped) @ [i]\<rparr>]) d ts))
      = set (map rt_time d) \<union> set (map fst ts)"
    if "sorted (map rt_time d)" "\<forall>t \<in> set (map rt_time d). \<forall>u \<in> set (map fst ts). t \<le> u" for d
    using that assms
  proof (induction ts arbitrary: d)
    case (Cons x ts)
    obtain t i where x: "x = (t, i)" by (cases x)
    show ?case
    proof (cases "d = [] \<or> rt_time (last d) \<noteq> t")
      case True
      have "sorted (map rt_time (d @ [\<lparr>rt_time = t, rt_grantIDs = [i]\<rparr>]))"
        using Cons.prems x by (auto simp: sorted_append)
      moreover have "\<forall>v \<in> set (map rt_time (d @ [\<lparr>rt_time = t, rt_grantIDs = [i]\<rparr>])).
          \<forall>u \<in> set (map fst ts). v \<le> u"
        using Cons.prems x by auto
      ultimately show ?thesis
        using Cons.IH [of "d @ [\<lparr>rt_time = t, rt_grantIDs = [i]\<rparr>]"] Cons.prems(3) True x by simp
    next
      case False
      then obtain ds l where d: "d = ds @ [l]" "rt_time l = t" by (cases d rule: rev_cases) auto
      let ?d = "ds @ [l\<lparr>rt_grantIDs := rt_grantIDs l @ [i]\<rparr>]"
      have m: "map rt_time ?d = map rt_time d" using d by simp
      have "sorted (map rt_time ?d)" "\<forall>v \<in> set (map rt_time ?d). \<forall>u \<in> set (map fst ts). v \<le> u"
        unfolding m using Cons.prems by auto
      from Cons.IH [OF this] show ?thesis using Cons.prems(3) d x by auto
    qed
  qed simp
  from this [of "[]"] show "sorted (map rt_time (dedupe_recurrences ts))"
    "set (map rt_time (dedupe_recurrences ts)) = set (map fst ts)"
    by (simp_all add: dedupe_recurrences_def)
qed

section \<open>Recurrence times stay in the period\<close>

lemma recurrence_loop_go_all:
  assumes "recurrence_loop lib go it = Some r"
  shows "\<forall>ts. r = Inr ts \<longrightarrow> (\<forall>t \<in> set ts. go t)"
proof (rule recurrence_loop.raw_induct
    [where P = "\<lambda>lib go it r. \<forall>ts. r = Inr ts \<longrightarrow> (\<forall>t \<in> set ts. go t)", OF _ assms])
  fix loop lib go it r
  assume "\<And>lib go it r. loop lib go it = Some r \<Longrightarrow> \<forall>ts. r = Inr ts \<longrightarrow> (\<forall>t \<in> set ts. go t)"
    and "(if go (it_At it)
      then (case IT_Next lib it of
              Inl e \<Rightarrow> Some (Inl e)
            | Inr it' \<Rightarrow> Option.bind (loop lib go it')
                (\<lambda>r. Some (bind_result r (\<lambda>ts. Inr (it_At it # ts)))))
      else Some (Inr [])) = Some r"
  then show "\<forall>ts. r = Inr ts \<longrightarrow> (\<forall>t \<in> set ts. go t)"
    by (auto split: if_splits sum.splits simp: bind_eq_Some_conv bind_result_Inr; blast)
qed

lemma recurrence_loop_go: "recurrence_loop lib go it = Some (Inr ts) \<Longrightarrow> t \<in> set ts \<Longrightarrow> go t"
  using recurrence_loop_go_all by blast

lemma all_recurrences_in_period:
  "all_recurrences P per b gs = Some (Inr ts) \<Longrightarrow> x \<in> set ts \<Longrightarrow> inPeriod per b (fst x)"
proof (induction gs arbitrary: ts x)
  case (Cons g gs)
  show ?case
  proof (cases "gr_Recurrence g")
    case None
    then show ?thesis using Cons by simp
  next
    case (Some r)
    then obtain y where y: "grant_recurrences P per b g r = Some y" and
      c: "(case y of Inl e \<Rightarrow> Some (Inl e) | Inr ts \<Rightarrow> map_option (\<lambda>res'. bind_result res'
            (\<lambda>rest. Inr (ts @ rest))) (all_recurrences P per b gs)) = Some (Inr ts)"
      using Cons.prems(1) by (auto simp: bind_eq_Some_conv)
    obtain ts1 ts2 where 1: "grant_recurrences P per b g r = Some (Inr ts1)"
      and 2: "all_recurrences P per b gs = Some (Inr ts2)" and ts: "ts = ts1 @ ts2"
      using y c by (cases y) (auto simp: bind_result_Inr)
    from 1 have "\<forall>x \<in> set ts1. inPeriod per b (fst x)"
      by (auto simp: grant_recurrences_def bind_result_Inr split: sum.splits dest: recurrence_loop_go)
    then show ?thesis using Cons.IH [OF 2, of x] Cons.prems(2) ts by auto
  qed
qed simp

lemma inPeriod_le: "inPeriod per b t \<Longrightarrow> cp_From per \<le> cp_To per \<Longrightarrow> t \<le> cp_To per"
  by (auto simp: inPeriod_def Let_def CP_Contains_def CP_ContainsInclusive_def
      split: Boundary.splits if_splits)

lemma RecurrenceTimes_facts:
  assumes "getGrantRecurrenceTimes P grants per b = Some (Inr rts)" and "cp_From per \<le> cp_To per"
  shows "sorted (map rt_time rts)" and "rt \<in> set rts \<Longrightarrow> rt_time rt \<le> cp_To per"
proof -
  have "sorted (map rt_time rts) \<and> (\<forall>rt \<in> set rts. rt_time rt \<le> cp_To per)"
  proof (cases "filter (\<lambda>g. gr_Recurrence g \<noteq> None) grants = []")
    case True
    then show ?thesis using assms by (simp add: getGrantRecurrenceTimes_def)
  next
    case False
    then obtain ts where ts: "all_recurrences P per b (filter (\<lambda>g. gr_Recurrence g \<noteq> None) grants) = Some (Inr ts)"
      and rts: "rts = dedupe_recurrences (sort_by (\<lambda>a b. compare_values (fst a) (fst b)) ts)"
      using assms by (auto simp: getGrantRecurrenceTimes_def bind_result_Inr)
    let ?s = "sort_by (\<lambda>a b. compare_values (fst a) (fst b)) ts"
    have s: "sorted (map fst ?s)"
      using key_comparator.sorted_sort_by [of fst ts] by (simp add: sorted_map)
    note f = dedupe_recurrences_facts [OF s]
    have "\<forall>x \<in> set ?s. fst x \<le> cp_To per"
      using all_recurrences_in_period [OF ts] inPeriod_le [OF _ assms(2)] by fastforce
    then have "\<forall>t \<in> set (map rt_time rts). t \<le> cp_To per" unfolding rts f(2) by simp
    then show ?thesis using f(1) rts by simp
  qed
  then show "sorted (map rt_time rts)" and "rt \<in> set rts \<Longrightarrow> rt_time rt \<le> cp_To per" by blast+
qed

section \<open>The phases tile the period\<close>

fun phase_chain :: "time \<Rightarrow> burnPhase list \<Rightarrow> time \<Rightarrow> bool" where
  "phase_chain a [] b \<longleftrightarrow> a = b"
| "phase_chain a (p # ps) b \<longleftrightarrow> bp_from p = a \<and> bp_from p \<le> bp_to p \<and> phase_chain (bp_to p) ps b"

lemma phase_chain_append: "phase_chain a (ps @ qs) b \<longleftrightarrow> (\<exists>m. phase_chain a ps m \<and> phase_chain m qs b)"
  by (induction ps arbitrary: a) auto

text \<open>What holds after the events \<open>seen\<close> have been turned into phases.\<close>

definition tiled :: "time \<Rightarrow> time set \<Rightarrow> burnPhase list \<times> time \<Rightarrow> bool" where
  "tiled a seen st \<longleftrightarrow> phase_chain a (fst st) (snd st) \<and> a \<le> snd st \<and> (\<forall>e \<in> seen. e \<le> snd st) \<and>
     (\<forall>e \<in> seen. a < e \<longrightarrow> e \<in> bp_to ` set (fst st)) \<and> (snd st = a \<or> snd st \<in> seen)"

lemma tiled_append:
  assumes "tiled a seen st" and "bp_from p = snd st" and "\<forall>d \<in> seen. d \<le> bp_to p"
  shows "tiled a (insert (bp_to p) seen) (appendPhase st p)"
proof (cases "bp_from p < bp_to p")
  case True
  then have e: "appendPhase st p = (fst st @ [p], bp_to p)" by (simp add: appendPhase_def split: prod.splits)
  have "phase_chain a (fst st @ [p]) (bp_to p)"
    using assms(1,2) True by (auto simp: phase_chain_append tiled_def)
  then show ?thesis using assms True unfolding e by (auto simp: tiled_def)
next
  case False
  then have e: "appendPhase st p = st" by (simp add: appendPhase_def split: prod.splits)
  have le: "bp_to p \<le> snd st" using False assms(2) by simp
  have "bp_to p \<in> bp_to ` set (fst st)" if "a < bp_to p"
  proof -
    have "snd st \<in> seen" using that le assms(1) by (auto simp: tiled_def)
    then have "snd st = bp_to p" "a < snd st" using assms(3) le that by fastforce+
    then show ?thesis using assms(1) \<open>snd st \<in> seen\<close> unfolding tiled_def by metis
  qed
  then show ?thesis using assms(1) le unfolding e by (auto simp: tiled_def)
qed

lemma tiled_activity:
  "tiled a seen st \<Longrightarrow> \<forall>d \<in> seen. d \<le> t \<Longrightarrow> tiled a (insert t seen) (activity_phase st t)"
  using tiled_append [of a seen st "\<lparr>bp_from = snd st, bp_to = t, bp_grantsRecurredAtEnd = [], bp_priorityChange = True\<rparr>"]
  by (simp add: activity_phase_def)

lemma tiled_recurrence:
  "tiled a seen st \<Longrightarrow> \<forall>d \<in> seen. d \<le> rt_time r \<Longrightarrow> tiled a (insert (rt_time r) seen) (recurrence_phase st r)"
  using tiled_append [of a seen st "\<lparr>bp_from = snd st, bp_to = rt_time r, bp_grantsRecurredAtEnd = rt_grantIDs r, bp_priorityChange = False\<rparr>"]
  by (simp add: recurrence_phase_def)

lemma tiled_fold_activity:
  "tiled a seen st \<Longrightarrow> sorted acs \<Longrightarrow> \<forall>d \<in> seen. \<forall>e \<in> set acs. d \<le> e \<Longrightarrow>
    tiled a (seen \<union> set acs) (foldl activity_phase st acs)"
proof (induction acs arbitrary: st seen)
  case (Cons t acs)
  have "tiled a (insert t seen) (activity_phase st t)" using Cons.prems by (intro tiled_activity) auto
  from Cons.IH [OF this] show ?case using Cons.prems by simp
qed simp

lemma tiled_fold_recurrence:
  "tiled a seen st \<Longrightarrow> sorted (map rt_time rts) \<Longrightarrow> \<forall>d \<in> seen. \<forall>r \<in> set rts. d \<le> rt_time r \<Longrightarrow>
    tiled a (seen \<union> rt_time ` set rts) (foldl recurrence_phase st rts)"
proof (induction rts arbitrary: st seen)
  case (Cons r rts)
  have "tiled a (insert (rt_time r) seen) (recurrence_phase st r)" using Cons.prems by (intro tiled_recurrence) auto
  from Cons.IH [OF this] show ?case using Cons.prems by simp
qed simp

lemma tiled_merge:
  "tiled a seen st \<Longrightarrow> sorted acs \<Longrightarrow> sorted (map rt_time rts) \<Longrightarrow> \<forall>d \<in> seen. \<forall>e \<in> set acs. d \<le> e \<Longrightarrow>
    \<forall>d \<in> seen. \<forall>r \<in> set rts. d \<le> rt_time r \<Longrightarrow> merge_events st acs rts = (st', acs', rts') \<Longrightarrow>
    tiled a (seen \<union> set acs \<union> rt_time ` set rts)
      (foldl recurrence_phase (foldl activity_phase st' acs') rts')"
proof (induction st acs rts arbitrary: seen rule: merge_events.induct)
  case (1 st ac acs rt rts)
  let ?both = "appendPhase st \<lparr>bp_from = snd st, bp_to = ac, bp_grantsRecurredAtEnd = rt_grantIDs rt,
    bp_priorityChange = True\<rparr>"
  consider "ac < rt_time rt" | "rt_time rt < ac" | "ac = rt_time rt" by linarith
  then show ?case
  proof cases
    case 1
    have "tiled a (insert ac seen) (activity_phase st ac)" using "1.prems" by (intro tiled_activity) auto
    moreover have "\<forall>d \<in> insert ac seen. \<forall>r \<in> set (rt # rts). d \<le> rt_time r"
      using "1.prems" 1 by auto
    ultimately show ?thesis using "1.IH"(1) [of "insert ac seen"] "1.prems" 1 by auto
  next
    case 2
    have "tiled a (insert (rt_time rt) seen) (recurrence_phase st rt)"
      using "1.prems" by (intro tiled_recurrence) auto
    moreover have "\<forall>d \<in> insert (rt_time rt) seen. \<forall>e \<in> set (ac # acs). d \<le> e"
      using "1.prems" 2 by auto
    ultimately show ?thesis
      using "1.IH"(2) [of "insert (rt_time rt) seen"] "1.prems" 2 by (auto simp: insert_commute)
  next
    case 3
    have "tiled a (insert ac seen) ?both"
      using tiled_append [of a seen st "\<lparr>bp_from = snd st, bp_to = ac, bp_grantsRecurredAtEnd = rt_grantIDs rt,
        bp_priorityChange = True\<rparr>"] "1.prems" by simp
    moreover have "\<forall>d \<in> insert ac seen. \<forall>r \<in> set rts. d \<le> rt_time r" using "1.prems" 3 by auto
    ultimately show ?thesis using "1.IH"(3) [of "insert ac seen"] "1.prems" 3 by auto
  qed
qed (simp_all add: tiled_fold_recurrence tiled_fold_activity)

lemma closing_phases_tile:
  assumes "tiled (cp_From per) seen st" and "snd st \<le> cp_To per"
  shows "phase_chain (cp_From per) (closing_phases per st) (cp_To per)" and "closing_phases per st \<noteq> []"
    and "set (fst st) \<subseteq> set (closing_phases per st)"
proof -
  let ?last = "\<lparr>bp_from = snd st, bp_to = cp_To per, bp_grantsRecurredAtEnd = [], bp_priorityChange = False\<rparr>"
  let ?st1 = "if snd st < cp_To per then appendPhase st ?last else st"
  have e: "appendPhase st ?last = (fst st @ [?last], cp_To per)" if "snd st < cp_To per"
    using that by (cases st) (simp add: appendPhase_def)
  have c: "phase_chain (cp_From per) (fst ?st1) (cp_To per)"
    using assms e by (cases "snd st < cp_To per") (auto simp: phase_chain_append tiled_def)
  have sub: "set (fst st) \<subseteq> set (fst ?st1)" using e by auto
  show "phase_chain (cp_From per) (closing_phases per st) (cp_To per)"
    using c by (auto simp: closing_phases_def Let_def phase_chain_append)
  show "closing_phases per st \<noteq> []" by (simp add: closing_phases_def Let_def)
  show "set (fst st) \<subseteq> set (closing_phases per st)"
    using sub by (auto simp: closing_phases_def Let_def)
qed

lemma build_phases_tile:
  assumes "sorted acs" and "sorted (map rt_time rts)" and "cp_From per \<le> cp_To per"
    and "\<forall>e \<in> set acs. e \<le> cp_To per" and "\<forall>r \<in> set rts. rt_time r \<le> cp_To per"
  shows "phase_chain (cp_From per) (build_phases per acs rts) (cp_To per)"
    and "build_phases per acs rts \<noteq> []"
    and "e \<in> set acs \<union> rt_time ` set rts \<Longrightarrow> cp_From per < e \<Longrightarrow> e \<in> bp_to ` set (build_phases per acs rts)"
proof -
  obtain st' acs' rts' where m: "merge_events ([], cp_From per) acs rts = (st', acs', rts')"
    by (cases "merge_events ([], cp_From per) acs rts") auto
  let ?st = "foldl recurrence_phase (foldl activity_phase st' acs') rts'"
  have "tiled (cp_From per) {} ([], cp_From per)" by (simp add: tiled_def)
  from tiled_merge [OF this assms(1,2) _ _ m]
  have t: "tiled (cp_From per) (set acs \<union> rt_time ` set rts) ?st" by simp
  then have le: "snd ?st \<le> cp_To per" using assms(3-5) by (auto simp: tiled_def)
  have b: "build_phases per acs rts = closing_phases per ?st" using m by (simp add: build_phases_def)
  show "phase_chain (cp_From per) (build_phases per acs rts) (cp_To per)" "build_phases per acs rts \<noteq> []"
    unfolding b using closing_phases_tile [OF t le] by blast+
  show "e \<in> bp_to ` set (build_phases per acs rts)" if "e \<in> set acs \<union> rt_time ` set rts" "cp_From per < e"
  proof -
    have "e \<in> bp_to ` set (fst ?st)" using t that unfolding tiled_def by blast
    then show ?thesis unfolding b using closing_phases_tile(3) [OF t le] by blast
  qed
qed

lemma sorted_dropWhile_map: "sorted (map f xs) \<Longrightarrow> sorted (map f (dropWhile Q xs))"
  by (induction xs) auto

lemma getPhases_cases:
  assumes "getPhases P grants per b = Some (Inr plan)"
  obtains rts where "getGrantRecurrenceTimes P grants per b = Some (Inr rts)"
    and "pp_grantsRecurredAtStart plan = concat (map rt_grantIDs (takeWhile (\<lambda>rt. rt_time rt = cp_From per) rts))"
    and "getGrantActivityChanges grants per = [] \<and> dropWhile (\<lambda>rt. rt_time rt = cp_From per) rts = [] \<and>
         pp_phases plan = [\<lparr>bp_from = cp_From per, bp_to = cp_To per, bp_grantsRecurredAtEnd = [],
           bp_priorityChange = False\<rparr>] \<or>
       pp_phases plan = build_phases per (getGrantActivityChanges grants per)
         (dropWhile (\<lambda>rt. rt_time rt = cp_From per) rts)"
proof -
  obtain z where z: "getGrantRecurrenceTimes P grants per b = Some z"
    using assms by (auto simp: getPhases_def Let_def)
  then obtain rts where "z = Inr rts" using assms by (cases z) (simp_all add: getPhases_def)
  then show thesis using that [of rts] z assms by (auto simp: getPhases_def Let_def split: if_splits)
qed

lemma getPhases_chain_full:
  assumes "getPhases P grants per b = Some (Inr plan)" and "cp_From per \<le> cp_To per"
  shows "phase_chain (cp_From per) (pp_phases plan) (cp_To per) \<and> pp_phases plan \<noteq> [] \<and>
    (\<forall>t \<in> set (getGrantActivityChanges grants per). cp_From per < t \<longrightarrow> t \<in> bp_to ` set (pp_phases plan))"
proof -
  obtain rts where rts: "getGrantRecurrenceTimes P grants per b = Some (Inr rts)"
    and c: "getGrantActivityChanges grants per = [] \<and> pp_phases plan = [\<lparr>bp_from = cp_From per, bp_to = cp_To per,
         bp_grantsRecurredAtEnd = [], bp_priorityChange = False\<rparr>] \<or>
       pp_phases plan = build_phases per (getGrantActivityChanges grants per)
         (dropWhile (\<lambda>rt. rt_time rt = cp_From per) rts)"
    using getPhases_cases [OF assms(1)] by metis
  note r = RecurrenceTimes_facts [OF rts assms(2)]
  have s: "sorted (map rt_time (dropWhile (\<lambda>rt. rt_time rt = cp_From per) rts))"
    using r(1) by (rule sorted_dropWhile_map)
  have "\<forall>rt \<in> set (dropWhile (\<lambda>rt. rt_time rt = cp_From per) rts). rt_time rt \<le> cp_To per"
    using r(2) set_dropWhileD by fast
  note t = build_phases_tile [OF ActivityChanges_sorted [of grants per] s assms(2) _ this]
  have acs: "\<forall>e \<in> set (getGrantActivityChanges grants per). e \<le> cp_To per"
    using ActivityChanges_before_end by blast
  from c show ?thesis
  proof (elim disjE conjE)
    assume "pp_phases plan = build_phases per (getGrantActivityChanges grants per)
         (dropWhile (\<lambda>rt. rt_time rt = cp_From per) rts)"
    then show ?thesis using t(1,2) [OF acs] t(3) [OF acs] by simp
  qed (use assms(2) in simp)
qed

lemma getPhases_chain:
  assumes "getPhases P grants per b = Some (Inr plan)" and "cp_From per \<le> cp_To per"
  shows "phase_chain (cp_From per) (pp_phases plan) (cp_To per)" and "pp_phases plan \<noteq> []"
  using getPhases_chain_full [OF assms] by blast+

section \<open>Properties\<close>

text \<open>
  C26. The burn phases tile the period: the first starts at its start, each starts where the one
  before ends, the last ends at its end, and none runs backwards. Every activity change after the
  start is the end of a phase.
\<close>

theorem getPhases_tile:
  assumes "getPhases P grants per b = Some (Inr plan)" and "cp_From per \<le> cp_To per"
  shows "phase_chain (cp_From per) (pp_phases plan) (cp_To per) \<and> pp_phases plan \<noteq> [] \<and>
    (\<forall>t \<in> set (getGrantActivityChanges grants per). cp_From per < t \<longrightarrow> t \<in> bp_to ` set (pp_phases plan))"
  using getPhases_chain_full [OF assms] .

theorem getPhases_tile_witness:
  "\<exists>plan. getPhases std_period_lib [(plain_grant ''a'' 5 1)\<lparr>gr_EffectiveAt := 120000000000\<rparr>]
      \<lparr>cp_From = 60000000000, cp_To = 300000000000\<rparr> Exclusive = Some (Inr plan) \<and>
    phase_chain 60000000000 (pp_phases plan) 300000000000 \<and> 120000000000 \<in> bp_to ` set (pp_phases plan)"
proof -
  let ?g = "(plain_grant ''a'' 5 1)\<lparr>gr_EffectiveAt := 120000000000\<rparr>"
  let ?p = "\<lparr>cp_From = 60000000000, cp_To = 300000000000\<rparr>"
  have acs: "getGrantActivityChanges [?g] ?p = [120000000000]"
    by (simp add: getGrantActivityChanges_def plain_grant_def in_period_def CP_Contains_def Truncate_def
        nsMinute_def dedupe_times_def)
  then obtain plan where plan: "getPhases std_period_lib [?g] ?p Exclusive = Some (Inr plan)"
    by (simp add: getPhases_def getGrantRecurrenceTimes_def plain_grant_def)
  show ?thesis using getPhases_tile [OF plan] plan unfolding acs by simp
qed

section \<open>The recurrences of one grant\<close>

context recurrence_occurrences
begin

text \<open>From an iterator in step with its instant the loop collects the occurrences until it has to stop.\<close>

lemma loop_takeWhile:
  "it_r it = r \<Longrightarrow> it_At it = f (it_iteration it) \<Longrightarrow> - N \<le> it_iteration it \<Longrightarrow> it_iteration it \<le> N \<Longrightarrow>
   \<not> go (f N) \<Longrightarrow>
   recurrence_loop P go it = Some (Inr (takeWhile go (map f [it_iteration it..N])))"
proof (induction "nat (N - it_iteration it)" arbitrary: it rule: less_induct)
  case less
  let ?j = "it_iteration it"
  have l: "[?j..N] = ?j # [?j + 1..N]" using less.prems by (simp add: upto_rec1)
  show ?case
  proof (cases "go (it_At it)")
    case False
    then show ?thesis using less.prems l by (simp add: recurrence_loop.simps)
  next
    case True
    then have n: "?j < N" using less.prems by (cases "?j = N") auto
    let ?it = "it\<lparr>it_iteration := ?j + 1, it_At := f (?j + 1)\<rparr>"
    have "IT_Next P it = Inr ?it" using less.prems n by (simp add: IT_Next_def delta)
    moreover have "recurrence_loop P go ?it = Some (Inr (takeWhile go (map f [?j + 1..N])))"
      using less.hyps [of ?it] less.prems n by simp
    ultimately show ?thesis using True less.prems l by (simp add: recurrence_loop.simps [of _ _ it])
  qed
qed

text \<open>An iterator left one behind by the backwards search repeats its first instant.\<close>

lemma loop_lagging:
  assumes "it_r it = r" "it_At it = f (it_iteration it + 1)" "- N \<le> it_iteration it" "it_iteration it < N"
    and "\<not> go (f N)"
  shows "recurrence_loop P go it =
    Some (Inr ((if go (it_At it) then [it_At it] else []) @ takeWhile go (map f [it_iteration it + 1..N])))"
proof (cases "go (it_At it)")
  case False
  then show ?thesis using assms by (simp add: recurrence_loop.simps upto_rec1)
next
  case True
  let ?j = "it_iteration it + 1"
  let ?it = "it\<lparr>it_iteration := ?j, it_At := f ?j\<rparr>"
  have "IT_Next P it = Inr ?it" using assms by (simp add: IT_Next_def delta)
  moreover have "recurrence_loop P go ?it = Some (Inr (takeWhile go (map f [?j..N])))"
    using loop_takeWhile [of ?it go] assms by simp
  ultimately have "recurrence_loop P go it = Some (Inr (it_At it # takeWhile go (map f [?j..N])))"
    using True by (simp add: recurrence_loop.simps [of _ _ it])
  then show ?thesis using True by simp
qed

lemma loop_from_start:
  assumes "f (- N) < t" and "t < f N" and "\<not> IsZeroTime t" and "\<not> go (f N)"
  shows "\<exists>it k. IterateFromNextAfter P r t Inclusive = Inr it \<and> - N < k \<and> k \<le> N \<and> t \<le> f k \<and> f (k - 1) < t \<and>
    recurrence_loop P go it =
      Some (Inr ((if t < rc_Anchor r \<and> f k \<noteq> t \<and> go (f k) then [f k] else []) @ takeWhile go (map f [k..N])))"
proof -
  obtain k where k: "- N < k" "k \<le> N" "t \<le> f k" "f (k - 1) < t" and
    it: "iterateFromNextAfterInclusive P r t =
      Inr \<lparr>it_r = r, it_iteration = (if t < rc_Anchor r \<and> f k \<noteq> t then k - 1 else k), it_At = f k\<rparr>"
    using next_inclusive [of t] assms by auto
  let ?it = "\<lparr>it_r = r, it_iteration = (if t < rc_Anchor r \<and> f k \<noteq> t then k - 1 else k), it_At = f k\<rparr>"
  have i: "IterateFromNextAfter P r t Inclusive = Inr ?it"
    using it assms(3) by (simp add: IterateFromNextAfter_def Boundary_Validate_def)
  have "recurrence_loop P go ?it =
      Some (Inr ((if t < rc_Anchor r \<and> f k \<noteq> t \<and> go (f k) then [f k] else []) @ takeWhile go (map f [k..N])))"
  proof (cases "t < rc_Anchor r \<and> f k \<noteq> t")
    case True
    then show ?thesis using loop_lagging [of ?it go] k assms(4) by simp
  next
    case False
    then have "?it = \<lparr>it_r = r, it_iteration = k, it_At = f k\<rparr>" by (simp only: if_False)
    then have "recurrence_loop P go ?it = Some (Inr (takeWhile go (map f [k..N])))"
      using loop_takeWhile [of "\<lparr>it_r = r, it_iteration = k, it_At = f k\<rparr>" go] k assms(4) by simp
    then show ?thesis using False by auto
  qed
  then show ?thesis using i k by blast
qed

end

lemma takeWhile_prefix: "sorted_wrt (\<lambda>x y. go y \<longrightarrow> go x) xs \<Longrightarrow> takeWhile go xs = filter go xs"
proof (induction xs)
  case (Cons x xs)
  then show ?case by (cases "go x") (auto simp: filter_empty_conv)
qed simp

lemma go_downward:
  assumes "inPeriod per b t \<and> ActiveAt g t" and "max (gr_EffectiveAt g) (cp_From per) \<le> s" and "s \<le> t"
  shows "inPeriod per b s \<and> ActiveAt g s"
proof
  show "ActiveAt g s"
    using assms by (auto simp: ActiveAt_iff to_ok_def split: option.splits)
  show "inPeriod per b s"
    using assms by (auto simp: inPeriod_def Let_def CP_Contains_def CP_ContainsInclusive_def CP_IsEmpty_def
        split: Boundary.splits if_splits)
qed

text \<open>What the two boundary rules admit: the end only if it is included, or if the period is empty.\<close>

lemma inPeriod_iff:
  assumes "b \<in> {Inclusive, Exclusive}" and "cp_From per \<le> t" and "cp_From per \<le> cp_To per"
  shows "inPeriod per b t \<longleftrightarrow> t < cp_To per \<or> t = cp_To per \<and> (b = Inclusive \<or> cp_From per = cp_To per)"
proof -
  have "CP_IsEmpty per \<longleftrightarrow> cp_From per = cp_To per"
    using assms(3) by (auto simp: CP_IsEmpty_def CP_Duration_def time_Sub_def sat64_def min_def max_def)
  then show ?thesis using assms
    by (auto simp: inPeriod_def Let_def CP_Contains_def CP_ContainsInclusive_def split: if_splits)
qed

lemma grant_recurrences_list:
  assumes "regular_recurrence P r N"
    and "occurrence_of r (- N) < max (gr_EffectiveAt g) (cp_From per)"
    and "max (gr_EffectiveAt g) (cp_From per) \<le> cp_To per" and "cp_To per < occurrence_of r N"
    and "\<not> IsZeroTime (max (gr_EffectiveAt g) (cp_From per))"
  shows "\<exists>k ys. - N < k \<and> k \<le> N \<and>
    occurrence_of r (k - 1) < max (gr_EffectiveAt g) (cp_From per) \<and> max (gr_EffectiveAt g) (cp_From per) \<le> occurrence_of r k \<and>
    grant_recurrences P per b g r = Some (Inr ys) \<and>
    (let start = max (gr_EffectiveAt g) (cp_From per);
         times = filter (\<lambda>t. inPeriod per b t \<and> ActiveAt g t) (map (occurrence_of r) [k..N])
     in map fst ys = (if start < rc_Anchor r \<and> occurrence_of r k \<noteq> start then take 1 times else []) @ times)"
proof -
  let ?s = "max (gr_EffectiveAt g) (cp_From per)" and ?f = "occurrence_of r"
  let ?go = "\<lambda>t. inPeriod per b t \<and> ActiveAt g t"
  have occ: "recurrence_occurrences P r ?f N" using assms(1) by (rule regular_recurrence_occurrences)
  then have o: "occurrences (addIntervalNTimes P r (rc_Anchor r)) ?f N"
    by (simp add: recurrence_occurrences_def)
  have "\<not> ?go (?f N)" using inPeriod_le [of per b "?f N"] assms(3,4) by auto
  moreover have "?s < ?f N" using assms(3,4) by linarith
  ultimately obtain it k where it: "IterateFromNextAfter P r ?s Inclusive = Inr it"
    and k: "- N < k" "k \<le> N" "?s \<le> ?f k" "?f (k - 1) < ?s"
    and ts: "recurrence_loop P ?go it =
      Some (Inr ((if ?s < rc_Anchor r \<and> ?f k \<noteq> ?s \<and> ?go (?f k) then [?f k] else []) @ takeWhile ?go (map ?f [k..N])))"
    using recurrence_occurrences.loop_from_start [OF occ assms(2) _ assms(5), of ?go] by blast
  have le: "?f i \<le> ?f j" if "k \<le> i" "i \<le> j" "j \<le> N" for i j
    using occurrences.incr_le [OF o, of i j] that k(1) by simp
  have sorted: "sorted_wrt (\<lambda>x y. ?go y \<longrightarrow> ?go x) (map ?f [k..N])"
    unfolding sorted_wrt_map
  proof (rule sorted_wrt_mono_rel [OF _ sorted_wrt_upto])
    fix i j assume "i \<in> set [k..N]" "j \<in> set [k..N]" "i < j"
    then have "?f i \<le> ?f j" "?s \<le> ?f i" using le [of i j] le [of k i] k(3) by auto
    then show "?go (?f j) \<longrightarrow> ?go (?f i)" using go_downward [of per b "?f j" g "?f i"] by blast
  qed
  note filtered = takeWhile_prefix [OF sorted]
  have first: "(if ?go (?f k) then [?f k] else []) = take 1 (filter ?go (map ?f [k..N]))"
    unfolding filtered [symmetric] using k(2) by (simp add: upto_rec1)
  let ?ts = "(if ?s < rc_Anchor r \<and> ?f k \<noteq> ?s then take 1 (filter ?go (map ?f [k..N])) else []) @ filter ?go (map ?f [k..N])"
  have "recurrence_loop P ?go it = Some (Inr ?ts)"
    unfolding ts filtered first [symmetric] by simp
  then have "grant_recurrences P per b g r = Some (Inr (map (\<lambda>t. (t, gr_ID g)) ?ts))"
    using it by (simp add: grant_recurrences_def)
  moreover have "map fst (map (\<lambda>t. (t, gr_ID g)) ?ts) = ?ts" unfolding map_map by (simp add: comp_def)
  ultimately show ?thesis using k unfolding Let_def by blast
qed

text \<open>
  C32. The recurrence times collected for a grant, whose recurrence has any interval without negative fields, are
  in order the occurrences from the first that is not before the grant takes effect or the period starts, as
  far as the boundary rule of the period admits them and the grant is active; the unbounded loop that collects
  them returns. The first of them comes twice where the recurrence is anchored later and none falls on the start.
\<close>

theorem grant_recurrences_exact:
  assumes "regular_recurrence P r N"
    and "occurrence_of r (- N) < max (gr_EffectiveAt g) (cp_From per)"
    and "max (gr_EffectiveAt g) (cp_From per) \<le> cp_To per" and "cp_To per < occurrence_of r N"
    and "\<not> IsZeroTime (max (gr_EffectiveAt g) (cp_From per))" and "b \<in> {Inclusive, Exclusive}"
  shows "\<exists>k ys. - N < k \<and> k \<le> N \<and>
    occurrence_of r (k - 1) < max (gr_EffectiveAt g) (cp_From per) \<and> max (gr_EffectiveAt g) (cp_From per) \<le> occurrence_of r k \<and>
    grant_recurrences P per b g r = Some (Inr ys) \<and>
    (let start = max (gr_EffectiveAt g) (cp_From per);
         admitted = (\<lambda>t. t < cp_To per \<or> t = cp_To per \<and> (b = Inclusive \<or> cp_From per = cp_To per));
         times = filter (\<lambda>t. admitted t \<and> ActiveAt g t) (map (occurrence_of r) [k..N])
     in map fst ys = (if start < rc_Anchor r \<and> occurrence_of r k \<noteq> start then take 1 times else []) @ times)"
proof -
  let ?s = "max (gr_EffectiveAt g) (cp_From per)" and ?f = "occurrence_of r"
  obtain k ys where k: "- N < k" "k \<le> N" "?f (k - 1) < ?s" "?s \<le> ?f k"
    and ys: "grant_recurrences P per b g r = Some (Inr ys)"
      "map fst ys = (if ?s < rc_Anchor r \<and> ?f k \<noteq> ?s then take 1 (filter (\<lambda>t. inPeriod per b t \<and> ActiveAt g t) (map ?f [k..N])) else []) @
         filter (\<lambda>t. inPeriod per b t \<and> ActiveAt g t) (map ?f [k..N])"
    using grant_recurrences_list [OF assms(1-5), of b] unfolding Let_def by blast
  have o: "occurrences (addIntervalNTimes P r (rc_Anchor r)) ?f N"
    using regular_recurrence_occurrences [OF assms(1)] by (simp add: recurrence_occurrences_def)
  have "filter (\<lambda>t. inPeriod per b t \<and> ActiveAt g t) (map ?f [k..N]) = filter (\<lambda>t. (t < cp_To per \<or> t = cp_To per \<and>
      (b = Inclusive \<or> cp_From per = cp_To per)) \<and> ActiveAt g t) (map ?f [k..N])"
  proof (rule filter_cong [OF refl])
    fix t assume "t \<in> set (map ?f [k..N])"
    then obtain i where "t = ?f i" "k \<le> i" "i \<le> N" by auto
    then have "?s \<le> t" using occurrences.incr_le [OF o, of k i] k by simp
    then have "cp_From per \<le> t" "cp_From per \<le> cp_To per" using assms(3) by simp_all
    from inPeriod_iff [OF assms(6) this] show "inPeriod per b t \<and> ActiveAt g t \<longleftrightarrow>
        (t < cp_To per \<or> t = cp_To per \<and> (b = Inclusive \<or> cp_From per = cp_To per)) \<and> ActiveAt g t" by (simp only:)
  qed
  note times = ys(2) [unfolded this]
  show ?thesis unfolding Let_def using k ys(1) times by blast
qed

theorem grant_recurrences_exact_witness:
  "\<exists>k ys. grant_recurrences std_period_lib \<lparr>cp_From = 2 * nsDay, cp_To = 400 * nsDay\<rparr> Exclusive
      (plain_grant ''a'' 5 1) (RecurrencePeriodMonth (3 * nsDay)) = Some (Inr ys) \<and>
    occurrence_of (RecurrencePeriodMonth (3 * nsDay)) k \<ge> 2 * nsDay"
proof -
  let ?r = "RecurrencePeriodMonth (3 * nsDay)" and ?per = "\<lparr>cp_From = 2 * nsDay, cp_To = 400 * nsDay\<rparr>"
  have s: "max (gr_EffectiveAt (plain_grant ''a'' 5 1)) (cp_From ?per) = 2 * nsDay"
    by (simp add: plain_grant_def nsDay_def)
  have o: "occurrence_of ?r (- 3222) < 2 * nsDay" "400 * nsDay < occurrence_of ?r 3222"
    using monthly_reach [of 3222 "3 * nsDay"] by (simp_all add: nsDay_def)
  have z: "\<not> IsZeroTime (2 * nsDay)" by (simp add: IsZeroTime_def nsDay_def)
  have l: "2 * nsDay \<le> cp_To ?per" "occurrence_of ?r 3222 > cp_To ?per" using o(2) by (simp_all add: nsDay_def)
  show ?thesis
    using grant_recurrences_exact [OF regular_monthly, of "3 * nsDay" "plain_grant ''a'' 5 1" ?per Exclusive, unfolded s, OF o(1) l z]
    by blast
qed

end
