(* ===== verification/History.thy ===== *)
theory History
  imports BurnDown Phases
begin

text \<open>
  The history of a burn-down (openmeter/credit/engine/history.go): the segments the engine
  calculated, their order, and the snapshots that can be read back out of it. A Go panic
  (\<open>nil\<close> dereference, index out of range) is \<open>None\<close>.
\<close>

record SegmentTerminationReason =
  tr_PriorityChange :: bool
  tr_Recurrence :: "string list"
  tr_UsageReset :: bool
  tr_Rollover :: bool

record GrantBurnDownHistorySegment =
  sg_Period :: ClosedPeriod
  sg_BalanceAtStart :: BalanceMap
  sg_TerminationReasons :: SegmentTerminationReason
  sg_TotalUsage :: rat
  sg_OverageAtStart :: rat
  sg_Overage :: rat
  sg_GrantUsages :: "GrantUsage list"

abbreviation sg_From :: "GrantBurnDownHistorySegment \<Rightarrow> time" where
  "sg_From s \<equiv> cp_From (sg_Period s)"

abbreviation sg_To :: "GrantBurnDownHistorySegment \<Rightarrow> time" where
  "sg_To s \<equiv> cp_To (sg_Period s)"

definition ApplyUsage :: "GrantBurnDownHistorySegment \<Rightarrow> BalanceMap" where
  "ApplyUsage s = foldl (\<lambda>b u. BM_Burn b (gu_GrantID u) (gu_Usage u)) (BM_Clone (sg_BalanceAtStart s)) (sg_GrantUsages s)"

definition validateStartingSnapshot :: "Snapshot \<Rightarrow> error option" where
  "validateStartingSnapshot s =
     (case sn_UsageSnapshot s of
        None \<Rightarrow> Some (Err ''starting snapshot usage snapshot is missing'')
      | Some u \<Rightarrow>
          if us_TotalGrantUsage u < 0
          then Some (Err ''starting snapshot total grant usage must be a finite non-negative number'')
          else None)"

text \<open>The \<open>less\<close> function given to \<open>sort.SliceStable\<close>, and the comparison it induces.\<close>

definition segment_less :: "GrantBurnDownHistorySegment \<Rightarrow> GrantBurnDownHistorySegment \<Rightarrow> bool" where
  "segment_less i j =
     (if sg_From i = sg_From j
      then tr_Rollover (sg_TerminationReasons i) \<and> \<not> tr_Rollover (sg_TerminationReasons j)
      else sg_From i < sg_From j)"

definition compare_segments :: "GrantBurnDownHistorySegment \<Rightarrow> GrantBurnDownHistorySegment \<Rightarrow> int" where
  "compare_segments i j = (if segment_less i j then -1 else if segment_less j i then 1 else 0)"

record GrantBurnDownHistory =
  gh_segments :: "GrantBurnDownHistorySegment list"
  gh_startingSnapshot :: Snapshot

fun segments_contiguous :: "GrantBurnDownHistorySegment list \<Rightarrow> bool" where
  "segments_contiguous (a # b # ss) \<longleftrightarrow> sg_To a = sg_From b \<and> segments_contiguous (b # ss)"
| "segments_contiguous _ \<longleftrightarrow> True"

definition NewGrantBurnDownHistory :: "GrantBurnDownHistorySegment list \<Rightarrow> Snapshot \<Rightarrow> GrantBurnDownHistory result" where
  "NewGrantBurnDownHistory segments startingSnapshot =
     check_then (validateStartingSnapshot startingSnapshot)
       (if \<exists>s \<in> set segments. sg_To s < sg_From s then Inl (Err ''segment starts after it ends'')
        else let s = sort_by compare_segments segments
        in if s \<noteq> [] \<and> sg_From (hd s) \<noteq> sn_At startingSnapshot
           then Inl (Err ''first segment does not start at starting snapshot'')
           else if s \<noteq> [] \<and> sg_OverageAtStart (hd s) \<noteq> sn_Overage startingSnapshot
           then Inl (Err ''first segment starts with another overage than the starting snapshot'')
           else if \<not> segments_contiguous s then Inl (Err ''segments are not contiguous'')
           else Inr \<lparr>gh_segments = s, gh_startingSnapshot = SN_Clone startingSnapshot\<rparr>)"

section \<open>Reading snapshots back\<close>

definition usageAtReset :: "time \<Rightarrow> SnapshottedUsage" where
  "usageAtReset tm = \<lparr>su_Usage = 0, su_Since = tm\<rparr>"

definition add_segment_usage :: "float_lib \<Rightarrow> UsageSnapshot \<Rightarrow> GrantBurnDownHistorySegment \<Rightarrow> UsageSnapshot" where
  "add_segment_usage F u segment =
     (if tr_UsageReset (sg_TerminationReasons segment) then \<lparr>us_Usage = 0, us_TotalGrantUsage = 0\<rparr>
      else \<lparr>us_Usage = fl64 (us_Usage u + sg_TotalUsage segment),
            us_TotalGrantUsage = InexactFloat64 F
              (NewFromFloat F (us_TotalGrantUsage u) + GrantUsages_Sum F (sg_GrantUsages segment))\<rparr>)"

definition getUsageSnapshotAtStartOfSegment :: "float_lib \<Rightarrow> GrantBurnDownHistory \<Rightarrow> nat \<Rightarrow> UsageSnapshot option" where
  "getUsageSnapshotAtStartOfSegment F g segmentIndex =
     map_option (\<lambda>u. foldl (add_segment_usage F) u (take segmentIndex (gh_segments g)))
       (sn_UsageSnapshot (gh_startingSnapshot g))"

text \<open>The index of the last reset before the segment, -1 if there is none.\<close>

definition lastResetSegmentIndex :: "GrantBurnDownHistorySegment list \<Rightarrow> nat \<Rightarrow> int" where
  "lastResetSegmentIndex segments segmentIndex =
     foldl (\<lambda>l i. if tr_UsageReset (sg_TerminationReasons (segments ! i)) then int i else l) (-1) [0..<segmentIndex]"

definition getUsageInPeriodUntilSegment :: "GrantBurnDownHistory \<Rightarrow> nat \<Rightarrow> SnapshottedUsage" where
  "getUsageInPeriodUntilSegment g segmentIndex =
     (let segs = gh_segments g;
          l = lastResetSegmentIndex segs segmentIndex;
          usage = (if l \<noteq> -1 \<and> nat (l + 1) < length segs
                   then usageAtReset (sg_From (segs ! nat (l + 1)))
                   else sn_Usage (gh_startingSnapshot g))
      in foldl (\<lambda>u i. u\<lparr>su_Usage := fl64 (su_Usage u + sg_TotalUsage (segs ! i))\<rparr>) usage
           [nat (l + 1)..<segmentIndex])"

definition getSnapshotAtStartOfSegment :: "float_lib \<Rightarrow> GrantBurnDownHistory \<Rightarrow> nat \<Rightarrow> Snapshot option" where
  "getSnapshotAtStartOfSegment F g segmentIndex =
     (if segmentIndex < length (gh_segments g)
      then let segment = gh_segments g ! segmentIndex
           in map_option (\<lambda>usageSnapshot. (SN_Clone (gh_startingSnapshot g))\<lparr>
                sn_Usage := getUsageInPeriodUntilSegment g segmentIndex,
                sn_UsageSnapshot := Some usageSnapshot,
                sn_Overage := sg_OverageAtStart segment,
                sn_Balances := BM_Clone (sg_BalanceAtStart segment),
                sn_At := sg_From segment\<rparr>)
              (getUsageSnapshotAtStartOfSegment F g segmentIndex)
      else None)"

definition GetSnapshotAtStartOfSegment :: "float_lib \<Rightarrow> GrantBurnDownHistory \<Rightarrow> int \<Rightarrow> Snapshot result option" where
  "GetSnapshotAtStartOfSegment F g segmentIndex =
     (if segmentIndex < 0 \<or> segmentIndex \<ge> int (length (gh_segments g))
      then Some (Inl (Err ''segment index out of bounds''))
      else map_option Inr (getSnapshotAtStartOfSegment F g (nat segmentIndex)))"

text \<open>The zero value of \<open>balance.Snapshot\<close>, which a chunk after the last segment would start with.\<close>

definition zero_Snapshot :: Snapshot where
  "zero_Snapshot = \<lparr>sn_Usage = \<lparr>su_Usage = 0, su_Since = 0\<rparr>, sn_UsageSnapshot = None,
     sn_Balances = Map.empty, sn_Overage = 0, sn_At = 0, sn_UnitConfig = None\<rparr>"

text \<open>
  The loop of \<open>ChunkByResets\<close> from segment \<open>i\<close> on: \<open>current\<close> and the remaining segments are given,
  the chunks from here on are returned.
\<close>

fun chunk_loop :: "float_lib \<Rightarrow> GrantBurnDownHistory \<Rightarrow> nat \<Rightarrow> GrantBurnDownHistory
    \<Rightarrow> GrantBurnDownHistorySegment list \<Rightarrow> GrantBurnDownHistory list option" where
  "chunk_loop F g i current [] = Some (if gh_segments current \<noteq> [] then [current] else [])"
| "chunk_loop F g i current (seg # segs) =
     (let cur = current\<lparr>gh_segments := gh_segments current @ [seg]\<rparr>
      in if tr_UsageReset (sg_TerminationReasons seg)
         then Option.bind (if i + 1 < length (gh_segments g)
                           then getSnapshotAtStartOfSegment F g (i + 1) else Some zero_Snapshot)
                (\<lambda>s. map_option ((#) cur)
                  (chunk_loop F g (i + 1) \<lparr>gh_segments = [], gh_startingSnapshot = s\<rparr> segs))
         else chunk_loop F g (i + 1) cur segs)"

definition ChunkByResets :: "float_lib \<Rightarrow> GrantBurnDownHistory \<Rightarrow> GrantBurnDownHistory list option" where
  "ChunkByResets F g =
     (if gh_segments g = [] then Some []
      else chunk_loop F g 0 \<lparr>gh_segments = [], gh_startingSnapshot = SN_Clone (gh_startingSnapshot g)\<rparr>
             (gh_segments g))"

definition TotalGrantUsage :: "float_lib \<Rightarrow> GrantBurnDownHistory \<Rightarrow> rat" where
  "TotalGrantUsage F g = foldl (\<lambda>total seg. total + GrantUsages_Sum F (sg_GrantUsages seg))
     (NewFromFloat F 0) (gh_segments g)"

definition TotalUsageInHistory :: "GrantBurnDownHistory \<Rightarrow> rat" where
  "TotalUsageInHistory g = foldl (\<lambda>total s. fl64 (total + sg_TotalUsage s)) 0 (gh_segments g)"

definition GH_Overage :: "GrantBurnDownHistory \<Rightarrow> rat option" where
  "GH_Overage g = (if gh_segments g = [] then None else Some (sg_Overage (last (gh_segments g))))"

definition GetPeriods :: "GrantBurnDownHistory \<Rightarrow> ClosedPeriod list" where
  "GetPeriods g = map sg_Period (gh_segments g)"

section \<open>Order of the segments\<close>

lemma compare_segments_alt:
  "compare_segments = then_compare (\<lambda>i j. compare_values (sg_From i) (sg_From j))
     (\<lambda>i j. compare_values (\<not> tr_Rollover (sg_TerminationReasons i)) (\<not> tr_Rollover (sg_TerminationReasons j)))"
  by (intro ext) (auto simp: compare_segments_def segment_less_def then_compare_def compare_values_def)

interpretation segment_order: comparator compare_segments
  unfolding compare_segments_alt by (intro comparator_then key_comparator.comparator_axioms)

lemma NewGrantBurnDownHistory_Inr:
  "NewGrantBurnDownHistory segments s0 = Inr h \<longleftrightarrow>
     validateStartingSnapshot s0 = None \<and> (\<forall>s \<in> set segments. sg_From s \<le> sg_To s) \<and>
     h = \<lparr>gh_segments = sort_by compare_segments segments, gh_startingSnapshot = s0\<rparr> \<and>
     (segments = [] \<or> sg_From (hd (gh_segments h)) = sn_At s0 \<and> sg_OverageAtStart (hd (gh_segments h)) = sn_Overage s0) \<and>
     segments_contiguous (gh_segments h)"
  unfolding NewGrantBurnDownHistory_def check_then_Inr Let_def
  by (auto simp: leD split: if_splits)

lemma chunk_loop_concat:
  "chunk_loop F g i current segs = Some chunks \<Longrightarrow>
     concat (map gh_segments chunks) = gh_segments current @ segs"
proof (induction F g i current segs arbitrary: chunks rule: chunk_loop.induct)
  case (2 F g i current seg segs)
  show ?case
  proof (cases "tr_UsageReset (sg_TerminationReasons seg)")
    case True
    then show ?thesis using 2 by (auto simp: Let_def bind_eq_Some_conv)
  next
    case False
    then show ?thesis using 2 by (simp add: Let_def)
  qed
qed (auto split: if_splits)

definition resets_only_last :: "GrantBurnDownHistorySegment list \<Rightarrow> bool" where
  "resets_only_last segs \<longleftrightarrow> (\<forall>s \<in> set (butlast segs). \<not> tr_UsageReset (sg_TerminationReasons s))"

lemma chunk_loop_resets:
  "chunk_loop F g i current segs = Some chunks \<Longrightarrow>
   \<forall>s \<in> set (gh_segments current). \<not> tr_UsageReset (sg_TerminationReasons s) \<Longrightarrow>
   \<forall>c \<in> set chunks. gh_segments c \<noteq> [] \<and> resets_only_last (gh_segments c)"
proof (induction F g i current segs arbitrary: chunks rule: chunk_loop.induct)
  case (2 F g i current seg segs)
  show ?case
  proof (cases "tr_UsageReset (sg_TerminationReasons seg)")
    case True
    let ?cur = "current\<lparr>gh_segments := gh_segments current @ [seg]\<rparr>"
    obtain s cs where s: "(if i + 1 < length (gh_segments g) then getSnapshotAtStartOfSegment F g (i + 1)
        else Some zero_Snapshot) = Some s"
      and c: "chunk_loop F g (i + 1) \<lparr>gh_segments = [], gh_startingSnapshot = s\<rparr> segs = Some cs"
      and chunks: "chunks = ?cur # cs"
      using True "2.prems"(1) by (auto simp: Let_def bind_eq_Some_conv)
    have "\<forall>c \<in> set cs. gh_segments c \<noteq> [] \<and> resets_only_last (gh_segments c)"
      using "2.IH"(1) [OF refl True s c] by simp
    then show ?thesis using "2.prems"(2) chunks by (simp add: resets_only_last_def)
  next
    case False
    then show ?thesis using 2 by (simp add: Let_def)
  qed
qed (auto simp: resets_only_last_def dest: in_set_butlastD split: if_splits)

lemma getSnapshot_total:
  "sn_UsageSnapshot (gh_startingSnapshot g) \<noteq> None \<Longrightarrow> i < length (gh_segments g) \<Longrightarrow>
    getSnapshotAtStartOfSegment F g i \<noteq> None"
  by (auto simp: getSnapshotAtStartOfSegment_def getUsageSnapshotAtStartOfSegment_def Let_def)

lemma chunk_loop_total:
  "sn_UsageSnapshot (gh_startingSnapshot g) \<noteq> None \<Longrightarrow> chunk_loop F g i current segs \<noteq> None"
proof (induction F g i current segs rule: chunk_loop.induct)
  case (2 F g i current seg segs)
  show ?case
  proof (cases "tr_UsageReset (sg_TerminationReasons seg)")
    case True
    obtain s where s: "(if i + 1 < length (gh_segments g) then getSnapshotAtStartOfSegment F g (i + 1)
        else Some zero_Snapshot) = Some s"
      using getSnapshot_total [OF "2.prems", of "i + 1" F] by (cases "i + 1 < length (gh_segments g)") auto
    obtain cs where "chunk_loop F g (i + 1) \<lparr>gh_segments = [], gh_startingSnapshot = s\<rparr> segs = Some cs"
      using "2.IH"(1) [OF refl True s "2.prems"] by blast
    then show ?thesis using True s by (simp add: Let_def)
  next
    case False
    then show ?thesis using 2 by (simp add: Let_def)
  qed
qed simp

section \<open>Properties\<close>

text \<open>
  A history is accepted only if its segments tile time from the starting snapshot on: it holds
  the given segments, ordered by start with rollovers first, each starting where the one before
  ends and none ending before it starts.
\<close>

theorem NewGrantBurnDownHistory_tiles:
  assumes "NewGrantBurnDownHistory segments s0 = Inr h"
  shows "mset (gh_segments h) = mset segments \<and> segments_contiguous (gh_segments h) \<and>
    sorted_wrt (\<lambda>i j. \<not> segment_less j i) (gh_segments h) \<and>
    (\<forall>s \<in> set (gh_segments h). sg_From s \<le> sg_To s) \<and>
    (segments = [] \<or> sg_From (hd (gh_segments h)) = sn_At s0)"
proof -
  have "compare_segments i j \<le> 0 \<longleftrightarrow> \<not> segment_less j i" for i j
    by (auto simp: compare_segments_def segment_less_def)
  then have "sorted_wrt (\<lambda>i j. \<not> segment_less j i) (sort_by compare_segments segments)"
    using segment_order.sorted_sort_by [of segments] by simp
  then show ?thesis using assms by (auto simp: NewGrantBurnDownHistory_Inr)
qed

definition plain_segment :: "time \<Rightarrow> time \<Rightarrow> bool \<Rightarrow> bool \<Rightarrow> GrantBurnDownHistorySegment" where
  "plain_segment a b reset rollover = \<lparr>sg_Period = \<lparr>cp_From = a, cp_To = b\<rparr>, sg_BalanceAtStart = Map.empty,
     sg_TerminationReasons = \<lparr>tr_PriorityChange = False, tr_Recurrence = [], tr_UsageReset = reset,
       tr_Rollover = rollover\<rparr>,
     sg_TotalUsage = 0, sg_OverageAtStart = 0, sg_Overage = 0, sg_GrantUsages = []\<rparr>"

theorem NewGrantBurnDownHistory_tiles_witness:
  "\<exists>h. NewGrantBurnDownHistory [plain_segment 5 9 False False, plain_segment 2 5 True False, plain_segment 5 5 False True]
        (NewStartingSnapshot [] 2) = Inr h \<and>
    segments_contiguous (gh_segments h) \<and> sg_From (hd (gh_segments h)) = 2"
proof -
  let ?ss = "[plain_segment 5 9 False False, plain_segment 2 5 True False, plain_segment 5 5 False True]"
  have "sort_by compare_segments ?ss =
      [plain_segment 2 5 True False, plain_segment 5 5 False True, plain_segment 5 9 False False]"
    by (simp add: compare_segments_def segment_less_def plain_segment_def)
  then obtain h where h: "NewGrantBurnDownHistory ?ss (NewStartingSnapshot [] 2) = Inr h"
    by (simp add: NewGrantBurnDownHistory_def validateStartingSnapshot_def NewStartingSnapshot_def plain_segment_def)
  then show ?thesis using NewGrantBurnDownHistory_tiles [OF h] by (auto simp: NewStartingSnapshot_def)
qed

text \<open>
  \<open>ChunkByResets\<close> never panics on a history with a usage snapshot; it loses and reorders no
  segment, no chunk is empty, and within a chunk only the last segment may end in a reset.
\<close>

theorem ChunkByResets_partition:
  assumes "sn_UsageSnapshot (gh_startingSnapshot g) \<noteq> None"
  shows "\<exists>chunks. ChunkByResets F g = Some chunks \<and> concat (map gh_segments chunks) = gh_segments g \<and>
    (\<forall>c \<in> set chunks. gh_segments c \<noteq> [] \<and> resets_only_last (gh_segments c))"
proof (cases "gh_segments g = []")
  case True
  then show ?thesis by (simp add: ChunkByResets_def)
next
  case False
  let ?c = "\<lparr>gh_segments = [], gh_startingSnapshot = SN_Clone (gh_startingSnapshot g)\<rparr>"
  obtain chunks where c: "chunk_loop F g 0 ?c (gh_segments g) = Some chunks"
    using chunk_loop_total [OF assms] by blast
  then show ?thesis
    using False chunk_loop_concat [OF c] chunk_loop_resets [OF c] by (simp add: ChunkByResets_def)
qed

theorem ChunkByResets_partition_witness:
  "\<exists>chunks. ChunkByResets std_float_lib \<lparr>gh_segments = [plain_segment 2 5 True False, plain_segment 5 9 False False],
      gh_startingSnapshot = NewStartingSnapshot [] 2\<rparr> = Some chunks \<and>
    concat (map gh_segments chunks) = [plain_segment 2 5 True False, plain_segment 5 9 False False]"
  using ChunkByResets_partition [of "\<lparr>gh_segments = [plain_segment 2 5 True False, plain_segment 5 9 False False],
      gh_startingSnapshot = NewStartingSnapshot [] 2\<rparr>" std_float_lib]
  by (auto simp: NewStartingSnapshot_def)

end
