(* ===== verification/Meter.thy ===== *)
theory Meter
  imports Prelude
begin

text \<open>
  Meter aggregations (openmeter/meter/meter.go) and the meters of features
  (openmeter/billing/featuremeter/featuremeter.go). Of a meter only its aggregation is kept, of a
  feature its key.
\<close>

section \<open>Aggregations\<close>

datatype MeterAggregation = AggSum | AggCount | AggAvg | AggMin | AggMax | AggUniqueCount | AggLatest
  | AggOther string

fun Aggregation_string :: "MeterAggregation \<Rightarrow> string" where
  "Aggregation_string AggSum = ''SUM''"
| "Aggregation_string AggCount = ''COUNT''"
| "Aggregation_string AggAvg = ''AVG''"
| "Aggregation_string AggMin = ''MIN''"
| "Aggregation_string AggMax = ''MAX''"
| "Aggregation_string AggUniqueCount = ''UNIQUE_COUNT''"
| "Aggregation_string AggLatest = ''LATEST''"
| "Aggregation_string (AggOther s) = s"

definition Aggregation_Values :: "string list" where
  "Aggregation_Values = map Aggregation_string
     [AggSum, AggCount, AggAvg, AggMin, AggMax, AggUniqueCount, AggLatest]"

definition Aggregation_IsValid :: "string \<Rightarrow> bool" where
  "Aggregation_IsValid input \<longleftrightarrow> list_ex (\<lambda>v. v = input) Aggregation_Values"

section \<open>Meters of features\<close>

record Meter =
  me_Aggregation :: MeterAggregation

record FeatureMeter =
  fm_FeatureKey :: string
  fm_Meter :: "Meter option"

record FeatureMeterCollection =
  fc_ByKey :: "string \<Rightarrow> FeatureMeter option"
  fc_ByID :: "string \<Rightarrow> FeatureMeter option"

definition FM_GetByKey :: "FeatureMeterCollection \<Rightarrow> string \<Rightarrow> bool \<Rightarrow> FeatureMeter result" where
  "FM_GetByKey f featureKey requireMeter =
     (case fc_ByKey f featureKey of
        None \<Rightarrow> Inl (Err ''feature not found'')
      | Some featureMeter \<Rightarrow>
          if requireMeter \<and> fm_Meter featureMeter = None
          then Inl (GenericValidation (Err ''feature has no meter associated''))
          else Inr featureMeter)"

definition FM_HasFeatureKey :: "FeatureMeterCollection \<Rightarrow> string \<Rightarrow> bool" where
  "FM_HasFeatureKey f featureKey \<longleftrightarrow> fc_ByKey f featureKey \<noteq> None"

definition FM_HasFeatureID :: "FeatureMeterCollection \<Rightarrow> string \<Rightarrow> bool" where
  "FM_HasFeatureID f featureID \<longleftrightarrow> fc_ByID f featureID \<noteq> None"

definition FM_GetByID :: "FeatureMeterCollection \<Rightarrow> string \<Rightarrow> bool \<Rightarrow> FeatureMeter result" where
  "FM_GetByID f featureID requireMeter =
     (case fc_ByID f featureID of
        None \<Rightarrow> Inl (Err ''feature not found'')
      | Some featureMeter \<Rightarrow>
          if requireMeter \<and> fm_Meter featureMeter = None
          then Inl (GenericValidation (Err ''feature has no meter associated''))
          else Inr featureMeter)"

record IDOrKey =
  ik_ID :: string
  ik_Key :: string

record FeatureMeterRef =
  fr_IDOrKey :: IDOrKey
  fr_RequireMeter :: bool

definition FM_Resolve :: "FeatureMeterCollection \<Rightarrow> FeatureMeterRef \<Rightarrow> FeatureMeter result" where
  "FM_Resolve f r =
     (if ik_Key (fr_IDOrKey r) \<noteq> [] \<and> ik_ID (fr_IDOrKey r) \<noteq> []
      then Inl (Err ''feature reference must have either key or ID, not both'')
      else if ik_Key (fr_IDOrKey r) \<noteq> [] then FM_GetByKey f (ik_Key (fr_IDOrKey r)) (fr_RequireMeter r)
      else if ik_ID (fr_IDOrKey r) \<noteq> [] then FM_GetByID f (ik_ID (fr_IDOrKey r)) (fr_RequireMeter r)
      else Inl (Err ''feature reference must have either key or ID''))"

end
