(* ===== verification/EngineRun.thy ===== *)
theory EngineRun
  imports History Meter
begin

text \<open>
  The credit engine (openmeter/credit/engine/engine.go, run.go and reset.go): running a period
  phase by phase, rolling grants over at a reset, and the run over a timeline of resets.
  \<open>QueryUsage\<close>, the usage of the metered feature between two instants, is a parameter that may
  fail; only whether the aggregation is \<open>LATEST\<close> matters. Results are options of results: \<open>None\<close> is a run that does not return, \<open>Inl\<close> its error.
\<close>

type_synonym query_usage = "time \<Rightarrow> time \<Rightarrow> rat result"

record inbetweenRunParams =
  ib_Grants :: "Grant list"
  ib_Until :: time
  ib_StartingSnapshot :: Snapshot
  ib_Aggregation :: MeterAggregation
  ib_PeriodEndRecurrenceBoundaryBehavior :: Boundary

record RunParams =
  rp_Aggregation :: MeterAggregation
  rp_Grants :: "Grant list"
  rp_Until :: time
  rp_StartingSnapshot :: Snapshot
  rp_PreserveOverage :: bool
  rp_Resets :: "time Timeline"

definition RP_Clone :: "RunParams \<Rightarrow> RunParams" where
  "RP_Clone p = \<lparr>rp_Aggregation = rp_Aggregation p, rp_Grants = rp_Grants p, rp_Until = rp_Until p,
     rp_StartingSnapshot = SN_Clone (rp_StartingSnapshot p), rp_PreserveOverage = rp_PreserveOverage p,
     rp_Resets = NewSimpleTimeline (GetTimes (rp_Resets p))\<rparr>"

record RunResult =
  rr_Snapshot :: Snapshot
  rr_History :: GrantBurnDownHistory
  rr_RunParams :: RunParams

section \<open>Between resets\<close>

text \<open>The grant map: a later grant with the same ID replaces an earlier one.\<close>

definition grantMap :: "Grant list \<Rightarrow> string \<Rightarrow> Grant option" where
  "grantMap grants = map_of (rev (map (\<lambda>g. (gr_ID g, g)) grants))"

fun applyRecurrences :: "(string \<Rightarrow> Grant option) \<Rightarrow> string list \<Rightarrow> BalanceMap \<Rightarrow> BalanceMap result" where
  "applyRecurrences gm [] balances = Inr balances"
| "applyRecurrences gm (grantID # ids) balances =
     (case gm grantID of
        None \<Rightarrow> Inl (Err ''failed to get grant with id'')
      | Some g \<Rightarrow> applyRecurrences gm ids
          (BM_Set balances (gr_ID g) (RecurrenceBalance g (bm_get balances grantID))))"

record run_state =
  st_grants :: "Grant list"
  st_balances :: BalanceMap
  st_overage :: rat
  st_rePrioritize :: bool
  st_recurredGrants :: "string list"
  st_segments :: "GrantBurnDownHistorySegment list"

text \<open>Balances at the start of a phase: inactive grants have none, grants taking effect their amount.\<close>

definition zero_inactive :: "time \<Rightarrow> Grant list \<Rightarrow> BalanceMap \<Rightarrow> BalanceMap" where
  "zero_inactive start grants b = foldl (\<lambda>b g. if ActiveAt g start then b else BM_Set b (gr_ID g) 0) b grants"

definition start_effective :: "time \<Rightarrow> Grant list \<Rightarrow> BalanceMap \<Rightarrow> BalanceMap" where
  "start_effective start activeGrants b =
     foldl (\<lambda>b g. if gr_EffectiveAt g = start then BM_Set b (gr_ID g) (gr_Amount g) else b) b activeGrants"

definition latest_amounts :: "MeterAggregation \<Rightarrow> Grant list \<Rightarrow> BalanceMap \<Rightarrow> BalanceMap" where
  "latest_amounts agg activeGrants b =
     (if agg = AggLatest then foldl (\<lambda>b g. BM_Set b (gr_ID g) (gr_Amount g)) b activeGrants else b)"

definition phase_start_balances :: "MeterAggregation \<Rightarrow> time \<Rightarrow> Grant list \<Rightarrow> BalanceMap \<Rightarrow> BalanceMap" where
  "phase_start_balances agg start grants b =
     (let activeGrants = filter (\<lambda>g. ActiveAt g start) grants
      in latest_amounts agg activeGrants (start_effective start activeGrants (zero_inactive start grants b)))"

definition run_phase :: "float_lib \<Rightarrow> query_usage \<Rightarrow> MeterAggregation \<Rightarrow> (string \<Rightarrow> Grant option)
    \<Rightarrow> run_state \<Rightarrow> burnPhase \<Rightarrow> run_state result" where
  "run_phase F QueryUsage agg gm st phase =
     (let grants = (if st_rePrioritize st then PrioritizeGrants (st_grants st) else st_grants st)
      in bind_result (if st_recurredGrants st \<noteq> [] then applyRecurrences gm (st_recurredGrants st) (st_balances st)
                      else Inr (st_balances st))
         (\<lambda>recurred.
            let activeGrants = filter (\<lambda>g. ActiveAt g (bp_from phase)) grants;
                balances = phase_start_balances agg (bp_from phase) grants recurred
            in bind_result (wrap_result ''failed to get feature usage for period'' (QueryUsage (bp_from phase) (bp_to phase)))
               (\<lambda>usage.
                  case burnDownGrants F balances activeGrants (fl64 (usage + st_overage st)) of
                    (balances', uses, overage) \<Rightarrow>
                      let segment = \<lparr>sg_Period = \<lparr>cp_From = bp_from phase, cp_To = bp_to phase\<rparr>,
                            sg_BalanceAtStart = BM_Clone balances,
                            sg_TerminationReasons = \<lparr>tr_PriorityChange = bp_priorityChange phase,
                              tr_Recurrence = bp_grantsRecurredAtEnd phase, tr_UsageReset = False, tr_Rollover = False\<rparr>,
                            sg_TotalUsage = usage, sg_OverageAtStart = st_overage st, sg_Overage = overage,
                            sg_GrantUsages = uses\<rparr>
                      in Inr \<lparr>st_grants = grants, st_balances = balances', st_overage = overage,
                              st_rePrioritize = bp_priorityChange phase,
                              st_recurredGrants = bp_grantsRecurredAtEnd phase,
                              st_segments = st_segments st @ [segment]\<rparr>)))"

fun run_phases :: "float_lib \<Rightarrow> query_usage \<Rightarrow> MeterAggregation \<Rightarrow> (string \<Rightarrow> Grant option)
    \<Rightarrow> run_state \<Rightarrow> burnPhase list \<Rightarrow> run_state result" where
  "run_phases F QueryUsage agg gm st [] = Inr st"
| "run_phases F QueryUsage agg gm st (phase # phases) =
     bind_result (run_phase F QueryUsage agg gm st phase) (\<lambda>st'. run_phases F QueryUsage agg gm st' phases)"

text \<open>What the end of a period is made of: the history of its segments and the snapshot at its end.\<close>

definition end_of_period :: "float_lib \<Rightarrow> inbetweenRunParams \<Rightarrow> run_state \<Rightarrow> (Snapshot \<times> GrantBurnDownHistory) result" where
  "end_of_period F params st =
     (let s0 = ib_StartingSnapshot params
      in bind_result (wrap_result ''failed to create grant burn down history'' (NewGrantBurnDownHistory (st_segments st) s0))
         (\<lambda>history.
            case sn_UsageSnapshot s0 of
              None \<Rightarrow> Inl (Err ''starting snapshot usage snapshot is missing'')
            | Some us \<Rightarrow>
                let totalUsage = TotalUsageInHistory history
                in Inr (\<lparr>sn_Usage = \<lparr>su_Usage = fl64 (su_Usage (sn_Usage s0) + totalUsage),
                            su_Since = su_Since (sn_Usage s0)\<rparr>,
                         sn_UsageSnapshot = Some \<lparr>us_Usage = fl64 (us_Usage us + totalUsage),
                            us_TotalGrantUsage = InexactFloat64 F
                              (NewFromFloat F (us_TotalGrantUsage us) + TotalGrantUsage F history)\<rparr>,
                         sn_Balances = st_balances st, sn_Overage = st_overage st, sn_At = ib_Until params,
                         sn_UnitConfig = map_option UC_Clone (sn_UnitConfig s0)\<rparr>, history)))"

definition runBetweenResets :: "period_lib \<Rightarrow> float_lib \<Rightarrow> query_usage \<Rightarrow> inbetweenRunParams
    \<Rightarrow> (Snapshot \<times> GrantBurnDownHistory) result option" where
  "runBetweenResets P F QueryUsage params =
     (let s0 = ib_StartingSnapshot params;
          per = \<lparr>cp_From = sn_At s0, cp_To = ib_Until params\<rparr>
      in if \<not> ExactlyForGrants (sn_Balances s0) (ib_Grants params)
         then Some (Inl (Err ''provided grants and balances don't pair up''))
         else map_option (\<lambda>res.
                bind_result (wrap_result ''failed to get burn phases'' res) (\<lambda>plan.
                  let grants = PrioritizeGrants (ib_Grants params);
                      gm = grantMap grants
                  in bind_result (if pp_grantsRecurredAtStart plan \<noteq> []
                                  then applyRecurrences gm (pp_grantsRecurredAtStart plan) (BM_Clone (sn_Balances s0))
                                  else Inr (BM_Clone (sn_Balances s0)))
                     (\<lambda>balances. bind_result
                        (run_phases F QueryUsage (ib_Aggregation params) gm
                           \<lparr>st_grants = grants, st_balances = balances, st_overage = sn_Overage s0,
                            st_rePrioritize = False, st_recurredGrants = [], st_segments = []\<rparr> (pp_phases plan))
                        (end_of_period F params))))
              (getPhases P (ib_Grants params) per (ib_PeriodEndRecurrenceBoundaryBehavior params)))"

section \<open>Resets (reset.go)\<close>

definition rollover_balances :: "Grant list \<Rightarrow> time \<Rightarrow> BalanceMap \<Rightarrow> BalanceMap result" where
  "rollover_balances grants tm balances =
     (let gm = grantMap grants
      in if \<exists>k \<in> dom balances. gm k = None then Inl (Err ''grant not found'')
         else Inr (\<lambda>k. case (balances k, gm k) of
                (Some b, Some g) \<Rightarrow> Some (if ActiveAt g tm then RolloverBalance g b else b)
              | (b, _) \<Rightarrow> b))"

definition reset :: "float_lib \<Rightarrow> Grant list \<Rightarrow> Snapshot \<Rightarrow> bool \<Rightarrow> time
    \<Rightarrow> (Snapshot \<times> GrantBurnDownHistorySegment) result" where
  "reset F grants snap preserveOverage tm =
     bind_result (rollover_balances grants tm (BM_Clone (sn_Balances snap))) (\<lambda>rolledOver.
       let startingOverage = (if preserveOverage then sn_Overage snap else 0);
           prioritizedGrants = PrioritizeGrants grants;
           (balances, grantUsages, overage) =
             (if startingOverage \<noteq> 0 then burnDownGrants F rolledOver prioritizedGrants startingOverage
              else (rolledOver, [], startingOverage))
       in Inr (\<lparr>sn_Usage = \<lparr>su_Usage = 0, su_Since = tm\<rparr>,
                sn_UsageSnapshot = Some \<lparr>us_Usage = 0,
                  us_TotalGrantUsage = InexactFloat64 F (GrantUsages_Sum F grantUsages)\<rparr>,
                sn_Balances = balances, sn_Overage = overage, sn_At = tm,
                sn_UnitConfig = map_option UC_Clone (sn_UnitConfig snap)\<rparr>,
               \<lparr>sg_Period = \<lparr>cp_From = tm, cp_To = tm\<rparr>, sg_BalanceAtStart = rolledOver,
                sg_TerminationReasons = \<lparr>tr_PriorityChange = False, tr_Recurrence = [],
                  tr_UsageReset = False, tr_Rollover = True\<rparr>,
                sg_TotalUsage = 0, sg_OverageAtStart = startingOverage, sg_Overage = overage,
                sg_GrantUsages = grantUsages\<rparr>))"

section \<open>A run over resets (run.go)\<close>

text \<open>\<open>historySegments[len-1].TerminationReasons.UsageReset = true\<close>, if there is a segment.\<close>

definition mark_reset :: "GrantBurnDownHistorySegment list \<Rightarrow> GrantBurnDownHistorySegment list" where
  "mark_reset segs = (if segs = [] then []
     else butlast segs @ [(last segs)\<lparr>sg_TerminationReasons :=
            (sg_TerminationReasons (last segs))\<lparr>tr_UsageReset := True\<rparr>\<rparr>])"

fun run_periods :: "period_lib \<Rightarrow> float_lib \<Rightarrow> query_usage \<Rightarrow> RunParams \<Rightarrow> Snapshot
    \<Rightarrow> GrantBurnDownHistorySegment list \<Rightarrow> ClosedPeriod list
    \<Rightarrow> (Snapshot \<times> GrantBurnDownHistorySegment list) result option" where
  "run_periods P F QueryUsage params snapshot segs [] = Some (Inr (snapshot, segs))"
| "run_periods P F QueryUsage params snapshot segs (per # pers) =
     (let relevantGrants = filterRelevantGrants (rp_Grants params) (sn_Balances snapshot) per;
          last_period = (pers = [])
      in Option.bind (runBetweenResets P F QueryUsage
             \<lparr>ib_Grants = relevantGrants, ib_Until = cp_To per, ib_StartingSnapshot = snapshot,
              ib_Aggregation = rp_Aggregation params,
              ib_PeriodEndRecurrenceBoundaryBehavior = (if last_period then Inclusive else Exclusive)\<rparr>)
         (\<lambda>runRes. case wrap_result ''failed to run calculation for period'' runRes of
             Inl e \<Rightarrow> Some (Inl e)
           | Inr (snap, history) \<Rightarrow>
               let segs' = segs @ gh_segments history
               in if last_period then run_periods P F QueryUsage params snap segs' pers
                  else (case wrap_result ''failed to reset at end of period''
                          (reset F relevantGrants snap (rp_PreserveOverage params) (cp_To per)) of
                          Inl e \<Rightarrow> Some (Inl e)
                        | Inr (snap', rolloverSegment) \<Rightarrow>
                            run_periods P F QueryUsage params snap' (mark_reset segs' @ [rolloverSegment]) pers)))"

definition Run :: "period_lib \<Rightarrow> float_lib \<Rightarrow> query_usage \<Rightarrow> RunParams \<Rightarrow> RunResult result option" where
  "Run P F QueryUsage params =
     (let s0 = rp_StartingSnapshot params
      in case validateStartingSnapshot s0 of
           Some e \<Rightarrow> Some (Inl e)
         | None \<Rightarrow>
             if CP_ContainsInclusive (GetBoundingPeriod (rp_Resets params)) (sn_At s0)
             then Some (Inl (Err ''provided reset times must occur after the starting snapshot''))
             else let timeline = NewSimpleTimeline ([sn_At s0] @ GetTimes (rp_Resets params) @ [rp_Until params]);
                      boundingPeriod = GetBoundingPeriod timeline
             in if cp_From boundingPeriod \<noteq> sn_At s0 \<or> cp_To boundingPeriod \<noteq> rp_Until params
                then Some (Inl (Err ''timeline does not represent the correct period''))
                else map_option (\<lambda>res. bind_result res (\<lambda>(snapshot, historySegments).
                       bind_result (wrap_result ''failed to create grant burn down history''
                           (NewGrantBurnDownHistory historySegments s0))
                         (\<lambda>history. Inr \<lparr>rr_Snapshot = snapshot, rr_History = history,
                            rr_RunParams = RP_Clone params\<rparr>)))
                     (run_periods P F QueryUsage params s0 [] (GetClosedPeriods timeline)))"

section \<open>The shape of a run\<close>

definition phase_period :: "burnPhase \<Rightarrow> ClosedPeriod" where
  "phase_period p = \<lparr>cp_From = bp_from p, cp_To = bp_to p\<rparr>"

lemma run_phase_cases:
  assumes "run_phase F Q agg gm st phase = Inr st'"
  obtains recurred usage uses where
    "(if st_recurredGrants st \<noteq> [] then applyRecurrences gm (st_recurredGrants st) (st_balances st)
      else Inr (st_balances st)) = Inr recurred"
    and "Q (bp_from phase) (bp_to phase) = Inr usage"
    and "set (st_grants st') = set (st_grants st)" and "mset (st_grants st') = mset (st_grants st)"
    and "burnDownGrants F (phase_start_balances agg (bp_from phase) (st_grants st') recurred)
           (filter (\<lambda>g. ActiveAt g (bp_from phase)) (st_grants st')) (fl64 (usage + st_overage st)) =
         (st_balances st', uses, st_overage st')"
    and "st_segments st' = st_segments st @ [\<lparr>sg_Period = phase_period phase,
           sg_BalanceAtStart = phase_start_balances agg (bp_from phase) (st_grants st') recurred,
           sg_TerminationReasons = \<lparr>tr_PriorityChange = bp_priorityChange phase,
             tr_Recurrence = bp_grantsRecurredAtEnd phase, tr_UsageReset = False, tr_Rollover = False\<rparr>,
           sg_TotalUsage = usage, sg_OverageAtStart = st_overage st, sg_Overage = st_overage st',
           sg_GrantUsages = uses\<rparr>]"
proof -
  let ?gs = "if st_rePrioritize st then PrioritizeGrants (st_grants st) else st_grants st"
  obtain recurred where r: "(if st_recurredGrants st \<noteq> [] then applyRecurrences gm (st_recurredGrants st) (st_balances st)
      else Inr (st_balances st)) = Inr recurred"
    and r2: "bind_result (wrap_result ''failed to get feature usage for period'' (Q (bp_from phase) (bp_to phase)))
      (\<lambda>usage. case burnDownGrants F (phase_start_balances agg (bp_from phase) ?gs recurred)
          (filter (\<lambda>g. ActiveAt g (bp_from phase)) ?gs) (fl64 (usage + st_overage st)) of
        (balances', uses, overage) \<Rightarrow>
          Inr \<lparr>st_grants = ?gs, st_balances = balances', st_overage = overage,
               st_rePrioritize = bp_priorityChange phase,
               st_recurredGrants = bp_grantsRecurredAtEnd phase,
               st_segments = st_segments st @ [\<lparr>sg_Period = phase_period phase,
                 sg_BalanceAtStart = phase_start_balances agg (bp_from phase) ?gs recurred,
                 sg_TerminationReasons = \<lparr>tr_PriorityChange = bp_priorityChange phase,
                   tr_Recurrence = bp_grantsRecurredAtEnd phase, tr_UsageReset = False, tr_Rollover = False\<rparr>,
                 sg_TotalUsage = usage, sg_OverageAtStart = st_overage st, sg_Overage = overage,
                 sg_GrantUsages = uses\<rparr>]\<rparr>) = Inr st'"
    using assms unfolding run_phase_def Let_def bind_result_Inr phase_period_def by auto
  then obtain usage where q: "Q (bp_from phase) (bp_to phase) = Inr usage"
    by (auto simp: bind_result_Inr wrap_result_Inr)
  obtain b us ov where b: "burnDownGrants F (phase_start_balances agg (bp_from phase) ?gs recurred)
          (filter (\<lambda>g. ActiveAt g (bp_from phase)) ?gs) (fl64 (usage + st_overage st)) = (b, us, ov)"
    by (rule prod_cases3)
  have "st' = \<lparr>st_grants = ?gs, st_balances = b, st_overage = ov,
               st_rePrioritize = bp_priorityChange phase,
               st_recurredGrants = bp_grantsRecurredAtEnd phase,
               st_segments = st_segments st @ [\<lparr>sg_Period = phase_period phase,
                 sg_BalanceAtStart = phase_start_balances agg (bp_from phase) ?gs recurred,
                 sg_TerminationReasons = \<lparr>tr_PriorityChange = bp_priorityChange phase,
                   tr_Recurrence = bp_grantsRecurredAtEnd phase, tr_UsageReset = False, tr_Rollover = False\<rparr>,
                 sg_TotalUsage = usage, sg_OverageAtStart = st_overage st, sg_Overage = ov,
                 sg_GrantUsages = us\<rparr>]\<rparr>"
    using r2 unfolding q wrap_result_simps bind_result_simps b by simp
  then show thesis using that [of recurred usage us] r q b by simp
qed

lemma run_phases_periods:
  "run_phases F Q agg gm st phases = Inr st' \<Longrightarrow>
    map sg_Period (st_segments st') = map sg_Period (st_segments st) @ map phase_period phases"
proof (induction phases arbitrary: st)
  case (Cons p ps)
  then obtain st1 where 1: "run_phase F Q agg gm st p = Inr st1" and 2: "run_phases F Q agg gm st1 ps = Inr st'"
    by (auto simp: bind_result_Inr)
  have "map sg_Period (st_segments st1) = map sg_Period (st_segments st) @ [phase_period p]"
    using run_phase_cases [OF 1] by (metis (no_types, lifting) GrantBurnDownHistorySegment.simps(1) list.simps(8) list.simps(9) map_append)
  then show ?case using Cons.IH [OF 2] by simp
qed simp

lemma phase_chain_bounds:
  "phase_chain a ps b \<Longrightarrow> a \<le> b \<and> (\<forall>p \<in> set ps. a \<le> bp_from p \<and> bp_from p \<le> bp_to p \<and> bp_to p \<le> b) \<and>
    (ps \<noteq> [] \<longrightarrow> (\<exists>p \<in> set ps. bp_to p = b))"
proof (induction ps arbitrary: a)
  case (Cons p ps)
  from Cons.prems have 1: "bp_from p = a" "bp_from p \<le> bp_to p" "phase_chain (bp_to p) ps b" by simp_all
  note ih = Cons.IH [OF 1(3)]
  show ?case using ih 1 by (cases ps) fastforce+
qed simp

lemma contiguous_last_max:
  "segments_contiguous ss \<Longrightarrow> \<forall>s \<in> set ss. sg_From s \<le> sg_To s \<Longrightarrow> \<forall>t \<in> set ss. sg_To t \<le> sg_To (last ss)"
proof (induction ss rule: segments_contiguous.induct)
  case (1 a b ss)
  then have l: "\<forall>t \<in> set (b # ss). sg_To t \<le> sg_To (last (b # ss))" by simp
  have "sg_To a \<le> sg_To b" using "1.prems" by auto
  also have "sg_To b \<le> sg_To (last (b # ss))" using l by simp
  finally show ?case using l by auto
qed simp_all

text \<open>A history whose segments are those of a span of time: it starts at its start and ends at its end.\<close>

definition history_spans :: "time \<Rightarrow> GrantBurnDownHistorySegment list \<Rightarrow> time \<Rightarrow> bool" where
  "history_spans a ss b \<longleftrightarrow> ss \<noteq> [] \<and> segments_contiguous ss \<and> sg_From (hd ss) = a \<and> sg_To (last ss) = b \<and>
     (\<forall>s \<in> set ss. sg_From s \<le> sg_To s)"

lemma history_spansI:
  assumes "NewGrantBurnDownHistory segs s0 = Inr h" and "segs \<noteq> []"
    and "\<forall>s \<in> set segs. sg_To s \<le> b" and "\<exists>s \<in> set segs. sg_To s = b"
  shows "history_spans (sn_At s0) (gh_segments h) b"
proof -
  have h: "gh_segments h = sort_by compare_segments segs" and c: "segments_contiguous (gh_segments h)"
    and f: "sg_From (hd (gh_segments h)) = sn_At s0" and le: "\<forall>s \<in> set (gh_segments h). sg_From s \<le> sg_To s"
    using assms(1,2) by (auto simp: NewGrantBurnDownHistory_Inr)
  have ne: "gh_segments h \<noteq> []" and st: "set (gh_segments h) = set segs" using h assms(2) by simp_all
  have "b \<le> sg_To (last (gh_segments h))" using contiguous_last_max [OF c le] assms(4) st by blast
  moreover have "sg_To (last (gh_segments h)) \<le> b" using assms(3) st ne last_in_set by blast
  ultimately show ?thesis using ne c f le by (simp add: history_spans_def)
qed

lemma runBetweenResets_cases:
  assumes "runBetweenResets P F Q params = Some (Inr (snap, h))"
  obtains plan balances st where
    "getPhases P (ib_Grants params) \<lparr>cp_From = sn_At (ib_StartingSnapshot params), cp_To = ib_Until params\<rparr>
       (ib_PeriodEndRecurrenceBoundaryBehavior params) = Some (Inr plan)"
    and "ExactlyForGrants (sn_Balances (ib_StartingSnapshot params)) (ib_Grants params)"
    and "(if pp_grantsRecurredAtStart plan \<noteq> []
          then applyRecurrences (grantMap (PrioritizeGrants (ib_Grants params))) (pp_grantsRecurredAtStart plan)
                 (sn_Balances (ib_StartingSnapshot params))
          else Inr (sn_Balances (ib_StartingSnapshot params))) = Inr balances"
    and "run_phases F Q (ib_Aggregation params) (grantMap (PrioritizeGrants (ib_Grants params)))
           \<lparr>st_grants = PrioritizeGrants (ib_Grants params), st_balances = balances,
            st_overage = sn_Overage (ib_StartingSnapshot params), st_rePrioritize = False,
            st_recurredGrants = [], st_segments = []\<rparr> (pp_phases plan) = Inr st"
    and "end_of_period F params st = Inr (snap, h)"
proof -
  have ex: "ExactlyForGrants (sn_Balances (ib_StartingSnapshot params)) (ib_Grants params)"
    using assms by (simp add: runBetweenResets_def Let_def split: if_splits)
  from assms ex obtain res where res: "getPhases P (ib_Grants params) \<lparr>cp_From = sn_At (ib_StartingSnapshot params),
      cp_To = ib_Until params\<rparr> (ib_PeriodEndRecurrenceBoundaryBehavior params) = Some res"
    by (auto simp: runBetweenResets_def Let_def)
  obtain plan where plan: "res = Inr plan"
    using assms ex res by (cases res) (simp_all add: runBetweenResets_def Let_def)
  show thesis
    using assms ex res plan that [of plan]
    unfolding runBetweenResets_def Let_def by (auto simp: bind_result_Inr simp del: applyRecurrences.simps split: if_splits)
qed

lemma map_UC_Clone [simp]: "map_option UC_Clone u = u"
  by (cases u) simp_all

lemma end_of_period_cases:
  assumes "end_of_period F params st = Inr (snap, h)"
  shows "NewGrantBurnDownHistory (st_segments st) (ib_StartingSnapshot params) = Inr h"
    and "sn_At snap = ib_Until params" and "sn_Balances snap = st_balances st" and "sn_Overage snap = st_overage st"
    and "sn_UnitConfig snap = sn_UnitConfig (ib_StartingSnapshot params)"
  using assms
  by (auto simp: end_of_period_def Let_def bind_result_Inr wrap_result_Inr option.map_ident split: option.splits)

lemma runBetweenResets_spans:
  assumes "runBetweenResets P F Q params = Some (Inr (snap, h))"
    and le: "sn_At (ib_StartingSnapshot params) \<le> ib_Until params"
  shows "sn_At snap = ib_Until params"
    and "history_spans (sn_At (ib_StartingSnapshot params)) (gh_segments h) (ib_Until params)"
    and "\<forall>s \<in> set (gh_segments h). sg_To s \<le> ib_Until params"
proof -
  obtain plan b st where plan: "getPhases P (ib_Grants params) \<lparr>cp_From = sn_At (ib_StartingSnapshot params),
      cp_To = ib_Until params\<rparr> (ib_PeriodEndRecurrenceBoundaryBehavior params) = Some (Inr plan)"
    and run: "run_phases F Q (ib_Aggregation params) (grantMap (PrioritizeGrants (ib_Grants params)))
           \<lparr>st_grants = PrioritizeGrants (ib_Grants params), st_balances = b,
            st_overage = sn_Overage (ib_StartingSnapshot params), st_rePrioritize = False,
            st_recurredGrants = [], st_segments = []\<rparr> (pp_phases plan) = Inr st"
    and e: "end_of_period F params st = Inr (snap, h)"
    using runBetweenResets_cases [OF assms(1)] by metis
  note e = end_of_period_cases [OF e]
  have c: "phase_chain (sn_At (ib_StartingSnapshot params)) (pp_phases plan) (ib_Until params)" "pp_phases plan \<noteq> []"
    using getPhases_chain [OF plan] le by simp_all
  have ps: "map sg_Period (st_segments st) = map phase_period (pp_phases plan)"
    using run_phases_periods [OF run] by simp
  then have ne: "st_segments st \<noteq> []" using c(2) by auto
  have "cp_To ` set (map sg_Period (st_segments st)) = bp_to ` set (pp_phases plan)"
    unfolding ps by (simp add: image_image phase_period_def)
  then have to: "sg_To ` set (st_segments st) = bp_to ` set (pp_phases plan)" by (simp add: image_image)
  note bnd = phase_chain_bounds [OF c(1)]
  have all: "\<forall>s \<in> set (st_segments st). sg_To s \<le> ib_Until params"
    using bnd to by (metis (no_types, lifting) image_iff)
  moreover have "\<exists>s \<in> set (st_segments st). sg_To s = ib_Until params"
    using bnd c(2) to by (metis (no_types, lifting) image_iff)
  ultimately show "history_spans (sn_At (ib_StartingSnapshot params)) (gh_segments h) (ib_Until params)"
    by (rule history_spansI [OF e(1) ne])
  show "sn_At snap = ib_Until params" by (rule e(2))
  show "\<forall>s \<in> set (gh_segments h). sg_To s \<le> ib_Until params"
    using all e(1) by (auto simp: NewGrantBurnDownHistory_Inr)
qed

lemma mark_reset_periods [simp]: "map sg_Period (mark_reset segs) = map sg_Period segs"
  by (cases segs rule: rev_cases) (simp_all add: mark_reset_def)

lemma mark_reset_To: "sg_To ` set (mark_reset segs) = sg_To ` set segs"
  by (metis (no_types) image_image mark_reset_periods set_map)

lemma reset_elim:
  assumes "reset F grants snap po tm = Inr (snap', seg)"
  obtains rolled us where
    "rollover_balances grants tm (sn_Balances snap) = Inr rolled"
    and "(if (if po then sn_Overage snap else 0) \<noteq> 0
          then burnDownGrants F rolled (PrioritizeGrants grants) (if po then sn_Overage snap else 0)
          else (rolled, [], if po then sn_Overage snap else 0)) = (sn_Balances snap', us, sn_Overage snap')"
    and "sn_At snap' = tm" and "sg_Period seg = \<lparr>cp_From = tm, cp_To = tm\<rparr>"
    and "sn_Usage snap' = \<lparr>su_Usage = 0, su_Since = tm\<rparr>" and "sg_BalanceAtStart seg = rolled"
    and "tr_Rollover (sg_TerminationReasons seg)" and "sg_GrantUsages seg = us"
proof -
  let ?so = "if po then sn_Overage snap else 0"
  obtain rolled where r: "rollover_balances grants tm (sn_Balances snap) = Inr rolled"
    using assms by (auto simp: reset_def bind_result_Inr)
  obtain b us ov where b: "(if ?so \<noteq> 0 then burnDownGrants F rolled (PrioritizeGrants grants) ?so
      else (rolled, [], ?so)) = (b, us, ov)"
    by (rule prod_cases3)
  show thesis
    using assms unfolding reset_def BM_Clone_id r bind_result_simps Let_def b
    by (intro that [of rolled us]) (use r b in auto)
qed

lemma run_periods_Cons:
  assumes "run_periods P F Q params snapshot segs (per # pers) = Some (Inr (snap, segs'))"
  obtains snap1 h where
    "runBetweenResets P F Q \<lparr>ib_Grants = filterRelevantGrants (rp_Grants params) (sn_Balances snapshot) per,
        ib_Until = cp_To per, ib_StartingSnapshot = snapshot, ib_Aggregation = rp_Aggregation params,
        ib_PeriodEndRecurrenceBoundaryBehavior = (if pers = [] then Inclusive else Exclusive)\<rparr>
      = Some (Inr (snap1, h))"
    and "pers = [] \<longrightarrow> snap = snap1 \<and> segs' = segs @ gh_segments h"
    and "pers \<noteq> [] \<longrightarrow> (\<exists>snap2 seg. reset F (filterRelevantGrants (rp_Grants params) (sn_Balances snapshot) per)
           snap1 (rp_PreserveOverage params) (cp_To per) = Inr (snap2, seg) \<and>
         run_periods P F Q params snap2 (mark_reset (segs @ gh_segments h) @ [seg]) pers = Some (Inr (snap, segs')))"
proof -
  let ?g = "filterRelevantGrants (rp_Grants params) (sn_Balances snapshot) per"
  let ?ib = "\<lparr>ib_Grants = ?g,
        ib_Until = cp_To per, ib_StartingSnapshot = snapshot, ib_Aggregation = rp_Aggregation params,
        ib_PeriodEndRecurrenceBoundaryBehavior = (if pers = [] then Inclusive else Exclusive)\<rparr>"
  obtain res where res: "runBetweenResets P F Q ?ib = Some res"
    using assms by (auto simp: Let_def bind_eq_Some_conv)
  obtain snap1 h where r: "res = Inr (snap1, h)"
    using assms res by (cases res) (auto simp: Let_def split: if_splits)
  have last: "snap = snap1 \<and> segs' = segs @ gh_segments h" if "pers = []"
    using assms res r that by (auto simp: Let_def)
  have more: "\<exists>snap2 seg. reset F ?g snap1 (rp_PreserveOverage params) (cp_To per) = Inr (snap2, seg) \<and>
         run_periods P F Q params snap2 (mark_reset (segs @ gh_segments h) @ [seg]) pers = Some (Inr (snap, segs'))"
    if "pers \<noteq> []"
  proof (cases "reset F ?g snap1 (rp_PreserveOverage params) (cp_To per)")
    case (Inl e)
    then show ?thesis using assms res r that by (simp add: Let_def)
  next
    case (Inr x)
    then show ?thesis using assms res r that by (cases x) (simp add: Let_def)
  qed
  show thesis using that [of snap1 h] last more res r by blast
qed

lemma run_periods_spans:
  "run_periods P F Q params snapshot segs pers = Some (Inr (snap, segs')) \<Longrightarrow> contiguous pers \<Longrightarrow>
   \<forall>p \<in> set pers. cp_From p \<le> cp_To p \<Longrightarrow> pers \<noteq> [] \<Longrightarrow> sn_At snapshot = cp_From (hd pers) \<Longrightarrow>
   \<forall>s \<in> set segs. sg_To s \<le> sn_At snapshot \<Longrightarrow>
   sn_At snap = cp_To (last pers) \<and> (\<forall>s \<in> set segs'. sg_To s \<le> cp_To (last pers)) \<and>
   (\<exists>s \<in> set segs'. sg_To s = cp_To (last pers))"
proof (induction pers arbitrary: snapshot segs)
  case (Cons per pers)
  let ?g = "filterRelevantGrants (rp_Grants params) (sn_Balances snapshot) per"
  obtain snap1 h where r: "runBetweenResets P F Q \<lparr>ib_Grants = ?g,
        ib_Until = cp_To per, ib_StartingSnapshot = snapshot, ib_Aggregation = rp_Aggregation params,
        ib_PeriodEndRecurrenceBoundaryBehavior = (if pers = [] then Inclusive else Exclusive)\<rparr>
      = Some (Inr (snap1, h))"
    and last: "pers = [] \<longrightarrow> snap = snap1 \<and> segs' = segs @ gh_segments h"
    and more: "pers \<noteq> [] \<longrightarrow> (\<exists>snap2 seg. reset F ?g
           snap1 (rp_PreserveOverage params) (cp_To per) = Inr (snap2, seg) \<and>
         run_periods P F Q params snap2 (mark_reset (segs @ gh_segments h) @ [seg]) pers = Some (Inr (snap, segs')))"
    by (rule run_periods_Cons [OF Cons.prems(1)])
  have at0: "sn_At snapshot = cp_From per" and le: "cp_From per \<le> cp_To per" using Cons.prems by simp_all
  have sp: "sn_At snap1 = cp_To per" "history_spans (cp_From per) (gh_segments h) (cp_To per)"
    "\<forall>s \<in> set (gh_segments h). sg_To s \<le> cp_To per"
    using runBetweenResets_spans [OF r] at0 le by simp_all
  have old: "\<forall>s \<in> set (segs @ gh_segments h). sg_To s \<le> cp_To per"
    using Cons.prems(6) at0 le sp(3) by auto
  have ex: "\<exists>s \<in> set (gh_segments h). sg_To s = cp_To per"
    using sp(2) by (metis history_spans_def last_in_set)
  show ?case
  proof (cases "pers = []")
    case True
    then show ?thesis using last sp(1) old ex by auto
  next
    case False
    then obtain snap2 seg where s2: "reset F ?g snap1 (rp_PreserveOverage params) (cp_To per) = Inr (snap2, seg)"
      and run: "run_periods P F Q params snap2 (mark_reset (segs @ gh_segments h) @ [seg]) pers = Some (Inr (snap, segs'))"
      using more by blast
    have r2: "sn_At snap2 = cp_To per" "sg_Period seg = \<lparr>cp_From = cp_To per, cp_To = cp_To per\<rparr>"
      using reset_elim [OF s2] by metis+
    have "sg_To ` set (mark_reset (segs @ gh_segments h) @ [seg]) = insert (cp_To per) (sg_To ` set (segs @ gh_segments h))"
      using mark_reset_To [of "segs @ gh_segments h"] r2(2) by (simp add: image_Un)
    then have b: "\<forall>s \<in> set (mark_reset (segs @ gh_segments h) @ [seg]). sg_To s \<le> cp_To per"
      using old by (metis (no_types, lifting) image_iff insert_iff order_refl)
    obtain q qs where q: "pers = q # qs" using False by (cases pers) auto
    then have "contiguous pers" "cp_To per = cp_From (hd pers)" using Cons.prems(2) by simp_all
    from Cons.IH [OF run this(1) _ False _ _] this r2(1) b Cons.prems(3) False show ?thesis by simp
  qed
qed simp

lemma Run_cases:
  assumes "Run P F Q params = Some (Inr res)"
  obtains segs where
    "validateStartingSnapshot (rp_StartingSnapshot params) = None"
    and "cp_From (GetBoundingPeriod (NewSimpleTimeline ([sn_At (rp_StartingSnapshot params)] @
           GetTimes (rp_Resets params) @ [rp_Until params]))) = sn_At (rp_StartingSnapshot params)"
    and "cp_To (GetBoundingPeriod (NewSimpleTimeline ([sn_At (rp_StartingSnapshot params)] @
           GetTimes (rp_Resets params) @ [rp_Until params]))) = rp_Until params"
    and "run_periods P F Q params (rp_StartingSnapshot params) [] (GetClosedPeriods (NewSimpleTimeline
           ([sn_At (rp_StartingSnapshot params)] @ GetTimes (rp_Resets params) @ [rp_Until params])))
         = Some (Inr (rr_Snapshot res, segs))"
    and "NewGrantBurnDownHistory segs (rp_StartingSnapshot params) = Inr (rr_History res)"
proof -
  let ?s0 = "rp_StartingSnapshot params"
  let ?tl = "NewSimpleTimeline ([sn_At ?s0] @ GetTimes (rp_Resets params) @ [rp_Until params])"
  have v: "validateStartingSnapshot ?s0 = None"
    using assms by (cases "validateStartingSnapshot ?s0") (simp_all add: Run_def Let_def)
  have c: "\<not> CP_ContainsInclusive (GetBoundingPeriod (rp_Resets params)) (sn_At ?s0)"
    using assms v by (cases "CP_ContainsInclusive (GetBoundingPeriod (rp_Resets params)) (sn_At ?s0)")
      (simp_all add: Run_def Let_def)
  have b: "cp_From (GetBoundingPeriod ?tl) = sn_At ?s0" "cp_To (GetBoundingPeriod ?tl) = rp_Until params"
    using assms v c
    by (cases "cp_From (GetBoundingPeriod ?tl) \<noteq> sn_At ?s0 \<or> cp_To (GetBoundingPeriod ?tl) \<noteq> rp_Until params";
        simp add: Run_def Let_def)+
  obtain r where r: "run_periods P F Q params ?s0 [] (GetClosedPeriods ?tl) = Some r"
    using assms v c b by (auto simp: Run_def Let_def)
  obtain snap segs where sn: "r = Inr (snap, segs)"
    using assms v c b r by (cases r) (auto simp: Run_def Let_def)
  have "rr_Snapshot res = snap \<and> NewGrantBurnDownHistory segs ?s0 = Inr (rr_History res)"
    using assms v c b r sn by (auto simp: Run_def Let_def bind_result_Inr wrap_result_Inr)
  then show thesis using that [of segs] v b r sn by simp
qed

lemma Run_spans:
  assumes "Run P F Q params = Some (Inr res)"
  shows "sn_At (rr_Snapshot res) = rp_Until params"
    and "history_spans (sn_At (rp_StartingSnapshot params)) (gh_segments (rr_History res)) (rp_Until params)"
proof -
  let ?s0 = "rp_StartingSnapshot params"
  let ?ts = "[sn_At ?s0] @ GetTimes (rp_Resets params) @ [rp_Until params]"
  let ?tl = "NewSimpleTimeline ?ts"
  obtain segs where b: "cp_From (GetBoundingPeriod ?tl) = sn_At ?s0" "cp_To (GetBoundingPeriod ?tl) = rp_Until params"
    and run: "run_periods P F Q params ?s0 [] (GetClosedPeriods ?tl) = Some (Inr (rr_Snapshot res, segs))"
    and h: "NewGrantBurnDownHistory segs ?s0 = Inr (rr_History res)"
    using Run_cases [OF assms] by metis
  have ts: "timeline_sorted ?tl" unfolding NewSimpleTimeline_def by (rule NewTimeline_sorted)
  have "length (GetTimes ?tl) = length ?ts" unfolding NewSimpleTimeline_GetTimes by simp
  then have ne: "GetTimes ?tl \<noteq> []" by (metis append_is_Nil_conv length_0_conv not_Cons_self2)
  note t = GetClosedPeriods_tile [OF ts ne]
  note sp = run_periods_spans [OF run t(1,4) GetClosedPeriods_ne [OF ne]]
  have s: "sn_At (rr_Snapshot res) = rp_Until params" "\<forall>s \<in> set segs. sg_To s \<le> rp_Until params"
    "\<exists>s \<in> set segs. sg_To s = rp_Until params"
    using sp t(2,3) b by simp_all
  then have "segs \<noteq> []" by auto
  then show "sn_At (rr_Snapshot res) = rp_Until params"
    and "history_spans (sn_At ?s0) (gh_segments (rr_History res)) (rp_Until params)"
    using history_spansI [OF h _ s(2,3)] s(1) by simp_all
qed

section \<open>Balances stay representable and not negative\<close>

definition grant_ok :: "Grant \<Rightarrow> bool" where
  "grant_ok g \<longleftrightarrow> 0 \<le> gr_Amount g \<and> is_float (gr_Amount g) \<and> 0 \<le> gr_ResetMinRollover g \<and>
     is_float (gr_ResetMinRollover g) \<and> 0 \<le> gr_ResetMaxRollover g \<and> is_float (gr_ResetMaxRollover g)"

definition snapshot_ok :: "Snapshot \<Rightarrow> bool" where
  "snapshot_ok s \<longleftrightarrow> balances_ok (sn_Balances s) \<and> 0 \<le> sn_Overage s \<and> is_float (sn_Overage s)"

definition usage_ok :: "query_usage \<Rightarrow> bool" where
  "usage_ok Q \<longleftrightarrow> (\<forall>a b u. Q a b = Inr u \<longrightarrow> 0 \<le> u)"

definition gm_ok :: "(string \<Rightarrow> Grant option) \<Rightarrow> bool" where
  "gm_ok gm \<longleftrightarrow> (\<forall>k g. gm k = Some g \<longrightarrow> grant_ok g)"

lemma balances_ok_Set: "balances_ok b \<Longrightarrow> 0 \<le> v \<Longrightarrow> is_float v \<Longrightarrow> balances_ok (BM_Set b k v)"
  by (simp add: balances_ok_def)

lemma grantMap_mem: "grantMap gs k = Some g \<Longrightarrow> g \<in> set gs \<and> gr_ID g = k"
  by (auto simp: grantMap_def dest!: map_of_SomeD)

lemma applyRecurrences_ok:
  "applyRecurrences gm ids b = Inr b' \<Longrightarrow> balances_ok b \<Longrightarrow> gm_ok gm \<Longrightarrow>
    balances_ok b'"
proof (induction ids arbitrary: b)
  case (Cons i ids)
  then obtain g where g: "gm i = Some g" and
    r: "applyRecurrences gm ids (BM_Set b (gr_ID g) (RecurrenceBalance g (bm_get b i))) = Inr b'"
    by (auto split: option.splits)
  have "grant_ok g" using g Cons.prems(3) by (auto simp: gm_ok_def)
  then have "balances_ok (BM_Set b (gr_ID g) (RecurrenceBalance g (bm_get b i)))"
    using Cons.prems(2)
    by (intro balances_ok_Set) (auto simp: RecurrenceBalance_def grant_ok_def balances_ok_def split: option.splits)
  then show ?case using Cons.IH [OF r] Cons.prems(3) by blast
qed simp

lemma foldl_balances_ok:
  assumes "\<And>b g. g \<in> set gs \<Longrightarrow> balances_ok b \<Longrightarrow> balances_ok (f b g)"
  shows "balances_ok b \<Longrightarrow> balances_ok (foldl f b gs)"
  using assms by (induction gs arbitrary: b) auto

lemma phase_start_balances_ok:
  assumes "balances_ok b" and "\<forall>g \<in> set gs. grant_ok g"
  shows "balances_ok (phase_start_balances agg start gs b)"
proof -
  have amt: "0 \<le> gr_Amount g \<and> is_float (gr_Amount g)" if "g \<in> set gs" for g
    using assms(2) that by (simp add: grant_ok_def)
  have "balances_ok (zero_inactive start gs b)"
    unfolding zero_inactive_def by (rule foldl_balances_ok [OF _ assms(1)]) (auto intro: balances_ok_Set)
  then have "balances_ok (start_effective start (filter (\<lambda>g. ActiveAt g start) gs) (zero_inactive start gs b))"
    unfolding start_effective_def by (rule foldl_balances_ok [rotated]) (auto intro: balances_ok_Set simp: amt)
  then show ?thesis
    unfolding phase_start_balances_def latest_amounts_def Let_def
    by (auto intro!: foldl_balances_ok balances_ok_Set simp: amt)
qed

lemma run_phase_ok:
  assumes ok: "float_ok F" and q: "usage_ok Q" and gm: "gm_ok gm"
    and gs: "\<forall>g \<in> set (st_grants st). grant_ok g" and b: "balances_ok (st_balances st)" "0 \<le> st_overage st"
    and r: "run_phase F Q agg gm st phase = Inr st'"
  shows "(\<forall>g \<in> set (st_grants st'). grant_ok g) \<and> balances_ok (st_balances st') \<and> 0 \<le> st_overage st' \<and>
    is_float (st_overage st')"
proof -
  obtain rec usage uses where
    rec: "(if st_recurredGrants st \<noteq> [] then applyRecurrences gm (st_recurredGrants st) (st_balances st)
      else Inr (st_balances st)) = Inr rec"
    and u: "Q (bp_from phase) (bp_to phase) = Inr usage"
    and g': "set (st_grants st') = set (st_grants st)"
    and burn: "burnDownGrants F (phase_start_balances agg (bp_from phase) (st_grants st') rec)
           (filter (\<lambda>g. ActiveAt g (bp_from phase)) (st_grants st')) (fl64 (usage + st_overage st)) =
         (st_balances st', uses, st_overage st')"
    using run_phase_cases [OF r] by metis
  have "balances_ok rec"
    using rec b(1) applyRecurrences_ok [OF _ _ gm] by (simp split: if_splits)
  then have p: "balances_ok (phase_start_balances agg (bp_from phase) (st_grants st') rec)"
    using gs g' by (intro phase_start_balances_ok) auto
  have "0 \<le> fl64 (usage + st_overage st)"
    using q u b(2) by (intro fl64_nonneg) (auto simp: usage_ok_def)
  then show ?thesis using burnDown_bounds [OF ok _ _ p burn] gs g' by auto
qed

lemma run_phases_ok:
  assumes ok: "float_ok F" and q: "usage_ok Q" and gm: "gm_ok gm"
  shows "run_phases F Q agg gm st phases = Inr st' \<Longrightarrow> \<forall>g \<in> set (st_grants st). grant_ok g \<Longrightarrow>
    balances_ok (st_balances st) \<Longrightarrow> 0 \<le> st_overage st \<Longrightarrow> is_float (st_overage st) \<Longrightarrow>
    balances_ok (st_balances st') \<and> 0 \<le> st_overage st' \<and> is_float (st_overage st')"
proof (induction phases arbitrary: st)
  case (Cons p ps)
  then obtain st1 where 1: "run_phase F Q agg gm st p = Inr st1" and 2: "run_phases F Q agg gm st1 ps = Inr st'"
    by (auto simp: bind_result_Inr)
  note k = run_phase_ok [OF ok q gm Cons.prems(2,3,4) 1]
  show ?case by (rule Cons.IH [OF 2]) (use k in blast)+
qed simp

lemma runBetweenResets_ok:
  assumes ok: "float_ok F" and q: "usage_ok Q" and gs: "\<forall>g \<in> set (ib_Grants params). grant_ok g"
    and s: "snapshot_ok (ib_StartingSnapshot params)"
    and r: "runBetweenResets P F Q params = Some (Inr (snap, h))"
  shows "snapshot_ok snap"
proof (rule runBetweenResets_cases [OF r])
  let ?gm = "grantMap (PrioritizeGrants (ib_Grants params))"
  fix plan b st
  assume b: "(if pp_grantsRecurredAtStart plan \<noteq> []
          then applyRecurrences ?gm (pp_grantsRecurredAtStart plan) (sn_Balances (ib_StartingSnapshot params))
          else Inr (sn_Balances (ib_StartingSnapshot params))) = Inr b"
    and run: "run_phases F Q (ib_Aggregation params) ?gm
           \<lparr>st_grants = PrioritizeGrants (ib_Grants params), st_balances = b,
            st_overage = sn_Overage (ib_StartingSnapshot params), st_rePrioritize = False,
            st_recurredGrants = [], st_segments = []\<rparr> (pp_phases plan) = Inr st"
    and e: "end_of_period F params st = Inr (snap, h)"
  have gm: "gm_ok ?gm" using grantMap_mem gs by (fastforce simp: gm_ok_def)
  have "balances_ok b" using b s applyRecurrences_ok [OF _ _ gm] by (simp add: snapshot_ok_def split: if_splits)
  then show ?thesis
    using run_phases_ok [OF ok q gm run] gs s end_of_period_cases [OF e] by (simp add: snapshot_ok_def)
qed

lemma RolloverBalance_ok:
  assumes "grant_ok g" and "0 \<le> v" and "is_float v"
  shows "0 \<le> RolloverBalance g v" "is_float (RolloverBalance g v)"
  using assms by (auto simp: RolloverBalance_def grant_ok_def min_def max_def)

lemma rollover_balances_get:
  assumes "rollover_balances gs tm b = Inr b'"
  shows "bm_get b' k = (case grantMap gs k of
      Some g \<Rightarrow> if b k \<noteq> None \<and> ActiveAt g tm then RolloverBalance g (bm_get b k) else bm_get b k
    | None \<Rightarrow> bm_get b k)" and "dom b' = dom b"
  using assms by (auto simp: rollover_balances_def Let_def bm_get_def split: if_splits option.splits)

lemma rollover_balances_ok:
  assumes "rollover_balances gs tm b = Inr b'" and "balances_ok b" and "\<forall>g \<in> set gs. grant_ok g"
  shows "balances_ok b'"
  unfolding balances_ok_def
proof
  fix k
  have v: "0 \<le> bm_get b k" "is_float (bm_get b k)" using assms(2) by (simp_all add: balances_ok_def)
  show "0 \<le> bm_get b' k \<and> is_float (bm_get b' k)"
  proof (cases "grantMap gs k")
    case None
    then show ?thesis using v by (simp add: rollover_balances_get [OF assms(1)])
  next
    case (Some g)
    then have "grant_ok g" using grantMap_mem [OF Some] assms(3) by simp
    from RolloverBalance_ok [OF this v] show ?thesis
      using Some v by (simp add: rollover_balances_get [OF assms(1)])
  qed
qed

lemma reset_ok:
  assumes "float_ok F" and "\<forall>g \<in> set gs. grant_ok g" and "snapshot_ok s"
    and r: "reset F gs s po tm = Inr (s', seg)"
  shows "snapshot_ok s'"
proof -
  let ?so = "if po then sn_Overage s else 0"
  obtain rolled us where b: "rollover_balances gs tm (sn_Balances s) = Inr rolled"
    and e: "(if ?so \<noteq> 0 then burnDownGrants F rolled (PrioritizeGrants gs) ?so else (rolled, [], ?so)) =
      (sn_Balances s', us, sn_Overage s')"
    using reset_elim [OF r] by metis
  have "balances_ok rolled" using rollover_balances_ok [OF b] assms(2,3) by (simp add: snapshot_ok_def)
  moreover have "0 \<le> ?so" "is_float ?so" using assms(3) by (simp_all add: snapshot_ok_def)
  ultimately have k: "balances_ok rolled" "0 \<le> ?so" "is_float ?so" by blast+
  show ?thesis
  proof (cases "?so = 0")
    case True
    then have "sn_Balances s' = rolled" "sn_Overage s' = 0" using e by simp_all
    then show ?thesis using k(1) by (simp add: snapshot_ok_def)
  next
    case False
    then have "burnDownGrants F rolled (PrioritizeGrants gs) ?so = (sn_Balances s', us, sn_Overage s')"
      using e by (simp only: if_True not_False_eq_True)
    from burnDown_bounds [OF assms(1) k(3,2,1) this] show ?thesis by (simp add: snapshot_ok_def)
  qed
qed

lemma run_periods_ok:
  assumes ok: "float_ok F" and q: "usage_ok Q" and gs: "\<forall>g \<in> set (rp_Grants params). grant_ok g"
  shows "run_periods P F Q params s segs pers = Some (Inr (s', segs')) \<Longrightarrow> snapshot_ok s \<Longrightarrow> snapshot_ok s'"
proof (induction pers arbitrary: s segs)
  case (Cons per pers)
  let ?g = "filterRelevantGrants (rp_Grants params) (sn_Balances s) per"
  have g: "\<forall>g \<in> set ?g. grant_ok g" using gs by (simp add: filterRelevantGrants_def)
  obtain s1 h where r: "runBetweenResets P F Q \<lparr>ib_Grants = ?g,
        ib_Until = cp_To per, ib_StartingSnapshot = s, ib_Aggregation = rp_Aggregation params,
        ib_PeriodEndRecurrenceBoundaryBehavior = (if pers = [] then Inclusive else Exclusive)\<rparr>
      = Some (Inr (s1, h))"
    and last: "pers = [] \<longrightarrow> s' = s1 \<and> segs' = segs @ gh_segments h"
    and more: "pers \<noteq> [] \<longrightarrow> (\<exists>s2 seg. reset F ?g
           s1 (rp_PreserveOverage params) (cp_To per) = Inr (s2, seg) \<and>
         run_periods P F Q params s2 (mark_reset (segs @ gh_segments h) @ [seg]) pers = Some (Inr (s', segs')))"
    by (rule run_periods_Cons [OF Cons.prems(1)])
  have s1: "snapshot_ok s1" using runBetweenResets_ok [OF ok q _ _ r] g Cons.prems(2) by simp
  show ?case
  proof (cases "pers = []")
    case True
    then show ?thesis using last s1 by simp
  next
    case False
    then show ?thesis using more reset_ok [OF ok g s1] Cons.IH by blast
  qed
qed simp

end
