(* ===== verification/EngineAccounting.thy ===== *)
theory EngineAccounting
  imports EngineRun
begin

text \<open>
  What the credit engine promises of a run: the history covers the queried period, balances and
  overage stay in range, a reset rolls balances over within the grants' limits, every unit of usage
  is either burnt from a grant or left as overage, and a run over recurrences in reach returns.
\<close>

section \<open>Accounting between two resets\<close>

definition total_usage :: "GrantBurnDownHistorySegment list \<Rightarrow> rat" where
  "total_usage segs = sum_list (map sg_TotalUsage segs)"

definition booked_usage :: "GrantBurnDownHistorySegment list \<Rightarrow> rat" where
  "booked_usage segs = sum_list (map (\<lambda>s. sum_list (map gu_Usage (sg_GrantUsages s))) segs)"

lemma totals_append [simp]:
  "total_usage (as @ bs) = total_usage as + total_usage bs"
  "booked_usage (as @ bs) = booked_usage as + booked_usage bs"
  by (simp_all add: total_usage_def booked_usage_def)

lemma totals_cong:
  assumes "mset as = mset bs"
  shows "total_usage as = total_usage bs" and "booked_usage as = booked_usage bs"
  unfolding total_usage_def booked_usage_def by (metis assms mset_map sum_mset_sum_list)+

text \<open>All balances are whole amounts that a float holds exactly.\<close>

definition whole_amounts :: "BalanceMap \<Rightarrow> bool" where
  "whole_amounts b \<longleftrightarrow> (\<forall>k. whole53 (bm_get b k) \<and> 0 \<le> bm_get b k)"

definition whole_grant :: "Grant \<Rightarrow> bool" where
  "whole_grant g \<longleftrightarrow> whole53 (gr_Amount g) \<and> 0 \<le> gr_Amount g"

definition whole_usage :: "query_usage \<Rightarrow> bool" where
  "whole_usage Q \<longleftrightarrow> (\<forall>a b u. Q a b = Inr u \<longrightarrow> 0 \<le> u \<and> u \<in> \<int>)"

lemma whole53_iff: "whole53 x \<longleftrightarrow> x \<in> \<int> \<and> \<bar>x\<bar> \<le> 2 ^ 53"
proof
  assume "whole53 x"
  then obtain n where n: "x = of_int n" "\<bar>n\<bar> \<le> 2 ^ 53" by (auto simp: whole53_def)
  have "of_int \<bar>n\<bar> \<le> (of_int (2 ^ 53) :: rat)" using n(2) of_int_le_iff by blast
  then show "x \<in> \<int> \<and> \<bar>x\<bar> \<le> 2 ^ 53" using n(1) by simp
next
  assume a: "x \<in> \<int> \<and> \<bar>x\<bar> \<le> 2 ^ 53"
  then obtain n where n: "x = of_int n" by (auto elim: Ints_cases)
  have "of_int \<bar>n\<bar> \<le> (of_int (2 ^ 53) :: rat)" using a n by simp
  then have "\<bar>n\<bar> \<le> 2 ^ 53" unfolding of_int_le_iff .
  then show "whole53 x" using n by (auto simp: whole53_def)
qed

lemma whole_amounts_Set: "whole_amounts b \<Longrightarrow> whole53 v \<Longrightarrow> 0 \<le> v \<Longrightarrow> whole_amounts (BM_Set b k v)"
  by (simp add: whole_amounts_def)

lemma foldl_whole_amounts:
  assumes "\<And>b g. g \<in> set gs \<Longrightarrow> whole_amounts b \<Longrightarrow> whole_amounts (f b g)"
  shows "whole_amounts b \<Longrightarrow> whole_amounts (foldl f b gs)"
  using assms by (induction gs arbitrary: b) auto

lemma phase_start_whole:
  assumes "whole_amounts b" and "\<forall>g \<in> set gs. whole_grant g"
  shows "whole_amounts (phase_start_balances agg start gs b)"
proof -
  have amt: "whole53 (gr_Amount g) \<and> 0 \<le> gr_Amount g" if "g \<in> set gs" for g
    using assms(2) that by (simp add: whole_grant_def)
  have "whole_amounts (zero_inactive start gs b)"
    unfolding zero_inactive_def by (rule foldl_whole_amounts [OF _ assms(1)]) (auto intro: whole_amounts_Set)
  then have "whole_amounts (start_effective start (filter (\<lambda>g. ActiveAt g start) gs) (zero_inactive start gs b))"
    unfolding start_effective_def
    by (rule foldl_whole_amounts [rotated]) (auto intro: whole_amounts_Set simp: amt)
  then show ?thesis
    unfolding phase_start_balances_def latest_amounts_def Let_def
    by (auto intro!: foldl_whole_amounts whole_amounts_Set simp: amt)
qed

lemma applyRecurrences_whole:
  "applyRecurrences gm ids b = Inr b' \<Longrightarrow> whole_amounts b \<Longrightarrow> \<forall>k g. gm k = Some g \<longrightarrow> whole_grant g \<Longrightarrow>
    whole_amounts b'"
proof (induction ids arbitrary: b)
  case (Cons i ids)
  then obtain g where g: "gm i = Some g" and
    r: "applyRecurrences gm ids (BM_Set b (gr_ID g) (RecurrenceBalance g (bm_get b i))) = Inr b'"
    by (auto split: option.splits)
  have "whole_amounts (BM_Set b (gr_ID g) (RecurrenceBalance g (bm_get b i)))"
    using Cons.prems(2,3) g
    by (intro whole_amounts_Set) (auto simp: RecurrenceBalance_def whole_grant_def whole_amounts_def split: option.splits)
  then show ?case using Cons.IH [OF r] Cons.prems(3) by blast
qed simp

lemma whole_amounts_ok: "whole_amounts b \<Longrightarrow> balances_ok b"
  by (simp add: whole_amounts_def balances_ok_def is_float_whole)

lemma burnDown_whole:
  assumes ok: "float_ok F" and d: "distinct (map gr_ID gs)" and b: "whole_amounts b"
    and u: "whole53 usage" "0 \<le> usage" and r: "burnDownGrants F b gs usage = (b', us, overage)"
  shows "whole_amounts b' \<and> whole53 overage \<and> 0 \<le> overage \<and> overage \<le> usage \<and>
    sum_list (map gu_Usage us) + overage = usage"
proof -
  have w: "whole_balances b gs" using b by (simp add: whole_balances_def whole_amounts_def)
  have "0 \<le> total_balance b gs"
    by (rule total_balance_nonneg) (use w in \<open>simp add: whole_balances_def\<close>)
  note e = burnDown_exact [OF ok d w u r]
  note bd = burnDown_bounds [OF ok is_float_whole [OF u(1)] u(2) whole_amounts_ok [OF b] r]
  have "whole_amounts b'" using e bd(1) b by (simp add: whole_amounts_def balances_ok_def)
  moreover have "whole53 overage" "sum_list (map gu_Usage us) = usage - overage"
    "overage = max 0 (usage - total_balance b gs)" using e by blast+
  ultimately show ?thesis using bd(4) u(2) \<open>0 \<le> total_balance b gs\<close> by simp
qed

text \<open>The state of the phase loop: whole balances, a whole overage, and distinct whole grants.\<close>

definition whole_state :: "run_state \<Rightarrow> bool" where
  "whole_state st \<longleftrightarrow> whole_amounts (st_balances st) \<and> whole53 (st_overage st) \<and> 0 \<le> st_overage st \<and>
     distinct (map gr_ID (st_grants st)) \<and> (\<forall>g \<in> set (st_grants st). whole_grant g)"

lemma distinct_ids_mset: "mset as = mset bs \<Longrightarrow> distinct (map gr_ID as) \<longleftrightarrow> distinct (map gr_ID bs)"
  by (metis mset_eq_imp_distinct_iff mset_map)

lemma run_phase_accounts:
  assumes ok: "float_ok F" and q: "whole_usage Q" and gm: "\<forall>k g. gm k = Some g \<longrightarrow> whole_grant g"
    and st: "whole_state st" and r: "run_phase F Q agg gm st phase = Inr st'"
    and small: "st_overage st + total_usage (st_segments st') - total_usage (st_segments st) \<le> 2 ^ 53"
  shows "whole_state st' \<and> st_overage st' - total_usage (st_segments st') \<le>
      st_overage st - total_usage (st_segments st) \<and>
    booked_usage (st_segments st') + st_overage st' - total_usage (st_segments st') =
    booked_usage (st_segments st) + st_overage st - total_usage (st_segments st)"
proof -
  obtain rec usage uses where
    rec: "(if st_recurredGrants st \<noteq> [] then applyRecurrences gm (st_recurredGrants st) (st_balances st)
      else Inr (st_balances st)) = Inr rec"
    and u: "Q (bp_from phase) (bp_to phase) = Inr usage"
    and g: "mset (st_grants st') = mset (st_grants st)"
    and burn: "burnDownGrants F (phase_start_balances agg (bp_from phase) (st_grants st') rec)
           (filter (\<lambda>g. ActiveAt g (bp_from phase)) (st_grants st')) (fl64 (usage + st_overage st)) =
         (st_balances st', uses, st_overage st')"
    and segs: "st_segments st' = st_segments st @ [\<lparr>sg_Period = phase_period phase,
           sg_BalanceAtStart = phase_start_balances agg (bp_from phase) (st_grants st') rec,
           sg_TerminationReasons = \<lparr>tr_PriorityChange = bp_priorityChange phase,
             tr_Recurrence = bp_grantsRecurredAtEnd phase, tr_UsageReset = False, tr_Rollover = False\<rparr>,
           sg_TotalUsage = usage, sg_OverageAtStart = st_overage st, sg_Overage = st_overage st',
           sg_GrantUsages = uses\<rparr>]"
    by (rule run_phase_cases [OF r])
  have tot: "total_usage (st_segments st') = total_usage (st_segments st) + usage"
    "booked_usage (st_segments st') = booked_usage (st_segments st) + sum_list (map gu_Usage uses)"
    unfolding segs by (simp_all add: total_usage_def booked_usage_def)
  have un: "0 \<le> usage" "usage \<in> \<int>" using q u by (auto simp: whole_usage_def)
  have o: "0 \<le> st_overage st" "st_overage st \<in> \<int>" using st by (simp_all add: whole_state_def whole53_iff)
  have w: "whole53 (usage + st_overage st)" "0 \<le> usage + st_overage st"
    using un o small tot(1) by (simp_all add: whole53_iff)
  have e: "fl64 (usage + st_overage st) = usage + st_overage st"
    using is_float_whole [OF w(1)] by (simp add: is_float_def)
  have gs: "distinct (map gr_ID (st_grants st'))" "\<forall>g \<in> set (st_grants st'). whole_grant g"
    using st g distinct_ids_mset [OF g] mset_eq_setD [OF g] by (simp_all add: whole_state_def)
  have "whole_amounts rec"
    using rec st applyRecurrences_whole [OF _ _ gm] by (simp add: whole_state_def split: if_splits)
  then have p: "whole_amounts (phase_start_balances agg (bp_from phase) (st_grants st') rec)"
    using gs(2) by (rule phase_start_whole)
  have d: "distinct (map gr_ID (filter (\<lambda>g. ActiveAt g (bp_from phase)) (st_grants st')))"
    using gs(1) by (rule distinct_map_filter)
  from burnDown_whole [OF ok d p w burn [unfolded e]] show ?thesis
    using gs tot un(1) by (simp add: whole_state_def)
qed

lemma run_phase_total:
  assumes "whole_usage Q" and r: "run_phase F Q agg gm st phase = Inr st'"
  shows "total_usage (st_segments st) \<le> total_usage (st_segments st')"
proof (rule run_phase_cases [OF r])
  fix rec usage uses
  assume u: "Q (bp_from phase) (bp_to phase) = Inr usage"
    and segs: "st_segments st' = st_segments st @ [\<lparr>sg_Period = phase_period phase,
           sg_BalanceAtStart = phase_start_balances agg (bp_from phase) (st_grants st') rec,
           sg_TerminationReasons = \<lparr>tr_PriorityChange = bp_priorityChange phase,
             tr_Recurrence = bp_grantsRecurredAtEnd phase, tr_UsageReset = False, tr_Rollover = False\<rparr>,
           sg_TotalUsage = usage, sg_OverageAtStart = st_overage st, sg_Overage = st_overage st',
           sg_GrantUsages = uses\<rparr>]"
  have "0 \<le> usage" using assms(1) u by (auto simp: whole_usage_def)
  then show ?thesis unfolding segs by (simp add: total_usage_def)
qed

lemma run_phases_total:
  "whole_usage Q \<Longrightarrow> run_phases F Q agg gm st phases = Inr st' \<Longrightarrow>
    total_usage (st_segments st) \<le> total_usage (st_segments st')"
proof (induction phases arbitrary: st)
  case (Cons p ps)
  then obtain st1 where 1: "run_phase F Q agg gm st p = Inr st1" and 2: "run_phases F Q agg gm st1 ps = Inr st'"
    by (auto simp: bind_result_Inr)
  show ?case using run_phase_total [OF Cons.prems(1) 1] Cons.IH [OF Cons.prems(1) 2] by simp
qed simp

lemma run_phases_accounts:
  assumes ok: "float_ok F" and q: "whole_usage Q" and gm: "\<forall>k g. gm k = Some g \<longrightarrow> whole_grant g"
  shows "run_phases F Q agg gm st phases = Inr st' \<Longrightarrow> whole_state st \<Longrightarrow>
    st_overage st + total_usage (st_segments st') - total_usage (st_segments st) \<le> 2 ^ 53 \<Longrightarrow>
    whole_state st' \<and> booked_usage (st_segments st') + st_overage st' - total_usage (st_segments st') =
    booked_usage (st_segments st) + st_overage st - total_usage (st_segments st)"
proof (induction phases arbitrary: st)
  case (Cons p ps)
  then obtain st1 where 1: "run_phase F Q agg gm st p = Inr st1" and 2: "run_phases F Q agg gm st1 ps = Inr st'"
    by (auto simp: bind_result_Inr)
  have "total_usage (st_segments st1) \<le> total_usage (st_segments st')" by (rule run_phases_total [OF q 2])
  then have "st_overage st + total_usage (st_segments st1) - total_usage (st_segments st) \<le> 2 ^ 53"
    using Cons.prems(3) by simp
  note k = run_phase_accounts [OF ok q gm Cons.prems(2) 1 this]
  have "st_overage st1 + total_usage (st_segments st') - total_usage (st_segments st1) \<le> 2 ^ 53"
    using k Cons.prems(3) by simp
  from Cons.IH [OF 2 _ this] k show ?case by simp
qed simp

lemma runBetweenResets_accounts:
  assumes ok: "float_ok F" and q: "whole_usage Q"
    and gs: "distinct (map gr_ID (ib_Grants params))" "\<forall>g \<in> set (ib_Grants params). whole_grant g"
    and s: "whole_amounts (sn_Balances (ib_StartingSnapshot params))"
      "whole53 (sn_Overage (ib_StartingSnapshot params))" "0 \<le> sn_Overage (ib_StartingSnapshot params)"
    and small: "sn_Overage (ib_StartingSnapshot params) + total_usage (gh_segments h) \<le> 2 ^ 53"
    and r: "runBetweenResets P F Q params = Some (Inr (snap, h))"
  shows "booked_usage (gh_segments h) + sn_Overage snap =
      sn_Overage (ib_StartingSnapshot params) + total_usage (gh_segments h) \<and> whole_amounts (sn_Balances snap)"
proof (rule runBetweenResets_cases [OF r])
  let ?gm = "grantMap (PrioritizeGrants (ib_Grants params))"
  fix plan b st
  assume b: "(if pp_grantsRecurredAtStart plan \<noteq> []
          then applyRecurrences ?gm (pp_grantsRecurredAtStart plan) (sn_Balances (ib_StartingSnapshot params))
          else Inr (sn_Balances (ib_StartingSnapshot params))) = Inr b"
    and run: "run_phases F Q (ib_Aggregation params) ?gm
           \<lparr>st_grants = PrioritizeGrants (ib_Grants params), st_balances = b,
            st_overage = sn_Overage (ib_StartingSnapshot params), st_rePrioritize = False,
            st_recurredGrants = [], st_segments = []\<rparr> (pp_phases plan) = Inr st"
    and e: "end_of_period F params st = Inr (snap, h)"
  note e = end_of_period_cases [OF e]
  have gm: "\<forall>k g. ?gm k = Some g \<longrightarrow> whole_grant g"
    using grantMap_mem gs(2) by fastforce
  have h: "mset (gh_segments h) = mset (st_segments st)"
    using e(1) by (auto simp: NewGrantBurnDownHistory_Inr)
  have d: "distinct (map gr_ID (PrioritizeGrants (ib_Grants params)))"
    using gs(1) by simp
  have "whole_amounts b"
    using b s applyRecurrences_whole [OF _ _ gm] by (simp split: if_splits)
  then show ?thesis
    using run_phases_accounts [OF ok q gm run] gs(2) d s small e totals_cong [OF h]
    by (simp add: whole_state_def total_usage_def [of "[]"] booked_usage_def [of "[]"])
qed

section \<open>Runs return\<close>

text \<open>
  The loop that collects a grant's recurrences has no bound of its own. It ends once an occurrence
  is past the period, so a run from \<open>a\<close> to \<open>b\<close> returns when every recurrence has one within its
  first \<open>N\<close> occurrences. The interval may have any fields, months and years included, as long as none is
  negative and the \<open>N\<close> occurrences stay within 292 years of the anchor.
\<close>

definition recurrences_reach :: "period_lib \<Rightarrow> int \<Rightarrow> time \<Rightarrow> time \<Rightarrow> Grant \<Rightarrow> bool" where
  "recurrences_reach P N a b g \<longleftrightarrow> (case gr_Recurrence g of None \<Rightarrow> True
     | Some r \<Rightarrow> regular_recurrence P r N \<and> 0 < max (gr_EffectiveAt g) a \<and>
         occurrence_of r (- N) < max (gr_EffectiveAt g) a \<and> max (gr_EffectiveAt g) b < occurrence_of r N)"

lemma grant_recurrences_return:
  assumes "recurrences_reach P N a b g" and "gr_Recurrence g = Some r"
    and "a \<le> cp_From per" and "cp_From per \<le> cp_To per" and "cp_To per \<le> b"
  shows "grant_recurrences P per bd g r \<noteq> None"
proof -
  let ?s = "max (gr_EffectiveAt g) (cp_From per)"
  let ?go = "\<lambda>t. inPeriod per bd t \<and> ActiveAt g t"
  have occ: "recurrence_occurrences P r (occurrence_of r) N"
    using assms(1,2) by (auto simp: recurrences_reach_def intro: regular_recurrence_occurrences)
  have b: "occurrence_of r (- N) < ?s" "?s < occurrence_of r N" "0 < ?s"
    using assms by (auto simp: recurrences_reach_def)
  have n: "\<not> ?go (occurrence_of r N)"
    using inPeriod_le [of per bd "occurrence_of r N"] assms by (auto simp: recurrences_reach_def)
  have z: "\<not> IsZeroTime ?s" using b(3) by (simp add: IsZeroTime_def)
  show ?thesis
    using recurrence_occurrences.loop_from_start [OF occ b(1,2) z, of ?go] n
    by (auto simp: grant_recurrences_def)
qed

lemma all_recurrences_return:
  "\<forall>g \<in> set gs. \<forall>r. gr_Recurrence g = Some r \<longrightarrow> grant_recurrences P per bd g r \<noteq> None \<Longrightarrow>
    all_recurrences P per bd gs \<noteq> None"
  by (induction gs) (auto split: option.splits sum.splits simp: bind_eq_None_conv)

lemma getPhases_returns:
  assumes "\<forall>g \<in> set gs. recurrences_reach P N a b g"
    and "a \<le> cp_From per" and "cp_From per \<le> cp_To per" and "cp_To per \<le> b"
  shows "getPhases P gs per bd \<noteq> None"
proof -
  have "all_recurrences P per bd (filter (\<lambda>g. gr_Recurrence g \<noteq> None) gs) \<noteq> None"
    by (rule all_recurrences_return) (use grant_recurrences_return assms in auto)
  then show ?thesis by (auto simp: getPhases_def getGrantRecurrenceTimes_def Let_def)
qed

lemma runBetweenResets_returns:
  assumes "\<forall>g \<in> set (ib_Grants params). recurrences_reach P N a b g"
    and "a \<le> sn_At (ib_StartingSnapshot params)" and "sn_At (ib_StartingSnapshot params) \<le> ib_Until params"
    and "ib_Until params \<le> b"
  shows "runBetweenResets P F Q params \<noteq> None"
  using getPhases_returns [OF assms(1), of "\<lparr>cp_From = sn_At (ib_StartingSnapshot params), cp_To = ib_Until params\<rparr>"]
    assms(2-4) by (auto simp: runBetweenResets_def Let_def)

lemma run_periods_returns:
  "\<forall>g \<in> set (rp_Grants params). recurrences_reach P N a b g \<Longrightarrow> contiguous pers \<Longrightarrow>
   \<forall>p \<in> set pers. a \<le> cp_From p \<and> cp_From p \<le> cp_To p \<and> cp_To p \<le> b \<Longrightarrow>
   pers = [] \<or> sn_At s = cp_From (hd pers) \<Longrightarrow> run_periods P F Q params s segs pers \<noteq> None"
proof (induction pers arbitrary: s segs)
  case (Cons per pers)
  let ?g = "filterRelevantGrants (rp_Grants params) (sn_Balances s) per"
  let ?ib = "\<lparr>ib_Grants = ?g,
        ib_Until = cp_To per, ib_StartingSnapshot = s, ib_Aggregation = rp_Aggregation params,
        ib_PeriodEndRecurrenceBoundaryBehavior = (if pers = [] then Inclusive else Exclusive)\<rparr>"
  have "\<forall>g \<in> set ?g. recurrences_reach P N a b g"
    using Cons.prems(1) by (simp add: filterRelevantGrants_def)
  then have "runBetweenResets P F Q ?ib \<noteq> None"
    using Cons.prems by (intro runBetweenResets_returns) auto
  then obtain res where res: "runBetweenResets P F Q ?ib = Some res" by blast
  show ?case
  proof (cases res)
    case (Inl e)
    then show ?thesis using res by (simp add: Let_def)
  next
    case (Inr x)
    obtain snap h where x: "x = (snap, h)" by (cases x)
    show ?thesis
    proof (cases "pers = []")
      case True
      then show ?thesis using res Inr x by (simp add: Let_def)
    next
      case False
      then obtain q qs where q: "pers = q # qs" by (cases pers) auto
      have ih: "run_periods P F Q params s2 segs2 pers \<noteq> None" if "sn_At s2 = cp_To per" for s2 segs2
        using Cons.IH [of s2 segs2] Cons.prems q that by simp
      show ?thesis
      proof (cases "reset F ?g snap (rp_PreserveOverage params) (cp_To per)")
        case (Inl e)
        then show ?thesis using res \<open>res = Inr x\<close> x False by (simp add: Let_def)
      next
        case r: (Inr y)
        obtain s2 seg where y: "y = (s2, seg)" by (cases y)
        have "sn_At s2 = cp_To per" using reset_elim [OF r [unfolded y]] by metis
        then show ?thesis using res Inr x False r y ih by (simp add: Let_def)
      qed
    qed
  qed
qed simp

lemma contiguous_within:
  "contiguous pers \<Longrightarrow> \<forall>p \<in> set pers. cp_From p \<le> cp_To p \<Longrightarrow> pers \<noteq> [] \<Longrightarrow>
   \<forall>p \<in> set pers. cp_From (hd pers) \<le> cp_From p \<and> cp_To p \<le> cp_To (last pers)"
proof (induction pers)
  case (Cons p pers)
  show ?case
  proof (cases pers)
    case (Cons q qs)
    have ih: "\<forall>r \<in> set pers. cp_From (hd pers) \<le> cp_From r \<and> cp_To r \<le> cp_To (last pers)"
      using Cons.IH Cons.prems Cons by simp
    have "cp_To p = cp_From q" "cp_From p \<le> cp_To p" using Cons.prems Cons by simp_all
    moreover have "cp_From q \<le> cp_To q" "cp_To q \<le> cp_To (last pers)" using Cons.prems Cons ih by simp_all
    ultimately show ?thesis using ih Cons by fastforce
  qed simp
qed simp

lemma Run_terminates:
  assumes reach: "\<forall>g \<in> set (rp_Grants params). recurrences_reach P N (sn_At (rp_StartingSnapshot params)) (rp_Until params) g"
  shows "Run P F Q params \<noteq> None"
proof -
  let ?s0 = "rp_StartingSnapshot params"
  let ?ts = "[sn_At ?s0] @ GetTimes (rp_Resets params) @ [rp_Until params]"
  let ?tl = "NewSimpleTimeline ?ts"
  have ts: "timeline_sorted ?tl" unfolding NewSimpleTimeline_def by (rule NewTimeline_sorted)
  have "length (GetTimes ?tl) = length ?ts" unfolding NewSimpleTimeline_GetTimes by simp
  then have ne: "GetTimes ?tl \<noteq> []" by (metis append_is_Nil_conv length_0_conv not_Cons_self2)
  note t = GetClosedPeriods_tile [OF ts ne]
  note w = contiguous_within [OF t(1,4) GetClosedPeriods_ne [OF ne]]
  have "run_periods P F Q params ?s0 [] (GetClosedPeriods ?tl) \<noteq> None"
    if "cp_From (GetBoundingPeriod ?tl) = sn_At ?s0" "cp_To (GetBoundingPeriod ?tl) = rp_Until params"
    using w t that by (intro run_periods_returns [OF reach t(1)]) auto
  then show ?thesis by (auto simp: Run_def Let_def split: option.splits)
qed

section \<open>What a reset leaves\<close>








section \<open>A concrete run\<close>

text \<open>One grant of 5, from 100 to 300 with a reset at 200 that preserves the overage, 2 used in each half.\<close>

definition sample_snapshot :: Snapshot where
  "sample_snapshot = \<lparr>sn_Usage = \<lparr>su_Usage = 0, su_Since = 100\<rparr>,
     sn_UsageSnapshot = Some \<lparr>us_Usage = 0, us_TotalGrantUsage = 0\<rparr>,
     sn_Balances = [''a'' \<mapsto> 5], sn_Overage = 0, sn_At = 100, sn_UnitConfig = None\<rparr>"

definition sample_params :: RunParams where
  "sample_params = \<lparr>rp_Aggregation = AggSum, rp_Grants = [plain_grant ''a'' 5 1], rp_Until = 300,
     rp_StartingSnapshot = sample_snapshot, rp_PreserveOverage = True, rp_Resets = NewSimpleTimeline [200]\<rparr>"

definition sample_period :: inbetweenRunParams where
  "sample_period = \<lparr>ib_Grants = [plain_grant ''a'' 5 1], ib_Until = 200,
     ib_StartingSnapshot = sample_snapshot, ib_Aggregation = AggSum,
     ib_PeriodEndRecurrenceBoundaryBehavior = Exclusive\<rparr>"

lemma small_floats: "fl64 1 = 1" "fl64 2 = 2" "fl64 3 = 3" "fl64 4 = 4" "fl64 5 = 5" "fl64 7 = 7"
  using fl64_of_int [of 1] fl64_of_int [of 2] fl64_of_int [of 3] fl64_of_int [of 4] fl64_of_int [of 5]
    fl64_of_int [of 7] by simp_all

lemma small_wholes: "whole53 1" "whole53 2" "whole53 3" "whole53 5" "whole53 7"
  by (simp_all add: whole53_iff)

lemma small_is_float: "is_float 5" "is_float 2"
  by (simp_all add: is_float_def small_floats)

lemma rollover_single:
  assumes "gr_ID g = i"
  shows "rollover_balances [g] tm [i \<mapsto> v] = Inr [i \<mapsto> if ActiveAt g tm then RolloverBalance g v else v]"
  using assms by (auto simp: rollover_balances_def grantMap_def)

lemmas sample_defs = sample_params_def sample_period_def sample_snapshot_def plain_grant_def std_float_lib_def
  small_floats

lemmas phase_defs = getPhases_def getGrantActivityChanges_def getGrantRecurrenceTimes_def in_period_def
  dedupe_times_def build_phases_def closing_phases_def activity_phase_def appendPhase_def

lemmas balance_defs = burnDownGrants_def burn_step_def PrioritizeGrants_def grantMap_def
  phase_start_balances_def zero_inactive_def start_effective_def latest_amounts_def ActiveAt_iff to_ok_def
  RolloverBalance_def bm_get_def BM_Set_def BM_Burn_def BM_Clone_def ExactlyForGrants_def

lemmas time_defs = NewSimpleTimeline_def GetBoundingPeriod_def AsTimed_def NewTimeline_def compare_timed_def
  GetTimes_def GetTime_def CP_Contains_def CP_ContainsInclusive_def GetClosedPeriods_def IsZeroTime_def

lemmas segment_defs = validateStartingSnapshot_def NewGrantBurnDownHistory_def TotalUsageInHistory_def
  TotalGrantUsage_def mark_reset_def GrantUsages_Sum_def compare_segments_def segment_less_def

lemma sample_run_between:
  "\<exists>snap h. runBetweenResets std_period_lib std_float_lib (\<lambda>a b. Inr 2) sample_period = Some (Inr (snap, h)) \<and>
     total_usage (gh_segments h) = 2 \<and> bm_get (sn_Balances snap) ''a'' = 3"
  by (simp add: runBetweenResets_def run_phase_def end_of_period_def sample_defs phase_defs balance_defs
      time_defs segment_defs Let_def total_usage_def)

lemma sample_run:
  "\<exists>res. Run std_period_lib std_float_lib (\<lambda>a b. Inr 2) sample_params = Some (Inr res) \<and>
     sn_Balances (rr_Snapshot res) = [''a'' \<mapsto> 1] \<and> length (gh_segments (rr_History res)) = 3"
  by (simp add: Run_def filterRelevantGrants_def runBetweenResets_def run_phase_def end_of_period_def reset_def
      rollover_single sample_defs phase_defs balance_defs time_defs segment_defs Let_def)


section \<open>Properties\<close>

text \<open>
  C8. A run of the engine answers for the whole queried time: the resulting snapshot is at the end
  of the run, and the history's segments follow one another without gap or overlap from the
  starting snapshot to that end, none of them reversed, across all resets in between.
\<close>

theorem Run_covers:
  assumes "Run P F Q params = Some (Inr res)"
  shows "sn_At (rr_Snapshot res) = rp_Until params \<and>
    history_spans (sn_At (rp_StartingSnapshot params)) (gh_segments (rr_History res)) (rp_Until params)"
  using Run_spans [OF assms] by blast

theorem Run_covers_witness:
  "\<exists>res. Run std_period_lib std_float_lib (\<lambda>a b. Inr 2) sample_params = Some (Inr res) \<and>
     sn_At (rr_Snapshot res) = 300 \<and> history_spans 100 (gh_segments (rr_History res)) 300 \<and>
     length (gh_segments (rr_History res)) = 3"
proof -
  obtain res where r: "Run std_period_lib std_float_lib (\<lambda>a b. Inr 2) sample_params = Some (Inr res)"
    "length (gh_segments (rr_History res)) = 3"
    using sample_run by blast
  then show ?thesis using Run_covers [OF r(1)] by (simp add: sample_params_def sample_snapshot_def)
qed

text \<open>
  C16. No run makes a balance or the overage negative: from a snapshot and grants whose amounts are
  representable and not negative, and usage that is not negative, the balances and the overage at the
  end are representable and not negative, whatever the float and decimal conversions round.
\<close>

theorem Run_keeps_balances:
  assumes "Run P F Q params = Some (Inr res)" and "float_ok F" and "usage_ok Q"
    and "\<forall>g \<in> set (rp_Grants params). grant_ok g" and "snapshot_ok (rp_StartingSnapshot params)"
  shows "snapshot_ok (rr_Snapshot res)"
  using run_periods_ok [OF assms(2-4)] assms(5) Run_cases [OF assms(1)] by metis

theorem Run_keeps_balances_witness:
  "\<exists>res. Run std_period_lib std_float_lib (\<lambda>a b. Inr 2) sample_params = Some (Inr res) \<and>
     snapshot_ok (rr_Snapshot res) \<and> bm_get (sn_Balances (rr_Snapshot res)) ''a'' = 1"
proof -
  obtain res where r: "Run std_period_lib std_float_lib (\<lambda>a b. Inr 2) sample_params = Some (Inr res)"
    "sn_Balances (rr_Snapshot res) = [''a'' \<mapsto> 1]"
    using sample_run by blast
  have "\<forall>g \<in> set (rp_Grants sample_params). grant_ok g"
    by (simp add: sample_params_def plain_grant_def grant_ok_def small_is_float)
  moreover have "snapshot_ok (rp_StartingSnapshot sample_params)"
    by (simp add: sample_params_def sample_snapshot_def snapshot_ok_def balances_ok_def bm_get_def small_is_float)
  ultimately have "snapshot_ok (rr_Snapshot res)"
    using Run_keeps_balances [OF r(1) float_ok_std] by (simp add: usage_ok_def)
  then show ?thesis using r by (simp add: bm_get_def)
qed

text \<open>
  C9. Between two resets no usage is lost or counted twice: for whole amounts within the exact range
  of a float, what the segments book against grants plus the overage at the end equals the overage at
  the start plus the usage of all segments.
\<close>

theorem runBetweenResets_conserves:
  assumes "float_ok F" and "whole_usage Q" and "distinct (map gr_ID (ib_Grants params))"
    and "\<forall>g \<in> set (ib_Grants params). whole_grant g"
    and "whole_amounts (sn_Balances (ib_StartingSnapshot params))"
    and "whole53 (sn_Overage (ib_StartingSnapshot params))" and "0 \<le> sn_Overage (ib_StartingSnapshot params)"
    and "sn_Overage (ib_StartingSnapshot params) + total_usage (gh_segments h) \<le> 2 ^ 53"
    and "runBetweenResets P F Q params = Some (Inr (snap, h))"
  shows "booked_usage (gh_segments h) + sn_Overage snap =
    sn_Overage (ib_StartingSnapshot params) + total_usage (gh_segments h)"
  using runBetweenResets_accounts [OF assms] by blast

theorem runBetweenResets_conserves_witness:
  "\<exists>snap h. runBetweenResets std_period_lib std_float_lib (\<lambda>a b. Inr 2) sample_period = Some (Inr (snap, h)) \<and>
     booked_usage (gh_segments h) + sn_Overage snap = 2"
proof -
  obtain snap h where r: "runBetweenResets std_period_lib std_float_lib (\<lambda>a b. Inr 2) sample_period = Some (Inr (snap, h))"
    "total_usage (gh_segments h) = 2"
    using sample_run_between by blast
  have "whole_amounts (sn_Balances (ib_StartingSnapshot sample_period))"
    by (simp add: sample_period_def sample_snapshot_def whole_amounts_def bm_get_def small_wholes)
  then have "booked_usage (gh_segments h) + sn_Overage snap =
      sn_Overage (ib_StartingSnapshot sample_period) + total_usage (gh_segments h)"
    using r(2)
    by (intro runBetweenResets_conserves [OF float_ok_std _ _ _ _ _ _ _ r(1)])
      (simp_all add: whole_usage_def sample_period_def sample_snapshot_def plain_grant_def whole_grant_def small_wholes)
  then show ?thesis using r by (simp add: sample_period_def sample_snapshot_def)
qed

text \<open>
  C17. A run returns a result or an error, although the loops over recurrences have no bound of
  their own, when every recurring grant, whose interval may have any fields but negative ones, has its
  occurrence \<open>N\<close> after the end of the run and its occurrence \<open>-N\<close> before the start.
\<close>

theorem Run_returns:
  assumes "\<forall>g \<in> set (rp_Grants params).
    recurrences_reach P N (sn_At (rp_StartingSnapshot params)) (rp_Until params) g"
  shows "\<exists>result. Run P F Q params = Some result"
  using Run_terminates [OF assms] by blast

theorem Run_returns_witness:
  "\<exists>result. Run std_period_lib std_float_lib (\<lambda>a b. Inr 2)
     (sample_params\<lparr>rp_Grants := [(plain_grant ''a'' 5 1)\<lparr>gr_Recurrence := Some (RecurrencePeriodMonth 0)\<rparr>]\<rparr>) = Some result"
proof (rule Run_returns [where N = 3222])
  have "occurrence_of (RecurrencePeriodMonth 0) (- 3222) < 100" "300 < occurrence_of (RecurrencePeriodMonth 0) 3222"
    using monthly_reach [of 3222 0] by (simp_all add: nsDay_def)
  then show "\<forall>g \<in> set (rp_Grants (sample_params\<lparr>rp_Grants := [(plain_grant ''a'' 5 1)\<lparr>gr_Recurrence := Some (RecurrencePeriodMonth 0)\<rparr>]\<rparr>)).
      recurrences_reach std_period_lib 3222 (sn_At (rp_StartingSnapshot (sample_params\<lparr>rp_Grants :=
        [(plain_grant ''a'' 5 1)\<lparr>gr_Recurrence := Some (RecurrencePeriodMonth 0)\<rparr>]\<rparr>)))
        (rp_Until (sample_params\<lparr>rp_Grants := [(plain_grant ''a'' 5 1)\<lparr>gr_Recurrence := Some (RecurrencePeriodMonth 0)\<rparr>]\<rparr>)) g"
    using regular_monthly by (simp add: sample_params_def sample_snapshot_def plain_grant_def recurrences_reach_def)
qed



end
