(* ===== verification/Currencyx.thy ===== *)
theory Currencyx
  imports Decimal "HOL-Library.Word"
begin

text \<open>
  Currencies (pkg/currencyx/currency.go and code.go): codes, fiat and custom currencies, their
  validation and the calculators that round amounts to the smallest unit. The currency definitions
  of the third-party package are a parameter, \<open>known\<close> (its \<open>currency.Get\<close>). Formatting amounts
  and the JSON shapes are left out.
\<close>

section \<open>Codes (code.go)\<close>

datatype CurrencyType = CurrencyTypeFiat | CurrencyTypeCustom | OtherCurrencyType string

text \<open>The fields of the package's \<open>currency.Def\<close> that the code reads.\<close>

record currency_def =
  cd_ISOCode :: string
  cd_ISONumeric :: string
  cd_Name :: string
  cd_Symbol :: string
  cd_Subunits :: "32 word"
  cd_DecimalMark :: string
  cd_ThousandsSeparator :: string

type_synonym known_currencies = "string \<Rightarrow> currency_def option"

definition CurrencyType_Validate :: "CurrencyType \<Rightarrow> error option" where
  "CurrencyType_Validate t =
     nillable_validation (join_errors (err_if (t \<notin> {CurrencyTypeFiat, CurrencyTypeCustom})
       (Err ''invalid currency type'')))"

definition CustomCurrencyCodeMinLength :: nat where "CustomCurrencyCodeMinLength = 4"
definition CustomCurrencyCodeMaxLength :: nat where "CustomCurrencyCodeMaxLength = 24"
definition CustomCurrencyMaxPrecision :: "32 word" where "CustomCurrencyMaxPrecision = 12"

definition Code_Type :: "string \<Rightarrow> CurrencyType" where
  "Code_Type c = (if length c = 3 then CurrencyTypeFiat else CurrencyTypeCustom)"

definition Code_IsFiat :: "string \<Rightarrow> bool" where
  "Code_IsFiat c \<longleftrightarrow> Code_Type c = CurrencyTypeFiat"

definition Code_IsCustom :: "string \<Rightarrow> bool" where
  "Code_IsCustom c \<longleftrightarrow> Code_Type c = CurrencyTypeCustom"

text \<open>\<open>strings.TrimSpace\<close> on the ASCII white space: tab, newline, vertical tab, form feed, return, space.\<close>

definition is_space :: "char \<Rightarrow> bool" where
  "is_space ch \<longleftrightarrow> ch \<in> {CHR 0x09, CHR 0x0A, CHR 0x0B, CHR 0x0C, CHR 0x0D, CHR 0x20}"

definition TrimSpace :: "string \<Rightarrow> string" where
  "TrimSpace s = rev (dropWhile is_space (rev (dropWhile is_space s)))"

definition validateFiatCurrencyCode :: "known_currencies \<Rightarrow> string \<Rightarrow> error option" where
  "validateFiatCurrencyCode known code =
     (if length code \<noteq> 3 then Some (Err ''invalid fiat currency code'')
      else if (case known code of None \<Rightarrow> True | Some d \<Rightarrow> cd_ISONumeric d = [])
      then Some (Err ''invalid fiat currency code'')
      else None)"

definition validateCustomCurrencyCode :: "known_currencies \<Rightarrow> string \<Rightarrow> error option" where
  "validateCustomCurrencyCode known code = join_errors
     (err_if (code = []) (Err ''currency code is required'') @
      err_if (length code \<noteq> length (TrimSpace code))
        (Err ''invalid currency code: cannot contain leading or trailing spaces'') @
      err_if (CHR ''|'' \<in> set code) (Err ''invalid currency code: cannot contain route delimiter'') @
      err_if (known code \<noteq> None) (Err ''currency code is a fiat currency'') @
      err_if (length code < CustomCurrencyCodeMinLength \<or> length code > CustomCurrencyCodeMaxLength)
        (Err ''invalid currency code: length''))"

definition Code_Validate :: "known_currencies \<Rightarrow> string \<Rightarrow> error option" where
  "Code_Validate known c =
     (if c = [] then nillable_validation (join_errors [Err ''currency code is required''])
      else nillable_validation (join_errors
        (if length c = 3 then err_of (\<lambda>e. e) (validateFiatCurrencyCode known c)
         else err_of (\<lambda>e. e) (validateCustomCurrencyCode known c))))"

section \<open>Calculators\<close>

text \<open>
  The \<open>Currency\<close> interface, as far as amounts go. \<open>FiatCurrency\<close> and \<open>CustomCurrency\<close> hold a
  definition; the calculators below are theirs for an initialised one (on a nil definition they
  panic and are not called here).
\<close>

record CurrencyDetails =
  de_Code :: string
  de_Name :: string
  de_Symbol :: string
  de_Precision :: "32 word"
  de_DecimalMark :: string
  de_ThousandsSeparator :: string

record currency_ops =
  cur_Details :: CurrencyDetails
  cur_Validate :: "error option"
  cur_RoundToPrecision :: "decimal \<Rightarrow> decimal"
  cur_IsRoundedToPrecision :: "decimal \<Rightarrow> bool"
  cur_RoundUp :: "decimal \<Rightarrow> decimal"
  cur_RoundDown :: "decimal \<Rightarrow> decimal"
  cur_Unit :: decimal

definition int32_subunits :: "currency_def \<Rightarrow> int" where
  "int32_subunits d = sint (cd_Subunits d)"

definition FC_Unit :: "decimal_lib \<Rightarrow> currency_def \<Rightarrow> decimal" where
  "FC_Unit L d = dl_Shift L 1 (sint (- cd_Subunits d))"

definition FC_RoundUp :: "decimal_lib \<Rightarrow> currency_def \<Rightarrow> decimal \<Rightarrow> decimal" where
  "FC_RoundUp L d amount = dl_RoundUp L (int32_subunits d) amount"

definition FC_RoundDown :: "decimal_lib \<Rightarrow> currency_def \<Rightarrow> decimal \<Rightarrow> decimal" where
  "FC_RoundDown L d amount = dl_RoundDown L (int32_subunits d) amount"

definition FC_RoundToPrecision :: "decimal_lib \<Rightarrow> currency_def \<Rightarrow> decimal \<Rightarrow> decimal" where
  "FC_RoundToPrecision L d amount = dl_Round L (int32_subunits d) amount"

definition FC_IsRoundedToPrecision :: "decimal_lib \<Rightarrow> currency_def \<Rightarrow> decimal \<Rightarrow> bool" where
  "FC_IsRoundedToPrecision L d amount \<longleftrightarrow> amount = FC_RoundToPrecision L d amount"

text \<open>A pointer to a currency: nil, without a definition, or with one.\<close>

datatype currency_ptr = NilCurrency | NoDefinition | WithDefinition currency_def

definition FC_Validate :: "known_currencies \<Rightarrow> currency_ptr \<Rightarrow> error option" where
  "FC_Validate known f =
     (case f of
        NilCurrency \<Rightarrow> Some (Err ''fiat currency is not initialized'')
      | NoDefinition \<Rightarrow> nillable_validation (join_errors [Err ''fiat currency is not initialized''])
      | WithDefinition d \<Rightarrow> nillable_validation (join_errors
          (err_of (\<lambda>e. e) (validateFiatCurrencyCode known (cd_ISOCode d)) @
           err_if (cd_Name d = []) (Err ''invalid fiat currency: empty name''))))"

definition NewFiatCurrency :: "known_currencies \<Rightarrow> string \<Rightarrow> currency_def result" where
  "NewFiatCurrency known code =
     (case validateFiatCurrencyCode known code of
        Some e \<Rightarrow> Inl e
      | None \<Rightarrow> (case known code of
          None \<Rightarrow> Inl (Err ''invalid fiat currency code'')
        | Some definition \<Rightarrow>
            if uint (cd_Subunits definition) > 2 ^ 31 - 1 then Inl (Err ''value overflows int32'')
            else Inr definition))"

definition CC_Unit :: "decimal_lib \<Rightarrow> currency_def \<Rightarrow> decimal" where
  "CC_Unit L d = dl_Shift L 1 (sint (- cd_Subunits d))"

definition CC_RoundUp :: "decimal_lib \<Rightarrow> currency_def \<Rightarrow> decimal \<Rightarrow> decimal" where
  "CC_RoundUp L d amount = dl_RoundUp L (int32_subunits d) amount"

definition CC_RoundDown :: "decimal_lib \<Rightarrow> currency_def \<Rightarrow> decimal \<Rightarrow> decimal" where
  "CC_RoundDown L d amount = dl_RoundDown L (int32_subunits d) amount"

definition CC_RoundToPrecision :: "decimal_lib \<Rightarrow> currency_def \<Rightarrow> decimal \<Rightarrow> decimal" where
  "CC_RoundToPrecision L d amount = dl_Round L (int32_subunits d) amount"

definition CC_IsRoundedToPrecision :: "decimal_lib \<Rightarrow> currency_def \<Rightarrow> decimal \<Rightarrow> bool" where
  "CC_IsRoundedToPrecision L d amount \<longleftrightarrow> amount = CC_RoundToPrecision L d amount"

definition CC_Validate :: "known_currencies \<Rightarrow> currency_ptr \<Rightarrow> error option" where
  "CC_Validate known c =
     (case c of
        NilCurrency \<Rightarrow> Some (Err ''custom currency is not initialized'')
      | NoDefinition \<Rightarrow> nillable_validation (join_errors [Err ''currency is not initialized''])
      | WithDefinition d \<Rightarrow> nillable_validation (join_errors
          (err_of (\<lambda>e. e) (validateCustomCurrencyCode known (cd_ISOCode d)) @
           err_if (cd_Name d = []) (Err ''name is required'') @
           err_if (cd_Subunits d > CustomCurrencyMaxPrecision)
             (Err ''invalid precision: it must be between 0 and 12''))))"

definition newCustomCurrency :: "known_currencies \<Rightarrow> currency_def \<Rightarrow> currency_def result" where
  "newCustomCurrency known d =
     (case CC_Validate known (WithDefinition d) of Some e \<Rightarrow> Inl e | None \<Rightarrow> Inr d)"

datatype Currency = FiatCurrency currency_def | CustomCurrency currency_def

fun Currency_Details :: "Currency \<Rightarrow> CurrencyDetails" where
  "Currency_Details (FiatCurrency d) =
     \<lparr>de_Code = cd_ISOCode d, de_Name = cd_Name d, de_Symbol = cd_Symbol d, de_Precision = cd_Subunits d,
      de_DecimalMark = cd_DecimalMark d, de_ThousandsSeparator = cd_ThousandsSeparator d\<rparr>"
| "Currency_Details (CustomCurrency d) =
     \<lparr>de_Code = cd_ISOCode d, de_Name = cd_Name d, de_Symbol = cd_Symbol d, de_Precision = cd_Subunits d,
      de_DecimalMark = cd_DecimalMark d, de_ThousandsSeparator = cd_ThousandsSeparator d\<rparr>"

fun currency_ops_of :: "decimal_lib \<Rightarrow> known_currencies \<Rightarrow> Currency \<Rightarrow> currency_ops" where
  "currency_ops_of L known (FiatCurrency d) =
     \<lparr>cur_Details = Currency_Details (FiatCurrency d), cur_Validate = FC_Validate known (WithDefinition d), cur_RoundToPrecision = FC_RoundToPrecision L d,
      cur_IsRoundedToPrecision = FC_IsRoundedToPrecision L d, cur_RoundUp = FC_RoundUp L d,
      cur_RoundDown = FC_RoundDown L d, cur_Unit = FC_Unit L d\<rparr>"
| "currency_ops_of L known (CustomCurrency d) =
     \<lparr>cur_Details = Currency_Details (CustomCurrency d), cur_Validate = CC_Validate known (WithDefinition d), cur_RoundToPrecision = CC_RoundToPrecision L d,
      cur_IsRoundedToPrecision = CC_IsRoundedToPrecision L d, cur_RoundUp = CC_RoundUp L d,
      cur_RoundDown = CC_RoundDown L d, cur_Unit = CC_Unit L d\<rparr>"

section \<open>Details and the builder\<close>

fun Currency_Type :: "Currency \<Rightarrow> CurrencyType" where
  "Currency_Type (FiatCurrency d) = CurrencyTypeFiat"
| "Currency_Type (CustomCurrency d) = CurrencyTypeCustom"

fun AsFiat :: "Currency \<Rightarrow> currency_def result" where
  "AsFiat (FiatCurrency d) = Inr d"
| "AsFiat (CustomCurrency d) = Inl (Err ''cannot convert custom to fiat currency'')"

fun AsCustom :: "Currency \<Rightarrow> currency_def result" where
  "AsCustom (FiatCurrency d) = Inl (Err ''cannot convert fiat to custom currency'')"
| "AsCustom (CustomCurrency d) = Inr d"

record CurrencyBuilder =
  cb_t :: CurrencyType
  cb_d :: CurrencyDetails

definition NewCurrencyBuilder :: "CurrencyType \<Rightarrow> CurrencyBuilder" where
  "NewCurrencyBuilder t = \<lparr>cb_t = t, cb_d = \<lparr>de_Code = [], de_Name = [], de_Symbol = [], de_Precision = 0,
     de_DecimalMark = ''.'', de_ThousandsSeparator = '',''\<rparr>\<rparr>"

definition WithCode :: "string \<Rightarrow> CurrencyBuilder \<Rightarrow> CurrencyBuilder" where
  "WithCode code b = b\<lparr>cb_d := (cb_d b)\<lparr>de_Code := code\<rparr>\<rparr>"

definition WithName :: "string \<Rightarrow> CurrencyBuilder \<Rightarrow> CurrencyBuilder" where
  "WithName name b = b\<lparr>cb_d := (cb_d b)\<lparr>de_Name := name\<rparr>\<rparr>"

definition WithSymbol :: "string \<Rightarrow> CurrencyBuilder \<Rightarrow> CurrencyBuilder" where
  "WithSymbol symbol b = b\<lparr>cb_d := (cb_d b)\<lparr>de_Symbol := symbol\<rparr>\<rparr>"

definition WithPrecision :: "32 word \<Rightarrow> CurrencyBuilder \<Rightarrow> CurrencyBuilder" where
  "WithPrecision precision b = b\<lparr>cb_d := (cb_d b)\<lparr>de_Precision := precision\<rparr>\<rparr>"

definition WithDecimalMark :: "string \<Rightarrow> CurrencyBuilder \<Rightarrow> CurrencyBuilder" where
  "WithDecimalMark mark b = b\<lparr>cb_d := (cb_d b)\<lparr>de_DecimalMark := mark\<rparr>\<rparr>"

definition WithThousandsSeparator :: "string \<Rightarrow> CurrencyBuilder \<Rightarrow> CurrencyBuilder" where
  "WithThousandsSeparator sep b = b\<lparr>cb_d := (cb_d b)\<lparr>de_ThousandsSeparator := sep\<rparr>\<rparr>"

definition Build :: "known_currencies \<Rightarrow> CurrencyBuilder \<Rightarrow> Currency result" where
  "Build known b =
     (let d = cb_d b in
      case cb_t b of
        CurrencyTypeFiat \<Rightarrow> bind_result (NewFiatCurrency known (de_Code d)) (\<lambda>c. Inr (FiatCurrency c))
      | CurrencyTypeCustom \<Rightarrow> bind_result (newCustomCurrency known
            \<lparr>cd_ISOCode = de_Code d, cd_ISONumeric = [], cd_Name = de_Name d, cd_Symbol = de_Symbol d,
             cd_Subunits = de_Precision d, cd_DecimalMark = de_DecimalMark d,
             cd_ThousandsSeparator = de_ThousandsSeparator d\<rparr>) (\<lambda>c. Inr (CustomCurrency c))
      | OtherCurrencyType _ \<Rightarrow> Inl (Err ''invalid currency type''))"

section \<open>What a calculator promises\<close>

text \<open>
  The contract of the calculator part of \<open>Currency\<close>: amounts live on the grid of its smallest unit,
  and the three roundings go to the nearest, the farther and the nearer grid point from zero.
\<close>

locale currency_calculator =
  fixes C :: currency_ops and p :: nat
  assumes Unit: "cur_Unit C = 1 / 10 ^ p"
    and RoundToPrecision: "cur_RoundToPrecision C x = at_places int_half_away p x"
    and IsRounded: "cur_IsRoundedToPrecision C x \<longleftrightarrow> on_grid p x"
    and RoundUp: "cur_RoundUp C x = at_places int_from_zero p x"
    and RoundDown: "cur_RoundDown C x = at_places int_to_zero p x"
begin

lemma Unit_pos [simp]: "0 < cur_Unit C"
  by (simp add: Unit)

lemma RoundDown_grid [simp]: "on_grid p (cur_RoundDown C x)"
  by (simp add: RoundDown)

lemma RoundToPrecision_grid [simp]: "on_grid p (cur_RoundToPrecision C x)"
  by (simp add: RoundToPrecision)

lemma RoundDown_nonneg: "0 \<le> x \<Longrightarrow> 0 \<le> cur_RoundDown C x \<and> cur_RoundDown C x \<le> x \<and> x < cur_RoundDown C x + cur_Unit C"
proof -
  assume "0 \<le> x"
  then have b: "0 \<le> int_to_zero (x * 10 ^ p)" "of_int (int_to_zero (x * 10 ^ p)) \<le> x * 10 ^ p"
    "x * 10 ^ p < of_int (int_to_zero (x * 10 ^ p)) + 1"
    using int_to_zero_nonneg [of "x * 10 ^ p"] by simp_all
  then show ?thesis
    by (simp add: RoundDown Unit at_places_def pos_divide_le_eq pos_less_divide_eq add_divide_distrib [symmetric])
qed

lemma RoundDown_tiny: "- cur_Unit C < x \<Longrightarrow> x < 0 \<Longrightarrow> cur_RoundDown C x = 0"
proof -
  assume "- cur_Unit C < x" "x < 0"
  then have "- (1 / 10 ^ p) * 10 ^ p < x * 10 ^ p" "x * 10 ^ p < 0"
    unfolding Unit by (simp_all only: mult_less_cancel_right_pos zero_less_power zero_less_numeral mult_neg_pos)
  then have "- 1 < x * 10 ^ p" "x * 10 ^ p < 0" by simp_all
  then have "int_to_zero (x * 10 ^ p) = 0" unfolding int_to_zero_def by (simp, linarith)
  then show ?thesis by (simp add: RoundDown at_places_def)
qed

lemma RoundToPrecision_near: "\<bar>cur_RoundToPrecision C x - x\<bar> \<le> cur_Unit C / 2"
  using at_places_near [of p x] by (simp add: RoundToPrecision Unit)

lemma RoundToPrecision_mono: "x \<le> y \<Longrightarrow> cur_RoundToPrecision C x \<le> cur_RoundToPrecision C y"
  unfolding RoundToPrecision by (rule at_places_mono) (rule int_half_away_mono)

lemma RoundToPrecision_fixed: "on_grid p x \<Longrightarrow> cur_RoundToPrecision C x = x"
  unfolding RoundToPrecision by (rule at_places_fixed) simp_all

lemma RoundToPrecision_nonneg: "0 \<le> x \<Longrightarrow> 0 \<le> cur_RoundToPrecision C x"
  using RoundToPrecision_mono [of 0 x] RoundToPrecision_fixed [of 0] by simp

end

lemma int32_subunits_small: "uint (cd_Subunits d) < 2 ^ 31 \<Longrightarrow> int32_subunits d = uint (cd_Subunits d)"
  unfolding int32_subunits_def sint_uint
  by (rule signed_take_bit_int_eq_self) (auto intro: order_trans [OF _ uint_ge_0])

lemma minus_subunits_small:
  fixes d :: currency_def
  assumes "uint (cd_Subunits d) < 2 ^ 31"
  shows "sint (- cd_Subunits d) = - uint (cd_Subunits d)"
proof -
  have "sint (- cd_Subunits d) = signed_take_bit 31 (- sint (cd_Subunits d))"
    by (simp add: sint_word_ariths)
  also have "\<dots> = - sint (cd_Subunits d)"
    using int32_subunits_small [OF assms] assms uint_ge_0 [of "cd_Subunits d"] unfolding int32_subunits_def
    by (intro signed_take_bit_int_eq_self) linarith+
  finally show ?thesis using int32_subunits_small [OF assms] by (simp add: int32_subunits_def)
qed

lemma at_places_half_fixed_iff: "x = at_places int_half_away p x \<longleftrightarrow> on_grid p x"
  by (metis at_places_fixed int_half_away_of_int on_grid_at_places)

text \<open>Both kinds of currency keep the contract, with the precision of their definition.\<close>

lemma calculator_of_currency:
  assumes L: "decimal_ok L" and c: "c = FiatCurrency d \<or> c = CustomCurrency d"
    and s: "uint (cd_Subunits d) < 2 ^ 31"
  shows "currency_calculator (currency_ops_of L known c) (unat (cd_Subunits d))"
proof -
  obtain n where n: "unat (cd_Subunits d) = n" "uint (cd_Subunits d) = int n" by (metis uint_nat)
  have i: "int32_subunits d = int n" "sint (- cd_Subunits d) = - int n"
    using int32_subunits_small [OF s] minus_subunits_small [OF s] n by simp_all
  have shift: "dl_Shift L 1 (- int n) = 1 / 10 ^ n" using L by (simp add: decimal_ok_def)
  note r = dl_rounding [OF L, of "int n", simplified]
  have ops: "cur_Unit (currency_ops_of L known c) = 1 / 10 ^ n"
    "cur_RoundToPrecision (currency_ops_of L known c) = at_places int_half_away n"
    "cur_IsRoundedToPrecision (currency_ops_of L known c) = (\<lambda>x. x = at_places int_half_away n x)"
    "cur_RoundUp (currency_ops_of L known c) = at_places int_from_zero n"
    "cur_RoundDown (currency_ops_of L known c) = at_places int_to_zero n"
    using c by (auto simp: fun_eq_iff i r shift FC_Unit_def CC_Unit_def FC_RoundToPrecision_def CC_RoundToPrecision_def
        FC_IsRoundedToPrecision_def CC_IsRoundedToPrecision_def FC_RoundUp_def CC_RoundUp_def
        FC_RoundDown_def CC_RoundDown_def)
  show ?thesis unfolding n(1) by unfold_locales (simp_all only: ops at_places_half_fixed_iff)
qed

text \<open>Every fiat and custom currency of at most 255 places, over the executable decimals.\<close>

lemma byte_subunits: "uint (ucast (n :: 8 word) :: 32 word) < 2 ^ 31" "unat (ucast n :: 32 word) = unat n"
proof -
  have n: "uint n < 2 ^ 8" using unsigned_less [of n] by simp
  have u: "uint (ucast n :: 32 word) = uint n" by (rule uint_up_ucast) (simp add: is_up)
  then show "unat (ucast n :: 32 word) = unat n" by (metis nat_uint_eq)
  show "uint (ucast n :: 32 word) < 2 ^ 31" using n u by simp
qed

lemma calculator_of_byte:
  fixes n :: "8 word"
  assumes "c = FiatCurrency (d\<lparr>cd_Subunits := ucast n\<rparr>) \<or> c = CustomCurrency (d\<lparr>cd_Subunits := ucast n\<rparr>)"
  shows "currency_calculator (currency_ops_of std_decimal_lib known c) (unat n)"
  using calculator_of_currency [OF decimal_ok_std assms] byte_subunits [of n] by simp

interpretation fiat: currency_calculator
  "currency_ops_of std_decimal_lib known (FiatCurrency (d\<lparr>cd_Subunits := ucast (n :: 8 word)\<rparr>))" "unat n" for known d n
  by (rule calculator_of_byte) (rule disjI1, rule refl)

interpretation custom: currency_calculator
  "currency_ops_of std_decimal_lib known (CustomCurrency (d\<lparr>cd_Subunits := ucast (n :: 8 word)\<rparr>))" "unat n" for known d n
  by (rule calculator_of_byte) (rule disjI2, rule refl)

section \<open>Properties\<close>

lemma Build_small:
  assumes "Build known b = Inr c"
  shows "\<exists>d. (c = FiatCurrency d \<or> c = CustomCurrency d) \<and> uint (cd_Subunits d) < 2 ^ 31"
proof (cases "cb_t b")
  case CurrencyTypeFiat
  then obtain d where "NewFiatCurrency known (de_Code (cb_d b)) = Inr d" "c = FiatCurrency d"
    using assms by (auto simp: Build_def Let_def bind_result_Inr)
  then show ?thesis by (auto simp: NewFiatCurrency_def split: option.splits if_splits)
next
  case CurrencyTypeCustom
  then obtain d where d: "newCustomCurrency known d = Inr d" "c = CustomCurrency d"
    using assms by (auto simp: Build_def Let_def bind_result_Inr newCustomCurrency_def split: option.splits)
  then have "\<not> 12 < cd_Subunits d"
    by (auto simp: newCustomCurrency_def CC_Validate_def CustomCurrencyMaxPrecision_def split: option.splits)
  then have "uint (cd_Subunits d) \<le> uint (12 :: 32 word)" by (simp add: word_le_def not_less)
  then show ?thesis using d(2) by auto
qed (use assms in \<open>simp add: Build_def Let_def\<close>)

text \<open>
  Every currency the builder returns rounds soundly: rounding to its precision moves an amount by
  at most half a unit to an amount that counts as rounded, keeps rounded amounts, and never reverses
  the order of two amounts; a precision that the conversion to 32 bits would misread is refused.
\<close>

theorem Build_rounds:
  assumes "decimal_ok L" and "Build known b = Inr c"
  shows "\<bar>cur_RoundToPrecision (currency_ops_of L known c) x - x\<bar> \<le> cur_Unit (currency_ops_of L known c) / 2 \<and>
    cur_IsRoundedToPrecision (currency_ops_of L known c) (cur_RoundToPrecision (currency_ops_of L known c) x) \<and>
    (cur_IsRoundedToPrecision (currency_ops_of L known c) x \<longrightarrow> cur_RoundToPrecision (currency_ops_of L known c) x = x) \<and>
    (x \<le> y \<longrightarrow> cur_RoundToPrecision (currency_ops_of L known c) x \<le> cur_RoundToPrecision (currency_ops_of L known c) y)"
proof -
  obtain d where "c = FiatCurrency d \<or> c = CustomCurrency d" "uint (cd_Subunits d) < 2 ^ 31"
    using Build_small [OF assms(2)] by blast
  then have k: "currency_calculator (currency_ops_of L known c) (unat (cd_Subunits d))"
    using calculator_of_currency [OF assms(1)] by blast
  show ?thesis
    using currency_calculator.RoundToPrecision_near [OF k] currency_calculator.RoundToPrecision_fixed [OF k]
      currency_calculator.RoundToPrecision_mono [OF k] currency_calculator.RoundToPrecision_grid [OF k]
      currency_calculator.IsRounded [OF k] by blast
qed

theorem Build_rounds_witness:
  "\<exists>c. Build Map.empty (WithPrecision 4 (WithName ''Credits'' (WithCode ''CREDIT'' (NewCurrencyBuilder CurrencyTypeCustom)))) = Inr c \<and>
    \<bar>cur_RoundToPrecision (currency_ops_of std_decimal_lib Map.empty c) (1/3) - 1/3\<bar>
      \<le> cur_Unit (currency_ops_of std_decimal_lib Map.empty c) / 2"
proof -
  let ?b = "WithPrecision 4 (WithName ''Credits'' (WithCode ''CREDIT'' (NewCurrencyBuilder CurrencyTypeCustom)))"
  have "\<exists>c. Build Map.empty ?b = Inr c"
    by (simp add: Build_def Let_def NewCurrencyBuilder_def WithCode_def WithName_def WithPrecision_def
        newCustomCurrency_def CC_Validate_def validateCustomCurrencyCode_def TrimSpace_def is_space_def
        CustomCurrencyMaxPrecision_def CustomCurrencyCodeMinLength_def CustomCurrencyCodeMaxLength_def
        nillable_validation_def join_errors_def err_of_def err_if_def)
  then obtain c where c: "Build Map.empty ?b = Inr c" by blast
  then show ?thesis using Build_rounds [OF decimal_ok_std c, of "1/3"] by blast
qed

end
