(* ===== verification/Allocation.thy ===== *)
theory Allocation
  imports Currencyx "HOL-Library.Sublist"
begin

text \<open>
  Allocating a currency amount (pkg/currencyx/allocation.go): the largest remainder method by
  weights, and by amounts that are also caps. A key comparison is an optional argument, as in the
  code. A nil currency is \<open>None\<close>; the loop that hands out units may not end in general and is an
  option, shown to return for every calculator that keeps its contract.
\<close>

record 'k WeightedAllocationItem =
  wi_Key :: 'k
  wi_Weight :: decimal

record 'k WeightedAllocation =
  wa_Key :: 'k
  wa_Amount :: decimal

record 'k AmountAllocationItem =
  ai_Key :: 'k
  ai_Amount :: decimal

record 'k AmountAllocation =
  aa_Key :: 'k
  aa_Amount :: decimal

record 'k WeightedAllocationInput =
  win_Amount :: decimal
  win_Items :: "'k WeightedAllocationItem list"
  win_CompareKey :: "('k \<Rightarrow> 'k \<Rightarrow> int) option"

record 'k AmountAllocationInput =
  ain_Amount :: decimal
  ain_Items :: "'k AmountAllocationItem list"
  ain_CompareKey :: "('k \<Rightarrow> 'k \<Rightarrow> int) option"

text \<open>The candidate of both functions; \<open>cap\<close> is the item's amount, which only the second one has.\<close>

record 'k allocationCandidate =
  ac_index :: nat
  ac_key :: 'k
  ac_cap :: decimal
  ac_allocated :: decimal
  ac_remainder :: decimal

definition compare_candidates :: "('k \<Rightarrow> 'k \<Rightarrow> int) option \<Rightarrow> 'k allocationCandidate \<Rightarrow> 'k allocationCandidate \<Rightarrow> int" where
  "compare_candidates CompareKey left right =
     (let remainderCmp = compare_values (ac_remainder right) (ac_remainder left)
      in if remainderCmp \<noteq> 0 then remainderCmp
         else let keyCmp = (case CompareKey of None \<Rightarrow> 0 | Some f \<Rightarrow> f (ac_key left) (ac_key right))
         in if keyCmp \<noteq> 0 then keyCmp else compare_values (ac_index left) (ac_index right))"

definition compare_index :: "'k allocationCandidate \<Rightarrow> 'k allocationCandidate \<Rightarrow> int" where
  "compare_index left right = compare_values (ac_index left) (ac_index right)"

section \<open>By weight\<close>

definition validateWeightedAllocationInput :: "currency_ops option \<Rightarrow> 'k WeightedAllocationInput \<Rightarrow> error option" where
  "validateWeightedAllocationInput currency input =
     (case currency of None \<Rightarrow> Some (Err ''currency is required'')
      | Some C \<Rightarrow> join_errors
          (err_of (Wrap ''invalid currency'') (cur_Validate C) @
           err_if (\<not> cur_IsRoundedToPrecision C (win_Amount input)) (Err ''amount must be rounded to currency precision'') @
           err_if (dec_Sign (win_Amount input) < 0) (Err ''amount must be non-negative'') @
           err_if (win_Items input = [] \<and> win_Amount input \<noteq> 0) (Err ''items are required for a non-zero amount'') @
           concat (map (\<lambda>item. err_if (dec_Sign (wi_Weight item) \<le> 0) (Err ''weight must be positive'')) (win_Items input))))"

definition weighted_candidates :: "decimal_lib \<Rightarrow> currency_ops \<Rightarrow> 'k WeightedAllocationInput \<Rightarrow> 'k allocationCandidate list" where
  "weighted_candidates L C input =
     (let totalWeight = sum_list (map wi_Weight (win_Items input))
      in map (\<lambda>(i, item).
           let share = dl_Div L (win_Amount input * wi_Weight item) totalWeight;
               amount = cur_RoundDown C share
           in \<lparr>ac_index = i, ac_key = wi_Key item, ac_cap = 0, ac_allocated = amount, ac_remainder = share - amount\<rparr>)
         (enumerate 0 (win_Items input)))"

fun distribute :: "decimal \<Rightarrow> decimal \<Rightarrow> 'k allocationCandidate list \<Rightarrow> 'k allocationCandidate list" where
  "distribute unit remaining [] = []"
| "distribute unit remaining (c # cs) =
     (if remaining < unit then c # cs
      else c\<lparr>ac_allocated := ac_allocated c + unit\<rparr> # distribute unit (remaining - unit) cs)"

definition AllocateByWeight :: "decimal_lib \<Rightarrow> currency_ops option \<Rightarrow> 'k WeightedAllocationInput
    \<Rightarrow> 'k WeightedAllocation list result" where
  "AllocateByWeight L currency input =
     (case validateWeightedAllocationInput currency input of
        Some e \<Rightarrow> Inl e
      | None \<Rightarrow>
          if win_Amount input = 0 then Inr []
          else case currency of None \<Rightarrow> Inl (Err ''currency is required'')
          | Some C \<Rightarrow>
              let candidates = weighted_candidates L C input;
                  allocated = sum_list (map ac_allocated candidates);
                  sorted = sort_by (compare_candidates (win_CompareKey input)) candidates;
                  handed = distribute (cur_Unit C) (win_Amount input - allocated) sorted;
                  ordered = sort_by compare_index handed
              in Inr (map (\<lambda>c. \<lparr>wa_Key = ac_key c, wa_Amount = ac_allocated c\<rparr>)
                        (filter (\<lambda>c. ac_allocated c \<noteq> 0) ordered)))"

section \<open>By amount\<close>

definition validateAmountAllocationInput :: "currency_ops option \<Rightarrow> 'k AmountAllocationInput \<Rightarrow> error option" where
  "validateAmountAllocationInput currency input =
     (case currency of None \<Rightarrow> Some (Err ''currency is required'')
      | Some C \<Rightarrow> join_errors
          (err_if (dec_Sign (ain_Amount input) < 0) (Err ''amount must be non-negative'') @
           err_if (\<not> cur_IsRoundedToPrecision C (ain_Amount input)) (Err ''amount must be rounded to currency precision'') @
           err_if (ain_Items input = [] \<and> ain_Amount input \<noteq> 0) (Err ''items are required for a non-zero amount'') @
           concat (map (\<lambda>item. if dec_Sign (ai_Amount item) \<le> 0 then [Err ''amount must be positive'']
                      else err_if (\<not> cur_IsRoundedToPrecision C (ai_Amount item)) (Err ''amount must be rounded'')) (ain_Items input)) @
           err_if (ain_Amount input >
               sum_list (map ai_Amount (filter (\<lambda>item. \<not> dec_Sign (ai_Amount item) \<le> 0) (ain_Items input))))
             (Err ''amount must not exceed total item amount'')))"

definition amount_candidates :: "decimal_lib \<Rightarrow> currency_ops \<Rightarrow> 'k AmountAllocationInput \<Rightarrow> 'k allocationCandidate list" where
  "amount_candidates L C input =
     (let totalAmount = sum_list (map ai_Amount (ain_Items input))
      in map (\<lambda>(i, item).
           let share = dl_Div L (ain_Amount input * ai_Amount item) totalAmount;
               floor = cur_RoundDown C share
           in \<lparr>ac_index = i, ac_key = ai_Key item, ac_cap = ai_Amount item, ac_allocated = floor,
               ac_remainder = share - floor\<rparr>)
         (enumerate 0 (ain_Items input)))"

text \<open>One pass over the candidates: the candidates, what remains and whether anything was handed out.\<close>

fun capped_pass :: "decimal \<Rightarrow> decimal \<Rightarrow> 'k allocationCandidate list
    \<Rightarrow> 'k allocationCandidate list \<times> decimal \<times> bool" where
  "capped_pass unit remaining [] = ([], remaining, False)"
| "capped_pass unit remaining (c # cs) =
     (if remaining < unit then (c # cs, remaining, False)
      else let next_amount = ac_allocated c + unit
      in if next_amount > ac_cap c
         then let (cs', r, d) = capped_pass unit remaining cs in (c # cs', r, d)
         else let (cs', r, d) = capped_pass unit (remaining - unit) cs
              in (c\<lparr>ac_allocated := next_amount\<rparr> # cs', r, True))"

partial_function (option) distribute_capped ::
  "decimal \<Rightarrow> decimal \<Rightarrow> 'k allocationCandidate list \<Rightarrow> 'k allocationCandidate list result option" where
  "distribute_capped unit remaining cs =
     (if unit \<le> remaining
      then (case capped_pass unit remaining cs of (cs', remaining', distributed) \<Rightarrow>
              if \<not> distributed
              then Some (Inl (Err ''cannot distribute remaining allocation without exceeding item amounts''))
              else distribute_capped unit remaining' cs')
      else Some (Inr cs))"

definition AllocateByAmount :: "decimal_lib \<Rightarrow> currency_ops option \<Rightarrow> 'k AmountAllocationInput
    \<Rightarrow> 'k AmountAllocation list result option" where
  "AllocateByAmount L currency input =
     (case currency of None \<Rightarrow> Some (Inl (Err ''currency is required''))
      | Some C \<Rightarrow>
          (case validateAmountAllocationInput currency input of
             Some e \<Rightarrow> Some (Inl e)
           | None \<Rightarrow>
               if ain_Amount input = 0 then Some (Inr [])
               else
                 let candidates = amount_candidates L C input;
                     allocated = sum_list (map ac_allocated candidates);
                     sorted = sort_by (compare_candidates (ain_CompareKey input)) candidates
                 in map_option (\<lambda>res. bind_result res (\<lambda>handed.
                      Inr (map (\<lambda>c. \<lparr>aa_Key = ac_key c, aa_Amount = ac_allocated c\<rparr>)
                             (filter (\<lambda>c. ac_allocated c \<noteq> 0) (sort_by compare_index handed)))))
                    (distribute_capped (cur_Unit C) (ain_Amount input - allocated) sorted)))"

section \<open>Shares\<close>

context currency_calculator
begin

text \<open>
  A share: the quotient of the package is within \<open>e\<close> of an exact one that is not negative, \<open>e\<close>
  less than a unit. Rounding it down loses less than a unit and \<open>e\<close> and adds at most \<open>e\<close>.
\<close>

lemma share_bounds:
  assumes "\<bar>s - q\<bar> \<le> e" and "0 \<le> q" and "e < cur_Unit C"
  shows "0 \<le> cur_RoundDown C s" and "cur_RoundDown C s \<le> q + e" and "q - e - cur_Unit C < cur_RoundDown C s"
proof -
  have "0 \<le> cur_RoundDown C s \<and> cur_RoundDown C s \<le> q + e \<and> q - e - cur_Unit C < cur_RoundDown C s"
  proof (cases "0 \<le> s")
    case True
    then show ?thesis using RoundDown_nonneg [OF True] assms(1) by linarith
  next
    case False
    then have "cur_RoundDown C s = 0" using assms by (intro RoundDown_tiny) linarith+
    then show ?thesis using False assms by linarith
  qed
  then show "0 \<le> cur_RoundDown C s" and "cur_RoundDown C s \<le> q + e" and "q - e - cur_Unit C < cur_RoundDown C s"
    by blast+
qed

lemma sum_bounds:
  assumes "\<forall>x \<in> set xs. f x \<le> q x + e \<and> q x - e - u < (f x :: rat)"
  shows "sum_list (map f xs) \<le> sum_list (map q xs) + of_nat (length xs) * e"
    and "sum_list (map q xs) - of_nat (length xs) * (e + u) \<le> sum_list (map f xs)"
  using assms by (induction xs) (auto simp: algebra_simps intro: add_mono)

text \<open>The sum of the rounded shares of an amount on the grid misses it by at most a unit per share.\<close>

lemma shares_sum:
  assumes near: "\<forall>x \<in> set xs. \<bar>s x - q x\<bar> \<le> e \<and> 0 \<le> q x" and e: "0 \<le> e" "of_nat (length xs) * e < cur_Unit C"
    and sum: "sum_list (map q xs) = A" and A: "on_grid p A" and ne: "xs \<noteq> []"
  shows "sum_list (map (\<lambda>x. cur_RoundDown C (s x)) xs) \<le> A"
    and "A - sum_list (map (\<lambda>x. cur_RoundDown C (s x)) xs) \<le> of_nat (length xs) * cur_Unit C"
proof -
  let ?f = "\<lambda>x. cur_RoundDown C (s x)" and ?n = "of_nat (length xs) :: rat" and ?u = "cur_Unit C"
  have "1 \<le> ?n" using ne by (cases xs) simp_all
  then have "e \<le> ?n * e" using mult_right_mono [OF _ e(1)] by fastforce
  then have eu: "e < ?u" using e(2) by linarith
  have "\<forall>x \<in> set xs. ?f x \<le> q x + e \<and> q x - e - ?u < ?f x"
    using near share_bounds(2,3) eu by blast
  note b = sum_bounds [OF this]
  have g: "on_grid p (sum_list (map ?f xs))" by (rule on_grid_sum) simp
  show "sum_list (map ?f xs) \<le> A"
  proof (rule ccontr)
    assume n: "\<not> sum_list (map ?f xs) \<le> A"
    have "sum_list (map ?f xs) - A = 0"
      using n b(1) e(2) sum by (intro on_grid_lt_unit [OF on_grid_sub [OF g A]]) (simp_all add: Unit)
    then show False using n by simp
  qed
  show "A - sum_list (map ?f xs) \<le> ?n * ?u"
  proof (rule ccontr)
    assume n: "\<not> A - sum_list (map ?f xs) \<le> ?n * ?u"
    let ?d = "A - sum_list (map ?f xs) - ?n * ?u"
    have "on_grid p (?n * ?u)"
      unfolding Unit on_grid_def by (rule exI [of _ "int (length xs)"]) simp
    then have gd: "on_grid p ?d" using on_grid_sub [OF on_grid_sub [OF A g]] by blast
    have "?d \<le> ?n * e" using b(2) sum by (simp add: algebra_simps)
    then have "?d < 1 / 10 ^ p" using e(2) Unit by linarith
    then have "?d = 0" using n by (intro on_grid_lt_unit [OF gd]) auto
    then show False using n by simp
  qed
qed

end

section \<open>Handing out units\<close>

lemma distribute_sum:
  assumes "0 < unit"
  shows "k \<le> length cs \<Longrightarrow>
    sum_list (map ac_allocated (distribute unit (of_nat k * unit) cs)) = sum_list (map ac_allocated cs) + of_nat k * unit"
proof (induction cs arbitrary: k)
  case (Cons c cs)
  show ?case
  proof (cases k)
    case 0
    then show ?thesis using assms by simp
  next
    case (Suc j)
    have "of_nat k * unit - unit = of_nat j * unit" "unit \<le> of_nat k * unit"
      using Suc assms by (simp_all add: algebra_simps)
    then show ?thesis using Cons.IH [of j] Cons.prems Suc by (simp add: algebra_simps)
  qed
qed simp

lemma distribute_frame:
  "map ac_index (distribute u r cs) = map ac_index cs" "map ac_key (distribute u r cs) = map ac_key cs"
  "length (distribute u r cs) = length cs"
  by (induction cs arbitrary: r) simp_all

lemma distribute_each:
  "c' \<in> set (distribute u r cs) \<Longrightarrow>
    \<exists>c \<in> set cs. ac_index c' = ac_index c \<and> ac_key c' = ac_key c \<and>
      (ac_allocated c' = ac_allocated c \<or> ac_allocated c' = ac_allocated c + u)"
  by (induction cs arbitrary: r) (force split: if_splits)+

text \<open>Sorting by index restores the order of the items.\<close>

lemma sort_by_index:
  assumes "mset (map ac_index cs) = mset [0..<n]"
  shows "map ac_index (sort_by compare_index cs) = [0..<n]"
proof -
  have "sorted_wrt (\<lambda>a b. compare_values (ac_index a) (ac_index b) \<le> 0) (sort_by compare_index cs)"
    using key_comparator.sorted_sort_by [of ac_index cs] by (simp add: compare_index_def [abs_def])
  then have "sorted (map ac_index (sort_by compare_index cs))" by (simp add: sorted_map)
  moreover have "mset (map ac_index (sort_by compare_index cs)) = mset [0..<n]"
    using assms by (metis mset_map mset_sort_by)
  ultimately show ?thesis by (metis properties_for_sort sort_upt)
qed

lemma keys_in_order:
  assumes m: "mset (map ac_index cs) = mset [0..<length keys]"
    and k: "\<forall>c \<in> set cs. ac_key c = keys ! ac_index c"
  shows "map ac_key (sort_by compare_index cs) = keys"
proof -
  have "map ac_key (sort_by compare_index cs) = map (\<lambda>i. keys ! i) (map ac_index (sort_by compare_index cs))"
    using k by simp
  then show ?thesis unfolding sort_by_index [OF m] by (simp add: map_nth)
qed

lemma sum_list_filter_nonzero: "sum_list (map f (filter (\<lambda>c. f c \<noteq> 0) cs)) = sum_list (map f cs)"
  for f :: "'a \<Rightarrow> rat"
  by (induction cs) auto

lemma enumerate_map_snd: "map (\<lambda>z. f (snd z)) (enumerate n xs) = map f xs"
  by (induction xs arbitrary: n) simp_all

lemma sum_list_pos: "xs \<noteq> [] \<Longrightarrow> \<forall>x \<in> set xs. 0 < (f x :: rat) \<Longrightarrow> 0 < sum_list (map f xs)"
  by (induction xs rule: list_nonempty_induct) (auto intro: add_pos_pos)

lemma weighted_candidates_facts:
  shows "map ac_index (weighted_candidates L C input) = [0..<length (win_Items input)]"
    and "map ac_key (weighted_candidates L C input) = map wi_Key (win_Items input)"
    and "map ac_allocated (weighted_candidates L C input) = map (\<lambda>item. cur_RoundDown C
          (dl_Div L (win_Amount input * wi_Weight item) (sum_list (map wi_Weight (win_Items input))))) (win_Items input)"
    and "length (weighted_candidates L C input) = length (win_Items input)"
proof -
  have "map ac_index (weighted_candidates L C input) = map fst (enumerate 0 (win_Items input))"
    by (simp add: weighted_candidates_def Let_def case_prod_beta o_def)
  then show "map ac_index (weighted_candidates L C input) = [0..<length (win_Items input)]"
    by (simp only: map_fst_enumerate) simp
  show "map ac_key (weighted_candidates L C input) = map wi_Key (win_Items input)"
    using enumerate_map_snd [of wi_Key 0 "win_Items input"]
    by (simp add: weighted_candidates_def Let_def case_prod_beta o_def)
  show "map ac_allocated (weighted_candidates L C input) = map (\<lambda>item. cur_RoundDown C
          (dl_Div L (win_Amount input * wi_Weight item) (sum_list (map wi_Weight (win_Items input))))) (win_Items input)"
    using enumerate_map_snd [of "\<lambda>item. cur_RoundDown C
          (dl_Div L (win_Amount input * wi_Weight item) (sum_list (map wi_Weight (win_Items input))))" 0 "win_Items input"]
    by (simp add: weighted_candidates_def Let_def case_prod_beta o_def)
  show "length (weighted_candidates L C input) = length (win_Items input)"
    by (simp add: weighted_candidates_def Let_def)
qed

text \<open>A valid weighted input: an amount on the grid, positive weights, and items if there is an amount.\<close>

context currency_calculator
begin

lemma valid_weighted:
  "validateWeightedAllocationInput (Some C) input = None \<longleftrightarrow> cur_Validate C = None \<and>
     on_grid p (win_Amount input) \<and> 0 \<le> win_Amount input \<and> (win_Items input = [] \<longrightarrow> win_Amount input = 0) \<and>
     (\<forall>item \<in> set (win_Items input). 0 < wi_Weight item)"
  by (auto simp: validateWeightedAllocationInput_def IsRounded not_le)

lemma weighted_shares:
  assumes L: "decimal_ok L" and v: "validateWeightedAllocationInput (Some C) input = None"
    and n: "of_nat (length (win_Items input)) * (1 / 10 ^ div_places) < cur_Unit C" and a: "win_Amount input \<noteq> 0"
  shows "\<exists>k \<le> length (win_Items input). win_Amount input - sum_list (map ac_allocated (weighted_candidates L C input)) =
      of_nat k * cur_Unit C"
    and "\<forall>c \<in> set (weighted_candidates L C input). 0 \<le> ac_allocated c \<and> on_grid p (ac_allocated c)"
proof -
  let ?is = "win_Items input" and ?A = "win_Amount input" and ?e = "1 / 10 ^ div_places :: rat"
  let ?W = "sum_list (map wi_Weight ?is)"
  let ?s = "\<lambda>item. dl_Div L (?A * wi_Weight item) ?W" and ?q = "\<lambda>item. ?A * wi_Weight item / ?W"
  have v': "on_grid p ?A" "0 \<le> ?A" "?is \<noteq> []" "\<forall>item \<in> set ?is. 0 < wi_Weight item"
    using v a by (auto simp: valid_weighted)
  have W: "0 < ?W" using v'(3,4) by (rule sum_list_pos)
  have near: "\<forall>x \<in> set ?is. \<bar>?s x - ?q x\<bar> \<le> ?e \<and> 0 \<le> ?q x"
    using div_error [OF L, of ?W] W v'(2,4) by (auto intro!: divide_nonneg_pos mult_nonneg_nonneg intro: less_imp_le)
  have sum: "sum_list (map ?q ?is) = ?A"
  proof -
    have "sum_list (map (\<lambda>item. ?A * wi_Weight item / w) xs) = ?A * sum_list (map wi_Weight xs) / w" for xs w
      by (induction xs) (simp_all add: add_divide_distrib distrib_left)
    from this [of ?W ?is] show ?thesis using W by simp
  qed
  note b = shares_sum [OF near _ n sum v'(1,3)]
  let ?d = "?A - sum_list (map (\<lambda>x. cur_RoundDown C (?s x)) ?is)"
  have "on_grid p ?d" by (intro on_grid_sub v'(1) on_grid_sum) simp
  then obtain k where k: "?d = of_int k / 10 ^ p" by (auto simp: on_grid_def)
  have "0 \<le> ?d" "?d \<le> of_nat (length ?is) * cur_Unit C" using b by simp_all
  then have "0 \<le> k" "of_int k \<le> (of_nat (length ?is) :: rat)"
    unfolding k Unit using not_le [of "10 ^ p" "0 :: rat"] by (simp_all add: zero_le_divide_iff divide_le_cancel)
  moreover have "of_int k \<le> (of_int (int (length ?is)) :: rat) \<longleftrightarrow> k \<le> int (length ?is)" by (rule of_int_le_iff)
  ultimately have "?d = of_nat (nat k) * cur_Unit C" "nat k \<le> length ?is" using k Unit by simp_all
  then show "\<exists>k \<le> length ?is. ?A - sum_list (map ac_allocated (weighted_candidates L C input)) = of_nat k * cur_Unit C"
    unfolding weighted_candidates_facts(3) by blast
  have "1 \<le> (of_nat (length ?is) :: rat)" using v'(3) by (cases ?is) simp_all
  then have "?e \<le> of_nat (length ?is) * ?e" by (simp add: divide_right_mono)
  then have "?e < cur_Unit C" using n by linarith
  then have "\<forall>x \<in> set ?is. 0 \<le> cur_RoundDown C (?s x)" using near share_bounds(1) by blast
  then have "\<forall>y \<in> set (map ac_allocated (weighted_candidates L C input)). 0 \<le> y \<and> on_grid p y"
    unfolding weighted_candidates_facts(3) by auto
  then show "\<forall>c \<in> set (weighted_candidates L C input). 0 \<le> ac_allocated c \<and> on_grid p (ac_allocated c)" by simp
qed

end

lemma subseq_kept: "subseq (map g (filter P cs)) (map g cs)"
  by (rule subseq_map) simp

context currency_calculator
begin

lemma weighted_result:
  assumes L: "decimal_ok L" and v: "validateWeightedAllocationInput (Some C) input = None"
    and n: "of_nat (length (win_Items input)) * (1 / 10 ^ div_places) < cur_Unit C"
  shows "\<exists>allocs. AllocateByWeight L (Some C) input = Inr allocs \<and>
    sum_list (map wa_Amount allocs) = win_Amount input \<and>
    (\<forall>a \<in> set allocs. 0 < wa_Amount a \<and> on_grid p (wa_Amount a)) \<and>
    subseq (map wa_Key allocs) (map wi_Key (win_Items input))"
proof (cases "win_Amount input = 0")
  case True
  then show ?thesis using v by (simp add: AllocateByWeight_def)
next
  case False
  let ?c = "weighted_candidates L C input"
  let ?s = "sort_by (compare_candidates (win_CompareKey input)) ?c"
  obtain k where k: "k \<le> length (win_Items input)"
    and rem: "win_Amount input - sum_list (map ac_allocated ?c) = of_nat k * cur_Unit C"
    using weighted_shares(1) [OF L v n False] by blast
  let ?h = "distribute (cur_Unit C) (of_nat k * cur_Unit C) ?s"
  let ?o = "sort_by compare_index ?h"
  let ?allocs = "map (\<lambda>c. \<lparr>wa_Key = ac_key c, wa_Amount = ac_allocated c\<rparr>) (filter (\<lambda>c. ac_allocated c \<noteq> 0) ?o)"
  have r: "AllocateByWeight L (Some C) input = Inr ?allocs"
    using v False rem by (simp add: AllocateByWeight_def Let_def)
  have "sum_list (map ac_allocated ?s) = sum_list (map ac_allocated ?c)"
    by (rule sum_list_mset_cong) (metis mset_map mset_sort_by)
  moreover have "sum_list (map ac_allocated ?o) = sum_list (map ac_allocated ?h)"
    by (rule sum_list_mset_cong) (metis mset_map mset_sort_by)
  ultimately have sum: "sum_list (map ac_allocated ?o) = win_Amount input"
    using distribute_sum [OF Unit_pos, of k ?s] k rem weighted_candidates_facts(4) [of L C input] by simp
  have each: "0 \<le> ac_allocated c \<and> on_grid p (ac_allocated c)" if "c \<in> set ?h" for c
    using distribute_each [OF that] weighted_shares(2) [OF L v n False]
    by (auto simp: Unit intro!: on_grid_add add_nonneg_nonneg)
  have "mset (map ac_index ?h) = mset [0..<length (map wi_Key (win_Items input))]"
    by (simp only: distribute_frame) (metis length_map mset_map mset_sort_by weighted_candidates_facts(1))
  moreover have "\<forall>c \<in> set ?h. ac_key c = map wi_Key (win_Items input) ! ac_index c"
  proof
    fix c assume "c \<in> set ?h"
    then obtain d where d: "d \<in> set ?c" "ac_index c = ac_index d" "ac_key c = ac_key d"
      using distribute_each by fastforce
    then obtain i where i: "i < length ?c" "d = ?c ! i" by (auto simp: in_set_conv_nth)
    have "ac_index d = i" "ac_key d = map wi_Key (win_Items input) ! i"
      using i weighted_candidates_facts [of L C input] by (metis (no_types) add_0 nth_map nth_upt)+
    then show "ac_key c = map wi_Key (win_Items input) ! ac_index c" using d by simp
  qed
  ultimately have "map ac_key ?o = map wi_Key (win_Items input)" by (rule keys_in_order)
  then have sub: "subseq (map wa_Key ?allocs) (map wi_Key (win_Items input))"
    using subseq_kept [of ac_key "\<lambda>c. ac_allocated c \<noteq> 0" ?o] by (simp add: o_def)
  have "\<forall>a \<in> set ?allocs. 0 < wa_Amount a \<and> on_grid p (wa_Amount a)"
    using each by (auto simp: order_less_le)
  moreover have "sum_list (map wa_Amount ?allocs) = win_Amount input"
    using sum sum_list_filter_nonzero [of ac_allocated ?o] by (simp add: o_def)
  ultimately show ?thesis using r sub by blast
qed

end

section \<open>Handing out units under caps\<close>

definition under_caps :: "nat \<Rightarrow> 'k allocationCandidate list \<Rightarrow> bool" where
  "under_caps p cs \<longleftrightarrow> (\<forall>c \<in> set cs. 0 \<le> ac_allocated c \<and> ac_allocated c \<le> ac_cap c \<and>
     on_grid p (ac_allocated c) \<and> on_grid p (ac_cap c))"

lemma under_caps_simps [simp]:
  "under_caps p []"
  "under_caps p (c # cs) \<longleftrightarrow> 0 \<le> ac_allocated c \<and> ac_allocated c \<le> ac_cap c \<and>
     on_grid p (ac_allocated c) \<and> on_grid p (ac_cap c) \<and> under_caps p cs"
  by (auto simp: under_caps_def)

lemma capped_pass_frame:
  "capped_pass u r cs = (cs', r', d) \<Longrightarrow> map ac_index cs' = map ac_index cs \<and> map ac_key cs' = map ac_key cs \<and>
    map ac_cap cs' = map ac_cap cs \<and> sum_list (map ac_allocated cs') + r' = sum_list (map ac_allocated cs) + r"
proof (induction cs arbitrary: r cs' r' d)
  case (Cons c cs)
  obtain cs1 r1 d1 where k: "capped_pass u r cs = (cs1, r1, d1)" by (rule prod_cases3)
  obtain cs2 r2 d2 where h: "capped_pass u (r - u) cs = (cs2, r2, d2)" by (rule prod_cases3)
  show ?case using Cons.prems Cons.IH [OF k] Cons.IH [OF h] k h by (auto simp: Let_def split: if_splits)
qed simp

lemma capped_pass_keeps:
  "capped_pass (1 / 10 ^ p) r cs = (cs', r', d) \<Longrightarrow> under_caps p cs \<Longrightarrow> under_caps p cs'"
  by (induction cs arbitrary: r cs' r' d)
    (auto simp: Let_def not_less intro: on_grid_add add_nonneg_nonneg split: if_splits prod.splits)

text \<open>How much a pass hands out: a whole number of units, at least one if it hands out at all.\<close>

lemma capped_pass_steps:
  "capped_pass u r cs = (cs', r', d) \<Longrightarrow> 0 < u \<Longrightarrow>
    \<exists>j. r' = r - of_nat j * u \<and> (d \<longleftrightarrow> 0 < j) \<and> (0 \<le> r \<longrightarrow> 0 \<le> r')"
proof (induction cs arbitrary: r cs' r' d)
  case Nil
  then show ?case by (intro exI [of _ 0]) auto
next
  case (Cons c cs)
  show ?case
  proof (cases "r < u")
    case True
    then show ?thesis using Cons.prems by (intro exI [of _ 0]) auto
  next
    case False
    obtain cs1 r1 d1 where k: "capped_pass u r cs = (cs1, r1, d1)" by (rule prod_cases3)
    obtain cs2 r2 d2 where h: "capped_pass u (r - u) cs = (cs2, r2, d2)" by (rule prod_cases3)
    show ?thesis
    proof (cases "ac_allocated c + u > ac_cap c")
      case True
      then show ?thesis using Cons.IH [OF k Cons.prems(2)] Cons.prems False k by (auto simp: Let_def)
    next
      case fits: False
      obtain j where j: "r2 = r - u - of_nat j * u" "0 \<le> r - u \<longrightarrow> 0 \<le> r2"
        using Cons.IH [OF h Cons.prems(2)] by blast
      have "r' = r2" "d" using Cons.prems(1) False fits h by (auto simp: Let_def)
      then show ?thesis using j False by (intro exI [of _ "Suc j"]) (auto simp: algebra_simps)
    qed
  qed
qed

text \<open>A pass that hands out nothing although a unit remains found every candidate at its cap.\<close>

lemma capped_pass_full:
  "capped_pass (1 / 10 ^ p) r cs = (cs', r', False) \<Longrightarrow> 1 / 10 ^ p \<le> r \<Longrightarrow> under_caps p cs \<Longrightarrow>
    \<forall>c \<in> set cs. ac_allocated c = ac_cap c"
proof (induction cs arbitrary: cs' r')
  case (Cons c cs)
  obtain cs1 r1 d1 where k: "capped_pass (1 / 10 ^ p) r cs = (cs1, r1, d1)" by (rule prod_cases3)
  have full: "ac_allocated c + 1 / 10 ^ p > ac_cap c" and d: "d1 = False"
    using Cons.prems(1,2) k by (auto simp: Let_def split: if_splits prod.splits)
  have "ac_cap c - ac_allocated c = 0"
    using full Cons.prems(3) by (intro on_grid_lt_unit [of p] on_grid_sub) auto
  then show ?case using Cons.IH [OF k [unfolded d] Cons.prems(2)] Cons.prems(3) by simp
qed simp

lemma distribute_capped_returns:
  assumes "under_caps p cs" and "sum_list (map ac_allocated cs) + of_nat k * (1 / 10 ^ p) \<le> sum_list (map ac_cap cs)"
  shows "\<exists>cs'. distribute_capped (1 / 10 ^ p) (of_nat k * (1 / 10 ^ p)) cs = Some (Inr cs') \<and> under_caps p cs' \<and>
    map ac_index cs' = map ac_index cs \<and> map ac_key cs' = map ac_key cs \<and> map ac_cap cs' = map ac_cap cs \<and>
    sum_list (map ac_allocated cs') = sum_list (map ac_allocated cs) + of_nat k * (1 / 10 ^ p)"
  using assms
proof (induction k arbitrary: cs rule: less_induct)
  case (less k)
  let ?u = "1 / 10 ^ p :: rat"
  show ?case
  proof (cases "k = 0")
    case True
    have "\<not> 10 ^ p \<le> (0 :: rat)" by (simp add: not_le)
    then show ?thesis using True less.prems by (simp add: distribute_capped.simps)
  next
    case False
    then have ge: "?u \<le> of_nat k * ?u" by (simp add: divide_right_mono)
    obtain cs1 r d where c: "capped_pass ?u (of_nat k * ?u) cs = (cs1, r, d)" by (rule prod_cases3)
    obtain j where j: "r = of_nat k * ?u - of_nat j * ?u" "d \<longleftrightarrow> 0 < j" "0 \<le> r"
      using capped_pass_steps [OF c] by auto
    have d: "d"
    proof (rule ccontr)
      assume "\<not> d"
      then have "\<forall>c \<in> set cs. ac_allocated c = ac_cap c"
        using capped_pass_full [OF _ ge less.prems(1)] c by simp
      then have "map ac_allocated cs = map ac_cap cs" by simp
      then have "sum_list (map ac_allocated cs) = sum_list (map ac_cap cs)" by (rule arg_cong)
      moreover have "0 < of_nat k * ?u" using False by simp
      ultimately show False using less.prems(2) by linarith
    qed
    have "of_nat j \<le> (of_nat k :: rat)"
      using j(1,3) by (simp add: divide_le_cancel)
    then have jk: "j \<le> k" by simp
    then have r: "r = of_nat (k - j) * ?u" using j(1) by (simp add: of_nat_diff algebra_simps diff_divide_distrib)
    have lt: "k - j < k" using j(2) d jk by simp
    note f = capped_pass_frame [OF c]
    have sum: "sum_list (map ac_allocated cs1) + of_nat (k - j) * ?u = sum_list (map ac_allocated cs) + of_nat k * ?u"
      using f r by simp
    from less.IH [OF lt capped_pass_keeps [OF c less.prems(1)]] sum less.prems(2) f
    obtain cs' where cs': "distribute_capped ?u (of_nat (k - j) * ?u) cs1 = Some (Inr cs')" "under_caps p cs'"
      "map ac_index cs' = map ac_index cs" "map ac_key cs' = map ac_key cs" "map ac_cap cs' = map ac_cap cs"
      "sum_list (map ac_allocated cs') = sum_list (map ac_allocated cs) + of_nat k * ?u"
      by auto
    have "distribute_capped ?u (of_nat k * ?u) cs = distribute_capped ?u r cs1"
      by (subst distribute_capped.simps) (use ge c d in simp)
    then show ?thesis using cs' r by auto
  qed
qed

lemma amount_candidates_facts:
  shows "map ac_index (amount_candidates L C input) = [0..<length (ain_Items input)]"
    and "map ac_key (amount_candidates L C input) = map ai_Key (ain_Items input)"
    and "map ac_cap (amount_candidates L C input) = map ai_Amount (ain_Items input)"
    and "map ac_allocated (amount_candidates L C input) = map (\<lambda>item. cur_RoundDown C
          (dl_Div L (ain_Amount input * ai_Amount item) (sum_list (map ai_Amount (ain_Items input))))) (ain_Items input)"
proof -
  have "map ac_index (amount_candidates L C input) = map fst (enumerate 0 (ain_Items input))"
    by (simp add: amount_candidates_def Let_def case_prod_beta o_def)
  then show "map ac_index (amount_candidates L C input) = [0..<length (ain_Items input)]"
    by (simp only: map_fst_enumerate) simp
  show "map ac_key (amount_candidates L C input) = map ai_Key (ain_Items input)"
    using enumerate_map_snd [of ai_Key 0 "ain_Items input"]
    by (simp add: amount_candidates_def Let_def case_prod_beta o_def)
  show "map ac_cap (amount_candidates L C input) = map ai_Amount (ain_Items input)"
    using enumerate_map_snd [of ai_Amount 0 "ain_Items input"]
    by (simp add: amount_candidates_def Let_def case_prod_beta o_def)
  show "map ac_allocated (amount_candidates L C input) = map (\<lambda>item. cur_RoundDown C
          (dl_Div L (ain_Amount input * ai_Amount item) (sum_list (map ai_Amount (ain_Items input))))) (ain_Items input)"
    using enumerate_map_snd [of "\<lambda>item. cur_RoundDown C
          (dl_Div L (ain_Amount input * ai_Amount item) (sum_list (map ai_Amount (ain_Items input))))" 0 "ain_Items input"]
    by (simp add: amount_candidates_def Let_def case_prod_beta o_def)
qed

context currency_calculator
begin

lemma item_errors:
  "(if dec_Sign a \<le> 0 then [x] else err_if (\<not> cur_IsRoundedToPrecision C a) y) = [] \<longleftrightarrow> 0 < a \<and> on_grid p a"
  by (simp add: IsRounded not_le)

lemma valid_amounts:
  "validateAmountAllocationInput (Some C) input = None \<longleftrightarrow> on_grid p (ain_Amount input) \<and> 0 \<le> ain_Amount input \<and>
     (ain_Items input = [] \<longrightarrow> ain_Amount input = 0) \<and>
     (\<forall>item \<in> set (ain_Items input). 0 < ai_Amount item \<and> on_grid p (ai_Amount item)) \<and>
     ain_Amount input \<le> sum_list (map ai_Amount (ain_Items input))"
proof -
  let ?positive = "filter (\<lambda>item. \<not> dec_Sign (ai_Amount item) \<le> 0) (ain_Items input)"
  have "validateAmountAllocationInput (Some C) input = None \<longleftrightarrow> 0 \<le> ain_Amount input \<and> on_grid p (ain_Amount input) \<and>
     (ain_Items input = [] \<longrightarrow> ain_Amount input = 0) \<and>
     (\<forall>item \<in> set (ain_Items input). 0 < ai_Amount item \<and> on_grid p (ai_Amount item)) \<and>
     ain_Amount input \<le> sum_list (map ai_Amount ?positive)"
    unfolding validateAmountAllocationInput_def option.case join_errors_None append_is_Nil_conv err_if_Nil
      concat_eq_Nil_conv set_map ball_simps(9) item_errors IsRounded
    by (simp add: not_less not_le cong: conj_cong)
  moreover have "?positive = ain_Items input" if "\<forall>item \<in> set (ain_Items input). 0 < ai_Amount item"
    using that by (simp add: not_le)
  ultimately show ?thesis by metis
qed

lemma on_grid_mono: "on_grid p x \<Longrightarrow> on_grid p y \<Longrightarrow> x < y + 1 / 10 ^ p \<Longrightarrow> x \<le> y"
  using on_grid_lt_unit [OF on_grid_sub [of p x y]] by fastforce

lemma amount_shares:
  assumes L: "decimal_ok L" and v: "validateAmountAllocationInput (Some C) input = None"
    and n: "of_nat (length (ain_Items input)) * (1 / 10 ^ div_places) < cur_Unit C" and a: "ain_Amount input \<noteq> 0"
  shows "\<exists>k. ain_Amount input - sum_list (map ac_allocated (amount_candidates L C input)) = of_nat k * cur_Unit C"
    and "under_caps p (amount_candidates L C input)"
proof -
  let ?is = "ain_Items input" and ?A = "ain_Amount input" and ?e = "1 / 10 ^ div_places :: rat"
  let ?W = "sum_list (map ai_Amount ?is)"
  let ?s = "\<lambda>item. dl_Div L (?A * ai_Amount item) ?W" and ?q = "\<lambda>item. ?A * ai_Amount item / ?W"
  have v': "on_grid p ?A" "0 \<le> ?A" "?is \<noteq> []" "\<forall>item \<in> set ?is. 0 < ai_Amount item \<and> on_grid p (ai_Amount item)" "?A \<le> ?W"
    using v a by (auto simp: valid_amounts)
  have W: "0 < ?W" using v'(3,4) by (intro sum_list_pos) auto
  have near: "\<forall>x \<in> set ?is. \<bar>?s x - ?q x\<bar> \<le> ?e \<and> 0 \<le> ?q x"
    using div_error [OF L, of ?W] W v'(2,4) by (auto intro!: divide_nonneg_pos mult_nonneg_nonneg intro: less_imp_le)
  have sum: "sum_list (map ?q ?is) = ?A"
  proof -
    have "sum_list (map (\<lambda>item. ?A * ai_Amount item / w) xs) = ?A * sum_list (map ai_Amount xs) / w" for xs w
      by (induction xs) (simp_all add: add_divide_distrib distrib_left)
    from this [of ?W ?is] show ?thesis using W by simp
  qed
  note b = shares_sum(1) [OF near _ n sum v'(1,3)]
  let ?d = "?A - sum_list (map (\<lambda>x. cur_RoundDown C (?s x)) ?is)"
  have "on_grid p ?d" by (intro on_grid_sub v'(1) on_grid_sum) simp
  then obtain k where k: "?d = of_int k / 10 ^ p" by (auto simp: on_grid_def)
  have "0 \<le> ?d" using b by simp
  then have "0 \<le> k" unfolding k using not_le [of "10 ^ p" "0 :: rat"] by (simp add: zero_le_divide_iff)
  then have "?d = of_nat (nat k) * cur_Unit C" using k Unit by simp
  then show "\<exists>k. ?A - sum_list (map ac_allocated (amount_candidates L C input)) = of_nat k * cur_Unit C"
    unfolding amount_candidates_facts(4) by blast
  have "1 \<le> (of_nat (length ?is) :: rat)" using v'(3) by (cases ?is) simp_all
  then have "?e \<le> of_nat (length ?is) * ?e" by (simp add: divide_right_mono)
  then have e: "?e < cur_Unit C" using n by linarith
  have each: "0 \<le> cur_RoundDown C (?s x) \<and> cur_RoundDown C (?s x) \<le> ai_Amount x" if x: "x \<in> set ?is" for x
  proof
    show "0 \<le> cur_RoundDown C (?s x)" using near share_bounds(1) e x by blast
    have "?A * ai_Amount x \<le> ?W * ai_Amount x" using v'(4,5) x by (intro mult_right_mono) auto
    then have "?q x \<le> ai_Amount x" using W by (simp add: pos_divide_le_eq mult.commute)
    then have "cur_RoundDown C (?s x) < ai_Amount x + 1 / 10 ^ p"
      using share_bounds(2) [of "?s x" "?q x" ?e] near e x Unit by fastforce
    then show "cur_RoundDown C (?s x) \<le> ai_Amount x" using v'(4) x by (intro on_grid_mono) auto
  qed
  show "under_caps p (amount_candidates L C input)"
    using each v'(4)
    by (auto simp: under_caps_def amount_candidates_def Let_def dest!: in_set_enumerate_eq [THEN iffD1] nth_mem)
qed

end

context currency_calculator
begin

lemma amount_result:
  assumes L: "decimal_ok L" and v: "validateAmountAllocationInput (Some C) input = None"
    and n: "of_nat (length (ain_Items input)) * (1 / 10 ^ div_places) < cur_Unit C"
  shows "\<exists>allocs. AllocateByAmount L (Some C) input = Some (Inr allocs) \<and>
    sum_list (map aa_Amount allocs) = ain_Amount input \<and>
    subseq (map aa_Key allocs) (map ai_Key (ain_Items input)) \<and>
    (\<forall>a \<in> set allocs. \<exists>item \<in> set (ain_Items input). aa_Key a = ai_Key item \<and>
       0 < aa_Amount a \<and> aa_Amount a \<le> ai_Amount item)"
proof (cases "ain_Amount input = 0")
  case True
  then show ?thesis using v by (simp add: AllocateByAmount_def)
next
  case False
  let ?is = "ain_Items input"
  let ?c = "amount_candidates L C input"
  let ?s = "sort_by (compare_candidates (ain_CompareKey input)) ?c"
  obtain k where rem: "ain_Amount input - sum_list (map ac_allocated ?c) = of_nat k * (1 / 10 ^ p)"
    using amount_shares(1) [OF L v n False] Unit by metis
  have sums: "sum_list (map ac_allocated ?s) = sum_list (map ac_allocated ?c)"
      "sum_list (map ac_cap ?s) = sum_list (map ac_cap ?c)"
    by (rule sum_list_mset_cong, metis mset_map mset_sort_by)+
  have "under_caps p ?s" using amount_shares(2) [OF L v n False] by (simp add: under_caps_def)
  moreover have "sum_list (map ac_allocated ?s) + of_nat k * (1 / 10 ^ p) \<le> sum_list (map ac_cap ?s)"
    using rem sums v by (simp add: amount_candidates_facts(3) valid_amounts)
  ultimately obtain h where d: "distribute_capped (1 / 10 ^ p) (of_nat k * (1 / 10 ^ p)) ?s = Some (Inr h)"
    and h: "under_caps p h" "map ac_index h = map ac_index ?s" "map ac_key h = map ac_key ?s"
      "map ac_cap h = map ac_cap ?s"
      "sum_list (map ac_allocated h) = sum_list (map ac_allocated ?s) + of_nat k * (1 / 10 ^ p)"
    using distribute_capped_returns by blast
  let ?o = "sort_by compare_index h"
  let ?allocs = "map (\<lambda>c. \<lparr>aa_Key = ac_key c, aa_Amount = ac_allocated c\<rparr>) (filter (\<lambda>c. ac_allocated c \<noteq> 0) ?o)"
  have r: "AllocateByAmount L (Some C) input = Some (Inr ?allocs)"
    using v False rem d by (simp add: AllocateByAmount_def Let_def Unit)
  have "sum_list (map ac_allocated ?o) = sum_list (map ac_allocated h)"
    by (rule sum_list_mset_cong) (metis mset_map mset_sort_by)
  then have "sum_list (map aa_Amount ?allocs) = ain_Amount input"
    using sum_list_filter_nonzero [of ac_allocated ?o] h(5) sums(1) rem by (simp add: o_def)
  moreover have facts: "\<exists>i < length ?is. ac_index c = i \<and> ac_key c = ai_Key (?is ! i) \<and> ac_cap c = ai_Amount (?is ! i)"
    if c: "c \<in> set h" for c
  proof -
    obtain j where j: "j < length h" "c = h ! j" using c by (metis in_set_conv_nth)
    have l: "length h = length ?s" using h(2) map_eq_imp_length_eq by blast
    have "?s ! j \<in> set ?c" using j l by (metis nth_mem set_sort_by)
    then obtain i where i: "i < length ?c" "?s ! j = ?c ! i" by (metis in_set_conv_nth)
    have li: "i < length ?is" using i(1) amount_candidates_facts(2) [of L C input] by (metis length_map)
    have "ac_index c = ac_index (?c ! i)" "ac_key c = ac_key (?c ! i)" "ac_cap c = ac_cap (?c ! i)"
      using h(2-4) j l i by (metis nth_map)+
    moreover have "ac_index (?c ! i) = i" "ac_key (?c ! i) = ai_Key (?is ! i)" "ac_cap (?c ! i) = ai_Amount (?is ! i)"
      using i(1) li amount_candidates_facts(1-3) [of L C input] by (metis (no_types) add_0 nth_map nth_upt)+
    ultimately show ?thesis using li by simp
  qed
  have "mset (map ac_index h) = mset [0..<length (map ai_Key ?is)]"
    unfolding h(2) by (metis amount_candidates_facts(1) length_map mset_map mset_sort_by)
  then have "map ac_key ?o = map ai_Key ?is"
    by (rule keys_in_order) (use facts in fastforce)
  then have "subseq (map aa_Key ?allocs) (map ai_Key ?is)"
    using subseq_kept [of ac_key "\<lambda>c. ac_allocated c \<noteq> 0" ?o] by (simp add: o_def)
  moreover have "\<exists>item \<in> set ?is. aa_Key a = ai_Key item \<and> 0 < aa_Amount a \<and> aa_Amount a \<le> ai_Amount item"
    if a: "a \<in> set ?allocs" for a
  proof -
    obtain c where c: "c \<in> set h" "a = \<lparr>aa_Key = ac_key c, aa_Amount = ac_allocated c\<rparr>" "ac_allocated c \<noteq> 0"
      using a by auto
    have "0 < ac_allocated c" "ac_allocated c \<le> ac_cap c" using h(1) c(1,3) by (auto simp: under_caps_def order_less_le)
    then show ?thesis using facts [OF c(1)] c(2) by (auto intro!: bexI [of _ "?is ! ac_index c"])
  qed
  ultimately show ?thesis using r by blast
qed

end

section \<open>A concrete currency\<close>

definition us_dollar :: currency_def where
  "us_dollar = \<lparr>cd_ISOCode = ''USD'', cd_ISONumeric = ''840'', cd_Name = ''US Dollar'', cd_Symbol = ''$'',
     cd_Subunits = 2, cd_DecimalMark = ''.'', cd_ThousandsSeparator = '',''\<rparr>"

definition sample_weights :: "string WeightedAllocationInput" where
  "sample_weights = \<lparr>win_Amount = 1, win_Items = [\<lparr>wi_Key = ''a'', wi_Weight = 1\<rparr>, \<lparr>wi_Key = ''b'', wi_Weight = 1\<rparr>,
     \<lparr>wi_Key = ''c'', wi_Weight = 1\<rparr>], win_CompareKey = None\<rparr>"

definition sample_amounts :: "string AmountAllocationInput" where
  "sample_amounts = \<lparr>ain_Amount = 1, ain_Items = [\<lparr>ai_Key = ''a'', ai_Amount = 1\<rparr>, \<lparr>ai_Key = ''b'', ai_Amount = 2\<rparr>],
     ain_CompareKey = None\<rparr>"

lemma us_dollar_small [simp]: "uint (cd_Subunits us_dollar) = 2" "unat (cd_Subunits us_dollar) = 2"
  by (simp_all add: us_dollar_def)

lemma us_dollar_valid: "FC_Validate [''USD'' \<mapsto> us_dollar] (WithDefinition us_dollar) = None"
  by (simp add: FC_Validate_def us_dollar_def validateFiatCurrencyCode_def)

section \<open>Properties\<close>

text \<open>
  C27. Allocating by weight loses nothing: for a valid input the allocations returned add up to the
  amount exactly, although every share was rounded, each is a positive amount of the currency's
  precision, and the keys keep the order of the items. The number of items only has to be small
  against the precision of the package's division.
\<close>

theorem AllocateByWeight_exact:
  assumes "decimal_ok L" and "c = FiatCurrency d \<or> c = CustomCurrency d" and "uint (cd_Subunits d) < 2 ^ 31"
    and "validateWeightedAllocationInput (Some (currency_ops_of L known c)) input = None"
    and "of_nat (length (win_Items input)) * 10 ^ unat (cd_Subunits d) < (10 ^ div_places :: rat)"
  shows "\<exists>allocs. AllocateByWeight L (Some (currency_ops_of L known c)) input = Inr allocs \<and>
    sum_list (map wa_Amount allocs) = win_Amount input \<and>
    (\<forall>a \<in> set allocs. 0 < wa_Amount a \<and> on_grid (unat (cd_Subunits d)) (wa_Amount a)) \<and>
    subseq (map wa_Key allocs) (map wi_Key (win_Items input))"
proof -
  have k: "currency_calculator (currency_ops_of L known c) (unat (cd_Subunits d))"
    using calculator_of_currency [OF assms(1-3)] .
  show ?thesis using assms(5)
    by (intro currency_calculator.weighted_result [OF k assms(1,4)])
      (simp add: currency_calculator.Unit [OF k] pos_divide_less_eq pos_less_divide_eq)
qed

theorem AllocateByWeight_exact_witness:
  "\<exists>allocs. AllocateByWeight std_decimal_lib
      (Some (currency_ops_of std_decimal_lib [''USD'' \<mapsto> us_dollar] (FiatCurrency us_dollar))) sample_weights = Inr allocs \<and>
    sum_list (map wa_Amount allocs) = 1"
proof -
  let ?C = "currency_ops_of std_decimal_lib [''USD'' \<mapsto> us_dollar] (FiatCurrency us_dollar)"
  have k: "currency_calculator ?C 2"
    using calculator_of_currency [OF decimal_ok_std, of _ us_dollar] us_dollar_small by fastforce
  have "validateWeightedAllocationInput (Some ?C) sample_weights = None"
    by (simp add: currency_calculator.valid_weighted [OF k] sample_weights_def us_dollar_valid del: currency_ops_of.simps)
      (simp add: us_dollar_valid)
  from AllocateByWeight_exact [OF decimal_ok_std _ _ this, of us_dollar] show ?thesis
    by (auto simp: us_dollar_small sample_weights_def div_places_def)
qed

text \<open>
  C23. Allocating by amount never fails on a valid input and never exceeds an item: the loop that hands
  out the remaining units ends, the allocations add up to the amount exactly, and each is positive and
  at most the amount of its item, so the error of a distribution that does not fit cannot occur.
\<close>

theorem AllocateByAmount_exact:
  assumes "decimal_ok L" and "c = FiatCurrency d \<or> c = CustomCurrency d" and "uint (cd_Subunits d) < 2 ^ 31"
    and "validateAmountAllocationInput (Some (currency_ops_of L known c)) input = None"
    and "of_nat (length (ain_Items input)) * 10 ^ unat (cd_Subunits d) < (10 ^ div_places :: rat)"
  shows "\<exists>allocs. AllocateByAmount L (Some (currency_ops_of L known c)) input = Some (Inr allocs) \<and>
    sum_list (map aa_Amount allocs) = ain_Amount input \<and>
    subseq (map aa_Key allocs) (map ai_Key (ain_Items input)) \<and>
    (\<forall>a \<in> set allocs. \<exists>item \<in> set (ain_Items input). aa_Key a = ai_Key item \<and>
       0 < aa_Amount a \<and> aa_Amount a \<le> ai_Amount item)"
proof -
  have k: "currency_calculator (currency_ops_of L known c) (unat (cd_Subunits d))"
    using calculator_of_currency [OF assms(1-3)] .
  show ?thesis using assms(5)
    by (intro currency_calculator.amount_result [OF k assms(1,4)])
      (simp add: currency_calculator.Unit [OF k] pos_divide_less_eq pos_less_divide_eq)
qed

theorem AllocateByAmount_exact_witness:
  "\<exists>allocs. AllocateByAmount std_decimal_lib
      (Some (currency_ops_of std_decimal_lib Map.empty (FiatCurrency us_dollar))) sample_amounts = Some (Inr allocs) \<and>
    sum_list (map aa_Amount allocs) = 1"
proof -
  let ?C = "currency_ops_of std_decimal_lib Map.empty (FiatCurrency us_dollar)"
  have k: "currency_calculator ?C 2"
    using calculator_of_currency [OF decimal_ok_std, of _ us_dollar] us_dollar_small by fastforce
  have "validateAmountAllocationInput (Some ?C) sample_amounts = None"
    by (simp add: currency_calculator.valid_amounts [OF k] sample_amounts_def del: currency_ops_of.simps)
  from AllocateByAmount_exact [OF decimal_ok_std _ _ this, of us_dollar] show ?thesis
    by (auto simp: us_dollar_small sample_amounts_def div_places_def)
qed

end
