(* ===== verification/Totals.thy ===== *)
theory Totals
  imports Currencyx
begin

text \<open>
  Percentages (pkg/models/percentage.go), the totals of a line or an invoice
  (openmeter/billing/models/totals/model.go) and the credits applied to a line
  (openmeter/billing/models/creditsapplied/model.go).
\<close>

section \<open>Percentages\<close>

type_synonym Percentage = decimal

text \<open>\<open>NewPercentage\<close> of an int or a decimal; 50 stands for 50%.\<close>

definition PC_ApplyTo :: "decimal_lib \<Rightarrow> Percentage \<Rightarrow> decimal \<Rightarrow> decimal" where
  "PC_ApplyTo L p v = dl_Div L (v * p) 100"

definition PC_ApplyMarkupTo :: "decimal_lib \<Rightarrow> Percentage \<Rightarrow> decimal \<Rightarrow> decimal" where
  "PC_ApplyMarkupTo L p v = dl_Div L (v * (p + 100)) 100"

definition PC_Add :: "Percentage \<Rightarrow> Percentage \<Rightarrow> Percentage" where
  "PC_Add p q = p + q"

section \<open>Totals\<close>

record Totals =
  tt_Amount :: decimal
  tt_ChargesTotal :: decimal
  tt_DiscountsTotal :: decimal
  tt_TaxesInclusiveTotal :: decimal
  tt_TaxesExclusiveTotal :: decimal
  tt_TaxesTotal :: decimal
  tt_CreditsTotal :: decimal
  tt_Total :: decimal

definition TT_Validate :: "Totals \<Rightarrow> error option" where
  "TT_Validate t =
     (if tt_Amount t < 0 then Some (Err ''amount is negative'')
      else if tt_ChargesTotal t < 0 then Some (Err ''charges total is negative'')
      else if tt_DiscountsTotal t < 0 then Some (Err ''discounts total is negative'')
      else if tt_TaxesInclusiveTotal t < 0 then Some (Err ''taxes inclusive total is negative'')
      else if tt_TaxesExclusiveTotal t < 0 then Some (Err ''taxes exclusive total is negative'')
      else if tt_TaxesTotal t < 0 then Some (Err ''taxes total is negative'')
      else if tt_Total t < 0 then Some (Err ''total is negative'')
      else if tt_CreditsTotal t < 0 then Some (Err ''credits total is negative'')
      else None)"

definition ValidateTotalNonNegative :: "Totals \<Rightarrow> error option" where
  "ValidateTotalNonNegative t = (if tt_Total t < 0 then Some (Err ''total is negative'') else None)"

definition TT_add1 :: "Totals \<Rightarrow> Totals \<Rightarrow> Totals" where
  "TT_add1 res other = \<lparr>tt_Amount = tt_Amount res + tt_Amount other,
     tt_ChargesTotal = tt_ChargesTotal res + tt_ChargesTotal other,
     tt_DiscountsTotal = tt_DiscountsTotal res + tt_DiscountsTotal other,
     tt_TaxesInclusiveTotal = tt_TaxesInclusiveTotal res + tt_TaxesInclusiveTotal other,
     tt_TaxesExclusiveTotal = tt_TaxesExclusiveTotal res + tt_TaxesExclusiveTotal other,
     tt_TaxesTotal = tt_TaxesTotal res + tt_TaxesTotal other,
     tt_CreditsTotal = tt_CreditsTotal res + tt_CreditsTotal other,
     tt_Total = tt_Total res + tt_Total other\<rparr>"

definition TT_Add :: "Totals \<Rightarrow> Totals list \<Rightarrow> Totals" where
  "TT_Add t others = foldl TT_add1 t others"

definition TT_sub1 :: "Totals \<Rightarrow> Totals \<Rightarrow> Totals" where
  "TT_sub1 res other = \<lparr>tt_Amount = tt_Amount res - tt_Amount other,
     tt_ChargesTotal = tt_ChargesTotal res - tt_ChargesTotal other,
     tt_DiscountsTotal = tt_DiscountsTotal res - tt_DiscountsTotal other,
     tt_TaxesInclusiveTotal = tt_TaxesInclusiveTotal res - tt_TaxesInclusiveTotal other,
     tt_TaxesExclusiveTotal = tt_TaxesExclusiveTotal res - tt_TaxesExclusiveTotal other,
     tt_TaxesTotal = tt_TaxesTotal res - tt_TaxesTotal other,
     tt_CreditsTotal = tt_CreditsTotal res - tt_CreditsTotal other,
     tt_Total = tt_Total res - tt_Total other\<rparr>"

definition TT_Sub :: "Totals \<Rightarrow> Totals list \<Rightarrow> Totals" where
  "TT_Sub t others = foldl TT_sub1 t others"

definition map_totals :: "(decimal \<Rightarrow> decimal) \<Rightarrow> Totals \<Rightarrow> Totals" where
  "map_totals f t = \<lparr>tt_Amount = f (tt_Amount t), tt_ChargesTotal = f (tt_ChargesTotal t),
     tt_DiscountsTotal = f (tt_DiscountsTotal t), tt_TaxesInclusiveTotal = f (tt_TaxesInclusiveTotal t),
     tt_TaxesExclusiveTotal = f (tt_TaxesExclusiveTotal t), tt_TaxesTotal = f (tt_TaxesTotal t),
     tt_CreditsTotal = f (tt_CreditsTotal t), tt_Total = f (tt_Total t)\<rparr>"

definition TT_Neg :: "Totals \<Rightarrow> Totals" where
  "TT_Neg t = map_totals uminus t"

definition TT_IsZero :: "Totals \<Rightarrow> bool" where
  "TT_IsZero t \<longleftrightarrow> tt_Amount t = 0 \<and> tt_ChargesTotal t = 0 \<and> tt_DiscountsTotal t = 0 \<and>
     tt_TaxesInclusiveTotal t = 0 \<and> tt_TaxesExclusiveTotal t = 0 \<and> tt_TaxesTotal t = 0 \<and>
     tt_CreditsTotal t = 0 \<and> tt_Total t = 0"

definition TT_Equal :: "Totals \<Rightarrow> Totals \<Rightarrow> bool" where
  "TT_Equal t other \<longleftrightarrow> tt_Amount t = tt_Amount other \<and> tt_ChargesTotal t = tt_ChargesTotal other \<and>
     tt_DiscountsTotal t = tt_DiscountsTotal other \<and>
     tt_TaxesInclusiveTotal t = tt_TaxesInclusiveTotal other \<and>
     tt_TaxesExclusiveTotal t = tt_TaxesExclusiveTotal other \<and> tt_TaxesTotal t = tt_TaxesTotal other \<and>
     tt_CreditsTotal t = tt_CreditsTotal other \<and> tt_Total t = tt_Total other"

definition TT_zero :: Totals where
  "TT_zero = \<lparr>tt_Amount = 0, tt_ChargesTotal = 0, tt_DiscountsTotal = 0, tt_TaxesInclusiveTotal = 0,
     tt_TaxesExclusiveTotal = 0, tt_TaxesTotal = 0, tt_CreditsTotal = 0, tt_Total = 0\<rparr>"

definition TT_Sum :: "Totals list \<Rightarrow> Totals" where
  "TT_Sum others = TT_Add TT_zero others"

definition TT_RoundToPrecision :: "currency_ops \<Rightarrow> Totals \<Rightarrow> Totals" where
  "TT_RoundToPrecision C t = map_totals (cur_RoundToPrecision C) t"

definition CalculateTotal :: "Totals \<Rightarrow> decimal" where
  "CalculateTotal t = sum_list [tt_Amount t, tt_ChargesTotal t, tt_TaxesExclusiveTotal t,
     - tt_DiscountsTotal t, - tt_CreditsTotal t]"

section \<open>Credits applied\<close>

record CreditApplied =
  ca_Amount :: decimal
  ca_Description :: string
  ca_CreditRealizationID :: string

definition CA_CloneWithAmount :: "CreditApplied \<Rightarrow> decimal \<Rightarrow> CreditApplied" where
  "CA_CloneWithAmount c amount = c\<lparr>ca_Amount := amount\<rparr>"

definition CA_Validate :: "CreditApplied \<Rightarrow> error option" where
  "CA_Validate c = (if \<not> 0 < ca_Amount c then Some (Err ''amount must be positive'') else None)"

fun CAs_Validate :: "CreditApplied list \<Rightarrow> error option" where
  "CAs_Validate [] = None"
| "CAs_Validate (item # items) = (case CA_Validate item of Some e \<Rightarrow> Some e | None \<Rightarrow> CAs_Validate items)"

text \<open>The clone of an empty list is nil, which the model does not tell from an empty list.\<close>

definition CAs_Clone :: "CreditApplied list \<Rightarrow> CreditApplied list" where
  "CAs_Clone c = (if length c = 0 then [] else map (\<lambda>item. item) c)"

definition CAs_SumAmount :: "currency_ops \<Rightarrow> CreditApplied list \<Rightarrow> decimal" where
  "CAs_SumAmount C c = foldl (\<lambda>sum item. sum + cur_RoundToPrecision C (ca_Amount item)) 0 c"

section \<open>Lemmas\<close>

lemmas totals_defs = TT_Add_def TT_Sub_def TT_add1_def TT_sub1_def TT_Neg_def map_totals_def TT_zero_def
  TT_Sum_def TT_RoundToPrecision_def CalculateTotal_def

lemma foldl_add [simp]: "foldl (\<lambda>sum item. sum + f item) a xs = a + (\<Sum>x\<leftarrow>xs. f x :: rat)"
  by (induction xs arbitrary: a) simp_all

lemma CAs_SumAmount_eq: "CAs_SumAmount C c = (\<Sum>x\<leftarrow>c. cur_RoundToPrecision C (ca_Amount x))"
  by (simp add: CAs_SumAmount_def)

lemma CAs_Validate_None: "CAs_Validate c = None \<longleftrightarrow> (\<forall>x \<in> set c. 0 < ca_Amount x)"
  by (induction c) (auto simp: CA_Validate_def)

lemma CAs_Clone_id [simp]: "CAs_Clone c = c"
  by (simp add: CAs_Clone_def)

lemma TT_Equal_iff: "TT_Equal t u \<longleftrightarrow> t = u"
  by (cases t; cases u) (auto simp: TT_Equal_def)

lemma TT_IsZero_iff: "TT_IsZero t \<longleftrightarrow> t = TT_zero"
  by (cases t) (auto simp: TT_IsZero_def TT_zero_def)

text \<open>Adding and subtracting totals as operations on each field.\<close>

lemma TT_Add_fields [simp]:
  "tt_Amount (TT_Add t ts) = tt_Amount t + (\<Sum>x\<leftarrow>ts. tt_Amount x)"
  "tt_ChargesTotal (TT_Add t ts) = tt_ChargesTotal t + (\<Sum>x\<leftarrow>ts. tt_ChargesTotal x)"
  "tt_DiscountsTotal (TT_Add t ts) = tt_DiscountsTotal t + (\<Sum>x\<leftarrow>ts. tt_DiscountsTotal x)"
  "tt_TaxesInclusiveTotal (TT_Add t ts) = tt_TaxesInclusiveTotal t + (\<Sum>x\<leftarrow>ts. tt_TaxesInclusiveTotal x)"
  "tt_TaxesExclusiveTotal (TT_Add t ts) = tt_TaxesExclusiveTotal t + (\<Sum>x\<leftarrow>ts. tt_TaxesExclusiveTotal x)"
  "tt_TaxesTotal (TT_Add t ts) = tt_TaxesTotal t + (\<Sum>x\<leftarrow>ts. tt_TaxesTotal x)"
  "tt_CreditsTotal (TT_Add t ts) = tt_CreditsTotal t + (\<Sum>x\<leftarrow>ts. tt_CreditsTotal x)"
  "tt_Total (TT_Add t ts) = tt_Total t + (\<Sum>x\<leftarrow>ts. tt_Total x)"
  unfolding TT_Add_def by (induction ts arbitrary: t) (simp_all add: TT_add1_def)

lemma TT_Sub_Add: "TT_Sub (TT_Add t ts) ts = t"
proof -
  have s: "TT_Sub u vs = TT_Add u (map TT_Neg vs)" for u vs
    unfolding TT_Sub_def TT_Add_def
    by (induction vs arbitrary: u) (simp_all add: TT_sub1_def TT_add1_def TT_Neg_def map_totals_def)
  have z: "(\<Sum>x\<leftarrow>xs. f (TT_Neg x)) = - (\<Sum>x\<leftarrow>xs. f x)"
    if "\<And>x. f (TT_Neg x) = - f x" for xs and f :: "Totals \<Rightarrow> rat"
    using that by (induction xs) simp_all
  have n: "(\<Sum>x\<leftarrow>xs. - f x) = - (\<Sum>x\<leftarrow>xs. f x)" for xs and f :: "Totals \<Rightarrow> rat"
    by (induction xs) simp_all
  show ?thesis unfolding s TT_Equal_iff [symmetric] TT_Equal_def
    by (simp add: o_def n z [of tt_Amount] z [of tt_ChargesTotal] z [of tt_DiscountsTotal] z [of tt_TaxesInclusiveTotal]
        z [of tt_TaxesExclusiveTotal] z [of tt_TaxesTotal] z [of tt_CreditsTotal] z [of tt_Total]
        TT_Neg_def map_totals_def)
qed

text \<open>A total computed line by line is the total of the summed lines.\<close>

lemma CalculateTotal_Add: "CalculateTotal (TT_Add t ts) = CalculateTotal t + (\<Sum>x\<leftarrow>ts. CalculateTotal x)"
  unfolding TT_Add_def by (induction ts arbitrary: t) (simp_all add: CalculateTotal_def TT_add1_def)

lemma CalculateTotal_zero [simp]: "CalculateTotal TT_zero = 0"
  by (simp add: CalculateTotal_def TT_zero_def)

end
