(* ===== verification/Price.thy ===== *)
theory Price
  imports Currencyx
begin

text \<open>
  Prices (openmeter/productcatalog/price.go): flat, unit, tiered, dynamic and package prices with
  their commitments, their validation, cloning and equality, and the tagged union \<open>Price\<close> with
  a pointer per kind. \<open>None\<close> as the result of \<open>PR_Clone\<close> and \<open>PR_Validate\<close> is the panic on
  a nil pointer. The JSON methods are left out.
\<close>

text \<open>
  Elsewhere, where a nil pointer is dereferenced in the middle of a function that returns an error,
  the panic is the result \<open>Inl nil_deref\<close>.
\<close>

definition nil_deref :: error where
  "nil_deref = Err ''nil pointer dereference''"

definition deref :: "'a option \<Rightarrow> 'a result" where
  "deref p = (case p of None \<Rightarrow> Inl nil_deref | Some x \<Rightarrow> Inr x)"

lemma deref_simps [simp]: "deref None = Inl nil_deref" "deref (Some x) = Inr x"
  by (simp_all add: deref_def)

lemma deref_Inr [result_simps]: "deref p = Inr x \<longleftrightarrow> p = Some x"
  by (cases p) simp_all

section \<open>Kinds\<close>

datatype PaymentTermType = InAdvancePaymentTerm | InArrearsPaymentTerm | NoPaymentTerm | OtherPaymentTerm string

definition DefaultPaymentTerm :: PaymentTermType where
  "DefaultPaymentTerm = InAdvancePaymentTerm"

definition PaymentTerm_Values :: "PaymentTermType list" where
  "PaymentTerm_Values = [InAdvancePaymentTerm, InArrearsPaymentTerm]"

definition PaymentTerm_Validate :: "PaymentTermType \<Rightarrow> error option" where
  "PaymentTerm_Validate p =
     (if p \<notin> set PaymentTerm_Values then Some (Err ''invalid payment term type'') else None)"

datatype PriceType = FlatPriceType | UnitPriceType | TieredPriceType | DynamicPriceType | PackagePriceType
  | NoPriceType | OtherPriceType string

definition PriceType_Values :: "PriceType list" where
  "PriceType_Values = [FlatPriceType, UnitPriceType, TieredPriceType, DynamicPriceType, PackagePriceType]"

section \<open>Commitments\<close>

record Commitments =
  cm_MinimumAmount :: "decimal option"
  cm_MaximumAmount :: "decimal option"

text \<open>\<open>lo.FromPtr\<close> and \<open>equal.PtrEqual\<close> on decimals.\<close>

definition FromPtr :: "decimal option \<Rightarrow> decimal" where
  "FromPtr p = (case p of None \<Rightarrow> 0 | Some x \<Rightarrow> x)"

definition PtrEqual :: "('a \<Rightarrow> 'a \<Rightarrow> bool) \<Rightarrow> 'a option \<Rightarrow> 'a option \<Rightarrow> bool" where
  "PtrEqual eq a b = (case (a, b) of (None, None) \<Rightarrow> True | (Some x, Some y) \<Rightarrow> eq x y | _ \<Rightarrow> False)"

definition no_commitments :: Commitments where
  "no_commitments = \<lparr>cm_MinimumAmount = None, cm_MaximumAmount = None\<rparr>"

definition CM_Validate :: "Commitments \<Rightarrow> error option" where
  "CM_Validate c =
     (let minAmount = FromPtr (cm_MinimumAmount c); maxAmount = FromPtr (cm_MaximumAmount c)
      in join_errors
        (err_if (minAmount < 0) (Err ''the MinimumAmount must not be negative'') @
         err_if (maxAmount < 0) (Err ''the MaximumAmount must not be negative'') @
         err_if (minAmount \<noteq> 0 \<and> maxAmount \<noteq> 0 \<and> minAmount > maxAmount)
           (Err ''the MinimumAmount must not be greater than MaximumAmount'')))"

definition CM_Equal :: "Commitments \<Rightarrow> Commitments \<Rightarrow> bool" where
  "CM_Equal c v =
     (if \<not> PtrEqual (=) (cm_MinimumAmount c) (cm_MinimumAmount v) then False
      else if \<not> PtrEqual (=) (cm_MaximumAmount c) (cm_MaximumAmount v) then False else True)"

text \<open>The clones copy both pointers when they are set (decimals are immutable).\<close>

definition CM_copy :: "Commitments \<Rightarrow> Commitments" where
  "CM_copy c = \<lparr>cm_MinimumAmount = (case cm_MinimumAmount c of None \<Rightarrow> None | Some a \<Rightarrow> Some a),
     cm_MaximumAmount = (case cm_MaximumAmount c of None \<Rightarrow> None | Some a \<Rightarrow> Some a)\<rparr>"

section \<open>Flat and unit prices\<close>

record FlatPrice =
  fp_Amount :: decimal
  fp_PaymentTerm :: PaymentTermType

definition FP_Clone :: "FlatPrice \<Rightarrow> FlatPrice" where
  "FP_Clone f = \<lparr>fp_Amount = fp_Amount f, fp_PaymentTerm = fp_PaymentTerm f\<rparr>"

definition FP_Equal :: "FlatPrice option \<Rightarrow> FlatPrice option \<Rightarrow> bool" where
  "FP_Equal f v = (case (f, v) of
       (None, None) \<Rightarrow> True
     | (Some f, Some v) \<Rightarrow>
         if fp_Amount f \<noteq> fp_Amount v then False
         else if fp_PaymentTerm f \<noteq> fp_PaymentTerm v then False else True
     | _ \<Rightarrow> False)"

definition FP_Validate :: "FlatPrice \<Rightarrow> error option" where
  "FP_Validate f = nillable_validation (join_errors
     (err_if (fp_Amount f < 0) (Err ''the Amount must not be negative'') @
      err_if (fp_PaymentTerm f \<noteq> NoPaymentTerm \<and> fp_PaymentTerm f \<notin> set PaymentTerm_Values)
        (Err ''invalid PaymentTerm'')))"

record UnitPrice =
  up_Commitments :: Commitments
  up_Amount :: decimal

definition UP_Clone :: "UnitPrice \<Rightarrow> UnitPrice" where
  "UP_Clone u = \<lparr>up_Commitments = CM_copy (up_Commitments u), up_Amount = up_Amount u\<rparr>"

definition UP_Equal :: "UnitPrice option \<Rightarrow> UnitPrice option \<Rightarrow> bool" where
  "UP_Equal u v = (case (u, v) of
       (None, None) \<Rightarrow> True
     | (Some u, Some v) \<Rightarrow>
         if up_Amount u \<noteq> up_Amount v then False
         else if \<not> CM_Equal (up_Commitments u) (up_Commitments v) then False else True
     | _ \<Rightarrow> False)"

definition UP_Validate :: "UnitPrice \<Rightarrow> error option" where
  "UP_Validate u = nillable_validation (join_errors
     (err_if (up_Amount u < 0) (Err ''the Amount must not be negative'') @
      err_of (\<lambda>e. e) (CM_Validate (up_Commitments u))))"

section \<open>Tiered prices\<close>

datatype TieredPriceMode = VolumeTieredPrice | GraduatedTieredPrice | OtherTieredMode string

definition TieredPriceMode_Values :: "TieredPriceMode list" where
  "TieredPriceMode_Values = [VolumeTieredPrice, GraduatedTieredPrice]"

text \<open>\<open>strings.ToLower\<close> on ASCII letters.\<close>

definition ToLower :: "string \<Rightarrow> string" where
  "ToLower s = map (\<lambda>ch. if of_char ch \<ge> (65 :: nat) \<and> of_char ch \<le> (90 :: nat)
     then char_of (of_char ch + 32 :: nat) else ch) s"

definition NewTieredPriceMode :: "string \<Rightarrow> TieredPriceMode result" where
  "NewTieredPriceMode s =
     (let m = ToLower (TrimSpace s)
      in if m = ''volume'' then Inr VolumeTieredPrice
         else if m = ''graduated'' then Inr GraduatedTieredPrice
         else Inl (Err ''invalid TieredPrice mode''))"

record PriceTierFlatPrice =
  tf_Amount :: decimal

record PriceTierUnitPrice =
  tu_Amount :: decimal

record PriceTier =
  pt_UpToAmount :: "decimal option"
  pt_FlatPrice :: "PriceTierFlatPrice option"
  pt_UnitPrice :: "PriceTierUnitPrice option"

record TieredPrice =
  tp_Commitments :: Commitments
  tp_Mode :: TieredPriceMode
  tp_Tiers :: "PriceTier list"

definition TF_Clone :: "PriceTierFlatPrice \<Rightarrow> PriceTierFlatPrice" where
  "TF_Clone f = \<lparr>tf_Amount = tf_Amount f\<rparr>"

definition TF_Validate :: "PriceTierFlatPrice \<Rightarrow> error option" where
  "TF_Validate f = (if tf_Amount f < 0 then Some (GenericValidation (Err ''the Amount must not be negative'')) else None)"

definition TF_Equal :: "PriceTierFlatPrice \<Rightarrow> PriceTierFlatPrice \<Rightarrow> bool" where
  "TF_Equal f v \<longleftrightarrow> tf_Amount f = tf_Amount v"

definition TU_Clone :: "PriceTierUnitPrice \<Rightarrow> PriceTierUnitPrice" where
  "TU_Clone u = \<lparr>tu_Amount = tu_Amount u\<rparr>"

definition TU_Validate :: "PriceTierUnitPrice \<Rightarrow> error option" where
  "TU_Validate u = (if tu_Amount u < 0 then Some (GenericValidation (Err ''the Amount must not be negative'')) else None)"

definition TU_Equal :: "PriceTierUnitPrice \<Rightarrow> PriceTierUnitPrice \<Rightarrow> bool" where
  "TU_Equal u v \<longleftrightarrow> tu_Amount u = tu_Amount v"

definition PT_Clone :: "PriceTier \<Rightarrow> PriceTier" where
  "PT_Clone p = \<lparr>pt_UpToAmount = (case pt_UpToAmount p of None \<Rightarrow> None | Some a \<Rightarrow> Some a),
     pt_FlatPrice = map_option TF_Clone (pt_FlatPrice p),
     pt_UnitPrice = map_option TU_Clone (pt_UnitPrice p)\<rparr>"

definition PT_Validate :: "PriceTier \<Rightarrow> error option" where
  "PT_Validate p =
     (let upToAmount = FromPtr (pt_UpToAmount p)
      in nillable_validation (join_errors
        (err_if (upToAmount < 0) (Err ''the UpToAmount must not be negative'') @
         err_if (pt_FlatPrice p = None \<and> pt_UnitPrice p = None)
           (Err ''either FlatPrice or UnitPrice must be provided in PriceTier'') @
         err_of (Wrap ''invalid FlatPrice in PriceTier'')
           (case pt_FlatPrice p of None \<Rightarrow> None | Some f \<Rightarrow> TF_Validate f) @
         err_of (Wrap ''invalid UnitPrice in PriceTier'')
           (case pt_UnitPrice p of None \<Rightarrow> None | Some u \<Rightarrow> TU_Validate u))))"

definition PT_Equal :: "PriceTier \<Rightarrow> PriceTier \<Rightarrow> bool" where
  "PT_Equal p v =
     (if \<not> PtrEqual (=) (pt_UpToAmount p) (pt_UpToAmount v) then False
      else if \<not> PtrEqual TF_Equal (pt_FlatPrice p) (pt_FlatPrice v) then False
      else if \<not> PtrEqual TU_Equal (pt_UnitPrice p) (pt_UnitPrice v) then False else True)"

definition TP_Clone :: "TieredPrice \<Rightarrow> TieredPrice" where
  "TP_Clone t = \<lparr>tp_Commitments = CM_copy (tp_Commitments t), tp_Mode = tp_Mode t,
     tp_Tiers = map PT_Clone (tp_Tiers t)\<rparr>"

definition TP_Equal :: "TieredPrice option \<Rightarrow> TieredPrice option \<Rightarrow> bool" where
  "TP_Equal t v = (case (t, v) of
       (None, None) \<Rightarrow> True
     | (Some t, Some v) \<Rightarrow>
         if tp_Mode t \<noteq> tp_Mode v then False
         else if length (tp_Tiers t) \<noteq> length (tp_Tiers v) then False
         else if \<not> CM_Equal (tp_Commitments t) (tp_Commitments v) then False
         else list_all2 PT_Equal (tp_Tiers t) (tp_Tiers v)
     | _ \<Rightarrow> False)"

text \<open>
  The loop over the tiers: \<open>seen\<close> is \<open>upToAmounts\<close>, keyed by the normal form \<open>String\<close> of the
  amount, that is, by its value. A tier that repeats an amount other than zero is reported and not
  validated itself.
\<close>

fun tiers_errors :: "decimal set \<Rightarrow> PriceTier list \<Rightarrow> error list" where
  "tiers_errors seen [] = []"
| "tiers_errors seen (tier # tiers) =
     (let uta = FromPtr (pt_UpToAmount tier)
      in if uta \<noteq> 0 \<and> uta \<in> seen
         then Err ''multiple PriceTiers with same UpToAmount are not allowed'' # tiers_errors seen tiers
         else err_of (Wrap ''invalid PriceTier'') (PT_Validate tier) @
              tiers_errors (if uta \<noteq> 0 then insert uta seen else seen) tiers)"

definition TP_Validate :: "TieredPrice \<Rightarrow> error option" where
  "TP_Validate t = nillable_validation (join_errors
     (err_if (tp_Mode t \<notin> set TieredPriceMode_Values) (Err ''invalid TieredPrice mode'') @
      err_if (length (tp_Tiers t) = 0) (Err ''at least one PriceTier must be provided'') @
      tiers_errors {} (tp_Tiers t) @
      err_if (\<not> list_ex (\<lambda>tier. pt_UpToAmount tier = None) (tp_Tiers t))
        (Err ''at least one PriceTier must be open-ended'') @
      err_of (\<lambda>e. e) (CM_Validate (tp_Commitments t))))"

definition compare_tiers :: "PriceTier \<Rightarrow> PriceTier \<Rightarrow> int" where
  "compare_tiers a b =
     (case (pt_UpToAmount a, pt_UpToAmount b) of
        (None, None) \<Rightarrow> 0
      | (None, Some _) \<Rightarrow> 1
      | (Some _, None) \<Rightarrow> -1
      | (Some x, Some y) \<Rightarrow> compare_values x y)"

definition WithSortedTiers :: "TieredPrice \<Rightarrow> TieredPrice" where
  "WithSortedTiers t = t\<lparr>tp_Tiers := sort_by compare_tiers (tp_Tiers t)\<rparr>"

section \<open>Dynamic and package prices\<close>

record DynamicPrice =
  dp_Commitments :: Commitments
  dp_Multiplier :: decimal

definition DynamicPriceDefaultMultiplier :: decimal where
  "DynamicPriceDefaultMultiplier = 1"

definition DP_Clone :: "DynamicPrice \<Rightarrow> DynamicPrice" where
  "DP_Clone p = \<lparr>dp_Commitments = CM_copy (dp_Commitments p), dp_Multiplier = dp_Multiplier p\<rparr>"

definition DP_Validate :: "DynamicPrice \<Rightarrow> error option" where
  "DP_Validate p = nillable_validation (join_errors
     (err_if (dp_Multiplier p < 0) (Err ''the markup rate must not be less than 0'') @
      err_of (\<lambda>e. e) (CM_Validate (dp_Commitments p))))"

definition DP_Equal :: "DynamicPrice option \<Rightarrow> DynamicPrice option \<Rightarrow> bool" where
  "DP_Equal p v = (case (p, v) of
       (None, None) \<Rightarrow> True
     | (Some p, Some v) \<Rightarrow>
         if dp_Multiplier p \<noteq> dp_Multiplier v then False
         else if \<not> CM_Equal (dp_Commitments p) (dp_Commitments v) then False else True
     | _ \<Rightarrow> False)"

record PackagePrice =
  kp_Commitments :: Commitments
  kp_Amount :: decimal
  kp_QuantityPerPackage :: decimal

definition KP_Clone :: "PackagePrice \<Rightarrow> PackagePrice" where
  "KP_Clone p = \<lparr>kp_Commitments = CM_copy (kp_Commitments p), kp_Amount = kp_Amount p,
     kp_QuantityPerPackage = kp_QuantityPerPackage p\<rparr>"

definition KP_Validate :: "PackagePrice \<Rightarrow> error option" where
  "KP_Validate p = nillable_validation (join_errors
     (err_if (kp_Amount p < 0) (Err ''the Amount must not be negative'') @
      err_if (kp_QuantityPerPackage p < 0) (Err ''the QuantityPerPackage must not be negative'') @
      err_if (kp_QuantityPerPackage p = 0) (Err ''the QuantityPerPackage must not be zero'') @
      err_of (\<lambda>e. e) (CM_Validate (kp_Commitments p))))"

definition KP_Equal :: "PackagePrice option \<Rightarrow> PackagePrice option \<Rightarrow> bool" where
  "KP_Equal p v = (case (p, v) of
       (None, None) \<Rightarrow> True
     | (Some p, Some v) \<Rightarrow>
         if kp_Amount p \<noteq> kp_Amount v then False
         else if kp_QuantityPerPackage p \<noteq> kp_QuantityPerPackage v then False
         else if \<not> CM_Equal (kp_Commitments p) (kp_Commitments v) then False else True
     | _ \<Rightarrow> False)"

section \<open>The union\<close>

record Price =
  pr_t :: PriceType
  pr_flat :: "FlatPrice option"
  pr_unit :: "UnitPrice option"
  pr_tiered :: "TieredPrice option"
  pr_dynamic :: "DynamicPrice option"
  pr_package :: "PackagePrice option"

definition empty_price :: Price where
  "empty_price = \<lparr>pr_t = NoPriceType, pr_flat = None, pr_unit = None, pr_tiered = None,
     pr_dynamic = None, pr_package = None\<rparr>"

definition PR_Clone :: "Price \<Rightarrow> Price option" where
  "PR_Clone p =
     (let clone = empty_price\<lparr>pr_t := pr_t p\<rparr>
      in case pr_t p of
           FlatPriceType \<Rightarrow> map_option (\<lambda>f. clone\<lparr>pr_flat := Some (FP_Clone f)\<rparr>) (pr_flat p)
         | UnitPriceType \<Rightarrow> map_option (\<lambda>u. clone\<lparr>pr_unit := Some (UP_Clone u)\<rparr>) (pr_unit p)
         | TieredPriceType \<Rightarrow> map_option (\<lambda>t. clone\<lparr>pr_tiered := Some (TP_Clone t)\<rparr>) (pr_tiered p)
         | DynamicPriceType \<Rightarrow> map_option (\<lambda>d. clone\<lparr>pr_dynamic := Some (DP_Clone d)\<rparr>) (pr_dynamic p)
         | PackagePriceType \<Rightarrow> map_option (\<lambda>k. clone\<lparr>pr_package := Some (KP_Clone k)\<rparr>) (pr_package p)
         | _ \<Rightarrow> Some clone)"

definition PR_Validate :: "Price option \<Rightarrow> error option option" where
  "PR_Validate pp =
     (case pp of
        None \<Rightarrow> Some (Some (Err ''invalid price: not initialized''))
      | Some p \<Rightarrow> (case pr_t p of
           FlatPriceType \<Rightarrow> map_option FP_Validate (pr_flat p)
         | UnitPriceType \<Rightarrow> map_option UP_Validate (pr_unit p)
         | TieredPriceType \<Rightarrow> map_option TP_Validate (pr_tiered p)
         | DynamicPriceType \<Rightarrow> map_option DP_Validate (pr_dynamic p)
         | PackagePriceType \<Rightarrow> map_option KP_Validate (pr_package p)
         | _ \<Rightarrow> Some (Some (Err ''invalid price type''))))"

definition PR_Equal :: "Price option \<Rightarrow> Price option \<Rightarrow> bool" where
  "PR_Equal pp vv =
     (case (pp, vv) of
        (None, None) \<Rightarrow> True
      | (Some p, Some v) \<Rightarrow>
          if pr_t p \<noteq> pr_t v then False
          else (case pr_t p of
             FlatPriceType \<Rightarrow> FP_Equal (pr_flat p) (pr_flat v)
           | UnitPriceType \<Rightarrow> UP_Equal (pr_unit p) (pr_unit v)
           | TieredPriceType \<Rightarrow> TP_Equal (pr_tiered p) (pr_tiered v)
           | DynamicPriceType \<Rightarrow> DP_Equal (pr_dynamic p) (pr_dynamic v)
           | PackagePriceType \<Rightarrow> KP_Equal (pr_package p) (pr_package v)
           | _ \<Rightarrow> False)
      | _ \<Rightarrow> False)"

definition PR_SupportsUnitConfig :: "Price \<Rightarrow> bool" where
  "PR_SupportsUnitConfig p \<longleftrightarrow> pr_t p = UnitPriceType \<or> pr_t p = TieredPriceType"

definition AsFlat :: "Price \<Rightarrow> FlatPrice result" where
  "AsFlat p = (case pr_flat p of
       None \<Rightarrow> Inl (Err ''invalid FlatPrice: not initialized'')
     | Some f \<Rightarrow> if pr_t p = NoPriceType then Inl (Err ''invalid FlatPrice: not initialized'')
         else if pr_t p \<noteq> FlatPriceType then Inl (Err ''type mismatch'') else Inr f)"

definition AsUnit :: "Price \<Rightarrow> UnitPrice result" where
  "AsUnit p = (case pr_unit p of
       None \<Rightarrow> Inl (Err ''invalid UnitPrice: not initialized'')
     | Some u \<Rightarrow> if pr_t p = NoPriceType then Inl (Err ''invalid UnitPrice: not initialized'')
         else if pr_t p \<noteq> UnitPriceType then Inl (Err ''type mismatch'') else Inr u)"

definition AsTiered :: "Price \<Rightarrow> TieredPrice result" where
  "AsTiered p = (case pr_tiered p of
       None \<Rightarrow> Inl (Err ''invalid TieredPrice: not initialized'')
     | Some t \<Rightarrow> if pr_t p = NoPriceType then Inl (Err ''invalid TieredPrice: not initialized'')
         else if pr_t p \<noteq> TieredPriceType then Inl (Err ''type mismatch'') else Inr t)"

definition AsDynamic :: "Price \<Rightarrow> DynamicPrice result" where
  "AsDynamic p = (case pr_dynamic p of
       None \<Rightarrow> Inl (Err ''invalid DynamicPrice: not initialized'')
     | Some d \<Rightarrow> if pr_t p = NoPriceType then Inl (Err ''invalid DynamicPrice: not initialized'')
         else if pr_t p \<noteq> DynamicPriceType then Inl (Err ''type mismatch'') else Inr d)"

definition AsPackage :: "Price \<Rightarrow> PackagePrice result" where
  "AsPackage p = (case pr_package p of
       None \<Rightarrow> Inl (Err ''invalid PackagePrice: not initialized'')
     | Some k \<Rightarrow> if pr_t p = NoPriceType then Inl (Err ''invalid PackagePrice: not initialized'')
         else if pr_t p \<noteq> PackagePriceType then Inl (Err ''type mismatch'') else Inr k)"

definition FromFlat :: "Price \<Rightarrow> FlatPrice \<Rightarrow> Price" where
  "FromFlat p v = p\<lparr>pr_flat := Some v, pr_t := FlatPriceType\<rparr>"

definition FromUnit :: "Price \<Rightarrow> UnitPrice \<Rightarrow> Price" where
  "FromUnit p v = p\<lparr>pr_unit := Some v, pr_t := UnitPriceType\<rparr>"

definition FromTiered :: "Price \<Rightarrow> TieredPrice \<Rightarrow> Price" where
  "FromTiered p v = p\<lparr>pr_tiered := Some v, pr_t := TieredPriceType\<rparr>"

definition FromDynamic :: "Price \<Rightarrow> DynamicPrice \<Rightarrow> Price" where
  "FromDynamic p v = p\<lparr>pr_dynamic := Some v, pr_t := DynamicPriceType\<rparr>"

definition FromPackage :: "Price \<Rightarrow> PackagePrice \<Rightarrow> Price" where
  "FromPackage p v = p\<lparr>pr_package := Some v, pr_t := PackagePriceType\<rparr>"

text \<open>The type parameter of \<open>NewPriceFrom\<close> ranges over the five kinds.\<close>

datatype any_price = AnyFlat FlatPrice | AnyUnit UnitPrice | AnyTiered TieredPrice | AnyDynamic DynamicPrice
  | AnyPackage PackagePrice

fun NewPriceFrom :: "any_price \<Rightarrow> Price" where
  "NewPriceFrom (AnyFlat v) = FromFlat empty_price v"
| "NewPriceFrom (AnyUnit v) = FromUnit empty_price v"
| "NewPriceFrom (AnyTiered v) = FromTiered empty_price v"
| "NewPriceFrom (AnyDynamic v) = FromDynamic empty_price v"
| "NewPriceFrom (AnyPackage v) = FromPackage empty_price v"

definition PR_GetCommitments :: "Price \<Rightarrow> Commitments option" where
  "PR_GetCommitments p =
     (case pr_t p of
        FlatPriceType \<Rightarrow> Some no_commitments
      | UnitPriceType \<Rightarrow> map_option up_Commitments (pr_unit p)
      | TieredPriceType \<Rightarrow> map_option tp_Commitments (pr_tiered p)
      | DynamicPriceType \<Rightarrow> map_option dp_Commitments (pr_dynamic p)
      | PackagePriceType \<Rightarrow> map_option kp_Commitments (pr_package p)
      | _ \<Rightarrow> Some no_commitments)"

definition PR_GetPaymentTerm :: "Price \<Rightarrow> PaymentTermType option" where
  "PR_GetPaymentTerm p =
     (case pr_t p of FlatPriceType \<Rightarrow> map_option fp_PaymentTerm (pr_flat p) | _ \<Rightarrow> Some InArrearsPaymentTerm)"

section \<open>Clones and equality\<close>

lemma PtrEqual_eq [simp]: "PtrEqual (=) a b \<longleftrightarrow> a = b"
  by (cases a; cases b) (auto simp: PtrEqual_def)

lemma CM_Equal_iff [simp]: "CM_Equal c v \<longleftrightarrow> c = v"
  by (cases c; cases v) (simp add: CM_Equal_def)

lemma CM_copy_id [simp]: "CM_copy c = c"
  by (cases c) (simp add: CM_copy_def split: option.splits)

lemma TF_TU_Equal [simp]: "TF_Equal = (=)" "TU_Equal = (=)"
proof -
  have "TF_Equal f f' \<longleftrightarrow> f = f'" "TU_Equal u u' \<longleftrightarrow> u = u'" for f f' u u'
    by (cases f; cases f'; cases u; cases u'; simp add: TF_Equal_def TU_Equal_def)+
  then show "TF_Equal = (=)" "TU_Equal = (=)" by (intro ext, simp)+
qed

lemma TF_TU_Clone [simp]: "TF_Clone = (\<lambda>x. x)" "TU_Clone = (\<lambda>x. x)"
  by (rule ext, simp add: TF_Clone_def TU_Clone_def)+

lemma PT_Equal_iff [simp]: "PT_Equal = (=)"
proof (intro ext)
  fix p v show "PT_Equal p v = (p = v)" by (cases p; cases v) (auto simp: PT_Equal_def)
qed

lemma PT_Clone_id [simp]: "PT_Clone = (\<lambda>p. p)"
proof
  fix p show "PT_Clone p = p"
    by (cases p) (simp add: PT_Clone_def option.map_ident split: option.splits)
qed

lemma Clone_ids [simp]: "FP_Clone f = f" "UP_Clone u = u" "TP_Clone t = t" "DP_Clone d = d" "KP_Clone k = k"
  by (simp_all add: FP_Clone_def UP_Clone_def TP_Clone_def DP_Clone_def KP_Clone_def)

lemma Equal_iffs [simp]:
  "FP_Equal f f' \<longleftrightarrow> f = f'" "UP_Equal u u' \<longleftrightarrow> u = u'" "TP_Equal t t' \<longleftrightarrow> t = t'"
  "DP_Equal d d' \<longleftrightarrow> d = d'" "KP_Equal k k' \<longleftrightarrow> k = k'"
  by (auto simp: FP_Equal_def UP_Equal_def TP_Equal_def DP_Equal_def KP_Equal_def list_all2_eq [symmetric]
      split: option.splits)

text \<open>The part of a price that its kind selects.\<close>

definition price_view :: "Price \<Rightarrow> any_price option" where
  "price_view p =
     (case pr_t p of
        FlatPriceType \<Rightarrow> map_option AnyFlat (pr_flat p)
      | UnitPriceType \<Rightarrow> map_option AnyUnit (pr_unit p)
      | TieredPriceType \<Rightarrow> map_option AnyTiered (pr_tiered p)
      | DynamicPriceType \<Rightarrow> map_option AnyDynamic (pr_dynamic p)
      | PackagePriceType \<Rightarrow> map_option AnyPackage (pr_package p)
      | _ \<Rightarrow> None)"

lemma price_view_NewPriceFrom [simp]: "price_view (NewPriceFrom v) = Some v"
  by (cases v) (simp_all add: price_view_def FromFlat_def FromUnit_def FromTiered_def FromDynamic_def FromPackage_def)

lemma price_view_Equal: "price_view p = Some v \<Longrightarrow> PR_Equal (Some p) (Some q) \<longleftrightarrow> price_view q = Some v"
  by (cases "pr_t p"; cases "pr_t q"; cases v) (auto simp: price_view_def PR_Equal_def)

lemma price_view_Clone: "price_view p = Some v \<Longrightarrow> PR_Clone p = Some (NewPriceFrom v)"
  by (cases "pr_t p") (auto simp: price_view_def PR_Clone_def Let_def FromFlat_def FromUnit_def FromTiered_def
      FromDynamic_def FromPackage_def empty_price_def)

lemma price_view_reads:
  assumes "price_view p = price_view q" and "price_view p = Some v"
  shows "PR_Validate (Some p) = PR_Validate (Some q)" and "PR_GetCommitments p = PR_GetCommitments q"
    and "PR_GetPaymentTerm p = PR_GetPaymentTerm q" and "PR_SupportsUnitConfig p = PR_SupportsUnitConfig q"
  using assms
  by (cases "pr_t p"; cases "pr_t q"; auto simp: price_view_def PR_Validate_def PR_GetCommitments_def
      PR_GetPaymentTerm_def PR_SupportsUnitConfig_def)+

lemma As_view: "AsFlat p = Inr f \<longleftrightarrow> price_view p = Some (AnyFlat f)" "AsUnit p = Inr u \<longleftrightarrow> price_view p = Some (AnyUnit u)"
  "AsTiered p = Inr t \<longleftrightarrow> price_view p = Some (AnyTiered t)" "AsDynamic p = Inr d \<longleftrightarrow> price_view p = Some (AnyDynamic d)"
  "AsPackage p = Inr k \<longleftrightarrow> price_view p = Some (AnyPackage k)"
  by (cases "pr_t p"; auto simp: price_view_def AsFlat_def AsUnit_def AsTiered_def AsDynamic_def AsPackage_def
      split: option.splits)+

section \<open>Validity\<close>

definition commitments_ok :: "Commitments \<Rightarrow> bool" where
  "commitments_ok c \<longleftrightarrow> 0 \<le> FromPtr (cm_MinimumAmount c) \<and> 0 \<le> FromPtr (cm_MaximumAmount c) \<and>
     (FromPtr (cm_MinimumAmount c) \<noteq> 0 \<and> FromPtr (cm_MaximumAmount c) \<noteq> 0 \<longrightarrow>
      FromPtr (cm_MinimumAmount c) \<le> FromPtr (cm_MaximumAmount c))"

lemma CM_Validate_None: "CM_Validate c = None \<longleftrightarrow> commitments_ok c"
  by (auto simp: CM_Validate_def commitments_ok_def Let_def not_less)

definition tier_ok :: "PriceTier \<Rightarrow> bool" where
  "tier_ok p \<longleftrightarrow> 0 \<le> FromPtr (pt_UpToAmount p) \<and> (pt_FlatPrice p \<noteq> None \<or> pt_UnitPrice p \<noteq> None) \<and>
     (\<forall>f. pt_FlatPrice p = Some f \<longrightarrow> 0 \<le> tf_Amount f) \<and> (\<forall>u. pt_UnitPrice p = Some u \<longrightarrow> 0 \<le> tu_Amount u)"

lemma PT_Validate_None: "PT_Validate p = None \<longleftrightarrow> tier_ok p"
  by (auto simp: PT_Validate_def tier_ok_def TF_Validate_def TU_Validate_def Let_def split: option.splits)

text \<open>The upper bounds that count: the ones other than nil and zero.\<close>

definition bounds_of :: "PriceTier list \<Rightarrow> decimal list" where
  "bounds_of tiers = filter (\<lambda>u. u \<noteq> 0) (map (\<lambda>t. FromPtr (pt_UpToAmount t)) tiers)"

lemma tiers_errors_Nil:
  "tiers_errors seen tiers = [] \<longleftrightarrow>
     (\<forall>t \<in> set tiers. tier_ok t) \<and> distinct (bounds_of tiers) \<and> set (bounds_of tiers) \<inter> seen = {}"
proof (induction tiers arbitrary: seen)
  case (Cons t ts)
  show ?case
    by (cases "FromPtr (pt_UpToAmount t) = 0")
      (auto simp: Cons.IH PT_Validate_None bounds_of_def Let_def)
qed (simp add: bounds_of_def)

lemma TP_Validate_None:
  "TP_Validate t = None \<longleftrightarrow> tp_Mode t \<in> {VolumeTieredPrice, GraduatedTieredPrice} \<and>
     (\<forall>tier \<in> set (tp_Tiers t). tier_ok tier) \<and> distinct (bounds_of (tp_Tiers t)) \<and>
     (\<exists>tier \<in> set (tp_Tiers t). pt_UpToAmount tier = None) \<and> commitments_ok (tp_Commitments t)"
  by (auto simp: TP_Validate_def tiers_errors_Nil CM_Validate_None TieredPriceMode_Values_def list_ex_iff)

text \<open>The order of the tiers: by upper bound, the open-ended ones last.\<close>

interpretation tier_order: comparator compare_tiers
  by unfold_locales (auto simp: compare_tiers_def compare_values_def split: option.splits if_splits)

lemma WithSortedTiers_simps [simp]:
  "tp_Mode (WithSortedTiers t) = tp_Mode t" "tp_Commitments (WithSortedTiers t) = tp_Commitments t"
  "set (tp_Tiers (WithSortedTiers t)) = set (tp_Tiers t)"
  by (simp_all add: WithSortedTiers_def)

lemma sorted_tiers: "sorted_wrt (\<lambda>a b. compare_tiers a b \<le> 0) (tp_Tiers (WithSortedTiers t))"
  unfolding WithSortedTiers_def by (simp add: tier_order.sorted_sort_by)

lemma bounds_of_perm: "mset ts = mset us \<Longrightarrow> distinct (bounds_of ts) = distinct (bounds_of us)"
  unfolding bounds_of_def by (metis mset_eq_imp_distinct_iff mset_filter mset_map)

lemma TP_Validate_sorted: "TP_Validate (WithSortedTiers t) = None \<longleftrightarrow> TP_Validate t = None"
  unfolding TP_Validate_None using bounds_of_perm [of "tp_Tiers (WithSortedTiers t)" "tp_Tiers t"]
  by (simp add: WithSortedTiers_def)

section \<open>A concrete price\<close>

definition sample_tier :: "decimal option \<Rightarrow> decimal \<Rightarrow> decimal \<Rightarrow> PriceTier" where
  "sample_tier u f a = \<lparr>pt_UpToAmount = u, pt_FlatPrice = Some \<lparr>tf_Amount = f\<rparr>, pt_UnitPrice = Some \<lparr>tu_Amount = a\<rparr>\<rparr>"

definition sample_tiered :: "TieredPriceMode \<Rightarrow> TieredPrice" where
  "sample_tiered m = \<lparr>tp_Commitments = no_commitments, tp_Mode = m,
     tp_Tiers = [sample_tier (Some 5) 3 2, sample_tier None 4 1]\<rparr>"

lemma sample_tiered_valid: "m \<in> {VolumeTieredPrice, GraduatedTieredPrice} \<Longrightarrow> TP_Validate (sample_tiered m) = None"
  by (auto simp: TP_Validate_None sample_tiered_def sample_tier_def tier_ok_def FromPtr_def bounds_of_def
      commitments_ok_def no_commitments_def)

section \<open>Properties\<close>

text \<open>
  A clone is as good as the original: cloning a price whose own kind is set never panics, drops
  what other kinds left behind, and the clone is equal to the price, validates with the same result
  and has the same commitments and payment term.
\<close>

theorem PR_Clone_equal:
  assumes "price_view p = Some v"
  shows "\<exists>q. PR_Clone p = Some q \<and> PR_Equal (Some p) (Some q) \<and> PR_Equal (Some q) (Some p) \<and>
    PR_Validate (Some q) = PR_Validate (Some p) \<and> PR_GetCommitments q = PR_GetCommitments p \<and>
    PR_GetPaymentTerm q = PR_GetPaymentTerm p"
  using price_view_Clone [OF assms] price_view_Equal [of p v] price_view_Equal [of "NewPriceFrom v" v]
    price_view_reads [of "NewPriceFrom v" p v] assms
  by (intro exI [of _ "NewPriceFrom v"]) simp

theorem PR_Clone_equal_witness:
  "\<exists>q. PR_Clone (FromTiered (NewPriceFrom (AnyFlat \<lparr>fp_Amount = 1, fp_PaymentTerm = NoPaymentTerm\<rparr>))
       (sample_tiered GraduatedTieredPrice)) = Some q \<and> PR_Validate (Some q) = Some None"
proof -
  let ?p = "FromTiered (NewPriceFrom (AnyFlat \<lparr>fp_Amount = 1, fp_PaymentTerm = NoPaymentTerm\<rparr>)) (sample_tiered GraduatedTieredPrice)"
  have "price_view ?p = Some (AnyTiered (sample_tiered GraduatedTieredPrice))"
    by (simp add: price_view_def FromTiered_def)
  moreover have "PR_Validate (Some ?p) = Some None"
    by (simp add: PR_Validate_def FromTiered_def sample_tiered_valid)
  ultimately show ?thesis using PR_Clone_equal by metis
qed

text \<open>
  C34. A tiered price passes validation exactly if its mode is volume or graduated, every tier has a
  price and no negative amount or bound, one tier is open-ended, the bounds other than zero are
  distinct and the commitments are in order; sorting the tiers does not change the verdict.
\<close>

theorem TP_Validate_exact:
  "(TP_Validate t = None \<longleftrightarrow> tp_Mode t \<in> {VolumeTieredPrice, GraduatedTieredPrice} \<and>
     list_all tier_ok (tp_Tiers t) \<and> distinct (bounds_of (tp_Tiers t)) \<and>
     list_ex (\<lambda>tier. pt_UpToAmount tier = None) (tp_Tiers t) \<and> commitments_ok (tp_Commitments t)) \<and>
   (TP_Validate (WithSortedTiers t) = None \<longleftrightarrow> TP_Validate t = None) \<and>
   sorted_wrt (\<lambda>a b. compare_tiers a b \<le> 0) (tp_Tiers (WithSortedTiers t))"
  using TP_Validate_None [of t] by (simp add: TP_Validate_sorted sorted_tiers list_all_iff list_ex_iff)

end
