(* ===== verification/Discounts.thy ===== *)
theory Discounts
  imports Totals Price
begin

text \<open>
  Discounts: of the product catalog (openmeter/productcatalog/discount.go), with correlation IDs in
  billing and the reason a line discount has (openmeter/billing/discount.go), and the discounts of a
  line with their IDs (openmeter/billing/invoicelinediscount.go). The hash of a discount is the hash
  function of package hasher, a parameter \<open>H\<close>, on the string of the decimal package. The field
  paths that \<open>ErrorWithFieldPrefix\<close> adds to an error are kept as wrapped messages. The JSON methods
  are left out.
\<close>

section \<open>Discounts of the product catalog\<close>

record PercentageDiscount =
  pd_Percentage :: Percentage

record UsageDiscount =
  ud_Quantity :: decimal

record CatalogDiscounts =
  cd_Percentage :: "PercentageDiscount option"
  cd_Usage :: "UsageDiscount option"

type_synonym hash_function = "string \<Rightarrow> 64 word"

definition PD_Hash :: "decimal_lib \<Rightarrow> hash_function \<Rightarrow> PercentageDiscount \<Rightarrow> 64 word" where
  "PD_Hash L H d = H (dl_String L (pd_Percentage d) @ ''%'')"

definition ErrPercentageDiscountInvalidValue :: error where
  "ErrPercentageDiscountInvalidValue = Err ''percentage must be between 0 and 100''"

definition PercentageDiscountWithValidValue :: "PercentageDiscount \<Rightarrow> error option" where
  "PercentageDiscountWithValidValue d =
     (if pd_Percentage d < 0 \<or> pd_Percentage d > 100 then Some ErrPercentageDiscountInvalidValue else None)"

text \<open>\<open>models.Validate\<close>: all validators run and their errors are joined.\<close>

definition models_Validate :: "'a \<Rightarrow> ('a \<Rightarrow> error option) list \<Rightarrow> error option" where
  "models_Validate v validators =
     nillable_validation (join_errors (concat (map (\<lambda>f. err_of (\<lambda>e. e) (f v)) validators)))"

definition PD_ValidateWith :: "PercentageDiscount \<Rightarrow> (PercentageDiscount \<Rightarrow> error option) list \<Rightarrow> error option" where
  "PD_ValidateWith d vs = models_Validate d vs"

definition PD_Validate :: "PercentageDiscount \<Rightarrow> error option" where
  "PD_Validate d = PD_ValidateWith d [PercentageDiscountWithValidValue]"

definition PD_ValidateForPrice :: "PercentageDiscount \<Rightarrow> Price option \<Rightarrow> error option" where
  "PD_ValidateForPrice d price = PD_Validate d"

definition PD_Clone :: "PercentageDiscount \<Rightarrow> PercentageDiscount" where
  "PD_Clone d = \<lparr>pd_Percentage = pd_Percentage d\<rparr>"

definition UD_Hash :: "decimal_lib \<Rightarrow> hash_function \<Rightarrow> UsageDiscount \<Rightarrow> 64 word" where
  "UD_Hash L H d = H (dl_String L (ud_Quantity d))"

definition ErrUsageDiscountNegativeQuantity :: error where
  "ErrUsageDiscountNegativeQuantity = Err ''usage must be greater than 0''"

definition ErrUsageDiscountWithFlatPrice :: error where
  "ErrUsageDiscountWithFlatPrice = Err ''usage discount is not supported for flat price''"

definition UsageDiscountWithValidValue :: "UsageDiscount \<Rightarrow> error option" where
  "UsageDiscountWithValidValue d = (if ud_Quantity d < 0 then Some ErrUsageDiscountNegativeQuantity else None)"

definition UD_ValidateWith :: "UsageDiscount \<Rightarrow> (UsageDiscount \<Rightarrow> error option) list \<Rightarrow> error option" where
  "UD_ValidateWith d vs = models_Validate d vs"

definition UD_Validate :: "UsageDiscount \<Rightarrow> error option" where
  "UD_Validate d = UD_ValidateWith d [UsageDiscountWithValidValue]"

definition UsageDiscountWithPrice :: "Price option \<Rightarrow> UsageDiscount \<Rightarrow> error option" where
  "UsageDiscountWithPrice price d =
     (case price of
        None \<Rightarrow> Some (Err ''price is required for usage discount'')
      | Some p \<Rightarrow> join_errors
          (err_of (\<lambda>e. e) (UD_Validate d) @ err_if (pr_t p = FlatPriceType) ErrUsageDiscountWithFlatPrice))"

definition UD_ValidateForPrice :: "UsageDiscount \<Rightarrow> Price option \<Rightarrow> error option" where
  "UD_ValidateForPrice d price = UD_ValidateWith d [UsageDiscountWithPrice price]"

definition UD_Clone :: "UsageDiscount \<Rightarrow> UsageDiscount" where
  "UD_Clone d = \<lparr>ud_Quantity = ud_Quantity d\<rparr>"

text \<open>\<open>equal.HasherPtrEqual\<close>\<close>

definition CDs_Equal :: "decimal_lib \<Rightarrow> hash_function \<Rightarrow> CatalogDiscounts \<Rightarrow> CatalogDiscounts \<Rightarrow> bool" where
  "CDs_Equal L H d v =
     (if \<not> PtrEqual (\<lambda>a b. PD_Hash L H a = PD_Hash L H b) (cd_Percentage d) (cd_Percentage v) then False
      else if \<not> PtrEqual (\<lambda>a b. UD_Hash L H a = UD_Hash L H b) (cd_Usage d) (cd_Usage v) then False
      else True)"

definition CDs_Clone :: "CatalogDiscounts \<Rightarrow> CatalogDiscounts" where
  "CDs_Clone d = \<lparr>cd_Percentage = map_option PD_Clone (cd_Percentage d), cd_Usage = map_option UD_Clone (cd_Usage d)\<rparr>"

definition CDs_IsEmpty :: "CatalogDiscounts \<Rightarrow> bool" where
  "CDs_IsEmpty d \<longleftrightarrow> cd_Percentage d = None \<and> cd_Usage d = None"

definition discounts_error :: "error list \<Rightarrow> error option" where
  "discounts_error errs = map_option (\<lambda>e. GenericValidation (Wrap ''discounts'' e)) (join_errors errs)"

definition CDs_Validate :: "CatalogDiscounts option \<Rightarrow> error option" where
  "CDs_Validate dd =
     (case dd of
        None \<Rightarrow> None
      | Some d \<Rightarrow> discounts_error
          (err_of (Wrap ''percentage'') (Option.bind (cd_Percentage d) PD_Validate) @
           err_of (Wrap ''usage'') (Option.bind (cd_Usage d) UD_Validate)))"

definition CDs_ValidateForPrice :: "CatalogDiscounts \<Rightarrow> Price option \<Rightarrow> error option" where
  "CDs_ValidateForPrice d price =
     (if \<not> CDs_IsEmpty d \<and> price = None then Some (Err ''price is required for discounts'')
      else discounts_error
        (err_of (Wrap ''percentage'') (Option.bind (cd_Percentage d) (\<lambda>p. PD_ValidateForPrice p price)) @
         err_of (Wrap ''usage'') (Option.bind (cd_Usage d) (\<lambda>u. UD_ValidateForPrice u price))))"

section \<open>Discounts in billing\<close>

record BillingPercentageDiscount =
  bp_PercentageDiscount :: PercentageDiscount
  bp_CorrelationID :: string

record BillingUsageDiscount =
  bu_UsageDiscount :: UsageDiscount
  bu_CorrelationID :: string

record Discounts =
  ds_Percentage :: "BillingPercentageDiscount option"
  ds_Usage :: "BillingUsageDiscount option"

definition BP_Clone :: "BillingPercentageDiscount \<Rightarrow> BillingPercentageDiscount" where
  "BP_Clone d = \<lparr>bp_PercentageDiscount = PD_Clone (bp_PercentageDiscount d), bp_CorrelationID = bp_CorrelationID d\<rparr>"

definition BP_CloneOrNil :: "BillingPercentageDiscount option \<Rightarrow> BillingPercentageDiscount option" where
  "BP_CloneOrNil d = map_option BP_Clone d"

text \<open>The fresh ULID is the argument \<open>ulid\<close>.\<close>

definition BP_UpsertCorrelationID :: "string \<Rightarrow> BillingPercentageDiscount option \<Rightarrow> BillingPercentageDiscount option" where
  "BP_UpsertCorrelationID ulid dd =
     (case dd of
        None \<Rightarrow> None
      | Some d \<Rightarrow> let out = BP_Clone d
          in Some (if bp_CorrelationID out = [] then out\<lparr>bp_CorrelationID := ulid\<rparr> else out))"

definition BP_Equal :: "decimal_lib \<Rightarrow> hash_function \<Rightarrow> BillingPercentageDiscount \<Rightarrow> BillingPercentageDiscount \<Rightarrow> bool" where
  "BP_Equal L H d other =
     (if PD_Hash L H (bp_PercentageDiscount d) \<noteq> PD_Hash L H (bp_PercentageDiscount other) then False
      else if bp_CorrelationID d \<noteq> bp_CorrelationID other then False else True)"

definition BU_Clone :: "BillingUsageDiscount \<Rightarrow> BillingUsageDiscount" where
  "BU_Clone d = \<lparr>bu_UsageDiscount = UD_Clone (bu_UsageDiscount d), bu_CorrelationID = bu_CorrelationID d\<rparr>"

definition BU_UpsertCorrelationID :: "string \<Rightarrow> BillingUsageDiscount option \<Rightarrow> BillingUsageDiscount option" where
  "BU_UpsertCorrelationID ulid dd =
     (case dd of
        None \<Rightarrow> None
      | Some d \<Rightarrow> let out = BU_Clone d
          in Some (if bu_CorrelationID out = [] then out\<lparr>bu_CorrelationID := ulid\<rparr> else out))"

definition BU_Equal :: "decimal_lib \<Rightarrow> hash_function \<Rightarrow> BillingUsageDiscount \<Rightarrow> BillingUsageDiscount \<Rightarrow> bool" where
  "BU_Equal L H d other =
     (if UD_Hash L H (bu_UsageDiscount d) \<noteq> UD_Hash L H (bu_UsageDiscount other) then False
      else if bu_CorrelationID d \<noteq> bu_CorrelationID other then False else True)"

definition DS_Clone :: "Discounts \<Rightarrow> Discounts" where
  "DS_Clone d = \<lparr>ds_Percentage = map_option BP_Clone (ds_Percentage d), ds_Usage = map_option BU_Clone (ds_Usage d)\<rparr>"

definition DS_IsEmpty :: "Discounts \<Rightarrow> bool" where
  "DS_IsEmpty d \<longleftrightarrow> ds_Percentage d = None \<and> ds_Usage d = None"

definition DS_ValidateForPrice :: "Discounts \<Rightarrow> Price option \<Rightarrow> error option" where
  "DS_ValidateForPrice d price = nillable_validation (join_errors
     (err_of (Wrap ''percentage'')
        (Option.bind (ds_Percentage d) (\<lambda>p. PD_ValidateForPrice (bp_PercentageDiscount p) price)) @
      err_of (Wrap ''usage'')
        (Option.bind (ds_Usage d) (\<lambda>u. UD_ValidateForPrice (bu_UsageDiscount u) price))))"

definition DS_Equal :: "decimal_lib \<Rightarrow> hash_function \<Rightarrow> Discounts \<Rightarrow> Discounts \<Rightarrow> bool" where
  "DS_Equal L H d other =
     (if \<not> PtrEqual (BP_Equal L H) (ds_Percentage d) (ds_Percentage other) then False
      else if \<not> PtrEqual (BU_Equal L H) (ds_Usage d) (ds_Usage other) then False else True)"

definition DS_Validate :: "Discounts \<Rightarrow> error option" where
  "DS_Validate d = nillable_validation (join_errors
     (err_of (Wrap ''percentage'') (Option.bind (ds_Percentage d) (\<lambda>p. PD_Validate (bp_PercentageDiscount p))) @
      err_of (Wrap ''usage'') (Option.bind (ds_Usage d) (\<lambda>u. UD_Validate (bu_UsageDiscount u)))))"

definition DiscountsFromProductCatalog :: "CatalogDiscounts \<Rightarrow> Discounts" where
  "DiscountsFromProductCatalog d =
     \<lparr>ds_Percentage = map_option (\<lambda>p. \<lparr>bp_PercentageDiscount = PD_Clone p, bp_CorrelationID = []\<rparr>) (cd_Percentage d),
      ds_Usage = map_option (\<lambda>u. \<lparr>bu_UsageDiscount = UD_Clone u, bu_CorrelationID = []\<rparr>) (cd_Usage d)\<rparr>"

definition UpsertCorrelationIDs :: "string \<Rightarrow> string \<Rightarrow> Discounts \<Rightarrow> Discounts" where
  "UpsertCorrelationIDs ulid ulid' d =
     d\<lparr>ds_Percentage := BP_UpsertCorrelationID ulid (ds_Percentage d),
       ds_Usage := BU_UpsertCorrelationID ulid' (ds_Usage d)\<rparr>"

section \<open>Reasons\<close>

datatype DiscountReasonType = MaximumSpendDiscountReason | RatecardPercentageDiscountReason
  | RatecardUsageDiscountReason | OtherDiscountReason string

record DiscountReason =
  dr_t :: DiscountReasonType
  dr_percentage :: "BillingPercentageDiscount option"
  dr_usage :: "BillingUsageDiscount option"

datatype any_discount = AnyPercentage BillingPercentageDiscount | AnyCatalogPercentage PercentageDiscount
  | AnyUsage BillingUsageDiscount | AnyCatalogUsage UsageDiscount | AnyMaximumSpend

fun NewDiscountReasonFrom :: "any_discount \<Rightarrow> DiscountReason" where
  "NewDiscountReasonFrom (AnyPercentage p) =
     \<lparr>dr_t = RatecardPercentageDiscountReason, dr_percentage = Some p, dr_usage = None\<rparr>"
| "NewDiscountReasonFrom (AnyCatalogPercentage p) =
     \<lparr>dr_t = RatecardPercentageDiscountReason,
      dr_percentage = Some \<lparr>bp_PercentageDiscount = p, bp_CorrelationID = []\<rparr>, dr_usage = None\<rparr>"
| "NewDiscountReasonFrom (AnyUsage u) =
     \<lparr>dr_t = RatecardUsageDiscountReason, dr_percentage = None, dr_usage = Some u\<rparr>"
| "NewDiscountReasonFrom (AnyCatalogUsage u) =
     \<lparr>dr_t = RatecardUsageDiscountReason, dr_percentage = None,
      dr_usage = Some \<lparr>bu_UsageDiscount = u, bu_CorrelationID = []\<rparr>\<rparr>"
| "NewDiscountReasonFrom AnyMaximumSpend =
     \<lparr>dr_t = MaximumSpendDiscountReason, dr_percentage = None, dr_usage = None\<rparr>"

definition AsRatecardPercentage :: "DiscountReason \<Rightarrow> BillingPercentageDiscount result" where
  "AsRatecardPercentage d =
     (if dr_t d \<noteq> RatecardPercentageDiscountReason then Inl (Err ''invalid discount type'')
      else case dr_percentage d of None \<Rightarrow> Inl (Err ''percentage discount is missing'') | Some p \<Rightarrow> Inr p)"

definition AsRatecardUsage :: "DiscountReason \<Rightarrow> BillingUsageDiscount result" where
  "AsRatecardUsage d =
     (if dr_t d \<noteq> RatecardUsageDiscountReason then Inl (Err ''invalid discount type'')
      else case dr_usage d of None \<Rightarrow> Inl (Err ''usage discount is missing'') | Some u \<Rightarrow> Inr u)"

definition AsMaximumSpend :: "DiscountReason \<Rightarrow> unit result" where
  "AsMaximumSpend d =
     (if dr_t d \<noteq> MaximumSpendDiscountReason then Inl (Err ''invalid discount type'') else Inr ())"

definition DR_Validate :: "DiscountReason \<Rightarrow> error option" where
  "DR_Validate d =
     (case dr_t d of
        RatecardPercentageDiscountReason \<Rightarrow>
          (case dr_percentage d of None \<Rightarrow> Some nil_deref | Some p \<Rightarrow> PD_Validate (bp_PercentageDiscount p))
      | RatecardUsageDiscountReason \<Rightarrow>
          (case dr_usage d of None \<Rightarrow> Some nil_deref | Some u \<Rightarrow> UD_Validate (bu_UsageDiscount u))
      | MaximumSpendDiscountReason \<Rightarrow> None
      | OtherDiscountReason _ \<Rightarrow> Some (Err ''invalid discount type''))"

definition DR_Equal :: "decimal_lib \<Rightarrow> hash_function \<Rightarrow> DiscountReason \<Rightarrow> DiscountReason \<Rightarrow> bool" where
  "DR_Equal L H this that \<longleftrightarrow> dr_t this = dr_t that \<and>
     PtrEqual (BP_Equal L H) (dr_percentage this) (dr_percentage that) \<and>
     PtrEqual (BU_Equal L H) (dr_usage this) (dr_usage that)"

section \<open>Discounts of a line\<close>

text \<open>\<open>models.ManagedModelWithID\<close> (pkg/models/model.go) and \<open>externalid.LineExternalIDs\<close>.\<close>

record ManagedModel =
  mm_CreatedAt :: time
  mm_UpdatedAt :: time
  mm_DeletedAt :: "time option"

record ManagedModelWithID = ManagedModel +
  mm_ID :: string

definition MM_Equal :: "ManagedModel \<Rightarrow> ManagedModel \<Rightarrow> bool" where
  "MM_Equal m other =
     (if mm_CreatedAt m \<noteq> mm_CreatedAt other then False
      else if mm_UpdatedAt m \<noteq> mm_UpdatedAt other then False
      else if \<not> PtrEqual (=) (mm_DeletedAt m) (mm_DeletedAt other) then False else True)"

definition MMID_Equal :: "ManagedModelWithID \<Rightarrow> ManagedModelWithID \<Rightarrow> bool" where
  "MMID_Equal m other =
     (if mm_ID m \<noteq> mm_ID other then False
      else MM_Equal (ManagedModel.truncate m) (ManagedModel.truncate other))"

definition zero_managed :: ManagedModelWithID where
  "zero_managed = \<lparr>mm_CreatedAt = 0, mm_UpdatedAt = 0, mm_DeletedAt = None, mm_ID = []\<rparr>"

record LineExternalIDs =
  xi_Invoicing :: string

definition XI_Equal :: "LineExternalIDs \<Rightarrow> LineExternalIDs \<Rightarrow> bool" where
  "XI_Equal i other \<longleftrightarrow> xi_Invoicing i = xi_Invoicing other"

record LineDiscountBase =
  lb_Description :: "string option"
  lb_ChildUniqueReferenceID :: "string option"
  lb_ExternalIDs :: LineExternalIDs
  lb_Reason :: DiscountReason

definition LineMaximumSpendReferenceID :: string where
  "LineMaximumSpendReferenceID = ''line_maximum_spend''"

definition LB_Validate :: "LineDiscountBase \<Rightarrow> error option" where
  "LB_Validate i = join_errors (err_of (\<lambda>e. e) (DR_Validate (lb_Reason i)))"

definition LB_Equal :: "decimal_lib \<Rightarrow> hash_function \<Rightarrow> LineDiscountBase \<Rightarrow> LineDiscountBase \<Rightarrow> bool" where
  "LB_Equal L H this that \<longleftrightarrow>
     PtrEqual (=) (lb_Description this) (lb_Description that) \<and>
     PtrEqual (=) (lb_ChildUniqueReferenceID this) (lb_ChildUniqueReferenceID that) \<and>
     XI_Equal (lb_ExternalIDs this) (lb_ExternalIDs that) \<and> DR_Equal L H (lb_Reason this) (lb_Reason that)"

definition LB_Clone :: "LineDiscountBase \<Rightarrow> LineDiscountBase" where
  "LB_Clone i = i"

record AmountLineDiscount =
  al_Base :: LineDiscountBase
  al_Amount :: decimal
  al_RoundingAmount :: decimal

definition AL_Validate :: "AmountLineDiscount \<Rightarrow> error option" where
  "AL_Validate i = join_errors
     (err_of (\<lambda>e. e) (LB_Validate (al_Base i)) @
      err_if (al_Amount i < 0) (Err ''amount should be positive or zero''))"

definition AL_Equal :: "decimal_lib \<Rightarrow> hash_function \<Rightarrow> AmountLineDiscount \<Rightarrow> AmountLineDiscount \<Rightarrow> bool" where
  "AL_Equal L H this that \<longleftrightarrow> LB_Equal L H (al_Base this) (al_Base that) \<and>
     al_Amount this = al_Amount that \<and> al_RoundingAmount this = al_RoundingAmount that"

definition AL_Clone :: "AmountLineDiscount \<Rightarrow> AmountLineDiscount" where
  "AL_Clone i = \<lparr>al_Base = LB_Clone (al_Base i), al_Amount = al_Amount i, al_RoundingAmount = al_RoundingAmount i\<rparr>"

record AmountLineDiscountManaged =
  am_Managed :: ManagedModelWithID
  am_Discount :: AmountLineDiscount

definition AM_Validate :: "AmountLineDiscountManaged \<Rightarrow> error option" where
  "AM_Validate i = join_errors (err_of (\<lambda>e. e) (AL_Validate (am_Discount i)))"

definition AM_Equal :: "decimal_lib \<Rightarrow> hash_function \<Rightarrow> AmountLineDiscountManaged \<Rightarrow> AmountLineDiscountManaged \<Rightarrow> bool" where
  "AM_Equal L H this that \<longleftrightarrow> MMID_Equal (am_Managed this) (am_Managed that) \<and>
     AL_Equal L H (am_Discount this) (am_Discount that)"

definition AM_Clone :: "AmountLineDiscountManaged \<Rightarrow> AmountLineDiscountManaged" where
  "AM_Clone i = \<lparr>am_Managed = am_Managed i, am_Discount = AL_Clone (am_Discount i)\<rparr>"

definition AM_ContentsEqual :: "decimal_lib \<Rightarrow> hash_function \<Rightarrow> AmountLineDiscountManaged \<Rightarrow> AmountLineDiscountManaged \<Rightarrow> bool" where
  "AM_ContentsEqual L H i other \<longleftrightarrow> AL_Equal L H (am_Discount i) (am_Discount other)"

definition AM_WithManagedFieldsWithID :: "AmountLineDiscountManaged \<Rightarrow> ManagedModelWithID \<Rightarrow> AmountLineDiscountManaged" where
  "AM_WithManagedFieldsWithID i managed = \<lparr>am_Managed = managed, am_Discount = AL_Clone (am_Discount i)\<rparr>"

definition AM_GetChildUniqueReferenceID :: "AmountLineDiscountManaged \<Rightarrow> string option" where
  "AM_GetChildUniqueReferenceID i = lb_ChildUniqueReferenceID (al_Base (am_Discount i))"

definition AMs_Clone :: "AmountLineDiscountManaged list \<Rightarrow> AmountLineDiscountManaged list" where
  "AMs_Clone i = map AM_Clone i"

definition AMs_SumAmount :: "currency_ops \<Rightarrow> AmountLineDiscountManaged list \<Rightarrow> decimal" where
  "AMs_SumAmount C i = foldl (\<lambda>sum amount. sum + cur_RoundToPrecision C (al_Amount (am_Discount amount)) +
     cur_RoundToPrecision C (al_RoundingAmount (am_Discount amount))) 0 i"

definition AMs_GetByID :: "AmountLineDiscountManaged list \<Rightarrow> string \<Rightarrow> AmountLineDiscountManaged option" where
  "AMs_GetByID i = foldl (\<lambda>out amount. out(mm_ID (am_Managed amount) \<mapsto> amount)) Map.empty i"

definition GetDiscountByChildUniqueReferenceID :: "AmountLineDiscountManaged list \<Rightarrow> string \<Rightarrow> AmountLineDiscountManaged option" where
  "GetDiscountByChildUniqueReferenceID i ref =
     find (\<lambda>amount. AM_GetChildUniqueReferenceID amount = Some ref) i"

fun AMs_Mutate :: "(AmountLineDiscountManaged \<Rightarrow> AmountLineDiscountManaged result)
    \<Rightarrow> AmountLineDiscountManaged list \<Rightarrow> AmountLineDiscountManaged list result" where
  "AMs_Mutate mutator [] = Inr []"
| "AMs_Mutate mutator (x # xs) =
     bind_result (mutator (AM_Clone x)) (\<lambda>mutated. bind_result (AMs_Mutate mutator xs) (\<lambda>rest. Inr (mutated # rest)))"

definition AMs_Validate :: "AmountLineDiscountManaged list \<Rightarrow> error option" where
  "AMs_Validate i = join_errors (concat (map (\<lambda>amount. err_of (Wrap ''amount'') (AM_Validate amount)) i))"

record UsageLineDiscount =
  ul_Base :: LineDiscountBase
  ul_Quantity :: decimal
  ul_PreLinePeriodQuantity :: "decimal option"

definition UL_Validate :: "UsageLineDiscount \<Rightarrow> error option" where
  "UL_Validate i = join_errors
     (err_of (\<lambda>e. e) (LB_Validate (ul_Base i)) @
      err_if (ul_Quantity i < 0) (Err ''quantity should be positive or zero'') @
      err_if (case ul_PreLinePeriodQuantity i of None \<Rightarrow> False | Some q \<Rightarrow> q < 0)
        (Err ''preLinePeriodQuantity should be positive or zero''))"

definition UL_Equal :: "decimal_lib \<Rightarrow> hash_function \<Rightarrow> UsageLineDiscount \<Rightarrow> UsageLineDiscount \<Rightarrow> bool" where
  "UL_Equal L H this that \<longleftrightarrow> LB_Equal L H (ul_Base this) (ul_Base that) \<and> ul_Quantity this = ul_Quantity that \<and>
     PtrEqual (=) (ul_PreLinePeriodQuantity this) (ul_PreLinePeriodQuantity that)"

definition UL_Clone :: "UsageLineDiscount \<Rightarrow> UsageLineDiscount" where
  "UL_Clone i = \<lparr>ul_Base = LB_Clone (ul_Base i), ul_Quantity = ul_Quantity i,
     ul_PreLinePeriodQuantity = ul_PreLinePeriodQuantity i\<rparr>"

record UsageLineDiscountManaged =
  um_Managed :: ManagedModelWithID
  um_Discount :: UsageLineDiscount

definition UM_Validate :: "UsageLineDiscountManaged \<Rightarrow> error option" where
  "UM_Validate i = join_errors (err_of (\<lambda>e. e) (UL_Validate (um_Discount i)))"

definition UM_Equal :: "decimal_lib \<Rightarrow> hash_function \<Rightarrow> UsageLineDiscountManaged \<Rightarrow> UsageLineDiscountManaged \<Rightarrow> bool" where
  "UM_Equal L H this that \<longleftrightarrow> MMID_Equal (um_Managed this) (um_Managed that) \<and>
     UL_Equal L H (um_Discount this) (um_Discount that)"

definition UM_Clone :: "UsageLineDiscountManaged \<Rightarrow> UsageLineDiscountManaged" where
  "UM_Clone i = \<lparr>um_Managed = um_Managed i, um_Discount = UL_Clone (um_Discount i)\<rparr>"

definition UM_ContentsEqual :: "decimal_lib \<Rightarrow> hash_function \<Rightarrow> UsageLineDiscountManaged \<Rightarrow> UsageLineDiscountManaged \<Rightarrow> bool" where
  "UM_ContentsEqual L H i other \<longleftrightarrow> UL_Equal L H (um_Discount i) (um_Discount other)"

definition UM_WithManagedFieldsWithID :: "UsageLineDiscountManaged \<Rightarrow> ManagedModelWithID \<Rightarrow> UsageLineDiscountManaged" where
  "UM_WithManagedFieldsWithID i managed = \<lparr>um_Managed = managed, um_Discount = UL_Clone (um_Discount i)\<rparr>"

definition UM_GetChildUniqueReferenceID :: "UsageLineDiscountManaged \<Rightarrow> string option" where
  "UM_GetChildUniqueReferenceID i = lb_ChildUniqueReferenceID (ul_Base (um_Discount i))"

definition UMs_Clone :: "UsageLineDiscountManaged list \<Rightarrow> UsageLineDiscountManaged list" where
  "UMs_Clone d = map UM_Clone d"

text \<open>The managed fields carried over to a replacement: the ID and the creation time.\<close>

definition carried_over :: "ManagedModelWithID \<Rightarrow> ManagedModelWithID" where
  "carried_over old = zero_managed\<lparr>mm_ID := mm_ID old, mm_CreatedAt := mm_CreatedAt old\<rparr>"

fun find_index :: "('a \<Rightarrow> bool) \<Rightarrow> 'a list \<Rightarrow> (nat \<times> 'a) option" where
  "find_index P [] = None"
| "find_index P (x # xs) = (if P x then Some (0, x) else map_option (\<lambda>(i, y). (Suc i, y)) (find_index P xs))"

definition MergeDiscountsByChildUniqueReferenceID :: "UsageLineDiscountManaged list \<Rightarrow> UsageLineDiscountManaged
    \<Rightarrow> UsageLineDiscountManaged list" where
  "MergeDiscountsByChildUniqueReferenceID d newDiscount =
     (let out = UMs_Clone d
      in case UM_GetChildUniqueReferenceID newDiscount of
           None \<Rightarrow> out @ [newDiscount]
         | Some ref \<Rightarrow>
             (case find_index (\<lambda>item. UM_GetChildUniqueReferenceID item = Some ref) out of
                None \<Rightarrow> out @ [newDiscount]
              | Some (idx, oldDiscount) \<Rightarrow>
                  out[idx := UM_WithManagedFieldsWithID newDiscount (carried_over (um_Managed oldDiscount))]))"

record StandardLineDiscounts =
  sd_Usage :: "UsageLineDiscountManaged list"

definition SD_Clone :: "StandardLineDiscounts \<Rightarrow> StandardLineDiscounts" where
  "SD_Clone i = (if length (sd_Usage i) > 0 then \<lparr>sd_Usage = map UM_Clone (sd_Usage i)\<rparr> else \<lparr>sd_Usage = []\<rparr>)"

definition SD_Validate :: "StandardLineDiscounts \<Rightarrow> error option" where
  "SD_Validate i = nillable_validation (join_errors
     (concat (map (\<lambda>usage. err_of (Wrap ''usage'') (UM_Validate usage)) (sd_Usage i))))"

text \<open>
  \<open>ReuseIDsFrom\<close> for any kind of line discount, given its accessors: the first existing item of the
  group with the same reference lends its ID.
\<close>

definition ReuseIDsFrom :: "('t \<Rightarrow> string option) \<Rightarrow> ('t \<Rightarrow> ManagedModelWithID) \<Rightarrow> ('t \<Rightarrow> ManagedModelWithID \<Rightarrow> 't)
    \<Rightarrow> 't list \<Rightarrow> 't list \<Rightarrow> 't list" where
  "ReuseIDsFrom ref managed with_managed currentItems dbExistingItems =
     (if length currentItems = 0 then []
      else let existingItemsByUniqueReference =
                 (\<lambda>r. filter (\<lambda>item. ref item = Some r) (filter (\<lambda>item. ref item \<noteq> None) dbExistingItems))
      in map (\<lambda>discount. case ref discount of
             None \<Rightarrow> discount
           | Some r \<Rightarrow> (case existingItemsByUniqueReference r of
                [] \<Rightarrow> discount
              | existing # _ \<Rightarrow> with_managed discount (carried_over (managed existing)))) currentItems)"

definition AMs_ReuseIDsFrom :: "AmountLineDiscountManaged list \<Rightarrow> AmountLineDiscountManaged list \<Rightarrow> AmountLineDiscountManaged list" where
  "AMs_ReuseIDsFrom i existingItems =
     ReuseIDsFrom AM_GetChildUniqueReferenceID am_Managed AM_WithManagedFieldsWithID i existingItems"

definition SD_ReuseIDsFrom :: "StandardLineDiscounts \<Rightarrow> StandardLineDiscounts \<Rightarrow> StandardLineDiscounts" where
  "SD_ReuseIDsFrom i existingItems = \<lparr>sd_Usage =
     ReuseIDsFrom UM_GetChildUniqueReferenceID um_Managed UM_WithManagedFieldsWithID (sd_Usage i) (sd_Usage existingItems)\<rparr>"

section \<open>Lemmas\<close>

lemma Clone_contents [simp]: "AL_Clone a = a" "UL_Clone u = u" "AM_Clone x = x" "UM_Clone y = y"
  by (simp_all add: AL_Clone_def UL_Clone_def AM_Clone_def UM_Clone_def LB_Clone_def)

lemma UMs_Clone_id [simp]: "UMs_Clone ds = ds"
  by (simp add: UMs_Clone_def map_idI)

lemma SD_Clone_id [simp]: "SD_Clone d = d"
  by (cases d) (simp add: SD_Clone_def map_idI)

lemma AMs_SumAmount_eq:
  "AMs_SumAmount C ds = (\<Sum>d\<leftarrow>ds. cur_RoundToPrecision C (al_Amount (am_Discount d)) +
     cur_RoundToPrecision C (al_RoundingAmount (am_Discount d)))"
  unfolding AMs_SumAmount_def
  by (simp add: add.assoc)

lemma PD_Validate_None: "PD_Validate d = None \<longleftrightarrow> 0 \<le> pd_Percentage d \<and> pd_Percentage d \<le> 100"
  by (auto simp: PD_Validate_def PD_ValidateWith_def models_Validate_def PercentageDiscountWithValidValue_def err_of_def)

lemma UD_Validate_None: "UD_Validate d = None \<longleftrightarrow> 0 \<le> ud_Quantity d"
  by (auto simp: UD_Validate_def UD_ValidateWith_def models_Validate_def UsageDiscountWithValidValue_def err_of_def)

lemma UD_ValidateForPrice_None:
  "UD_ValidateForPrice d price = None \<longleftrightarrow> 0 \<le> ud_Quantity d \<and> (\<exists>p. price = Some p \<and> pr_t p \<noteq> FlatPriceType)"
  using UD_Validate_None [of d]
  by (cases price; cases "UD_Validate d") (auto simp: UD_ValidateForPrice_def UD_ValidateWith_def models_Validate_def
      UsageDiscountWithPrice_def err_of_def join_errors_def err_if_def)

lemma find_index_Some:
  "find_index P xs = Some (i, x) \<Longrightarrow> i < length xs \<and> xs ! i = x \<and> P x \<and> (\<forall>j < i. \<not> P (xs ! j))"
proof (induction xs arbitrary: i)
  case (Cons y ys)
  then show ?case
    by (cases "P y"; cases i) (auto simp: less_Suc_eq_0_disj)
qed simp

lemma find_index_None: "find_index P xs = None \<longleftrightarrow> (\<forall>x \<in> set xs. \<not> P x)"
  by (induction xs) auto

lemma find_first: "filter P xs = y # ys \<Longrightarrow> find P xs = Some y"
  by (induction xs) (auto split: if_splits)

lemma find_none: "filter P xs = [] \<Longrightarrow> find P xs = None"
  by (induction xs) (auto split: if_splits)

text \<open>Which existing item a new one takes its ID from.\<close>

definition match_of :: "UsageLineDiscountManaged list \<Rightarrow> UsageLineDiscountManaged \<Rightarrow> UsageLineDiscountManaged option" where
  "match_of existing item = (case UM_GetChildUniqueReferenceID item of None \<Rightarrow> None
     | Some r \<Rightarrow> find (\<lambda>e. UM_GetChildUniqueReferenceID e = Some r) existing)"

lemma SD_ReuseIDsFrom_map:
  "sd_Usage (SD_ReuseIDsFrom new old) =
     map (\<lambda>item. case match_of (sd_Usage old) item of None \<Rightarrow> item
        | Some e \<Rightarrow> UM_WithManagedFieldsWithID item (carried_over (um_Managed e))) (sd_Usage new)"
proof -
  have f: "filter (\<lambda>item. UM_GetChildUniqueReferenceID item = Some r)
      (filter (\<lambda>item. UM_GetChildUniqueReferenceID item \<noteq> None) xs) =
      filter (\<lambda>item. UM_GetChildUniqueReferenceID item = Some r) xs" for r xs
    by (induction xs) auto
  show ?thesis
    unfolding SD_ReuseIDsFrom_def ReuseIDsFrom_def Let_def f
    by (auto simp: match_of_def dest: find_first find_none split: option.splits list.splits)
qed

lemma carried_over_simps [simp]:
  "mm_ID (carried_over m) = mm_ID m" "mm_CreatedAt (carried_over m) = mm_CreatedAt m"
  "mm_DeletedAt (carried_over m) = None"
  by (simp_all add: carried_over_def zero_managed_def)

lemma UM_WithManaged_simps [simp]:
  "um_Managed (UM_WithManagedFieldsWithID i m) = m" "um_Discount (UM_WithManagedFieldsWithID i m) = um_Discount i"
  by (simp_all add: UM_WithManagedFieldsWithID_def)

lemma Merge_cases:
  assumes "UM_GetChildUniqueReferenceID new = Some r"
  shows "(\<forall>d \<in> set ds. UM_GetChildUniqueReferenceID d \<noteq> Some r) \<and>
      MergeDiscountsByChildUniqueReferenceID ds new = ds @ [new] \<or>
    (\<exists>i < length ds. UM_GetChildUniqueReferenceID (ds ! i) = Some r \<and>
      (\<forall>j < i. UM_GetChildUniqueReferenceID (ds ! j) \<noteq> Some r) \<and>
      MergeDiscountsByChildUniqueReferenceID ds new =
        ds[i := UM_WithManagedFieldsWithID new (carried_over (um_Managed (ds ! i)))])"
proof (cases "find_index (\<lambda>item. UM_GetChildUniqueReferenceID item = Some r) ds")
  case None
  then show ?thesis using assms
    using find_index_None [of "\<lambda>item. UM_GetChildUniqueReferenceID item = Some r" ds]
    by (simp add: MergeDiscountsByChildUniqueReferenceID_def)
next
  case (Some p)
  obtain i old where p: "p = (i, old)" by fastforce
  then show ?thesis using assms Some find_index_Some [OF Some [unfolded p]]
    by (auto simp: MergeDiscountsByChildUniqueReferenceID_def)
qed

section \<open>Properties\<close>

text \<open>
  Reusing IDs touches nothing else: the new line discounts keep their order and their contents; one
  whose reference is known takes the ID and creation time of the first existing item with that
  reference and is not marked deleted, any other keeps its own managed fields.
\<close>

theorem ReuseIDsFrom_keeps:
  assumes "k < length (sd_Usage new)"
  shows "length (sd_Usage (SD_ReuseIDsFrom new old)) = length (sd_Usage new) \<and>
    um_Discount (sd_Usage (SD_ReuseIDsFrom new old) ! k) = um_Discount (sd_Usage new ! k) \<and>
    (case match_of (sd_Usage old) (sd_Usage new ! k) of
       None \<Rightarrow> um_Managed (sd_Usage (SD_ReuseIDsFrom new old) ! k) = um_Managed (sd_Usage new ! k)
     | Some e \<Rightarrow> mm_ID (um_Managed (sd_Usage (SD_ReuseIDsFrom new old) ! k)) = mm_ID (um_Managed e) \<and>
         mm_CreatedAt (um_Managed (sd_Usage (SD_ReuseIDsFrom new old) ! k)) = mm_CreatedAt (um_Managed e) \<and>
         mm_DeletedAt (um_Managed (sd_Usage (SD_ReuseIDsFrom new old) ! k)) = None)"
  using assms by (simp add: SD_ReuseIDsFrom_map split: option.splits)

definition sample_usage_discount :: "string \<Rightarrow> string \<Rightarrow> decimal \<Rightarrow> UsageLineDiscountManaged" where
  "sample_usage_discount i r q = \<lparr>um_Managed = zero_managed\<lparr>mm_ID := i, mm_DeletedAt := Some 7\<rparr>,
     um_Discount = \<lparr>ul_Base = \<lparr>lb_Description = None, lb_ChildUniqueReferenceID = Some r,
       lb_ExternalIDs = \<lparr>xi_Invoicing = []\<rparr>, lb_Reason = NewDiscountReasonFrom (AnyCatalogUsage \<lparr>ud_Quantity = q\<rparr>)\<rparr>,
       ul_Quantity = q, ul_PreLinePeriodQuantity = None\<rparr>\<rparr>"

theorem ReuseIDsFrom_keeps_witness:
  "mm_ID (um_Managed (sd_Usage (SD_ReuseIDsFrom \<lparr>sd_Usage = [sample_usage_discount [] ''r'' 3]\<rparr>
     \<lparr>sd_Usage = [sample_usage_discount ''x'' ''q'' 1, sample_usage_discount ''y'' ''r'' 2]\<rparr>) ! 0)) = ''y''"
  using ReuseIDsFrom_keeps [of 0 "\<lparr>sd_Usage = [sample_usage_discount [] ''r'' 3]\<rparr>"
      "\<lparr>sd_Usage = [sample_usage_discount ''x'' ''q'' 1, sample_usage_discount ''y'' ''r'' 2]\<rparr>"]
  by (simp add: match_of_def sample_usage_discount_def UM_GetChildUniqueReferenceID_def zero_managed_def)

text \<open>
  Merging a discount of a line keeps at most one discount for its reference: if no two discounts
  shared a reference before, none do after, the new quantity is found under the reference, and a
  discount that was already stored under it lends its ID.
\<close>

theorem Merge_unique:
  assumes "UM_GetChildUniqueReferenceID new = Some r"
    and "distinct (map UM_GetChildUniqueReferenceID (filter (\<lambda>d. UM_GetChildUniqueReferenceID d \<noteq> None) ds))"
  shows "let out = MergeDiscountsByChildUniqueReferenceID ds new in
    distinct (map UM_GetChildUniqueReferenceID (filter (\<lambda>d. UM_GetChildUniqueReferenceID d \<noteq> None) out)) \<and>
    (\<exists>m. find (\<lambda>d. UM_GetChildUniqueReferenceID d = Some r) out = Some m \<and> um_Discount m = um_Discount new \<and>
       (case find (\<lambda>d. UM_GetChildUniqueReferenceID d = Some r) ds of
          None \<Rightarrow> m = new \<and> out = ds @ [new]
        | Some old \<Rightarrow> mm_ID (um_Managed m) = mm_ID (um_Managed old) \<and> length out = length ds))"
proof -
  let ?ref = UM_GetChildUniqueReferenceID
  let ?out = "MergeDiscountsByChildUniqueReferenceID ds new"
  show ?thesis
    using Merge_cases [OF assms(1), of ds]
  proof (elim disjE exE conjE)
    assume n: "\<forall>d \<in> set ds. ?ref d \<noteq> Some r" and o: "?out = ds @ [new]"
    have "find (\<lambda>d. ?ref d = Some r) ds = None" using n by (auto simp: find_None_iff)
    moreover have "find (\<lambda>d. ?ref d = Some r) (ds @ [new]) = Some new"
      using n assms(1) by (induction ds) auto
    ultimately show ?thesis using assms n o by (auto simp: Let_def image_iff)
  next
    fix i assume i: "i < length ds" "?ref (ds ! i) = Some r" "\<forall>j < i. ?ref (ds ! j) \<noteq> Some r"
    let ?m = "UM_WithManagedFieldsWithID new (carried_over (um_Managed (ds ! i)))"
    assume o: "?out = ds[i := ?m]"
    have m: "?ref ?m = Some r" using assms(1) by (simp add: UM_GetChildUniqueReferenceID_def)
    have "map ?ref ?out = map ?ref ds" unfolding o using m i(1,2) by (metis list_update_id map_update)
    then have "filter (\<lambda>x. x \<noteq> None) (map ?ref ?out) = filter (\<lambda>x. x \<noteq> None) (map ?ref ds)" by simp
    then have d: "distinct (map ?ref (filter (\<lambda>d. ?ref d \<noteq> None) ?out))"
      using assms(2) by (simp add: filter_map o_def)
    have "find (\<lambda>d. ?ref d = Some r) ds = Some (ds ! i)"
      unfolding find_Some_iff using i by blast
    moreover have "find (\<lambda>d. ?ref d = Some r) ?out = Some ?m"
      unfolding find_Some_iff o using i m by (auto intro!: exI [of _ i])
    ultimately show ?thesis using d by (simp add: Let_def o)
  qed
qed

theorem Merge_unique_witness:
  "mm_ID (um_Managed (the (find (\<lambda>d. UM_GetChildUniqueReferenceID d = Some ''r'')
     (MergeDiscountsByChildUniqueReferenceID [sample_usage_discount ''y'' ''r'' 2] (sample_usage_discount [] ''r'' 3))))) = ''y''"
  using Merge_unique [of "sample_usage_discount [] ''r'' 3" "''r''" "[sample_usage_discount ''y'' ''r'' 2]"]
  by (auto simp: Let_def sample_usage_discount_def UM_GetChildUniqueReferenceID_def zero_managed_def)

end
