(* ===== verification/Rate.thy ===== *)
theory Rate
  imports Timeutil Meter Discounts UnitConfig
begin

text \<open>
  Rating: detailed lines, the accessors of a line and the pricers (openmeter/billing/rating/const.go,
  detailedline.go, line.go, service.go and service/rate). A line's accessors are the fields of a
  record; the ones that may fail hold a result. A pricer is called after the service has checked that
  the price is not nil and obtained a calculator, so the input holds a calculator itself.
\<close>

section \<open>Constants (const.go, stddetailedline, streaming)\<close>

definition UsageChildUniqueReferenceID :: string where "UsageChildUniqueReferenceID = ''usage''"
definition MinSpendChildUniqueReferenceID :: string where "MinSpendChildUniqueReferenceID = ''min-spend''"
definition FlatPriceChildUniqueReferenceID :: string where "FlatPriceChildUniqueReferenceID = ''flat-price''"
definition UnitPriceUsageChildUniqueReferenceID :: string where
  "UnitPriceUsageChildUniqueReferenceID = ''unit-price-usage''"
definition VolumeFlatPriceChildUniqueReferenceID :: string where
  "VolumeFlatPriceChildUniqueReferenceID = ''volume-flat-price''"
definition VolumeUnitPriceChildUniqueReferenceID :: string where
  "VolumeUnitPriceChildUniqueReferenceID = ''volume-tiered-price''"
definition GraduatedTieredPriceUsageChildUniqueReferenceID :: "nat \<Rightarrow> string" where
  "GraduatedTieredPriceUsageChildUniqueReferenceID n = ''graduated-tiered-'' @ show_nat n @ ''-price-usage''"
definition GraduatedTieredFlatPriceChildUniqueReferenceID :: "nat \<Rightarrow> string" where
  "GraduatedTieredFlatPriceChildUniqueReferenceID n = ''graduated-tiered-'' @ show_nat n @ ''-flat-price''"
definition RateCardDiscountChildUniqueReferenceID :: "string \<Rightarrow> string" where
  "RateCardDiscountChildUniqueReferenceID c = ''rateCardDiscount/correlationID='' @ c"

definition MinimumWindowSizeDuration :: duration where
  "MinimumWindowSizeDuration = nsSecond"

datatype Category = CategoryRegular | CategoryCommitment | NoCategory | OtherCategory string

section \<open>Detailed lines (detailedline.go)\<close>

record DetailedLine =
  li_Name :: string
  li_Quantity :: decimal
  li_PerUnitAmount :: decimal
  li_ChildUniqueReferenceID :: string
  li_Period :: "ClosedPeriod option"
  li_PaymentTerm :: PaymentTermType
  li_Category :: Category
  li_AmountDiscounts :: "AmountLineDiscountManaged list"
  li_CreditsApplied :: "CreditApplied list"
  li_Totals :: Totals

text \<open>A literal \<open>DetailedLine{...}\<close> that sets the first four fields and the payment term.\<close>

definition new_line :: "string \<Rightarrow> decimal \<Rightarrow> decimal \<Rightarrow> string \<Rightarrow> PaymentTermType \<Rightarrow> DetailedLine" where
  "new_line name quantity amount ref term =
     \<lparr>li_Name = name, li_Quantity = quantity, li_PerUnitAmount = amount, li_ChildUniqueReferenceID = ref,
      li_Period = None, li_PaymentTerm = term, li_Category = NoCategory, li_AmountDiscounts = [],
      li_CreditsApplied = [], li_Totals = TT_zero\<rparr>"

definition DL_Validate :: "DetailedLine \<Rightarrow> error option" where
  "DL_Validate i =
     (if li_PerUnitAmount i < 0 then Some (Err ''amount must be zero or positive'')
      else if li_ChildUniqueReferenceID i = [] then Some (Err ''child unique ID is required'')
      else if li_Name i = [] then Some (Err ''name is required'') else None)"

definition TotalAmount :: "currency_ops \<Rightarrow> decimal \<Rightarrow> decimal \<Rightarrow> AmountLineDiscountManaged list
    \<Rightarrow> CreditApplied list \<Rightarrow> decimal" where
  "TotalAmount C perUnitAmount quantity amountDiscounts creditsApplied =
     (let total = cur_RoundToPrecision C (perUnitAmount * quantity);
          total = total - AMs_SumAmount C amountDiscounts
      in total - CAs_SumAmount C creditsApplied)"

definition DL_TotalAmount :: "currency_ops \<Rightarrow> DetailedLine \<Rightarrow> decimal" where
  "DL_TotalAmount C i =
     TotalAmount C (li_PerUnitAmount i) (li_Quantity i) (li_AmountDiscounts i) (li_CreditsApplied i)"

definition formatMaximumSpendDiscountDescription :: "decimal_lib \<Rightarrow> decimal \<Rightarrow> string option" where
  "formatMaximumSpendDiscountDescription L amount =
     Some (''Maximum spend discount for charges over '' @ dl_String L amount)"

text \<open>The discount of both branches of \<open>AddDiscountForOverage\<close>.\<close>

definition maximum_spend_discount :: "decimal_lib \<Rightarrow> decimal \<Rightarrow> decimal \<Rightarrow> AmountLineDiscountManaged" where
  "maximum_spend_discount L maxSpend amount =
     \<lparr>am_Managed = zero_managed,
      am_Discount = \<lparr>al_Base = \<lparr>lb_Description = formatMaximumSpendDiscountDescription L maxSpend,
          lb_ChildUniqueReferenceID = Some LineMaximumSpendReferenceID,
          lb_ExternalIDs = \<lparr>xi_Invoicing = []\<rparr>, lb_Reason = NewDiscountReasonFrom AnyMaximumSpend\<rparr>,
        al_Amount = amount, al_RoundingAmount = 0\<rparr>\<rparr>"

definition AddDiscountForOverage :: "decimal_lib \<Rightarrow> currency_ops \<Rightarrow> decimal \<Rightarrow> decimal \<Rightarrow> DetailedLine \<Rightarrow> DetailedLine" where
  "AddDiscountForOverage L C billedAmountBeforeLine maxSpend i =
     (let normalizedPreUsage = cur_RoundToPrecision C billedAmountBeforeLine;
          lineTotal = DL_TotalAmount C i;
          totalBillableAmount = normalizedPreUsage + lineTotal;
          normalizedMaxSpend = cur_RoundToPrecision C maxSpend
      in if totalBillableAmount \<le> normalizedMaxSpend then i
         else if totalBillableAmount \<ge> normalizedMaxSpend \<and> billedAmountBeforeLine \<ge> normalizedMaxSpend
         then i\<lparr>li_AmountDiscounts := li_AmountDiscounts i @ [maximum_spend_discount L normalizedMaxSpend lineTotal]\<rparr>
         else let discountAmount = totalBillableAmount - normalizedMaxSpend
         in i\<lparr>li_AmountDiscounts :=
              li_AmountDiscounts i @ [maximum_spend_discount L normalizedMaxSpend discountAmount]\<rparr>)"

definition DetailedLines_Sum :: "currency_ops \<Rightarrow> DetailedLine list \<Rightarrow> decimal" where
  "DetailedLines_Sum C i = foldl (\<lambda>sum item. sum + DL_TotalAmount C item) 0 i"

section \<open>Accessors and inputs (line.go, service.go, rate/types.go)\<close>

record PriceAccessor =
  ac_Price :: "Price option"
  ac_ServicePeriod :: ClosedPeriod
  ac_FeatureKey :: string

record GatheringLine = PriceAccessor +
  gl_SplitLineGroupID :: "string option"
  gl_InvoiceAt :: time
  gl_ID :: string

record StandardLine = PriceAccessor +
  sl_CurrencyCalculator :: "currency_ops option result"
  sl_MeteredQuantity :: "decimal option result"
  sl_MeteredPreLinePeriodQuantity :: "decimal option result"
  sl_CreditsApplied :: "CreditApplied list"
  sl_Name :: string
  sl_RateCardDiscounts :: Discounts
  sl_UnitConfig :: "UnitConfig option"
  sl_StandardLineDiscounts :: StandardLineDiscounts
  sl_IsProgressivelyBilled :: bool
  sl_ProgressivelyBilledServicePeriod :: "ClosedPeriod result"
  sl_PreviouslyBilledAmount :: "decimal result"

record Usage =
  us_Quantity :: decimal
  us_PreLinePeriodQuantity :: decimal

record GenerateDetailedLinesOptions =
  go_IgnoreMinimumCommitment :: bool
  go_DisableCreditsMutator :: bool

text \<open>An option is a function on the options; they run in order on the zero value.\<close>

definition NewGenerateDetailedLinesOptions ::
    "(GenerateDetailedLinesOptions \<Rightarrow> GenerateDetailedLinesOptions) list \<Rightarrow> GenerateDetailedLinesOptions" where
  "NewGenerateDetailedLinesOptions opts =
     foldl (\<lambda>out opt. opt out) \<lparr>go_IgnoreMinimumCommitment = False, go_DisableCreditsMutator = False\<rparr> opts"

definition WithMinimumCommitmentIgnored :: "GenerateDetailedLinesOptions \<Rightarrow> GenerateDetailedLinesOptions" where
  "WithMinimumCommitmentIgnored o' = o'\<lparr>go_IgnoreMinimumCommitment := True\<rparr>"

definition WithCreditsMutatorDisabled :: "GenerateDetailedLinesOptions \<Rightarrow> GenerateDetailedLinesOptions" where
  "WithCreditsMutatorDisabled o' = o'\<lparr>go_DisableCreditsMutator := True\<rparr>"

record GenerateDetailedLinesResult =
  gr_DetailedLines :: "DetailedLine list"
  gr_FinalUsage :: "Usage option"
  gr_FinalStandardLineDiscounts :: StandardLineDiscounts
  gr_Totals :: Totals

record ResolveBillablePeriodInput =
  ri_AsOf :: time
  ri_ProgressiveBilling :: bool
  ri_Line :: "GatheringLine option"
  ri_FeatureMeters :: "FeatureMeterCollection option"

definition RI_Validate :: "ResolveBillablePeriodInput \<Rightarrow> error option" where
  "RI_Validate i =
     (if ri_Line i = None then Some (Err ''line is required'')
      else if ri_FeatureMeters i = None then Some (Err ''feature meters are required'')
      else if IsZeroTime (ri_AsOf i) then Some (Err ''as of is required'') else None)"

record PricerCalculateInput =
  pi_Line :: StandardLine
  pi_CurrencyCalculator :: currency_ops
  pi_FullProgressivelyBilledServicePeriod :: ClosedPeriod
  pi_Usage :: "Usage option"
  pi_StandardLineDiscounts :: StandardLineDiscounts

text \<open>The parts that \<open>Validate\<close> looks at: the calculator, the full period and the line.\<close>

definition PI_Validate :: "currency_ops option \<Rightarrow> ClosedPeriod \<Rightarrow> StandardLine option \<Rightarrow> error option" where
  "PI_Validate currency full line =
     (if currency = None then Some (Err ''currency is required'')
      else if full = \<lparr>cp_From = 0, cp_To = 0\<rparr> then Some (Err ''full service period is required'')
      else if line = None then Some (Err ''standard line accessor is required'') else None)"

definition GetUsage :: "PricerCalculateInput \<Rightarrow> Usage result" where
  "GetUsage i = (case pi_Usage i of None \<Rightarrow> Inl (Err ''usage is nil'') | Some u \<Rightarrow> Inr u)"

definition IsLastInPeriod :: "PricerCalculateInput \<Rightarrow> bool" where
  "IsLastInPeriod i =
     (if \<not> sl_IsProgressivelyBilled (pi_Line i) then True
      else cp_To (ac_ServicePeriod (pi_Line i)) = cp_To (pi_FullProgressivelyBilledServicePeriod i))"

definition IsFirstInPeriod :: "PricerCalculateInput \<Rightarrow> bool" where
  "IsFirstInPeriod i =
     (if \<not> sl_IsProgressivelyBilled (pi_Line i) then True
      else cp_From (ac_ServicePeriod (pi_Line i)) = cp_From (pi_FullProgressivelyBilledServicePeriod i))"

definition input_price :: "PricerCalculateInput \<Rightarrow> Price result" where
  "input_price i = deref (ac_Price (pi_Line i))"

definition input_name :: "PricerCalculateInput \<Rightarrow> string" where
  "input_name i = sl_Name (pi_Line i)"

section \<open>Billable periods (rate/base.go, flat.go)\<close>

definition ErrInvoiceProgressiveBillingNotSupported :: error where
  "ErrInvoiceProgressiveBillingNotSupported = Err ''progressive billing is not supported''"

definition PBM_ResolveBillablePeriod :: "time \<Rightarrow> bool \<Rightarrow> GatheringLine \<Rightarrow> ClosedPeriod option result" where
  "PBM_ResolveBillablePeriod asOf' progressiveBilling line =
     (let asOf = Truncate MinimumWindowSizeDuration asOf';
          per = CP_Truncate MinimumWindowSizeDuration (ac_ServicePeriod line)
      in if \<not> progressiveBilling then (if asOf < cp_To per then Inr None else Inr (Some per))
         else if \<not> asOf > cp_From per then Inr None
         else let periodEnd = (if asOf < cp_To per then asOf else cp_To per)
         in Inr (Some \<lparr>cp_From = cp_From per, cp_To = periodEnd\<rparr>))"

definition NPB_ResolveBillablePeriod :: "time \<Rightarrow> bool \<Rightarrow> GatheringLine \<Rightarrow> ClosedPeriod option result" where
  "NPB_ResolveBillablePeriod asOf progressiveBilling line =
     (if gl_SplitLineGroupID line \<noteq> None then Inl (ValidationError ErrInvoiceProgressiveBillingNotSupported)
      else if Truncate MinimumWindowSizeDuration asOf < Truncate MinimumWindowSizeDuration (cp_To (ac_ServicePeriod line))
      then Inr None
      else Inr (Some (CP_Truncate MinimumWindowSizeDuration (ac_ServicePeriod line))))"

definition Flat_ResolveBillablePeriod :: "time \<Rightarrow> bool \<Rightarrow> GatheringLine \<Rightarrow> ClosedPeriod option result" where
  "Flat_ResolveBillablePeriod asOf progressiveBilling line =
     (if gl_SplitLineGroupID line \<noteq> None then Inl (ValidationError ErrInvoiceProgressiveBillingNotSupported)
      else if Truncate MinimumWindowSizeDuration (gl_InvoiceAt line) > Truncate MinimumWindowSizeDuration asOf then Inr None
      else Inr (Some (ac_ServicePeriod line)))"

section \<open>Flat, unit, dynamic and package prices\<close>

definition Flat_GenerateDetailedLines :: "PricerCalculateInput \<Rightarrow> DetailedLine list result" where
  "Flat_GenerateDetailedLines l =
     bind_result (bind_result (input_price l) (\<lambda>p. wrap_result ''converting price to flat price'' (AsFlat p))) (\<lambda>flatPrice.
       let paymentTerm = (if fp_PaymentTerm flatPrice = NoPaymentTerm then DefaultPaymentTerm else fp_PaymentTerm flatPrice)
       in if paymentTerm \<notin> {InAdvancePaymentTerm, InArrearsPaymentTerm}
          then Inl (ValidationError (Err ''flat price payment term is not supported''))
          else if paymentTerm = InAdvancePaymentTerm \<and> IsFirstInPeriod l
          then Inr [new_line (input_name l) 1 (fp_Amount flatPrice) FlatPriceChildUniqueReferenceID InAdvancePaymentTerm]
          else if paymentTerm = InArrearsPaymentTerm \<and> IsLastInPeriod l
          then Inr [new_line (input_name l) 1 (fp_Amount flatPrice) FlatPriceChildUniqueReferenceID InArrearsPaymentTerm]
          else Inr [])"

definition Unit_GenerateDetailedLines :: "PricerCalculateInput \<Rightarrow> DetailedLine list result" where
  "Unit_GenerateDetailedLines l =
     bind_result (bind_result (input_price l) (\<lambda>p. wrap_result ''converting price to unit price'' (AsUnit p))) (\<lambda>unitPrice.
     bind_result (GetUsage l) (\<lambda>usage.
       if us_Quantity usage > 0
       then Inr [new_line (input_name l @ '': usage in period'') (us_Quantity usage) (up_Amount unitPrice)
                  UnitPriceUsageChildUniqueReferenceID InArrearsPaymentTerm]
       else Inr []))"

definition Dynamic_GenerateDetailedLines :: "PricerCalculateInput \<Rightarrow> DetailedLine list result" where
  "Dynamic_GenerateDetailedLines l =
     bind_result (GetUsage l) (\<lambda>usage.
     bind_result (bind_result (input_price l) (\<lambda>p. wrap_result ''converting price to dynamic price'' (AsDynamic p)))
     (\<lambda>dynamicPrice.
       if us_Quantity usage > 0
       then let amountInPeriod = cur_RoundToPrecision (pi_CurrencyCalculator l) (us_Quantity usage * dp_Multiplier dynamicPrice)
            in Inr [new_line (input_name l @ '': usage in period'') 1 amountInPeriod
                     UsageChildUniqueReferenceID InArrearsPaymentTerm]
       else Inr []))"

text \<open>\<open>Floor\<close> rounds to an integer; \<open>Div\<close> and \<open>Mod\<close> are the package's.\<close>

definition GetNumberOfPackages :: "decimal_lib \<Rightarrow> decimal \<Rightarrow> decimal \<Rightarrow> decimal" where
  "GetNumberOfPackages L qty packageSize =
     (let requiredPackages = of_int \<lfloor>dl_Div L qty packageSize\<rfloor>
      in if dl_Mod L qty packageSize = 0 then requiredPackages else requiredPackages + 1)"

definition Package_GenerateDetailedLines :: "decimal_lib \<Rightarrow> PricerCalculateInput \<Rightarrow> DetailedLine list result" where
  "Package_GenerateDetailedLines L l =
     bind_result (GetUsage l) (\<lambda>usage.
     bind_result (bind_result (input_price l) (\<lambda>p. wrap_result ''converting price to package price'' (AsPackage p)))
     (\<lambda>packagePrice.
       let totalUsage = us_Quantity usage + us_PreLinePeriodQuantity usage;
           preLinePeriodPackages =
             (if IsFirstInPeriod l then 0
              else GetNumberOfPackages L (us_PreLinePeriodQuantity usage) (kp_QuantityPerPackage packagePrice));
           postLinePeriodPackages = GetNumberOfPackages L totalUsage (kp_QuantityPerPackage packagePrice);
           toBeBilledPackages = postLinePeriodPackages - preLinePeriodPackages
       in if toBeBilledPackages \<noteq> 0
          then Inr [new_line (input_name l @ '': usage in period'') toBeBilledPackages (kp_Amount packagePrice)
                     UsageChildUniqueReferenceID InArrearsPaymentTerm]
          else Inr []))"

section \<open>Volume tiers (rate/tieredvolume.go)\<close>

definition ErrInvoiceLineVolumeSplitNotSupported :: error where
  "ErrInvoiceLineVolumeSplitNotSupported = Err ''graduated tiered pricing is not supported for split periods''"

definition ErrInvoiceLineMissingOpenEndedTier :: error where
  "ErrInvoiceLineMissingOpenEndedTier = Err ''usage based invoice line: missing open ended tier''"

fun find_tier :: "nat \<Rightarrow> PriceTier list \<Rightarrow> decimal \<Rightarrow> (PriceTier \<times> nat) option" where
  "find_tier i [] quantity = None"
| "find_tier i (tier # tiers) quantity =
     (if (case pt_UpToAmount tier of None \<Rightarrow> True | Some u \<Rightarrow> quantity \<le> u) then Some (tier, i)
      else find_tier (i + 1) tiers quantity)"

definition FindTierForQuantity :: "TieredPrice \<Rightarrow> decimal \<Rightarrow> (PriceTier \<times> nat) result" where
  "FindTierForQuantity price quantity =
     (case find_tier 0 (tp_Tiers (WithSortedTiers price)) quantity of
        Some r \<Rightarrow> Inr r
      | None \<Rightarrow> Inl (Wrap ''could not find tier for quantity'' ErrInvoiceLineMissingOpenEndedTier))"

definition Volume_GenerateDetailedLines :: "PricerCalculateInput \<Rightarrow> DetailedLine list result" where
  "Volume_GenerateDetailedLines l =
     bind_result (bind_result (input_price l) (\<lambda>p. wrap_result ''converting price to volume tiered price'' (AsTiered p)))
     (\<lambda>price.
       if tp_Mode price \<noteq> VolumeTieredPrice then Inl (Err ''price is not a volume tiered price'')
       else if \<not> IsLastInPeriod l then Inr []
       else bind_result (GetUsage l) (\<lambda>usage.
         if us_PreLinePeriodQuantity usage \<noteq> 0 then Inl ErrInvoiceLineVolumeSplitNotSupported
         else bind_result (FindTierForQuantity price (us_Quantity usage)) (\<lambda>(tier, tierIndex).
           Inr ((case pt_FlatPrice tier of None \<Rightarrow> []
                 | Some f \<Rightarrow> [new_line (input_name l @ '': flat price for tier '' @ show_nat (tierIndex + 1)) 1 (tf_Amount f)
                      VolumeFlatPriceChildUniqueReferenceID InArrearsPaymentTerm]) @
                (case pt_UnitPrice tier of None \<Rightarrow> []
                 | Some u \<Rightarrow> if us_Quantity usage = 0 then []
                      else [new_line (input_name l @ '': unit price for tier '' @ show_nat (tierIndex + 1))
                             (us_Quantity usage) (tu_Amount u) VolumeUnitPriceChildUniqueReferenceID InArrearsPaymentTerm])))))"

section \<open>Graduated tiers (rate/tieredgraduated.go)\<close>

record TierRange =
  rg_Tier :: PriceTier
  rg_TierIndex :: nat
  rg_FromQty :: decimal
  rg_ToQty :: decimal
  rg_AtTierBoundary :: bool

record TierCallbackInput =
  ti_Tier :: PriceTier
  ti_TierIndex :: nat
  ti_Quantity :: decimal
  ti_AtTierBoundary :: bool
  ti_PreviousTotalAmount :: decimal

text \<open>
  The callbacks are closures that update variables of their caller: the state \<open>'s\<close> that they are
  given and return.
\<close>

record 's TieredPriceCalculatorInput =
  tc_TieredPrice :: TieredPrice
  tc_FromQty :: decimal
  tc_ToQty :: decimal
  tc_Currency :: "currency_ops option"
  tc_TierCallbackFn :: "(TierCallbackInput \<Rightarrow> 's \<Rightarrow> 's result) option"
  tc_FinalizerFn :: "(decimal \<Rightarrow> 's \<Rightarrow> 's result) option"
  tc_IntrospectRangesFn :: "(TierRange list \<Rightarrow> 's \<Rightarrow> 's) option"

definition TC_Validate :: "'s TieredPriceCalculatorInput \<Rightarrow> error option" where
  "TC_Validate i =
     (case TP_Validate (tc_TieredPrice i) of
        Some e \<Rightarrow> Some e
      | None \<Rightarrow>
          if tp_Mode (tc_TieredPrice i) \<noteq> GraduatedTieredPrice
          then Some (Err ''only graduated tiered prices are supported'')
          else if tc_FromQty i < 0 then Some (Err ''from quantity must be zero or positive'')
          else if tc_ToQty i < 0 then Some (Err ''to quantity must be zero or positive'')
          else if tc_ToQty i < tc_FromQty i then Some (Err ''to quantity must be greater or equal to from quantity'')
          else if (case tc_Currency i of None \<Rightarrow> True | Some C \<Rightarrow> de_Code (cur_Details C) = [])
          then Some (Err ''currency is required'') else None)"

definition splitTierRangeAtBoundary :: "decimal \<Rightarrow> decimal \<Rightarrow> TierRange \<Rightarrow> TierRange list" where
  "splitTierRangeAtBoundary from to qtyRange =
     (let (res, pendingLine) =
            (if rg_FromQty qtyRange < from \<and> rg_ToQty qtyRange > from
             then ([qtyRange\<lparr>rg_ToQty := from\<rparr>], qtyRange\<lparr>rg_FromQty := from, rg_AtTierBoundary := False\<rparr>)
             else ([], qtyRange));
          (res, pendingLine) =
            (if rg_FromQty pendingLine < to \<and> rg_ToQty pendingLine > to
             then (res @ [pendingLine\<lparr>rg_ToQty := to\<rparr>], pendingLine\<lparr>rg_FromQty := to, rg_AtTierBoundary := False\<rparr>)
             else (res, pendingLine))
      in res @ [pendingLine])"

fun tier_ranges :: "decimal \<Rightarrow> decimal \<Rightarrow> decimal \<Rightarrow> nat \<Rightarrow> PriceTier list \<Rightarrow> TierRange list" where
  "tier_ranges from to previousTierQty idx [] = []"
| "tier_ranges from to previousTierQty idx (tier # tiers) =
     (if previousTierQty \<ge> to then []
      else let tierUpperBound = (case pt_UpToAmount tier of None \<Rightarrow> to | Some u \<Rightarrow> u)
      in splitTierRangeAtBoundary from to
           \<lparr>rg_Tier = tier, rg_TierIndex = idx, rg_FromQty = previousTierQty, rg_ToQty = tierUpperBound,
            rg_AtTierBoundary = True\<rparr> @ tier_ranges from to tierUpperBound (idx + 1) tiers)"

definition range_total :: "currency_ops \<Rightarrow> TierRange \<Rightarrow> decimal" where
  "range_total C r =
     (case pt_FlatPrice (rg_Tier r) of None \<Rightarrow> 0
      | Some f \<Rightarrow> if rg_AtTierBoundary r then cur_RoundToPrecision C (tf_Amount f) else 0) +
     (case pt_UnitPrice (rg_Tier r) of None \<Rightarrow> 0
      | Some u \<Rightarrow> cur_RoundToPrecision C ((rg_ToQty r - rg_FromQty r) * tu_Amount u))"

fun emit_ranges :: "currency_ops \<Rightarrow> decimal \<Rightarrow> decimal \<Rightarrow> (TierCallbackInput \<Rightarrow> 's \<Rightarrow> 's result) option
    \<Rightarrow> bool \<Rightarrow> decimal \<Rightarrow> TierRange list \<Rightarrow> 's \<Rightarrow> ('s \<times> decimal) result" where
  "emit_ranges C from to callback shouldEmitCallbacks sofar [] s = Inr (s, sofar)"
| "emit_ranges C from to callback shouldEmitCallbacks sofar (r # rs) s =
     (let should = (if rg_FromQty r = from then True else shouldEmitCallbacks)
      in bind_result
           (case (should, callback) of
              (True, Some f) \<Rightarrow> f \<lparr>ti_Tier = rg_Tier r, ti_TierIndex = rg_TierIndex r,
                ti_Quantity = rg_ToQty r - rg_FromQty r, ti_AtTierBoundary = rg_AtTierBoundary r,
                ti_PreviousTotalAmount = sofar\<rparr> s
            | _ \<Rightarrow> Inr s)
           (\<lambda>s'. let sofar' = sofar + range_total C r
             in if rg_ToQty r \<ge> to then Inr (s', sofar')
                else emit_ranges C from to callback should sofar' rs s'))"

definition TieredPriceCalculator :: "'s TieredPriceCalculatorInput \<Rightarrow> 's \<Rightarrow> 's result" where
  "TieredPriceCalculator i s =
     (case TC_Validate i of
        Some e \<Rightarrow> Inl e
      | None \<Rightarrow> (case tc_Currency i of
          None \<Rightarrow> Inl nil_deref
        | Some C \<Rightarrow>
            let ranges = tier_ranges (tc_FromQty i) (tc_ToQty i) 0 0 (tp_Tiers (WithSortedTiers (tc_TieredPrice i)));
                qtyRanges = (if tc_ToQty i = 0
                   then ranges @ [\<lparr>rg_Tier = tp_Tiers (tc_TieredPrice i) ! 0, rg_TierIndex = 0, rg_FromQty = 0,
                          rg_ToQty = 0, rg_AtTierBoundary = True\<rparr>]
                   else ranges);
                s' = (case tc_IntrospectRangesFn i of None \<Rightarrow> s | Some f \<Rightarrow> f qtyRanges s)
            in bind_result (emit_ranges C (tc_FromQty i) (tc_ToQty i) (tc_TierCallbackFn i) False 0 qtyRanges s')
                 (\<lambda>(s'', total). case tc_FinalizerFn i of None \<Rightarrow> Inr s'' | Some f \<Rightarrow> f total s'')))"

text \<open>The callback of \<open>GenerateDetailedLines\<close>: the lines of one range, appended to \<open>out\<close>.\<close>

definition tier_lines :: "PricerCalculateInput \<Rightarrow> TierCallbackInput \<Rightarrow> DetailedLine list" where
  "tier_lines l i =
     (let tierIndex = ti_TierIndex i + 1;
          shouldFirstFlatLineBeBilled = (ti_TierIndex i > 0 \<or> IsFirstInPeriod l)
      in (case pt_UnitPrice (ti_Tier i) of None \<Rightarrow> []
          | Some u \<Rightarrow> [new_line (input_name l @ '': usage price for tier '' @ show_nat tierIndex) (ti_Quantity i)
               (tu_Amount u) (GraduatedTieredPriceUsageChildUniqueReferenceID tierIndex) InArrearsPaymentTerm]) @
         (case pt_FlatPrice (ti_Tier i) of None \<Rightarrow> []
          | Some f \<Rightarrow> if ti_AtTierBoundary i \<and> shouldFirstFlatLineBeBilled
               then [new_line (input_name l @ '': flat price for tier '' @ show_nat tierIndex) 1 (tf_Amount f)
                      (GraduatedTieredFlatPriceChildUniqueReferenceID tierIndex) InArrearsPaymentTerm]
               else []))"

definition Graduated_GenerateDetailedLines :: "PricerCalculateInput \<Rightarrow> DetailedLine list result" where
  "Graduated_GenerateDetailedLines l =
     bind_result (GetUsage l) (\<lambda>usage.
     bind_result (bind_result (input_price l) (\<lambda>p. wrap_result ''converting price to graduated tiered price'' (AsTiered p)))
     (\<lambda>price.
       if tp_Mode price \<noteq> GraduatedTieredPrice then Inl (Err ''price is not a graduated tiered price'')
       else wrap_result ''calculating tiered price'' (TieredPriceCalculator
         \<lparr>tc_TieredPrice = price, tc_FromQty = us_PreLinePeriodQuantity usage,
          tc_ToQty = us_Quantity usage + us_PreLinePeriodQuantity usage,
          tc_Currency = Some (pi_CurrencyCalculator l),
          tc_TierCallbackFn = Some (\<lambda>i out. Inr (out @ tier_lines l i)),
          tc_FinalizerFn = None, tc_IntrospectRangesFn = None\<rparr> [])))"

section \<open>The router (rate/tiered.go)\<close>

definition Tiered_GenerateDetailedLines :: "PricerCalculateInput \<Rightarrow> DetailedLine list result" where
  "Tiered_GenerateDetailedLines l =
     bind_result (bind_result (input_price l) (\<lambda>p. wrap_result ''converting price to tiered price'' (AsTiered p)))
     (\<lambda>price. case tp_Mode price of
         VolumeTieredPrice \<Rightarrow> Volume_GenerateDetailedLines l
       | GraduatedTieredPrice \<Rightarrow> Graduated_GenerateDetailedLines l
       | OtherTieredMode _ \<Rightarrow> Inl (Err ''unsupported tiered price mode''))"

definition Tiered_ResolveBillablePeriod :: "time \<Rightarrow> bool \<Rightarrow> GatheringLine \<Rightarrow> ClosedPeriod option result" where
  "Tiered_ResolveBillablePeriod asOf progressiveBilling line =
     bind_result (bind_result (deref (ac_Price line)) (\<lambda>p. wrap_result ''converting price to tiered price'' (AsTiered p)))
     (\<lambda>price. case tp_Mode price of
         VolumeTieredPrice \<Rightarrow> NPB_ResolveBillablePeriod asOf progressiveBilling line
       | GraduatedTieredPrice \<Rightarrow> PBM_ResolveBillablePeriod asOf progressiveBilling line
       | OtherTieredMode _ \<Rightarrow> Inl (Err ''unsupported tiered price mode''))"

end
