(* ===== verification/Tiers.thy ===== *)
theory Tiers
  imports Rate
begin

text \<open>
  What the tiered pricers bill (openmeter/billing/rating/service/rate/tieredgraduated.go and
  tieredvolume.go): the ranges that the calculator splits the tiers into are cut down to the part of
  each tier between the quantities before and after the line, and a period billed in two lines is
  billed like one.
\<close>

section \<open>Chains of tiers\<close>

text \<open>Bounds strictly increase from \<open>lo\<close>, up to open-ended tiers at the end.\<close>

fun tier_chain :: "decimal \<Rightarrow> PriceTier list \<Rightarrow> bool" where
  "tier_chain lo [] = False"
| "tier_chain lo (t # ts) = (case pt_UpToAmount t of None \<Rightarrow> True | Some u \<Rightarrow> lo < u \<and> tier_chain u ts)"

lemma sorted_chain:
  assumes "sorted_wrt (\<lambda>a b. compare_tiers a b \<le> 0) ts" and "\<exists>t \<in> set ts. pt_UpToAmount t = None"
    and "\<forall>t \<in> set ts. pt_UpToAmount t \<noteq> Some 0" and "distinct (bounds_of ts)" and "\<forall>u \<in> set (bounds_of ts). lo < u"
  shows "tier_chain lo ts"
  using assms
proof (induction ts arbitrary: lo)
  case (Cons t ts)
  show ?case
  proof (cases "pt_UpToAmount t")
    case (Some u)
    have u: "u \<noteq> 0" using Cons.prems(3) Some by auto
    then have b: "bounds_of (t # ts) = u # bounds_of ts" using Some by (simp add: bounds_of_def FromPtr_def)
    have "u < v" if v: "v \<in> set (bounds_of ts)" for v
    proof -
      obtain s where s: "s \<in> set ts" "v = FromPtr (pt_UpToAmount s)" "v \<noteq> 0"
        using v by (auto simp: bounds_of_def)
      then have "pt_UpToAmount s = Some v" by (cases "pt_UpToAmount s") (auto simp: FromPtr_def)
      moreover have "compare_tiers t s \<le> 0" using Cons.prems(1) s(1) by simp
      ultimately have "u \<le> v" using Some by (simp add: compare_tiers_def)
      then show ?thesis using Cons.prems(4) v b by (cases "u = v") auto
    qed
    moreover have "\<exists>t \<in> set ts. pt_UpToAmount t = None" using Cons.prems(2) Some by auto
    ultimately have "tier_chain u ts" using Cons.prems b by (intro Cons.IH) auto
    then show ?thesis using Some Cons.prems(5) b by simp
  qed simp
qed simp

lemma valid_chain:
  assumes "TP_Validate t = None" and "\<forall>tier \<in> set (tp_Tiers t). pt_UpToAmount tier \<noteq> Some 0"
  shows "tier_chain 0 (tp_Tiers (WithSortedTiers t))"
proof (rule sorted_chain [OF sorted_tiers])
  have "TP_Validate (WithSortedTiers t) = None" using assms(1) by (simp add: TP_Validate_sorted)
  note v = this [unfolded TP_Validate_None]
  show "\<exists>s \<in> set (tp_Tiers (WithSortedTiers t)). pt_UpToAmount s = None" using v by blast
  show "\<forall>s \<in> set (tp_Tiers (WithSortedTiers t)). pt_UpToAmount s \<noteq> Some 0" using assms(2) by simp
  show "distinct (bounds_of (tp_Tiers (WithSortedTiers t)))" using v by blast
  have "0 \<le> FromPtr (pt_UpToAmount s)" if "s \<in> set (tp_Tiers (WithSortedTiers t))" for s
    using v that by (auto simp: tier_ok_def)
  then show "\<forall>u \<in> set (bounds_of (tp_Tiers (WithSortedTiers t))). 0 < u"
    by (fastforce simp: bounds_of_def order_less_le)
qed

section \<open>The ranges that are billed\<close>

text \<open>The part of every tier that lies between \<open>from\<close> and \<open>to\<close>, and whether it starts the tier.\<close>

fun shares :: "decimal \<Rightarrow> decimal \<Rightarrow> decimal \<Rightarrow> nat \<Rightarrow> PriceTier list \<Rightarrow> (PriceTier \<times> nat \<times> decimal \<times> bool) list" where
  "shares from to lo idx [] = []"
| "shares from to lo idx (t # ts) =
     (if to \<le> lo then []
      else let hi = (case pt_UpToAmount t of None \<Rightarrow> to | Some u \<Rightarrow> u)
      in (if max lo from < min hi to then [(t, idx, min hi to - max lo from, from \<le> lo)] else []) @
         shares from to hi (idx + 1) ts)"

definition share_lines :: "PricerCalculateInput \<Rightarrow> PriceTier \<times> nat \<times> decimal \<times> bool \<Rightarrow> DetailedLine list" where
  "share_lines l = (\<lambda>(t, i, q, b). tier_lines l \<lparr>ti_Tier = t, ti_TierIndex = i, ti_Quantity = q,
     ti_AtTierBoundary = b, ti_PreviousTotalAmount = 0\<rparr>)"

lemma tier_lines_share:
  "tier_lines l \<lparr>ti_Tier = t, ti_TierIndex = i, ti_Quantity = q, ti_AtTierBoundary = b,
     ti_PreviousTotalAmount = p\<rparr> = share_lines l (t, i, q, b)"
  by (simp add: share_lines_def tier_lines_def split: option.split)

definition append_lines :: "PricerCalculateInput \<Rightarrow> TierCallbackInput \<Rightarrow> DetailedLine list \<Rightarrow> DetailedLine list result" where
  "append_lines l = (\<lambda>i out. Inr (out @ tier_lines l i))"

lemma split_cases:
  assumes "lo < hi" and "lo < to" and "from \<le> to"
  shows "splitTierRangeAtBoundary from to \<lparr>rg_Tier = t, rg_TierIndex = i, rg_FromQty = lo, rg_ToQty = hi,
      rg_AtTierBoundary = True\<rparr> =
    (let r = \<lambda>a b x. \<lparr>rg_Tier = t, rg_TierIndex = i, rg_FromQty = a, rg_ToQty = b, rg_AtTierBoundary = x\<rparr>
     in if lo < from \<and> from < hi
        then if from < to \<and> to < hi then [r lo from True, r from to False, r to hi False]
             else [r lo from True, r from hi False]
        else if to < hi then [r lo to True, r to hi False] else [r lo hi True])"
  using assms by (auto simp: splitTierRangeAtBoundary_def Let_def)

lemma emit_stop:
  assumes "to \<le> rg_ToQty r" and "rg_FromQty r \<noteq> from"
  shows "emit_ranges C from to f False p (r # rs) out = Inr (out, p + range_total C r)"
  using assms by simp

lemma emit_ranges_shares:
  assumes "tier_chain lo ts" and "from \<le> to" and "lo < to"
  shows "\<exists>p'. emit_ranges C from to (Some (append_lines l)) (from < lo) p (tier_ranges from to lo idx ts) out =
    Inr (out @ concat (map (share_lines l) (shares from to lo idx ts)), p')"
  using assms
proof (induction ts arbitrary: lo idx p out)
  case (Cons t ts)
  define hi where "hi = (case pt_UpToAmount t of None \<Rightarrow> to | Some u \<Rightarrow> u)"
  have h: "lo < hi" "pt_UpToAmount t = None \<Longrightarrow> hi = to" using Cons.prems by (auto simp: hi_def split: option.splits)
  have rest: "\<exists>p'. emit_ranges C from to (Some (append_lines l)) (from < hi) p (tier_ranges from to hi (idx + 1) ts) out =
      Inr (out @ concat (map (share_lines l) (shares from to hi (idx + 1) ts)), p')" if "hi < to" for p out
    using Cons.IH [of hi p "idx + 1" out] Cons.prems that h(2) by (auto simp: hi_def split: option.splits)
  then obtain P where P: "hi < to \<Longrightarrow> emit_ranges C from to (Some (append_lines l)) (from < hi) p
      (tier_ranges from to hi (idx + 1) ts) out =
      Inr (out @ concat (map (share_lines l) (shares from to hi (idx + 1) ts)), P p out)" for p out
    by metis
  have past: "shares from to hi (idx + 1) ts = []" if "to \<le> hi" using that by (cases ts) simp_all
  show ?case
    using Cons.prems(2,3) h P past
    by (cases "hi < to"; cases "lo < from"; cases "from < hi"; cases "from = to"; cases "from = lo")
      (simp_all add: hi_def [symmetric] split_cases append_lines_def tier_lines_share Let_def not_less
        min_def max_def)
qed simp

section \<open>The lines of a graduated price\<close>

definition graduated_ok :: "PricerCalculateInput \<Rightarrow> TieredPrice \<Rightarrow> bool" where
  "graduated_ok l t \<longleftrightarrow> bind_result (input_price l) AsTiered = Inr t \<and> tp_Mode t = GraduatedTieredPrice \<and>
     TP_Validate t = None \<and> list_all (\<lambda>tier. pt_UpToAmount tier \<noteq> Some 0) (tp_Tiers t) \<and>
     de_Code (cur_Details (pi_CurrencyCalculator l)) \<noteq> []"

lemma graduated_result:
  assumes "graduated_ok l t" and "pi_Usage l = Some u" and "0 \<le> us_Quantity u" and "0 \<le> us_PreLinePeriodQuantity u"
  shows "Graduated_GenerateDetailedLines l = Inr
    (if us_Quantity u + us_PreLinePeriodQuantity u = 0 then share_lines l (tp_Tiers t ! 0, 0, 0, True)
     else concat (map (share_lines l) (shares (us_PreLinePeriodQuantity u)
       (us_Quantity u + us_PreLinePeriodQuantity u) 0 0 (tp_Tiers (WithSortedTiers t)))))"
proof -
  let ?from = "us_PreLinePeriodQuantity u" and ?to = "us_Quantity u + us_PreLinePeriodQuantity u"
  let ?ts = "tp_Tiers (WithSortedTiers t)" and ?C = "pi_CurrencyCalculator l"
  define i where "i = \<lparr>tc_TieredPrice = t, tc_FromQty = ?from, tc_ToQty = ?to, tc_Currency = Some ?C,
      tc_TierCallbackFn = Some (append_lines l), tc_FinalizerFn = None, tc_IntrospectRangesFn = None\<rparr>"
  obtain p where p: "input_price l = Inr p" "AsTiered p = Inr t"
    using assms(1) by (auto simp: graduated_ok_def result_simps)
  have v: "TP_Validate t = None" "tp_Mode t = GraduatedTieredPrice" "de_Code (cur_Details ?C) \<noteq> []"
    "\<forall>tier \<in> set (tp_Tiers t). pt_UpToAmount tier \<noteq> Some 0"
    using assms(1) by (simp_all add: graduated_ok_def list_all_iff)
  note chain = valid_chain [OF v(1,4)]
  have ok: "TC_Validate i = None" using v(1-3) assms(3,4) by (simp add: TC_Validate_def i_def)
  have g: "Graduated_GenerateDetailedLines l = wrap_result ''calculating tiered price'' (TieredPriceCalculator i [])"
    using p v(2) assms(2) by (simp add: Graduated_GenerateDetailedLines_def GetUsage_def append_lines_def i_def)
  show ?thesis
  proof (cases "?to = 0")
    case True
    then have z: "us_Quantity u = 0" "?from = 0" using assms(3,4) by simp_all
    then have "tier_ranges ?from ?to 0 0 ?ts = []" by (cases ?ts) simp_all
    then have "TieredPriceCalculator i [] = Inr (tier_lines l \<lparr>ti_Tier = tp_Tiers t ! 0, ti_TierIndex = 0,
        ti_Quantity = 0, ti_AtTierBoundary = True, ti_PreviousTotalAmount = 0\<rparr>)"
      using ok z by (simp add: TieredPriceCalculator_def i_def append_lines_def Let_def)
    then show ?thesis using g True by (simp add: tier_lines_share)
  next
    case False
    then have t: "0 < ?to" using assms(3,4) by linarith
    have "\<exists>p'. emit_ranges ?C ?from ?to (Some (append_lines l)) (?from < 0) 0 (tier_ranges ?from ?to 0 0 ?ts) [] =
        Inr ([] @ concat (map (share_lines l) (shares ?from ?to 0 0 ?ts)), p')"
      by (rule emit_ranges_shares [OF chain _ t]) (use assms(3) in simp)
    moreover have "(?from < 0) = False" using assms(4) by simp
    ultimately obtain p' where "emit_ranges ?C ?from ?to (Some (append_lines l)) False 0 (tier_ranges ?from ?to 0 0 ?ts) [] =
        Inr (concat (map (share_lines l) (shares ?from ?to 0 0 ?ts)), p')"
      by (metis append_Nil)
    then have "TieredPriceCalculator i [] = Inr (concat (map (share_lines l) (shares ?from ?to 0 0 ?ts)))"
      using ok False by (simp add: TieredPriceCalculator_def i_def)
    then show ?thesis using g False by simp
  qed
qed

section \<open>What a list of lines bills\<close>

text \<open>The quantities of the lines, weighted by reference and unit amount.\<close>

definition weighed :: "(string \<Rightarrow> decimal \<Rightarrow> decimal) \<Rightarrow> DetailedLine list \<Rightarrow> decimal" where
  "weighed w ls = (\<Sum>x\<leftarrow>ls. w (li_ChildUniqueReferenceID x) (li_PerUnitAmount x) * li_Quantity x)"

lemma weighed_simps [simp]: "weighed w [] = 0" "weighed w (xs @ ys) = weighed w xs + weighed w ys"
  by (simp_all add: weighed_def)

definition billed_quantity :: "string \<Rightarrow> DetailedLine list \<Rightarrow> decimal" where
  "billed_quantity r ls = (\<Sum>x\<leftarrow>filter (\<lambda>x. li_ChildUniqueReferenceID x = r) ls. li_Quantity x)"

definition billed_value :: "DetailedLine list \<Rightarrow> decimal" where
  "billed_value ls = (\<Sum>x\<leftarrow>ls. li_PerUnitAmount x * li_Quantity x)"

lemma billed_quantity_weighed: "billed_quantity r ls = weighed (\<lambda>r' a. if r' = r then 1 else 0) ls"
  unfolding billed_quantity_def weighed_def by (induction ls) simp_all

lemma billed_value_weighed: "billed_value ls = weighed (\<lambda>r a. a) ls"
  by (simp add: billed_value_def weighed_def)

definition unit_weight :: "(string \<Rightarrow> decimal \<Rightarrow> decimal) \<Rightarrow> nat \<Rightarrow> PriceTier \<Rightarrow> decimal" where
  "unit_weight w i t = (case pt_UnitPrice t of None \<Rightarrow> 0
     | Some u \<Rightarrow> w (GraduatedTieredPriceUsageChildUniqueReferenceID (i + 1)) (tu_Amount u))"

definition flat_weight :: "(string \<Rightarrow> decimal \<Rightarrow> decimal) \<Rightarrow> bool \<Rightarrow> nat \<Rightarrow> PriceTier \<Rightarrow> decimal" where
  "flat_weight w first i t = (case pt_FlatPrice t of None \<Rightarrow> 0
     | Some f \<Rightarrow> if i > 0 \<or> first then w (GraduatedTieredFlatPriceChildUniqueReferenceID (i + 1)) (tf_Amount f) else 0)"

lemma weighed_share:
  "weighed w (share_lines l (t, i, q, b)) =
     unit_weight w i t * q + (if b then flat_weight w (IsFirstInPeriod l) i t else 0)"
  by (auto simp: weighed_def share_lines_def tier_lines_def new_line_def unit_weight_def flat_weight_def Let_def
      split: option.split)

text \<open>
  Tier by tier: the unit price for the part between the quantities, the flat price when the tier is
  entered between them.
\<close>

fun tiers_weight :: "(string \<Rightarrow> decimal \<Rightarrow> decimal) \<Rightarrow> bool \<Rightarrow> decimal \<Rightarrow> decimal \<Rightarrow> decimal \<Rightarrow> nat \<Rightarrow> PriceTier list \<Rightarrow> decimal" where
  "tiers_weight w first from to lo i [] = 0"
| "tiers_weight w first from to lo i (t # ts) =
     (case pt_UpToAmount t of
        None \<Rightarrow> unit_weight w i t * max 0 (to - max lo from) +
          (if from \<le> lo \<and> lo < to then flat_weight w first i t else 0)
      | Some u \<Rightarrow> unit_weight w i t * max 0 (min u to - max lo from) +
          (if from \<le> lo \<and> lo < to then flat_weight w first i t else 0) + tiers_weight w first from to u (i + 1) ts)"

lemma tiers_weight_past: "tier_chain lo ts \<Longrightarrow> to \<le> lo \<Longrightarrow> tiers_weight w first from to lo i ts = 0"
proof (induction ts arbitrary: lo i)
  case (Cons t ts)
  then show ?case by (cases "pt_UpToAmount t") (auto simp: max_def min_def)
qed simp

lemma weighed_shares:
  assumes "tier_chain lo ts" and "from \<le> to"
  shows "weighed w (concat (map (share_lines l) (shares from to lo i ts))) =
    tiers_weight w (IsFirstInPeriod l) from to lo i ts"
  using assms
proof (induction ts arbitrary: lo i)
  case (Cons t ts)
  show ?case
  proof (cases "to \<le> lo")
    case True
    then show ?thesis using tiers_weight_past [OF Cons.prems(1)] by simp
  next
    case False
    show ?thesis
    proof (cases "pt_UpToAmount t")
      case None
      have "shares from to to (i + 1) ts = []" by (cases ts) simp_all
      then show ?thesis using False None Cons.prems(2)
        by (auto simp: weighed_share Let_def max_def)
    next
      case (Some u)
      then have "tier_chain u ts" "lo < u" using Cons.prems(1) by simp_all
      with False Some Cons.prems(2) Cons.IH [of u "i + 1"] show ?thesis
        by (auto simp: weighed_share Let_def max_def min_def)
    qed
  qed
qed simp

text \<open>Billing up to \<open>b\<close> and then from \<open>b\<close> is billing at once.\<close>

lemma tiers_weight_add:
  assumes "tier_chain lo ts" and "a \<le> b" and "b \<le> c" and "i = 0 \<longrightarrow> lo < b"
  shows "tiers_weight w True a b lo i ts + tiers_weight w first b c lo i ts = tiers_weight w True a c lo i ts"
  using assms
proof (induction ts arbitrary: lo i)
  case (Cons t ts)
  have part: "x * max 0 (min u b - max lo a) + x * max 0 (min u c - max lo b) = x * max 0 (min u c - max lo a)"
    if "lo < u" for x u :: rat
    using Cons.prems(2,3) that by (simp add: distrib_left [symmetric] max_def min_def)
  have open_part: "x * max 0 (b - max lo a) + x * max 0 (c - max lo b) = x * max 0 (c - max lo a)" for x :: rat
    using Cons.prems(2,3) by (simp add: distrib_left [symmetric] max_def)
  have flat: "(if a \<le> lo \<and> lo < b then flat_weight w True i t else 0) +
      (if b \<le> lo \<and> lo < c then flat_weight w first i t else 0) =
      (if a \<le> lo \<and> lo < c then flat_weight w True i t else 0)"
    using Cons.prems(2-4) by (cases "i = 0") (auto simp: flat_weight_def split: option.split)
  show ?case
  proof (cases "pt_UpToAmount t")
    case None
    then show ?thesis using flat open_part [of "unit_weight w i t"] by simp
  next
    case (Some u)
    then have "tier_chain u ts" "lo < u" using Cons.prems(1) by simp_all
    then show ?thesis using Some flat part [of u "unit_weight w i t"] Cons.IH [of u "i + 1"] Cons.prems(2,3)
      by simp
  qed
qed simp

text \<open>If every unit weighs one and nothing else counts, the whole quantity is billed.\<close>

lemma tiers_weight_all:
  assumes "tier_chain lo ts" and "from \<le> to"
    and "\<And>i t. t \<in> set ts \<Longrightarrow> unit_weight w i t = 1" and "\<And>i t. t \<in> set ts \<Longrightarrow> flat_weight w first i t = 0"
  shows "tiers_weight w first from to lo i ts = max 0 (to - max lo from)"
  using assms
proof (induction ts arbitrary: lo i)
  case (Cons t ts)
  show ?case
  proof (cases "pt_UpToAmount t")
    case None
    then show ?thesis using Cons.prems by simp
  next
    case (Some u)
    then have "tier_chain u ts" "lo < u" using Cons.prems(1) by simp_all
    then show ?thesis using Some Cons.IH [of u "i + 1"] Cons.prems(2-4) by (auto simp: max_def min_def)
  qed
qed simp

lemma usage_reference_neq_flat:
  "GraduatedTieredPriceUsageChildUniqueReferenceID m \<noteq> GraduatedTieredFlatPriceChildUniqueReferenceID n"
proof
  assume e: "GraduatedTieredPriceUsageChildUniqueReferenceID m = GraduatedTieredFlatPriceChildUniqueReferenceID n"
  have "rev (GraduatedTieredPriceUsageChildUniqueReferenceID m) ! 1 = CHR ''g''"
    "rev (GraduatedTieredFlatPriceChildUniqueReferenceID n) ! 1 = CHR ''c''"
    by (simp_all add: GraduatedTieredPriceUsageChildUniqueReferenceID_def
        GraduatedTieredFlatPriceChildUniqueReferenceID_def)
  then show False using e by simp
qed

lemma graduated_weighed:
  assumes "graduated_ok l t" and "pi_Usage l = Some u" and "0 \<le> us_Quantity u" and "0 \<le> us_PreLinePeriodQuantity u"
    and "0 < us_Quantity u + us_PreLinePeriodQuantity u"
  shows "\<exists>ls. Graduated_GenerateDetailedLines l = Inr ls \<and> (\<forall>w. weighed w ls =
    tiers_weight w (IsFirstInPeriod l) (us_PreLinePeriodQuantity u) (us_Quantity u + us_PreLinePeriodQuantity u) 0 0
      (tp_Tiers (WithSortedTiers t)))"
proof -
  have "tier_chain 0 (tp_Tiers (WithSortedTiers t))"
    using assms(1) by (intro valid_chain) (simp_all add: graduated_ok_def list_all_iff)
  then show ?thesis
    using graduated_result [OF assms(1-4)] assms(3,5) weighed_shares by auto
qed

section \<open>Volume tiers\<close>

lemma find_tier_finds:
  assumes "\<exists>t \<in> set ts. pt_UpToAmount t = None"
  shows "\<exists>k. find_tier i ts q = Some (ts ! k, i + k) \<and> k < length ts \<and>
    (\<forall>u. pt_UpToAmount (ts ! k) = Some u \<longrightarrow> q \<le> u) \<and> (\<forall>j < k. \<exists>u. pt_UpToAmount (ts ! j) = Some u \<and> u < q)"
  using assms
proof (induction ts arbitrary: i)
  case (Cons t ts)
  show ?case
  proof (cases "case pt_UpToAmount t of None \<Rightarrow> True | Some u \<Rightarrow> q \<le> u")
    case True
    then show ?thesis by (intro exI [of _ 0]) (simp split: option.splits)
  next
    case False
    then obtain u where u: "pt_UpToAmount t = Some u" "u < q" by (auto split: option.splits)
    with Cons.prems obtain k where k: "find_tier (i + 1) ts q = Some (ts ! k, i + 1 + k)" "k < length ts"
      "\<forall>u. pt_UpToAmount (ts ! k) = Some u \<longrightarrow> q \<le> u" "\<forall>j < k. \<exists>u. pt_UpToAmount (ts ! j) = Some u \<and> u < q"
      using Cons.IH [of "i + 1"] by auto
    show ?thesis using u k by (intro exI [of _ "Suc k"]) (auto simp: less_Suc_eq_0_disj)
  qed
qed simp

section \<open>A concrete line\<close>

text \<open>A calculator that rounds to cents, and a line of it with the given price and usage.\<close>

definition cents :: currency_ops where
  "cents = currency_ops_of std_decimal_lib Map.empty (FiatCurrency
     \<lparr>cd_ISOCode = ''USD'', cd_ISONumeric = ''840'', cd_Name = ''US Dollar'', cd_Symbol = ''$'', cd_Subunits = 2,
      cd_DecimalMark = ''.'', cd_ThousandsSeparator = '',''\<rparr>)"

definition sample_line :: "Price \<Rightarrow> ClosedPeriod \<Rightarrow> StandardLine" where
  "sample_line p per = \<lparr>ac_Price = Some p, ac_ServicePeriod = per, ac_FeatureKey = ''tokens'',
     sl_CurrencyCalculator = Inr (Some cents), sl_MeteredQuantity = Inr (Some 0),
     sl_MeteredPreLinePeriodQuantity = Inr (Some 0), sl_CreditsApplied = [], sl_Name = ''Tokens'',
     sl_RateCardDiscounts = \<lparr>ds_Percentage = None, ds_Usage = None\<rparr>, sl_UnitConfig = None,
     sl_StandardLineDiscounts = \<lparr>sd_Usage = []\<rparr>, sl_IsProgressivelyBilled = True,
     sl_ProgressivelyBilledServicePeriod = Inr \<lparr>cp_From = 0, cp_To = 100\<rparr>, sl_PreviouslyBilledAmount = Inr 0\<rparr>"

definition sample_input :: "Price \<Rightarrow> ClosedPeriod \<Rightarrow> decimal \<Rightarrow> decimal \<Rightarrow> PricerCalculateInput" where
  "sample_input p per pre q = \<lparr>pi_Line = sample_line p per, pi_CurrencyCalculator = cents,
     pi_FullProgressivelyBilledServicePeriod = \<lparr>cp_From = 0, cp_To = 100\<rparr>,
     pi_Usage = Some \<lparr>us_Quantity = q, us_PreLinePeriodQuantity = pre\<rparr>, pi_StandardLineDiscounts = \<lparr>sd_Usage = []\<rparr>\<rparr>"

lemma sample_graduated_ok:
  "graduated_ok (sample_input (NewPriceFrom (AnyTiered (sample_tiered GraduatedTieredPrice))) per pre q)
     (sample_tiered GraduatedTieredPrice)"
  using sample_tiered_valid [of GraduatedTieredPrice]
  by (simp add: graduated_ok_def sample_input_def sample_line_def input_price_def As_view FromTiered_def
      price_view_def sample_tiered_def sample_tier_def cents_def AsTiered_def)

section \<open>Properties\<close>

text \<open>
  C12. Progressive billing of graduated tiers adds up: a period billed in two lines, the first up to the
  quantity a and the second from there to b, bills under every reference (the unit price and the flat
  price of each tier) exactly the quantity that one line up to b bills, and the same value before
  rounding. No tier is charged twice where the lines meet, none is skipped.
\<close>

theorem graduated_progressive_adds_up:
  assumes "graduated_ok l1 t" and "graduated_ok l2 t" and "graduated_ok l t"
    and "pi_Usage l1 = Some \<lparr>us_Quantity = a, us_PreLinePeriodQuantity = 0\<rparr>" and "IsFirstInPeriod l1"
    and "pi_Usage l2 = Some \<lparr>us_Quantity = b - a, us_PreLinePeriodQuantity = a\<rparr>"
    and "pi_Usage l = Some \<lparr>us_Quantity = b, us_PreLinePeriodQuantity = 0\<rparr>" and "IsFirstInPeriod l"
    and "0 < a" and "a \<le> b"
  shows "\<exists>ls1 ls2 ls. Graduated_GenerateDetailedLines l1 = Inr ls1 \<and> Graduated_GenerateDetailedLines l2 = Inr ls2 \<and>
    Graduated_GenerateDetailedLines l = Inr ls \<and>
    (\<forall>r. billed_quantity r ls1 + billed_quantity r ls2 = billed_quantity r ls) \<and>
    billed_value ls1 + billed_value ls2 = billed_value ls"
proof -
  let ?ts = "tp_Tiers (WithSortedTiers t)"
  have chain: "tier_chain 0 ?ts"
    using assms(1) by (intro valid_chain) (simp_all add: graduated_ok_def list_all_iff)
  obtain ls1 where 1: "Graduated_GenerateDetailedLines l1 = Inr ls1" "\<forall>w. weighed w ls1 = tiers_weight w True 0 a 0 0 ?ts"
    using graduated_weighed [OF assms(1,4)] assms(5,9) by auto
  obtain ls2 where 2: "Graduated_GenerateDetailedLines l2 = Inr ls2"
    "\<forall>w. weighed w ls2 = tiers_weight w (IsFirstInPeriod l2) a b 0 0 ?ts"
    using graduated_weighed [OF assms(2,6)] assms(9,10) by auto
  obtain ls where 3: "Graduated_GenerateDetailedLines l = Inr ls" "\<forall>w. weighed w ls = tiers_weight w True 0 b 0 0 ?ts"
    using graduated_weighed [OF assms(3,7)] assms(8-10) by auto
  have "weighed w ls1 + weighed w ls2 = weighed w ls" for w
    using 1(2) 2(2) 3(2) tiers_weight_add [OF chain, of 0 a b 0 w "IsFirstInPeriod l2"] assms(9,10) by simp
  then show ?thesis using 1(1) 2(1) 3(1) by (simp add: billed_quantity_weighed billed_value_weighed)
qed

theorem graduated_progressive_adds_up_witness:
  "\<exists>ls1 ls2 ls. Graduated_GenerateDetailedLines (sample_input (NewPriceFrom (AnyTiered (sample_tiered GraduatedTieredPrice)))
       \<lparr>cp_From = 0, cp_To = 40\<rparr> 0 5) = Inr ls1 \<and>
    Graduated_GenerateDetailedLines (sample_input (NewPriceFrom (AnyTiered (sample_tiered GraduatedTieredPrice)))
       \<lparr>cp_From = 40, cp_To = 100\<rparr> 5 3) = Inr ls2 \<and>
    Graduated_GenerateDetailedLines (sample_input (NewPriceFrom (AnyTiered (sample_tiered GraduatedTieredPrice)))
       \<lparr>cp_From = 0, cp_To = 100\<rparr> 0 8) = Inr ls \<and> billed_value ls1 + billed_value ls2 = billed_value ls"
proof -
  let ?i = "sample_input (NewPriceFrom (AnyTiered (sample_tiered GraduatedTieredPrice)))"
  have u: "pi_Usage (?i per pre q) = Some \<lparr>us_Quantity = q, us_PreLinePeriodQuantity = pre\<rparr>" for per pre q
    by (simp add: sample_input_def)
  have f: "IsFirstInPeriod (?i \<lparr>cp_From = 0, cp_To = c\<rparr> pre q)" for c pre q
    by (simp add: IsFirstInPeriod_def sample_input_def sample_line_def)
  show ?thesis
    using graduated_progressive_adds_up [OF sample_graduated_ok sample_graduated_ok sample_graduated_ok,
        of "\<lparr>cp_From = 0, cp_To = 40\<rparr>" 0 5 5 "\<lparr>cp_From = 40, cp_To = 100\<rparr>" 5 3 8 "\<lparr>cp_From = 0, cp_To = 100\<rparr>" 0 8]
    by (simp add: u f del: NewPriceFrom.simps) blast
qed

text \<open>
  Graduated tiers bill every unit once: if all tiers have a unit price, the usage lines of a line
  add up to exactly its quantity, whatever was billed before.
\<close>

theorem graduated_bills_usage:
  assumes "graduated_ok l t" and "pi_Usage l = Some u" and "0 \<le> us_Quantity u" and "0 \<le> us_PreLinePeriodQuantity u"
    and "0 < us_Quantity u + us_PreLinePeriodQuantity u" and "list_all (\<lambda>tier. pt_UnitPrice tier \<noteq> None) (tp_Tiers t)"
  shows "\<exists>ls. Graduated_GenerateDetailedLines l = Inr ls \<and>
    (\<Sum>x\<leftarrow>filter (\<lambda>x. li_ChildUniqueReferenceID x \<in> range GraduatedTieredPriceUsageChildUniqueReferenceID) ls.
       li_Quantity x) = us_Quantity u"
proof -
  let ?ts = "tp_Tiers (WithSortedTiers t)" and ?R = "range GraduatedTieredPriceUsageChildUniqueReferenceID"
  let ?w = "\<lambda>r a. if r \<in> ?R then 1 else 0 :: rat"
  have chain: "tier_chain 0 ?ts"
    using assms(1) by (intro valid_chain) (simp_all add: graduated_ok_def list_all_iff)
  obtain ls where g: "Graduated_GenerateDetailedLines l = Inr ls" and w: "weighed ?w ls =
      tiers_weight ?w (IsFirstInPeriod l) (us_PreLinePeriodQuantity u) (us_Quantity u + us_PreLinePeriodQuantity u) 0 0 ?ts"
    using graduated_weighed [OF assms(1-5)] by blast
  have "tiers_weight ?w (IsFirstInPeriod l) (us_PreLinePeriodQuantity u)
      (us_Quantity u + us_PreLinePeriodQuantity u) 0 0 ?ts = us_Quantity u"
  proof (subst tiers_weight_all [OF chain])
    show "unit_weight ?w i tier = 1" if "tier \<in> set ?ts" for i tier
      using that assms(6) by (auto simp: unit_weight_def list_all_iff)
    show "flat_weight ?w (IsFirstInPeriod l) i tier = 0" for i tier
      using usage_reference_neq_flat by (auto simp: flat_weight_def image_iff split: option.split) metis+
  qed (use assms(3,4) in auto)
  moreover have "weighed ?w ls = (\<Sum>x\<leftarrow>filter (\<lambda>x. li_ChildUniqueReferenceID x \<in> ?R) ls. li_Quantity x)"
    unfolding weighed_def by (induction ls) simp_all
  ultimately show ?thesis using g w by auto
qed

theorem graduated_bills_usage_witness:
  "\<exists>ls. Graduated_GenerateDetailedLines (sample_input (NewPriceFrom (AnyTiered (sample_tiered GraduatedTieredPrice)))
       \<lparr>cp_From = 0, cp_To = 100\<rparr> 2 6) = Inr ls \<and>
    (\<Sum>x\<leftarrow>filter (\<lambda>x. li_ChildUniqueReferenceID x \<in> range GraduatedTieredPriceUsageChildUniqueReferenceID) ls.
       li_Quantity x) = 6"
  using graduated_bills_usage [OF sample_graduated_ok, of "\<lparr>cp_From = 0, cp_To = 100\<rparr>" 2 6
      "\<lparr>us_Quantity = 6, us_PreLinePeriodQuantity = 2\<rparr>"]
  by (simp add: sample_input_def sample_tiered_def sample_tier_def)

text \<open>
  Volume tiers always find their tier: for a valid price the search never fails, and it returns the
  first of the sorted tiers whose bound is not below the quantity, so all lower tiers end below it.
\<close>

theorem FindTierForQuantity_first:
  assumes "TP_Validate t = None"
  shows "\<exists>k. FindTierForQuantity t q = Inr (tp_Tiers (WithSortedTiers t) ! k, k) \<and> k < length (tp_Tiers t) \<and>
    (case pt_UpToAmount (tp_Tiers (WithSortedTiers t) ! k) of None \<Rightarrow> True | Some u \<Rightarrow> q \<le> u) \<and>
    list_all (\<lambda>tier. \<exists>u. pt_UpToAmount tier = Some u \<and> u < q) (take k (tp_Tiers (WithSortedTiers t)))"
proof -
  have "\<exists>s \<in> set (tp_Tiers (WithSortedTiers t)). pt_UpToAmount s = None"
    using assms by (simp add: TP_Validate_None)
  from find_tier_finds [OF this, of 0 q] obtain k where
    "find_tier 0 (tp_Tiers (WithSortedTiers t)) q = Some (tp_Tiers (WithSortedTiers t) ! k, k)"
    and k: "k < length (tp_Tiers (WithSortedTiers t))"
      "\<forall>u. pt_UpToAmount (tp_Tiers (WithSortedTiers t) ! k) = Some u \<longrightarrow> q \<le> u"
      "\<forall>j < k. \<exists>u. pt_UpToAmount (tp_Tiers (WithSortedTiers t) ! j) = Some u \<and> u < q"
    by auto
  then show ?thesis
    by (intro exI [of _ k])
      (auto simp: FindTierForQuantity_def list_all_iff in_set_conv_nth WithSortedTiers_def split: option.split)
qed

theorem FindTierForQuantity_first_witness:
  "\<exists>k. FindTierForQuantity (sample_tiered VolumeTieredPrice) 7 =
     Inr (tp_Tiers (WithSortedTiers (sample_tiered VolumeTieredPrice)) ! k, k) \<and> k < 2"
proof -
  have "TP_Validate (sample_tiered VolumeTieredPrice) = None" by (simp add: sample_tiered_valid)
  from FindTierForQuantity_first [OF this, of 7] show ?thesis
    by (auto simp: sample_tiered_def)
qed

end
