(* ===== verification/Mutators.thy ===== *)
theory Mutators
  imports Rate
begin

text \<open>
  The mutators of the rating pipeline (openmeter/billing/rating/service/mutator): before the pricer
  the unit conversion and the usage discount, after it the percentage discount, the commitments and
  the credits.
\<close>

section \<open>Percentage discounts (discountpercentage.go)\<close>

record discountWithChildReferenceID =
  dc_PercentageDiscount :: BillingPercentageDiscount
  dc_ChildUniqueReferenceID :: string

definition getDiscount :: "Discounts \<Rightarrow> discountWithChildReferenceID option result" where
  "getDiscount discounts =
     (case ds_Percentage discounts of
        None \<Rightarrow> Inr None
      | Some percentage \<Rightarrow>
          if bp_CorrelationID percentage = [] then Inl (Err ''correlation ID is required for rate card discounts'')
          else Inr (Some \<lparr>dc_PercentageDiscount = percentage,
             dc_ChildUniqueReferenceID = RateCardDiscountChildUniqueReferenceID (bp_CorrelationID percentage)\<rparr>))"

definition getLineDiscount :: "decimal_lib \<Rightarrow> currency_ops \<Rightarrow> decimal \<Rightarrow> discountWithChildReferenceID
    \<Rightarrow> AmountLineDiscountManaged result" where
  "getLineDiscount L C lineTotal discount =
     (let percentage = pd_Percentage (bp_PercentageDiscount (dc_PercentageDiscount discount))
      in if percentage > 100 \<or> percentage < 0
         then Inl (Err ''total discount percentage cannot be greater than 100 or less than 0'')
         else Inr \<lparr>am_Managed = zero_managed,
           am_Discount = \<lparr>al_Base = \<lparr>lb_Description = None,
               lb_ChildUniqueReferenceID = Some (dc_ChildUniqueReferenceID discount),
               lb_ExternalIDs = \<lparr>xi_Invoicing = []\<rparr>,
               lb_Reason = NewDiscountReasonFrom (AnyPercentage (dc_PercentageDiscount discount))\<rparr>,
             al_Amount = cur_RoundToPrecision C (PC_ApplyTo L percentage lineTotal), al_RoundingAmount = 0\<rparr>\<rparr>)"

definition DiscountPercentage_Mutate :: "decimal_lib \<Rightarrow> PricerCalculateInput \<Rightarrow> DetailedLine list \<Rightarrow> DetailedLine list result" where
  "DiscountPercentage_Mutate L i pricerResult =
     bind_result (getDiscount (sl_RateCardDiscounts (pi_Line i))) (\<lambda>d. case d of
        None \<Rightarrow> Inr pricerResult
      | Some discount \<Rightarrow> MapWithErr (\<lambda>l.
          bind_result (getLineDiscount L (pi_CurrencyCalculator i) (DL_TotalAmount (pi_CurrencyCalculator i) l) discount)
            (\<lambda>lineDiscount. Inr (l\<lparr>li_AmountDiscounts := li_AmountDiscounts l @ [lineDiscount]\<rparr>))) pricerResult)"

section \<open>Commitments (commitments.go)\<close>

definition input_commitments :: "PricerCalculateInput \<Rightarrow> Commitments result" where
  "input_commitments i = bind_result (input_price i) (\<lambda>p. deref (PR_GetCommitments p))"

definition minimum_spend_line :: "PricerCalculateInput \<Rightarrow> decimal \<Rightarrow> DetailedLine" where
  "minimum_spend_line i amount =
     (let per = (if sl_IsProgressivelyBilled (pi_Line i) then pi_FullProgressivelyBilledServicePeriod i
                 else ac_ServicePeriod (pi_Line i))
      in (new_line (input_name i @ '': minimum spend'') 1 amount MinSpendChildUniqueReferenceID InArrearsPaymentTerm)
           \<lparr>li_Category := CategoryCommitment, li_Period := Some per\<rparr>)"

definition MinAmountCommitment_Mutate :: "PricerCalculateInput \<Rightarrow> DetailedLine list \<Rightarrow> DetailedLine list result" where
  "MinAmountCommitment_Mutate i pricerResult =
     bind_result (input_commitments i) (\<lambda>commitments.
       case cm_MinimumAmount commitments of
         None \<Rightarrow> Inr pricerResult
       | Some minimum \<Rightarrow>
           if \<not> IsLastInPeriod i then Inr pricerResult
           else bind_result (sl_PreviouslyBilledAmount (pi_Line i)) (\<lambda>previouslyBilledAmount.
             let totalBilledAmount = DetailedLines_Sum (pi_CurrencyCalculator i) pricerResult + previouslyBilledAmount
             in if totalBilledAmount < minimum
                then Inr (pricerResult @ [minimum_spend_line i
                       (cur_RoundToPrecision (pi_CurrencyCalculator i) (minimum - totalBilledAmount))])
                else Inr pricerResult))"

fun cap_lines :: "decimal_lib \<Rightarrow> currency_ops \<Rightarrow> decimal \<Rightarrow> decimal \<Rightarrow> DetailedLine list \<Rightarrow> DetailedLine list" where
  "cap_lines L C maxSpend totalBilled [] = []"
| "cap_lines L C maxSpend totalBilled (x # xs) =
     (let x' = AddDiscountForOverage L C totalBilled maxSpend x
      in x' # cap_lines L C maxSpend (totalBilled + DL_TotalAmount C x') xs)"

definition MaxAmountCommitment_Mutate :: "decimal_lib \<Rightarrow> PricerCalculateInput \<Rightarrow> DetailedLine list \<Rightarrow> DetailedLine list result" where
  "MaxAmountCommitment_Mutate L i pricerResult =
     bind_result (input_commitments i) (\<lambda>commitments.
       case cm_MaximumAmount commitments of
         None \<Rightarrow> Inr pricerResult
       | Some maxSpend \<Rightarrow>
           bind_result (sl_PreviouslyBilledAmount (pi_Line i)) (\<lambda>previouslyBilledAmount.
             Inr (cap_lines L (pi_CurrencyCalculator i) maxSpend previouslyBilledAmount pricerResult)))"

section \<open>Credits (credits.go)\<close>

definition ErrInvoiceLineCreditsNotConsumedFully :: error where
  "ErrInvoiceLineCreditsNotConsumedFully = Err ''credits not consumed fully''"

text \<open>One credit on the lines: the lines and what remains of the credit.\<close>

fun apply_credit :: "currency_ops \<Rightarrow> CreditApplied \<Rightarrow> decimal \<Rightarrow> DetailedLine list \<Rightarrow> DetailedLine list \<times> decimal" where
  "apply_credit C credit remaining [] = ([], remaining)"
| "apply_credit C credit remaining (x # xs) =
     (if remaining = 0 then (x # xs, remaining)
      else let totalAmount = DL_TotalAmount C x
      in if \<not> totalAmount > 0
         then let (ys, r) = apply_credit C credit remaining xs in (x # ys, r)
         else if totalAmount \<le> remaining
         then let (ys, r) = apply_credit C credit (cur_RoundToPrecision C (remaining - totalAmount)) xs
              in (x\<lparr>li_CreditsApplied := li_CreditsApplied x @ [CA_CloneWithAmount credit totalAmount]\<rparr> # ys, r)
         else (x\<lparr>li_CreditsApplied := li_CreditsApplied x @ [CA_CloneWithAmount credit remaining]\<rparr> # xs, 0))"

fun apply_credits :: "currency_ops \<Rightarrow> CreditApplied list \<Rightarrow> DetailedLine list \<Rightarrow> DetailedLine list result" where
  "apply_credits C [] ls = Inr ls"
| "apply_credits C (credit # credits) ls =
     (let (ls', remaining) = apply_credit C credit (cur_RoundToPrecision C (ca_Amount credit)) ls
      in if remaining > 0 then Inl ErrInvoiceLineCreditsNotConsumedFully else apply_credits C credits ls')"

definition Credits_Mutate :: "PricerCalculateInput \<Rightarrow> DetailedLine list \<Rightarrow> DetailedLine list result" where
  "Credits_Mutate i pricerResult = apply_credits (pi_CurrencyCalculator i) (sl_CreditsApplied (pi_Line i)) pricerResult"

section \<open>Unit conversion (unitconfig.go, forbidunitconfig.go, errors.go)\<close>

definition ErrUnitConfigDisabled :: error where
  "ErrUnitConfigDisabled = Err ''unit_config is set on the line but the unitConfig feature is disabled''"

definition ErrUnitConfigUnsupportedPrice :: error where
  "ErrUnitConfigUnsupportedPrice = Err ''unit_config is set on a price that does not support unit conversion''"

definition ForbidUnitConfig_Mutate :: "PricerCalculateInput \<Rightarrow> PricerCalculateInput result" where
  "ForbidUnitConfig_Mutate l =
     (if sl_UnitConfig (pi_Line l) \<noteq> None then Inl (Wrap ''refusing to bill raw quantity'' ErrUnitConfigDisabled)
      else Inr l)"

definition ApplyUnitConfig :: "decimal_lib \<Rightarrow> Usage \<Rightarrow> UnitConfig option \<Rightarrow> Usage" where
  "ApplyUnitConfig L usage unitConfig =
     (if unitConfig = None then usage
      else usage\<lparr>us_Quantity := snd (UC_Apply L unitConfig (us_Quantity usage)),
             us_PreLinePeriodQuantity := snd (UC_Apply L unitConfig (us_PreLinePeriodQuantity usage))\<rparr>)"

definition UnitConfig_Mutate :: "decimal_lib \<Rightarrow> PricerCalculateInput \<Rightarrow> PricerCalculateInput result" where
  "UnitConfig_Mutate L l =
     (let unitConfig = sl_UnitConfig (pi_Line l)
      in if unitConfig = None then Inr l
         else case ac_Price (pi_Line l) of
           None \<Rightarrow> Inl (Wrap ''line has no price'' ErrUnitConfigUnsupportedPrice)
         | Some price \<Rightarrow>
             if \<not> PR_SupportsUnitConfig price then Inl (Wrap ''price type'' ErrUnitConfigUnsupportedPrice)
             else (case UC_Validate unitConfig of
                Some e \<Rightarrow> Inl (Wrap ''invalid unit_config on line'' e)
              | None \<Rightarrow> bind_result (wrap_result ''getting usage'' (GetUsage l)) (\<lambda>usage.
                  Inr (l\<lparr>pi_Usage := Some (ApplyUnitConfig L usage unitConfig)\<rparr>))))"

section \<open>Usage discounts (discountusage.go)\<close>

record applyDiscountResult =
  ar_discountRemaining :: decimal
  ar_discountApplied :: decimal

definition applyDiscount :: "decimal \<Rightarrow> decimal \<Rightarrow> applyDiscountResult" where
  "applyDiscount discountAvailable usage =
     (if discountAvailable < usage then \<lparr>ar_discountRemaining = 0, ar_discountApplied = discountAvailable\<rparr>
      else \<lparr>ar_discountRemaining = discountAvailable - usage, ar_discountApplied = usage\<rparr>)"

definition removeRateCardUsageDiscounts :: "StandardLineDiscounts \<Rightarrow> StandardLineDiscounts" where
  "removeRateCardUsageDiscounts discounts = discounts\<lparr>sd_Usage :=
     filter (\<lambda>item. dr_t (lb_Reason (ul_Base (um_Discount item))) \<noteq> RatecardUsageDiscountReason) (sd_Usage discounts)\<rparr>"

text \<open>The discount of a line that is stored with it; \<open>lo.EmptyableToPtr\<close> of zero is nil.\<close>

definition usage_line_discount :: "BillingUsageDiscount \<Rightarrow> decimal \<Rightarrow> decimal \<Rightarrow> UsageLineDiscountManaged" where
  "usage_line_discount usageDiscount applied previously =
     \<lparr>um_Managed = zero_managed,
      um_Discount = \<lparr>ul_Base = \<lparr>lb_Description = None,
          lb_ChildUniqueReferenceID = Some (RateCardDiscountChildUniqueReferenceID (bu_CorrelationID usageDiscount)),
          lb_ExternalIDs = \<lparr>xi_Invoicing = []\<rparr>, lb_Reason = NewDiscountReasonFrom (AnyUsage usageDiscount)\<rparr>,
        ul_Quantity = applied, ul_PreLinePeriodQuantity = (if previously = 0 then None else Some previously)\<rparr>\<rparr>"

definition ApplyUsageDiscount :: "Usage \<Rightarrow> Discounts \<Rightarrow> StandardLineDiscounts \<Rightarrow> (Usage \<times> StandardLineDiscounts) result" where
  "ApplyUsageDiscount usage rateCardDiscounts standardLineDiscounts =
     (let discounts = SD_Clone standardLineDiscounts
      in case ds_Usage rateCardDiscounts of
           None \<Rightarrow> Inr (usage, removeRateCardUsageDiscounts discounts)
         | Some usageDiscount \<Rightarrow>
             if bu_CorrelationID usageDiscount = [] then Inl (Err ''discount has no correlation ID'')
             else let previouslyAppliedDiscount =
                    applyDiscount (ud_Quantity (bu_UsageDiscount usageDiscount)) (us_PreLinePeriodQuantity usage);
                  usage1 = usage\<lparr>us_PreLinePeriodQuantity :=
                    us_PreLinePeriodQuantity usage - ar_discountApplied previouslyAppliedDiscount\<rparr>;
                  discountAppliedToCurrentLine =
                    applyDiscount (ar_discountRemaining previouslyAppliedDiscount) (us_Quantity usage)
             in if ar_discountApplied discountAppliedToCurrentLine = 0
                then Inr (usage1, removeRateCardUsageDiscounts discounts)
                else let kept = removeRateCardUsageDiscounts discounts
                  in Inr (usage1\<lparr>us_Quantity := us_Quantity usage - ar_discountApplied discountAppliedToCurrentLine\<rparr>,
                       kept\<lparr>sd_Usage := MergeDiscountsByChildUniqueReferenceID (sd_Usage kept)
                         (usage_line_discount usageDiscount (ar_discountApplied discountAppliedToCurrentLine)
                            (ar_discountApplied previouslyAppliedDiscount))\<rparr>))"

definition DiscountUsage_Mutate :: "PricerCalculateInput \<Rightarrow> PricerCalculateInput result" where
  "DiscountUsage_Mutate l =
     bind_result (GetUsage l) (\<lambda>usage.
     bind_result (ApplyUsageDiscount usage (sl_RateCardDiscounts (pi_Line l)) (pi_StandardLineDiscounts l))
     (\<lambda>(usage', discounts'). Inr (l\<lparr>pi_Usage := Some usage', pi_StandardLineDiscounts := discounts'\<rparr>)))"

end
