(* ===== verification/Rating.thy ===== *)
theory Rating
  imports Mutators
begin

text \<open>
  The rating service (openmeter/billing/rating/service): which pricer and which mutators a line gets,
  the pipeline they form, the totals of the lines it returns, and the period of a line that can be
  billed. Mutators and pricers are values of a datatype that a function interprets, so that the
  pipeline of a line can be read off \<open>getPricerFor\<close>.
\<close>

section \<open>Pipelines (pricer.go)\<close>

datatype BasePricer = FlatPricer | UnitPricer | TieredPricer | PackagePricer | DynamicPricer

datatype PreCalculationMutator = UnitConfigMutator | ForbidUnitConfigMutator | DiscountUsageMutator

datatype PostCalculationMutator = DiscountPercentageMutator | MaxAmountCommitmentMutator
  | MinAmountCommitmentMutator | CreditsMutator

record priceMutator =
  pm_PreCalculation :: "PreCalculationMutator list"
  pm_Pricer :: BasePricer
  pm_PostCalculation :: "PostCalculationMutator list"

fun base_generate :: "decimal_lib \<Rightarrow> BasePricer \<Rightarrow> PricerCalculateInput \<Rightarrow> DetailedLine list result" where
  "base_generate L FlatPricer = Flat_GenerateDetailedLines"
| "base_generate L UnitPricer = Unit_GenerateDetailedLines"
| "base_generate L TieredPricer = Tiered_GenerateDetailedLines"
| "base_generate L PackagePricer = Package_GenerateDetailedLines L"
| "base_generate L DynamicPricer = Dynamic_GenerateDetailedLines"

fun base_resolve :: "BasePricer \<Rightarrow> time \<Rightarrow> bool \<Rightarrow> GatheringLine \<Rightarrow> ClosedPeriod option result" where
  "base_resolve FlatPricer = Flat_ResolveBillablePeriod"
| "base_resolve UnitPricer = PBM_ResolveBillablePeriod"
| "base_resolve TieredPricer = Tiered_ResolveBillablePeriod"
| "base_resolve PackagePricer = PBM_ResolveBillablePeriod"
| "base_resolve DynamicPricer = PBM_ResolveBillablePeriod"

fun pre_mutate :: "decimal_lib \<Rightarrow> PreCalculationMutator \<Rightarrow> PricerCalculateInput \<Rightarrow> PricerCalculateInput result" where
  "pre_mutate L UnitConfigMutator = UnitConfig_Mutate L"
| "pre_mutate L ForbidUnitConfigMutator = ForbidUnitConfig_Mutate"
| "pre_mutate L DiscountUsageMutator = DiscountUsage_Mutate"

fun post_mutate :: "decimal_lib \<Rightarrow> PostCalculationMutator \<Rightarrow> PricerCalculateInput \<Rightarrow> DetailedLine list
    \<Rightarrow> DetailedLine list result" where
  "post_mutate L DiscountPercentageMutator = DiscountPercentage_Mutate L"
| "post_mutate L MaxAmountCommitmentMutator = MaxAmountCommitment_Mutate L"
| "post_mutate L MinAmountCommitmentMutator = MinAmountCommitment_Mutate"
| "post_mutate L CreditsMutator = Credits_Mutate"

definition getPricerFor :: "Price option \<Rightarrow> GenerateDetailedLinesOptions \<Rightarrow> bool \<Rightarrow> priceMutator result" where
  "getPricerFor linePrice opts unitConfigEnabled =
     (case linePrice of
        None \<Rightarrow> Inl (Err ''price is nil'')
      | Some p \<Rightarrow>
          if pr_t p = FlatPriceType
          then Inr \<lparr>pm_PreCalculation = [], pm_Pricer = FlatPricer,
             pm_PostCalculation = [DiscountPercentageMutator] @
               (if \<not> go_DisableCreditsMutator opts then [CreditsMutator] else [])\<rparr>
          else (case (case pr_t p of
                  UnitPriceType \<Rightarrow> Some UnitPricer
                | TieredPriceType \<Rightarrow> Some TieredPricer
                | PackagePriceType \<Rightarrow> Some PackagePricer
                | DynamicPriceType \<Rightarrow> Some DynamicPricer
                | _ \<Rightarrow> None) of
              None \<Rightarrow> Inl (Err ''unsupported price type'')
            | Some basePricer \<Rightarrow>
                Inr \<lparr>pm_PreCalculation =
                   [if unitConfigEnabled then UnitConfigMutator else ForbidUnitConfigMutator, DiscountUsageMutator],
                 pm_Pricer = basePricer,
                 pm_PostCalculation = [DiscountPercentageMutator, MaxAmountCommitmentMutator] @
                   (if \<not> go_IgnoreMinimumCommitment opts then [MinAmountCommitmentMutator] else []) @
                   (if \<not> go_DisableCreditsMutator opts then [CreditsMutator] else [])\<rparr>))"

fun run_pre :: "decimal_lib \<Rightarrow> PreCalculationMutator list \<Rightarrow> PricerCalculateInput \<Rightarrow> PricerCalculateInput result" where
  "run_pre L [] l = Inr l"
| "run_pre L (m # ms) l = bind_result (pre_mutate L m l) (run_pre L ms)"

fun run_post :: "decimal_lib \<Rightarrow> PostCalculationMutator list \<Rightarrow> PricerCalculateInput \<Rightarrow> DetailedLine list
    \<Rightarrow> DetailedLine list result" where
  "run_post L [] i ls = Inr ls"
| "run_post L (m # ms) i ls = bind_result (post_mutate L m i ls) (run_post L ms i)"

definition PM_GenerateDetailedLines :: "decimal_lib \<Rightarrow> priceMutator \<Rightarrow> PricerCalculateInput \<Rightarrow> GenerateDetailedLinesResult result" where
  "PM_GenerateDetailedLines L p l =
     bind_result (run_pre L (pm_PreCalculation p) l) (\<lambda>mutatedInput.
     bind_result (base_generate L (pm_Pricer p) mutatedInput) (\<lambda>detailedLines.
     bind_result (run_post L (pm_PostCalculation p) mutatedInput detailedLines) (\<lambda>detailedLines.
       Inr \<lparr>gr_DetailedLines = detailedLines, gr_FinalUsage = pi_Usage mutatedInput,
            gr_FinalStandardLineDiscounts = pi_StandardLineDiscounts mutatedInput, gr_Totals = TT_zero\<rparr>)))"

definition PM_ResolveBillablePeriod :: "priceMutator \<Rightarrow> time \<Rightarrow> bool \<Rightarrow> GatheringLine \<Rightarrow> ClosedPeriod option result" where
  "PM_ResolveBillablePeriod p = base_resolve (pm_Pricer p)"

section \<open>Totals (detailedline.go)\<close>

definition calculateDetailedLineTotals :: "DetailedLine \<Rightarrow> currency_ops \<Rightarrow> Totals" where
  "calculateDetailedLineTotals line C =
     (let t = TT_zero\<lparr>tt_DiscountsTotal := AMs_SumAmount C (li_AmountDiscounts line),
                tt_CreditsTotal := CAs_SumAmount C (li_CreditsApplied line)\<rparr>;
          amount = cur_RoundToPrecision C (li_PerUnitAmount line * li_Quantity line);
          t = (case li_Category line of CategoryCommitment \<Rightarrow> t\<lparr>tt_ChargesTotal := amount\<rparr> | _ \<Rightarrow> t\<lparr>tt_Amount := amount\<rparr>);
          t = t\<lparr>tt_Total := CalculateTotal t\<rparr>
      in TT_RoundToPrecision C t)"

definition getTotalsFromDetailedLines :: "GenerateDetailedLinesResult \<Rightarrow> currency_ops \<Rightarrow> GenerateDetailedLinesResult" where
  "getTotalsFromDetailedLines r C =
     (let ls = map (\<lambda>l. l\<lparr>li_Totals := calculateDetailedLineTotals l C\<rparr>) (gr_DetailedLines r)
      in r\<lparr>gr_DetailedLines := ls, gr_Totals := TT_RoundToPrecision C (TT_Sum (map li_Totals ls))\<rparr>)"

definition validateStandardLine :: "StandardLine option \<Rightarrow> error option" where
  "validateStandardLine line =
     (case line of
        None \<Rightarrow> Some (Err ''line is nil'')
      | Some l \<Rightarrow>
          if ac_Price l = None then Some (Err ''price is nil'')
          else (case sl_ProgressivelyBilledServicePeriod l of
             Inl e \<Rightarrow> Some (Wrap ''getting progressively billed service period'' e)
           | Inr full \<Rightarrow>
               if \<not> sl_IsProgressivelyBilled l \<and> \<not> CP_Equal full (ac_ServicePeriod l)
               then Some (Err ''full service period does not match the service period for a non-progressively billed line'')
               else None))"

text \<open>\<open>*meteredQuantity\<close> and \<open>*preLinePeriodMeteredQuantity\<close>, for all but flat prices.\<close>

definition metered_usage :: "StandardLine \<Rightarrow> Usage option result" where
  "metered_usage l =
     bind_result (deref (ac_Price l)) (\<lambda>p.
       if pr_t p = FlatPriceType then Inr None
       else bind_result (wrap_result ''getting metered usage'' (sl_MeteredQuantity l)) (\<lambda>q.
         bind_result (wrap_result ''getting pre line period metered usage'' (sl_MeteredPreLinePeriodQuantity l)) (\<lambda>pre.
         bind_result (deref q) (\<lambda>q. bind_result (deref pre) (\<lambda>pre.
           Inr (Some \<lparr>us_Quantity = q, us_PreLinePeriodQuantity = pre\<rparr>))))))"

definition GenerateDetailedLines :: "decimal_lib \<Rightarrow> bool \<Rightarrow> StandardLine option
    \<Rightarrow> (GenerateDetailedLinesOptions \<Rightarrow> GenerateDetailedLinesOptions) list \<Rightarrow> GenerateDetailedLinesResult result" where
  "GenerateDetailedLines L unitConfigEnabled line opts =
     (case validateStandardLine line of
        Some e \<Rightarrow> Inl (Wrap ''validating billable line'' e)
      | None \<Rightarrow> bind_result (deref line) (\<lambda>l.
          bind_result (wrap_result ''getting currency calculator'' (sl_CurrencyCalculator l)) (\<lambda>currency.
          bind_result (wrap_result ''creating pricer''
             (getPricerFor (ac_Price l) (NewGenerateDetailedLinesOptions opts) unitConfigEnabled)) (\<lambda>linePricer.
          bind_result (wrap_result ''getting progressively billed service period''
             (sl_ProgressivelyBilledServicePeriod l)) (\<lambda>full.
          bind_result (metered_usage l) (\<lambda>usage.
          check_then (map_option (Wrap ''validating pricer input'') (PI_Validate currency full line))
          (bind_result (deref currency) (\<lambda>C.
          bind_result (wrap_result ''calculating detailed lines'' (PM_GenerateDetailedLines L linePricer
             \<lparr>pi_Line = l, pi_CurrencyCalculator = C, pi_FullProgressivelyBilledServicePeriod = full,
              pi_Usage = usage, pi_StandardLineDiscounts = sl_StandardLineDiscounts l\<rparr>)) (\<lambda>out.
            Inr (getTotalsFromDetailedLines out C)))))))))) "

section \<open>Billable periods (billableperiod.go)\<close>

definition isDependingOnIncreaseOnlyMeters :: "FeatureMeterCollection \<Rightarrow> GatheringLine \<Rightarrow> bool result" where
  "isDependingOnIncreaseOnlyMeters meters line =
     (let featureKey = ac_FeatureKey line
      in if featureKey = [] then Inl (Err ''feature key is required'')
         else bind_result (FM_GetByKey meters featureKey True) (\<lambda>featureMeter.
           case fm_Meter featureMeter of
             None \<Rightarrow> Inl (Err ''meter is nil for feature'')
           | Some meterEntity \<Rightarrow>
               Inr (me_Aggregation meterEntity \<in> {AggSum, AggCount, AggMax, AggUniqueCount})))"

definition ResolveBillablePeriod :: "bool \<Rightarrow> ResolveBillablePeriodInput \<Rightarrow> ClosedPeriod option result" where
  "ResolveBillablePeriod unitConfigEnabled i =
     check_then (RI_Validate i)
      (bind_result (deref (ri_Line i)) (\<lambda>line.
       bind_result (getPricerFor (ac_Price line) (NewGenerateDetailedLinesOptions []) unitConfigEnabled) (\<lambda>linePricer.
       case ac_Price line of
         None \<Rightarrow> Inl (Err ''price is nil'')
       | Some linePrice \<Rightarrow>
           bind_result
             (if pr_t linePrice \<noteq> FlatPriceType \<and> ri_ProgressiveBilling i
              then bind_result (deref (ri_FeatureMeters i)) (\<lambda>meters. isDependingOnIncreaseOnlyMeters meters line)
              else Inr False)
             (\<lambda>meterTypeAllowsProgressiveBilling.
               PM_ResolveBillablePeriod linePricer (ri_AsOf i)
                 (if \<not> meterTypeAllowsProgressiveBilling then False else ri_ProgressiveBilling i) line))))"

end
