(* ===== verification/PostMutators.thy ===== *)
theory PostMutators
  imports Rating Tiers
begin

text \<open>
  What the mutators after the pricer do to the value of the lines: none makes a line negative, the
  maximum commitment cuts the lines off exactly at the maximum, the minimum commitment fills up to the
  minimum, and credits are used up entirely or refused.
\<close>

section \<open>Values of lines\<close>

definition lines_nonneg :: "currency_ops \<Rightarrow> DetailedLine list \<Rightarrow> bool" where
  "lines_nonneg C ls \<longleftrightarrow> (\<forall>x \<in> set ls. 0 \<le> DL_TotalAmount C x)"

lemma lines_nonneg_simps [simp]:
  "lines_nonneg C []" "lines_nonneg C (x # xs) \<longleftrightarrow> 0 \<le> DL_TotalAmount C x \<and> lines_nonneg C xs"
  "lines_nonneg C (xs @ ys) \<longleftrightarrow> lines_nonneg C xs \<and> lines_nonneg C ys"
  by (auto simp: lines_nonneg_def)

lemma DetailedLines_Sum_eq: "DetailedLines_Sum C ls = (\<Sum>x\<leftarrow>ls. DL_TotalAmount C x)"
  by (simp add: DetailedLines_Sum_def)

lemma DetailedLines_Sum_simps [simp]:
  "DetailedLines_Sum C [] = 0" "DetailedLines_Sum C (x # xs) = DL_TotalAmount C x + DetailedLines_Sum C xs"
  "DetailedLines_Sum C (xs @ ys) = DetailedLines_Sum C xs + DetailedLines_Sum C ys"
  by (simp_all add: DetailedLines_Sum_eq)

lemma DetailedLines_Sum_nonneg: "lines_nonneg C ls \<Longrightarrow> 0 \<le> DetailedLines_Sum C ls"
  by (induction ls) simp_all

lemma DL_TotalAmount_add_discount:
  "DL_TotalAmount C (x\<lparr>li_AmountDiscounts := li_AmountDiscounts x @ [d]\<rparr>) = DL_TotalAmount C x -
     cur_RoundToPrecision C (al_Amount (am_Discount d)) - cur_RoundToPrecision C (al_RoundingAmount (am_Discount d))"
  by (simp add: DL_TotalAmount_def TotalAmount_def AMs_SumAmount_eq)

lemma DL_TotalAmount_add_credit:
  "DL_TotalAmount C (x\<lparr>li_CreditsApplied := li_CreditsApplied x @ [c]\<rparr>) =
     DL_TotalAmount C x - cur_RoundToPrecision C (ca_Amount c)"
  by (simp add: DL_TotalAmount_def TotalAmount_def CAs_SumAmount_eq)

lemma MaxAmountCommitment_result:
  assumes "MaxAmountCommitment_Mutate L i ls = Inr ls'"
  shows "(\<exists>cm. input_commitments i = Inr cm \<and> cm_MaximumAmount cm = None) \<and> ls' = ls \<or>
    (\<exists>cm a b. input_commitments i = Inr cm \<and> cm_MaximumAmount cm = Some a \<and>
       sl_PreviouslyBilledAmount (pi_Line i) = Inr b \<and> ls' = cap_lines L (pi_CurrencyCalculator i) a b ls)"
proof -
  obtain cm where cm: "input_commitments i = Inr cm"
    using assms by (auto simp: MaxAmountCommitment_Mutate_def result_simps)
  show ?thesis
    using assms cm by (cases "cm_MaximumAmount cm"; cases "sl_PreviouslyBilledAmount (pi_Line i)")
      (auto simp: MaxAmountCommitment_Mutate_def)
qed

lemma MinAmountCommitment_result:
  assumes "MinAmountCommitment_Mutate i ls = Inr ls'"
  shows "ls' = ls \<or>
    (\<exists>cm a b. input_commitments i = Inr cm \<and> cm_MinimumAmount cm = Some a \<and> IsLastInPeriod i \<and>
       sl_PreviouslyBilledAmount (pi_Line i) = Inr b \<and> DetailedLines_Sum (pi_CurrencyCalculator i) ls + b < a \<and>
       ls' = ls @ [minimum_spend_line i (cur_RoundToPrecision (pi_CurrencyCalculator i)
         (a - (DetailedLines_Sum (pi_CurrencyCalculator i) ls + b)))])"
proof -
  obtain cm where cm: "input_commitments i = Inr cm"
    using assms by (auto simp: MinAmountCommitment_Mutate_def result_simps)
  show ?thesis
  proof (cases "cm_MinimumAmount cm = None \<or> \<not> IsLastInPeriod i")
    case True
    then show ?thesis using assms cm by (auto simp: MinAmountCommitment_Mutate_def split: option.splits)
  next
    case False
    then obtain a where a: "cm_MinimumAmount cm = Some a" "IsLastInPeriod i" by auto
    then show ?thesis using assms cm
      by (cases "sl_PreviouslyBilledAmount (pi_Line i)")
        (simp_all add: MinAmountCommitment_Mutate_def Let_def split: if_splits)
  qed
qed

text \<open>\<open>fine_division\<close>: the division of the package is finer than half of a smallest unit.\<close>

definition fine_division :: "nat \<Rightarrow> bool" where
  "fine_division p \<longleftrightarrow> p < div_places"

lemma fine_division_unit: "fine_division p \<Longrightarrow> 1 / 10 ^ div_places < 1 / (2 * 10 ^ p :: rat)"
proof -
  assume "fine_division p"
  then have "(10 :: rat) ^ Suc p \<le> 10 ^ div_places" by (intro power_increasing) (simp_all add: fine_division_def)
  then have "(2 :: rat) * 10 ^ p < 10 ^ div_places" by (rule less_le_trans [rotated]) simp
  then show ?thesis by (simp add: frac_less2)
qed

context currency_calculator
begin

lemma Round_0 [simp]: "cur_RoundToPrecision C 0 = 0"
  by (simp add: RoundToPrecision_fixed)

lemma DL_TotalAmount_grid [simp]: "on_grid p (DL_TotalAmount C x)"
proof -
  have "on_grid p (AMs_SumAmount C ds)" for ds
    unfolding AMs_SumAmount_eq by (intro on_grid_sum on_grid_add) simp_all
  moreover have "on_grid p (CAs_SumAmount C cs)" for cs
    unfolding CAs_SumAmount_eq by (intro on_grid_sum) simp
  ultimately show ?thesis
    by (simp add: DL_TotalAmount_def TotalAmount_def on_grid_sub)
qed

lemma DetailedLines_Sum_grid [simp]: "on_grid p (DetailedLines_Sum C ls)"
  unfolding DetailedLines_Sum_eq by (intro on_grid_sum) simp

lemma Round_DL_TotalAmount [simp]: "cur_RoundToPrecision C (DL_TotalAmount C x) = DL_TotalAmount C x"
  by (simp add: RoundToPrecision_fixed)

lemma Round_Round [simp]: "cur_RoundToPrecision C (cur_RoundToPrecision C x) = cur_RoundToPrecision C x"
  by (simp add: RoundToPrecision_fixed)

section \<open>The maximum commitment\<close>

lemma overage_total:
  assumes "0 \<le> DL_TotalAmount C x" and "on_grid p billed"
  shows "DL_TotalAmount C (AddDiscountForOverage L C billed maxSpend x) =
    min (DL_TotalAmount C x) (max 0 (cur_RoundToPrecision C maxSpend - billed))"
proof -
  let ?m = "cur_RoundToPrecision C maxSpend" and ?T = "DL_TotalAmount C x"
  have b: "cur_RoundToPrecision C billed = billed" using assms(2) by (simp add: RoundToPrecision_fixed)
  have d: "cur_RoundToPrecision C (billed + ?T - ?m) = billed + ?T - ?m"
    by (intro RoundToPrecision_fixed on_grid_sub on_grid_add) (simp_all add: assms(2))
  show ?thesis using assms(1)
    by (simp add: AddDiscountForOverage_def Let_def b d DL_TotalAmount_add_discount maximum_spend_discount_def
        min_def max_def)
qed

lemma cap_lines_total:
  assumes "lines_nonneg C ls" and "on_grid p billed"
  shows "lines_nonneg C (cap_lines L C maxSpend billed ls)"
    and "DetailedLines_Sum C (cap_lines L C maxSpend billed ls) =
      min (DetailedLines_Sum C ls) (max 0 (cur_RoundToPrecision C maxSpend - billed))"
proof -
  have "lines_nonneg C (cap_lines L C maxSpend billed ls) \<and>
      DetailedLines_Sum C (cap_lines L C maxSpend billed ls) =
        min (DetailedLines_Sum C ls) (max 0 (cur_RoundToPrecision C maxSpend - billed))"
    using assms
  proof (induction ls arbitrary: billed)
    case (Cons x xs)
    let ?x = "AddDiscountForOverage L C billed maxSpend x"
    have t: "DL_TotalAmount C ?x = min (DL_TotalAmount C x) (max 0 (cur_RoundToPrecision C maxSpend - billed))"
      using Cons.prems by (simp add: overage_total)
    have "on_grid p (billed + DL_TotalAmount C ?x)" using Cons.prems(2) by (simp add: on_grid_add)
    note IH = Cons.IH [OF _ this] DetailedLines_Sum_nonneg [of C xs]
    then show ?case using Cons.prems(1) by (simp add: Let_def t) (auto simp: min_def max_def)
  qed simp
  then show "lines_nonneg C (cap_lines L C maxSpend billed ls)"
    "DetailedLines_Sum C (cap_lines L C maxSpend billed ls) =
      min (DetailedLines_Sum C ls) (max 0 (cur_RoundToPrecision C maxSpend - billed))" by simp_all
qed

section \<open>The minimum commitment\<close>

lemma minimum_spend_total [simp]: "DL_TotalAmount C (minimum_spend_line i a) = cur_RoundToPrecision C a"
  by (simp add: minimum_spend_line_def new_line_def DL_TotalAmount_def TotalAmount_def AMs_SumAmount_eq
      CAs_SumAmount_eq Let_def)

section \<open>Percentage discounts\<close>

lemma percentage_discount_bounds:
  assumes L: "decimal_ok L" and p: "fine_division p" and pct: "0 \<le> pct" "pct \<le> 100" and x: "0 \<le> x" "on_grid p x"
  shows "0 \<le> cur_RoundToPrecision C (PC_ApplyTo L pct x)" and "cur_RoundToPrecision C (PC_ApplyTo L pct x) \<le> x"
    and "\<bar>cur_RoundToPrecision C (PC_ApplyTo L pct x) - x * pct / 100\<bar> \<le> cur_Unit C"
proof -
  let ?d = "dl_Div L (x * pct) 100" and ?r = "cur_RoundToPrecision C (PC_ApplyTo L pct x)"
  have near: "\<bar>?d - x * pct / 100\<bar> \<le> 1 / 10 ^ div_places" using div_error [OF L, of 100] by simp
  have round: "\<bar>?r - ?d\<bar> \<le> 1 / (2 * 10 ^ p)"
    using RoundToPrecision_near [of ?d] by (simp add: PC_ApplyTo_def Unit)
  have e: "1 / 10 ^ div_places < 1 / (2 * 10 ^ p :: rat)" using fine_division_unit [OF p] .
  have u: "cur_Unit C = 1 / (2 * 10 ^ p) + 1 / (2 * 10 ^ p)" by (simp add: Unit)
  show "0 \<le> ?r" unfolding PC_ApplyTo_def
    by (rule RoundToPrecision_nonneg) (use L pct x in \<open>simp add: div_nonneg\<close>)
  show "\<bar>?r - x * pct / 100\<bar> \<le> cur_Unit C" unfolding u using near round e by linarith
  have "x * pct / 100 \<le> x" using mult_left_mono [OF pct(2) x(1)] by simp
  then have "?r < x + 1 / 10 ^ p" using near round e u Unit by linarith
  then show "?r \<le> x"
    using on_grid_lt_unit [OF on_grid_sub, of p ?r x] x(2) by (cases "?r \<le> x") (auto simp: not_le)
qed

section \<open>Credits\<close>

lemma apply_credit_total:
  assumes "lines_nonneg C ls" and "0 \<le> r" and "on_grid p r"
  shows "lines_nonneg C (fst (apply_credit C c r ls)) \<and>
    snd (apply_credit C c r ls) = max 0 (r - DetailedLines_Sum C ls) \<and>
    DetailedLines_Sum C (fst (apply_credit C c r ls)) = max 0 (DetailedLines_Sum C ls - r)"
  using assms
proof (induction ls arbitrary: r)
  case (Cons x xs)
  let ?T = "DL_TotalAmount C x"
  have s: "0 \<le> DetailedLines_Sum C xs" using Cons.prems(1) by (simp add: DetailedLines_Sum_nonneg)
  have g: "on_grid p (r - ?T)" using Cons.prems(3) by (simp add: on_grid_sub)
  then have f: "cur_RoundToPrecision C (r - ?T) = r - ?T" by (rule RoundToPrecision_fixed)
  have fr: "cur_RoundToPrecision C r = r" using Cons.prems(3) by (rule RoundToPrecision_fixed)
  consider (none) "r = 0" | (skip) "r \<noteq> 0" "?T = 0" | (all) "r \<noteq> 0" "0 < ?T" "?T \<le> r"
    | (part) "r \<noteq> 0" "0 < ?T" "r < ?T"
    using Cons.prems(1) by fastforce
  then show ?case
  proof cases
    case none
    then show ?thesis using s Cons.prems(1) by simp
  next
    case skip
    then show ?thesis using Cons.IH [of r] Cons.prems by (simp add: split_beta)
  next
    case all
    then show ?thesis using Cons.IH [of "r - ?T"] Cons.prems g s
      by (simp add: f split_beta Let_def DL_TotalAmount_add_credit CA_CloneWithAmount_def) (auto simp: max_def)
  next
    case part
    then show ?thesis using Cons.prems s fr
      by (simp add: Let_def DL_TotalAmount_add_credit CA_CloneWithAmount_def)
  qed
qed simp

lemma apply_credits_total:
  assumes "lines_nonneg C ls" and "\<forall>c \<in> set cs. 0 \<le> ca_Amount c"
  shows "apply_credits C cs ls = Inl ErrInvoiceLineCreditsNotConsumedFully \<and>
      DetailedLines_Sum C ls < CAs_SumAmount C cs \<or>
    (\<exists>ls'. apply_credits C cs ls = Inr ls' \<and> lines_nonneg C ls' \<and>
      DetailedLines_Sum C ls' = DetailedLines_Sum C ls - CAs_SumAmount C cs)"
  using assms
proof (induction cs arbitrary: ls)
  case (Cons c cs)
  let ?r = "cur_RoundToPrecision C (ca_Amount c)"
  let ?res = "apply_credit C c ?r ls"
  have r: "0 \<le> ?r" using Cons.prems(2) by (simp add: RoundToPrecision_nonneg)
  have a: "lines_nonneg C (fst ?res)" "snd ?res = max 0 (?r - DetailedLines_Sum C ls)"
    "DetailedLines_Sum C (fst ?res) = max 0 (DetailedLines_Sum C ls - ?r)"
    using apply_credit_total [OF Cons.prems(1) r] by simp_all
  have s: "0 \<le> CAs_SumAmount C cs"
    unfolding CAs_SumAmount_eq using Cons.prems(2) by (intro sum_list_nonneg) (auto intro: RoundToPrecision_nonneg)
  show ?case
  proof (cases "snd ?res > 0")
    case True
    then have "DetailedLines_Sum C ls < ?r" using a(2) by (simp add: max_def split: if_splits)
    then show ?thesis using True s by (simp add: split_beta CAs_SumAmount_eq)
  next
    case False
    then have "?r \<le> DetailedLines_Sum C ls" using a(2) by simp
    then show ?thesis using Cons.IH [OF a(1)] Cons.prems(2) False a(3)
      by (simp add: split_beta CAs_SumAmount_eq) (auto simp: algebra_simps)
  qed
qed (simp add: CAs_SumAmount_eq)

end

section \<open>The contract of the mutators\<close>

text \<open>A mutator after the pricer never makes a line negative.\<close>

locale post_mutator = currency_calculator +
  fixes mutate :: "PricerCalculateInput \<Rightarrow> DetailedLine list \<Rightarrow> DetailedLine list result"
    and input_ok :: "PricerCalculateInput \<Rightarrow> bool"
  assumes keeps: "pi_CurrencyCalculator i = C \<Longrightarrow> input_ok i \<Longrightarrow> lines_nonneg C ls \<Longrightarrow> mutate i ls = Inr ls'
    \<Longrightarrow> lines_nonneg C ls'"

text \<open>What the mutators read of a line: the previously billed amount in whole units, no negative credit.\<close>

definition billing_ok :: "nat \<Rightarrow> PricerCalculateInput \<Rightarrow> bool" where
  "billing_ok p i \<longleftrightarrow> (\<forall>c \<in> set (sl_CreditsApplied (pi_Line i)). 0 \<le> ca_Amount c) \<and>
     (\<forall>b. sl_PreviouslyBilledAmount (pi_Line i) = Inr b \<longrightarrow> on_grid p b)"

context currency_calculator
begin

lemma discount_percentage_keeps:
  assumes L: "decimal_ok L" "fine_division p" and i: "pi_CurrencyCalculator i = C"
    and n: "lines_nonneg C ls" and m: "DiscountPercentage_Mutate L i ls = Inr ls'"
  shows "lines_nonneg C ls'"
proof (cases "getDiscount (sl_RateCardDiscounts (pi_Line i))")
  case (Inr d)
  show ?thesis
  proof (cases d)
    case None
    then show ?thesis using m n Inr by (simp add: DiscountPercentage_Mutate_def)
  next
    case (Some discount)
    let ?f = "\<lambda>l. bind_result (getLineDiscount L C (DL_TotalAmount C l) discount)
        (\<lambda>lineDiscount. Inr (l\<lparr>li_AmountDiscounts := li_AmountDiscounts l @ [lineDiscount]\<rparr>))"
    have e: "map ?f ls = map Inr ls'"
      using m Inr Some i by (simp add: DiscountPercentage_Mutate_def MapWithErr_Inr)
    have "0 \<le> DL_TotalAmount C y" if y: "y \<in> set ls'" for y
    proof -
      have "Inr y \<in> set (map ?f ls)" unfolding e using y by simp
      then obtain x where x: "x \<in> set ls" "?f x = Inr y" by auto
      have T: "0 \<le> DL_TotalAmount C x" using n x(1) by (simp add: lines_nonneg_def)
      let ?pct = "pd_Percentage (bp_PercentageDiscount (dc_PercentageDiscount discount))"
      have "0 \<le> ?pct \<and> ?pct \<le> 100" using x(2) by (auto simp: getLineDiscount_def Let_def split: if_splits)
      then have "cur_RoundToPrecision C (PC_ApplyTo L ?pct (DL_TotalAmount C x)) \<le> DL_TotalAmount C x"
        using percentage_discount_bounds(2) [OF L _ _ T DL_TotalAmount_grid] by blast
      then show ?thesis using x(2)
        by (auto simp: getLineDiscount_def Let_def DL_TotalAmount_add_discount split: if_splits)
    qed
    then show ?thesis by (simp add: lines_nonneg_def)
  qed
qed (use m in \<open>simp add: DiscountPercentage_Mutate_def\<close>)

lemma max_commitment_keeps:
  assumes i: "pi_CurrencyCalculator i = C" and ok: "billing_ok p i" and n: "lines_nonneg C ls"
    and m: "MaxAmountCommitment_Mutate L i ls = Inr ls'"
  shows "lines_nonneg C ls'"
  using MaxAmountCommitment_result [OF m]
proof (elim disjE exE conjE)
  fix cm a b
  assume "sl_PreviouslyBilledAmount (pi_Line i) = Inr b" and l: "ls' = cap_lines L (pi_CurrencyCalculator i) a b ls"
  then have "on_grid p b" using ok by (simp add: billing_ok_def)
  then show ?thesis unfolding l i by (rule cap_lines_total(1) [OF n])
qed (use n in simp)

lemma min_commitment_keeps:
  assumes i: "pi_CurrencyCalculator i = C" and n: "lines_nonneg C ls" and m: "MinAmountCommitment_Mutate i ls = Inr ls'"
  shows "lines_nonneg C ls'"
  using MinAmountCommitment_result [OF m]
proof (elim disjE exE conjE)
  fix cm a b
  assume "DetailedLines_Sum (pi_CurrencyCalculator i) ls + b < a"
    and l: "ls' = ls @ [minimum_spend_line i (cur_RoundToPrecision (pi_CurrencyCalculator i)
        (a - (DetailedLines_Sum (pi_CurrencyCalculator i) ls + b)))]"
  then show ?thesis using n unfolding l i by (simp add: RoundToPrecision_nonneg)
qed (use n in simp)

lemma credits_keep:
  assumes "pi_CurrencyCalculator i = C" and "billing_ok p i" and "lines_nonneg C ls" and "Credits_Mutate i ls = Inr ls'"
  shows "lines_nonneg C ls'"
  using apply_credits_total [OF assms(3), of "sl_CreditsApplied (pi_Line i)"] assms
  by (auto simp: Credits_Mutate_def billing_ok_def)

lemma post_mutator_of:
  assumes "decimal_ok L" and "fine_division p"
  shows "post_mutator C p (post_mutate L m) (billing_ok p)"
proof unfold_locales
  fix i ls ls'
  assume i: "pi_CurrencyCalculator i = C" "billing_ok p i" "lines_nonneg C ls" "post_mutate L m i ls = Inr ls'"
  then show "lines_nonneg C ls'"
    using discount_percentage_keeps [OF assms i(1,3)] max_commitment_keeps [OF i(1-3)]
      min_commitment_keeps [OF i(1,3)] credits_keep [OF i(1-3)]
    by (cases m) auto
qed

lemma run_post_keeps:
  assumes "decimal_ok L" and "fine_division p" and "pi_CurrencyCalculator i = C" and "billing_ok p i"
    and "lines_nonneg C ls" and "run_post L ms i ls = Inr ls'"
  shows "lines_nonneg C ls'"
  using assms(5,6)
proof (induction ms arbitrary: ls)
  case (Cons m ms)
  then show ?case using post_mutator.keeps [OF post_mutator_of [OF assms(1,2)] assms(3,4)]
    by (auto simp: result_simps)
qed simp

end

section \<open>A concrete calculation\<close>

lemma cents_calculator: "currency_calculator cents 2"
proof -
  let ?d = "\<lparr>cd_ISOCode = ''USD'', cd_ISONumeric = ''840'', cd_Name = ''US Dollar'', cd_Symbol = ''$'',
    cd_Subunits = 2, cd_DecimalMark = ''.'', cd_ThousandsSeparator = '',''\<rparr>"
  have "currency_calculator (currency_ops_of std_decimal_lib Map.empty (FiatCurrency ?d)) (unat (cd_Subunits ?d))"
    by (rule calculator_of_currency [OF decimal_ok_std]) simp_all
  then show ?thesis by (simp add: cents_def del: currency_ops_of.simps)
qed

interpretation cents_mutator: post_mutator cents 2 "post_mutate std_decimal_lib m" "billing_ok 2" for m
  by (rule currency_calculator.post_mutator_of [OF cents_calculator decimal_ok_std])
    (simp add: fine_division_def div_places_def)

text \<open>Two lines of 10 and 5 dollars.\<close>

definition sample_lines :: "DetailedLine list" where
  "sample_lines = [new_line ''a'' 1 10 ''x'' InArrearsPaymentTerm, new_line ''b'' 5 1 ''y'' InArrearsPaymentTerm]"

lemma sample_lines_total [simp]: "DetailedLines_Sum cents sample_lines = 15" "lines_nonneg cents sample_lines"
  using currency_calculator.RoundToPrecision_fixed [OF cents_calculator, of 10]
    currency_calculator.RoundToPrecision_fixed [OF cents_calculator, of 5]
  by (simp_all add: sample_lines_def new_line_def DL_TotalAmount_def TotalAmount_def AMs_SumAmount_eq CAs_SumAmount_eq)

section \<open>Properties\<close>

text \<open>
  C19. The maximum commitment is exact: with the amount billed before, the lines come to their total or
  to the maximum, whichever is less, and to nothing once the maximum was reached; no line becomes
  negative.
\<close>

theorem MaxAmountCommitment_exact:
  assumes "currency_calculator C p" and "pi_CurrencyCalculator i = C" and "input_commitments i = Inr cm"
    and "cm_MaximumAmount cm = Some m" and "sl_PreviouslyBilledAmount (pi_Line i) = Inr b" and "on_grid p b"
    and "lines_nonneg C ls"
  shows "\<exists>ls'. MaxAmountCommitment_Mutate L i ls = Inr ls' \<and> lines_nonneg C ls' \<and>
    DetailedLines_Sum C ls' = min (DetailedLines_Sum C ls) (max 0 (cur_RoundToPrecision C m - b))"
  using assms(2-5) currency_calculator.cap_lines_total [OF assms(1,7,6)]
  by (simp add: MaxAmountCommitment_Mutate_def)

definition committed_input :: PricerCalculateInput where
  "committed_input = sample_input (NewPriceFrom (AnyUnit \<lparr>up_Commitments =
     \<lparr>cm_MinimumAmount = Some 20, cm_MaximumAmount = Some 12\<rparr>, up_Amount = 1\<rparr>)) \<lparr>cp_From = 0, cp_To = 100\<rparr> 0 5"

lemma committed_input_simps [simp]:
  "pi_CurrencyCalculator committed_input = cents" "sl_PreviouslyBilledAmount (pi_Line committed_input) = Inr 0"
  "input_commitments committed_input = Inr \<lparr>cm_MinimumAmount = Some 20, cm_MaximumAmount = Some 12\<rparr>"
  "IsLastInPeriod committed_input"
  by (simp_all add: committed_input_def sample_input_def sample_line_def input_commitments_def input_price_def
      PR_GetCommitments_def FromUnit_def IsLastInPeriod_def)

theorem MaxAmountCommitment_exact_witness:
  "\<exists>ls'. MaxAmountCommitment_Mutate std_decimal_lib committed_input sample_lines = Inr ls' \<and>
     DetailedLines_Sum cents ls' = 12"
  using MaxAmountCommitment_exact [OF cents_calculator, of committed_input _ 12 0 sample_lines std_decimal_lib]
    currency_calculator.RoundToPrecision_fixed [OF cents_calculator, of 12]
  by auto

text \<open>
  C24. The minimum commitment is exact: on the last line of a period, with the amount billed before, the
  lines come to their total or to the minimum, whichever is more, by one extra line of the commitment.
\<close>

theorem MinAmountCommitment_exact:
  assumes "currency_calculator C p" and "pi_CurrencyCalculator i = C" and "input_commitments i = Inr cm"
    and "cm_MinimumAmount cm = Some m" and "sl_PreviouslyBilledAmount (pi_Line i) = Inr b" and "on_grid p b"
    and "on_grid p m" and "IsLastInPeriod i"
  shows "\<exists>extra. MinAmountCommitment_Mutate i ls = Inr (ls @ extra) \<and>
    list_all (\<lambda>x. li_Category x = CategoryCommitment \<and> 0 < DL_TotalAmount C x) extra \<and> length extra \<le> 1 \<and>
    DetailedLines_Sum C (ls @ extra) + b = max (DetailedLines_Sum C ls + b) m"
proof -
  let ?s = "DetailedLines_Sum C ls + b"
  have "on_grid p (m - ?s)"
    using currency_calculator.DetailedLines_Sum_grid [OF assms(1)] assms(6,7) by (intro on_grid_sub on_grid_add)
  then have r: "cur_RoundToPrecision C (m - ?s) = m - ?s"
    by (rule currency_calculator.RoundToPrecision_fixed [OF assms(1)])
  show ?thesis
  proof (cases "?s < m")
    case True
    let ?x = "minimum_spend_line i (m - ?s)"
    have "DL_TotalAmount C ?x = m - ?s" using currency_calculator.minimum_spend_total [OF assms(1)] r by simp
    then show ?thesis using assms(2-5,8) True r
      by (intro exI [of _ "[?x]"])
        (simp add: MinAmountCommitment_Mutate_def minimum_spend_line_def Let_def)
  next
    case False
    then show ?thesis using assms(2-5,8)
      by (intro exI [of _ "[]"]) (simp add: MinAmountCommitment_Mutate_def)
  qed
qed

theorem MinAmountCommitment_exact_witness:
  "\<exists>extra. MinAmountCommitment_Mutate committed_input sample_lines = Inr (sample_lines @ extra) \<and>
     DetailedLines_Sum cents (sample_lines @ extra) = 20"
  using MinAmountCommitment_exact [OF cents_calculator, of committed_input _ 20 0 sample_lines] by auto

text \<open>
  C18. Credits are used up or refused: if the lines are worth at least the credits, every credit is
  applied in full and the lines lose exactly their sum, none becoming negative; otherwise the mutator
  fails with the error of credits not consumed fully.
\<close>

theorem Credits_exact:
  assumes "currency_calculator C p" and "pi_CurrencyCalculator i = C" and "lines_nonneg C ls"
    and "list_all (\<lambda>c. 0 \<le> ca_Amount c) (sl_CreditsApplied (pi_Line i))"
  shows "if CAs_SumAmount C (sl_CreditsApplied (pi_Line i)) \<le> DetailedLines_Sum C ls
    then \<exists>ls'. Credits_Mutate i ls = Inr ls' \<and> lines_nonneg C ls' \<and>
      DetailedLines_Sum C ls' = DetailedLines_Sum C ls - CAs_SumAmount C (sl_CreditsApplied (pi_Line i))
    else Credits_Mutate i ls = Inl ErrInvoiceLineCreditsNotConsumedFully"
proof -
  let ?cs = "sl_CreditsApplied (pi_Line i)"
  have a: "apply_credits C ?cs ls = Inl ErrInvoiceLineCreditsNotConsumedFully \<and>
      DetailedLines_Sum C ls < CAs_SumAmount C ?cs \<or>
    (\<exists>ls'. apply_credits C ?cs ls = Inr ls' \<and> lines_nonneg C ls' \<and>
      DetailedLines_Sum C ls' = DetailedLines_Sum C ls - CAs_SumAmount C ?cs)"
    using currency_calculator.apply_credits_total [OF assms(1,3)] assms(4) by (simp add: list_all_iff)
  then show ?thesis
  proof (elim disjE exE conjE)
    fix ls'
    assume ls': "apply_credits C ?cs ls = Inr ls'" "lines_nonneg C ls'"
      "DetailedLines_Sum C ls' = DetailedLines_Sum C ls - CAs_SumAmount C ?cs"
    then have "CAs_SumAmount C ?cs \<le> DetailedLines_Sum C ls" using DetailedLines_Sum_nonneg [OF ls'(2)] by simp
    then show ?thesis using ls' assms(2) by (simp add: Credits_Mutate_def)
  qed (simp add: Credits_Mutate_def assms(2))
qed

definition credited_input :: "decimal \<Rightarrow> PricerCalculateInput" where
  "credited_input a = committed_input\<lparr>pi_Line := (pi_Line committed_input)\<lparr>sl_CreditsApplied :=
     [\<lparr>ca_Amount = a, ca_Description = [], ca_CreditRealizationID = ''r''\<rparr>]\<rparr>\<rparr>"

theorem Credits_exact_witness:
  "\<exists>ls'. Credits_Mutate (credited_input 11) sample_lines = Inr ls' \<and> DetailedLines_Sum cents ls' = 4"
  using Credits_exact [OF cents_calculator, of "credited_input 11" sample_lines]
    currency_calculator.RoundToPrecision_fixed [OF cents_calculator, of 11]
  by (auto simp: credited_input_def CAs_SumAmount_eq)

text \<open>
  C25. A percentage discount takes its share of every line: for a percentage between 0 and 100 the
  discount of a line is between nothing and the whole line, and within one smallest unit of the exact
  share.
\<close>

theorem getLineDiscount_bounds:
  assumes "currency_calculator C p" and "fine_division p" and "decimal_ok L"
    and "PD_Validate (bp_PercentageDiscount (dc_PercentageDiscount d)) = None" and "0 \<le> x" and "on_grid p x"
  shows "\<exists>a. getLineDiscount L C x d = Inr a \<and> 0 \<le> al_Amount (am_Discount a) \<and> al_Amount (am_Discount a) \<le> x \<and>
    \<bar>al_Amount (am_Discount a) - x * pd_Percentage (bp_PercentageDiscount (dc_PercentageDiscount d)) / 100\<bar> \<le> cur_Unit C"
  using currency_calculator.percentage_discount_bounds [OF assms(1,3,2) _ _ assms(5,6)] assms(4)
  by (simp add: getLineDiscount_def Let_def PD_Validate_None not_less)

theorem getLineDiscount_bounds_witness:
  "\<exists>a. getLineDiscount std_decimal_lib cents 10 \<lparr>dc_PercentageDiscount = \<lparr>bp_PercentageDiscount = \<lparr>pd_Percentage = 33\<rparr>,
      bp_CorrelationID = ''c''\<rparr>, dc_ChildUniqueReferenceID = ''r''\<rparr> = Inr a \<and> al_Amount (am_Discount a) \<le> 10"
  using getLineDiscount_bounds [OF cents_calculator _ decimal_ok_std, of "\<lparr>dc_PercentageDiscount =
      \<lparr>bp_PercentageDiscount = \<lparr>pd_Percentage = 33\<rparr>, bp_CorrelationID = ''c''\<rparr>, dc_ChildUniqueReferenceID = ''r''\<rparr>" 10]
  by (auto simp: PD_Validate_None fine_division_def div_places_def)

end
