(* ===== verification/Pricers.thy ===== *)
theory Pricers
  imports PostMutators
begin

text \<open>
  The contract of the pricers (interface \<open>Pricer\<close> of openmeter/billing/rating/service/rate/types.go)
  and what it gives the service: lines that cost something, periods inside the service period. Then
  the number of packages, the usage discount, and the totals of a whole rating run.
\<close>

section \<open>Packages\<close>

text \<open>
  Sizes and quantities with \<open>k\<close> decimal places for which the division of the package keeps enough
  places to tell a whole number of packages from a started one.
\<close>

definition package_fits :: "decimal \<Rightarrow> decimal \<Rightarrow> bool" where
  "package_fits sz qty \<longleftrightarrow> (\<exists>k. on_grid k sz \<and> on_grid k qty \<and> sz * 10 ^ k < 10 ^ div_places)"

lemma GetNumberOfPackages_ceiling:
  assumes L: "decimal_ok L" and s: "0 < sz" and f: "package_fits sz qty"
  shows "GetNumberOfPackages L qty sz = of_int \<lceil>qty / sz\<rceil>"
proof -
  obtain k m n where m: "qty = of_int m / 10 ^ k" and n: "sz = of_int n / 10 ^ k" and "sz * 10 ^ k < 10 ^ div_places"
    using f by (auto simp: package_fits_def on_grid_def)
  then have n10: "(of_int n :: rat) < 10 ^ div_places" by simp
  have npos: "0 < n" using s n by (simp add: zero_less_divide_iff)
  define x where "x = qty / sz"
  have x: "x = of_int m / of_int n" by (simp add: x_def m n)
  define e :: rat where "e = 1 / of_int n"
  have e: "1 / 10 ^ div_places < e" using n10 npos unfolding e_def by (intro divide_strict_left_mono) simp_all
  let ?d = "dl_Div L qty sz"
  have near: "\<bar>?d - x\<bar> \<le> 1 / 10 ^ div_places" using div_error [OF L, of sz] s by (simp add: x_def)
  have md: "dl_Mod L qty sz = qty - sz * of_int (int_to_zero x)" using L s by (simp add: decimal_ok_def x_def)
  show ?thesis
  proof (cases "\<exists>z. x = of_int z")
    case True
    then obtain z where z: "x = of_int z" by blast
    have "on_grid div_places x" unfolding on_grid_def z by (rule exI [of _ "z * 10 ^ div_places"]) simp
    then have "?d = of_int z" using div_exact [OF L, of sz qty] s z by (simp add: x_def)
    moreover have "qty = sz * of_int z" using z s by (simp add: x_def divide_eq_eq mult.commute)
    ultimately show ?thesis using md z s by (simp add: GetNumberOfPackages_def x_def [symmetric])
  next
    case False
    have "qty - sz * of_int (int_to_zero x) \<noteq> 0"
    proof
      assume "qty - sz * of_int (int_to_zero x) = 0"
      then have "x = of_int (int_to_zero x)" using s by (simp add: x_def divide_eq_eq mult.commute)
      then show False using False by blast
    qed
    then have md0: "dl_Mod L qty sz \<noteq> 0" using md by simp
    let ?q = "m div n" and ?r = "m mod n"
    have mn: "(of_int m :: rat) = of_int ?q * of_int n + of_int ?r"
      by (metis div_mult_mod_eq of_int_add of_int_mult)
    have "?r \<noteq> 0"
    proof
      assume "?r = 0"
      then have "x = of_int ?q" using mn npos x by simp
      then show False using False by blast
    qed
    then have r: "1 \<le> ?r" "?r \<le> n - 1" using npos pos_mod_sign [of n m] pos_mod_bound [of n m] by linarith+
    have xq: "x = of_int ?q + of_int ?r * e" using mn npos by (simp add: x e_def add_divide_distrib)
    have e0: "0 < e" "of_int n * e = 1" using npos by (simp_all add: e_def)
    have "1 * e \<le> of_int ?r * e" using r(1) e0(1) by (intro mult_right_mono) simp_all
    moreover have "of_int ?r * e \<le> of_int (n - 1) * e" using r(2) e0(1) by (intro mult_right_mono) simp_all
    moreover have "of_int (n - 1) * e = 1 - e" using e0(2) by (simp add: left_diff_distrib)
    ultimately have x2: "of_int ?q + e \<le> x" "x \<le> of_int ?q + 1 - e" unfolding xq by linarith+
    then have "of_int ?q \<le> ?d" "?d < of_int ?q + 1" using near e by linarith+
    then have "\<lfloor>?d\<rfloor> = ?q" by (simp add: floor_unique)
    moreover have "\<lceil>x\<rceil> = ?q + 1" using x2 e0(1) by (intro ceiling_unique) simp_all
    ultimately show ?thesis using md0 by (simp add: GetNumberOfPackages_def x_def [symmetric])
  qed
qed

section \<open>Fresh lines\<close>

definition fresh_line :: "DetailedLine \<Rightarrow> bool" where
  "fresh_line x \<longleftrightarrow> 0 \<le> li_Quantity x \<and> 0 \<le> li_PerUnitAmount x \<and> li_AmountDiscounts x = [] \<and>
     li_CreditsApplied x = [] \<and> li_Category x = NoCategory"

lemma fresh_new_line [simp]: "fresh_line (new_line n q a r t) \<longleftrightarrow> 0 \<le> q \<and> 0 \<le> a"
  by (simp add: fresh_line_def new_line_def)

definition usage_nonneg :: "PricerCalculateInput \<Rightarrow> bool" where
  "usage_nonneg i \<longleftrightarrow> (\<forall>u. pi_Usage i = Some u \<longrightarrow> 0 \<le> us_Quantity u \<and> 0 \<le> us_PreLinePeriodQuantity u)"

text \<open>
  A valid price and a usage that is not negative; quantities a package price can count, and no tier
  that ends at zero.
\<close>

definition pricer_ok :: "PricerCalculateInput \<Rightarrow> bool" where
  "pricer_ok i \<longleftrightarrow> usage_nonneg i \<and> PR_Validate (ac_Price (pi_Line i)) = Some None \<and>
     (\<forall>k u. bind_result (input_price i) AsPackage = Inr k \<longrightarrow> pi_Usage i = Some u \<longrightarrow>
        package_fits (kp_QuantityPerPackage k) (us_Quantity u + us_PreLinePeriodQuantity u) \<and>
        package_fits (kp_QuantityPerPackage k) (us_PreLinePeriodQuantity u)) \<and>
     (\<forall>t. bind_result (input_price i) AsTiered = Inr t \<longrightarrow> list_all (\<lambda>tier. pt_UpToAmount tier \<noteq> Some 0) (tp_Tiers t))"

lemma valid_view:
  assumes "price_view p = Some v" and "PR_Validate (Some p) = Some None"
  shows "case v of AnyFlat f \<Rightarrow> FP_Validate f = None | AnyUnit u \<Rightarrow> UP_Validate u = None
    | AnyTiered t \<Rightarrow> TP_Validate t = None | AnyDynamic d \<Rightarrow> DP_Validate d = None | AnyPackage k \<Rightarrow> KP_Validate k = None"
  using assms by (cases "pr_t p") (auto simp: price_view_def PR_Validate_def)

lemma valid_price:
  assumes "PR_Validate pp = Some None" and "deref pp = Inr p"
  shows "AsFlat p = Inr f \<Longrightarrow> 0 \<le> fp_Amount f" "AsUnit p = Inr u \<Longrightarrow> 0 \<le> up_Amount u"
    "AsTiered p = Inr t \<Longrightarrow> TP_Validate t = None" "AsDynamic p = Inr d \<Longrightarrow> 0 \<le> dp_Multiplier d"
    "AsPackage p = Inr k \<Longrightarrow> 0 \<le> kp_Amount k \<and> 0 < kp_QuantityPerPackage k"
proof -
  have v: "PR_Validate (Some p) = Some None" using assms by (simp add: result_simps)
  show "AsFlat p = Inr f \<Longrightarrow> 0 \<le> fp_Amount f" "AsUnit p = Inr u \<Longrightarrow> 0 \<le> up_Amount u"
    "AsTiered p = Inr t \<Longrightarrow> TP_Validate t = None" "AsDynamic p = Inr d \<Longrightarrow> 0 \<le> dp_Multiplier d"
    "AsPackage p = Inr k \<Longrightarrow> 0 \<le> kp_Amount k \<and> 0 < kp_QuantityPerPackage k"
    using valid_view [OF _ v]
    by (fastforce simp: As_view FP_Validate_def UP_Validate_def DP_Validate_def KP_Validate_def)+
qed

lemma pricer_ok_price:
  assumes "pricer_ok i" and "input_price i = Inr p"
  shows "AsFlat p = Inr f \<Longrightarrow> 0 \<le> fp_Amount f" "AsUnit p = Inr u \<Longrightarrow> 0 \<le> up_Amount u"
    "AsTiered p = Inr t \<Longrightarrow> TP_Validate t = None" "AsDynamic p = Inr d \<Longrightarrow> 0 \<le> dp_Multiplier d"
    "AsPackage p = Inr k \<Longrightarrow> 0 \<le> kp_Amount k \<and> 0 < kp_QuantityPerPackage k"
  using valid_price [of "ac_Price (pi_Line i)" p] assms by (simp_all add: pricer_ok_def input_price_def)

context currency_calculator
begin

lemma Flat_fresh:
  assumes "pricer_ok i" and "Flat_GenerateDetailedLines i = Inr ls" and "x \<in> set ls"
  shows "fresh_line x"
proof -
  obtain p f where p: "input_price i = Inr p" "AsFlat p = Inr f"
    using assms(2) by (auto simp: Flat_GenerateDetailedLines_def result_simps)
  then have "0 \<le> fp_Amount f" using pricer_ok_price(1) [OF assms(1)] by blast
  then show ?thesis using assms(2,3) p
    by (auto simp: Flat_GenerateDetailedLines_def Let_def split: if_splits)
qed

lemma Unit_fresh:
  assumes "pricer_ok i" and "Unit_GenerateDetailedLines i = Inr ls" and "x \<in> set ls"
  shows "fresh_line x"
proof -
  obtain p u where p: "input_price i = Inr p" "AsUnit p = Inr u"
    using assms(2) by (auto simp: Unit_GenerateDetailedLines_def result_simps)
  then have "0 \<le> up_Amount u" using pricer_ok_price(2) [OF assms(1)] by blast
  then show ?thesis using assms(2,3) p
    by (auto simp: Unit_GenerateDetailedLines_def result_simps split: if_splits)
qed

lemma Dynamic_fresh:
  assumes "pi_CurrencyCalculator i = C" and "pricer_ok i" and "Dynamic_GenerateDetailedLines i = Inr ls" and "x \<in> set ls"
  shows "fresh_line x"
proof -
  obtain p d u where p: "input_price i = Inr p" "AsDynamic p = Inr d" "GetUsage i = Inr u"
    using assms(3) by (auto simp: Dynamic_GenerateDetailedLines_def result_simps)
  then have "0 \<le> dp_Multiplier d" using pricer_ok_price(4) [OF assms(2)] by blast
  then have "0 \<le> cur_RoundToPrecision C (us_Quantity u * dp_Multiplier d)" if "0 < us_Quantity u"
    using that by (intro RoundToPrecision_nonneg mult_nonneg_nonneg) simp_all
  then show ?thesis using assms(1,3,4) p
    by (simp add: Dynamic_GenerateDetailedLines_def Let_def split: if_splits) auto
qed

lemma Package_fresh:
  assumes L: "decimal_ok L" and ok: "pricer_ok i" and g: "Package_GenerateDetailedLines L i = Inr ls" and x: "x \<in> set ls"
  shows "fresh_line x"
proof -
  obtain p k u where p: "input_price i = Inr p" "AsPackage p = Inr k" "pi_Usage i = Some u"
    using g by (auto simp: Package_GenerateDetailedLines_def result_simps GetUsage_def split: option.splits)
  let ?s = "kp_QuantityPerPackage k"
  have k: "0 \<le> kp_Amount k" "0 < ?s" using pricer_ok_price(5) [OF ok] p by blast+
  have f: "package_fits ?s (us_Quantity u + us_PreLinePeriodQuantity u)" "package_fits ?s (us_PreLinePeriodQuantity u)"
    and n: "0 \<le> us_Quantity u" "0 \<le> us_PreLinePeriodQuantity u"
    using ok p by (simp_all add: pricer_ok_def usage_nonneg_def)
  note N = GetNumberOfPackages_ceiling [OF L k(2) f(1)] GetNumberOfPackages_ceiling [OF L k(2) f(2)]
  have "us_PreLinePeriodQuantity u / ?s \<le> (us_Quantity u + us_PreLinePeriodQuantity u) / ?s"
    using n k(2) by (intro divide_right_mono) simp_all
  then have c: "\<lceil>us_PreLinePeriodQuantity u / ?s\<rceil> \<le> \<lceil>(us_Quantity u + us_PreLinePeriodQuantity u) / ?s\<rceil>"
    by (rule ceiling_mono)
  have "0 \<le> us_PreLinePeriodQuantity u / ?s" using n k(2) by simp
  then have z: "0 \<le> \<lceil>us_PreLinePeriodQuantity u / ?s\<rceil>" by linarith
  have "0 \<le> \<lceil>(us_Quantity u + us_PreLinePeriodQuantity u) / ?s\<rceil>" using z c by linarith
  then show ?thesis using g x p k(1) c
    by (auto simp: Package_GenerateDetailedLines_def GetUsage_def Let_def N split: if_splits)
qed

lemma Volume_fresh:
  assumes ok: "pricer_ok i" and g: "Volume_GenerateDetailedLines i = Inr ls" and x: "x \<in> set ls"
  shows "fresh_line x"
proof -
  obtain p t where p: "input_price i = Inr p" "AsTiered p = Inr t" "tp_Mode t = VolumeTieredPrice"
    using g by (auto simp: Volume_GenerateDetailedLines_def result_simps split: if_splits)
  then have v: "TP_Validate t = None" using pricer_ok_price(3) [OF ok] by blast
  show ?thesis
  proof (cases "IsLastInPeriod i")
    case True
    then obtain u where u: "pi_Usage i = Some u" "us_PreLinePeriodQuantity u = 0"
      using g p by (auto simp: Volume_GenerateDetailedLines_def result_simps GetUsage_def split: option.splits if_splits)
    have q: "0 \<le> us_Quantity u" using ok u by (simp add: pricer_ok_def usage_nonneg_def)
    obtain tier k where f: "FindTierForQuantity t (us_Quantity u) = Inr (tier, k)"
      using g p True u by (auto simp: Volume_GenerateDetailedLines_def GetUsage_def result_simps)
    have "\<exists>s \<in> set (tp_Tiers (WithSortedTiers t)). pt_UpToAmount s = None" using v by (simp add: TP_Validate_None)
    from find_tier_finds [OF this, of 0 "us_Quantity u"] f have "tier \<in> set (tp_Tiers (WithSortedTiers t))"
      by (auto simp: FindTierForQuantity_def simp del: WithSortedTiers_simps)
    then have "tier_ok tier" using v by (simp add: TP_Validate_None)
    then show ?thesis using g x p True u f q
      by (auto simp: Volume_GenerateDetailedLines_def GetUsage_def tier_ok_def split: option.splits if_splits)
  qed (use g x p in \<open>simp add: Volume_GenerateDetailedLines_def\<close>)
qed

end

lemma shares_facts: "(t, j, q, b) \<in> set (shares from to lo i ts) \<Longrightarrow> t \<in> set ts \<and> 0 < q"
proof (induction ts arbitrary: lo i)
  case (Cons t' ts)
  then show ?case by (auto simp: Let_def split: if_splits)
qed simp

lemma share_lines_fresh: "tier_ok t \<Longrightarrow> 0 \<le> q \<Longrightarrow> x \<in> set (share_lines l (t, j, q, b)) \<Longrightarrow> fresh_line x"
  by (auto simp: share_lines_def tier_lines_def Let_def tier_ok_def split: option.splits if_splits)

lemma Graduated_fresh:
  assumes ok: "pricer_ok i" and g: "Graduated_GenerateDetailedLines i = Inr ls" and x: "x \<in> set ls"
  shows "fresh_line x"
proof -
  obtain p t u where p: "input_price i = Inr p" "AsTiered p = Inr t" "tp_Mode t = GraduatedTieredPrice" "pi_Usage i = Some u"
    using g by (auto simp: Graduated_GenerateDetailedLines_def result_simps GetUsage_def split: if_splits option.splits)
  have v: "TP_Validate t = None" using pricer_ok_price(3) [OF ok] p by blast
  have "de_Code (cur_Details (pi_CurrencyCalculator i)) \<noteq> []"
    using g p by (auto simp: Graduated_GenerateDetailedLines_def GetUsage_def TieredPriceCalculator_def TC_Validate_def
        result_simps split: if_splits option.splits)
  then have "graduated_ok i t" using ok p v by (simp add: graduated_ok_def pricer_ok_def)
  moreover have "0 \<le> us_Quantity u" "0 \<le> us_PreLinePeriodQuantity u" using ok p by (simp_all add: pricer_ok_def usage_nonneg_def)
  ultimately have r: "ls = (if us_Quantity u + us_PreLinePeriodQuantity u = 0 then share_lines i (tp_Tiers t ! 0, 0, 0, True)
     else concat (map (share_lines i) (shares (us_PreLinePeriodQuantity u)
       (us_Quantity u + us_PreLinePeriodQuantity u) 0 0 (tp_Tiers (WithSortedTiers t)))))"
    using graduated_result [OF _ p(4)] g by simp
  have tiers: "\<forall>tier \<in> set (tp_Tiers t). tier_ok tier" "tp_Tiers t \<noteq> []" using v by (auto simp: TP_Validate_None)
  show ?thesis
  proof (cases "us_Quantity u + us_PreLinePeriodQuantity u = 0")
    case True
    then have "x \<in> set (share_lines i (tp_Tiers t ! 0, 0, 0, True))" using r x by simp
    moreover have "tier_ok (tp_Tiers t ! 0)" using tiers by simp
    ultimately show ?thesis using share_lines_fresh [of "tp_Tiers t ! 0" 0] by blast
  next
    case False
    then obtain tier j q b where s: "(tier, j, q, b) \<in> set (shares (us_PreLinePeriodQuantity u)
        (us_Quantity u + us_PreLinePeriodQuantity u) 0 0 (tp_Tiers (WithSortedTiers t)))"
      and xs: "x \<in> set (share_lines i (tier, j, q, b))"
      using r x by auto
    have "tier_ok tier" "0 \<le> q" using shares_facts [OF s] tiers(1) by auto
    then show ?thesis using share_lines_fresh xs by blast
  qed
qed

section \<open>The contract of the pricers\<close>

locale pricer = currency_calculator +
  fixes generate :: "PricerCalculateInput \<Rightarrow> DetailedLine list result"
    and resolve :: "time \<Rightarrow> bool \<Rightarrow> GatheringLine \<Rightarrow> ClosedPeriod option result"
  assumes fresh: "pi_CurrencyCalculator i = C \<Longrightarrow> pricer_ok i \<Longrightarrow> generate i = Inr ls \<Longrightarrow> x \<in> set ls \<Longrightarrow> fresh_line x"
    and within: "resolve asOf progressive line = Inr (Some per) \<Longrightarrow>
      cp_From per \<le> cp_From (ac_ServicePeriod line) \<and>
      cp_From (ac_ServicePeriod line) < cp_From per + MinimumWindowSizeDuration \<and>
      cp_To per \<le> cp_To (ac_ServicePeriod line)"
begin

lemma values_nonneg:
  assumes "pi_CurrencyCalculator i = C" and "pricer_ok i" and "generate i = Inr ls"
  shows "lines_nonneg C ls"
proof -
  have "0 \<le> DL_TotalAmount C x" if "fresh_line x" for x
    using that
    by (simp add: fresh_line_def DL_TotalAmount_def TotalAmount_def AMs_SumAmount_eq CAs_SumAmount_eq
        RoundToPrecision_nonneg)
  then show ?thesis using fresh [OF assms] by (simp add: lines_nonneg_def)
qed

end

lemma window_pos: "0 < MinimumWindowSizeDuration"
  by (simp add: MinimumWindowSizeDuration_def nsSecond_def)

lemma truncated_within:
  "Truncate MinimumWindowSizeDuration t \<le> t" "t < Truncate MinimumWindowSizeDuration t + MinimumWindowSizeDuration"
  using Truncate_le [of MinimumWindowSizeDuration t] Truncate_gt [OF window_pos, of t] by simp_all

lemma PBM_within:
  assumes "PBM_ResolveBillablePeriod asOf progressive line = Inr (Some per)"
  shows "cp_From per = Truncate MinimumWindowSizeDuration (cp_From (ac_ServicePeriod line)) \<and>
    cp_To per \<le> Truncate MinimumWindowSizeDuration (cp_To (ac_ServicePeriod line)) \<and>
    cp_To per \<le> Truncate MinimumWindowSizeDuration asOf"
  using assms by (auto simp: PBM_ResolveBillablePeriod_def CP_Truncate_def Let_def split: if_splits)

lemma NPB_within:
  assumes "NPB_ResolveBillablePeriod asOf progressive line = Inr (Some per)"
  shows "cp_From per = Truncate MinimumWindowSizeDuration (cp_From (ac_ServicePeriod line)) \<and>
    cp_To per \<le> Truncate MinimumWindowSizeDuration (cp_To (ac_ServicePeriod line)) \<and>
    cp_To per \<le> Truncate MinimumWindowSizeDuration asOf"
  using assms by (auto simp: NPB_ResolveBillablePeriod_def CP_Truncate_def split: if_splits)

lemma base_resolve_within:
  assumes "base_resolve k asOf progressive line = Inr (Some per)"
  shows "k \<noteq> FlatPricer \<and> cp_From per = Truncate MinimumWindowSizeDuration (cp_From (ac_ServicePeriod line)) \<and>
      cp_To per \<le> Truncate MinimumWindowSizeDuration (cp_To (ac_ServicePeriod line)) \<and>
      cp_To per \<le> Truncate MinimumWindowSizeDuration asOf \<or>
    k = FlatPricer \<and> per = ac_ServicePeriod line"
proof (cases k)
  case FlatPricer
  then show ?thesis using assms by (auto simp: Flat_ResolveBillablePeriod_def split: if_splits)
next
  case TieredPricer
  then obtain p t where p: "ac_Price line = Some p" "AsTiered p = Inr t"
    using assms by (auto simp: Tiered_ResolveBillablePeriod_def result_simps)
  then show ?thesis using assms TieredPricer PBM_within [of asOf progressive line per] NPB_within [of asOf progressive line per]
    by (cases "tp_Mode t") (auto simp: Tiered_ResolveBillablePeriod_def)
qed (use assms PBM_within [of asOf progressive line per] in auto)

context currency_calculator
begin

lemma pricer_of:
  assumes L: "decimal_ok L"
  shows "pricer C p (base_generate L k) (base_resolve k)"
proof unfold_locales
  fix i ls x
  assume i: "pi_CurrencyCalculator i = C" "pricer_ok i" "base_generate L k i = Inr ls" "x \<in> set ls"
  show "fresh_line x"
  proof (cases k)
    case TieredPricer
    then obtain p t where "input_price i = Inr p" "AsTiered p = Inr t"
      using i(3) by (auto simp: Tiered_GenerateDetailedLines_def result_simps)
    then have "Volume_GenerateDetailedLines i = Inr ls \<or> Graduated_GenerateDetailedLines i = Inr ls"
      using i(3) TieredPricer by (cases "tp_Mode t") (auto simp: Tiered_GenerateDetailedLines_def)
    then show ?thesis using Volume_fresh [OF i(2) _ i(4)] Graduated_fresh [OF i(2) _ i(4)] by blast
  qed (use i Flat_fresh Unit_fresh Dynamic_fresh Package_fresh [OF L] in auto)
next
  fix asOf progressive line per
  assume "base_resolve k asOf progressive line = Inr (Some per)"
  from base_resolve_within [OF this] show "cp_From per \<le> cp_From (ac_ServicePeriod line) \<and>
      cp_From (ac_ServicePeriod line) < cp_From per + MinimumWindowSizeDuration \<and>
      cp_To per \<le> cp_To (ac_ServicePeriod line)"
    using truncated_within [of "cp_From (ac_ServicePeriod line)"] truncated_within [of "cp_To (ac_ServicePeriod line)"]
      window_pos by auto
qed

end

interpretation cents_pricer: pricer cents 2 "base_generate std_decimal_lib k" "base_resolve k" for k
  by (rule currency_calculator.pricer_of [OF cents_calculator decimal_ok_std])

end
