(* ===== verification/RatingResults.thy ===== *)
theory RatingResults
  imports Pricers
begin

text \<open>
  What the rating service promises (openmeter/billing/rating/service): the usage that is left after
  the unit conversion and the usage discount, the totals of a rated line, the ceiling that a maximum
  commitment puts on them, and the period that is billed.
\<close>

section \<open>Usage discounts\<close>

lemma applyDiscount_eq:
  "ar_discountApplied (applyDiscount d u) = min d u" "ar_discountRemaining (applyDiscount d u) = max 0 (d - u)"
  by (auto simp: applyDiscount_def)

definition is_ratecard_usage :: "UsageLineDiscountManaged \<Rightarrow> bool" where
  "is_ratecard_usage m \<longleftrightarrow> dr_t (lb_Reason (ul_Base (um_Discount m))) = RatecardUsageDiscountReason"

text \<open>The quantity that the stored discounts of a line take off by the rate card.\<close>

definition stored_discount :: "StandardLineDiscounts \<Rightarrow> decimal" where
  "stored_discount s = (\<Sum>m\<leftarrow>filter is_ratecard_usage (sd_Usage s). ul_Quantity (um_Discount m))"

lemma filter_removed: "filter is_ratecard_usage (sd_Usage (removeRateCardUsageDiscounts s)) = []"
  by (auto simp: removeRateCardUsageDiscounts_def is_ratecard_usage_def filter_empty_conv)

lemma filter_update_none: "filter P xs = [] \<Longrightarrow> i < length xs \<Longrightarrow> P y \<Longrightarrow> filter P (xs[i := y]) = [y]"
  by (simp add: upd_conv_take_nth_drop filter_empty_conv)
    (metis filter_False in_set_dropD in_set_takeD append_Nil)

lemma stored_discount_removed [simp]: "stored_discount (removeRateCardUsageDiscounts s) = 0"
  by (simp add: stored_discount_def filter_removed)

lemma stored_discount_merged:
  "stored_discount (s'\<lparr>sd_Usage := MergeDiscountsByChildUniqueReferenceID (sd_Usage (removeRateCardUsageDiscounts s))
     (usage_line_discount d applied previously)\<rparr>) = applied"
proof -
  let ?new = "usage_line_discount d applied previously" and ?ds = "sd_Usage (removeRateCardUsageDiscounts s)"
  have r: "UM_GetChildUniqueReferenceID ?new = Some (RateCardDiscountChildUniqueReferenceID (bu_CorrelationID d))"
    by (simp add: usage_line_discount_def UM_GetChildUniqueReferenceID_def)
  have new: "is_ratecard_usage ?new" "ul_Quantity (um_Discount ?new) = applied"
    by (simp_all add: usage_line_discount_def is_ratecard_usage_def)
  then have m: "is_ratecard_usage (UM_WithManagedFieldsWithID ?new x)" for x by (simp add: is_ratecard_usage_def)
  show ?thesis
    using Merge_cases [OF r, of ?ds] filter_removed [of s] filter_update_none [OF filter_removed [of s] _ m] new
    by (auto simp: stored_discount_def)
qed

lemma ApplyUsageDiscount_result:
  assumes "ds_Usage d = Some ud" and "bu_CorrelationID ud \<noteq> []" and "0 \<le> us_Quantity u" and "0 \<le> us_PreLinePeriodQuantity u"
    and "0 \<le> ud_Quantity (bu_UsageDiscount ud)"
  shows "\<exists>s'. ApplyUsageDiscount u d s = Inr (u\<lparr>us_Quantity :=
      max 0 (us_PreLinePeriodQuantity u + us_Quantity u - ud_Quantity (bu_UsageDiscount ud)) -
      max 0 (us_PreLinePeriodQuantity u - ud_Quantity (bu_UsageDiscount ud)),
      us_PreLinePeriodQuantity := max 0 (us_PreLinePeriodQuantity u - ud_Quantity (bu_UsageDiscount ud))\<rparr>, s') \<and>
    stored_discount s' = min (ud_Quantity (bu_UsageDiscount ud)) (us_PreLinePeriodQuantity u + us_Quantity u) -
      min (ud_Quantity (bu_UsageDiscount ud)) (us_PreLinePeriodQuantity u)"
proof -
  let ?D = "ud_Quantity (bu_UsageDiscount ud)" and ?q = "us_Quantity u" and ?pre = "us_PreLinePeriodQuantity u"
  define b where "b = ar_discountApplied (applyDiscount ?D ?pre)"
  define a where "a = ar_discountApplied (applyDiscount (ar_discountRemaining (applyDiscount ?D ?pre)) ?q)"
  have pre: "?pre - b = max 0 (?pre - ?D)" by (simp add: b_def applyDiscount_eq min_def max_def)
  have q: "?q - a = max 0 (?pre + ?q - ?D) - max 0 (?pre - ?D)" "a = min ?D (?pre + ?q) - min ?D ?pre"
    using assms(3-5) by (auto simp: a_def applyDiscount_eq min_def max_def)
  have r: "ApplyUsageDiscount u d s =
      (if a = 0 then Inr (u\<lparr>us_PreLinePeriodQuantity := ?pre - b\<rparr>, removeRateCardUsageDiscounts s)
       else Inr (u\<lparr>us_PreLinePeriodQuantity := ?pre - b, us_Quantity := ?q - a\<rparr>,
         (removeRateCardUsageDiscounts s)\<lparr>sd_Usage := MergeDiscountsByChildUniqueReferenceID
           (sd_Usage (removeRateCardUsageDiscounts s)) (usage_line_discount ud a b)\<rparr>))"
    using assms(1,2) by (simp add: ApplyUsageDiscount_def Let_def a_def b_def)
  have uq: "u\<lparr>us_Quantity := ?q, us_PreLinePeriodQuantity := x\<rparr> = u\<lparr>us_PreLinePeriodQuantity := x\<rparr>" for x
    by (cases u) simp
  have h: "\<exists>s'. ApplyUsageDiscount u d s = Inr (u\<lparr>us_Quantity := ?q - a, us_PreLinePeriodQuantity := ?pre - b\<rparr>, s') \<and>
      stored_discount s' = a"
    unfolding r using uq by (cases "a = 0") (simp_all add: stored_discount_merged)
  show ?thesis by (rule h [unfolded pre q(1), unfolded q(2)])
qed

section \<open>Mutators before the pricer\<close>

lemma pre_mutate_frame:
  assumes "pre_mutate L m i = Inr i'"
  shows "pi_Line i' = pi_Line i \<and> pi_CurrencyCalculator i' = pi_CurrencyCalculator i \<and>
    pi_FullProgressivelyBilledServicePeriod i' = pi_FullProgressivelyBilledServicePeriod i"
  using assms
  by (cases m) (auto simp: UnitConfig_Mutate_def ForbidUnitConfig_Mutate_def DiscountUsage_Mutate_def Let_def
      result_simps split: if_splits option.splits)

lemma run_pre_frame:
  assumes "run_pre L ms i = Inr i'"
  shows "pi_Line i' = pi_Line i \<and> pi_CurrencyCalculator i' = pi_CurrencyCalculator i \<and>
    pi_FullProgressivelyBilledServicePeriod i' = pi_FullProgressivelyBilledServicePeriod i"
  using assms
proof (induction ms arbitrary: i)
  case (Cons m ms)
  then obtain j where j: "pre_mutate L m i = Inr j" "run_pre L ms j = Inr i'" by (auto simp: result_simps)
  show ?case using pre_mutate_frame [OF j(1)] Cons.IH [OF j(2)] by simp
qed simp

section \<open>A rating run\<close>

lemma GenerateDetailedLines_run:
  assumes "GenerateDetailedLines L e (Some l) opts = Inr r" and "sl_CurrencyCalculator l = Inr (Some C)"
  obtains pm full usage i ls0 ls where
    "getPricerFor (ac_Price l) (NewGenerateDetailedLinesOptions opts) e = Inr pm"
    "metered_usage l = Inr usage"
    "run_pre L (pm_PreCalculation pm) \<lparr>pi_Line = l, pi_CurrencyCalculator = C,
       pi_FullProgressivelyBilledServicePeriod = full, pi_Usage = usage,
       pi_StandardLineDiscounts = sl_StandardLineDiscounts l\<rparr> = Inr i"
    "base_generate L (pm_Pricer pm) i = Inr ls0"
    "run_post L (pm_PostCalculation pm) i ls0 = Inr ls"
    "r = getTotalsFromDetailedLines \<lparr>gr_DetailedLines = ls, gr_FinalUsage = pi_Usage i,
       gr_FinalStandardLineDiscounts = pi_StandardLineDiscounts i, gr_Totals = TT_zero\<rparr> C"
  using assms
  by (auto simp: GenerateDetailedLines_def PM_GenerateDetailedLines_def result_simps split: option.splits)

context currency_calculator
begin

lemma line_totals:
  "tt_Total (calculateDetailedLineTotals x C) = DL_TotalAmount C x"
proof -
  let ?a = "cur_RoundToPrecision C (li_PerUnitAmount x * li_Quantity x)"
  have "tt_Total (calculateDetailedLineTotals x C) = cur_RoundToPrecision C (?a -
      AMs_SumAmount C (li_AmountDiscounts x) - CAs_SumAmount C (li_CreditsApplied x))"
    by (cases "li_Category x")
      (simp_all add: calculateDetailedLineTotals_def Let_def TT_RoundToPrecision_def map_totals_def CalculateTotal_def
        TT_zero_def algebra_simps)
  also have "\<dots> = cur_RoundToPrecision C (DL_TotalAmount C x)" by (simp add: DL_TotalAmount_def TotalAmount_def)
  finally show ?thesis by simp
qed

lemma result_totals:
  "tt_Total (gr_Totals (getTotalsFromDetailedLines r C)) = DetailedLines_Sum C (gr_DetailedLines (getTotalsFromDetailedLines r C))"
  "DetailedLines_Sum C (gr_DetailedLines (getTotalsFromDetailedLines r C)) = DetailedLines_Sum C (gr_DetailedLines r)"
  "lines_nonneg C (gr_DetailedLines (getTotalsFromDetailedLines r C)) = lines_nonneg C (gr_DetailedLines r)"
proof -
  have t: "DL_TotalAmount C (l\<lparr>li_Totals := x\<rparr>) = DL_TotalAmount C l" for l x by (simp add: DL_TotalAmount_def)
  have s: "(\<Sum>x\<leftarrow>gr_DetailedLines r. tt_Total (calculateDetailedLineTotals x C)) = DetailedLines_Sum C (gr_DetailedLines r)"
    by (simp add: line_totals DetailedLines_Sum_eq)
  show a: "DetailedLines_Sum C (gr_DetailedLines (getTotalsFromDetailedLines r C)) = DetailedLines_Sum C (gr_DetailedLines r)"
    by (simp add: getTotalsFromDetailedLines_def Let_def DetailedLines_Sum_eq o_def t)
  show "lines_nonneg C (gr_DetailedLines (getTotalsFromDetailedLines r C)) = lines_nonneg C (gr_DetailedLines r)"
    by (simp add: getTotalsFromDetailedLines_def Let_def lines_nonneg_def t)
  have "tt_Total (gr_Totals (getTotalsFromDetailedLines r C)) = cur_RoundToPrecision C (DetailedLines_Sum C (gr_DetailedLines r))"
    by (simp add: getTotalsFromDetailedLines_def Let_def TT_RoundToPrecision_def map_totals_def TT_Sum_def o_def s)
      (simp add: TT_zero_def)
  also have "\<dots> = DetailedLines_Sum C (gr_DetailedLines r)" by (rule RoundToPrecision_fixed) simp
  finally show "tt_Total (gr_Totals (getTotalsFromDetailedLines r C)) =
      DetailedLines_Sum C (gr_DetailedLines (getTotalsFromDetailedLines r C))" by (simp add: a)
qed

text \<open>Where the mutated input is fit for its pricer, nothing that is billed is negative.\<close>

lemma rating_nonneg:
  assumes L: "decimal_ok L" "fine_division p" and i: "pi_CurrencyCalculator i = C" "billing_ok p i" "pricer_ok i"
    and b: "base_generate L k i = Inr ls0" and r: "run_post L ms i ls0 = Inr ls"
  shows "lines_nonneg C ls"
  using run_post_keeps [OF L i(1,2) pricer.values_nonneg [OF pricer_of [OF L(1)] i(1,3) b] r] .

text \<open>After the maximum commitment only the minimum commitment adds to the lines, and never past it.\<close>

lemma rating_capped:
  assumes L: "decimal_ok L" "fine_division p" and i: "pi_CurrencyCalculator i = C" "billing_ok p i" "pricer_ok i"
    and b: "base_generate L k i = Inr ls0"
    and cm: "input_commitments i = Inr cm" "cm_MaximumAmount cm = Some m" "on_grid p m"
      "\<forall>a. cm_MinimumAmount cm = Some a \<longrightarrow> a \<le> m \<and> on_grid p a"
    and prev: "sl_PreviouslyBilledAmount (pi_Line i) = Inr billed"
    and r: "run_post L ([DiscountPercentageMutator, MaxAmountCommitmentMutator] @
        (if x then [MinAmountCommitmentMutator] else []) @ (if y then [CreditsMutator] else [])) i ls0 = Inr ls"
  shows "billed + DetailedLines_Sum C ls \<le> max m billed"
proof -
  obtain ls1 ls2 ls3 where d: "DiscountPercentage_Mutate L i ls0 = Inr ls1"
    and mx: "MaxAmountCommitment_Mutate L i ls1 = Inr ls2"
    and mn: "run_post L (if x then [MinAmountCommitmentMutator] else []) i ls2 = Inr ls3"
    and cr: "run_post L (if y then [CreditsMutator] else []) i ls3 = Inr ls"
    using r by (cases x; cases y) (auto simp: result_simps)
  have g: "on_grid p billed" using i(2) prev by (simp add: billing_ok_def)
  have n1: "lines_nonneg C ls1"
    using discount_percentage_keeps [OF L i(1) pricer.values_nonneg [OF pricer_of [OF L(1)] i(1,3) b] d] .
  have mr: "cur_RoundToPrecision C m = m" using cm(3) by (rule RoundToPrecision_fixed)
  have l2: "ls2 = cap_lines L C m billed ls1" using mx cm prev i(1) by (simp add: MaxAmountCommitment_Mutate_def)
  have n2: "lines_nonneg C ls2" unfolding l2 by (rule cap_lines_total(1) [OF n1 g])
  have s2: "billed + DetailedLines_Sum C ls2 \<le> max m billed"
    unfolding l2 cap_lines_total(2) [OF n1 g] mr by (simp add: min_def max_def)
  have s3: "billed + DetailedLines_Sum C ls3 \<le> max m billed" and n3: "lines_nonneg C ls3"
  proof -
    show "lines_nonneg C ls3" using run_post_keeps [OF L i(1,2) n2 mn] .
    show "billed + DetailedLines_Sum C ls3 \<le> max m billed"
    proof (cases x)
      case True
      then have "MinAmountCommitment_Mutate i ls2 = Inr ls3" using mn by (auto simp: result_simps)
      from MinAmountCommitment_result [OF this] show ?thesis
      proof (elim disjE exE conjE)
        fix cm' a b'
        assume h: "input_commitments i = Inr cm'" "cm_MinimumAmount cm' = Some a"
          "sl_PreviouslyBilledAmount (pi_Line i) = Inr b'"
          "ls3 = ls2 @ [minimum_spend_line i (cur_RoundToPrecision (pi_CurrencyCalculator i)
            (a - (DetailedLines_Sum (pi_CurrencyCalculator i) ls2 + b')))]"
        have a: "a \<le> m" "on_grid p a" using h(1,2) cm by simp_all
        have "on_grid p (a - (DetailedLines_Sum C ls2 + billed))"
          using a(2) g by (intro on_grid_sub on_grid_add) simp_all
        then have "cur_RoundToPrecision C (a - (DetailedLines_Sum C ls2 + billed)) = a - (DetailedLines_Sum C ls2 + billed)"
          by (rule RoundToPrecision_fixed)
        then have "DetailedLines_Sum C ls3 = a - billed" using h(3,4) prev i(1) by simp
        then show ?thesis using a(1) by simp
      qed (use s2 in simp)
    qed (use mn s2 in simp)
  qed
  show ?thesis
  proof (cases y)
    case True
    then have "apply_credits C (sl_CreditsApplied (pi_Line i)) ls3 = Inr ls"
      using cr i(1) by (auto simp: result_simps Credits_Mutate_def)
    moreover have "0 \<le> CAs_SumAmount C (sl_CreditsApplied (pi_Line i))"
      unfolding CAs_SumAmount_eq using i(2)
      by (intro sum_list_nonneg) (auto simp: billing_ok_def intro: RoundToPrecision_nonneg)
    ultimately show ?thesis
      using apply_credits_total [OF n3, of "sl_CreditsApplied (pi_Line i)"] i(2) s3 by (auto simp: billing_ok_def)
  qed (use cr s3 in simp)
qed

end

text \<open>
  A line fit for rating: a valid price without a tier that ends at zero, usage and usage discount that
  are not negative, credits that are not negative, a previously billed amount in whole units of the
  currency, and for a package price quantities with few enough decimal places to count packages.
\<close>

definition line_ok :: "nat \<Rightarrow> StandardLine \<Rightarrow> bool" where
  "line_ok p l \<longleftrightarrow> (\<forall>c \<in> set (sl_CreditsApplied l). 0 \<le> ca_Amount c) \<and>
     (\<forall>b. sl_PreviouslyBilledAmount l = Inr b \<longrightarrow> on_grid p b) \<and>
     PR_Validate (ac_Price l) = Some None \<and>
     (\<forall>t. bind_result (deref (ac_Price l)) AsTiered = Inr t \<longrightarrow> list_all (\<lambda>tier. pt_UpToAmount tier \<noteq> Some 0) (tp_Tiers t)) \<and>
     (\<forall>ud. ds_Usage (sl_RateCardDiscounts l) = Some ud \<longrightarrow> 0 \<le> ud_Quantity (bu_UsageDiscount ud)) \<and>
     (\<forall>u. metered_usage l = Inr (Some u) \<longrightarrow> 0 \<le> us_Quantity u \<and> 0 \<le> us_PreLinePeriodQuantity u) \<and>
     (\<forall>k u. bind_result (deref (ac_Price l)) AsPackage = Inr k \<longrightarrow> metered_usage l = Inr (Some u) \<longrightarrow>
       (\<exists>n. on_grid n (kp_QuantityPerPackage k) \<and> on_grid n (us_Quantity u) \<and> on_grid n (us_PreLinePeriodQuantity u) \<and>
          (\<forall>ud. ds_Usage (sl_RateCardDiscounts l) = Some ud \<longrightarrow> on_grid n (ud_Quantity (bu_UsageDiscount ud))) \<and>
          kp_QuantityPerPackage k * 10 ^ n < 10 ^ div_places))"

lemma line_ok_billing: "line_ok p l \<Longrightarrow> pi_Line i = l \<Longrightarrow> billing_ok p i"
  by (auto simp: line_ok_def billing_ok_def)

text \<open>What a usage must satisfy on the way to the pricer.\<close>

definition usage_fits :: "StandardLine \<Rightarrow> Usage \<Rightarrow> bool" where
  "usage_fits l u \<longleftrightarrow> 0 \<le> us_Quantity u \<and> 0 \<le> us_PreLinePeriodQuantity u \<and>
     (\<forall>k. bind_result (deref (ac_Price l)) AsPackage = Inr k \<longrightarrow>
       (\<exists>n. on_grid n (kp_QuantityPerPackage k) \<and> on_grid n (us_Quantity u) \<and> on_grid n (us_PreLinePeriodQuantity u) \<and>
          (\<forall>ud. ds_Usage (sl_RateCardDiscounts l) = Some ud \<longrightarrow> on_grid n (ud_Quantity (bu_UsageDiscount ud))) \<and>
          kp_QuantityPerPackage k * 10 ^ n < 10 ^ div_places))"

lemma UC_Apply_nonneg:
  assumes L: "decimal_ok L" and v: "UC_Validate (Some c) = None" and x: "0 \<le> x"
  shows "0 \<le> snd (UC_Apply L (Some c) x)"
proof -
  have f: "0 < uc_ConversionFactor c" and op: "uc_Operation c \<in> {OpMultiply, OpDivide}"
    and pr: "\<not> Rounding_IsNone (uc_Rounding c) \<Longrightarrow> 0 \<le> uc_Precision c \<and> uc_Precision c \<le> 2 ^ 31 - 1"
    using v by (auto simp: UC_Validate_def Operation_Validate_def split: if_splits)
  have at: "0 \<le> at_places g n y" if "\<And>a b. a \<le> b \<Longrightarrow> g a \<le> g b" "g 0 = 0" "0 \<le> y" for g n y
    using at_places_mono [of g 0 y n, OF that(1) that(3)] that(2) by (simp add: at_places_def)
  have grid: "0 \<le> at_places ceiling n y" "0 \<le> at_places floor n y" "0 \<le> at_places int_half_away n y" if "0 \<le> y" for n y
    using that int_half_away_of_int [of 0]
    by (auto intro: at [OF ceiling_mono] at [OF floor_mono] at [OF int_half_away_mono])
  have round: "0 \<le> dl_RoundCeil L (int32_of (uc_Precision c)) y" "0 \<le> dl_RoundFloor L (int32_of (uc_Precision c)) y"
    "0 \<le> dl_Round L (int32_of (uc_Precision c)) y" if y: "\<not> Rounding_IsNone (uc_Rounding c)" "0 \<le> y" for y
  proof -
    have q: "int32_of (uc_Precision c) = uc_Precision c" "0 \<le> uc_Precision c"
      using pr [OF y(1)] int32_of_id by simp_all
    show "0 \<le> dl_RoundCeil L (int32_of (uc_Precision c)) y" "0 \<le> dl_RoundFloor L (int32_of (uc_Precision c)) y"
      "0 \<le> dl_Round L (int32_of (uc_Precision c)) y"
      unfolding q(1) dl_rounding [OF L q(2)] using grid [OF y(2)] by blast+
  qed
  have conv: "0 \<le> x * uc_ConversionFactor c" "0 \<le> dl_Div L x (uc_ConversionFactor c)"
    using x f div_nonneg [OF L] by simp_all
  show ?thesis using op conv round [OF _ conv(1)] round [OF _ conv(2)]
    by (cases "uc_Rounding c"; elim insertE) (simp_all add: UC_Apply_def Rounding_IsNone_def Let_def)
qed

lemma usage_fits_unit_config:
  assumes L: "decimal_ok L" and m: "UnitConfig_Mutate L i = Inr i'" and f: "\<forall>u. pi_Usage i = Some u \<longrightarrow> usage_fits (pi_Line i) u"
  shows "\<forall>u. pi_Usage i' = Some u \<longrightarrow> usage_fits (pi_Line i) u"
proof (cases "sl_UnitConfig (pi_Line i)")
  case None
  then show ?thesis using m f by (simp add: UnitConfig_Mutate_def)
next
  case (Some c)
  then obtain p u where p: "ac_Price (pi_Line i) = Some p" "PR_SupportsUnitConfig p" "UC_Validate (Some c) = None"
    and u: "pi_Usage i = Some u" and i': "i' = i\<lparr>pi_Usage := Some (ApplyUnitConfig L u (Some c))\<rparr>"
    using m by (auto simp: UnitConfig_Mutate_def Let_def result_simps GetUsage_def split: option.splits if_splits)
  have "AsPackage p \<noteq> Inr k" for k using p(2) by (auto simp: PR_SupportsUnitConfig_def As_view price_view_def)
  then show ?thesis using f u i' p UC_Apply_nonneg [OF L p(3)]
    by (auto simp: usage_fits_def ApplyUnitConfig_def)
qed

lemma on_grid_max_0: "on_grid n x \<Longrightarrow> on_grid n (max 0 x)"
  by (simp add: max_def)

lemma usage_fits_discount:
  assumes m: "DiscountUsage_Mutate i = Inr i'" and f: "\<forall>u. pi_Usage i = Some u \<longrightarrow> usage_fits (pi_Line i) u"
    and d: "\<forall>ud. ds_Usage (sl_RateCardDiscounts (pi_Line i)) = Some ud \<longrightarrow> 0 \<le> ud_Quantity (bu_UsageDiscount ud)"
  shows "\<forall>u. pi_Usage i' = Some u \<longrightarrow> usage_fits (pi_Line i) u"
proof -
  let ?d = "sl_RateCardDiscounts (pi_Line i)" and ?s = "pi_StandardLineDiscounts i"
  obtain u where u: "pi_Usage i = Some u" using m by (auto simp: DiscountUsage_Mutate_def GetUsage_def split: option.splits)
  then obtain u' s' where a: "ApplyUsageDiscount u ?d ?s = Inr (u', s')" and i': "pi_Usage i' = Some u'"
    using m by (auto simp: DiscountUsage_Mutate_def GetUsage_def result_simps)
  have fu: "usage_fits (pi_Line i) u" using f u by blast
  show ?thesis
  proof (cases "ds_Usage ?d")
    case None
    then show ?thesis using a i' fu by (simp add: ApplyUsageDiscount_def)
  next
    case (Some ud)
    let ?D = "ud_Quantity (bu_UsageDiscount ud)"
    have c: "bu_CorrelationID ud \<noteq> []" using a Some by (auto simp: ApplyUsageDiscount_def split: if_splits)
    have n: "0 \<le> us_Quantity u" "0 \<le> us_PreLinePeriodQuantity u" "0 \<le> ?D" using fu d Some by (simp_all add: usage_fits_def)
    have u': "us_PreLinePeriodQuantity u' = max 0 (us_PreLinePeriodQuantity u - ?D)"
      "us_Quantity u' = max 0 (us_PreLinePeriodQuantity u + us_Quantity u - ?D) - max 0 (us_PreLinePeriodQuantity u - ?D)"
      using ApplyUsageDiscount_result [OF Some c n, of ?s] a by auto
    have "usage_fits (pi_Line i) u'"
      unfolding usage_fits_def u'
    proof (intro conjI allI impI)
      show "0 \<le> max 0 (us_PreLinePeriodQuantity u + us_Quantity u - ?D) - max 0 (us_PreLinePeriodQuantity u - ?D)"
        using n(1) by (simp add: max_def)
      fix k assume "bind_result (deref (ac_Price (pi_Line i))) AsPackage = Inr k"
      then obtain n where g: "on_grid n (kp_QuantityPerPackage k)" "on_grid n (us_Quantity u)" "on_grid n (us_PreLinePeriodQuantity u)"
        "\<forall>ud. ds_Usage ?d = Some ud \<longrightarrow> on_grid n (ud_Quantity (bu_UsageDiscount ud))" "kp_QuantityPerPackage k * 10 ^ n < 10 ^ div_places"
        using fu unfolding usage_fits_def by blast
      then show "\<exists>n. on_grid n (kp_QuantityPerPackage k) \<and>
          on_grid n (max 0 (us_PreLinePeriodQuantity u + us_Quantity u - ?D) - max 0 (us_PreLinePeriodQuantity u - ?D)) \<and>
          on_grid n (max 0 (us_PreLinePeriodQuantity u - ?D)) \<and>
          (\<forall>ud. ds_Usage ?d = Some ud \<longrightarrow> on_grid n (ud_Quantity (bu_UsageDiscount ud))) \<and>
          kp_QuantityPerPackage k * 10 ^ n < 10 ^ div_places"
      proof (intro exI [of _ n] conjI)
        have D: "on_grid n ?D" using g(4) Some by blast
        have 1: "on_grid n (max 0 (us_PreLinePeriodQuantity u + us_Quantity u - ?D))"
          by (rule on_grid_max_0, rule on_grid_sub [OF on_grid_add [OF g(3,2)] D])
        show 2: "on_grid n (max 0 (us_PreLinePeriodQuantity u - ?D))"
          by (rule on_grid_max_0, rule on_grid_sub [OF g(3) D])
        show "on_grid n (max 0 (us_PreLinePeriodQuantity u + us_Quantity u - ?D) - max 0 (us_PreLinePeriodQuantity u - ?D))"
          by (rule on_grid_sub [OF 1 2])
      qed (use g in blast)+
    qed simp
    then show ?thesis using i' by simp
  qed
qed

lemma run_pre_fits:
  assumes L: "decimal_ok L" and r: "run_pre L ms i = Inr i'" and f: "\<forall>u. pi_Usage i = Some u \<longrightarrow> usage_fits (pi_Line i) u"
    and d: "\<forall>ud. ds_Usage (sl_RateCardDiscounts (pi_Line i)) = Some ud \<longrightarrow> 0 \<le> ud_Quantity (bu_UsageDiscount ud)"
  shows "\<forall>u. pi_Usage i' = Some u \<longrightarrow> usage_fits (pi_Line i) u"
  using r f d
proof (induction ms arbitrary: i)
  case (Cons m ms)
  then obtain j where j: "pre_mutate L m i = Inr j" "run_pre L ms j = Inr i'" by (auto simp: result_simps)
  have l: "pi_Line j = pi_Line i" using pre_mutate_frame [OF j(1)] by simp
  have "\<forall>u. pi_Usage j = Some u \<longrightarrow> usage_fits (pi_Line i) u"
  proof (cases m)
    case UnitConfigMutator
    then have "UnitConfig_Mutate L i = Inr j" using j(1) by simp
    then show ?thesis using usage_fits_unit_config [OF L _ Cons.prems(2)] by blast
  next
    case ForbidUnitConfigMutator
    then have "j = i" using j(1) by (simp add: ForbidUnitConfig_Mutate_def split: if_splits)
    then show ?thesis using Cons.prems(2) by blast
  next
    case DiscountUsageMutator
    then have "DiscountUsage_Mutate i = Inr j" using j(1) by simp
    then show ?thesis using usage_fits_discount [OF _ Cons.prems(2,3)] by blast
  qed
  then show ?case using Cons.IH [OF j(2)] Cons.prems(3) unfolding l by blast
qed simp

lemma line_ok_pricer:
  assumes L: "decimal_ok L" and l: "line_ok p l" and u: "metered_usage l = Inr usage"
    and r: "run_pre L ms \<lparr>pi_Line = l, pi_CurrencyCalculator = C, pi_FullProgressivelyBilledServicePeriod = full,
      pi_Usage = usage, pi_StandardLineDiscounts = s\<rparr> = Inr i"
  shows "pricer_ok i" and "pi_Line i = l" and "pi_CurrencyCalculator i = C"
proof -
  show fr: "pi_Line i = l" "pi_CurrencyCalculator i = C" using run_pre_frame [OF r] by simp_all
  let ?i0 = "\<lparr>pi_Line = l, pi_CurrencyCalculator = C, pi_FullProgressivelyBilledServicePeriod = full,
      pi_Usage = usage, pi_StandardLineDiscounts = s\<rparr>"
  have "usage_fits l u" if "metered_usage l = Inr (Some u)" for u
    using l that unfolding line_ok_def usage_fits_def by blast
  then have "\<forall>u. pi_Usage ?i0 = Some u \<longrightarrow> usage_fits (pi_Line ?i0) u" using u by simp
  moreover have "\<forall>ud. ds_Usage (sl_RateCardDiscounts (pi_Line ?i0)) = Some ud \<longrightarrow> 0 \<le> ud_Quantity (bu_UsageDiscount ud)"
    using l unfolding line_ok_def by simp
  ultimately have f: "\<forall>u. pi_Usage i = Some u \<longrightarrow> usage_fits l u"
    using run_pre_fits [OF L r] by simp
  have fits: "package_fits sz (a + b) \<and> package_fits sz b"
    if "on_grid n sz" "on_grid n a" "on_grid n b" "sz * 10 ^ n < 10 ^ div_places" for n a b sz
    unfolding package_fits_def using that on_grid_add [of n a b] by blast
  show "pricer_ok i"
    unfolding pricer_ok_def usage_nonneg_def input_price_def fr
  proof (intro conjI allI impI)
    fix u assume "pi_Usage i = Some u"
    then show "0 \<le> us_Quantity u" "0 \<le> us_PreLinePeriodQuantity u" using f by (simp_all add: usage_fits_def)
  next
    show "PR_Validate (ac_Price l) = Some None" using l by (simp add: line_ok_def)
  next
    fix k u assume k: "bind_result (deref (ac_Price l)) AsPackage = Inr k" and "pi_Usage i = Some u"
    then have "usage_fits l u" using f by blast
    with k obtain n where "on_grid n (kp_QuantityPerPackage k)" "on_grid n (us_Quantity u)"
      "on_grid n (us_PreLinePeriodQuantity u)" "kp_QuantityPerPackage k * 10 ^ n < 10 ^ div_places"
      unfolding usage_fits_def by blast
    from fits [OF this] show "package_fits (kp_QuantityPerPackage k) (us_Quantity u + us_PreLinePeriodQuantity u)"
      "package_fits (kp_QuantityPerPackage k) (us_PreLinePeriodQuantity u)" by simp_all
  next
    fix t assume "bind_result (deref (ac_Price l)) AsTiered = Inr t"
    then show "list_all (\<lambda>tier. pt_UpToAmount tier \<noteq> Some 0) (tp_Tiers t)" using l unfolding line_ok_def by blast
  qed
qed

section \<open>A concrete line\<close>

text \<open>A line of 20 units at a dollar each, with the given commitments.\<close>

definition unit_line :: "Commitments \<Rightarrow> StandardLine" where
  "unit_line c = (sample_line (NewPriceFrom (AnyUnit \<lparr>up_Commitments = c, up_Amount = 1\<rparr>)) \<lparr>cp_From = 0, cp_To = 100\<rparr>)
     \<lparr>sl_MeteredQuantity := Inr (Some 20)\<rparr>"

lemma unit_line_simps [simp]:
  "sl_CurrencyCalculator (unit_line c) = Inr (Some cents)" "sl_CreditsApplied (unit_line c) = []"
  "sl_PreviouslyBilledAmount (unit_line c) = Inr 0"
  "sl_UnitConfig (unit_line c) = None" "sl_StandardLineDiscounts (unit_line c) = \<lparr>sd_Usage = []\<rparr>"
  "sl_RateCardDiscounts (unit_line c) = \<lparr>ds_Percentage = None, ds_Usage = None\<rparr>"
  "ac_Price (unit_line c) = Some (NewPriceFrom (AnyUnit \<lparr>up_Commitments = c, up_Amount = 1\<rparr>))"
  "ac_ServicePeriod (unit_line c) = \<lparr>cp_From = 0, cp_To = 100\<rparr>"
  "sl_ProgressivelyBilledServicePeriod (unit_line c) = Inr \<lparr>cp_From = 0, cp_To = 100\<rparr>"
  "sl_IsProgressivelyBilled (unit_line c)"
  "metered_usage (unit_line c) = Inr (Some \<lparr>us_Quantity = 20, us_PreLinePeriodQuantity = 0\<rparr>)"
  by (simp_all add: unit_line_def sample_line_def metered_usage_def FromUnit_def)

lemma unit_line_ok: "CM_Validate c = None \<Longrightarrow> line_ok 2 (unit_line c)"
  by (simp add: line_ok_def As_view FromUnit_def price_view_def PR_Validate_def UP_Validate_def)

lemma unit_line_rated:
  "\<exists>r. GenerateDetailedLines std_decimal_lib False (Some (unit_line c)) [WithMinimumCommitmentIgnored] = Inr r"
  by (simp add: GenerateDetailedLines_def validateStandardLine_def getPricerFor_def FromUnit_def PI_Validate_def
      PM_GenerateDetailedLines_def NewGenerateDetailedLinesOptions_def WithMinimumCommitmentIgnored_def
      ForbidUnitConfig_Mutate_def DiscountUsage_Mutate_def GetUsage_def ApplyUsageDiscount_def
      Unit_GenerateDetailedLines_def AsUnit_def DiscountPercentage_Mutate_def getDiscount_def input_price_def
      MaxAmountCommitment_Mutate_def input_commitments_def PR_GetCommitments_def Credits_Mutate_def
      split: option.split)


lemma ignored_simps [simp]:
  "go_IgnoreMinimumCommitment (NewGenerateDetailedLinesOptions [WithMinimumCommitmentIgnored])"
  by (simp add: NewGenerateDetailedLinesOptions_def WithMinimumCommitmentIgnored_def)

lemma cents_fine: "fine_division 2"
  by (simp add: fine_division_def div_places_def)







section \<open>Properties\<close>

text \<open>
  C10. A rated line adds up: for a line fit for rating, every detailed line that the service returns is
  worth at least nothing after its discounts and credits, and the total of the result is exactly the
  sum of its lines.
\<close>

theorem rating_totals:
  assumes "decimal_ok L" and "currency_calculator C p" and "fine_division p"
    and "sl_CurrencyCalculator l = Inr (Some C)" and "line_ok p l"
    and "GenerateDetailedLines L enabled (Some l) opts = Inr r"
  shows "lines_nonneg C (gr_DetailedLines r) \<and> 0 \<le> tt_Total (gr_Totals r) \<and>
    tt_Total (gr_Totals r) = DetailedLines_Sum C (gr_DetailedLines r)"
proof -
  obtain pm full usage i ls0 ls where
    "getPricerFor (ac_Price l) (NewGenerateDetailedLinesOptions opts) enabled = Inr pm"
    and u: "metered_usage l = Inr usage"
    and pre: "run_pre L (pm_PreCalculation pm) \<lparr>pi_Line = l, pi_CurrencyCalculator = C,
       pi_FullProgressivelyBilledServicePeriod = full, pi_Usage = usage,
       pi_StandardLineDiscounts = sl_StandardLineDiscounts l\<rparr> = Inr i"
    and b: "base_generate L (pm_Pricer pm) i = Inr ls0"
    and post: "run_post L (pm_PostCalculation pm) i ls0 = Inr ls"
    and r: "r = getTotalsFromDetailedLines \<lparr>gr_DetailedLines = ls, gr_FinalUsage = pi_Usage i,
       gr_FinalStandardLineDiscounts = pi_StandardLineDiscounts i, gr_Totals = TT_zero\<rparr> C"
    by (rule GenerateDetailedLines_run [OF assms(6,4)])
  note ok = line_ok_pricer [OF assms(1,5) u pre]
  have "lines_nonneg C ls"
    by (rule currency_calculator.rating_nonneg [OF assms(2,1,3) ok(3) line_ok_billing [OF assms(5) ok(2)] ok(1) b post])
  then have n: "lines_nonneg C (gr_DetailedLines r)"
    unfolding r currency_calculator.result_totals(3) [OF assms(2)] by simp
  have t: "tt_Total (gr_Totals r) = DetailedLines_Sum C (gr_DetailedLines r)"
    unfolding r by (rule currency_calculator.result_totals(1) [OF assms(2)])
  show ?thesis using n t DetailedLines_Sum_nonneg [OF n] by simp
qed

theorem rating_totals_witness:
  "\<exists>r. GenerateDetailedLines std_decimal_lib False
     (Some (unit_line \<lparr>cm_MinimumAmount = None, cm_MaximumAmount = Some 12\<rparr>)) [WithMinimumCommitmentIgnored] = Inr r \<and>
     0 \<le> tt_Total (gr_Totals r)"
proof -
  let ?c = "\<lparr>cm_MinimumAmount = None, cm_MaximumAmount = Some (12 :: decimal)\<rparr>"
  have "line_ok 2 (unit_line ?c)" by (rule unit_line_ok) (simp add: CM_Validate_def FromPtr_def)
  then show ?thesis
    using unit_line_rated [of ?c] rating_totals [OF decimal_ok_std cents_calculator cents_fine, of "unit_line ?c" False
      "[WithMinimumCommitmentIgnored]"] by auto
qed

text \<open>
  C11. The maximum commitment bounds a whole rating run: whatever the usage, the tiers and the discounts,
  the total of a line plus what was billed before for the period is at most the maximum, unless more
  was billed already. The minimum commitment does not lift it, nor do discounts or credits.
\<close>

theorem rating_maximum:
  assumes "decimal_ok L" and "currency_calculator C p" and "fine_division p"
    and "sl_CurrencyCalculator l = Inr (Some C)" and "line_ok p l"
    and "ac_Price l = Some price" and "pr_t price \<noteq> FlatPriceType" and "PR_GetCommitments price = Some cm"
    and "cm_MaximumAmount cm = Some m" and "on_grid p m"
    and "case cm_MinimumAmount cm of None \<Rightarrow> True | Some a \<Rightarrow> a \<le> m \<and> on_grid p a"
    and "sl_PreviouslyBilledAmount l = Inr billed"
    and "GenerateDetailedLines L enabled (Some l) opts = Inr r"
  shows "billed + tt_Total (gr_Totals r) \<le> max m billed"
proof -
  obtain pm full usage i ls0 ls where
    g: "getPricerFor (ac_Price l) (NewGenerateDetailedLinesOptions opts) enabled = Inr pm"
    and u: "metered_usage l = Inr usage"
    and pre: "run_pre L (pm_PreCalculation pm) \<lparr>pi_Line = l, pi_CurrencyCalculator = C,
       pi_FullProgressivelyBilledServicePeriod = full, pi_Usage = usage,
       pi_StandardLineDiscounts = sl_StandardLineDiscounts l\<rparr> = Inr i"
    and b: "base_generate L (pm_Pricer pm) i = Inr ls0"
    and post: "run_post L (pm_PostCalculation pm) i ls0 = Inr ls"
    and r: "r = getTotalsFromDetailedLines \<lparr>gr_DetailedLines = ls, gr_FinalUsage = pi_Usage i,
       gr_FinalStandardLineDiscounts = pi_StandardLineDiscounts i, gr_Totals = TT_zero\<rparr> C"
    by (rule GenerateDetailedLines_run [OF assms(13,4)])
  note ok = line_ok_pricer [OF assms(1,5) u pre]
  have pp: "pm_PostCalculation pm = [DiscountPercentageMutator, MaxAmountCommitmentMutator] @
      (if \<not> go_IgnoreMinimumCommitment (NewGenerateDetailedLinesOptions opts) then [MinAmountCommitmentMutator] else []) @
      (if \<not> go_DisableCreditsMutator (NewGenerateDetailedLinesOptions opts) then [CreditsMutator] else [])"
    using g assms(6,7) by (auto simp: getPricerFor_def split: option.splits)
  have c: "input_commitments i = Inr cm" "sl_PreviouslyBilledAmount (pi_Line i) = Inr billed"
    using assms(6,8,12) ok(2) by (simp_all add: input_commitments_def input_price_def)
  have mn: "\<forall>a. cm_MinimumAmount cm = Some a \<longrightarrow> a \<le> m \<and> on_grid p a" using assms(11) by (simp split: option.splits)
  have "billed + DetailedLines_Sum C ls \<le> max m billed"
    by (rule currency_calculator.rating_capped [OF assms(2,1,3) ok(3) line_ok_billing [OF assms(5) ok(2)] ok(1) b
      c(1) assms(9,10) mn c(2) post [unfolded pp]])
  then show ?thesis
    unfolding r currency_calculator.result_totals(1,2) [OF assms(2)] by simp
qed

theorem rating_maximum_witness:
  "\<exists>r. GenerateDetailedLines std_decimal_lib False
     (Some (unit_line \<lparr>cm_MinimumAmount = None, cm_MaximumAmount = Some 12\<rparr>)) [WithMinimumCommitmentIgnored] = Inr r \<and>
     tt_Total (gr_Totals r) \<le> 12"
proof -
  let ?c = "\<lparr>cm_MinimumAmount = None, cm_MaximumAmount = Some (12 :: decimal)\<rparr>"
  have "line_ok 2 (unit_line ?c)" by (rule unit_line_ok) (simp add: CM_Validate_def FromPtr_def)
  then show ?thesis
    using unit_line_rated [of ?c] rating_maximum [OF decimal_ok_std cents_calculator cents_fine, of "unit_line ?c" _ ?c 12 0 False
      "[WithMinimumCommitmentIgnored]"] by (auto simp: FromUnit_def PR_GetCommitments_def)
qed

text \<open>
  C20. A usage discount is granted once per period: billed in two lines, the first of the quantity a and
  the second of b more, a discount of D units takes off min D (a + b) units in total and leaves the
  rest to be billed; the second line starts where the first one ended.
\<close>

theorem usage_discount_adds_up:
  assumes "ds_Usage d = Some ud" and "bu_CorrelationID ud \<noteq> []" and "0 \<le> ud_Quantity (bu_UsageDiscount ud)"
    and "0 \<le> a" and "0 \<le> b"
  shows "\<exists>u1 s1 u2 s2. ApplyUsageDiscount \<lparr>us_Quantity = a, us_PreLinePeriodQuantity = 0\<rparr> d stored1 = Inr (u1, s1) \<and>
    ApplyUsageDiscount \<lparr>us_Quantity = b, us_PreLinePeriodQuantity = a\<rparr> d stored2 = Inr (u2, s2) \<and>
    us_Quantity u1 + us_Quantity u2 = max 0 (a + b - ud_Quantity (bu_UsageDiscount ud)) \<and>
    stored_discount s1 + stored_discount s2 = min (ud_Quantity (bu_UsageDiscount ud)) (a + b) \<and>
    us_PreLinePeriodQuantity u2 = us_Quantity u1"
  using ApplyUsageDiscount_result [OF assms(1,2), of "\<lparr>us_Quantity = a, us_PreLinePeriodQuantity = 0\<rparr>" stored1]
    ApplyUsageDiscount_result [OF assms(1,2), of "\<lparr>us_Quantity = b, us_PreLinePeriodQuantity = a\<rparr>" stored2] assms(3-5)
  by auto

theorem usage_discount_adds_up_witness:
  "\<exists>u1 s1 u2 s2. ApplyUsageDiscount \<lparr>us_Quantity = 30, us_PreLinePeriodQuantity = 0\<rparr>
      \<lparr>ds_Percentage = None, ds_Usage = Some \<lparr>bu_UsageDiscount = \<lparr>ud_Quantity = 50\<rparr>, bu_CorrelationID = ''c''\<rparr>\<rparr>
      \<lparr>sd_Usage = []\<rparr> = Inr (u1, s1) \<and>
    ApplyUsageDiscount \<lparr>us_Quantity = 40, us_PreLinePeriodQuantity = 30\<rparr>
      \<lparr>ds_Percentage = None, ds_Usage = Some \<lparr>bu_UsageDiscount = \<lparr>ud_Quantity = 50\<rparr>, bu_CorrelationID = ''c''\<rparr>\<rparr>
      \<lparr>sd_Usage = []\<rparr> = Inr (u2, s2) \<and> us_Quantity u1 + us_Quantity u2 = 20"
  using usage_discount_adds_up [of "\<lparr>ds_Percentage = None, ds_Usage = Some \<lparr>bu_UsageDiscount = \<lparr>ud_Quantity = 50\<rparr>,
      bu_CorrelationID = ''c''\<rparr>\<rparr>" "\<lparr>bu_UsageDiscount = \<lparr>ud_Quantity = 50\<rparr>, bu_CorrelationID = ''c''\<rparr>" 30 40
      "\<lparr>sd_Usage = []\<rparr>" "\<lparr>sd_Usage = []\<rparr>"]
  by auto

text \<open>
  Started packages are paid in full: where quantity and package size have few enough decimal places
  for the division to keep them apart, the number of packages is the quotient rounded up, so the
  packages just cover the quantity.
\<close>

theorem GetNumberOfPackages_covers:
  assumes "decimal_ok L" and "0 < sz" and "package_fits sz qty"
  shows "\<exists>n. GetNumberOfPackages L qty sz = of_int n \<and> of_int (n - 1) * sz < qty \<and> qty \<le> of_int n * sz"
proof -
  have "of_int (\<lceil>qty / sz\<rceil> - 1) < qty / sz" "qty / sz \<le> of_int \<lceil>qty / sz\<rceil>" by linarith+
  then have "of_int (\<lceil>qty / sz\<rceil> - 1) * sz < qty" "qty \<le> of_int \<lceil>qty / sz\<rceil> * sz"
    using pos_less_divide_eq [OF assms(2)] pos_divide_le_eq [OF assms(2)] by blast+
  then show ?thesis using GetNumberOfPackages_ceiling [OF assms] by blast
qed

theorem GetNumberOfPackages_covers_witness:
  "\<exists>n. GetNumberOfPackages std_decimal_lib 25 10 = of_int n \<and> of_int (n - 1) * 10 < (25 :: decimal) \<and> 25 \<le> (of_int n * 10 :: decimal)"
proof -
  have "on_grid 0 10 \<and> on_grid 0 25" by simp
  then have "package_fits 10 25" unfolding package_fits_def div_places_def by (intro exI [of _ 0]) simp
  then show ?thesis using GetNumberOfPackages_covers [OF decimal_ok_std, of 10 25] by simp
qed





text \<open>
  Raw quantities are never billed in place of converted ones: where the unit conversion is not
  enabled, a line of any but a flat price that carries one is not rated at all.
\<close>

theorem unit_config_never_ignored:
  assumes "ac_Price l = Some price" and "pr_t price \<noteq> FlatPriceType" and "sl_UnitConfig l \<noteq> None"
  shows "\<exists>e. GenerateDetailedLines L False (Some l) opts = Inl e"
proof (cases "GenerateDetailedLines L False (Some l) opts")
  case (Inr r)
  then obtain C where C: "sl_CurrencyCalculator l = Inr (Some C)"
    by (auto simp: GenerateDetailedLines_def result_simps split: option.splits)
  obtain pm full usage i where
    g: "getPricerFor (ac_Price l) (NewGenerateDetailedLinesOptions opts) False = Inr pm"
    and pre: "run_pre L (pm_PreCalculation pm) \<lparr>pi_Line = l, pi_CurrencyCalculator = C,
       pi_FullProgressivelyBilledServicePeriod = full, pi_Usage = usage,
       pi_StandardLineDiscounts = sl_StandardLineDiscounts l\<rparr> = Inr i"
    by (rule GenerateDetailedLines_run [OF Inr C])
  have "pm_PreCalculation pm = [ForbidUnitConfigMutator, DiscountUsageMutator]"
    using g assms(1,2) by (auto simp: getPricerFor_def split: option.splits)
  then show ?thesis using pre assms(3) by (simp add: ForbidUnitConfig_Mutate_def)
qed simp

text \<open>The line of the witness carries a conversion that halves its quantity.\<close>

theorem unit_config_never_ignored_witness:
  "\<exists>e. GenerateDetailedLines std_decimal_lib False (Some ((unit_line \<lparr>cm_MinimumAmount = None, cm_MaximumAmount = None\<rparr>)
     \<lparr>sl_UnitConfig := Some \<lparr>uc_Operation = OpDivide, uc_ConversionFactor = 2, uc_Rounding = RoundNone, uc_Precision = 0,
        uc_DisplayUnit = None\<rparr>\<rparr>)) [] = Inl e"
  by (rule unit_config_never_ignored, simp, simp_all add: FromUnit_def unit_line_def sample_line_def)

end
