(* ===== verification/Issues.thy ===== *)
theory Issues
  imports Prelude
begin

text \<open>
  Validation issues of an invoice (openmeter/billing/validationissue.go): the error trees that the
  billing code builds, the issues read off them, and the issues merged into an invoice by component
  (\<open>MergeValidationIssues\<close> and \<open>HasCriticalValidationIssues\<close> of openmeter/billing/stdinvoice.go, here on
  the list of issues alone).
\<close>

section \<open>Issues and error trees\<close>

datatype ValidationIssueSeverity = SeverityCritical | SeverityWarning | OtherSeverity string

record ValidationIssue =
  vi_ID :: string
  vi_CreatedAt :: time
  vi_UpdatedAt :: time
  vi_DeletedAt :: "time option"
  vi_Severity :: ValidationIssueSeverity
  vi_Message :: string
  vi_Code :: string
  vi_Component :: string
  vi_Path :: string

text \<open>
  A literal \<open>ValidationIssue{...}\<close>, the zero value in the fields it does not set.
\<close>

definition issue :: "ValidationIssueSeverity \<Rightarrow> string \<Rightarrow> string \<Rightarrow> string \<Rightarrow> string \<Rightarrow> ValidationIssue" where
  "issue severity message code path component =
     \<lparr>vi_ID = [], vi_CreatedAt = 0, vi_UpdatedAt = 0, vi_DeletedAt = None, vi_Severity = severity,
      vi_Message = message, vi_Code = code, vi_Component = component, vi_Path = path\<rparr>"

definition NewValidationWarning :: "string \<Rightarrow> string \<Rightarrow> ValidationIssue" where
  "NewValidationWarning code message = issue SeverityWarning message code [] []"

definition NewValidationError :: "string \<Rightarrow> string \<Rightarrow> ValidationIssue" where
  "NewValidationError code message = issue SeverityCritical message code [] []"

text \<open>
  An error is a plain one, an issue, one of the three wrappers of the package, the result of
  \<open>errors.Join\<close>, or any other wrapper with its message and what it unwraps to (\<open>fmt.Errorf\<close> with \<open>%w\<close>).
  \<open>fmt.Errorf\<close> with \<open>%w\<close> and a nil error is a wrapper too: an error with a message that unwraps to nil.
\<close>

datatype issue_error =
    PlainError string
  | IssueError ValidationIssue
  | componentWrapper string issue_error
  | messageWrapper string issue_error
  | fieldPrefixWrapper string issue_error
  | JoinedErrors "issue_error list"
  | WrappedError string issue_error
  | WrappedNil string

text \<open>\<open>errors.Join\<close> separates the messages by line breaks.\<close>

fun join_lines :: "string list \<Rightarrow> string" where
  "join_lines [] = []"
| "join_lines [m] = m"
| "join_lines (m # ms) = m @ CHR 0x0A # join_lines ms"

fun Error_message :: "issue_error \<Rightarrow> string" where
  "Error_message (PlainError m) = m"
| "Error_message (IssueError i) = vi_Message i"
| "Error_message (componentWrapper c e) = c @ '': '' @ Error_message e"
| "Error_message (messageWrapper p e) = p @ '': '' @ Error_message e"
| "Error_message (fieldPrefixWrapper p e) = p @ '': '' @ Error_message e"
| "Error_message (JoinedErrors es) = join_lines (map Error_message es)"
| "Error_message (WrappedError m e) = m"
| "Error_message (WrappedNil m) = m"

definition ValidationWithComponent :: "string \<Rightarrow> issue_error option \<Rightarrow> issue_error option" where
  "ValidationWithComponent component err = map_option (componentWrapper component) err"

definition ValidationWithMessagef :: "issue_error option \<Rightarrow> string \<Rightarrow> issue_error option" where
  "ValidationWithMessagef err msg = map_option (messageWrapper msg) err"

definition ValidationWithFieldPrefix :: "string \<Rightarrow> issue_error option \<Rightarrow> issue_error option" where
  "ValidationWithFieldPrefix prefix err = map_option (fieldPrefixWrapper prefix) err"

definition AppTypeCapabilityToComponent :: "string \<Rightarrow> string \<Rightarrow> string \<Rightarrow> string" where
  "AppTypeCapabilityToComponent appType cap op = ''app.'' @ appType @ ''.'' @ cap @ ''.'' @ op"

section \<open>Paths and messages\<close>

definition addStartingSlashIfNeeded :: "string \<Rightarrow> string" where
  "addStartingSlashIfNeeded path =
     (case path of [] \<Rightarrow> [] | c # _ \<Rightarrow> if c = CHR ''/'' then path else CHR ''/'' # path)"

definition appendToPrefix :: "string \<Rightarrow> string \<Rightarrow> string" where
  "appendToPrefix prefix field =
     (if prefix = [] then addStartingSlashIfNeeded field
      else if field = [] then addStartingSlashIfNeeded prefix
      else addStartingSlashIfNeeded (prefix @ ''/'' @ field))"

definition appendMessagePrefix :: "string \<Rightarrow> string \<Rightarrow> string" where
  "appendMessagePrefix prefix message = (if prefix = [] then message else prefix @ '': '' @ message)"

section \<open>From errors to issues\<close>

text \<open>
  The result is the error that is no validation issue, or the issues found. A nil error has no issues, so a
  wrapper of nil has none either.
\<close>

fun toValidationIssue :: "issue_error \<Rightarrow> string \<Rightarrow> string \<Rightarrow> string \<Rightarrow> bool \<Rightarrow> issue_error + ValidationIssue list"
and toValidationIssues :: "issue_error list \<Rightarrow> string \<Rightarrow> string \<Rightarrow> string \<Rightarrow> bool \<Rightarrow> issue_error + ValidationIssue list" where
  "toValidationIssue (componentWrapper c e) fieldPrefix component messagePrefix unknown =
     toValidationIssue e fieldPrefix (if component = [] then c else component) messagePrefix True"
| "toValidationIssue (fieldPrefixWrapper p e) fieldPrefix component messagePrefix unknown =
     toValidationIssue e (appendToPrefix fieldPrefix p) component messagePrefix True"
| "toValidationIssue (messageWrapper p e) fieldPrefix component messagePrefix unknown =
     toValidationIssue e fieldPrefix component (appendMessagePrefix messagePrefix p) unknown"
| "toValidationIssue (IssueError i) fieldPrefix component messagePrefix unknown =
     Inr [issue (vi_Severity i) (appendMessagePrefix messagePrefix (vi_Message i)) (vi_Code i)
       (appendToPrefix fieldPrefix (vi_Path i)) (if component = [] then vi_Component i else component)]"
| "toValidationIssue (JoinedErrors es) fieldPrefix component messagePrefix unknown =
     toValidationIssues es fieldPrefix component messagePrefix unknown"
| "toValidationIssue (WrappedError m e) fieldPrefix component messagePrefix unknown =
     toValidationIssue e fieldPrefix component messagePrefix unknown"
| "toValidationIssue (WrappedNil m) fieldPrefix component messagePrefix unknown = Inr []"
| "toValidationIssue (PlainError m) fieldPrefix component messagePrefix unknown =
     (if unknown then Inr [issue SeverityCritical (appendMessagePrefix messagePrefix m) [] fieldPrefix component]
      else Inl (PlainError m))"
| "toValidationIssues [] fieldPrefix component messagePrefix unknown = Inr []"
| "toValidationIssues (e # es) fieldPrefix component messagePrefix unknown =
     (case toValidationIssue e fieldPrefix component messagePrefix unknown of
        Inl err \<Rightarrow> Inl err
      | Inr out \<Rightarrow>
          (case toValidationIssues es fieldPrefix component messagePrefix unknown of
             Inl err \<Rightarrow> Inl err
           | Inr outs \<Rightarrow> Inr (out @ outs)))"

text \<open>The issues, and the error if it is not made of issues: then the whole error comes back.\<close>

definition ToValidationIssues :: "issue_error option \<Rightarrow> ValidationIssue list \<times> issue_error option" where
  "ToValidationIssues errIn =
     (case errIn of
        None \<Rightarrow> ([], None)
      | Some e \<Rightarrow> (case toValidationIssue e [] [] [] False of Inl _ \<Rightarrow> ([], Some e) | Inr issues \<Rightarrow> (issues, None)))"

definition RemoveMetaForCompare :: "ValidationIssue list \<Rightarrow> ValidationIssue list" where
  "RemoveMetaForCompare v =
     map (\<lambda>i. i\<lparr>vi_CreatedAt := 0, vi_UpdatedAt := 0, vi_DeletedAt := None, vi_ID := []\<rparr>) v"

definition AsError :: "ValidationIssue list \<Rightarrow> issue_error option" where
  "AsError v = (if v = [] then None else Some (JoinedErrors (map IssueError v)))"

section \<open>The issues of an invoice\<close>

definition MergeValidationIssues :: "ValidationIssue list \<Rightarrow> issue_error option \<Rightarrow> string
    \<Rightarrow> ValidationIssue list \<times> issue_error option" where
  "MergeValidationIssues issues errIn reportingComponent =
     (let kept = filter (\<lambda>i. vi_Component i \<noteq> reportingComponent) issues;
          (newIssues, finalErrs) = ToValidationIssues errIn
      in (kept @ newIssues, finalErrs))"

definition HasCriticalValidationIssues :: "ValidationIssue list \<Rightarrow> bool" where
  "HasCriticalValidationIssues issues \<longleftrightarrow> find (\<lambda>i. vi_Severity i = SeverityCritical) issues \<noteq> None"

section \<open>What the issues say\<close>

lemma issue_simps [simp]:
  "vi_Severity (issue s m c p k) = s" "vi_Component (issue s m c p k) = k" "vi_Path (issue s m c p k) = p"
  "vi_Message (issue s m c p k) = m" "vi_Code (issue s m c p k) = c"
  by (simp_all add: issue_def)

text \<open>Below a component or a field every error becomes issues, all of the outermost component.\<close>

lemma toValidationIssue_total:
  "\<exists>is. toValidationIssue e p c m True = Inr is \<and> (c \<noteq> [] \<longrightarrow> (\<forall>i \<in> set is. vi_Component i = c))"
  "\<exists>is. toValidationIssues es p c m True = Inr is \<and> (c \<noteq> [] \<longrightarrow> (\<forall>i \<in> set is. vi_Component i = c))"
proof (induction e p c m "True" and es p c m "True" rule: toValidationIssue_toValidationIssues.induct)
  case (1 c e fieldPrefix component messagePrefix)
  then show ?case by auto
next
  case (10 e es p c m)
  then show ?case by (auto split: sum.splits)
qed auto

lemma component_issues:
  assumes "c \<noteq> []"
  shows "snd (ToValidationIssues (ValidationWithComponent c e)) = None"
    "\<forall>i \<in> set (fst (ToValidationIssues (ValidationWithComponent c e))). vi_Component i = c"
  using assms toValidationIssue_total(1) [of "the e" "[]" c "[]"]
  by (cases e; auto simp: ToValidationIssues_def ValidationWithComponent_def)+

lemma toValidationIssues_issues:
  "toValidationIssues (map IssueError v) [] [] [] u =
     Inr (map (\<lambda>i. issue (vi_Severity i) (vi_Message i) (vi_Code i) (addStartingSlashIfNeeded (vi_Path i)) (vi_Component i)) v)"
  by (induction v) (auto simp: appendMessagePrefix_def appendToPrefix_def)

text \<open>Issues that a component reports become issues of that component.\<close>

lemma toValidationIssues_component:
  assumes "c \<noteq> []"
  shows "toValidationIssues (map IssueError v) [] c [] u =
     Inr (map (\<lambda>i. issue (vi_Severity i) (vi_Message i) (vi_Code i) (addStartingSlashIfNeeded (vi_Path i)) c) v)"
  using assms by (induction v) (auto simp: appendMessagePrefix_def appendToPrefix_def)

lemma component_of_issues:
  assumes "c \<noteq> []"
  shows "ToValidationIssues (ValidationWithComponent c (AsError v)) =
     (map (\<lambda>i. issue (vi_Severity i) (vi_Message i) (vi_Code i) (addStartingSlashIfNeeded (vi_Path i)) c) v, None)"
  using toValidationIssues_component [OF assms, of v True]
  by (simp add: ToValidationIssues_def ValidationWithComponent_def AsError_def)

lemma slash_idem [simp]: "addStartingSlashIfNeeded (addStartingSlashIfNeeded p) = addStartingSlashIfNeeded p"
  by (auto simp: addStartingSlashIfNeeded_def split: list.splits)

lemma HasCritical_iff: "HasCriticalValidationIssues is \<longleftrightarrow> (\<exists>i \<in> set is. vi_Severity i = SeverityCritical)"
  by (auto simp: HasCriticalValidationIssues_def find_None_iff)

section \<open>Properties\<close>

text \<open>
  C35. Issues survive the trip through an error: reading the issues back off the error that they were
  joined into gives the same issues in the same order, without their database fields and with paths
  that start with a slash, and no error is left over.
\<close>

theorem ToValidationIssues_AsError:
  "ToValidationIssues (AsError v) =
     (map (\<lambda>i. i\<lparr>vi_Path := addStartingSlashIfNeeded (vi_Path i)\<rparr>) (RemoveMetaForCompare v), None)"
  by (simp add: ToValidationIssues_def AsError_def RemoveMetaForCompare_def toValidationIssues_issues issue_def)

text \<open>
  C36. Merging the outcome of one component leaves the issues of the others alone: whatever error the
  component reports, the merge does not fail, the other issues keep their order, the issues of the
  component are exactly those read off its error (none after a success), and merging the same outcome
  again changes nothing.
\<close>

theorem MergeValidationIssues_component:
  assumes "c \<noteq> []"
  shows "case MergeValidationIssues is (ValidationWithComponent c e) c of (out, err) \<Rightarrow>
    err = None \<and> filter (\<lambda>i. vi_Component i \<noteq> c) out = filter (\<lambda>i. vi_Component i \<noteq> c) is \<and>
    filter (\<lambda>i. vi_Component i = c) out = fst (ToValidationIssues (ValidationWithComponent c e)) \<and>
    (e = None \<longrightarrow> filter (\<lambda>i. vi_Component i = c) out = []) \<and>
    MergeValidationIssues out (ValidationWithComponent c e) c = (out, None)"
proof -
  let ?n = "fst (ToValidationIssues (ValidationWithComponent c e))"
  have n: "filter (\<lambda>i. vi_Component i \<noteq> c) ?n = []" "filter (\<lambda>i. vi_Component i = c) ?n = ?n"
    using component_issues(2) [OF assms, of e] by (auto simp: filter_empty_conv filter_id_conv)
  have m: "MergeValidationIssues x (ValidationWithComponent c e) c = (filter (\<lambda>i. vi_Component i \<noteq> c) x @ ?n, None)" for x
    using component_issues(1) [OF assms, of e] by (auto simp: MergeValidationIssues_def split: prod.splits)
  have "e = None \<longrightarrow> ?n = []" by (simp add: ValidationWithComponent_def ToValidationIssues_def)
  then show ?thesis using n by (simp add: m)
qed

theorem MergeValidationIssues_component_witness:
  "fst (MergeValidationIssues [issue SeverityWarning ''w'' [] [] ''a'', issue SeverityCritical ''old'' [] [] ''b'']
     (ValidationWithComponent ''b'' (Some (PlainError ''x''))) ''b'') =
   [issue SeverityWarning ''w'' [] [] ''a'', issue SeverityCritical ''x'' [] [] ''b'']"
  using MergeValidationIssues_component [of "''b''" "[issue SeverityWarning ''w'' [] [] ''a'', issue SeverityCritical ''old'' [] [] ''b'']"
      "Some (PlainError ''x'')"]
  by (simp add: MergeValidationIssues_def ToValidationIssues_def ValidationWithComponent_def appendMessagePrefix_def)

end
