(* ===== verification/StdDetails.thy ===== *)
theory StdDetails
  imports PostMutators Issues "HOL-Library.List_Lexorder" "HOL-Library.Char_ord"
begin

text \<open>
  The stored detailed lines of an invoice: their base with the credits applied to them
  (openmeter/billing/models/stddetailedline/model.go), the detailed line of an invoice
  (openmeter/billing/invoicedetailedline.go) and the managed resource both embed (pkg/models/model.go).
  An embedded struct is a record that the embedding one extends. Credits are consumed line by line; they
  end up exactly where the rating of a line puts them (\<open>Mutators\<close>).
\<close>

section \<open>Managed resources\<close>

record ManagedResource =
  mr_Namespace :: string
  mr_ID :: string
  mr_CreatedAt :: time
  mr_UpdatedAt :: time
  mr_DeletedAt :: "time option"
  mr_Description :: "string option"
  mr_Name :: string

definition IsDeletedAt :: "time \<Rightarrow> ('a) ManagedResource_scheme \<Rightarrow> bool" where
  "IsDeletedAt t m = (case mr_DeletedAt m of None \<Rightarrow> False | Some d \<Rightarrow> \<not> d > t)"

text \<open>\<open>IsDeleted\<close> reads the clock, which is the argument \<open>now\<close>.\<close>

definition IsDeleted :: "time \<Rightarrow> ('a) ManagedResource_scheme \<Rightarrow> bool" where
  "IsDeleted now m = IsDeletedAt now m"

section \<open>The base of a detailed line\<close>

record DetailedBase = ManagedResource +
  db_Category :: Category
  db_ChildUniqueReferenceID :: string
  db_Index :: "int option"
  db_PaymentTerm :: PaymentTermType
  db_ServicePeriod :: ClosedPeriod
  db_PerUnitAmount :: decimal
  db_Quantity :: decimal
  db_Totals :: Totals
  db_ExternalIDs :: LineExternalIDs
  db_CreditsApplied :: "CreditApplied list"

definition Category_Validate :: "Category \<Rightarrow> error option" where
  "Category_Validate c =
     (if c \<notin> set [CategoryRegular, CategoryCommitment] then Some (Err ''invalid category'') else None)"

text \<open>The option \<open>IgnoreQuantityChecks\<close> is the flag.\<close>

definition DB_Validate :: "bool \<Rightarrow> ('a) DetailedBase_scheme \<Rightarrow> error option" where
  "DB_Validate ignoreQuantityChecks l = join_errors
     (err_of (Wrap ''category'') (Category_Validate (db_Category l)) @
      err_if (db_ChildUniqueReferenceID l = []) (Err ''child unique reference id is required'') @
      err_if (db_PerUnitAmount l < 0) (Err ''price should be positive or zero'') @
      err_if (\<not> ignoreQuantityChecks \<and> db_Quantity l < 0) (Err ''quantity should be positive or zero'') @
      err_of (Wrap ''payment term'') (PaymentTerm_Validate (db_PaymentTerm l)) @
      err_of (Wrap ''service period'') (CP_Validate (db_ServicePeriod l)) @
      err_of (Wrap ''credits applied'') (CAs_Validate (db_CreditsApplied l)))"

definition DB_Clone :: "('a) DetailedBase_scheme \<Rightarrow> ('a) DetailedBase_scheme" where
  "DB_Clone l = (if length (db_CreditsApplied l) > 0
     then l\<lparr>db_CreditsApplied := CAs_Clone (db_CreditsApplied l)\<rparr> else l)"

text \<open>\<open>Compare\<close>, for the index, the creation time and the ID of a line.\<close>

definition DB_Compare :: "('a) DetailedBase_scheme \<Rightarrow> ('a) DetailedBase_scheme \<Rightarrow> int" where
  "DB_Compare a b =
     (if db_Index a = None \<and> db_Index b \<noteq> None then 1
      else if db_Index a \<noteq> None \<and> db_Index b = None then -1
      else let c = (case (db_Index a, db_Index b) of (Some i, Some j) \<Rightarrow> compare_values i j | _ \<Rightarrow> 0)
      in if c \<noteq> 0 then c
         else let c = compare_values (mr_CreatedAt a) (mr_CreatedAt b)
         in if c \<noteq> 0 then c else compare_values (mr_ID a) (mr_ID b))"

definition DBs_Clone :: "('a) DetailedBase_scheme list \<Rightarrow> ('a) DetailedBase_scheme list" where
  "DBs_Clone l = map DB_Clone l"

definition DBs_SumTotals :: "('a) DetailedBase_scheme list \<Rightarrow> Totals" where
  "DBs_SumTotals l = foldl (\<lambda>out line. TT_Add out [db_Totals line]) TT_zero l"

definition reverse_credits :: "('a) DetailedBase_scheme \<Rightarrow> ('a) DetailedBase_scheme" where
  "reverse_credits l =
     (let t = (db_Totals l)\<lparr>tt_CreditsTotal := 0\<rparr>
      in l\<lparr>db_CreditsApplied := [], db_Totals := t\<lparr>tt_Total := CalculateTotal t\<rparr>\<rparr>)"

definition WithReversedCredits :: "('a) DetailedBase_scheme list \<Rightarrow> ('a) DetailedBase_scheme list" where
  "WithReversedCredits l = map reverse_credits (DBs_Clone l)"

text \<open>The two loops of \<open>WithCreditsApplied\<close>: one credit over the lines, then the credits in turn.\<close>

fun consume_credit :: "currency_ops \<Rightarrow> CreditApplied \<Rightarrow> decimal \<Rightarrow> ('a) DetailedBase_scheme list
    \<Rightarrow> ('a) DetailedBase_scheme list \<times> decimal" where
  "consume_credit C credit remaining [] = ([], remaining)"
| "consume_credit C credit remaining (x # xs) =
     (if remaining = 0 then (x # xs, remaining)
      else let totalAmount = cur_RoundToPrecision C (tt_Total (db_Totals x))
      in if \<not> totalAmount > 0 then let (ys, r) = consume_credit C credit remaining xs in (x # ys, r)
         else let amountToApply = (if totalAmount < remaining then totalAmount else remaining);
                  y = x\<lparr>db_CreditsApplied := db_CreditsApplied x @ [CA_CloneWithAmount credit amountToApply],
                        db_Totals := (db_Totals x)\<lparr>
                          tt_CreditsTotal := cur_RoundToPrecision C (tt_CreditsTotal (db_Totals x) + amountToApply),
                          tt_Total := cur_RoundToPrecision C (tt_Total (db_Totals x) - amountToApply)\<rparr>\<rparr>;
                  (ys, r) = consume_credit C credit (cur_RoundToPrecision C (remaining - amountToApply)) xs
              in (y # ys, r))"

definition ErrCreditsNotConsumedFully :: error where
  "ErrCreditsNotConsumedFully = Err ''credits not consumed fully''"

fun consume_credits :: "currency_ops \<Rightarrow> CreditApplied list \<Rightarrow> ('a) DetailedBase_scheme list
    \<Rightarrow> ('a) DetailedBase_scheme list result" where
  "consume_credits C [] ls = Inr ls"
| "consume_credits C (credit # credits) ls =
     (let (ls', remaining) = consume_credit C credit (cur_RoundToPrecision C (ca_Amount credit)) ls
      in if remaining > 0 then Inl ErrCreditsNotConsumedFully else consume_credits C credits ls')"

definition WithCreditsApplied :: "CreditApplied list \<Rightarrow> currency_ops option \<Rightarrow> ('a) DetailedBase_scheme list
    \<Rightarrow> ('a) DetailedBase_scheme list result" where
  "WithCreditsApplied creditsApplied currency l =
     (case currency of None \<Rightarrow> Inl (Err ''currency is required'')
      | Some C \<Rightarrow> consume_credits C creditsApplied (WithReversedCredits l))"

definition DBs_Validate :: "('a) DetailedBase_scheme list \<Rightarrow> error option" where
  "DBs_Validate l = nillable_validation (join_errors
     (concat (map (\<lambda>line. err_of (Wrap ''line'') (DB_Validate False line)) l)))"

section \<open>The detailed line of an invoice\<close>

record DetailedLineBase = DetailedBase +
  dlb_InvoiceID :: string
  dlb_FeeLineConfigID :: string

record InvoiceDetailedLine = DetailedLineBase +
  id_AmountDiscounts :: "AmountLineDiscountManaged list"

definition DLB_Validate :: "('a) DetailedLineBase_scheme \<Rightarrow> error option" where
  "DLB_Validate l = join_errors
     (err_if (dlb_InvoiceID l = []) (Err ''invoiceID is required'') @
      err_of (Wrap ''base'') (DB_Validate True l))"

definition DLB_Clone :: "('a) DetailedLineBase_scheme \<Rightarrow> ('a) DetailedLineBase_scheme" where
  "DLB_Clone l = DB_Clone l"

definition ID_Validate :: "InvoiceDetailedLine \<Rightarrow> error option" where
  "ID_Validate l = join_errors
     (err_of (Wrap ''detailed line base'') (DLB_Validate l) @
      err_of (Wrap ''amount discounts'') (AMs_Validate (id_AmountDiscounts l)))"

definition ID_Clone :: "InvoiceDetailedLine \<Rightarrow> InvoiceDetailedLine" where
  "ID_Clone l = (DLB_Clone l)\<lparr>id_AmountDiscounts := AMs_Clone (id_AmountDiscounts l)\<rparr>"

text \<open>The discounts are updated in place; the second component is the IDs found.\<close>

definition am_set_external :: "string \<Rightarrow> AmountLineDiscountManaged \<Rightarrow> AmountLineDiscountManaged" where
  "am_set_external x d =
     (let b = al_Base (am_Discount d)
      in d\<lparr>am_Discount := (am_Discount d)\<lparr>al_Base := b\<lparr>lb_ExternalIDs := (lb_ExternalIDs b)\<lparr>xi_Invoicing := x\<rparr>\<rparr>\<rparr>\<rparr>)"

fun set_amount_external_ids :: "(string \<rightharpoonup> string) \<Rightarrow> AmountLineDiscountManaged list
    \<Rightarrow> AmountLineDiscountManaged list \<times> string list" where
  "set_amount_external_ids externalIDs [] = ([], [])"
| "set_amount_external_ids externalIDs (d # ds) =
     (let (ds', found) = set_amount_external_ids externalIDs ds
      in case externalIDs (mm_ID (am_Managed d)) of
           None \<Rightarrow> (d # ds', found)
         | Some x \<Rightarrow> (am_set_external x d # ds', mm_ID (am_Managed d) # found))"

definition ID_SetDiscountExternalIDs :: "(string \<rightharpoonup> string) \<Rightarrow> InvoiceDetailedLine \<Rightarrow> InvoiceDetailedLine \<times> string list" where
  "ID_SetDiscountExternalIDs externalIDs l =
     (let (ds, found) = set_amount_external_ids externalIDs (id_AmountDiscounts l)
      in (l\<lparr>id_AmountDiscounts := ds\<rparr>, found))"

definition IDs_Clone :: "InvoiceDetailedLine list \<Rightarrow> InvoiceDetailedLine list" where
  "IDs_Clone l = map ID_Clone l"

definition mapBase :: "(DetailedBase list \<Rightarrow> DetailedBase list result) \<Rightarrow> InvoiceDetailedLine list
    \<Rightarrow> InvoiceDetailedLine list result" where
  "mapBase fn l =
     (let out = IDs_Clone l
      in bind_result (fn (map DetailedBase.truncate out)) (\<lambda>bases.
           Inr (map2 (\<lambda>line base. DetailedBase.extend base (DetailedBase.more line)) out bases)))"

definition IDs_SumTotals :: "InvoiceDetailedLine list \<Rightarrow> Totals" where
  "IDs_SumTotals l = TT_Sum (map db_Totals l)"

definition IDs_WithReversedCredits :: "InvoiceDetailedLine list \<Rightarrow> InvoiceDetailedLine list" where
  "IDs_WithReversedCredits l =
     (case mapBase (\<lambda>bases. Inr (WithReversedCredits bases)) l of Inl _ \<Rightarrow> [] | Inr out \<Rightarrow> out)"

definition ErrInvoiceLineCreditsNotConsumed :: ValidationIssue where
  "ErrInvoiceLineCreditsNotConsumed =
     NewValidationError ''invoice_line_credits_not_consumed_fully'' ''credits not consumed fully''"

text \<open>\<open>go_error\<close>: the errors of the other packages inside the trees that validation issues are read from.\<close>

fun go_error :: "error \<Rightarrow> issue_error" where
  "go_error (Err m) = PlainError m"
| "go_error (Wrap m e) = WrappedError (m @ '': '' @ Error_message (go_error e)) (go_error e)"
| "go_error (Joined es) = JoinedErrors (map go_error es)"
| "go_error (GenericValidation e) = WrappedError (''validation error: '' @ Error_message (go_error e)) (go_error e)"
| "go_error (ValidationError e) = WrappedError (Error_message (go_error e)) (go_error e)"

definition IDs_WithCreditsApplied :: "CreditApplied list \<Rightarrow> currency_ops option \<Rightarrow> InvoiceDetailedLine list
    \<Rightarrow> issue_error + InvoiceDetailedLine list" where
  "IDs_WithCreditsApplied creditsApplied currency l =
     (case currency of None \<Rightarrow> Inl (PlainError ''currency is required'')
      | Some C \<Rightarrow>
          (case mapBase (WithCreditsApplied creditsApplied (Some C)) l of
             Inl e \<Rightarrow> (if e = ErrCreditsNotConsumedFully then Inl (IssueError ErrInvoiceLineCreditsNotConsumed)
                      else Inl (go_error e))
           | Inr out \<Rightarrow> Inr out))"

definition IDs_Validate :: "InvoiceDetailedLine list \<Rightarrow> error option" where
  "IDs_Validate l = join_errors (concat (map (\<lambda>dl. err_of (Wrap ''line'') (ID_Validate dl)) l))"

definition IDs_GetByChildUniqueReferenceID :: "InvoiceDetailedLine list \<Rightarrow> string \<Rightarrow> InvoiceDetailedLine option" where
  "IDs_GetByChildUniqueReferenceID l ref = find (\<lambda>dl. db_ChildUniqueReferenceID dl = ref) l"

section \<open>Credits on stored lines\<close>

lemma DB_Clone_id [simp]: "DB_Clone l = l" "DLB_Clone m = m" "ID_Clone k = k"
  by (simp_all add: DB_Clone_def DLB_Clone_def ID_Clone_def AMs_Clone_def map_idI)

lemma Clones_id [simp]: "DBs_Clone ls = ls" "IDs_Clone ks = ks"
  by (simp_all add: DBs_Clone_def IDs_Clone_def map_idI)

lemma reverse_credits_absorbs [simp]:
  "reverse_credits (x\<lparr>db_CreditsApplied := cs, db_Totals := (db_Totals x)\<lparr>tt_CreditsTotal := c, tt_Total := t\<rparr>\<rparr>) =
     reverse_credits x"
  by (simp add: reverse_credits_def CalculateTotal_def)

lemma consume_credit_reversed:
  "map reverse_credits (fst (consume_credit C c r ls)) = map reverse_credits ls"
  by (induction ls arbitrary: r) (simp_all add: Let_def case_prod_beta)

lemma consume_credits_reversed:
  "consume_credits C cs ls = Inr ls' \<Longrightarrow> map reverse_credits ls' = map reverse_credits ls"
proof (induction cs arbitrary: ls)
  case (Cons c cs)
  then show ?case
    using consume_credit_reversed [of C c "cur_RoundToPrecision C (ca_Amount c)" ls]
    by (auto split: prod.splits if_splits)
qed simp

text \<open>A stored line and a rated one with the same credits and the same rest to pay.\<close>

definition same_credits :: "currency_ops \<Rightarrow> ('a) DetailedBase_scheme \<Rightarrow> DetailedLine \<Rightarrow> bool" where
  "same_credits C b x \<longleftrightarrow> db_CreditsApplied b = li_CreditsApplied x \<and> tt_Total (db_Totals b) = DL_TotalAmount C x"

lemma credit_zero [simp]: "consume_credit C c 0 bs = (bs, 0)" "apply_credit C c 0 xs = (xs, 0)"
  by (cases bs; simp) (cases xs; simp)

context currency_calculator
begin

lemma consume_as_applied:
  assumes "list_all2 (same_credits C) bs xs" and "on_grid p r"
  shows "list_all2 (same_credits C) (fst (consume_credit C c r bs)) (fst (apply_credit C c r xs)) \<and>
    snd (consume_credit C c r bs) = snd (apply_credit C c r xs) \<and> on_grid p (snd (apply_credit C c r xs))"
  using assms
proof (induction bs xs arbitrary: r rule: list_all2_induct)
  case (Cons b bs x xs)
  let ?T = "DL_TotalAmount C x"
  have T: "tt_Total (db_Totals b) = ?T" "cur_RoundToPrecision C ?T = ?T" "cur_RoundToPrecision C r = r"
    using Cons.hyps(1) Cons.prems by (simp_all add: same_credits_def RoundToPrecision_fixed)
  have g: "on_grid p (r - ?T)" "on_grid p (?T - r)" using Cons.prems by (simp_all add: on_grid_sub)
  then have f: "cur_RoundToPrecision C (r - ?T) = r - ?T" "cur_RoundToPrecision C (?T - r) = ?T - r"
    by (simp_all add: RoundToPrecision_fixed)
  obtain bs1 r1 xs1 where 1: "consume_credit C c r bs = (bs1, r1)" "apply_credit C c r xs = (xs1, r1)"
      "list_all2 (same_credits C) bs1 xs1" "on_grid p r1"
    using Cons.IH [OF Cons.prems] by (metis prod.collapse)
  obtain bs2 r2 xs2 where 2: "consume_credit C c (r - ?T) bs = (bs2, r2)" "apply_credit C c (r - ?T) xs = (xs2, r2)"
      "list_all2 (same_credits C) bs2 xs2" "on_grid p r2"
    using Cons.IH [OF g(1)] by (metis prod.collapse)
  have s: "same_credits C (b\<lparr>db_CreditsApplied := db_CreditsApplied b @ [CA_CloneWithAmount c a],
        db_Totals := (db_Totals b)\<lparr>tt_CreditsTotal := t, tt_Total := ?T - a\<rparr>\<rparr>)
      (x\<lparr>li_CreditsApplied := li_CreditsApplied x @ [CA_CloneWithAmount c a]\<rparr>)" if "cur_RoundToPrecision C a = a" for a t
    using Cons.hyps(1) that by (simp add: same_credits_def DL_TotalAmount_add_credit CA_CloneWithAmount_def)
  consider "r = 0" | "r \<noteq> 0" "\<not> 0 < ?T" | "r \<noteq> 0" "0 < ?T" "?T < r" | "r \<noteq> 0" "0 < ?T" "?T = r" | "r \<noteq> 0" "0 < ?T" "r < ?T"
    by linarith
  then show ?case
  proof cases
    case 1
    then show ?thesis using Cons.hyps Cons.prems by simp
  next
    case 2
    then show ?thesis using Cons.hyps(1) T 1 by (simp add: Let_def)
  next
    case 3
    then show ?thesis using T f 2 s [OF T(2)] by (simp add: Let_def)
  next
    case 4
    then show ?thesis using Cons.hyps(2) T s [OF T(2)] by (simp add: Let_def)
  next
    case 5
    then show ?thesis using Cons.hyps(2) T f s [OF T(3)] by (simp add: Let_def)
  qed
qed simp

lemma consume_all_as_applied:
  assumes "list_all2 (same_credits C) bs xs"
  shows "case (consume_credits C cs bs, apply_credits C cs xs) of
    (Inr bs', Inr xs') \<Rightarrow> list_all2 (same_credits C) bs' xs'
  | (Inl e, Inl e') \<Rightarrow> e = ErrCreditsNotConsumedFully \<and> e' = ErrInvoiceLineCreditsNotConsumedFully
  | _ \<Rightarrow> False"
  using assms
proof (induction cs arbitrary: bs xs)
  case (Cons c cs)
  let ?r = "cur_RoundToPrecision C (ca_Amount c)"
  have r: "on_grid p ?r" by simp
  obtain bs1 r1 xs1 where 1: "consume_credit C c ?r bs = (bs1, r1)" "apply_credit C c ?r xs = (xs1, r1)"
      "list_all2 (same_credits C) bs1 xs1"
    using consume_as_applied [OF Cons.prems r, of c] by (metis prod.collapse)
  show ?case using 1 Cons.IH [OF 1(3)] by simp
qed simp

end

lemma reverse_reverse [simp]: "reverse_credits (reverse_credits l) = reverse_credits l"
  by (simp add: reverse_credits_def CalculateTotal_def)

lemma consume_credits_length: "consume_credits C cs ls = Inr ls' \<Longrightarrow> length ls' = length ls"
  using consume_credits_reversed [of C cs ls ls'] by (metis length_map)

text \<open>The bases of lines put back into the lines they come from.\<close>

definition put_back :: "InvoiceDetailedLine list \<Rightarrow> DetailedBase list \<Rightarrow> InvoiceDetailedLine list" where
  "put_back ls bases = map2 (\<lambda>l b. DetailedBase.extend b (DetailedBase.more l)) ls bases"

lemma extend_parts [simp]:
  "DetailedBase.truncate (DetailedBase.extend b m) = b" "DetailedBase.more (DetailedBase.extend b m) = m"
  by (cases b; simp add: DetailedBase.truncate_def DetailedBase.extend_def)+

lemma put_back_parts:
  assumes "length bases = length ls"
  shows "map DetailedBase.truncate (put_back ls bases) = bases" "put_back (put_back ls bases) bs = put_back ls bs"
proof -
  show "map DetailedBase.truncate (put_back ls bases) = bases"
    using assms by (induction ls bases rule: list_induct2') (simp_all add: put_back_def)
  show "put_back (put_back ls bases) bs = put_back ls bs"
    using assms
  proof (induction ls arbitrary: bases bs)
    case (Cons l ls)
    then show ?case by (cases bases; cases bs) (simp_all add: put_back_def)
  qed (simp add: put_back_def)
qed

lemma mapBase_eq: "mapBase fn ls = bind_result (fn (map DetailedBase.truncate ls)) (\<lambda>bases. Inr (put_back ls bases))"
  by (simp add: mapBase_def put_back_def)

lemma IDs_WithReversedCredits_eq:
  "IDs_WithReversedCredits ls = put_back ls (map reverse_credits (map DetailedBase.truncate ls))"
  by (simp add: IDs_WithReversedCredits_def mapBase_eq WithReversedCredits_def)

section \<open>Properties\<close>

text \<open>
  Taking credits back undoes applying them: whenever credits were applied to the detailed lines of an
  invoice, reversing the credits of the result gives what reversing them on the original lines gives, so
  nothing but the credits and the totals they determine was touched.
\<close>

theorem WithCreditsApplied_reversed:
  assumes "IDs_WithCreditsApplied credits currency ls = Inr ls'"
  shows "IDs_WithReversedCredits ls' = IDs_WithReversedCredits ls \<and> length ls' = length ls"
proof -
  obtain C where C: "currency = Some C" using assms by (auto simp: IDs_WithCreditsApplied_def split: option.splits)
  let ?bs = "map reverse_credits (map DetailedBase.truncate ls)"
  obtain bases where b: "consume_credits C credits ?bs = Inr bases" "ls' = put_back ls bases"
    using assms by (auto simp: C IDs_WithCreditsApplied_def WithCreditsApplied_def WithReversedCredits_def mapBase_eq
        result_simps split: sum.splits if_splits)
  have len: "length bases = length ls" using consume_credits_length [OF b(1)] by simp
  have "map reverse_credits bases = ?bs" using consume_credits_reversed [OF b(1)] by simp
  then show ?thesis
    using put_back_parts [OF len] len by (simp add: IDs_WithReversedCredits_eq b(2)) (simp add: put_back_def)
qed

text \<open>A stored line of 10 dollars and a credit of 4.\<close>

definition sample_stored :: InvoiceDetailedLine where
  "sample_stored = \<lparr>mr_Namespace = ''ns'', mr_ID = ''l'', mr_CreatedAt = 0, mr_UpdatedAt = 0, mr_DeletedAt = None,
     mr_Description = None, mr_Name = ''fee'', db_Category = CategoryRegular, db_ChildUniqueReferenceID = ''x'',
     db_Index = Some 0, db_PaymentTerm = InArrearsPaymentTerm, db_ServicePeriod = \<lparr>cp_From = 0, cp_To = 1\<rparr>,
     db_PerUnitAmount = 10, db_Quantity = 1, db_Totals = TT_zero\<lparr>tt_Amount := 10, tt_Total := 10\<rparr>,
     db_ExternalIDs = \<lparr>xi_Invoicing = []\<rparr>, db_CreditsApplied = [], dlb_InvoiceID = ''i'', dlb_FeeLineConfigID = [],
     id_AmountDiscounts = []\<rparr>"

definition sample_credit :: CreditApplied where
  "sample_credit = \<lparr>ca_Amount = 4, ca_Description = ''grant'', ca_CreditRealizationID = ''r''\<rparr>"

lemma sample_applied:
  "\<exists>ls'. IDs_WithCreditsApplied [sample_credit] (Some cents) [sample_stored] = Inr ls' \<and>
    map (\<lambda>l. tt_Total (db_Totals l)) ls' = [6]"
proof -
  note r = currency_calculator.RoundToPrecision_fixed [OF cents_calculator]
  have "cur_RoundToPrecision cents 4 = 4" "cur_RoundToPrecision cents 6 = 6" "cur_RoundToPrecision cents 10 = 10"
    "cur_RoundToPrecision cents 0 = 0"
    by (simp_all add: r)
  then show ?thesis
    by (simp add: IDs_WithCreditsApplied_def WithCreditsApplied_def WithReversedCredits_def mapBase_eq sample_stored_def
        sample_credit_def DetailedBase.truncate_def reverse_credits_def CalculateTotal_def TT_zero_def put_back_def
        DetailedBase.extend_def)
qed

theorem WithCreditsApplied_reversed_witness:
  "\<exists>ls'. IDs_WithCreditsApplied [sample_credit] (Some cents) [sample_stored] = Inr ls' \<and>
    IDs_WithReversedCredits ls' = IDs_WithReversedCredits [sample_stored]"
  using sample_applied WithCreditsApplied_reversed by blast

text \<open>
  Credits applied to stored lines land where rating puts them: for the same lines, one stored with its
  total and one as rated, \<open>WithCreditsApplied\<close> and the credits mutator of the rating service both fail for
  want of amount, or both succeed and every line gets the same credits and the same rest to pay.
\<close>

theorem WithCreditsApplied_as_rated:
  assumes "currency_calculator C p" and "pi_CurrencyCalculator i = C"
    and "list_all2 (\<lambda>b x. li_CreditsApplied x = [] \<and> tt_Total (db_Totals (reverse_credits b)) = DL_TotalAmount C x) ls xs"
  shows "case (WithCreditsApplied (sl_CreditsApplied (pi_Line i)) (Some C) ls, Credits_Mutate i xs) of
      (Inr ls', Inr xs') \<Rightarrow> map db_CreditsApplied ls' = map li_CreditsApplied xs' \<and>
        map (\<lambda>b. tt_Total (db_Totals b)) ls' = map (DL_TotalAmount C) xs'
    | (Inl e, Inl e') \<Rightarrow> e = ErrCreditsNotConsumedFully \<and> e' = ErrInvoiceLineCreditsNotConsumedFully
    | _ \<Rightarrow> False"
proof -
  have r: "list_all2 (same_credits C) (map reverse_credits ls) xs"
    unfolding list_all2_map1 by (rule list_all2_mono [OF assms(3)]) (simp add: same_credits_def reverse_credits_def Let_def)
  have m: "list_all2 (same_credits C) bs ys \<Longrightarrow> map db_CreditsApplied bs = map li_CreditsApplied ys \<and>
      map (\<lambda>b. tt_Total (db_Totals b)) bs = map (DL_TotalAmount C) ys" for bs :: "('b) DetailedBase_scheme list" and ys
    by (induction bs ys rule: list_all2_induct) (simp_all add: same_credits_def)
  show ?thesis
    using currency_calculator.consume_all_as_applied [OF assms(1) r, of "sl_CreditsApplied (pi_Line i)"]
    by (auto simp: WithCreditsApplied_def WithReversedCredits_def Credits_Mutate_def assms(2) m split: sum.splits)
qed

lemma sample_stored_rated:
  "tt_Total (db_Totals (reverse_credits sample_stored)) = DL_TotalAmount cents (new_line ''a'' 1 10 ''x'' InArrearsPaymentTerm)"
  using currency_calculator.RoundToPrecision_fixed [OF cents_calculator, of 10]
  by (simp add: sample_stored_def reverse_credits_def CalculateTotal_def TT_zero_def new_line_def DL_TotalAmount_def
      TotalAmount_def AMs_SumAmount_eq CAs_SumAmount_eq)

theorem WithCreditsApplied_as_rated_witness:
  "case (WithCreditsApplied (sl_CreditsApplied (pi_Line (credited_input 4))) (Some cents) [sample_stored],
      Credits_Mutate (credited_input 4) [new_line ''a'' 1 10 ''x'' InArrearsPaymentTerm]) of
      (Inr ls', Inr xs') \<Rightarrow> map db_CreditsApplied ls' = map li_CreditsApplied xs' \<and>
        map (\<lambda>b. tt_Total (db_Totals b)) ls' = map (DL_TotalAmount cents) xs'
    | (Inl e, Inl e') \<Rightarrow> e = ErrCreditsNotConsumedFully \<and> e' = ErrInvoiceLineCreditsNotConsumedFully
    | _ \<Rightarrow> False"
  by (rule WithCreditsApplied_as_rated [OF cents_calculator])
    (simp add: credited_input_def, simp add: sample_stored_rated, simp add: new_line_def)

end
