(* ===== verification/TaxCode.thy ===== *)
theory TaxCode
  imports StdDetails
begin

text \<open>
  Tax codes (openmeter/taxcode/taxcode.go), the tax configuration of the product catalog
  (openmeter/productcatalog/tax.go) and of billing, which adds the resolved tax code
  (openmeter/billing/taxconfig.go). The tax code service, database I/O behind a transaction, is the record of
  lookups \<open>tax_service\<close>. Annotations and metadata are left out.
\<close>

section \<open>Tax codes\<close>

type_synonym AppType = string

definition AppTypeStripe :: AppType where "AppTypeStripe = ''stripe''"
definition AppTypeSandbox :: AppType where "AppTypeSandbox = ''sandbox''"
definition AppTypeCustomInvoicing :: AppType where "AppTypeCustomInvoicing = ''custom_invoicing''"

definition AppType_Validate :: "AppType \<Rightarrow> error option" where
  "AppType_Validate t =
     (if t \<in> {AppTypeStripe, AppTypeSandbox, AppTypeCustomInvoicing} then None
      else Some (GenericValidation (Err ''invalid app type'')))"

record TaxCodeAppMapping =
  ta_AppType :: AppType
  ta_TaxCode :: string

record TaxCode =
  tc_Namespace :: string
  tc_ID :: string
  tc_CreatedAt :: time
  tc_UpdatedAt :: time
  tc_DeletedAt :: "time option"
  tc_Key :: string
  tc_Name :: string
  tc_Description :: "string option"
  tc_AppMappings :: "TaxCodeAppMapping list"

text \<open>The pattern of Stripe codes: \<open>txcd_\<close> and eight digits.\<close>

definition is_digit :: "char \<Rightarrow> bool" where
  "is_digit c \<longleftrightarrow> CHR ''0'' \<le> c \<and> c \<le> CHR ''9''"

definition TaxCodeStripeRegexp :: "string \<Rightarrow> bool" where
  "TaxCodeStripeRegexp s \<longleftrightarrow> take 5 s = ''txcd_'' \<and> length s = 13 \<and> list_all is_digit (drop 5 s)"

definition ErrTaxCodeEmpty :: error where "ErrTaxCodeEmpty = Err ''tax code cannot be empty''"
definition ErrTaxCodeStripeInvalid :: error where
  "ErrTaxCodeStripeInvalid = Err ''stripe tax code must be in the format of txcd_12345678''"
definition ErrAppTypesMustBeUnique :: error where "ErrAppTypesMustBeUnique = Err ''app types must be unique''"

definition TA_Validate :: "TaxCodeAppMapping \<Rightarrow> error option" where
  "TA_Validate t = nillable_validation (join_errors
     (err_of (\<lambda>e. e) (AppType_Validate (ta_AppType t)) @
      (if ta_TaxCode t = [] then [ErrTaxCodeEmpty]
       else err_if (ta_AppType t = AppTypeStripe \<and> \<not> TaxCodeStripeRegexp (ta_TaxCode t)) ErrTaxCodeStripeInvalid)))"

definition TAs_Validate :: "TaxCodeAppMapping list \<Rightarrow> error option" where
  "TAs_Validate t = nillable_validation (join_errors
     (err_if (length (remdups (map ta_AppType t)) \<noteq> length t) ErrAppTypesMustBeUnique @
      concat (map (\<lambda>m. err_of (\<lambda>e. e) (TA_Validate m)) t)))"

text \<open>\<open>lo.SliceToMap\<close>: later entries win.\<close>

definition mappings_of :: "TaxCodeAppMapping list \<Rightarrow> AppType \<rightharpoonup> string" where
  "mappings_of ms = foldl (\<lambda>left m. left(ta_AppType m \<mapsto> ta_TaxCode m)) Map.empty ms"

definition TC_Equal :: "TaxCode option \<Rightarrow> TaxCode option \<Rightarrow> bool" where
  "TC_Equal tt vv =
     (case (tt, vv) of
        (None, None) \<Rightarrow> True
      | (Some t, Some v) \<Rightarrow>
          (if tc_ID t \<noteq> tc_ID v \<or> tc_Namespace t \<noteq> tc_Namespace v then False
           else if tc_Key t \<noteq> tc_Key v \<or> tc_Name t \<noteq> tc_Name v then False
           else if (tc_Description t = None) \<noteq> (tc_Description v = None) then False
           else if tc_Description t \<noteq> None \<and> the (tc_Description t) \<noteq> the (tc_Description v) then False
           else if length (tc_AppMappings t) \<noteq> length (tc_AppMappings v) then False
           else list_all (\<lambda>m. mappings_of (tc_AppMappings t) (ta_AppType m) = Some (ta_TaxCode m)) (tc_AppMappings v))
      | _ \<Rightarrow> False)"

definition GetAppMapping :: "TaxCode \<Rightarrow> AppType \<Rightarrow> TaxCodeAppMapping option" where
  "GetAppMapping t appType = find (\<lambda>m. ta_AppType m = appType) (tc_AppMappings t)"

section \<open>Tax configuration of the catalog\<close>

definition InclusiveTaxBehavior :: string where "InclusiveTaxBehavior = ''inclusive''"
definition ExclusiveTaxBehavior :: string where "ExclusiveTaxBehavior = ''exclusive''"

definition TaxBehavior_Validate :: "string \<Rightarrow> error option" where
  "TaxBehavior_Validate t =
     (if t \<notin> set [InclusiveTaxBehavior, ExclusiveTaxBehavior] then Some (Err ''invalid tax behavior'') else None)"

record StripeTaxConfig =
  st_Code :: string

record TaxConfig =
  tx_Behavior :: "string option"
  tx_Stripe :: "StripeTaxConfig option"
  tx_TaxCodeID :: "string option"

definition no_tax_config :: TaxConfig where
  "no_tax_config = \<lparr>tx_Behavior = None, tx_Stripe = None, tx_TaxCodeID = None\<rparr>"

definition ST_Equal :: "StripeTaxConfig option \<Rightarrow> StripeTaxConfig option \<Rightarrow> bool" where
  "ST_Equal s v \<longleftrightarrow> PtrEqual (\<lambda>a b. st_Code a = st_Code b) s v"

definition ST_Validate :: "StripeTaxConfig \<Rightarrow> error option" where
  "ST_Validate s =
     (if st_Code s \<noteq> [] \<and> \<not> TaxCodeStripeRegexp (st_Code s)
      then Some (GenericValidation (Err ''invalid product tax code'')) else None)"

definition TX_Equal :: "('a) TaxConfig_scheme option \<Rightarrow> ('b) TaxConfig_scheme option \<Rightarrow> bool" where
  "TX_Equal cc vv =
     (case (cc, vv) of
        (None, None) \<Rightarrow> True
      | (Some c, Some v) \<Rightarrow>
          (if (tx_Behavior c \<noteq> None \<and> tx_Behavior v = None) \<or> (tx_Behavior c = None \<and> tx_Behavior v \<noteq> None) then False
           else if tx_Behavior c \<noteq> None \<and> the (tx_Behavior c) \<noteq> the (tx_Behavior v) then False
           else if (tx_TaxCodeID c \<noteq> None \<and> tx_TaxCodeID v = None) \<or> (tx_TaxCodeID c = None \<and> tx_TaxCodeID v \<noteq> None) then False
           else if tx_TaxCodeID c \<noteq> None \<and> the (tx_TaxCodeID c) \<noteq> the (tx_TaxCodeID v) then False
           else ST_Equal (tx_Stripe c) (tx_Stripe v))
      | _ \<Rightarrow> False)"

definition TX_Validate :: "('a) TaxConfig_scheme option \<Rightarrow> error option" where
  "TX_Validate cc =
     (case cc of None \<Rightarrow> None
      | Some c \<Rightarrow> nillable_validation (join_errors
          (err_of (\<lambda>e. e) (Option.bind (tx_Behavior c) TaxBehavior_Validate) @
           err_of (Wrap ''invalid stripe config'') (Option.bind (tx_Stripe c) ST_Validate))))"

definition TX_Clone :: "TaxConfig \<Rightarrow> TaxConfig" where
  "TX_Clone c = \<lparr>tx_Behavior = map_option (\<lambda>b. b) (tx_Behavior c), tx_Stripe = map_option (\<lambda>s. s) (tx_Stripe c),
     tx_TaxCodeID = map_option (\<lambda>i. i) (tx_TaxCodeID c)\<rparr>"

text \<open>The identity of the tax code, which merges as a unit.\<close>

definition merged_identity :: "('a) TaxConfig_scheme \<Rightarrow> ('b) TaxConfig_scheme \<Rightarrow> StripeTaxConfig option \<times> string option" where
  "merged_identity base overrides =
     (if tx_Stripe overrides \<noteq> None \<or> tx_TaxCodeID overrides \<noteq> None
      then (tx_Stripe overrides, tx_TaxCodeID overrides) else (tx_Stripe base, tx_TaxCodeID base))"

text \<open>\<open>lo.CoalesceOrEmpty\<close> of two pointers: the first that is not nil.\<close>

definition coalesce :: "'a option \<Rightarrow> 'a option \<Rightarrow> 'a option" where
  "coalesce a b = (if a \<noteq> None then a else b)"

definition TX_MergeTaxConfigs :: "TaxConfig option \<Rightarrow> TaxConfig option \<Rightarrow> TaxConfig option" where
  "TX_MergeTaxConfigs base overrides =
     (case (base, overrides) of
        (Some b, Some v) \<Rightarrow> (case merged_identity b v of (stripe, taxCodeID) \<Rightarrow>
          Some \<lparr>tx_Behavior = coalesce (tx_Behavior v) (tx_Behavior b), tx_Stripe = stripe, tx_TaxCodeID = taxCodeID\<rparr>)
      | (None, Some v) \<Rightarrow> Some (TX_Clone v)
      | (Some b, None) \<Rightarrow> Some (TX_Clone b)
      | (None, None) \<Rightarrow> None)"

record TaxCodeConfig =
  tk_Behavior :: "string option"
  tk_TaxCodeID :: string

definition TK_Validate :: "TaxCodeConfig \<Rightarrow> error option" where
  "TK_Validate c = nillable_validation (join_errors
     (err_of (\<lambda>e. e) (Option.bind (tk_Behavior c) TaxBehavior_Validate) @
      err_if (tk_TaxCodeID c = []) (Err ''tax code id is required'')))"

definition ToTaxConfig :: "TaxCodeConfig \<Rightarrow> TaxConfig" where
  "ToTaxConfig c =
     \<lparr>tx_Behavior = tk_Behavior c, tx_Stripe = None,
      tx_TaxCodeID = (if tk_TaxCodeID c \<noteq> [] then Some (tk_TaxCodeID c) else None)\<rparr>"

definition TaxCodeConfigFrom :: "TaxConfig option \<Rightarrow> TaxCodeConfig" where
  "TaxCodeConfigFrom cfg =
     (case cfg of None \<Rightarrow> \<lparr>tk_Behavior = None, tk_TaxCodeID = []\<rparr>
      | Some c \<Rightarrow> \<lparr>tk_Behavior = tx_Behavior c,
          tk_TaxCodeID = (case tx_TaxCodeID c of None \<Rightarrow> [] | Some i \<Rightarrow> i)\<rparr>)"

record tax_service =
  ts_GetTaxCode :: "string \<Rightarrow> string \<Rightarrow> TaxCode result"
  ts_GetTaxCodeByAppMapping :: "string \<Rightarrow> AppType \<Rightarrow> string \<Rightarrow> TaxCode result"
  ts_GetOrCreateByAppMapping :: "string \<Rightarrow> AppType \<Rightarrow> string \<Rightarrow> TaxCode result"
  ts_IsTaxCodeNotFoundError :: "error \<Rightarrow> bool"

definition ResolveTaxConfig :: "tax_service option \<Rightarrow> string \<Rightarrow> TaxConfig option \<Rightarrow> TaxConfig option result" where
  "ResolveTaxConfig svc ns cfg =
     (case cfg of None \<Rightarrow> Inr None
      | Some c \<Rightarrow>
          (case svc of None \<Rightarrow> Inl (Err ''taxcode service is required'')
           | Some s \<Rightarrow>
               (case tx_TaxCodeID c of
                  Some i \<Rightarrow>
                    (case ts_GetTaxCode s ns i of
                       Inl e \<Rightarrow> (if ts_IsTaxCodeNotFoundError s e then Inl (GenericValidation (Err ''tax code not found''))
                                else Inl (Wrap ''resolving tax code'' e))
                     | Inr tc \<Rightarrow>
                         (case GetAppMapping tc AppTypeStripe of
                            Some m \<Rightarrow> Inr (Some (c\<lparr>tx_Stripe := Some \<lparr>st_Code = ta_TaxCode m\<rparr>\<rparr>))
                          | None \<Rightarrow> Inr (Some (c\<lparr>tx_Stripe := None\<rparr>))))
                | None \<Rightarrow>
                    (case tx_Stripe c of
                       Some st \<Rightarrow>
                         (if st_Code st \<noteq> []
                          then (case ts_GetOrCreateByAppMapping s ns AppTypeStripe (st_Code st) of
                                  Inl e \<Rightarrow> Inl (Wrap ''resolving tax code for stripe code'' e)
                                | Inr tc \<Rightarrow> Inr (Some (c\<lparr>tx_TaxCodeID := Some (tc_ID tc)\<rparr>)))
                          else Inr (Some c))
                     | None \<Rightarrow> Inr (Some c)))))"

definition BackfillTaxConfig :: "TaxConfig option \<Rightarrow> string option \<Rightarrow> TaxCode option \<Rightarrow> TaxConfig option" where
  "BackfillTaxConfig cfg taxBehavior tc =
     (let stripeCode = (case Option.bind tc (\<lambda>t. GetAppMapping t AppTypeStripe) of Some m \<Rightarrow> ta_TaxCode m | None \<Rightarrow> [])
      in if taxBehavior = None \<and> stripeCode = [] then cfg
         else let c = (case cfg of None \<Rightarrow> no_tax_config | Some c \<Rightarrow> c);
                  c = (if tx_Behavior c = None \<and> taxBehavior \<noteq> None then c\<lparr>tx_Behavior := taxBehavior\<rparr> else c);
                  c = (if tx_Stripe c = None \<and> stripeCode \<noteq> [] then c\<lparr>tx_Stripe := Some \<lparr>st_Code = stripeCode\<rparr>\<rparr> else c);
                  c = (case tc of
                         None \<Rightarrow> c
                       | Some t \<Rightarrow> if tx_TaxCodeID c = None \<and> tc_ID t \<noteq> [] then c\<lparr>tx_TaxCodeID := Some (tc_ID t)\<rparr> else c)
              in Some c)"

section \<open>Tax configuration of billing\<close>

record BillingTaxConfig = TaxConfig +
  bt_TaxCode :: "TaxCode option"

definition FromProductCatalog :: "TaxConfig option \<Rightarrow> BillingTaxConfig option" where
  "FromProductCatalog cc = map_option (\<lambda>c. TaxConfig.extend (TX_Clone c) \<lparr>bt_TaxCode = None\<rparr>) cc"

definition ToProductCatalog :: "BillingTaxConfig option \<Rightarrow> TaxConfig option" where
  "ToProductCatalog cc = map_option (\<lambda>c. TX_Clone (TaxConfig.truncate c)) cc"

definition BT_Equal :: "BillingTaxConfig option \<Rightarrow> BillingTaxConfig option \<Rightarrow> bool" where
  "BT_Equal cc vv =
     (case (cc, vv) of
        (None, None) \<Rightarrow> True
      | (Some c, Some v) \<Rightarrow>
          (if (bt_TaxCode c \<noteq> None \<and> bt_TaxCode v = None) \<or> (bt_TaxCode c = None \<and> bt_TaxCode v \<noteq> None) then False
           else if bt_TaxCode c \<noteq> None \<and> tc_ID (the (bt_TaxCode c)) \<noteq> tc_ID (the (bt_TaxCode v)) then False
           else TX_Equal (Some c) (Some v))
      | _ \<Rightarrow> False)"

definition BT_Validate :: "BillingTaxConfig option \<Rightarrow> error option" where
  "BT_Validate c = TX_Validate c"

definition BT_Clone :: "BillingTaxConfig \<Rightarrow> BillingTaxConfig" where
  "BT_Clone c = TaxConfig.extend (TX_Clone (TaxConfig.truncate c)) \<lparr>bt_TaxCode = map_option (\<lambda>t. t) (bt_TaxCode c)\<rparr>"

definition MergeTaxConfigs :: "BillingTaxConfig option \<Rightarrow> BillingTaxConfig option \<Rightarrow> BillingTaxConfig option" where
  "MergeTaxConfigs base overrides =
     (case (base, overrides) of
        (Some b, Some v) \<Rightarrow> (case merged_identity b v of (stripe, taxCodeID) \<Rightarrow>
          Some \<lparr>tx_Behavior = coalesce (tx_Behavior v) (tx_Behavior b), tx_Stripe = stripe, tx_TaxCodeID = taxCodeID,
             bt_TaxCode = None\<rparr>)
      | (None, Some v) \<Rightarrow> Some (BT_Clone v)
      | (Some b, None) \<Rightarrow> Some (BT_Clone b)
      | (None, None) \<Rightarrow> None)"

section \<open>Properties\<close>

lemma TX_Clone_id [simp]: "TX_Clone c = c" by (simp add: TX_Clone_def option.map_ident)

lemma BT_Clone_id [simp]: "BT_Clone c = c"
  by (simp add: BT_Clone_def option.map_ident TaxConfig.extend_def TaxConfig.truncate_def)

lemma merged_parts [simp]: "merged_identity (TaxConfig.truncate b) (TaxConfig.truncate v) = merged_identity b v"
  by (simp add: merged_identity_def TaxConfig.truncate_def)

text \<open>
  C37. The merge of the billing layer implements the merge of the catalog: stripping the resolved tax codes
  before or after merging is the same. The identity of the tax code (Stripe code and ID) is taken as a
  whole from one side, from the overrides as soon as they name either; merging the default again into
  a merged configuration changes nothing, as it happens at every recalculation of an invoice.
\<close>

theorem MergeTaxConfigs_refines:
  "ToProductCatalog (MergeTaxConfigs base overrides) =
     TX_MergeTaxConfigs (ToProductCatalog base) (ToProductCatalog overrides) \<and>
   MergeTaxConfigs (FromProductCatalog d) (MergeTaxConfigs (FromProductCatalog d) overrides) =
     MergeTaxConfigs (FromProductCatalog d) overrides \<and>
   (case (base, overrides, MergeTaxConfigs base overrides) of
      (Some b, Some v, Some r) \<Rightarrow> (tx_Stripe r, tx_TaxCodeID r) =
        (if (tx_Stripe v, tx_TaxCodeID v) = (None, None) then (tx_Stripe b, tx_TaxCodeID b) else (tx_Stripe v, tx_TaxCodeID v))
    | (b, v, r) \<Rightarrow> r = (if v = None then b else v))"
  by (cases base; cases overrides; cases d)
    (auto simp: MergeTaxConfigs_def TX_MergeTaxConfigs_def ToProductCatalog_def FromProductCatalog_def merged_identity_def
      coalesce_def TaxConfig.truncate_def TaxConfig.extend_def split: prod.splits)

text \<open>
  A resolved tax configuration is stable: when the tax code service finds by its ID the code that it
  returned for a Stripe code, with that mapping, resolving a resolved configuration again succeeds and
  changes nothing; an ID given by the caller is kept, and so is the behavior.
\<close>

theorem ResolveTaxConfig_stable:
  assumes "\<forall>code tc. ts_GetOrCreateByAppMapping s ns AppTypeStripe code = Inr tc \<longrightarrow>
      ts_GetTaxCode s ns (tc_ID tc) = Inr tc \<and>
      GetAppMapping tc AppTypeStripe = Some \<lparr>ta_AppType = AppTypeStripe, ta_TaxCode = code\<rparr>"
    and "ResolveTaxConfig (Some s) ns (Some c) = Inr r"
  shows "\<exists>d. r = Some d \<and> ResolveTaxConfig (Some s) ns r = Inr r \<and> tx_Behavior d = tx_Behavior c \<and>
    (tx_TaxCodeID c \<noteq> None \<longrightarrow> tx_TaxCodeID d = tx_TaxCodeID c)"
proof (cases "tx_TaxCodeID c")
  case (Some i)
  then show ?thesis using assms(2) by (auto simp: ResolveTaxConfig_def split: sum.splits option.splits if_splits)
next
  case None
  show ?thesis
  proof (cases "tx_Stripe c = None \<or> (\<exists>st. tx_Stripe c = Some st \<and> st_Code st = [])")
    case True
    then show ?thesis using assms(2) None by (auto simp: ResolveTaxConfig_def)
  next
    case False
    then obtain st where st: "tx_Stripe c = Some st" "st_Code st \<noteq> []" by auto
    then obtain tc where "ts_GetOrCreateByAppMapping s ns AppTypeStripe (st_Code st) = Inr tc"
        "r = Some (c\<lparr>tx_TaxCodeID := Some (tc_ID tc)\<rparr>)"
      using assms(2) None by (auto simp: ResolveTaxConfig_def split: sum.splits)
    then show ?thesis using assms(1) st None by (cases st) (simp add: ResolveTaxConfig_def)
  qed
qed

text \<open>A service that knows one tax code.\<close>

definition sample_tax_code :: TaxCode where
  "sample_tax_code = \<lparr>tc_Namespace = ''ns'', tc_ID = ''t1'', tc_CreatedAt = 0, tc_UpdatedAt = 0, tc_DeletedAt = None,
     tc_Key = ''saas'', tc_Name = ''SaaS'', tc_Description = None,
     tc_AppMappings = [\<lparr>ta_AppType = AppTypeStripe, ta_TaxCode = ''txcd_10000000''\<rparr>]\<rparr>"

definition sample_tax_service :: tax_service where
  "sample_tax_service = \<lparr>
     ts_GetTaxCode = (\<lambda>ns i. if i = ''t1'' then Inr sample_tax_code else Inl (Err ''tax code not found'')),
     ts_GetTaxCodeByAppMapping = (\<lambda>ns a code. if code = ''txcd_10000000'' then Inr sample_tax_code else Inl (Err ''tax code not found'')),
     ts_GetOrCreateByAppMapping = (\<lambda>ns a code. if code = ''txcd_10000000'' then Inr sample_tax_code else Inl (Err ''conflict'')),
     ts_IsTaxCodeNotFoundError = (\<lambda>e. e = Err ''tax code not found'')\<rparr>"

theorem ResolveTaxConfig_stable_witness:
  "ResolveTaxConfig (Some sample_tax_service) ''ns'' (Some (no_tax_config\<lparr>tx_Stripe := Some \<lparr>st_Code = ''txcd_10000000''\<rparr>\<rparr>)) =
     Inr (Some (no_tax_config\<lparr>tx_Stripe := Some \<lparr>st_Code = ''txcd_10000000''\<rparr>, tx_TaxCodeID := Some ''t1''\<rparr>)) \<and>
   ResolveTaxConfig (Some sample_tax_service) ''ns''
      (Some (no_tax_config\<lparr>tx_Stripe := Some \<lparr>st_Code = ''txcd_10000000''\<rparr>, tx_TaxCodeID := Some ''t1''\<rparr>)) =
     Inr (Some (no_tax_config\<lparr>tx_Stripe := Some \<lparr>st_Code = ''txcd_10000000''\<rparr>, tx_TaxCodeID := Some ''t1''\<rparr>))"
proof -
  let ?c = "no_tax_config\<lparr>tx_Stripe := Some \<lparr>st_Code = ''txcd_10000000''\<rparr>\<rparr>"
  have law: "\<forall>code tc. ts_GetOrCreateByAppMapping sample_tax_service ''ns'' AppTypeStripe code = Inr tc \<longrightarrow>
      ts_GetTaxCode sample_tax_service ''ns'' (tc_ID tc) = Inr tc \<and>
      GetAppMapping tc AppTypeStripe = Some \<lparr>ta_AppType = AppTypeStripe, ta_TaxCode = code\<rparr>"
    by (simp add: sample_tax_service_def sample_tax_code_def GetAppMapping_def)
  have r: "ResolveTaxConfig (Some sample_tax_service) ''ns'' (Some ?c) = Inr (Some (?c\<lparr>tx_TaxCodeID := Some ''t1''\<rparr>))"
    by (simp add: ResolveTaxConfig_def no_tax_config_def sample_tax_service_def sample_tax_code_def)
  show ?thesis using ResolveTaxConfig_stable [OF law r] r by simp
qed

end
