(* ===== verification/InvoiceStatus.thy ===== *)
theory InvoiceStatus
  imports Issues "HOL-Library.List_Lexorder" "HOL-Library.Char_ord"
begin

text \<open>
  The statuses of a standard invoice (openmeter/billing/stdinvoice.go), the triggers of its state machine
  and the operations that apps report on (openmeter/billing/stdinvoicestate.go), and who asked for a change
  (\<open>ChangeSource\<close> of openmeter/billing/lineengine.go). A status is a constructor per constant of the source;
  any other string is \<open>OtherStatus\<close>.
\<close>

section \<open>Statuses\<close>

datatype StandardInvoiceStatus =
  Gathering | DraftCreated | DraftWaitingForCollection | DraftCollecting | DraftUpdating
  | DraftManualApprovalNeeded | DraftValidating | DraftInvalidCreated | DraftInvalid | DraftSyncing
  | DraftSyncFailed | DraftWaitingAutoApproval | DraftReadyToIssue | DeleteInProgress | DeleteSyncing
  | DeleteFailed | Deleted | IssuingLineFinalization | IssuingLineFinalizationFailed | IssuingSyncing
  | IssuingSyncFailed | IssuingChargeBooking | IssuingChargeBookingFailed | Issued | PaymentProcessingPending
  | PaymentProcessingBookingAuthorized | PaymentProcessingBookingAuthorizedFailed
  | PaymentProcessingBookingAuthorizedAndSettled | PaymentProcessingBookingAuthorizedAndSettledFailed
  | PaymentProcessingAuthorized | PaymentProcessingFailed | PaymentProcessingActionRequired
  | PaymentProcessingBookingSettled | PaymentProcessingBookingSettledFailed | Overdue | Paid | Uncollectible
  | Voided | OtherStatus string

fun status_string :: "StandardInvoiceStatus \<Rightarrow> string" where
  "status_string Gathering = ''gathering''"
| "status_string DraftCreated = ''draft.created''"
| "status_string DraftWaitingForCollection = ''draft.waiting_for_collection''"
| "status_string DraftCollecting = ''draft.collecting''"
| "status_string DraftUpdating = ''draft.updating''"
| "status_string DraftManualApprovalNeeded = ''draft.manual_approval_needed''"
| "status_string DraftValidating = ''draft.validating''"
| "status_string DraftInvalidCreated = ''draft.invalid_created''"
| "status_string DraftInvalid = ''draft.invalid''"
| "status_string DraftSyncing = ''draft.syncing''"
| "status_string DraftSyncFailed = ''draft.sync_failed''"
| "status_string DraftWaitingAutoApproval = ''draft.waiting_auto_approval''"
| "status_string DraftReadyToIssue = ''draft.ready_to_issue''"
| "status_string DeleteInProgress = ''delete.in_progress''"
| "status_string DeleteSyncing = ''delete.syncing''"
| "status_string DeleteFailed = ''delete.failed''"
| "status_string Deleted = ''deleted''"
| "status_string IssuingLineFinalization = ''issuing.line_finalization''"
| "status_string IssuingLineFinalizationFailed = ''issuing.line_finalization_failed''"
| "status_string IssuingSyncing = ''issuing.syncing''"
| "status_string IssuingSyncFailed = ''issuing.failed''"
| "status_string IssuingChargeBooking = ''issuing.charge_booking''"
| "status_string IssuingChargeBookingFailed = ''issuing.charge_booking_failed''"
| "status_string Issued = ''issued''"
| "status_string PaymentProcessingPending = ''payment_processing.pending''"
| "status_string PaymentProcessingBookingAuthorized = ''payment_processing.booking_authorized''"
| "status_string PaymentProcessingBookingAuthorizedFailed = ''payment_processing.booking_authorized_failed''"
| "status_string PaymentProcessingBookingAuthorizedAndSettled = ''payment_processing.booking_authorized_and_settled''"
| "status_string PaymentProcessingBookingAuthorizedAndSettledFailed = ''payment_processing.booking_authorized_and_settled_failed''"
| "status_string PaymentProcessingAuthorized = ''payment_processing.authorized''"
| "status_string PaymentProcessingFailed = ''payment_processing.failed''"
| "status_string PaymentProcessingActionRequired = ''payment_processing.action_required''"
| "status_string PaymentProcessingBookingSettled = ''payment_processing.booking_settled''"
| "status_string PaymentProcessingBookingSettledFailed = ''payment_processing.booking_settled_failed''"
| "status_string Overdue = ''overdue''"
| "status_string Paid = ''paid''"
| "status_string Uncollectible = ''uncollectible''"
| "status_string Voided = ''voided''"
| "status_string (OtherStatus s) = s"

definition validStatuses :: "StandardInvoiceStatus list" where
  "validStatuses = [
     Gathering, DraftCreated, DraftWaitingForCollection, DraftCollecting, DraftUpdating
     , DraftManualApprovalNeeded, DraftValidating, DraftInvalidCreated, DraftInvalid, DraftSyncing
     , DraftSyncFailed, DraftWaitingAutoApproval, DraftReadyToIssue, DeleteInProgress, DeleteSyncing
     , DeleteFailed, Deleted, IssuingLineFinalization, IssuingLineFinalizationFailed, IssuingSyncing
     , IssuingSyncFailed, IssuingChargeBooking, IssuingChargeBookingFailed, Issued, PaymentProcessingPending
     , PaymentProcessingBookingAuthorized, PaymentProcessingBookingAuthorizedFailed
     , PaymentProcessingBookingAuthorizedAndSettled, PaymentProcessingBookingAuthorizedAndSettledFailed
     , PaymentProcessingAuthorized, PaymentProcessingFailed, PaymentProcessingActionRequired
     , PaymentProcessingBookingSettled, PaymentProcessingBookingSettledFailed, Overdue, Paid, Uncollectible
     , Voided]"

definition ShortStatus :: "StandardInvoiceStatus \<Rightarrow> string" where
  "ShortStatus s = takeWhile (\<lambda>c. c \<noteq> CHR ''.'') (status_string s)"

definition Status_Values :: "string list" where
  "Status_Values = map status_string validStatuses"

datatype StandardInvoiceStatusCategory =
  CategoryGathering | CategoryDraft | CategoryDelete | CategoryDeleted | CategoryIssuing | CategoryIssued
  | CategoryPaymentProcessing | CategoryOverdue | CategoryPaid | CategoryUncollectible | CategoryVoided
  | OtherStatusCategory string

fun category_string :: "StandardInvoiceStatusCategory \<Rightarrow> string" where
  "category_string CategoryGathering = ''gathering''"
| "category_string CategoryDraft = ''draft''"
| "category_string CategoryDelete = ''delete''"
| "category_string CategoryDeleted = ''deleted''"
| "category_string CategoryIssuing = ''issuing''"
| "category_string CategoryIssued = ''issued''"
| "category_string CategoryPaymentProcessing = ''payment_processing''"
| "category_string CategoryOverdue = ''overdue''"
| "category_string CategoryPaid = ''paid''"
| "category_string CategoryUncollectible = ''uncollectible''"
| "category_string CategoryVoided = ''voided''"
| "category_string (OtherStatusCategory s) = s"

definition Category_MatchesInvoiceStatus :: "StandardInvoiceStatusCategory \<Rightarrow> StandardInvoiceStatus \<Rightarrow> bool" where
  "Category_MatchesInvoiceStatus s status \<longleftrightarrow> ShortStatus status = category_string s"

definition Status_MatchesInvoiceStatus :: "StandardInvoiceStatus \<Rightarrow> StandardInvoiceStatus \<Rightarrow> bool" where
  "Status_MatchesInvoiceStatus s status \<longleftrightarrow> s = status"

text \<open>A matcher is the predicate of the interface \<open>StandardInvoiceStatusMatcher\<close>.\<close>

definition Status_Matches :: "StandardInvoiceStatus \<Rightarrow> (StandardInvoiceStatus \<Rightarrow> bool) list \<Rightarrow> bool" where
  "Status_Matches s statuses \<longleftrightarrow> list_ex (\<lambda>matcher. matcher s) statuses"

definition failedStatuses :: "StandardInvoiceStatus list" where
  "failedStatuses = [
     DraftSyncFailed, IssuingLineFinalizationFailed, IssuingSyncFailed, IssuingChargeBookingFailed
     , DeleteFailed, PaymentProcessingBookingAuthorizedFailed
     , PaymentProcessingBookingAuthorizedAndSettledFailed, PaymentProcessingFailed
     , PaymentProcessingBookingSettledFailed]"

definition IsFailed :: "StandardInvoiceStatus \<Rightarrow> bool" where
  "IsFailed s \<longleftrightarrow> s \<in> set failedStatuses"

definition finalStatuses :: "StandardInvoiceStatus list" where
  "finalStatuses = [
     Deleted, Paid, Uncollectible, Voided]"

definition IsFinal :: "StandardInvoiceStatus \<Rightarrow> bool" where
  "IsFinal s \<longleftrightarrow> s \<in> set finalStatuses"

definition Status_Validate :: "StandardInvoiceStatus \<Rightarrow> error option" where
  "Status_Validate s = (if s \<notin> set validStatuses then Some (Err ''invalid invoice status'') else None)"

text \<open>\<open>lo.Uniq\<close> keeps the first of equal elements, \<open>lo.Without\<close> drops the elements listed.\<close>

fun uniq :: "'a list \<Rightarrow> 'a list" where
  "uniq [] = []"
| "uniq (x # xs) = x # uniq (filter (\<lambda>y. y \<noteq> x) xs)"

definition ShortStatus_Values :: "string list" where
  "ShortStatus_Values =
     (let unsupportedStatuses = [Gathering, DeleteInProgress, DeleteSyncing, DeleteFailed, Deleted]
      in uniq (map ShortStatus (filter (\<lambda>s. s \<notin> set unsupportedStatuses) validStatuses)))"

definition ShortStatus_Validate :: "string \<Rightarrow> error option" where
  "ShortStatus_Validate s = (if s \<notin> set ShortStatus_Values then Some (Err ''invalid invoice short status'') else None)"

section \<open>Triggers and operations\<close>

datatype InvoiceTrigger =
  TriggerRetry | TriggerApprove | TriggerNext | TriggerFailed | TriggerUpdated | TriggerForceCollect
  | TriggerDelete | TriggerPaid | TriggerAuthorized | TriggerActionRequired | TriggerPaymentUncollectible
  | TriggerPaymentOverdue | TriggerVoid | OtherTrigger string

fun trigger_string :: "InvoiceTrigger \<Rightarrow> string" where
  "trigger_string TriggerRetry = ''trigger_retry''"
| "trigger_string TriggerApprove = ''trigger_approve''"
| "trigger_string TriggerNext = ''trigger_next''"
| "trigger_string TriggerFailed = ''trigger_failed''"
| "trigger_string TriggerUpdated = ''trigger_updated''"
| "trigger_string TriggerForceCollect = ''trigger_force_collect''"
| "trigger_string TriggerDelete = ''trigger_delete''"
| "trigger_string TriggerPaid = ''trigger_paid''"
| "trigger_string TriggerAuthorized = ''trigger_authorized''"
| "trigger_string TriggerActionRequired = ''trigger_action_required''"
| "trigger_string TriggerPaymentUncollectible = ''trigger_payment_uncollectible''"
| "trigger_string TriggerPaymentOverdue = ''trigger_payment_overdue''"
| "trigger_string TriggerVoid = ''trigger_void''"
| "trigger_string (OtherTrigger s) = s"

datatype StandardInvoiceOperation =
  StandardInvoiceOpValidate | StandardInvoiceOpSync | StandardInvoiceOpDelete | StandardInvoiceOpFinalize
  | StandardInvoiceOpInitiatePayment | StandardInvoiceOpPostAdvanceHook | StandardInvoiceOpTriggerInvoice
  | OtherOperation string

fun operation_string :: "StandardInvoiceOperation \<Rightarrow> string" where
  "operation_string StandardInvoiceOpValidate = ''validate''"
| "operation_string StandardInvoiceOpSync = ''sync''"
| "operation_string StandardInvoiceOpDelete = ''delete''"
| "operation_string StandardInvoiceOpFinalize = ''finalize''"
| "operation_string StandardInvoiceOpInitiatePayment = ''initiate_payment''"
| "operation_string StandardInvoiceOpPostAdvanceHook = ''post_advance_hook''"
| "operation_string StandardInvoiceOpTriggerInvoice = ''trigger_invoice''"
| "operation_string (OtherOperation s) = s"

definition StandardInvoiceOperations :: "StandardInvoiceOperation list" where
  "StandardInvoiceOperations = [
     StandardInvoiceOpValidate, StandardInvoiceOpSync, StandardInvoiceOpDelete, StandardInvoiceOpFinalize
     , StandardInvoiceOpInitiatePayment, StandardInvoiceOpPostAdvanceHook, StandardInvoiceOpTriggerInvoice]"

definition InvoiceOperation_Validate :: "StandardInvoiceOperation \<Rightarrow> error option" where
  "InvoiceOperation_Validate o' =
     (if o' \<notin> set StandardInvoiceOperations then Some (Err ''invalid standard invoice operation'') else None)"

section \<open>Sources of changes and line engines\<close>

datatype ChangeSource = ChangeSourceSystem | ChangeSourceAPIRequest | NoChangeSource | OtherChangeSource string

definition ChangeSource_Validate :: "ChangeSource \<Rightarrow> error option" where
  "ChangeSource_Validate i =
     (if i \<notin> set [ChangeSourceSystem, ChangeSourceAPIRequest] then Some (Err ''invalid change source'') else None)"

definition ChangeSource_Require :: "ChangeSource \<Rightarrow> ChangeSource \<Rightarrow> error option" where
  "ChangeSource_Require i v =
     (case ChangeSource_Validate i of Some e \<Rightarrow> Some e
      | None \<Rightarrow> if i \<noteq> v then Some (Err ''must be another source'') else None)"

datatype LineEngineType = LineEngineTypeInvoice | LineEngineTypeChargeFlatFee | LineEngineTypeChargeUsageBased
  | LineEngineTypeChargeCreditPurchase | NoLineEngineType | OtherLineEngineType string

fun engine_string :: "LineEngineType \<Rightarrow> string" where
  "engine_string LineEngineTypeInvoice = ''invoicing''"
| "engine_string LineEngineTypeChargeFlatFee = ''charge_flatfee''"
| "engine_string LineEngineTypeChargeUsageBased = ''charge_usagebased''"
| "engine_string LineEngineTypeChargeCreditPurchase = ''charge_creditpurchase''"
| "engine_string NoLineEngineType = []"
| "engine_string (OtherLineEngineType s) = s"

definition Engine_Validate :: "LineEngineType \<Rightarrow> error option" where
  "Engine_Validate b =
     (if b \<notin> set [LineEngineTypeInvoice, LineEngineTypeChargeFlatFee, LineEngineTypeChargeUsageBased,
        LineEngineTypeChargeCreditPurchase] then Some (Err ''invalid line engine type'') else None)"

definition IsCharge :: "LineEngineType \<Rightarrow> bool" where
  "IsCharge b = (case b of LineEngineTypeChargeFlatFee \<Rightarrow> True | LineEngineTypeChargeUsageBased \<Rightarrow> True
     | LineEngineTypeChargeCreditPurchase \<Rightarrow> True | _ \<Rightarrow> False)"

end
