(* ===== verification/StdLine.thy ===== *)
theory StdLine
  imports TaxCode InvoiceStatus
begin

text \<open>
  The lines of a standard invoice (openmeter/billing/stdinvoiceline.go) and the hierarchy of a line that is
  billed in several invoices (openmeter/billing/invoicelinesplitgroup.go). Lines are values: the clones of
  the source are identities, and the snapshot a line was loaded with (\<open>DBState\<close>) is the address of an
  immutable object. Metadata and annotations are left out.
\<close>

section \<open>References and hierarchies\<close>

record SubscriptionReference =
  sr_SubscriptionID :: string
  sr_PhaseID :: string
  sr_ItemID :: string
  sr_BillingPeriod :: ClosedPeriod

definition SR_Validate :: "SubscriptionReference \<Rightarrow> error option" where
  "SR_Validate i = join_errors
     (err_if (sr_SubscriptionID i = []) (Err ''subscriptionID is required'') @
      err_if (sr_PhaseID i = []) (Err ''phaseID is required'') @
      err_if (sr_ItemID i = []) (Err ''itemID is required'') @
      err_of (Wrap ''billingPeriod'') (CP_Validate (sr_BillingPeriod i)))"

definition SR_Clone :: "SubscriptionReference \<Rightarrow> SubscriptionReference" where
  "SR_Clone i = \<lparr>sr_SubscriptionID = sr_SubscriptionID i, sr_PhaseID = sr_PhaseID i, sr_ItemID = sr_ItemID i,
     sr_BillingPeriod = sr_BillingPeriod i\<rparr>"

text \<open>
  A child of a split line with the header of its invoice: what the hierarchy reads of both, \<open>hc_Clone\<close> the
  outcome of cloning the line, \<open>hc_AsStandardLine\<close> the totals of the child read as a standard line.
\<close>

datatype invoice_header = GatheringHeader "time option" | StandardHeader "time option" StandardInvoiceStatus

fun header_DeletedAt :: "invoice_header \<Rightarrow> time option" where
  "header_DeletedAt (GatheringHeader d) = d"
| "header_DeletedAt (StandardHeader d _) = d"

record LineWithInvoiceHeader =
  hc_ServicePeriod :: ClosedPeriod
  hc_DeletedAt :: "time option"
  hc_Invoice :: invoice_header
  hc_Clone :: "unit result"
  hc_AsStandardLine :: "Totals result"

record SplitLineHierarchy =
  sh_GroupServicePeriod :: ClosedPeriod
  sh_Lines :: "LineWithInvoiceHeader list"

definition SH_Clone :: "SplitLineHierarchy \<Rightarrow> SplitLineHierarchy result" where
  "SH_Clone h = bind_result (MapWithErr (\<lambda>l. bind_result (hc_Clone l) (\<lambda>_. Inr l)) (sh_Lines h))
     (\<lambda>lines. Inr (h\<lparr>sh_Lines := lines\<rparr>))"

text \<open>The loop of \<open>ForEachChild\<close>: the callback updates the state of its closure.\<close>

fun for_each_child :: "time \<Rightarrow> (LineWithInvoiceHeader \<Rightarrow> 's \<Rightarrow> 's result) \<Rightarrow> LineWithInvoiceHeader list \<Rightarrow> 's \<Rightarrow> 's result" where
  "for_each_child periodEndLTE callback [] s = Inr s"
| "for_each_child periodEndLTE callback (child # children) s =
     (if \<not> IsZeroTime periodEndLTE \<and> cp_To (hc_ServicePeriod child) > periodEndLTE
      then for_each_child periodEndLTE callback children s
      else if hc_DeletedAt child \<noteq> None then for_each_child periodEndLTE callback children s
      else if header_DeletedAt (hc_Invoice child) \<noteq> None then for_each_child periodEndLTE callback children s
      else if (case hc_Invoice child of StandardHeader _ status \<Rightarrow> status = Deleted | _ \<Rightarrow> False)
      then for_each_child periodEndLTE callback children s
      else bind_result (callback child s) (\<lambda>s'. for_each_child periodEndLTE callback children s'))"

definition ForEachChild :: "SplitLineHierarchy \<Rightarrow> time \<Rightarrow> (LineWithInvoiceHeader \<Rightarrow> 's \<Rightarrow> 's result) \<Rightarrow> 's \<Rightarrow> 's result" where
  "ForEachChild h periodEndLTE callback s = for_each_child periodEndLTE callback (sh_Lines h) s"

definition SumNetAmount :: "SplitLineHierarchy \<Rightarrow> time \<Rightarrow> bool \<Rightarrow> decimal result" where
  "SumNetAmount h periodEndLTE includeCharges =
     ForEachChild h periodEndLTE (\<lambda>child netAmount.
       (case hc_Invoice child of
          GatheringHeader _ \<Rightarrow> Inr netAmount
        | StandardHeader _ _ \<Rightarrow> bind_result (hc_AsStandardLine child) (\<lambda>t.
            let netAmount = netAmount + tt_Amount t
            in Inr (if includeCharges then netAmount + tt_ChargesTotal t else netAmount)))) 0"

section \<open>Lines\<close>

definition SubscriptionManagedLine :: string where "SubscriptionManagedLine = ''subscription''"
definition SystemManagedLine :: string where "SystemManagedLine = ''system''"
definition ManuallyManagedLine :: string where "ManuallyManagedLine = ''manual''"

definition ManagedBy_Values :: "string list" where
  "ManagedBy_Values = [SubscriptionManagedLine, SystemManagedLine, ManuallyManagedLine]"

record UsageBasedLine =
  ub_ConfigID :: string
  ub_Price :: "Price option"
  ub_FeatureKey :: string
  ub_Quantity :: "decimal option"
  ub_MeteredQuantity :: "decimal option"
  ub_PreLinePeriodQuantity :: "decimal option"
  ub_MeteredPreLinePeriodQuantity :: "decimal option"
  ub_UnitConfig :: "UnitConfig option"

record StandardLineBase = ManagedResource +
  ln_ManagedBy :: string
  ln_Engine :: LineEngineType
  ln_InvoiceID :: string
  ln_Currency :: string
  ln_Period :: ClosedPeriod
  ln_InvoiceAt :: time
  ln_OverrideCollectionPeriodEnd :: "time option"
  ln_ParentLineID :: "string option"
  ln_SplitLineGroupID :: "string option"
  ln_ChargeID :: "string option"
  ln_ChildUniqueReferenceID :: "string option"
  ln_TaxConfig :: "BillingTaxConfig option"
  ln_RateCardDiscounts :: Discounts
  ln_CreditsApplied :: "CreditApplied list"
  ln_ExternalIDs :: LineExternalIDs
  ln_Subscription :: "SubscriptionReference option"
  ln_Totals :: Totals

record InvoiceStandardLine = StandardLineBase +
  ln_UsageBased :: "UsageBasedLine option"
  ln_DetailedLines :: "InvoiceDetailedLine list"
  ln_SplitLineHierarchy :: "SplitLineHierarchy option"
  ln_Discounts :: StandardLineDiscounts
  ln_DBState :: "nat option"

definition LNB_Validate :: "known_currencies \<Rightarrow> ('a) StandardLineBase_scheme \<Rightarrow> error option" where
  "LNB_Validate known i = join_errors
     (err_if (mr_Namespace i = []) (Err ''namespace is required'') @
      err_of (Wrap ''period'') (CP_Validate (ln_Period i)) @
      err_if (IsZeroTime (ln_InvoiceAt i)) (Err ''invoice at is required'') @
      (case ln_OverrideCollectionPeriodEnd i of
         None \<Rightarrow> []
       | Some e \<Rightarrow>
           err_if (IsZeroTime e) (Err ''overrideCollectionPeriodEnd must not be zero when set'') @
           err_if (\<not> IsZeroTime (cp_To (ln_Period i)) \<and> e < cp_To (ln_Period i))
             (Err ''overrideCollectionPeriodEnd must be after or equal to period end'')) @
      err_if (mr_Name i = []) (Err ''name is required'') @
      err_of (Wrap ''currency'') (validateFiatCurrencyCode known (ln_Currency i)) @
      err_if (ln_ManagedBy i \<notin> set ManagedBy_Values) (Err ''invalid managed by'') @
      (if ln_Engine i \<noteq> NoLineEngineType then err_of (Wrap ''engine'') (Engine_Validate (ln_Engine i)) else []) @
      err_of (Wrap ''percentage discounts'')
        (Option.bind (ds_Percentage (ln_RateCardDiscounts i)) (\<lambda>p. PD_Validate (bp_PercentageDiscount p))) @
      err_of (Wrap ''usage discounts'')
        (Option.bind (ds_Usage (ln_RateCardDiscounts i)) (\<lambda>u. UD_Validate (bu_UsageDiscount u))) @
      err_of (Wrap ''creditsApplied'') (CAs_Validate (ln_CreditsApplied i)))"

definition LNB_Clone :: "('a) StandardLineBase_scheme \<Rightarrow> ('a) StandardLineBase_scheme" where
  "LNB_Clone i = i\<lparr>ln_TaxConfig := map_option (\<lambda>t. t) (ln_TaxConfig i),
     ln_OverrideCollectionPeriodEnd := map_option (\<lambda>e. e) (ln_OverrideCollectionPeriodEnd i),
     ln_CreditsApplied := (if length (ln_CreditsApplied i) > 0 then CAs_Clone (ln_CreditsApplied i) else ln_CreditsApplied i),
     ln_RateCardDiscounts := DS_Clone (ln_RateCardDiscounts i)\<rparr>"

definition UB_Clone :: "UsageBasedLine \<Rightarrow> UsageBasedLine" where
  "UB_Clone i = i"

text \<open>As for prices, \<open>None\<close> as the outcome of a validation is the panic on a nil pointer.\<close>

definition UB_Validate :: "UsageBasedLine \<Rightarrow> error option option" where
  "UB_Validate i =
     (case ub_Price i of
        None \<Rightarrow> None
      | Some p \<Rightarrow> map_option (\<lambda>e. join_errors
          (err_of (Wrap ''price'') e @
           (if pr_t p \<noteq> FlatPriceType then err_if (ub_FeatureKey i = []) (Err ''featureKey is required'') else [])))
          (PR_Validate (Some p)))"

text \<open>\<open>clone\<close> with its options: whether the snapshot, the detailed lines and the discounts are left out.\<close>

record cloneOptions =
  co_skipDBState :: bool
  co_skipChildren :: bool
  co_skipDiscounts :: bool

definition ln_clone :: "cloneOptions \<Rightarrow> InvoiceStandardLine \<Rightarrow> InvoiceStandardLine result" where
  "ln_clone opts i =
     (let res = (LNB_Clone i)\<lparr>ln_DBState := (if co_skipDBState opts then None else ln_DBState i),
          ln_UsageBased := map_option UB_Clone (ln_UsageBased i),
          ln_DetailedLines := (if co_skipChildren opts then [] else IDs_Clone (ln_DetailedLines i)),
          ln_Discounts := (if co_skipDiscounts opts then \<lparr>sd_Usage = []\<rparr> else SD_Clone (ln_Discounts i)),
          ln_SplitLineHierarchy := None\<rparr>
      in case ln_SplitLineHierarchy i of
           None \<Rightarrow> Inr res
         | Some h \<Rightarrow> bind_result (wrap_result ''cloning split line hierarchy'' (SH_Clone h))
             (\<lambda>cloned. Inr (res\<lparr>ln_SplitLineHierarchy := Some cloned\<rparr>)))"

definition LN_Clone :: "InvoiceStandardLine \<Rightarrow> InvoiceStandardLine result" where
  "LN_Clone i = ln_clone \<lparr>co_skipDBState = False, co_skipChildren = False, co_skipDiscounts = False\<rparr> i"

definition CloneWithoutChildren :: "InvoiceStandardLine \<Rightarrow> InvoiceStandardLine result" where
  "CloneWithoutChildren i = ln_clone \<lparr>co_skipDBState = False, co_skipChildren = True, co_skipDiscounts = False\<rparr> i"

text \<open>The edits run in order; a nil edit is left out of the list.\<close>

definition CloneWithoutDependencies :: "(InvoiceStandardLine \<Rightarrow> InvoiceStandardLine) list \<Rightarrow> InvoiceStandardLine
    \<Rightarrow> InvoiceStandardLine result" where
  "CloneWithoutDependencies edits i =
     bind_result (wrap_result ''cloning line''
         (ln_clone \<lparr>co_skipDBState = True, co_skipChildren = True, co_skipDiscounts = True\<rparr> i)) (\<lambda>clone.
       Inr (foldl (\<lambda>c edit. edit c)
         (clone\<lparr>mr_ID := [], mr_CreatedAt := 0, mr_UpdatedAt := 0, mr_DeletedAt := None, ln_ParentLineID := None,
            ln_SplitLineHierarchy := None, ln_SplitLineGroupID := None,
            ln_UsageBased := map_option (\<lambda>u. u\<lparr>ub_ConfigID := []\<rparr>) (ln_UsageBased clone)\<rparr>) edits))"

definition RemoveCircularReferences :: "InvoiceStandardLine \<Rightarrow> InvoiceStandardLine result" where
  "RemoveCircularReferences i = bind_result (LN_Clone i) (\<lambda>clone. Inr (clone\<lparr>ln_DBState := None\<rparr>))"

definition LN_RemoveMetaForCompare :: "InvoiceStandardLine \<Rightarrow> InvoiceStandardLine result" where
  "LN_RemoveMetaForCompare i =
     bind_result (LN_Clone i) (\<lambda>out. Inr (out\<lparr>ln_DetailedLines := [], ln_DBState := None\<rparr>))"

definition ErrInvoiceCreateUBPLinePeriodIsEmpty :: ValidationIssue where
  "ErrInvoiceCreateUBPLinePeriodIsEmpty =
     NewValidationError ''invoice_create_ubp_line_period_is_empty'' ''creating an usage based line: truncated period is empty''"

definition join_issue_errors :: "issue_error list \<Rightarrow> issue_error option" where
  "join_issue_errors es = (if es = [] then None else Some (JoinedErrors es))"

text \<open>\<open>ValidationError{Err: ...}\<close>, which displays and unwraps to its error.\<close>

definition validation_error :: "issue_error \<Rightarrow> issue_error" where
  "validation_error e = WrappedError (Error_message e) e"

text \<open>The outer \<open>None\<close> is the panic of a price whose variant is nil.\<close>

definition LN_Validate :: "known_currencies \<Rightarrow> InvoiceStandardLine \<Rightarrow> issue_error option option" where
  "LN_Validate known i =
     (case ln_UsageBased i of
        None \<Rightarrow> Some (Some (PlainError ''usage based line is required''))
      | Some ub \<Rightarrow>
          (case ub_Price ub of
             None \<Rightarrow> Some (Some (PlainError ''usage based line price is required''))
           | Some price \<Rightarrow>
               map_option (\<lambda>ubErr.
                 let tp = CP_Truncate MinimumWindowSizeDuration (ln_Period i)
                 in join_issue_errors
                   (map go_error
                     (err_of (\<lambda>e. e) (LNB_Validate known i) @
                      err_of (Wrap ''totals'') (ValidateTotalNonNegative (ln_Totals i)) @
                      err_of (Wrap ''discounts'') (SD_Validate (ln_Discounts i)) @
                      err_of (Wrap ''detailed lines'') (IDs_Validate (ln_DetailedLines i)) @
                      err_of (\<lambda>e. e) ubErr) @
                    (if pr_t price \<noteq> FlatPriceType
                     then (if Truncate MinimumWindowSizeDuration (ln_InvoiceAt i) < cp_To tp
                           then [PlainError ''invoice at must be after period end for usage based line''] else []) @
                          (if CP_IsEmpty tp
                           then [validation_error (IssueError ErrInvoiceCreateUBPLinePeriodIsEmpty)] else [])
                     else (if ds_Usage (ln_RateCardDiscounts i) \<noteq> None
                           then [PlainError ''usage discounts are not allowed for flat price lines''] else [])) @
                    map go_error (err_of (Wrap ''rateCardDiscounts'')
                      (DS_ValidateForPrice (ln_RateCardDiscounts i) (Some price)))))
                 (UB_Validate ub)))"

definition setDefaultPaymentTermForFlatPrice :: "Price \<Rightarrow> Price result" where
  "setDefaultPaymentTermForFlatPrice price =
     (if pr_t price \<noteq> FlatPriceType then Inr price
      else bind_result (AsFlat price) (\<lambda>flatPrice.
        if fp_PaymentTerm flatPrice = NoPaymentTerm
        then Inr (NewPriceFrom (AnyFlat (flatPrice\<lparr>fp_PaymentTerm := InAdvancePaymentTerm\<rparr>)))
        else Inr price))"

definition WithNormalizedValues :: "InvoiceStandardLine \<Rightarrow> InvoiceStandardLine result" where
  "WithNormalizedValues i =
     bind_result (LN_Clone i) (\<lambda>out.
       (case ln_UsageBased out of
          None \<Rightarrow> Inl (Err ''usage based line is nil'')
        | Some ub \<Rightarrow>
            (case ub_Price ub of
               None \<Rightarrow> Inl (Err ''usage based line price is nil'')
             | Some price \<Rightarrow>
                 bind_result (wrap_result ''setting default payment term for flat price'' (setDefaultPaymentTermForFlatPrice price))
                   (\<lambda>price'. Inr (out\<lparr>ln_Period := CP_Truncate MinimumWindowSizeDuration (ln_Period out),
                      ln_InvoiceAt := Truncate MinimumWindowSizeDuration (ln_InvoiceAt out),
                      ln_OverrideCollectionPeriodEnd :=
                        map_option (Truncate MinimumWindowSizeDuration) (ln_OverrideCollectionPeriodEnd out),
                      ln_UsageBased := Some (ub\<lparr>ub_Price := Some price'\<rparr>)\<rparr>)))))"

text \<open>\<open>None\<close> is the panic on a line without price.\<close>

definition DependsOnMeteredQuantity :: "InvoiceStandardLine \<Rightarrow> bool option" where
  "DependsOnMeteredQuantity i =
     map_option (\<lambda>p. pr_t p \<noteq> FlatPriceType) (Option.bind (ln_UsageBased i) ub_Price)"

definition GetProgressivelyBilledServicePeriod :: "InvoiceStandardLine \<Rightarrow> ClosedPeriod result" where
  "GetProgressivelyBilledServicePeriod i =
     (if ln_SplitLineGroupID i = None then Inr (ln_Period i)
      else case ln_SplitLineHierarchy i of
             None \<Rightarrow> Inl (Err ''split line hierarchy is required'')
           | Some h \<Rightarrow> Inr (sh_GroupServicePeriod h))"

definition GetPreviouslyBilledAmount :: "InvoiceStandardLine \<Rightarrow> decimal result" where
  "GetPreviouslyBilledAmount i =
     (if ln_SplitLineGroupID i = None then Inr 0
      else case ln_SplitLineHierarchy i of
             None \<Rightarrow> Inl (Err ''line does not have a progressive line hierarchy, but is a progressive billed line'')
           | Some h \<Rightarrow> SumNetAmount h (cp_From (ln_Period i)) False)"

definition GetMeteredQuantity :: "InvoiceStandardLine \<Rightarrow> decimal option result" where
  "GetMeteredQuantity i =
     (case ln_UsageBased i of None \<Rightarrow> Inl (Err ''usage based line is required'') | Some u \<Rightarrow> Inr (ub_MeteredQuantity u))"

definition GetMeteredPreLinePeriodQuantity :: "InvoiceStandardLine \<Rightarrow> decimal option result" where
  "GetMeteredPreLinePeriodQuantity i =
     (case ln_UsageBased i of None \<Rightarrow> Inl (Err ''usage based line is required'')
      | Some u \<Rightarrow> Inr (ub_MeteredPreLinePeriodQuantity u))"

definition GetCurrencyCalculator :: "decimal_lib \<Rightarrow> known_currencies \<Rightarrow> InvoiceStandardLine \<Rightarrow> currency_ops option result" where
  "GetCurrencyCalculator L known i =
     (case NewFiatCurrency known (ln_Currency i) of
        Inl e \<Rightarrow> Inl (Wrap ''resolving fiat currency calculator'' e)
      | Inr d \<Rightarrow> Inr (Some (currency_ops_of L known (FiatCurrency d))))"

section \<open>What rating reads of a line\<close>

definition rated_line :: "decimal_lib \<Rightarrow> known_currencies \<Rightarrow> InvoiceStandardLine \<Rightarrow> StandardLine" where
  "rated_line L known i =
     \<lparr>ac_Price = Option.bind (ln_UsageBased i) ub_Price, ac_ServicePeriod = ln_Period i,
      ac_FeatureKey = (case ln_UsageBased i of None \<Rightarrow> [] | Some u \<Rightarrow> ub_FeatureKey u),
      sl_CurrencyCalculator = GetCurrencyCalculator L known i, sl_MeteredQuantity = GetMeteredQuantity i,
      sl_MeteredPreLinePeriodQuantity = GetMeteredPreLinePeriodQuantity i, sl_CreditsApplied = ln_CreditsApplied i,
      sl_Name = mr_Name i, sl_RateCardDiscounts = ln_RateCardDiscounts i,
      sl_UnitConfig = Option.bind (ln_UsageBased i) ub_UnitConfig, sl_StandardLineDiscounts = ln_Discounts i,
      sl_IsProgressivelyBilled = (ln_SplitLineGroupID i \<noteq> None),
      sl_ProgressivelyBilledServicePeriod = GetProgressivelyBilledServicePeriod i,
      sl_PreviouslyBilledAmount = GetPreviouslyBilledAmount i\<rparr>"

section \<open>Detailed lines of a line\<close>

text \<open>The order of \<open>SortDetailedLines\<close>, and the comparison that a \<open>less\<close> function stands for.\<close>

definition cmp_of :: "('a \<Rightarrow> 'a \<Rightarrow> bool) \<Rightarrow> 'a \<Rightarrow> 'a \<Rightarrow> int" where
  "cmp_of lt a b = (if lt a b then -1 else if lt b a then 1 else 0)"

definition detailed_less :: "InvoiceDetailedLine \<Rightarrow> InvoiceDetailedLine \<Rightarrow> bool" where
  "detailed_less lineA lineB =
     (case (db_Index lineA, db_Index lineB) of
        (Some i, Some j) \<Rightarrow> i < j
      | (Some _, None) \<Rightarrow> True
      | (None, Some _) \<Rightarrow> False
      | (None, None) \<Rightarrow>
          if mr_Name lineA \<noteq> mr_Name lineB then mr_Name lineA < mr_Name lineB
          else if cp_From (db_ServicePeriod lineA) \<noteq> cp_From (db_ServicePeriod lineB)
          then cp_From (db_ServicePeriod lineA) < cp_From (db_ServicePeriod lineB)
          else mr_ID lineA < mr_ID lineB)"

definition SortDetailedLines :: "InvoiceStandardLine \<Rightarrow> InvoiceStandardLine" where
  "SortDetailedLines i = i\<lparr>ln_DetailedLines := sort_by (cmp_of detailed_less) (ln_DetailedLines i)\<rparr>"

text \<open>The map of \<open>DetailedLinesWithIDReuse\<close>: later lines with the same reference win.\<close>

definition children_by_ref :: "InvoiceDetailedLine list \<Rightarrow> string \<rightharpoonup> InvoiceDetailedLine" where
  "children_by_ref existing =
     foldl (\<lambda>m child. if db_ChildUniqueReferenceID child = [] then m
        else if mr_DeletedAt child \<noteq> None then m
        else m(db_ChildUniqueReferenceID child \<mapsto> child)) Map.empty existing"

definition reuse_id :: "InvoiceDetailedLine list \<Rightarrow> InvoiceDetailedLine \<Rightarrow> InvoiceDetailedLine" where
  "reuse_id existingItems newChild =
     (if db_ChildUniqueReferenceID newChild = [] then newChild
      else case children_by_ref existingItems (db_ChildUniqueReferenceID newChild) of
             None \<Rightarrow> newChild
           | Some existing \<Rightarrow> newChild\<lparr>mr_ID := mr_ID existing, dlb_FeeLineConfigID := dlb_FeeLineConfigID existing,
               mr_CreatedAt := mr_CreatedAt existing, mr_UpdatedAt := mr_UpdatedAt existing,
               id_AmountDiscounts := AMs_ReuseIDsFrom (id_AmountDiscounts newChild) (id_AmountDiscounts existing)\<rparr>)"

definition DetailedLinesWithIDReuse :: "InvoiceStandardLine \<Rightarrow> InvoiceDetailedLine list \<Rightarrow> InvoiceDetailedLine list" where
  "DetailedLinesWithIDReuse c l = map (reuse_id (ln_DetailedLines c)) (IDs_Clone l)"

text \<open>\<open>newDetailedLines\<close> and \<open>MergeGeneratedDetailedLines\<close> of billing/service/invoicecalc/details.go.\<close>

definition newDetailedLine :: "InvoiceStandardLine \<Rightarrow> DetailedLine \<Rightarrow> InvoiceDetailedLine result" where
  "newDetailedLine line i =
     check_then (DL_Validate i)
       (let l = \<lparr>mr_Namespace = mr_Namespace line, mr_ID = [], mr_CreatedAt = 0, mr_UpdatedAt = 0, mr_DeletedAt = None,
            mr_Description = None, mr_Name = li_Name i,
            db_Category = (if li_Category i = NoCategory then CategoryRegular else li_Category i),
            db_ChildUniqueReferenceID = li_ChildUniqueReferenceID i, db_Index = None,
            db_PaymentTerm = (if li_PaymentTerm i = NoPaymentTerm then InArrearsPaymentTerm else li_PaymentTerm i),
            db_ServicePeriod = (case li_Period i of None \<Rightarrow> ln_Period line | Some p \<Rightarrow> \<lparr>cp_From = cp_From p, cp_To = cp_To p\<rparr>),
            db_PerUnitAmount = li_PerUnitAmount i, db_Quantity = li_Quantity i, db_Totals = li_Totals i,
            db_ExternalIDs = \<lparr>xi_Invoicing = []\<rparr>, db_CreditsApplied = li_CreditsApplied i,
            dlb_InvoiceID = ln_InvoiceID line, dlb_FeeLineConfigID = [], id_AmountDiscounts = li_AmountDiscounts i\<rparr>
        in check_then (ID_Validate l) (Inr l))"

definition newDetailedLines :: "InvoiceStandardLine \<Rightarrow> DetailedLine list \<Rightarrow> InvoiceDetailedLine list result" where
  "newDetailedLines line inputs = MapWithErr (newDetailedLine line) inputs"

text \<open>A line without usage is a panic when there is a final usage to store.\<close>

definition MergeGeneratedDetailedLines :: "InvoiceStandardLine \<Rightarrow> GenerateDetailedLinesResult \<Rightarrow> InvoiceStandardLine result" where
  "MergeGeneratedDetailedLines parentLine i =
     bind_result (wrap_result ''detailed lines'' (newDetailedLines parentLine (gr_DetailedLines i))) (\<lambda>detailedLines.
       let indexed = map2 (\<lambda>idx l. l\<lparr>db_Index := Some (int idx)\<rparr>) [0..<length detailedLines] detailedLines;
           p = parentLine\<lparr>ln_DetailedLines := DetailedLinesWithIDReuse parentLine indexed, ln_Totals := gr_Totals i\<rparr>
       in bind_result
            (case gr_FinalUsage i of
               None \<Rightarrow> Inr p
             | Some u \<Rightarrow> bind_result (deref (ln_UsageBased p)) (\<lambda>ub.
                 Inr (p\<lparr>ln_UsageBased := Some (ub\<lparr>ub_Quantity := Some (us_Quantity u),
                   ub_PreLinePeriodQuantity := Some (us_PreLinePeriodQuantity u)\<rparr>)\<rparr>)))
            (\<lambda>p. Inr (p\<lparr>ln_Discounts := gr_FinalStandardLineDiscounts i\<rparr>)))"

section \<open>Collections of lines\<close>

definition LNs_Validate :: "known_currencies \<Rightarrow> InvoiceStandardLine list \<Rightarrow> issue_error option option" where
  "LNs_Validate known c =
     (let rs = map (LN_Validate known) c
      in if None \<in> set rs then None
         else Some (join_issue_errors (concat (map2 (\<lambda>idx r.
           case ValidationWithFieldPrefix (show_nat idx) (the r) of None \<Rightarrow> [] | Some e \<Rightarrow> [e]) [0..<length c] rs))))"

definition GetByChildUniqueReferenceID :: "InvoiceStandardLine list \<Rightarrow> string \<Rightarrow> InvoiceStandardLine option" where
  "GetByChildUniqueReferenceID c ref =
     find (\<lambda>line. (case ln_ChildUniqueReferenceID line of None \<Rightarrow> [] | Some r \<Rightarrow> r) = ref) c"

text \<open>\<open>lo.ElementsMatch\<close>: the same elements the same number of times.\<close>

definition ValidateStandardLineIDsMatchExactly :: "InvoiceStandardLine list \<Rightarrow> InvoiceStandardLine list \<Rightarrow> error option" where
  "ValidateStandardLineIDsMatchExactly expected actual =
     (if mset (map mr_ID expected) \<noteq> mset (map mr_ID actual) then Some (Err ''line ids mismatch'') else None)"

definition line_less :: "InvoiceStandardLine \<Rightarrow> InvoiceStandardLine \<Rightarrow> bool" where
  "line_less lineA lineB =
     (if mr_Name lineA \<noteq> mr_Name lineB then mr_Name lineA < mr_Name lineB
      else if cp_From (ln_Period lineA) \<noteq> cp_From (ln_Period lineB) then cp_From (ln_Period lineA) < cp_From (ln_Period lineB)
      else mr_ID lineA < mr_ID lineB)"

definition LNs_Sort :: "InvoiceStandardLine list \<Rightarrow> InvoiceStandardLine list" where
  "LNs_Sort c = map SortDetailedLines (sort_by (cmp_of line_less) c)"

fun feature_keys :: "InvoiceStandardLine list \<Rightarrow> string list result" where
  "feature_keys [] = Inr []"
| "feature_keys (line # lines) =
     (case ln_UsageBased line of
        None \<Rightarrow> Inl (Err ''usage based line is required'')
      | Some u \<Rightarrow> bind_result (feature_keys lines) (\<lambda>out.
          Inr (if ub_FeatureKey u = [] then out else ub_FeatureKey u # out)))"

definition GetReferencedFeatureKeys :: "InvoiceStandardLine list \<Rightarrow> string list result" where
  "GetReferencedFeatureKeys c = bind_result (feature_keys c) (\<lambda>out. Inr (uniq out))"

definition um_set_external :: "string \<Rightarrow> UsageLineDiscountManaged \<Rightarrow> UsageLineDiscountManaged" where
  "um_set_external x d =
     (let b = ul_Base (um_Discount d)
      in d\<lparr>um_Discount := (um_Discount d)\<lparr>ul_Base := b\<lparr>lb_ExternalIDs := (lb_ExternalIDs b)\<lparr>xi_Invoicing := x\<rparr>\<rparr>\<rparr>\<rparr>)"

fun set_usage_external_ids :: "(string \<rightharpoonup> string) \<Rightarrow> UsageLineDiscountManaged list
    \<Rightarrow> UsageLineDiscountManaged list \<times> string list" where
  "set_usage_external_ids externalIDs [] = ([], [])"
| "set_usage_external_ids externalIDs (d # ds) =
     (let (ds', found) = set_usage_external_ids externalIDs ds
      in case externalIDs (mm_ID (um_Managed d)) of
           None \<Rightarrow> (d # ds', found)
         | Some x \<Rightarrow> (um_set_external x d # ds', mm_ID (um_Managed d) # found))"

definition SetDiscountExternalIDs :: "(string \<rightharpoonup> string) \<Rightarrow> InvoiceStandardLine \<Rightarrow> InvoiceStandardLine \<times> string list" where
  "SetDiscountExternalIDs externalIDs i =
     (let (ds, found) = set_usage_external_ids externalIDs (sd_Usage (ln_Discounts i))
      in (i\<lparr>ln_Discounts := \<lparr>sd_Usage = ds\<rparr>\<rparr>, found))"

section \<open>Clones\<close>

lemma DS_Clone_id [simp]: "DS_Clone d = d"
proof -
  have "map_option BP_Clone x = x" "map_option BU_Clone y = y" for x y
    by (cases x; simp add: BP_Clone_def PD_Clone_def) (cases y; simp add: BU_Clone_def UD_Clone_def)
  then show ?thesis by (simp add: DS_Clone_def)
qed

lemma LNB_Clone_id [simp]: "LNB_Clone i = i"
  by (simp add: LNB_Clone_def option.map_ident)

lemma SH_Clone_ok: "SH_Clone h = Inr h' \<Longrightarrow> h' = h"
proof -
  assume "SH_Clone h = Inr h'"
  then obtain ls where ls: "MapWithErr (\<lambda>l. bind_result (hc_Clone l) (\<lambda>_. Inr l)) (sh_Lines h) = Inr ls" "h' = h\<lparr>sh_Lines := ls\<rparr>"
    by (auto simp: SH_Clone_def result_simps)
  have "map (\<lambda>l. bind_result (hc_Clone l) (\<lambda>_. Inr l)) xs = map Inr ys \<Longrightarrow> ys = xs" for xs ys
  proof (induction xs arbitrary: ys)
    case (Cons x xs)
    then show ?case by (cases ys) (auto simp: result_simps)
  qed simp
  then have "ls = sh_Lines h" using ls(1) unfolding MapWithErr_Inr by blast
  then show "h' = h" using ls(2) by simp
qed

lemma LN_Clone_ok: "LN_Clone i = Inr j \<Longrightarrow> j = i"
proof -
  have u: "UB_Clone = (\<lambda>u. u)" by (simp add: fun_eq_iff UB_Clone_def)
  assume "LN_Clone i = Inr j"
  then show "j = i"
    by (cases "ln_SplitLineHierarchy i")
      (auto simp: LN_Clone_def ln_clone_def u option.map_ident result_simps Let_def dest!: SH_Clone_ok)
qed

section \<open>Orders of lines\<close>

text \<open>A strict order whose incomparability is transitive is a comparison for sorting.\<close>

lemma weak_order_comparator:
  assumes asym: "\<And>a b. lt a b \<Longrightarrow> \<not> lt b a" and neg: "\<And>a b c. \<not> lt b a \<Longrightarrow> \<not> lt c b \<Longrightarrow> \<not> lt c a"
  shows "comparator (cmp_of lt)"
proof
  show "cmp_of lt a b < 0 \<longleftrightarrow> 0 < cmp_of lt b a" for a b using asym [of a b] by (auto simp: cmp_of_def)
  have le: "cmp_of lt a b \<le> 0 \<longleftrightarrow> \<not> lt b a" for a b using asym [of a b] by (auto simp: cmp_of_def)
  show "cmp_of lt a b \<le> 0 \<Longrightarrow> cmp_of lt b c \<le> 0 \<Longrightarrow> cmp_of lt a c \<le> 0" for a b c
    unfolding le by (rule neg)
qed

interpretation line_order: comparator "cmp_of line_less"
  by (rule weak_order_comparator) (auto simp: line_less_def split: if_splits)

interpretation detailed_order: comparator "cmp_of detailed_less"
  by (rule weak_order_comparator) (auto simp: detailed_less_def split: if_splits option.splits)

section \<open>Reused IDs\<close>

lemma children_by_ref_step:
  "foldl (\<lambda>m child. if db_ChildUniqueReferenceID child = [] then m else if mr_DeletedAt child \<noteq> None then m
      else m(db_ChildUniqueReferenceID child \<mapsto> child)) m ls r = Some c \<Longrightarrow>
    m r = Some c \<or> c \<in> set ls \<and> db_ChildUniqueReferenceID c = r \<and> mr_DeletedAt c = None"
proof (induction ls arbitrary: m)
  case (Cons l ls)
  then show ?case by (auto split: if_splits dest!: Cons.IH)
qed simp

lemma children_by_ref_in:
  "children_by_ref ls r = Some c \<Longrightarrow> c \<in> set ls \<and> db_ChildUniqueReferenceID c = r \<and> mr_DeletedAt c = None"
  unfolding children_by_ref_def by (drule children_by_ref_step) simp

text \<open>What rating determines of a detailed line; the ID it may reuse.\<close>

definition rated_part :: "InvoiceDetailedLine \<Rightarrow> string \<times> decimal \<times> decimal \<times> CreditApplied list \<times> Totals" where
  "rated_part d = (db_ChildUniqueReferenceID d, db_PerUnitAmount d, db_Quantity d, db_CreditsApplied d, db_Totals d)"

definition rated_part_of :: "DetailedLine \<Rightarrow> string \<times> decimal \<times> decimal \<times> CreditApplied list \<times> Totals" where
  "rated_part_of d = (li_ChildUniqueReferenceID d, li_PerUnitAmount d, li_Quantity d, li_CreditsApplied d, li_Totals d)"

lemma WithIDReuse_parts: "map rated_part (DetailedLinesWithIDReuse c l) = map rated_part l"
  by (auto simp: DetailedLinesWithIDReuse_def reuse_id_def rated_part_def split: option.splits)

lemma WithIDReuse_index: "map db_Index (DetailedLinesWithIDReuse c l) = map db_Index l"
  by (auto simp: DetailedLinesWithIDReuse_def reuse_id_def split: option.splits)

lemma newDetailedLine_parts: "newDetailedLine line i = Inr d \<Longrightarrow> rated_part d = rated_part_of i \<and> mr_ID d = []"
  by (auto simp: newDetailedLine_def Let_def result_simps rated_part_def rated_part_of_def)

lemma newDetailedLines_parts:
  "newDetailedLines line is = Inr ds \<Longrightarrow> map rated_part ds = map rated_part_of is \<and> (\<forall>d \<in> set ds. mr_ID d = [])"
  unfolding newDetailedLines_def MapWithErr_Inr
proof (induction "is" arbitrary: ds)
  case (Cons i "is")
  then show ?case by (cases ds) (auto dest: newDetailedLine_parts)
qed simp

definition indexed :: "InvoiceDetailedLine list \<Rightarrow> InvoiceDetailedLine list" where
  "indexed ds = map2 (\<lambda>idx l. l\<lparr>db_Index := Some (int idx)\<rparr>) [0..<length ds] ds"

lemma indexed_parts: "map rated_part (indexed ds) = map rated_part ds" "map mr_ID (indexed ds) = map mr_ID ds"
  "map db_Index (indexed ds) = map (\<lambda>k. Some (int k)) [0..<length ds]"
  by (auto simp: indexed_def rated_part_def intro!: nth_equalityI)

lemma MergeGenerated_result:
  assumes "MergeGeneratedDetailedLines line r = Inr line'"
  shows "\<exists>ds. newDetailedLines line (gr_DetailedLines r) = Inr ds \<and>
    ln_DetailedLines line' = DetailedLinesWithIDReuse line (indexed ds) \<and> ln_Totals line' = gr_Totals r \<and>
    ln_Discounts line' = gr_FinalStandardLineDiscounts r"
  using assms by (cases "gr_FinalUsage r")
    (auto simp: MergeGeneratedDetailedLines_def result_simps Let_def indexed_def deref_def split: option.splits)

text \<open>The reused IDs are those of active stored lines of the same reference, so no two lines share one.\<close>

lemma WithIDReuse_ids:
  assumes "\<forall>d \<in> set l. mr_ID d = []" and "distinct (map db_ChildUniqueReferenceID l)"
    and "inj_on mr_ID (set (ln_DetailedLines c))"
  shows "distinct (filter (\<lambda>i. i \<noteq> []) (map mr_ID (DetailedLinesWithIDReuse c l))) \<and>
    (\<forall>d \<in> set (DetailedLinesWithIDReuse c l). mr_ID d \<noteq> [] \<longrightarrow>
      (\<exists>old \<in> set (ln_DetailedLines c). mr_ID old = mr_ID d \<and> mr_DeletedAt old = None \<and>
         db_ChildUniqueReferenceID old = db_ChildUniqueReferenceID d))"
proof -
  let ?f = "reuse_id (ln_DetailedLines c)"
  have f: "\<exists>old \<in> set (ln_DetailedLines c). mr_ID old = mr_ID (?f d) \<and> mr_DeletedAt old = None \<and>
      db_ChildUniqueReferenceID old = db_ChildUniqueReferenceID d" if "d \<in> set l" "mr_ID (?f d) \<noteq> []" for d
    using assms(1) that by (auto simp: reuse_id_def split: if_splits option.splits dest: children_by_ref_in)
  have r: "db_ChildUniqueReferenceID (?f d) = db_ChildUniqueReferenceID d" for d
    by (auto simp: reuse_id_def split: option.splits)
  have same: "db_ChildUniqueReferenceID d = db_ChildUniqueReferenceID e"
    if "d \<in> set l" "e \<in> set l" "mr_ID (?f d) \<noteq> []" "mr_ID (?f e) = mr_ID (?f d)" for d e
    using f [of d] f [of e] that assms(3) by (metis inj_onD)
  have "distinct (filter (\<lambda>i. i \<noteq> []) (map mr_ID (map ?f xs)))" if "set xs \<subseteq> set l"
      "distinct (map db_ChildUniqueReferenceID xs)" for xs
    using that
  proof (induction xs)
    case (Cons d xs)
    have "mr_ID (?f d) \<notin> mr_ID ` ?f ` set xs" if "mr_ID (?f d) \<noteq> []"
    proof
      assume "mr_ID (?f d) \<in> mr_ID ` ?f ` set xs"
      then obtain e where e: "e \<in> set xs" "mr_ID (?f e) = mr_ID (?f d)" by auto
      then show False using same [of d e] that Cons.prems by auto
    qed
    then show ?case using Cons by auto
  qed simp
  then show ?thesis using assms(2) f r by (auto simp: DetailedLinesWithIDReuse_def)
qed

section \<open>Earlier invoices of a line\<close>

text \<open>The children of a hierarchy that count: active, of an active invoice, not later than the given end.\<close>

definition child_counts :: "time \<Rightarrow> LineWithInvoiceHeader \<Rightarrow> bool" where
  "child_counts t child \<longleftrightarrow> (IsZeroTime t \<or> cp_To (hc_ServicePeriod child) \<le> t) \<and> hc_DeletedAt child = None \<and>
     header_DeletedAt (hc_Invoice child) = None \<and> (\<forall>d. hc_Invoice child \<noteq> StandardHeader d Deleted)"

lemma for_each_child_counts:
  "for_each_child t callback children s =
     foldl (\<lambda>r child. bind_result r (callback child)) (Inr s) (filter (child_counts t) children)"
proof -
  have e: "foldl (\<lambda>r child. bind_result r (callback child)) (Inl e) cs = Inl e" for e cs by (induction cs) simp_all
  show ?thesis
  proof (induction children arbitrary: s)
    case (Cons c cs)
    have "child_counts t c \<longleftrightarrow> \<not> (\<not> IsZeroTime t \<and> cp_To (hc_ServicePeriod c) > t) \<and> \<not> hc_DeletedAt c \<noteq> None \<and>
        \<not> header_DeletedAt (hc_Invoice c) \<noteq> None \<and>
        \<not> (case hc_Invoice c of StandardHeader _ status \<Rightarrow> status = Deleted | _ \<Rightarrow> False)"
      by (auto simp: child_counts_def split: invoice_header.splits)
    then show ?case
      using Cons.IH by (cases "callback c s") (auto simp: e simp del: not_None_eq)
  qed simp
qed

text \<open>
  C38. The amount billed before a line of a split line is the sum of the amounts of the standard lines that
  count: those not deleted, on invoices not deleted, whose period ends by the start of the line.
  Gathering lines, deleted lines and lines of deleted invoices never count, whatever their number and
  order; a line that is not split has no amount billed before.
\<close>

theorem GetPreviouslyBilledAmount_sum:
  assumes "\<And>child. child \<in> set (sh_Lines h) \<Longrightarrow> hc_AsStandardLine child = Inr (t child)"
    and "ln_SplitLineHierarchy i = Some h"
  shows "GetPreviouslyBilledAmount i = Inr (if ln_SplitLineGroupID i = None then 0
    else \<Sum>child \<leftarrow> filter (\<lambda>c. child_counts (cp_From (ln_Period i)) c \<and> (\<exists>d s. hc_Invoice c = StandardHeader d s))
      (sh_Lines h). tt_Amount (t child))"
proof -
  let ?cb = "\<lambda>child netAmount. (case hc_Invoice child of
      GatheringHeader _ \<Rightarrow> Inr netAmount
    | StandardHeader _ _ \<Rightarrow> bind_result (hc_AsStandardLine child) (\<lambda>t.
        let netAmount = netAmount + tt_Amount t in Inr (if False then netAmount + tt_ChargesTotal t else netAmount)))"
  let ?std = "\<lambda>c. \<exists>d s. hc_Invoice c = StandardHeader d s"
  have f: "foldl (\<lambda>r child. bind_result r (?cb child)) (Inr a) cs = Inr (a + (\<Sum>child \<leftarrow> filter ?std cs. tt_Amount (t child)))"
    if "set cs \<subseteq> set (sh_Lines h)" for cs and a :: rat
    using that
  proof (induction cs arbitrary: a)
    case (Cons c cs)
    show ?case
    proof (cases "hc_Invoice c")
      case (StandardHeader d s)
      then show ?thesis using Cons.prems Cons.IH [of "a + tt_Amount (t c)"] assms(1) [of c] by (simp add: Let_def)
    qed (use Cons in simp)
  qed simp
  have "SumNetAmount h b False = Inr (\<Sum>child \<leftarrow> filter (\<lambda>c. child_counts b c \<and> ?std c) (sh_Lines h). tt_Amount (t child))" for b
    unfolding SumNetAmount_def ForEachChild_def for_each_child_counts
    using f [of "filter (child_counts b) (sh_Lines h)" 0, OF filter_is_subset] by (simp add: conj_commute)
  then show ?thesis using assms(2) by (simp add: GetPreviouslyBilledAmount_def)
qed

definition sample_child :: "time \<Rightarrow> decimal \<Rightarrow> invoice_header \<Rightarrow> LineWithInvoiceHeader" where
  "sample_child to amount header = \<lparr>hc_ServicePeriod = \<lparr>cp_From = 0, cp_To = to\<rparr>, hc_DeletedAt = None, hc_Invoice = header,
     hc_Clone = Inr (), hc_AsStandardLine = Inr (TT_zero\<lparr>tt_Amount := amount\<rparr>)\<rparr>"

definition sample_split_line :: InvoiceStandardLine where
  "sample_split_line = \<lparr>mr_Namespace = ''ns'', mr_ID = ''l1'', mr_CreatedAt = 0, mr_UpdatedAt = 0, mr_DeletedAt = None,
     mr_Description = None, mr_Name = ''calls'', ln_ManagedBy = SystemManagedLine, ln_Engine = LineEngineTypeInvoice,
     ln_InvoiceID = ''i1'', ln_Currency = ''USD'', ln_Period = \<lparr>cp_From = 10, cp_To = 20\<rparr>, ln_InvoiceAt = 20,
     ln_OverrideCollectionPeriodEnd = None, ln_ParentLineID = None, ln_SplitLineGroupID = Some ''g'', ln_ChargeID = None,
     ln_ChildUniqueReferenceID = None, ln_TaxConfig = None, ln_RateCardDiscounts = \<lparr>ds_Percentage = None, ds_Usage = None\<rparr>,
     ln_CreditsApplied = [], ln_ExternalIDs = \<lparr>xi_Invoicing = []\<rparr>, ln_Subscription = None, ln_Totals = TT_zero,
     ln_UsageBased = Some \<lparr>ub_ConfigID = [], ub_Price = Some (NewPriceFrom (AnyUnit \<lparr>up_Commitments = no_commitments, up_Amount = 1\<rparr>)),
       ub_FeatureKey = ''calls'', ub_Quantity = None, ub_MeteredQuantity = None, ub_PreLinePeriodQuantity = None,
       ub_MeteredPreLinePeriodQuantity = None, ub_UnitConfig = None\<rparr>,
     ln_DetailedLines = [],
     ln_SplitLineHierarchy = Some \<lparr>sh_GroupServicePeriod = \<lparr>cp_From = 0, cp_To = 30\<rparr>,
       sh_Lines = [sample_child 10 7 (StandardHeader None Paid), sample_child 10 5 (StandardHeader None Deleted),
         sample_child 10 3 (GatheringHeader None), sample_child 20 2 (StandardHeader None DraftCreated)]\<rparr>,
     ln_Discounts = \<lparr>sd_Usage = []\<rparr>, ln_DBState = None\<rparr>"

theorem GetPreviouslyBilledAmount_sum_witness: "GetPreviouslyBilledAmount sample_split_line = Inr 7"
proof -
  let ?h = "the (ln_SplitLineHierarchy sample_split_line)"
  have c: "child_counts 10 (sample_child to a (StandardHeader None s)) \<longleftrightarrow> to \<le> 10 \<and> s \<noteq> Deleted"
    "\<not> (\<exists>d s. hc_Invoice (sample_child to a (GatheringHeader None)) = StandardHeader d s)"
    "\<exists>d s'. hc_Invoice (sample_child to a (StandardHeader None s)) = StandardHeader d s'" for to a s
    by (auto simp: child_counts_def sample_child_def IsZeroTime_def)
  have "hc_AsStandardLine child = Inr (projr (hc_AsStandardLine child))" if "child \<in> set (sh_Lines ?h)" for child
    using that by (auto simp: sample_split_line_def sample_child_def)
  note r = GetPreviouslyBilledAmount_sum [of ?h "\<lambda>c. projr (hc_AsStandardLine c)" sample_split_line, OF this]
  show ?thesis using r by (simp add: sample_split_line_def c) (simp add: sample_child_def)
qed

text \<open>
  C2. Sorting the lines of an invoice keeps every line and every detailed line and puts them in order: lines
  by name, start and ID, the detailed lines of each by index, those without index last and by name, start
  and ID; sorting again changes nothing.
\<close>

theorem LNs_Sort_sorted:
  "mset (LNs_Sort ls) = image_mset SortDetailedLines (mset ls) \<and>
   sorted_wrt (\<lambda>a b. \<not> line_less b a) (LNs_Sort ls) \<and> LNs_Sort (LNs_Sort ls) = LNs_Sort ls \<and>
   (\<forall>l \<in> set (LNs_Sort ls). sorted_wrt (\<lambda>a b. \<not> detailed_less b a) (ln_DetailedLines l)) \<and>
   mset (ln_DetailedLines (SortDetailedLines l)) = mset (ln_DetailedLines l)"
proof -
  have le: "cmp_of line_less a b \<le> 0 \<longleftrightarrow> \<not> line_less b a" for a b
    using line_order.sym [of a b] by (auto simp: cmp_of_def split: if_splits)
  have le': "cmp_of detailed_less a b \<le> 0 \<longleftrightarrow> \<not> detailed_less b a" for a b
    using detailed_order.sym [of a b] by (auto simp: cmp_of_def split: if_splits)
  have lt: "line_less (SortDetailedLines a) (SortDetailedLines b) = line_less a b" for a b
    by (simp add: line_less_def SortDetailedLines_def)
  have s: "sorted_wrt (\<lambda>a b. \<not> line_less b a) (sort_by (cmp_of line_less) xs)" for xs
    using line_order.sorted_sort_by [of xs] by (simp add: le)
  have d: "sorted_wrt (\<lambda>a b. \<not> detailed_less b a) (ln_DetailedLines (SortDetailedLines x))" for x
    using detailed_order.sorted_sort_by [of "ln_DetailedLines x"] by (simp add: le' SortDetailedLines_def)
  have ds: "SortDetailedLines (SortDetailedLines x) = SortDetailedLines x" for x
    using detailed_order.sorted_idem [OF detailed_order.sorted_sort_by] by (simp add: SortDetailedLines_def)
  have so: "sorted_wrt (\<lambda>a b. \<not> line_less b a) (LNs_Sort ls)"
    using s [of ls] by (simp add: LNs_Sort_def sorted_wrt_map lt)
  then have "sort_by (cmp_of line_less) (LNs_Sort ls) = LNs_Sort ls"
    using line_order.sorted_idem [of "LNs_Sort ls"] by (simp add: le)
  then have "LNs_Sort (LNs_Sort ls) = map SortDetailedLines (LNs_Sort ls)" by (simp add: LNs_Sort_def [of "LNs_Sort ls"])
  also have "\<dots> = LNs_Sort ls" by (simp add: LNs_Sort_def ds)
  finally show ?thesis using so d by (auto simp: LNs_Sort_def SortDetailedLines_def [of l])
qed

end
