(* ===== verification/StdInvoice.thy ===== *)
theory StdInvoice
  imports StdLine Datetime
begin

text \<open>
  The standard invoice and its collection of lines (openmeter/billing/stdinvoice.go), the line engines and
  their registry (openmeter/billing/lineengine.go, openmeter/billing/service/lineengine.go), the results of
  an invoicing app (openmeter/billing/app.go) and the calculations that derive the fields of an invoice
  (openmeter/billing/service/invoicecalc). Methods with a pointer receiver return the changed invoice with
  their error; the engine registry is a map, and the order in which Go iterates over a map is a parameter.
  Description, metadata, schema level and the JSON shapes are left out.
\<close>

section \<open>Invoices\<close>

record InvoicingConfig =
  ic_AutoAdvance :: bool
  ic_DraftPeriod :: ISODuration
  ic_DueAfter :: ISODuration
  ic_DefaultTaxConfig :: "TaxConfig option"

text \<open>The invoicing app is known by type and ID; its code is the business of \<open>InvoiceMachine\<close>.\<close>

record InvoiceWorkflow =
  wf_CollectionInterval :: ISODuration
  wf_Invoicing :: InvoicingConfig
  wf_AppType :: AppType
  wf_AppID :: string

record InvoiceCustomer =
  cu_Key :: "string option"
  cu_CustomerID :: string
  cu_Name :: string

definition CU_Validate :: "InvoiceCustomer \<Rightarrow> error option" where
  "CU_Validate i =
     (if cu_CustomerID i = [] then Some (Err ''customerID is required'')
      else if cu_Key i = Some [] then Some (Err ''key cannot be empty'')
      else if cu_Name i = [] then Some (Err ''name is required'')
      else None)"

record SupplierContact =
  su_ID :: string
  su_Name :: string
  su_Country :: "string option"

definition SU_Validate :: "SupplierContact \<Rightarrow> error option" where
  "SU_Validate c =
     (if su_Name c = [] then Some (Err ''name is required'')
      else if su_Country c = None then Some (Err ''country is required'') else None)"

record InvoiceExternalIDs =
  xe_Invoicing :: string
  xe_Payment :: string

text \<open>An available action is the state it results in.\<close>

record StandardInvoiceAvailableActions =
  av_Advance :: "StandardInvoiceStatus option"
  av_Approve :: "StandardInvoiceStatus option"
  av_Delete :: "StandardInvoiceStatus option"
  av_Retry :: "StandardInvoiceStatus option"
  av_SnapshotQuantities :: "StandardInvoiceStatus option"

record StandardInvoiceStatusDetails =
  sd_Immutable :: bool
  sd_Failed :: bool
  sd_AvailableActions :: StandardInvoiceAvailableActions

definition no_actions :: StandardInvoiceAvailableActions where
  "no_actions = \<lparr>av_Advance = None, av_Approve = None, av_Delete = None, av_Retry = None, av_SnapshotQuantities = None\<rparr>"

definition no_status_details :: StandardInvoiceStatusDetails where
  "no_status_details = \<lparr>sd_Immutable = False, sd_Failed = False, sd_AvailableActions = no_actions\<rparr>"

definition InvoiceTypeStandard :: string where "InvoiceTypeStandard = ''standard''"
definition InvoiceTypeGathering :: string where "InvoiceTypeGathering = ''gathering''"

definition InvoiceType_Validate :: "string \<Rightarrow> error option" where
  "InvoiceType_Validate t =
     (if t \<in> set [InvoiceTypeStandard, InvoiceTypeGathering] then None else Some (Err ''invalid invoice type''))"

record StandardInvoice =
  si_Namespace :: string
  si_ID :: string
  si_Number :: string
  si_Type :: string
  si_Currency :: string
  si_Status :: StandardInvoiceStatus
  si_StatusDetails :: StandardInvoiceStatusDetails
  si_Period :: "ClosedPeriod option"
  si_DueAt :: "time option"
  si_CreatedAt :: time
  si_DraftUntil :: "time option"
  si_IssuedAt :: "time option"
  si_DeletedAt :: "time option"
  si_DeletionSource :: ChangeSource
  si_SentToCustomerAt :: "time option"
  si_QuantitySnapshotedAt :: "time option"
  si_CollectionAt :: "time option"
  si_PaymentProcessingEnteredAt :: "time option"
  si_Customer :: InvoiceCustomer
  si_Supplier :: SupplierContact
  si_Workflow :: InvoiceWorkflow
  si_ExternalIDs :: InvoiceExternalIDs
  si_Lines :: "InvoiceStandardLine list option"
  si_ValidationIssues :: "ValidationIssue list"
  si_Totals :: Totals

text \<open>A panic inside a function that returns an error is the error \<open>nil_deref\<close>, as elsewhere.\<close>

definition or_panic :: "issue_error option option \<Rightarrow> issue_error option" where
  "or_panic r = (case r of None \<Rightarrow> Some (go_error nil_deref) | Some e \<Rightarrow> e)"

text \<open>\<open>outErr = errors.Join(outErr, err)\<close> for an error that is not nil.\<close>

definition join_issue :: "issue_error option \<Rightarrow> issue_error \<Rightarrow> issue_error option" where
  "join_issue outErr e = Some (JoinedErrors (case outErr of None \<Rightarrow> [e] | Some p \<Rightarrow> [p, e]))"

definition join_opt :: "issue_error option \<Rightarrow> issue_error option \<Rightarrow> issue_error option" where
  "join_opt outErr err = (case err of None \<Rightarrow> outErr | Some e \<Rightarrow> join_issue outErr e)"

definition wrap_issue :: "string \<Rightarrow> issue_error \<Rightarrow> issue_error" where
  "wrap_issue msg e = WrappedError (msg @ '': '' @ Error_message e) e"

definition wrap_opt :: "string \<Rightarrow> issue_error option \<Rightarrow> issue_error option" where
  "wrap_opt msg err = map_option (wrap_issue msg) err"

definition SI_BaseValidate :: "known_currencies \<Rightarrow> StandardInvoice \<Rightarrow> issue_error option" where
  "SI_BaseValidate known i =
     (let v = (\<lambda>field err outErr. join_opt outErr (ValidationWithFieldPrefix field (map_option go_error err)));
          outErr = v ''type'' (InvoiceType_Validate (si_Type i)) None;
          outErr = v ''currency'' (validateFiatCurrencyCode known (si_Currency i)) outErr;
          outErr = v ''status'' (Status_Validate (si_Status i)) outErr;
          outErr = v ''customer'' (CU_Validate (si_Customer i)) outErr;
          outErr = v ''supplier'' (SU_Validate (si_Supplier i)) outErr
      in v ''period'' (Option.bind (si_Period i) CP_Validate) outErr)"

definition or_empty :: "'a list option \<Rightarrow> 'a list" where
  "or_empty xs = (case xs of None \<Rightarrow> [] | Some l \<Rightarrow> l)"

definition SI_Validate :: "known_currencies \<Rightarrow> StandardInvoice \<Rightarrow> issue_error option" where
  "SI_Validate known i =
     (let outErr = join_opt None (SI_BaseValidate known i);
          outErr = join_opt outErr (ValidationWithFieldPrefix ''lines'' (or_panic (LNs_Validate known (or_empty (si_Lines i)))))
      in foldl (\<lambda>outErr line. if ln_Currency line \<noteq> si_Currency i
           then join_issue outErr (PlainError ''line currency is not equal to invoice currency'') else outErr)
         outErr (or_empty (si_Lines i)))"

definition DefaultCollectionAtForStandardInvoice :: "StandardInvoice \<Rightarrow> time" where
  "DefaultCollectionAtForStandardInvoice i = (case si_CollectionAt i of None \<Rightarrow> si_CreatedAt i | Some t \<Rightarrow> t)"

definition SI_MergeValidationIssues :: "issue_error option \<Rightarrow> string \<Rightarrow> StandardInvoice \<Rightarrow> StandardInvoice \<times> issue_error option" where
  "SI_MergeValidationIssues errIn reportingComponent i =
     (let (issues, err) = MergeValidationIssues (si_ValidationIssues i) errIn reportingComponent
      in (i\<lparr>si_ValidationIssues := issues\<rparr>, err))"

definition SI_HasCritical :: "StandardInvoice \<Rightarrow> bool" where
  "SI_HasCritical i = HasCriticalValidationIssues (si_ValidationIssues i)"

definition HasLineSnapshotValidationIssueForComponent :: "StandardInvoice \<Rightarrow> string \<Rightarrow> bool" where
  "HasLineSnapshotValidationIssueForComponent i component \<longleftrightarrow>
     find (\<lambda>issue. if vi_Component issue \<noteq> component then False
       else vi_Code issue = ''invoice_line_feature_has_no_meters'' \<or> vi_Code issue = ''invoice_line_snapshot_failed'')
       (si_ValidationIssues i) \<noteq> None"

text \<open>The clone of a list of lines joins the errors of its lines.\<close>

definition LNs_Clone :: "InvoiceStandardLine list \<Rightarrow> InvoiceStandardLine list result" where
  "LNs_Clone ls = MapWithErr LN_Clone ls"

definition SI_Clone :: "StandardInvoice \<Rightarrow> StandardInvoice result" where
  "SI_Clone i =
     (case si_Lines i of
        None \<Rightarrow> Inr i
      | Some ls \<Rightarrow> bind_result (LNs_Clone ls) (\<lambda>cloned. Inr (i\<lparr>si_Lines := Some cloned\<rparr>)))"

definition SI_SortLines :: "StandardInvoice \<Rightarrow> StandardInvoice" where
  "SI_SortLines i = i\<lparr>si_Lines := map_option LNs_Sort (si_Lines i)\<rparr>"

definition getLeafLines :: "StandardInvoice \<Rightarrow> InvoiceDetailedLine list" where
  "getLeafLines i = concat (map ln_DetailedLines (or_empty (si_Lines i)))"

definition GetLeafLinesWithResolvedTaxConfig :: "StandardInvoice \<Rightarrow> (InvoiceDetailedLine \<times> BillingTaxConfig option) list" where
  "GetLeafLinesWithResolvedTaxConfig i =
     concat (map (\<lambda>parentLine.
       let taxConfig = MergeTaxConfigs (FromProductCatalog (ic_DefaultTaxConfig (wf_Invoicing (si_Workflow i))))
             (ln_TaxConfig parentLine)
       in map (\<lambda>line. (line, taxConfig)) (ln_DetailedLines parentLine)) (or_empty (si_Lines i)))"

section \<open>The lines of an invoice\<close>

definition GetByID :: "InvoiceStandardLine list \<Rightarrow> string \<Rightarrow> InvoiceStandardLine option" where
  "GetByID c i = find (\<lambda>line. mr_ID line = i) c"

fun ReplaceByID :: "string \<Rightarrow> InvoiceStandardLine \<Rightarrow> InvoiceStandardLine list \<Rightarrow> InvoiceStandardLine list \<times> bool" where
  "ReplaceByID i newLine [] = ([], False)"
| "ReplaceByID i newLine (line # lines) =
     (if mr_ID line = i then (newLine\<lparr>ln_DBState := ln_DBState line\<rparr> # lines, True)
      else let (lines', ok) = ReplaceByID i newLine lines in (line # lines', ok))"

fun replace_all :: "InvoiceStandardLine list \<Rightarrow> InvoiceStandardLine list \<Rightarrow> InvoiceStandardLine list \<times> error option" where
  "replace_all [] c = (c, None)"
| "replace_all (line # lines) c =
     (case ReplaceByID (mr_ID line) line c of
        (c', True) \<Rightarrow> replace_all lines c'
      | (c', False) \<Rightarrow> (c', Some (Err ''replacing line'')))"

definition ReplaceLinesByID :: "InvoiceStandardLine list \<Rightarrow> InvoiceStandardLine list \<Rightarrow> InvoiceStandardLine list \<times> error option" where
  "ReplaceLinesByID lines c =
     (if list_ex (\<lambda>line. GetByID c (mr_ID line) = None) lines
      then (c, Some (Err ''replacing line: line not found'')) else replace_all lines c)"

text \<open>\<open>ReplaceExact\<close>: existing lines, their replacement, and the lines of the invoice if they are expanded.\<close>

definition ReplaceExact_Validate :: "known_currencies \<Rightarrow> InvoiceStandardLine list \<Rightarrow> InvoiceStandardLine list \<Rightarrow> issue_error option" where
  "ReplaceExact_Validate known existing replacement =
     (let errs = (case or_panic (LNs_Validate known replacement) of
            None \<Rightarrow> [] | Some e \<Rightarrow> [wrap_issue ''replacement lines'' e]) @
          map go_error (err_of (\<lambda>e. e) (ValidateStandardLineIDsMatchExactly existing replacement))
      in map_option (\<lambda>e. WrappedError (''validation error: '' @ Error_message e) e) (join_issue_errors errs))"

definition ReplaceExact :: "known_currencies \<Rightarrow> InvoiceStandardLine list \<Rightarrow> InvoiceStandardLine list
    \<Rightarrow> InvoiceStandardLine list option \<Rightarrow> InvoiceStandardLine list option \<times> issue_error option" where
  "ReplaceExact known existing replacement c =
     (case c of
        None \<Rightarrow> (None, Some (PlainError ''cannot replace lines without expanded invoice lines''))
      | Some ls \<Rightarrow>
          (case ReplaceExact_Validate known existing replacement of
             Some e \<Rightarrow> (Some ls, Some e)
           | None \<Rightarrow> (case ReplaceLinesByID replacement ls of (ls', err) \<Rightarrow> (Some ls', map_option go_error err))))"

definition NonDeletedLineCount :: "InvoiceStandardLine list option \<Rightarrow> nat" where
  "NonDeletedLineCount c = length (filter (\<lambda>l. mr_DeletedAt l = None) (or_empty c))"

definition LNs_Append :: "InvoiceStandardLine list \<Rightarrow> InvoiceStandardLine list option \<Rightarrow> InvoiceStandardLine list option" where
  "LNs_Append l c = Some (or_empty c @ l)"

definition RemoveByID :: "string \<Rightarrow> InvoiceStandardLine list option \<Rightarrow> InvoiceStandardLine list option \<times> bool" where
  "RemoveByID i c =
     (if GetByID (or_empty c) i = None then (c, False) else (Some (filter (\<lambda>l. mr_ID l \<noteq> i) (or_empty c)), True))"

definition SI_GetReferencedFeatureKeys :: "InvoiceStandardLine list option \<Rightarrow> string list result" where
  "SI_GetReferencedFeatureKeys c = (case c of None \<Rightarrow> Inr [] | Some ls \<Rightarrow> GetReferencedFeatureKeys ls)"

section \<open>Replacing lines\<close>

text \<open>A replacement takes the place of the line with its ID and keeps the snapshot of the line replaced.\<close>

definition replaced_by :: "InvoiceStandardLine list \<Rightarrow> InvoiceStandardLine \<Rightarrow> InvoiceStandardLine" where
  "replaced_by replacement l =
     (case GetByID replacement (mr_ID l) of None \<Rightarrow> l | Some r \<Rightarrow> r\<lparr>ln_DBState := ln_DBState l\<rparr>)"

lemma GetByID_Some: "GetByID c i = Some l \<Longrightarrow> l \<in> set c \<and> mr_ID l = i"
  by (auto simp: GetByID_def find_Some_iff)

lemma GetByID_None: "GetByID c i = None \<longleftrightarrow> i \<notin> mr_ID ` set c"
  by (auto simp: GetByID_def find_None_iff)

lemma replaced_by_ID [simp]: "mr_ID (replaced_by rs l) = mr_ID l"
  by (auto simp: replaced_by_def dest: GetByID_Some split: option.splits)

lemma ReplaceByID_map:
  assumes "distinct (map mr_ID c)" and "mr_ID n = i" and "i \<in> mr_ID ` set c"
  shows "ReplaceByID i n c = (map (replaced_by [n]) c, True)"
  using assms
proof (induction c)
  case (Cons l c)
  show ?case
  proof (cases "mr_ID l = i")
    case True
    then have "map (replaced_by [n]) c = c"
      using Cons.prems by (intro map_idI) (auto simp: replaced_by_def GetByID_def)
    then show ?thesis using True Cons.prems by (simp add: replaced_by_def [of _ l] GetByID_def)
  next
    case False
    then show ?thesis using Cons by (auto simp: replaced_by_def [of _ l] GetByID_def)
  qed
qed simp

lemma replaced_by_Cons:
  assumes "mr_ID n \<notin> mr_ID ` set rs"
  shows "replaced_by rs (replaced_by [n] l) = replaced_by (n # rs) l"
proof (cases "mr_ID n = mr_ID l")
  case True
  then have "GetByID rs (mr_ID l) = None" using assms by (simp add: GetByID_None)
  then show ?thesis using True by (simp add: replaced_by_def [of rs] replaced_by_def [of _ l] GetByID_def)
next
  case False
  then have "replaced_by [n] l = l" "GetByID (n # rs) (mr_ID l) = GetByID rs (mr_ID l)"
    by (simp_all add: replaced_by_def GetByID_def)
  then show ?thesis by (simp add: replaced_by_def)
qed

lemma replace_all_map:
  assumes "distinct (map mr_ID c)" and "distinct (map mr_ID rs)" and "mr_ID ` set rs \<subseteq> mr_ID ` set c"
  shows "replace_all rs c = (map (replaced_by rs) c, None)"
  using assms
proof (induction rs arbitrary: c)
  case Nil
  have "replaced_by [] = (\<lambda>l. l)" by (simp add: fun_eq_iff replaced_by_def GetByID_def)
  then show ?case by simp
next
  case (Cons n rs)
  have ids: "map mr_ID (map (replaced_by [n]) c) = map mr_ID c" by simp
  have dist: "distinct (map mr_ID (map (replaced_by [n]) c))" using Cons.prems(1) unfolding ids .
  have set_ids: "mr_ID ` set (map (replaced_by [n]) c) = mr_ID ` set c" by (metis ids list.set_map)
  have "replace_all rs (map (replaced_by [n]) c) = (map (replaced_by rs) (map (replaced_by [n]) c), None)"
    using Cons.prems set_ids by (intro Cons.IH [OF dist]) auto
  then show ?case
    using Cons.prems ReplaceByID_map [of c n "mr_ID n"] by (simp add: replaced_by_Cons)
qed

lemma ReplaceExact_cases:
  assumes "distinct (map mr_ID ls)" and "mr_ID ` set existing \<subseteq> mr_ID ` set ls" and "distinct (map mr_ID existing)"
  shows "ReplaceExact known existing replacement (Some ls) =
    (case ReplaceExact_Validate known existing replacement of
       Some e \<Rightarrow> (Some ls, Some e) | None \<Rightarrow> (Some (map (replaced_by replacement) ls), None))"
proof (cases "ReplaceExact_Validate known existing replacement")
  case None
  then have m: "mset (map mr_ID existing) = mset (map mr_ID replacement)"
    by (auto simp: ReplaceExact_Validate_def join_issue_errors_def ValidateStandardLineIDsMatchExactly_def Let_def err_of_def
        split: if_splits option.splits)
  then have s: "mr_ID ` set replacement = mr_ID ` set existing" "distinct (map mr_ID replacement)"
    using assms(3) mset_eq_setD [OF m] mset_eq_imp_distinct_iff [OF m] by simp_all
  then have "\<not> list_ex (\<lambda>line. GetByID ls (mr_ID line) = None) replacement"
    using assms(2) by (auto simp: list_ex_iff GetByID_None)
  then show ?thesis
    using None replace_all_map [OF assms(1) s(2)] s(1) assms(2) by (simp add: ReplaceExact_def ReplaceLinesByID_def)
qed (simp add: ReplaceExact_def)

text \<open>
  C39. A line engine can only replace its own lines, one for one. For a group of existing lines of an invoice
  whose line IDs are distinct, replacing them either fails in validation and leaves the lines untouched, or
  succeeds: then the IDs of the invoice and their order are the same, the lines outside the group are
  untouched, and every line of the group is the replacement of its ID with the stored snapshot of the line
  it replaces. The replacement is refused if its IDs are not exactly those of the group.
\<close>

theorem ReplaceExact_owned:
  assumes "distinct (map mr_ID ls)" and "set existing \<subseteq> set ls" and "distinct (map mr_ID existing)"
  shows "case ReplaceExact known existing replacement (Some ls) of
      (ls', Some _) \<Rightarrow> ls' = Some ls
    | (None, None) \<Rightarrow> False
    | (Some ls', None) \<Rightarrow> map mr_ID ls' = map mr_ID ls \<and> mset (map mr_ID replacement) = mset (map mr_ID existing) \<and>
        (\<forall>k < length ls. (mr_ID (ls ! k) \<notin> mr_ID ` set existing \<longrightarrow> ls' ! k = ls ! k) \<and>
          (\<forall>r \<in> set replacement. mr_ID r = mr_ID (ls ! k) \<longrightarrow> ls' ! k = r\<lparr>ln_DBState := ln_DBState (ls ! k)\<rparr>))"
proof -
  note c = ReplaceExact_cases [OF assms(1) image_mono [OF assms(2)] assms(3), of known replacement]
  show ?thesis
  proof (cases "ReplaceExact_Validate known existing replacement")
    case None
    then have m: "mset (map mr_ID replacement) = mset (map mr_ID existing)"
      by (auto simp: ReplaceExact_Validate_def join_issue_errors_def ValidateStandardLineIDsMatchExactly_def Let_def err_of_def
          split: if_splits option.splits)
    then have s: "mr_ID ` set replacement = mr_ID ` set existing" "distinct (map mr_ID replacement)"
      using assms(3) mset_eq_setD [OF m] mset_eq_imp_distinct_iff [OF m] by simp_all
    have "GetByID replacement i = Some r" if "r \<in> set replacement" "mr_ID r = i" for r i
    proof -
      have "GetByID replacement i \<noteq> None" using that by (auto simp: GetByID_None)
      then obtain r' where "GetByID replacement i = Some r'" by blast
      then show ?thesis using that s(2) GetByID_Some [of replacement i r'] by (auto simp: distinct_map dest: inj_onD)
    qed
    moreover have "GetByID replacement i = None" if "i \<notin> mr_ID ` set existing" for i
      using that s(1) by (simp add: GetByID_None)
    moreover have "map mr_ID (map (replaced_by replacement) ls) = map mr_ID ls" by simp
    ultimately show ?thesis using None c m by (simp add: replaced_by_def [of replacement "ls ! _"])
  qed (simp add: c)
qed

text \<open>A currency, and a line with a flat price of 10 dollars.\<close>

definition dollars_only :: known_currencies where
  "dollars_only code = (if code = ''USD'' then Some \<lparr>cd_ISOCode = ''USD'', cd_ISONumeric = ''840'', cd_Name = ''US Dollar'',
     cd_Symbol = ''$'', cd_Subunits = 2, cd_DecimalMark = ''.'', cd_ThousandsSeparator = '',''\<rparr> else None)"

definition flat_line :: "string \<Rightarrow> InvoiceStandardLine" where
  "flat_line i = sample_split_line\<lparr>mr_ID := i, mr_Name := ''fee'', ln_SplitLineGroupID := None, ln_SplitLineHierarchy := None,
     ln_Totals := TT_zero\<lparr>tt_Amount := 10, tt_Total := 10\<rparr>,
     ln_UsageBased := Some \<lparr>ub_ConfigID = [], ub_Price = Some (NewPriceFrom (AnyFlat \<lparr>fp_Amount = 10, fp_PaymentTerm = InArrearsPaymentTerm\<rparr>)),
       ub_FeatureKey = [], ub_Quantity = None, ub_MeteredQuantity = None, ub_PreLinePeriodQuantity = None,
       ub_MeteredPreLinePeriodQuantity = None, ub_UnitConfig = None\<rparr>\<rparr>"

lemma flat_line_valid [simp]: "LN_Validate dollars_only (flat_line i) = Some None"
  by (simp add: LN_Validate_def flat_line_def sample_split_line_def UB_Validate_def PR_Validate_def FromFlat_def FP_Validate_def
      PaymentTerm_Validate_def PaymentTerm_Values_def LNB_Validate_def CP_Validate_def IsZeroTime_def validateFiatCurrencyCode_def
      dollars_only_def ManagedBy_Values_def Engine_Validate_def ValidateTotalNonNegative_def TT_zero_def SD_Validate_def
      IDs_Validate_def DS_ValidateForPrice_def join_issue_errors_def err_of_def err_if_def join_errors_def nillable_validation_def
      empty_price_def)

lemma flat_line_simps [simp]: "mr_ID (flat_line i) = i" "ln_DBState (flat_line i) = None" "ln_Engine (flat_line i) = LineEngineTypeInvoice"
  "mr_DeletedAt (flat_line i) = None" "ln_Currency (flat_line i) = ''USD''"
  by (simp_all add: flat_line_def sample_split_line_def)

theorem ReplaceExact_owned_witness:
  "\<exists>ls'. ReplaceExact dollars_only [(flat_line ''a'')\<lparr>ln_DBState := Some 7\<rparr>] [(flat_line ''a'')\<lparr>ln_DBState := Some 1\<rparr>]
      (Some [(flat_line ''a'')\<lparr>ln_DBState := Some 7\<rparr>, flat_line ''b'']) = (Some ls', None) \<and>
    map mr_ID ls' = [''a'', ''b''] \<and> ln_DBState (ls' ! 0) = Some 7 \<and> ls' ! 1 = flat_line ''b''"
proof -
  let ?a = "(flat_line ''a'')\<lparr>ln_DBState := Some 7\<rparr>" and ?r = "(flat_line ''a'')\<lparr>ln_DBState := Some 1\<rparr>"
  have v: "LN_Validate dollars_only (l\<lparr>ln_DBState := d\<rparr>) = LN_Validate dollars_only l" for l d
    by (simp add: LN_Validate_def LNB_Validate_def cong: if_cong option.case_cong)
  have "ReplaceExact_Validate dollars_only [?a] [?r] = None"
    by (simp add: ReplaceExact_Validate_def LNs_Validate_def v ValidationWithFieldPrefix_def join_issue_errors_def or_panic_def
        ValidateStandardLineIDsMatchExactly_def err_of_def)
  then have ok: "snd (ReplaceExact dollars_only [?a] [?r] (Some [?a, flat_line ''b''])) = None"
    by (subst ReplaceExact_cases) simp_all
  show ?thesis
    using ReplaceExact_owned [where ls = "[?a, flat_line ''b'']" and existing = "[?a]" and known = dollars_only and replacement = "[?r]"] ok
    by (auto simp: less_Suc_eq split: prod.splits option.splits)
qed

end
