(* ===== verification/LineEngines.thy ===== *)
theory LineEngines
  imports StdInvoice
begin

text \<open>
  Line engines (openmeter/billing/lineengine.go) and their registry (openmeter/billing/service/lineengine.go).
  An engine is the record of the hooks that the service calls; its lines are pointers, so a hook returns,
  next to its result, the lines as it leaves them. Hooks that never see a standard invoice (billability,
  splitting, building lines) are left out, and the lock of the registry as well.
\<close>

section \<open>Engines\<close>

type_synonym lines = "InvoiceStandardLine list"
type_synonym lines_hook = "StandardInvoice \<Rightarrow> lines \<Rightarrow> lines \<times> (issue_error + lines)"
type_synonym event_hook = "StandardInvoice \<Rightarrow> lines \<Rightarrow> issue_error option"

text \<open>
  \<open>le_CalculateLines\<close> is set if the engine is a \<open>LineCalculator\<close>. Of the hook for lines edited through the
  API only deletions are modelled: its result is the lines it claims to have created and updated.
\<close>

record line_engine =
  le_Type :: LineEngineType
  le_CalculateLines :: "lines_hook option"
  le_OnCollectionCompleted :: lines_hook
  le_OnInvoiceFinalizing :: lines_hook
  le_OnInvoiceIssued :: event_hook
  le_OnPaymentAuthorized :: event_hook
  le_OnPaymentSettled :: event_hook
  le_OnMutableStandardLinesDeletedBySystem :: event_hook
  le_OnMutableInvoiceLinesDeletedViaAPI :: "StandardInvoice \<Rightarrow> lines \<Rightarrow> issue_error + lines \<times> lines"
  le_OnUnsupportedCreditNote :: event_hook

definition LineEngineValidationComponent :: "LineEngineType \<Rightarrow> string" where
  "LineEngineValidationComponent engineType = ''openmeter.lineengine.'' @ engine_string engineType"

definition NewLineEngineValidationError :: "line_engine option \<Rightarrow> issue_error option \<Rightarrow> issue_error option" where
  "NewLineEngineValidationError engine err =
     (case err of
        None \<Rightarrow> None
      | Some e \<Rightarrow>
          (case engine of
             None \<Rightarrow> Some (PlainError ''line engine is required'')
           | Some eng \<Rightarrow>
               let component = LineEngineValidationComponent (le_Type eng);
                   validationErr = ValidationWithComponent component (Some e)
               in if snd (ToValidationIssues validationErr) = None then validationErr
                  else ValidationWithComponent component (Some (IssueError
                    (issue SeverityCritical (Error_message e) ''line_engine_collection_completed_failed'' [] component)))))"

text \<open>\<open>StandardLineEventInput\<close> and \<open>CalculateLinesInput\<close>, which validate alike.\<close>

definition EventInput_Validate :: "known_currencies \<Rightarrow> StandardInvoice \<Rightarrow> lines \<Rightarrow> issue_error option" where
  "EventInput_Validate known invoice ls = join_issue_errors
     ((if si_ID invoice = [] then [PlainError ''invoice id is required''] else []) @
      (if length ls = 0 then [PlainError ''lines are required''] else []) @
      (case or_panic (LNs_Validate known ls) of None \<Rightarrow> [] | Some e \<Rightarrow> [wrap_issue ''lines'' e]))"

text \<open>What a hook left behind goes to where its lines are in the invoice: the hook keeps the IDs.\<close>

definition write_back :: "lines \<Rightarrow> lines \<Rightarrow> lines \<Rightarrow> lines" where
  "write_back grp after ls =
     map (\<lambda>l. case map_of (zip (map mr_ID grp) after) (mr_ID l) of None \<Rightarrow> l | Some a \<Rightarrow> a) ls"

section \<open>The registry\<close>

record engineRegistry =
  er_engines :: "LineEngineType \<rightharpoonup> line_engine"
  er_createLineRouter :: "(InvoiceStandardLine option \<Rightarrow> LineEngineType result) option"

definition newEngineRegistry :: engineRegistry where
  "newEngineRegistry = \<lparr>er_engines = Map.empty, er_createLineRouter = None\<rparr>"

definition ER_Register :: "line_engine option \<Rightarrow> engineRegistry \<Rightarrow> engineRegistry result" where
  "ER_Register eng r =
     (case eng of
        None \<Rightarrow> Inl (Err ''line engine is required'')
      | Some e \<Rightarrow>
          check_then (map_option (Wrap ''validating engine type'') (Engine_Validate (le_Type e)))
            (if er_engines r (le_Type e) \<noteq> None then Inl (Err ''engine is already registered'')
             else Inr (r\<lparr>er_engines := (er_engines r)(le_Type e \<mapsto> e)\<rparr>)))"

definition ER_Get :: "engineRegistry \<Rightarrow> LineEngineType \<Rightarrow> line_engine result" where
  "ER_Get r engineType =
     check_then (map_option (Wrap ''validating engine type'') (Engine_Validate engineType))
       (case er_engines r engineType of None \<Rightarrow> Inl (Err ''engine is not registered'') | Some eng \<Rightarrow> Inr eng)"

definition ER_Deregister :: "LineEngineType \<Rightarrow> engineRegistry \<Rightarrow> engineRegistry result" where
  "ER_Deregister engineType r =
     check_then (map_option (Wrap ''validating engine type'') (Engine_Validate engineType))
       (if er_engines r engineType = None then Inl (Err ''engine is not registered'')
        else Inr (r\<lparr>er_engines := (er_engines r)(engineType := None)\<rparr>))"

definition RegisterCreateLineRouter :: "(InvoiceStandardLine option \<Rightarrow> LineEngineType result) option
    \<Rightarrow> engineRegistry \<Rightarrow> engineRegistry result" where
  "RegisterCreateLineRouter router r =
     (if router = None then Inl (Err ''create line router is required'')
      else if er_createLineRouter r \<noteq> None then Inl (Err ''create line router is already registered'')
      else Inr (r\<lparr>er_createLineRouter := router\<rparr>))"

definition DefaultCreateLineRouter :: "InvoiceStandardLine option \<Rightarrow> LineEngineType result" where
  "DefaultCreateLineRouter line = (if line = None then Inl (Err ''line is required'') else Inr LineEngineTypeInvoice)"

definition GetCreateLineRouter :: "engineRegistry \<Rightarrow> InvoiceStandardLine option \<Rightarrow> LineEngineType result" where
  "GetCreateLineRouter r = (case er_createLineRouter r of Some router \<Rightarrow> router | None \<Rightarrow> DefaultCreateLineRouter)"

definition populateStandardLineEngine :: "InvoiceStandardLine \<Rightarrow> InvoiceStandardLine \<times> error option" where
  "populateStandardLineEngine line =
     (if ln_Engine line \<noteq> NoLineEngineType then (line, Engine_Validate (ln_Engine line))
      else (line\<lparr>ln_Engine := LineEngineTypeInvoice\<rparr>, None))"

text \<open>
  The map of \<open>lo.GroupBy\<close> is visited in the order \<open>ord\<close> of its keys; the first engine that is missing ends the
  grouping.
\<close>

type_synonym map_order = "LineEngineType list \<Rightarrow> LineEngineType list"

definition lines_of :: "LineEngineType \<Rightarrow> lines \<Rightarrow> lines" where
  "lines_of engineType ls = filter (\<lambda>l. ln_Engine l = engineType) ls"

fun group_engines :: "engineRegistry \<Rightarrow> lines \<Rightarrow> LineEngineType list \<Rightarrow> (line_engine \<times> lines) list result" where
  "group_engines r ls [] = Inr []"
| "group_engines r ls (engineType # types) =
     (case ER_Get r engineType of
        Inl e \<Rightarrow> Inl (Wrap ''getting engine'' e)
      | Inr eng \<Rightarrow> bind_result (group_engines r ls types) (\<lambda>rest. Inr ((eng, lines_of engineType ls) # rest)))"

definition groupStandardLinesByEngine :: "map_order \<Rightarrow> engineRegistry \<Rightarrow> lines \<Rightarrow> (line_engine \<times> lines) list result" where
  "groupStandardLinesByEngine ord r ls = group_engines r ls (ord (uniq (map ln_Engine ls)))"

text \<open>
  The loop shared by the hooks that return only an error: \<open>OnInvoiceIssued\<close>, \<open>OnPaymentAuthorized\<close>,
  \<open>OnPaymentSettled\<close>, the system deletions and \<open>OnUnsupportedCreditNote\<close>.
\<close>

fun notify_engines :: "known_currencies \<Rightarrow> (line_engine \<Rightarrow> event_hook) \<Rightarrow> string \<Rightarrow> StandardInvoice
    \<Rightarrow> (line_engine \<times> lines) list \<Rightarrow> issue_error option" where
  "notify_engines known hook what invoice [] = None"
| "notify_engines known hook what invoice ((eng, ls) # groups) =
     (case EventInput_Validate known invoice ls of
        Some e \<Rightarrow> Some (wrap_issue (''validating '' @ what @ '' input for engine'') e)
      | None \<Rightarrow>
          (case hook eng invoice ls of
             Some e \<Rightarrow> NewLineEngineValidationError (Some eng) (Some e)
           | None \<Rightarrow> notify_engines known hook what invoice groups))"

definition notify_lines :: "known_currencies \<Rightarrow> map_order \<Rightarrow> engineRegistry \<Rightarrow> (line_engine \<Rightarrow> event_hook) \<Rightarrow> string
    \<Rightarrow> StandardInvoice \<Rightarrow> lines \<Rightarrow> issue_error option" where
  "notify_lines known ord r hook what invoice ls =
     (case groupStandardLinesByEngine ord r ls of
        Inl e \<Rightarrow> Some (wrap_issue ''grouping standard lines by engine'' (go_error e))
      | Inr groups \<Rightarrow> notify_engines known hook what invoice groups)"

definition OnUnsupportedCreditNote :: "known_currencies \<Rightarrow> map_order \<Rightarrow> engineRegistry \<Rightarrow> StandardInvoice \<Rightarrow> lines \<Rightarrow> issue_error option" where
  "OnUnsupportedCreditNote known ord r invoice ls =
     (case EventInput_Validate known invoice ls of
        Some e \<Rightarrow> Some (wrap_issue ''validating unsupported credit note input'' e)
      | None \<Rightarrow> notify_lines known ord r le_OnUnsupportedCreditNote ''unsupported credit note'' invoice ls)"

text \<open>Deletions (openmeter/billing/service/invoiceupdate.go).\<close>

definition dispatchSystemStandardLineDeletions :: "known_currencies \<Rightarrow> map_order \<Rightarrow> engineRegistry \<Rightarrow> StandardInvoice \<Rightarrow> lines
    \<Rightarrow> issue_error option" where
  "dispatchSystemStandardLineDeletions known ord r invoice deletedLines =
     (if length deletedLines = 0 then None
      else case EventInput_Validate known invoice deletedLines of
             Some e \<Rightarrow> Some (wrap_issue ''validating mutable standard lines deleted by system input'' e)
           | None \<Rightarrow> notify_lines known ord r le_OnMutableStandardLinesDeletedBySystem
               ''mutable standard lines deleted by system'' invoice deletedLines)"

fun delete_via_api :: "engineRegistry \<Rightarrow> StandardInvoice \<Rightarrow> lines \<Rightarrow> LineEngineType list \<Rightarrow> issue_error option" where
  "delete_via_api r invoice ls [] = None"
| "delete_via_api r invoice ls (engineType # types) =
     (case ER_Get r engineType of
        Inl e \<Rightarrow> Some (wrap_issue ''getting engine'' (go_error e))
      | Inr eng \<Rightarrow>
          (case le_OnMutableInvoiceLinesDeletedViaAPI eng invoice (lines_of engineType ls) of
             Inl e \<Rightarrow> NewLineEngineValidationError (Some eng) (Some e)
           | Inr (created, updated) \<Rightarrow>
               if created \<noteq> [] then Some (PlainError ''validating API invoice line delete created output for engine'')
               else if updated \<noteq> [] then Some (PlainError ''validating API invoice line delete updated output for engine'')
               else delete_via_api r invoice ls types))"

text \<open>
  \<open>dispatchAPIStandardLineDeletions\<close> fills in the engine of the lines it is given, which the caller keeps. The
  resolvers of default tax codes that go with the input are taken to be valid.
\<close>

definition dispatchAPIStandardLineDeletions :: "known_currencies \<Rightarrow> map_order \<Rightarrow> engineRegistry \<Rightarrow> StandardInvoice \<Rightarrow> lines
    \<Rightarrow> lines \<times> issue_error option" where
  "dispatchAPIStandardLineDeletions known ord r invoice deletedLinesIn =
     (if length deletedLinesIn = 0 then (deletedLinesIn, None)
      else let ls = map (\<lambda>l. fst (populateStandardLineEngine l)) deletedLinesIn;
               errs = concat (map (\<lambda>l. err_of (Wrap ''line: inferring engine'') (snd (populateStandardLineEngine l))) deletedLinesIn)
      in (ls, case join_errors errs of
           Some e \<Rightarrow> Some (go_error e)
         | None \<Rightarrow>
             (case or_panic (map_option (\<lambda>errs. if errs = [] then None else Some (JoinedErrors errs))
                 (if None \<in> set (map (LN_Validate known) ls) then None
                  else Some (List.map_filter (\<lambda>l. the (LN_Validate known l)) ls))) of
                Some e \<Rightarrow> Some (wrap_issue ''validating mutable invoice line delete input'' e)
              | None \<Rightarrow> delete_via_api r invoice ls (ord (uniq (map ln_Engine ls))))))"

section \<open>Every line has one engine\<close>

lemma set_uniq [simp]: "set (uniq xs) = set xs"
  by (induction xs rule: uniq.induct) auto

lemma distinct_uniq [simp]: "distinct (uniq xs)"
  by (induction xs rule: uniq.induct) auto

lemma group_engines_lines: "group_engines r ls types = Inr groups \<Longrightarrow> map snd groups = map (\<lambda>t. lines_of t ls) types"
  by (induction types arbitrary: groups) (auto simp: result_simps split: sum.splits)

lemma group_engines_member:
  "group_engines r ls types = Inr groups \<Longrightarrow> (eng, grp) \<in> set groups \<Longrightarrow>
    \<exists>t \<in> set types. er_engines r t = Some eng \<and> grp = lines_of t ls"
proof (induction types arbitrary: groups)
  case (Cons t types)
  then show ?case by (auto simp: result_simps ER_Get_def split: sum.splits option.splits)
qed simp

lemma concat_lines_of:
  assumes "distinct types" and "ln_Engine ` set ls \<subseteq> set types"
  shows "mset (concat (map (\<lambda>t. lines_of t ls) types)) = mset ls"
proof (rule multiset_eqI)
  fix x
  have "count (mset (concat (map (\<lambda>t. lines_of t ls) types))) x =
      (\<Sum>t \<leftarrow> types. if ln_Engine x = t then count (mset ls) x else 0)"
    by (induction types) (simp_all add: lines_of_def mset_filter count_filter_mset)
  also have "\<dots> = (if ln_Engine x \<in> set types then count (mset ls) x else 0)"
    using assms(1) by (induction types) auto
  also have "\<dots> = count (mset ls) x" using assms(2) by (auto simp: count_eq_zero_iff)
  finally show "count (mset (concat (map (\<lambda>t. lines_of t ls) types))) x = count (mset ls) x" .
qed

text \<open>
  Grouping lines by engine hands every line to exactly one engine, in whatever order the map of groups
  is visited: the groups together hold the lines, each as often as the invoice, no group is empty, every
  line of a group names the type that its engine is registered for, and the lines of a group keep the order of
  the invoice.
\<close>

theorem groupStandardLinesByEngine_partition:
  assumes "\<And>ts. mset (ord ts) = mset ts" and "groupStandardLinesByEngine ord r ls = Inr groups"
  shows "mset (concat (map snd groups)) = mset ls \<and> (\<forall>(eng, grp) \<in> set groups. grp \<noteq> [] \<and>
    (\<exists>t. er_engines r t = Some eng \<and> grp = filter (\<lambda>l. ln_Engine l = t) ls))"
proof -
  let ?ts = "ord (uniq (map ln_Engine ls))"
  have s: "set ?ts = ln_Engine ` set ls" "distinct ?ts"
    using mset_eq_setD [OF assms(1)] mset_eq_imp_distinct_iff [OF assms(1)] by simp_all
  note g = assms(2) [unfolded groupStandardLinesByEngine_def]
  have "mset (concat (map snd groups)) = mset ls"
    unfolding group_engines_lines [OF g] by (rule concat_lines_of) (simp_all add: s)
  moreover have "grp \<noteq> [] \<and> (\<exists>t. er_engines r t = Some eng \<and> grp = filter (\<lambda>l. ln_Engine l = t) ls)"
    if m: "(eng, grp) \<in> set groups" for eng grp
  proof -
    obtain t where t: "t \<in> ln_Engine ` set ls" "er_engines r t = Some eng" "grp = lines_of t ls"
      using group_engines_member [OF g m] s(1) by blast
    then show ?thesis by (auto simp: lines_of_def filter_empty_conv)
  qed
  ultimately show ?thesis by blast
qed

text \<open>An engine that accepts everything and changes nothing.\<close>

definition quiet_engine :: "LineEngineType \<Rightarrow> line_engine" where
  "quiet_engine t = \<lparr>le_Type = t, le_CalculateLines = None, le_OnCollectionCompleted = (\<lambda>i ls. (ls, Inr ls)),
     le_OnInvoiceFinalizing = (\<lambda>i ls. (ls, Inr ls)), le_OnInvoiceIssued = (\<lambda>i ls. None),
     le_OnPaymentAuthorized = (\<lambda>i ls. None), le_OnPaymentSettled = (\<lambda>i ls. None),
     le_OnMutableStandardLinesDeletedBySystem = (\<lambda>i ls. None), le_OnMutableInvoiceLinesDeletedViaAPI = (\<lambda>i ls. Inr ([], [])),
     le_OnUnsupportedCreditNote = (\<lambda>i ls. None)\<rparr>"

definition quiet_registry :: engineRegistry where
  "quiet_registry = \<lparr>er_engines = (\<lambda>t. if Engine_Validate t = None then Some (quiet_engine t) else None), er_createLineRouter = None\<rparr>"

theorem groupStandardLinesByEngine_partition_witness:
  "\<exists>groups. groupStandardLinesByEngine rev quiet_registry
      [flat_line ''a'', (flat_line ''b'')\<lparr>ln_Engine := LineEngineTypeChargeFlatFee\<rparr>, flat_line ''c''] = Inr groups \<and>
    mset (concat (map snd groups)) = mset [flat_line ''a'', (flat_line ''b'')\<lparr>ln_Engine := LineEngineTypeChargeFlatFee\<rparr>, flat_line ''c'']"
proof -
  let ?ls = "[flat_line ''a'', (flat_line ''b'')\<lparr>ln_Engine := LineEngineTypeChargeFlatFee\<rparr>, flat_line ''c'']"
  have "\<exists>groups. groupStandardLinesByEngine rev quiet_registry ?ls = Inr groups"
    by (simp add: groupStandardLinesByEngine_def quiet_registry_def ER_Get_def Engine_Validate_def)
  then show ?thesis using groupStandardLinesByEngine_partition [of rev quiet_registry ?ls, OF mset_rev] by blast
qed

end
