(* ===== verification/InvoiceCalc.thy ===== *)
theory InvoiceCalc
  imports LineEngines
begin

text \<open>
  The calculations that derive the fields of a standard invoice (openmeter/billing/service/invoicecalc) and the
  results an invoicing app merges into it (openmeter/billing/app.go). A calculation returns the changed
  invoice with its error. The clock, the fresh ULIDs, the order of maps and the sign test of the period
  library are parameters.
\<close>

section \<open>Results of apps\<close>

text \<open>A map of IDs is its list of entries, one for each key.\<close>

type_synonym id_map = "(string \<times> string) list"

definition map_delete :: "string list \<Rightarrow> id_map \<Rightarrow> id_map" where
  "map_delete ks m = filter (\<lambda>(k, v). k \<notin> set ks) m"

record UpsertResults =
  ur_invoiceNumber :: string
  ur_externalID :: string
  ur_lineExternalIDs :: id_map
  ur_lineDiscountExternalIDs :: id_map

record FinalizeStandardInvoiceResult =
  fr_invoiceNumber :: string
  fr_paymentExternalID :: string
  fr_sentToCustomerAt :: "time option"

definition FR_MergeIntoInvoice :: "FinalizeStandardInvoiceResult \<Rightarrow> StandardInvoice \<Rightarrow> StandardInvoice \<times> issue_error option" where
  "FR_MergeIntoInvoice f i =
     (let i = (if fr_paymentExternalID f \<noteq> [] then i\<lparr>si_ExternalIDs := (si_ExternalIDs i)\<lparr>xe_Payment := fr_paymentExternalID f\<rparr>\<rparr> else i);
          i = (if fr_invoiceNumber f \<noteq> [] then i\<lparr>si_Number := fr_invoiceNumber f\<rparr> else i)
      in (case fr_sentToCustomerAt f of None \<Rightarrow> i | Some t \<Rightarrow> i\<lparr>si_SentToCustomerAt := Some t\<rparr>, None))"

fun merge_detailed :: "InvoiceDetailedLine list \<Rightarrow> id_map \<Rightarrow> id_map \<Rightarrow> InvoiceDetailedLine list \<times> id_map \<times> id_map" where
  "merge_detailed [] lineIDs discountIDs = ([], lineIDs, discountIDs)"
| "merge_detailed (d # ds) lineIDs discountIDs =
     (let (d, lineIDs) = (case map_of lineIDs (mr_ID d) of
            None \<Rightarrow> (d, lineIDs)
          | Some x \<Rightarrow> (d\<lparr>db_ExternalIDs := (db_ExternalIDs d)\<lparr>xi_Invoicing := x\<rparr>\<rparr>, map_delete [mr_ID d] lineIDs));
          (d, foundIDs) = ID_SetDiscountExternalIDs (map_of discountIDs) d;
          (ds, lineIDs, discountIDs) = merge_detailed ds lineIDs (map_delete foundIDs discountIDs)
      in (d # ds, lineIDs, discountIDs))"

fun merge_lines :: "lines \<Rightarrow> id_map \<Rightarrow> id_map \<Rightarrow> lines \<times> id_map \<times> id_map" where
  "merge_lines [] lineIDs discountIDs = ([], lineIDs, discountIDs)"
| "merge_lines (l # ls) lineIDs discountIDs =
     (let (l, lineIDs) = (case map_of lineIDs (mr_ID l) of
            None \<Rightarrow> (l, lineIDs)
          | Some x \<Rightarrow> (l\<lparr>ln_ExternalIDs := (ln_ExternalIDs l)\<lparr>xi_Invoicing := x\<rparr>\<rparr>, map_delete [mr_ID l] lineIDs));
          (l, foundIDs) = SetDiscountExternalIDs (map_of discountIDs) l;
          (ds, lineIDs, discountIDs) = merge_detailed (ln_DetailedLines l) lineIDs (map_delete foundIDs discountIDs);
          (ls, lineIDs, discountIDs) = merge_lines ls lineIDs discountIDs
      in (l\<lparr>ln_DetailedLines := ds\<rparr> # ls, lineIDs, discountIDs))"

definition UR_MergeIntoInvoice :: "UpsertResults \<Rightarrow> StandardInvoice \<Rightarrow> StandardInvoice \<times> issue_error option" where
  "UR_MergeIntoInvoice r i =
     (let i = (if ur_invoiceNumber r \<noteq> [] then i\<lparr>si_Number := ur_invoiceNumber r\<rparr> else i);
          i = (if ur_externalID r \<noteq> [] then i\<lparr>si_ExternalIDs := (si_ExternalIDs i)\<lparr>xe_Invoicing := ur_externalID r\<rparr>\<rparr> else i)
      in case si_Lines i of
           None \<Rightarrow> (i, Some (PlainError ''invoice has no expanded lines''))
         | Some ls \<Rightarrow>
             (let (ls', lineIDs, discountIDs) = merge_lines ls (ur_lineExternalIDs r) (ur_lineDiscountExternalIDs r);
                  outErr = (if lineIDs \<noteq> [] then join_issue None (PlainError ''some lines were not found in the invoice'') else None);
                  outErr = (if discountIDs \<noteq> [] then join_issue outErr (PlainError ''some line discounts were not found in the invoice'')
                            else outErr)
              in (i\<lparr>si_Lines := Some ls'\<rparr>, outErr)))"

section \<open>Dates\<close>

text \<open>\<open>positive\<close> is the sign test \<open>IsPositive\<close> of the period library.\<close>

definition resolveStandardLineCollectionAt :: "(ISODuration \<Rightarrow> bool) \<Rightarrow> ISODuration \<Rightarrow> InvoiceStandardLine \<Rightarrow> time" where
  "resolveStandardLineCollectionAt positive interval line =
     (case ln_OverrideCollectionPeriodEnd line of
        Some e \<Rightarrow> e
      | None \<Rightarrow> if positive interval then fst (AddTo interval (ln_InvoiceAt line)) else ln_InvoiceAt line)"

definition collectable :: "InvoiceStandardLine \<Rightarrow> bool option" where
  "collectable line =
     (if mr_DeletedAt line \<noteq> None then Some False
      else map_option (\<lambda>d. d \<or> ln_OverrideCollectionPeriodEnd line \<noteq> None) (DependsOnMeteredQuantity line))"

definition latest_time :: "time list \<Rightarrow> time option" where
  "latest_time ts = (case ts of [] \<Rightarrow> None | t # ts' \<Rightarrow> Some (foldl (\<lambda>acc x. if x > acc then x else acc) t ts'))"

definition StandardInvoiceCollectionAt :: "(ISODuration \<Rightarrow> bool) \<Rightarrow> StandardInvoice \<Rightarrow> StandardInvoice \<times> issue_error option" where
  "StandardInvoiceCollectionAt positive i =
     (let i = i\<lparr>si_CollectionAt := None\<rparr>
      in case si_Lines i of
           None \<Rightarrow> (i, Some (PlainError ''lines must be expanded''))
         | Some ls \<Rightarrow>
             if None \<in> set (map collectable ls) then (i, or_panic None)
             else let collectableLines = filter (\<lambda>l. collectable l = Some True) ls
             in (i\<lparr>si_CollectionAt := latest_time
                  (map (resolveStandardLineCollectionAt positive (wf_CollectionInterval (si_Workflow i))) collectableLines)\<rparr>, None))"

definition CalculateDraftUntil :: "StandardInvoice \<Rightarrow> StandardInvoice \<times> issue_error option" where
  "CalculateDraftUntil i =
     (let cfg = wf_Invoicing (si_Workflow i)
      in if \<not> ic_AutoAdvance cfg then (i\<lparr>si_DraftUntil := None\<rparr>, None)
         else let collectionAt = (case si_CollectionAt i of None \<Rightarrow> si_CreatedAt i | Some t \<Rightarrow> t);
                  collectionAt = max collectionAt (si_CreatedAt i)
              in (i\<lparr>si_DraftUntil := Some (fst (AddTo (ic_DraftPeriod cfg) collectionAt))\<rparr>, None))"

definition CalculateDueAt :: "StandardInvoice \<Rightarrow> StandardInvoice \<times> issue_error option" where
  "CalculateDueAt i =
     (let cfg = wf_Invoicing (si_Workflow i);
          due = (\<lambda>t. i\<lparr>si_DueAt := Some (Truncate nsSecond (fst (AddTo (ic_DueAfter cfg) t)))\<rparr>)
      in if \<not> ic_AutoAdvance cfg
         then (case si_IssuedAt i of None \<Rightarrow> (i, None) | Some t \<Rightarrow> (due t, None))
         else (case si_DraftUntil i of None \<Rightarrow> (i, None) | Some t \<Rightarrow> (due t, None)))"

definition extend_period :: "ClosedPeriod option \<Rightarrow> InvoiceStandardLine \<Rightarrow> ClosedPeriod option" where
  "extend_period acc line =
     (if mr_DeletedAt line \<noteq> None then acc
      else case acc of
             None \<Rightarrow> Some \<lparr>cp_From = cp_From (ln_Period line), cp_To = cp_To (ln_Period line)\<rparr>
           | Some p \<Rightarrow>
               let p = (if cp_From (ln_Period line) < cp_From p then p\<lparr>cp_From := cp_From (ln_Period line)\<rparr> else p);
                   p = (if cp_To (ln_Period line) > cp_To p then p\<lparr>cp_To := cp_To (ln_Period line)\<rparr> else p)
               in Some p)"

definition CalculateStandardInvoiceServicePeriod :: "StandardInvoice \<Rightarrow> StandardInvoice \<times> issue_error option" where
  "CalculateStandardInvoiceServicePeriod i =
     (i\<lparr>si_Period := foldl extend_period None (or_empty (si_Lines i))\<rparr>, None)"

section \<open>Lines and totals\<close>

text \<open>Fresh identifiers are numbered; two of them go to every line.\<close>

definition UpsertDiscountCorrelationIDs :: "(nat \<Rightarrow> string) \<Rightarrow> StandardInvoice \<Rightarrow> StandardInvoice \<times> issue_error option" where
  "UpsertDiscountCorrelationIDs ulid i =
     (i\<lparr>si_Lines := map_option (\<lambda>ls. map2 (\<lambda>k l. l\<lparr>ln_RateCardDiscounts :=
        UpsertCorrelationIDs (ulid (2 * k)) (ulid (2 * k + 1)) (ln_RateCardDiscounts l)\<rparr>) [0..<length ls] ls) (si_Lines i)\<rparr>, None)"

definition RecalculateTotals :: "time \<Rightarrow> StandardInvoice \<Rightarrow> StandardInvoice \<times> issue_error option" where
  "RecalculateTotals now i =
     (case si_Lines i of
        None \<Rightarrow> (i, Some (PlainError ''cannot recalculate invoice totals without expanded lines''))
      | Some ls \<Rightarrow> (i\<lparr>si_Totals := TT_Sum (map (\<lambda>line. if IsDeleted now line then TT_zero else ln_Totals line) ls)\<rparr>, None))"

text \<open>What the calculations depend on: the currencies, the clock, the registry and the order of its maps.\<close>

record calc_deps =
  cd_Known :: known_currencies
  cd_Now :: time
  cd_Positive :: "ISODuration \<Rightarrow> bool"
  cd_Ulid :: "nat \<Rightarrow> string"
  cd_LineEngines :: engineRegistry
  cd_Order :: map_order
  cd_TaxCodes :: "string \<rightharpoonup> TaxCode"

text \<open>The loop over the groups of active lines; an error ends the calculation before the totals are summed.\<close>

fun recalculate_groups :: "calc_deps \<Rightarrow> lines \<Rightarrow> LineEngineType list \<Rightarrow> StandardInvoice \<Rightarrow> StandardInvoice \<times> issue_error option" where
  "recalculate_groups deps active [] i = (i, None)"
| "recalculate_groups deps active (t # ts) i =
     (if HasLineSnapshotValidationIssueForComponent i (LineEngineValidationComponent t)
      then recalculate_groups deps active ts i
      else case ER_Get (cd_LineEngines deps) t of
             Inl e \<Rightarrow> (i, Some (wrap_issue ''getting line engine'' (go_error e)))
           | Inr eng \<Rightarrow>
               (case le_CalculateLines eng of
                  None \<Rightarrow> recalculate_groups deps active ts i
                | Some calculate \<Rightarrow>
                    let stdLines = lines_of t active
                    in case EventInput_Validate (cd_Known deps) i stdLines of
                         Some e \<Rightarrow> (i, Some (wrap_issue ''validating calculate lines input for engine'' e))
                       | None \<Rightarrow>
                           (case calculate i stdLines of
                              (after, res) \<Rightarrow>
                                let i = i\<lparr>si_Lines := map_option (write_back stdLines after) (si_Lines i)\<rparr>
                                in case res of
                                     Inl e \<Rightarrow> (i, Some (wrap_issue ''calculating lines for engine'' e))
                                   | Inr updatedLines \<Rightarrow>
                                       (case ReplaceExact (cd_Known deps) after updatedLines (si_Lines i) of
                                          (ls', Some e) \<Rightarrow>
                                            (i\<lparr>si_Lines := ls'\<rparr>, Some (wrap_issue ''replacing recalculated lines for engine'' e))
                                        | (ls', None) \<Rightarrow> recalculate_groups deps active ts (i\<lparr>si_Lines := ls'\<rparr>)))))"

definition RecalculateDetailedLinesAndTotals :: "calc_deps \<Rightarrow> StandardInvoice \<Rightarrow> StandardInvoice \<times> issue_error option" where
  "RecalculateDetailedLinesAndTotals deps i =
     (case si_Lines i of
        None \<Rightarrow> (i, Some (PlainError ''cannot recaulculate invoice without expanded lines''))
      | Some ls \<Rightarrow>
          let active = filter (\<lambda>l. \<not> IsDeleted (cd_Now deps) l) ls
          in case recalculate_groups deps active (cd_Order deps (uniq (map ln_Engine active))) i of
               (i, Some e) \<Rightarrow> (i, Some e)
             | (i, None) \<Rightarrow> (case RecalculateTotals (cd_Now deps) i of (i, err) \<Rightarrow> (i, join_opt None err)))"

definition snapshot_tax :: "calc_deps \<Rightarrow> TaxConfig option \<Rightarrow> InvoiceStandardLine \<Rightarrow> InvoiceStandardLine" where
  "snapshot_tax deps defaultConfig line =
     (let cfg = MergeTaxConfigs (FromProductCatalog defaultConfig) (ln_TaxConfig line)
      in line\<lparr>ln_TaxConfig := (case cfg of
           None \<Rightarrow> None
         | Some c \<Rightarrow>
             (case tx_Stripe c of
                None \<Rightarrow> Some c
              | Some st \<Rightarrow>
                  (case cd_TaxCodes deps (st_Code st) of
                     None \<Rightarrow> Some c
                   | Some tc \<Rightarrow>
                       let c = (if tx_TaxCodeID c = None then c\<lparr>tx_TaxCodeID := Some (tc_ID tc)\<rparr> else c)
                       in Some (c\<lparr>bt_TaxCode := Some tc\<rparr>))))\<rparr>)"

definition SnapshotTaxConfigIntoLines :: "calc_deps \<Rightarrow> StandardInvoice \<Rightarrow> StandardInvoice \<times> issue_error option" where
  "SnapshotTaxConfigIntoLines deps i =
     (if si_Status i = Gathering then (i, None)
      else (i\<lparr>si_Lines := map_option (map (snapshot_tax deps (ic_DefaultTaxConfig (wf_Invoicing (si_Workflow i))))) (si_Lines i)\<rparr>, None))"

text \<open>Each new detailed line of line \<open>k\<close> gets the fresh identifier after those of the discounts.\<close>

definition fill_meta :: "(nat \<Rightarrow> string) \<Rightarrow> time \<Rightarrow> nat \<Rightarrow> InvoiceDetailedLine \<Rightarrow> InvoiceDetailedLine" where
  "fill_meta ulid now k child =
     child\<lparr>mr_ID := (if mr_ID child = [] then ulid k else mr_ID child),
       mr_CreatedAt := (if IsZeroTime (mr_CreatedAt child) then now else mr_CreatedAt child),
       mr_UpdatedAt := (if IsZeroTime (mr_UpdatedAt child) then now else mr_UpdatedAt child)\<rparr>"

fun fill_lines :: "(nat \<Rightarrow> string) \<Rightarrow> time \<Rightarrow> nat \<Rightarrow> lines \<Rightarrow> lines" where
  "fill_lines ulid now k [] = []"
| "fill_lines ulid now k (l # ls) =
     l\<lparr>ln_DetailedLines := map2 (\<lambda>j d. fill_meta ulid now (k + j) d) [0..<length (ln_DetailedLines l)] (ln_DetailedLines l)\<rparr>
     # fill_lines ulid now (k + length (ln_DetailedLines l)) ls"

definition FillGatheringDetailedLineMeta :: "(nat \<Rightarrow> string) \<Rightarrow> time \<Rightarrow> StandardInvoice \<Rightarrow> StandardInvoice \<times> issue_error option" where
  "FillGatheringDetailedLineMeta ulid now i =
     (i\<lparr>si_Lines := map_option (\<lambda>ls. fill_lines ulid now (2 * length ls) ls) (si_Lines i)\<rparr>, None)"

section \<open>The calculator\<close>

definition InvoiceCalculations :: "calc_deps \<Rightarrow> (StandardInvoice \<Rightarrow> StandardInvoice \<times> issue_error option) list" where
  "InvoiceCalculations deps =
     [StandardInvoiceCollectionAt (cd_Positive deps), CalculateDraftUntil, CalculateDueAt,
      UpsertDiscountCorrelationIDs (cd_Ulid deps), RecalculateDetailedLinesAndTotals deps,
      CalculateStandardInvoiceServicePeriod, SnapshotTaxConfigIntoLines deps]"

definition GatheringInvoiceWithLiveData :: "calc_deps \<Rightarrow> (StandardInvoice \<Rightarrow> StandardInvoice \<times> issue_error option) list" where
  "GatheringInvoiceWithLiveData deps =
     [UpsertDiscountCorrelationIDs (cd_Ulid deps), StandardInvoiceCollectionAt (cd_Positive deps),
      RecalculateDetailedLinesAndTotals deps, CalculateStandardInvoiceServicePeriod, SnapshotTaxConfigIntoLines deps,
      FillGatheringDetailedLineMeta (cd_Ulid deps) (cd_Now deps)]"

fun run_calculations :: "(StandardInvoice \<Rightarrow> StandardInvoice \<times> issue_error option) list \<Rightarrow> issue_error option
    \<Rightarrow> StandardInvoice \<Rightarrow> StandardInvoice \<times> issue_error option" where
  "run_calculations [] outErr i = (i, outErr)"
| "run_calculations (calc # calcs) outErr i = (case calc i of (i', err) \<Rightarrow> run_calculations calcs (join_opt outErr err) i')"

definition ValidationComponentOpenMeter :: string where "ValidationComponentOpenMeter = ''openmeter''"

definition applyCalculations :: "(StandardInvoice \<Rightarrow> StandardInvoice \<times> issue_error option) list \<Rightarrow> StandardInvoice
    \<Rightarrow> StandardInvoice \<times> issue_error option" where
  "applyCalculations calculators i =
     (case run_calculations calculators None i of
        (i', outErr) \<Rightarrow> SI_MergeValidationIssues (ValidationWithComponent ValidationComponentOpenMeter outErr)
          ValidationComponentOpenMeter i')"

definition Calculate :: "calc_deps \<Rightarrow> StandardInvoice \<Rightarrow> StandardInvoice \<times> issue_error option" where
  "Calculate deps i = applyCalculations (InvoiceCalculations deps) i"

definition CalculateGatheringInvoiceWithLiveData :: "calc_deps \<Rightarrow> StandardInvoice \<Rightarrow> StandardInvoice \<times> issue_error option" where
  "CalculateGatheringInvoiceWithLiveData deps i =
     (if si_Status i \<noteq> Gathering then (i, Some (PlainError ''invoice is not a gathering invoice''))
      else applyCalculations (GatheringInvoiceWithLiveData deps) i)"

text \<open>\<open>resolveTaxCodes\<close> (openmeter/billing/service/taxcode.go) visits the codes seen, here in the order of first use.\<close>

definition stripe_codes :: "StandardInvoice \<Rightarrow> string list" where
  "stripe_codes i = uniq (filter (\<lambda>c. c \<noteq> [])
     (List.map_filter (\<lambda>cfg. map_option st_Code (Option.bind cfg tx_Stripe))
       [ic_DefaultTaxConfig (wf_Invoicing (si_Workflow i))] @
      List.map_filter (\<lambda>cfg. map_option st_Code (Option.bind cfg tx_Stripe)) (map ln_TaxConfig (or_empty (si_Lines i)))))"

fun resolve_codes :: "tax_service \<Rightarrow> bool \<Rightarrow> string \<Rightarrow> string list \<Rightarrow> (string \<rightharpoonup> TaxCode) \<Rightarrow> (string \<rightharpoonup> TaxCode) result" where
  "resolve_codes s readOnly ns [] acc = Inr acc"
| "resolve_codes s readOnly ns (code # codes) acc =
     (if readOnly
      then (case ts_GetTaxCodeByAppMapping s ns AppTypeStripe code of
              Inl e \<Rightarrow> (if ts_IsTaxCodeNotFoundError s e then resolve_codes s readOnly ns codes acc
                       else Inl (Wrap ''resolving tax code'' e))
            | Inr tc \<Rightarrow> resolve_codes s readOnly ns codes (acc(code \<mapsto> tc)))
      else (case ts_GetOrCreateByAppMapping s ns AppTypeStripe code of
              Inl e \<Rightarrow> Inl (Wrap ''resolving tax code'' e)
            | Inr tc \<Rightarrow> resolve_codes s readOnly ns codes (acc(code \<mapsto> tc))))"

definition resolveTaxCodes :: "tax_service \<Rightarrow> bool \<Rightarrow> StandardInvoice \<Rightarrow> (string \<rightharpoonup> TaxCode) result" where
  "resolveTaxCodes s readOnly i = resolve_codes s readOnly (si_Namespace i) (stripe_codes i) Map.empty"

end
