(* ===== verification/InvoiceMachine.thy ===== *)
theory InvoiceMachine
  imports InvoiceCalc
begin

text \<open>
  The state machine of a standard invoice (openmeter/billing/service/stdinvoicestate.go) with the helpers of
  pkg/statelessx. The package that runs state machines is a record of its three operations, whose documented
  behaviour is \<open>stateless_ok\<close>; the transitions, their guards, the actions of the states and all that drives
  them are the code's. Invoicing apps, the database, the event bus, the clock and the tax code service are
  fields of the environment; their answers are functions of what they are given. The log lines are left out.
\<close>

section \<open>Apps and triggers\<close>

text \<open>A source is the argument of a delete trigger; \<open>ti_Namespace\<close> and \<open>ti_ID\<close> are the invoice a trigger is for.\<close>

record InvoiceTriggerValidationInput =
  tv_Operation :: StandardInvoiceOperation
  tv_Errors :: "issue_error list"

record InvoiceTriggerInput =
  ti_Namespace :: string
  ti_ID :: string
  ti_Trigger :: InvoiceTrigger
  ti_ValidationErrors :: "InvoiceTriggerValidationInput option"

definition NamespacedID_Validate :: "string \<Rightarrow> string \<Rightarrow> error option" where
  "NamespacedID_Validate ns i =
     (if ns = [] then Some (Err ''namespace is required'')
      else if i = [] then Some (Err ''id is required'') else None)"

definition TV_Validate :: "InvoiceTriggerValidationInput \<Rightarrow> error option" where
  "TV_Validate i =
     (case InvoiceOperation_Validate (tv_Operation i) of
        Some e \<Rightarrow> Some (Wrap ''operation'' e)
      | None \<Rightarrow> if length (tv_Errors i) = 0 then Some (Err ''validation errors are required'') else None)"

definition TI_Validate :: "InvoiceTriggerInput \<Rightarrow> error option" where
  "TI_Validate i =
     (case NamespacedID_Validate (ti_Namespace i) (ti_ID i) of
        Some e \<Rightarrow> Some (Wrap ''id'' e)
      | None \<Rightarrow>
          if ti_Trigger i = OtherTrigger [] then Some (Err ''trigger is required'')
          else map_option (Wrap ''validation errors'') (Option.bind (ti_ValidationErrors i) TV_Validate))"

definition DeleteTrigger_Validate :: "ChangeSource \<Rightarrow> error option" where
  "DeleteTrigger_Validate source = map_option (Wrap ''source'') (ChangeSource_Validate source)"

text \<open>
  An invoicing app. \<open>ia_PostAdvance\<close> is set if it has the post-advance hook, whose result is the trigger to
  invoke; \<open>ia_AsyncSyncer\<close> holds the two checks of an asynchronous app.
\<close>

record invoicing_app =
  ia_Validate :: "StandardInvoice \<Rightarrow> issue_error option"
  ia_Upsert :: "StandardInvoice \<Rightarrow> issue_error + UpsertResults option"
  ia_Finalize :: "StandardInvoice \<Rightarrow> issue_error + FinalizeStandardInvoiceResult option"
  ia_Delete :: "StandardInvoice \<Rightarrow> issue_error option"
  ia_PostAdvance :: "(StandardInvoice \<Rightarrow> issue_error + InvoiceTriggerInput option) option"
  ia_AsyncSyncer :: "((StandardInvoice \<Rightarrow> issue_error + bool) \<times> (StandardInvoice \<Rightarrow> issue_error + bool)) option"

definition ErrInvoiceWorkflowAppDeleted :: ValidationIssue where
  "ErrInvoiceWorkflowAppDeleted =
     NewValidationError ''invoice_workflow_app_deleted'' ''invoicing workflow app has been deleted''"

definition WarnInvoiceWorkflowAppDeleteSkipped :: ValidationIssue where
  "WarnInvoiceWorkflowAppDeleteSkipped =
     NewValidationWarning ''invoice_workflow_app_delete_skipped''
       ''external invoice deletion was skipped because the invoicing workflow app has been deleted''"

text \<open>What stands in for an app that was deleted.\<close>

definition DeletedInvoicingApp :: invoicing_app where
  "DeletedInvoicingApp =
     (let err = wrap_issue ''app'' (IssueError ErrInvoiceWorkflowAppDeleted)
      in \<lparr>ia_Validate = (\<lambda>_. Some err), ia_Upsert = (\<lambda>_. Inl err), ia_Finalize = (\<lambda>_. Inl err),
          ia_Delete = (\<lambda>_. Some (wrap_issue ''app'' (IssueError WarnInvoiceWorkflowAppDeleteSkipped))),
          ia_PostAdvance = None, ia_AsyncSyncer = None\<rparr>)"

section \<open>The machine and its environment\<close>

text \<open>\<open>sm_Published\<close> is the log of the events: the invoice before and after.\<close>

record InvoiceStateMachine =
  sm_Invoice :: StandardInvoice
  sm_NeedsDBSave :: bool
  sm_Published :: "(StandardInvoice \<times> StandardInvoice) list"

type_synonym action = "InvoiceStateMachine \<Rightarrow> InvoiceStateMachine \<times> issue_error option"

text \<open>
  The package for state machines. \<open>sl_Fire\<close> gets the transitions of the trigger in the current state with the
  values of their guards, how a state is stored, and what runs on entering one; \<open>sl_Activate\<close> gets the
  \<open>OnActive\<close> action of the state.
\<close>

type_synonym permits = "(StandardInvoiceStatus \<times> bool list) list"

record stateless =
  sl_CanFire :: "permits \<Rightarrow> issue_error + bool"
  sl_Fire :: "permits \<Rightarrow> (StandardInvoiceStatus \<Rightarrow> action) \<Rightarrow> (StandardInvoiceStatus \<Rightarrow> action) \<Rightarrow> action"
  sl_Activate :: "action \<Rightarrow> action"

text \<open>
  \<open>me_App\<close> is the invoicing app of the workflow, \<open>None\<close> if it does not implement the interface;
  \<open>me_EventApps\<close> the error of converting the apps for an event; \<open>me_FeatureMeters\<close> that of resolving the meters
  of feature keys; \<open>me_Adapter\<close> stores an invoice and returns it with its apps; \<open>me_Deps\<close> holds clock,
  currencies and line engines, with tax codes filled in at each calculation.
\<close>

record machine_env =
  me_Lib :: stateless
  me_Deps :: calc_deps
  me_Lockdown :: "string list"
  me_App :: "invoicing_app option"
  me_EventApps :: "StandardInvoice \<Rightarrow> error option"
  me_FeatureMeters :: "string \<Rightarrow> string list \<Rightarrow> error option"
  me_TaxCodes :: tax_service
  me_PostUpdate :: "StandardInvoice \<Rightarrow> StandardInvoice \<times> issue_error option"
  me_Adapter :: "StandardInvoice \<Rightarrow> issue_error + StandardInvoice"
  me_Publish :: "StandardInvoice \<Rightarrow> StandardInvoice \<Rightarrow> issue_error option"

definition me_Now :: "machine_env \<Rightarrow> time" where "me_Now e = cd_Now (me_Deps e)"

definition set_invoice :: "StandardInvoice \<Rightarrow> InvoiceStateMachine \<Rightarrow> InvoiceStateMachine" where
  "set_invoice i m = m\<lparr>sm_Invoice := i\<rparr>"

section \<open>Helpers of pkg/statelessx\<close>

fun all_of :: "action list \<Rightarrow> issue_error option \<Rightarrow> action" where
  "all_of [] outErr m = (m, outErr)"
| "all_of (f # fs) outErr m = (case f m of (m', err) \<Rightarrow> all_of fs (join_opt outErr err) m')"

definition AllOf :: "action list \<Rightarrow> action" where
  "AllOf fs = all_of fs None"

definition NotFn :: "bool \<Rightarrow> bool" where "NotFn b = (\<not> b)"

definition WithParameters :: "(ChangeSource \<Rightarrow> action) \<Rightarrow> ChangeSource option \<Rightarrow> action" where
  "WithParameters fn args m =
     (case args of
        None \<Rightarrow> (m, Some (PlainError ''no arguments provided''))
      | Some source \<Rightarrow>
          (case DeleteTrigger_Validate source of
             Some e \<Rightarrow> (m, Some (wrap_issue ''validate'' (go_error e)))
           | None \<Rightarrow> fn source m))"

section \<open>Guards\<close>

definition noCriticalValidationErrors :: "StandardInvoice \<Rightarrow> bool" where
  "noCriticalValidationErrors i = (\<not> SI_HasCritical i)"

definition isAutoAdvanceEnabled :: "StandardInvoice \<Rightarrow> bool" where
  "isAutoAdvanceEnabled i = ic_AutoAdvance (wf_Invoicing (si_Workflow i))"

definition shouldAutoAdvance :: "time \<Rightarrow> StandardInvoice \<Rightarrow> bool" where
  "shouldAutoAdvance now i =
     (if \<not> isAutoAdvanceEnabled i \<or> si_DraftUntil i = None then False
      else case si_DraftUntil i of None \<Rightarrow> False | Some t \<Rightarrow> \<not> now < t)"

definition isReadyForCollection :: "time \<Rightarrow> StandardInvoice \<Rightarrow> bool" where
  "isReadyForCollection now i = (case si_CollectionAt i of None \<Rightarrow> True | Some t \<Rightarrow> if now < t then False else True)"

definition canDraftSyncAdvance :: "machine_env \<Rightarrow> StandardInvoice \<Rightarrow> bool" where
  "canDraftSyncAdvance e i =
     (case Option.bind (me_App e) ia_AsyncSyncer of
        None \<Rightarrow> True
      | Some (draft, issuing) \<Rightarrow> (case draft i of Inl _ \<Rightarrow> False | Inr can \<Rightarrow> can))"

definition canIssuingSyncAdvance :: "machine_env \<Rightarrow> StandardInvoice \<Rightarrow> bool" where
  "canIssuingSyncAdvance e i =
     (case Option.bind (me_App e) ia_AsyncSyncer of
        None \<Rightarrow> True
      | Some (draft, issuing) \<Rightarrow> (case issuing i of Inl _ \<Rightarrow> False | Inr can \<Rightarrow> can))"

definition resolveStateAfterDraftReadyToIssue :: "StandardInvoice \<Rightarrow> StandardInvoiceStatus" where
  "resolveStateAfterDraftReadyToIssue i =
     (if si_Lines i \<noteq> None \<and> NonDeletedLineCount (si_Lines i) = 0 then DeleteSyncing else IssuingLineFinalization)"

section \<open>Transitions\<close>

text \<open>
  The \<open>Configure\<close> calls: for each state its triggers with destination and guards, in the order of the
  code. A status that is not configured has none.
\<close>

type_synonym transition = "InvoiceTrigger \<times> StandardInvoiceStatus \<times> bool list"

definition draft_config :: "machine_env \<Rightarrow> StandardInvoice \<Rightarrow> StandardInvoiceStatus \<Rightarrow> transition list" where
  "draft_config e i s = (case s of
     DraftCreated \<Rightarrow>
       [(TriggerNext, DraftWaitingForCollection, []), (TriggerFailed, DraftInvalidCreated, []),
        (TriggerDelete, DeleteInProgress, []), (TriggerUpdated, DraftUpdating, [])]
   | DraftWaitingForCollection \<Rightarrow>
       [(TriggerNext, DraftCollecting, [isReadyForCollection (me_Now e) i]), (TriggerDelete, DeleteInProgress, []),
        (TriggerUpdated, DraftUpdating, []), (TriggerForceCollect, DraftCollecting, [])]
   | DraftCollecting \<Rightarrow>
       [(TriggerNext, DraftValidating, []), (TriggerDelete, DeleteInProgress, []),
        (TriggerFailed, DraftInvalidCreated, []), (TriggerUpdated, DraftUpdating, [])]
   | DraftUpdating \<Rightarrow>
       [(TriggerNext, DraftWaitingForCollection, []), (TriggerDelete, DeleteInProgress, []), (TriggerFailed, DraftInvalid, [])]
   | DraftValidating \<Rightarrow>
       [(TriggerNext, DraftSyncing, [noCriticalValidationErrors i]), (TriggerFailed, DraftInvalid, []),
        (TriggerDelete, DeleteInProgress, []), (TriggerUpdated, DraftUpdating, [])]
   | DraftInvalidCreated \<Rightarrow>
       [(TriggerRetry, DraftCreated, []), (TriggerDelete, DeleteInProgress, []), (TriggerUpdated, DraftUpdating, [])]
   | DraftInvalid \<Rightarrow>
       [(TriggerRetry, DraftValidating, []), (TriggerDelete, DeleteInProgress, []), (TriggerUpdated, DraftUpdating, [])]
   | DraftSyncing \<Rightarrow>
       [(TriggerNext, DraftManualApprovalNeeded,
           [NotFn (isAutoAdvanceEnabled i), noCriticalValidationErrors i, canDraftSyncAdvance e i]),
        (TriggerNext, DraftWaitingAutoApproval,
           [isAutoAdvanceEnabled i, noCriticalValidationErrors i, canDraftSyncAdvance e i]),
        (TriggerDelete, DeleteInProgress, []), (TriggerFailed, DraftSyncFailed, [])]
   | DraftSyncFailed \<Rightarrow>
       [(TriggerRetry, DraftValidating, []), (TriggerDelete, DeleteInProgress, []), (TriggerUpdated, DraftUpdating, [])]
   | DraftReadyToIssue \<Rightarrow>
       [(TriggerNext, resolveStateAfterDraftReadyToIssue i, []), (TriggerDelete, DeleteInProgress, []),
        (TriggerUpdated, DraftUpdating, [])]
   | DraftWaitingAutoApproval \<Rightarrow>
       [(TriggerApprove, DraftReadyToIssue, []), (TriggerUpdated, DraftUpdating, []), (TriggerDelete, DeleteInProgress, []),
        (TriggerNext, DraftReadyToIssue, [shouldAutoAdvance (me_Now e) i, noCriticalValidationErrors i])]
   | DraftManualApprovalNeeded \<Rightarrow>
       [(TriggerApprove, DraftReadyToIssue, [noCriticalValidationErrors i]), (TriggerUpdated, DraftUpdating, []),
        (TriggerDelete, DeleteInProgress, [])]
   | _ \<Rightarrow> [])"

definition issuing_config :: "machine_env \<Rightarrow> StandardInvoice \<Rightarrow> StandardInvoiceStatus \<Rightarrow> transition list" where
  "issuing_config e i s = (case s of
     DeleteInProgress \<Rightarrow> [(TriggerNext, DeleteSyncing, []), (TriggerFailed, DeleteFailed, [])]
   | DeleteSyncing \<Rightarrow> [(TriggerNext, Deleted, []), (TriggerFailed, DeleteFailed, [])]
   | DeleteFailed \<Rightarrow> [(TriggerDelete, DeleteInProgress, [])]
   | Deleted \<Rightarrow> []
   | IssuingLineFinalization \<Rightarrow> [(TriggerNext, IssuingSyncing, []), (TriggerFailed, IssuingLineFinalizationFailed, [])]
   | IssuingLineFinalizationFailed \<Rightarrow> [(TriggerRetry, IssuingLineFinalization, [])]
   | IssuingSyncing \<Rightarrow>
       [(TriggerNext, IssuingChargeBooking, [canIssuingSyncAdvance e i]), (TriggerFailed, IssuingSyncFailed, [])]
   | IssuingSyncFailed \<Rightarrow> [(TriggerDelete, DeleteInProgress, []), (TriggerRetry, IssuingSyncing, [])]
   | IssuingChargeBooking \<Rightarrow> [(TriggerNext, Issued, []), (TriggerFailed, IssuingChargeBookingFailed, [])]
   | IssuingChargeBookingFailed \<Rightarrow> [(TriggerRetry, IssuingChargeBooking, [])]
   | Issued \<Rightarrow> [(TriggerNext, PaymentProcessingPending, []), (TriggerVoid, Voided, [])]
   | _ \<Rightarrow> [])"

definition payment_config :: "StandardInvoiceStatus \<Rightarrow> transition list" where
  "payment_config s = (case s of
     PaymentProcessingPending \<Rightarrow>
       [(TriggerAuthorized, PaymentProcessingBookingAuthorized, []), (TriggerPaid, PaymentProcessingBookingAuthorizedAndSettled, []),
        (TriggerFailed, PaymentProcessingFailed, []), (TriggerPaymentUncollectible, Uncollectible, []),
        (TriggerPaymentOverdue, Overdue, []), (TriggerActionRequired, PaymentProcessingActionRequired, []),
        (TriggerVoid, Voided, [])]
   | PaymentProcessingBookingAuthorized \<Rightarrow>
       [(TriggerNext, PaymentProcessingAuthorized, []), (TriggerFailed, PaymentProcessingBookingAuthorizedFailed, []),
        (TriggerVoid, Voided, [])]
   | PaymentProcessingBookingAuthorizedFailed \<Rightarrow>
       [(TriggerRetry, PaymentProcessingBookingAuthorized, []), (TriggerVoid, Voided, [])]
   | PaymentProcessingBookingAuthorizedAndSettled \<Rightarrow>
       [(TriggerNext, Paid, []), (TriggerFailed, PaymentProcessingBookingAuthorizedAndSettledFailed, []), (TriggerVoid, Voided, [])]
   | PaymentProcessingBookingAuthorizedAndSettledFailed \<Rightarrow>
       [(TriggerRetry, PaymentProcessingBookingAuthorizedAndSettled, []), (TriggerVoid, Voided, [])]
   | PaymentProcessingAuthorized \<Rightarrow>
       [(TriggerPaid, PaymentProcessingBookingSettled, []), (TriggerFailed, PaymentProcessingFailed, []),
        (TriggerPaymentUncollectible, Uncollectible, []), (TriggerPaymentOverdue, Overdue, []),
        (TriggerActionRequired, PaymentProcessingActionRequired, []), (TriggerVoid, Voided, [])]
   | PaymentProcessingBookingSettled \<Rightarrow>
       [(TriggerNext, Paid, []), (TriggerFailed, PaymentProcessingBookingSettledFailed, []), (TriggerVoid, Voided, [])]
   | PaymentProcessingBookingSettledFailed \<Rightarrow>
       [(TriggerRetry, PaymentProcessingBookingSettled, []), (TriggerVoid, Voided, [])]
   | PaymentProcessingFailed \<Rightarrow>
       [(TriggerAuthorized, PaymentProcessingBookingAuthorized, []), (TriggerPaid, PaymentProcessingBookingAuthorizedAndSettled, []),
        (TriggerRetry, PaymentProcessingPending, []), (TriggerPaymentOverdue, Overdue, []),
        (TriggerPaymentUncollectible, Uncollectible, []), (TriggerActionRequired, PaymentProcessingActionRequired, []),
        (TriggerVoid, Voided, [])]
   | PaymentProcessingActionRequired \<Rightarrow>
       [(TriggerAuthorized, PaymentProcessingBookingAuthorized, []), (TriggerPaid, PaymentProcessingBookingAuthorizedAndSettled, []),
        (TriggerFailed, PaymentProcessingFailed, []), (TriggerRetry, PaymentProcessingPending, []),
        (TriggerPaymentOverdue, Overdue, []), (TriggerPaymentUncollectible, Uncollectible, []), (TriggerVoid, Voided, [])]
   | Overdue \<Rightarrow>
       [(TriggerAuthorized, PaymentProcessingBookingAuthorized, []), (TriggerPaid, PaymentProcessingBookingAuthorizedAndSettled, []),
        (TriggerFailed, PaymentProcessingFailed, []), (TriggerRetry, PaymentProcessingPending, []),
        (TriggerPaymentUncollectible, Uncollectible, []), (TriggerActionRequired, PaymentProcessingActionRequired, [])]
   | Uncollectible \<Rightarrow>
       [(TriggerVoid, Voided, []), (TriggerAuthorized, PaymentProcessingBookingAuthorized, []),
        (TriggerPaid, PaymentProcessingBookingAuthorizedAndSettled, [])]
   | _ \<Rightarrow> [])"

definition configured :: "machine_env \<Rightarrow> StandardInvoice \<Rightarrow> StandardInvoiceStatus \<Rightarrow> transition list" where
  "configured e i s = draft_config e i s @ issuing_config e i s @ payment_config s"

text \<open>The transitions of a trigger in the current state, with the values of their guards.\<close>

definition permits_of :: "machine_env \<Rightarrow> StandardInvoice \<Rightarrow> InvoiceTrigger \<Rightarrow> permits" where
  "permits_of e i t = map snd (filter (\<lambda>tr. fst tr = t) (configured e i (si_Status i)))"

section \<open>Events and the database\<close>

definition SI_RemoveCircularReferences :: "StandardInvoice \<Rightarrow> StandardInvoice result" where
  "SI_RemoveCircularReferences i =
     bind_result (SI_Clone i) (\<lambda>clone.
       (case si_Lines clone of
          None \<Rightarrow> Inr clone
        | Some ls \<Rightarrow> bind_result (MapWithErr RemoveCircularReferences ls) (\<lambda>ls'. Inr (clone\<lparr>si_Lines := Some ls'\<rparr>))))"

definition NewEventStandardInvoice :: "machine_env \<Rightarrow> StandardInvoice \<Rightarrow> StandardInvoice result" where
  "NewEventStandardInvoice e invoice =
     bind_result (SI_RemoveCircularReferences invoice) (\<lambda>payload. check_then (me_EventApps e invoice) (Inr payload))"

definition NewStandardInvoiceUpdatedEvent :: "machine_env \<Rightarrow> StandardInvoice \<Rightarrow> StandardInvoice
    \<Rightarrow> (StandardInvoice \<times> StandardInvoice) result" where
  "NewStandardInvoiceUpdatedEvent e new old = bind_result (NewEventStandardInvoice e new) (\<lambda>n. Inr (old, n))"

definition Publish :: "machine_env \<Rightarrow> StandardInvoice \<times> StandardInvoice \<Rightarrow> action" where
  "Publish e event m =
     (case me_Publish e (fst event) (snd event) of
        Some err \<Rightarrow> (m, Some err)
      | None \<Rightarrow> (m\<lparr>sm_Published := sm_Published m @ [event]\<rparr>, None))"

section \<open>Deletion\<close>

definition active_lines :: "StandardInvoice \<Rightarrow> lines" where
  "active_lines i = filter (\<lambda>line. mr_DeletedAt line = None) (or_empty (si_Lines i))"

definition deleteInvoice :: "machine_env \<Rightarrow> ChangeSource \<Rightarrow> action" where
  "deleteInvoice e source m =
     (case DeleteTrigger_Validate source of
        Some err \<Rightarrow> (m, Some (go_error err))
      | None \<Rightarrow>
          let i = (sm_Invoice m)\<lparr>si_ValidationIssues := []\<rparr>
          in if si_DeletedAt i \<noteq> None then (set_invoice i m, None)
             else
               let i = i\<lparr>si_DeletionSource := source\<rparr>;
                   deps = me_Deps e;
                   finish = (\<lambda>i. (set_invoice (i\<lparr>si_DeletedAt := Some (me_Now e)\<rparr>) m, None))
               in (case source of
                     ChangeSourceAPIRequest \<Rightarrow>
                       (case dispatchAPIStandardLineDeletions (cd_Known deps) (cd_Order deps) (cd_LineEngines deps) i (active_lines i) of
                          (after, err) \<Rightarrow>
                            let i = i\<lparr>si_Lines := map_option (write_back (active_lines i) after) (si_Lines i)\<rparr>
                            in (case err of Some er \<Rightarrow> (set_invoice i m, Some er) | None \<Rightarrow> finish i))
                   | ChangeSourceSystem \<Rightarrow>
                       (case dispatchSystemStandardLineDeletions (cd_Known deps) (cd_Order deps) (cd_LineEngines deps) i (active_lines i) of
                          Some er \<Rightarrow> (set_invoice i m, Some er)
                        | None \<Rightarrow> finish i)
                   | _ \<Rightarrow> (set_invoice i m, Some (PlainError ''unsupported deletion source''))))"

text \<open>Only \<open>delete.in_progress\<close> has an \<open>OnEntry\<close> action.\<close>

definition on_entry :: "machine_env \<Rightarrow> ChangeSource option \<Rightarrow> StandardInvoiceStatus \<Rightarrow> action" where
  "on_entry e args s = (if s = DeleteInProgress then WithParameters (deleteInvoice e) args else (\<lambda>m. (m, None)))"

definition ensureEmptyInvoiceDeletionPrepared :: "machine_env \<Rightarrow> action" where
  "ensureEmptyInvoiceDeletionPrepared e m =
     (let i = sm_Invoice m
      in if si_DeletedAt i \<noteq> None then (m, None)
         else if si_Lines i = None
         then (m, Some (PlainError ''invoice lines must be expanded before preparing empty invoice deletion''))
         else if NonDeletedLineCount (si_Lines i) \<noteq> 0
         then (m, Some (PlainError ''cannot prepare empty invoice deletion: invoice has non-deleted lines''))
         else deleteInvoice e ChangeSourceSystem m)"

section \<open>Storing a state, and the actions available in it\<close>

text \<open>
  Storing a state resolves its status details, and these are found by firing triggers on the machine itself.
  \<open>details\<close> is the resolution for the states that follow; \<open>StatusDetails\<close> ties the knot with fuel for the
  depth of the nesting, and \<open>run_next\<close> has fuel for its steps.
\<close>

type_synonym details_fn = "InvoiceStateMachine \<Rightarrow> InvoiceStateMachine \<times> StandardInvoiceStatusDetails \<times> issue_error option"

definition out_of_fuel :: issue_error where "out_of_fuel = PlainError ''out of fuel''"

definition set_state :: "details_fn \<Rightarrow> machine_env \<Rightarrow> StandardInvoiceStatus \<Rightarrow> action" where
  "set_state details e invState m =
     (let previousStatus = si_Status (sm_Invoice m);
          i = (sm_Invoice m)\<lparr>si_Status := invState\<rparr>;
          i = (if invState = PaymentProcessingPending \<and> previousStatus \<noteq> PaymentProcessingPending \<and>
                 si_PaymentProcessingEnteredAt i = None
               then i\<lparr>si_PaymentProcessingEnteredAt := Some (me_Now e)\<rparr> else i)
      in case details (set_invoice i m) of
           (m', sd, Some err) \<Rightarrow> (m', Some err)
         | (m', sd, None) \<Rightarrow> (set_invoice ((sm_Invoice m')\<lparr>si_StatusDetails := sd\<rparr>) m', None))"

definition fire :: "details_fn \<Rightarrow> machine_env \<Rightarrow> ChangeSource option \<Rightarrow> InvoiceTrigger \<Rightarrow> action" where
  "fire details e args t m = sl_Fire (me_Lib e) (permits_of e (sm_Invoice m) t) (set_state details e) (on_entry e args) m"

definition CanFire :: "machine_env \<Rightarrow> InvoiceTrigger \<Rightarrow> InvoiceStateMachine \<Rightarrow> issue_error + bool" where
  "CanFire e t m = sl_CanFire (me_Lib e) (permits_of e (sm_Invoice m) t)"

fun run_next :: "nat \<Rightarrow> details_fn \<Rightarrow> machine_env \<Rightarrow> action" where
  "run_next 0 details e m = (m, Some out_of_fuel)"
| "run_next (Suc n) details e m =
     (case CanFire e TriggerNext m of
        Inl err \<Rightarrow> (m, Some err)
      | Inr canFire \<Rightarrow>
          if \<not> canFire then (m, None)
          else (case fire details e None TriggerNext m of
                  (m', Some err) \<Rightarrow> (m', Some err)
                | (m', None) \<Rightarrow> run_next n details e m'))"

text \<open>Forty steps are enough for any path: see \<open>InvoiceLife\<close>.\<close>

definition status_fuel :: nat where "status_fuel = 40"

definition calculateAvailableActionDetails :: "details_fn \<Rightarrow> machine_env \<Rightarrow> InvoiceTrigger \<Rightarrow> InvoiceStateMachine
    \<Rightarrow> InvoiceStateMachine \<times> (issue_error + StandardInvoiceStatus option)" where
  "calculateAvailableActionDetails details e baseTrigger m =
     (case CanFire e baseTrigger m of
        Inl err \<Rightarrow> (m, Inl err)
      | Inr ok \<Rightarrow>
          if \<not> ok then (m, Inr None)
          else
            let original = sm_Invoice m
            in (case fire details e None baseTrigger (set_invoice (original\<lparr>si_ValidationIssues := []\<rparr>) m) of
                  (m1, Some err) \<Rightarrow> (m1, Inl err)
                | (m1, None) \<Rightarrow>
                    (case run_next status_fuel details e m1 of
                       (m2, Some err) \<Rightarrow> (m2, Inl err)
                     | (m2, None) \<Rightarrow>
                         (set_invoice ((sm_Invoice m2)\<lparr>si_Status := si_Status original,
                            si_PaymentProcessingEnteredAt := si_PaymentProcessingEnteredAt original,
                            si_ValidationIssues := si_ValidationIssues original\<rparr>) m2,
                          Inr (Some (si_Status (sm_Invoice m2)))))))"

definition value_of :: "issue_error + 'a option \<Rightarrow> 'a option" where
  "value_of r = (case r of Inl _ \<Rightarrow> None | Inr v \<Rightarrow> v)"

definition error_of :: "issue_error + 'a \<Rightarrow> issue_error option" where
  "error_of r = (case r of Inl err \<Rightarrow> Some err | Inr _ \<Rightarrow> None)"

definition resolve_details :: "details_fn \<Rightarrow> machine_env \<Rightarrow> details_fn" where
  "resolve_details details e m =
     (if si_Status (sm_Invoice m) = Gathering then (m, no_status_details, None)
      else
        let (m1, advance) = calculateAvailableActionDetails details e TriggerNext m;
            canDelete = CanFire e TriggerDelete m1;
            (m2, retry) = calculateAvailableActionDetails details e TriggerRetry m1;
            (m3, approve) = calculateAvailableActionDetails details e TriggerApprove m2;
            (m4, snapshot) = calculateAvailableActionDetails details e TriggerForceCollect m3;
            mutable = CanFire e TriggerUpdated m4;
            outErr = foldl join_opt None
              [error_of advance, error_of canDelete, error_of retry, error_of approve, error_of snapshot, error_of mutable]
        in (m4, \<lparr>sd_Immutable = (mutable \<noteq> Inr True), sd_Failed = IsFailed (si_Status (sm_Invoice m4)),
              sd_AvailableActions = \<lparr>av_Advance = value_of advance, av_Approve = value_of approve,
                av_Delete = (if canDelete = Inr True then Some Deleted else None), av_Retry = value_of retry,
                av_SnapshotQuantities = value_of snapshot\<rparr>\<rparr>, outErr))"

fun StatusDetails :: "nat \<Rightarrow> machine_env \<Rightarrow> details_fn" where
  "StatusDetails 0 e m = (m, no_status_details, Some out_of_fuel)"
| "StatusDetails (Suc n) e m = resolve_details (StatusDetails n e) e m"

definition Fire :: "machine_env \<Rightarrow> ChangeSource option \<Rightarrow> InvoiceTrigger \<Rightarrow> action" where
  "Fire e args t m = fire (StatusDetails status_fuel e) e args t m"

section \<open>Actions of the states\<close>

definition requireDBSave :: action where
  "requireDBSave m = (m\<lparr>sm_NeedsDBSave := True\<rparr>, None)"

text \<open>What an operation of the app reports becomes the issues of its component; the app is that of the invoice \<open>i\<close>.\<close>

definition no_invoicing_app :: issue_error where
  "no_invoicing_app = PlainError ''app does not implement the invoicing interface''"

definition report_app :: "StandardInvoiceOperation \<Rightarrow> StandardInvoice
    \<Rightarrow> InvoiceStateMachine \<times> StandardInvoiceOperation option \<times> issue_error option \<Rightarrow> InvoiceStateMachine \<times> issue_error option" where
  "report_app op i outcome =
     (case outcome of (m, opOverride, result) \<Rightarrow>
        (case Option.bind opOverride InvoiceOperation_Validate of
           Some err \<Rightarrow> (m, Some (go_error err))
         | None \<Rightarrow>
             let op = (case opOverride of None \<Rightarrow> op | Some op' \<Rightarrow> op');
                 component = AppTypeCapabilityToComponent (wf_AppType (si_Workflow i)) ''invoiceCustomers'' (operation_string op)
             in (case SI_MergeValidationIssues (ValidationWithComponent component result) component (sm_Invoice m) of
                   (i', err) \<Rightarrow> (set_invoice i' m, err))))"

definition withInvoicingApp :: "machine_env \<Rightarrow> StandardInvoiceOperation
    \<Rightarrow> (invoicing_app \<Rightarrow> InvoiceStateMachine \<Rightarrow> InvoiceStateMachine \<times> StandardInvoiceOperation option \<times> issue_error option)
    \<Rightarrow> action" where
  "withInvoicingApp e op cb m =
     (case me_App e of
        None \<Rightarrow> (m, Some no_invoicing_app)
      | Some app \<Rightarrow> report_app op (sm_Invoice m) (cb app m))"

definition ErrNamespaceLocked :: ValidationIssue where
  "ErrNamespaceLocked = NewValidationError ''namespace_locked'' ''namespace is locked''"

definition validateNamespaceLockdown :: "machine_env \<Rightarrow> StandardInvoice \<Rightarrow> issue_error option" where
  "validateNamespaceLockdown e i =
     (if si_Namespace i \<in> set (me_Lockdown e)
      then Some (WrappedError (''namespace is locked: '' @ si_Namespace i) (IssueError ErrNamespaceLocked)) else None)"

definition resolveFeatureMeters :: "machine_env \<Rightarrow> StandardInvoice \<Rightarrow> error option" where
  "resolveFeatureMeters e i =
     (case SI_GetReferencedFeatureKeys (si_Lines i) of
        Inl err \<Rightarrow> Some (Wrap ''getting referenced feature keys'' err)
      | Inr keys \<Rightarrow> map_option (Wrap ''resolving feature meters'') (me_FeatureMeters e (si_Namespace i) keys))"

definition calculateInvoice :: "machine_env \<Rightarrow> action" where
  "calculateInvoice e m =
     (let i = sm_Invoice m
      in case resolveFeatureMeters e i of
           Some err \<Rightarrow> (m, Some (wrap_issue ''resolving feature meters'' (go_error err)))
         | None \<Rightarrow>
             (case resolveTaxCodes (me_TaxCodes e) False i of
                Inl err \<Rightarrow> (m, Some (wrap_issue ''resolving tax codes'' (go_error err)))
              | Inr codes \<Rightarrow>
                  (case Calculate ((me_Deps e)\<lparr>cd_TaxCodes := codes\<rparr>) i of (i', err) \<Rightarrow> (set_invoice i' m, err))))"

text \<open>An app works on a clone of the invoice.\<close>

definition on_clone :: "(StandardInvoice \<Rightarrow> InvoiceStateMachine \<Rightarrow> InvoiceStateMachine \<times> StandardInvoiceOperation option \<times> issue_error option)
    \<Rightarrow> InvoiceStateMachine \<Rightarrow> InvoiceStateMachine \<times> StandardInvoiceOperation option \<times> issue_error option" where
  "on_clone f m = (case SI_Clone (sm_Invoice m) of Inl err \<Rightarrow> (m, None, Some (go_error err)) | Inr cloned \<Rightarrow> f cloned m)"

definition validateDraftInvoice :: "machine_env \<Rightarrow> action" where
  "validateDraftInvoice e m =
     (case validateNamespaceLockdown e (sm_Invoice m) of
        Some err \<Rightarrow> (m, Some err)
      | None \<Rightarrow> withInvoicingApp e StandardInvoiceOpValidate (\<lambda>app. on_clone (\<lambda>cloned m. (m, None, ia_Validate app cloned))) m)"

definition mergeUpsertInvoiceResult :: "UpsertResults option \<Rightarrow> action" where
  "mergeUpsertInvoiceResult r m =
     (case r of None \<Rightarrow> (m, None)
      | Some u \<Rightarrow> (case UR_MergeIntoInvoice u (sm_Invoice m) of (i, err) \<Rightarrow> (set_invoice i m, err)))"

definition syncDraftInvoice :: "machine_env \<Rightarrow> action" where
  "syncDraftInvoice e m =
     (case validateNamespaceLockdown e (sm_Invoice m) of
        Some err \<Rightarrow> (m, Some err)
      | None \<Rightarrow> withInvoicingApp e StandardInvoiceOpSync (\<lambda>app. on_clone (\<lambda>cloned m.
          (case ia_Upsert app cloned of
             Inl err \<Rightarrow> (m, None, Some err)
           | Inr results \<Rightarrow> (case mergeUpsertInvoiceResult results m of (m', err) \<Rightarrow> (m', None, err))))) m)"

definition finalize_clone :: "machine_env \<Rightarrow> invoicing_app \<Rightarrow> StandardInvoice \<Rightarrow> InvoiceStateMachine
    \<Rightarrow> InvoiceStateMachine \<times> StandardInvoiceOperation option \<times> issue_error option" where
  "finalize_clone e app cloned m =
     (case ia_Upsert app cloned of
        Inl err \<Rightarrow> (m, None, Some err)
      | Inr upsertResults \<Rightarrow>
          (case mergeUpsertInvoiceResult upsertResults m of
             (m1, Some err) \<Rightarrow> (m1, None, Some err)
           | (m1, None) \<Rightarrow>
               (case CalculateDueAt ((sm_Invoice m1)\<lparr>si_IssuedAt := Some (me_Now e)\<rparr>) of
                  (i, Some err) \<Rightarrow> (set_invoice i m1, None, Some err)
                | (i, None) \<Rightarrow>
                    on_clone (\<lambda>cloned m2.
                      (case ia_Finalize app cloned of
                         Inl err \<Rightarrow> (m2, None, Some err)
                       | Inr None \<Rightarrow> (m2, None, None)
                       | Inr (Some r) \<Rightarrow> (case FR_MergeIntoInvoice r (sm_Invoice m2) of (i, err) \<Rightarrow> (set_invoice i m2, None, err))))
                      (set_invoice i m1))))"

definition finalizeInvoice :: "machine_env \<Rightarrow> action" where
  "finalizeInvoice e m =
     (case validateNamespaceLockdown e (sm_Invoice m) of
        Some err \<Rightarrow> (m, Some err)
      | None \<Rightarrow> withInvoicingApp e StandardInvoiceOpFinalize (\<lambda>app. on_clone (finalize_clone e app)) m)"

definition syncDeletedInvoice :: "machine_env \<Rightarrow> action" where
  "syncDeletedInvoice e m =
     (case validateNamespaceLockdown e (sm_Invoice m) of
        Some err \<Rightarrow> (m, Some err)
      | None \<Rightarrow> withInvoicingApp e StandardInvoiceOpDelete (\<lambda>app. on_clone (\<lambda>cloned m. (m, None, ia_Delete app cloned))) m)"

text \<open>The loop of \<open>onCollectionCompleted\<close>; the flag is \<open>hadValidationErr\<close>.\<close>

fun collect_groups :: "machine_env \<Rightarrow> (line_engine \<times> lines) list \<Rightarrow> bool \<Rightarrow> StandardInvoice
    \<Rightarrow> StandardInvoice \<times> bool \<times> issue_error option" where
  "collect_groups e [] hadValidationErr i = (i, hadValidationErr, None)"
| "collect_groups e ((eng, ls) # groups) hadValidationErr i =
     (let component = LineEngineValidationComponent (le_Type eng);
          known = cd_Known (me_Deps e)
      in case EventInput_Validate known i ls of
           Some err \<Rightarrow> (i, hadValidationErr, Some (wrap_issue ''validating collection completed input for engine'' err))
         | None \<Rightarrow>
             (case le_OnCollectionCompleted eng i ls of
                (after, res) \<Rightarrow>
                  let i = i\<lparr>si_Lines := map_option (write_back ls after) (si_Lines i)\<rparr>
                  in case res of
                       Inl err \<Rightarrow>
                         (case SI_MergeValidationIssues (NewLineEngineValidationError (Some eng) (Some err)) component i of
                            (i, Some err) \<Rightarrow> (i, True, Some err)
                          | (i, None) \<Rightarrow> collect_groups e groups True i)
                     | Inr lines \<Rightarrow>
                         (case ReplaceExact known after lines (si_Lines i) of
                            (ls', Some err) \<Rightarrow>
                              (i\<lparr>si_Lines := ls'\<rparr>, hadValidationErr, Some (wrap_issue ''replacing collection completed lines for engine'' err))
                          | (ls', None) \<Rightarrow>
                              (case SI_MergeValidationIssues None component (i\<lparr>si_Lines := ls'\<rparr>) of
                                 (i, Some err) \<Rightarrow>
                                   (i, hadValidationErr, Some (wrap_issue ''clearing collection completed validation issues for engine'' err))
                               | (i, None) \<Rightarrow> collect_groups e groups hadValidationErr i))))"

definition groups_of :: "machine_env \<Rightarrow> StandardInvoice \<Rightarrow> (line_engine \<times> lines) list result" where
  "groups_of e i = groupStandardLinesByEngine (cd_Order (me_Deps e)) (cd_LineEngines (me_Deps e)) (or_empty (si_Lines i))"

definition onCollectionCompleted :: "machine_env \<Rightarrow> action" where
  "onCollectionCompleted e m =
     (case groups_of e (sm_Invoice m) of
        Inl err \<Rightarrow> (m, Some (wrap_issue ''grouping standard lines by engine'' (go_error err)))
      | Inr groupedLines \<Rightarrow>
          (case collect_groups e groupedLines False (sm_Invoice m) of
             (i, _, Some err) \<Rightarrow> (set_invoice i m, Some err)
           | (i, hadValidationErr, None) \<Rightarrow>
               (set_invoice (if length groupedLines > 0 \<and> \<not> hadValidationErr
                  then i\<lparr>si_QuantitySnapshotedAt := Some (me_Now e)\<rparr> else i) m, None)))"

text \<open>Finalization works on a clone of the invoice, which replaces it only at the end.\<close>

fun finalize_groups :: "machine_env \<Rightarrow> (line_engine \<times> lines) list \<Rightarrow> StandardInvoice \<Rightarrow> issue_error + StandardInvoice" where
  "finalize_groups e [] i = Inr i"
| "finalize_groups e ((eng, ls) # groups) i =
     (let known = cd_Known (me_Deps e)
      in case EventInput_Validate known i ls of
           Some err \<Rightarrow> Inl (wrap_issue ''validating invoice finalizing input for engine'' err)
         | None \<Rightarrow>
             (case le_OnInvoiceFinalizing eng i ls of
                (after, Inl err) \<Rightarrow> Inl (the (NewLineEngineValidationError (Some eng) (Some err)))
              | (after, Inr lines) \<Rightarrow>
                  (case ReplaceExact known after lines (map_option (write_back ls after) (si_Lines i)) of
                     (ls', Some err) \<Rightarrow>
                       Inl (the (NewLineEngineValidationError (Some eng) (Some (wrap_issue ''replacing invoice finalizing lines'' err))))
                   | (ls', None) \<Rightarrow> finalize_groups e groups (i\<lparr>si_Lines := ls'\<rparr>))))"

definition onInvoiceFinalizing :: "machine_env \<Rightarrow> action" where
  "onInvoiceFinalizing e m =
     (case SI_Clone (sm_Invoice m) of
        Inl err \<Rightarrow> (m, Some (wrap_issue ''cloning invoice for line finalization'' (go_error err)))
      | Inr finalizedInvoice \<Rightarrow>
          (case groups_of e finalizedInvoice of
             Inl err \<Rightarrow> (m, Some (wrap_issue ''grouping standard lines by engine'' (go_error err)))
           | Inr groupedLines \<Rightarrow>
               (case finalize_groups e groupedLines finalizedInvoice of
                  Inl err \<Rightarrow> (m, Some err)
                | Inr finalizedInvoice \<Rightarrow>
                    (case RecalculateTotals (me_Now e) finalizedInvoice of
                       (_, Some err) \<Rightarrow> (m, Some (wrap_issue ''recalculating invoice totals after line finalization'' err))
                     | (finalizedInvoice, None) \<Rightarrow> (set_invoice finalizedInvoice m, None)))))"

definition notify :: "machine_env \<Rightarrow> (line_engine \<Rightarrow> event_hook) \<Rightarrow> string \<Rightarrow> action" where
  "notify e hook what m =
     (m, notify_lines (cd_Known (me_Deps e)) (cd_Order (me_Deps e)) (cd_LineEngines (me_Deps e)) hook what (sm_Invoice m)
           (or_empty (si_Lines (sm_Invoice m))))"

definition onInvoiceIssued :: "machine_env \<Rightarrow> action" where
  "onInvoiceIssued e = notify e le_OnInvoiceIssued ''invoice issued''"

definition onPaymentAuthorized :: "machine_env \<Rightarrow> action" where
  "onPaymentAuthorized e = notify e le_OnPaymentAuthorized ''payment authorized''"

definition onPaymentSettled :: "machine_env \<Rightarrow> action" where
  "onPaymentSettled e = notify e le_OnPaymentSettled ''payment settled''"

definition onPaymentAuthorizedAndSettled :: "machine_env \<Rightarrow> action" where
  "onPaymentAuthorizedAndSettled e m =
     (case onPaymentAuthorized e m of (m', Some err) \<Rightarrow> (m', Some err) | (m', None) \<Rightarrow> onPaymentSettled e m')"

text \<open>The \<open>OnActive\<close> calls.\<close>

definition on_active :: "machine_env \<Rightarrow> StandardInvoiceStatus \<Rightarrow> action" where
  "on_active e s = (case s of
     DraftCreated \<Rightarrow> AllOf [calculateInvoice e, requireDBSave]
   | DraftCollecting \<Rightarrow> AllOf [onCollectionCompleted e, calculateInvoice e, requireDBSave]
   | DraftUpdating \<Rightarrow> AllOf [calculateInvoice e, validateDraftInvoice e, requireDBSave]
   | DraftValidating \<Rightarrow> AllOf [calculateInvoice e, validateDraftInvoice e, requireDBSave]
   | DraftSyncing \<Rightarrow> AllOf [syncDraftInvoice e]
   | DeleteSyncing \<Rightarrow> AllOf [ensureEmptyInvoiceDeletionPrepared e, syncDeletedInvoice e]
   | IssuingLineFinalization \<Rightarrow> AllOf [onInvoiceFinalizing e, requireDBSave]
   | IssuingSyncing \<Rightarrow> AllOf [finalizeInvoice e]
   | IssuingChargeBooking \<Rightarrow> onInvoiceIssued e
   | PaymentProcessingBookingAuthorized \<Rightarrow> onPaymentAuthorized e
   | PaymentProcessingBookingAuthorizedAndSettled \<Rightarrow> onPaymentAuthorizedAndSettled e
   | PaymentProcessingBookingSettled \<Rightarrow> onPaymentSettled e
   | _ \<Rightarrow> (\<lambda>m. (m, None)))"

definition Activate :: "machine_env \<Rightarrow> action" where
  "Activate e m = sl_Activate (me_Lib e) (on_active e (si_Status (sm_Invoice m))) m"

section \<open>Driving the machine\<close>

definition SM_TriggerFailed :: "machine_env \<Rightarrow> action" where
  "SM_TriggerFailed e m =
     (case Fire e None TriggerFailed m of (m', Some err) \<Rightarrow> (m', Some err) | (m', None) \<Rightarrow> Activate e m')"

text \<open>The two ways to the failed state: after an error of firing, and after one of activating.\<close>

definition after_fire_error :: "machine_env \<Rightarrow> issue_error \<Rightarrow> action" where
  "after_fire_error e err m =
     (case CanFire e TriggerFailed m of
        Inl c \<Rightarrow> (m, Some (wrap_issue ''failed to check if we can transition to failed state'' c))
      | Inr canFireFailed \<Rightarrow>
          if \<not> canFireFailed then (m, Some err)
          else (case Fire e None TriggerFailed m of
                  (m', Some failedErr) \<Rightarrow> (m', Some (wrap_issue ''failed to transition to failed state after fire error'' failedErr))
                | (m', None) \<Rightarrow>
                    (case Activate e m' of
                       (m'', Some activationErr) \<Rightarrow> (m'', Some activationErr)
                     | (m'', None) \<Rightarrow> (m'', Some err))))"

text \<open>
  Without an error of activation, \<open>%w\<close> wraps nil: it prints as below and unwraps to nil, so that no validation
  issue is read off it.
\<close>

definition after_activation_error :: "machine_env \<Rightarrow> issue_error option \<Rightarrow> action" where
  "after_activation_error e activationError m =
     (let validationIssues = si_ValidationIssues (sm_Invoice m)
      in case CanFire e TriggerFailed m of
           Inl c \<Rightarrow> (m, Some (wrap_issue ''failed to check if we can transition to failed state'' c))
         | Inr canFire \<Rightarrow>
             if \<not> canFire
             then (m, Some (case activationError of
                 None \<Rightarrow> WrappedNil ''cannot move into failed state: %!w(<nil>)''
               | Some a \<Rightarrow> wrap_issue ''cannot move into failed state'' a))
             else (case Fire e None TriggerFailed m of
                     (m', Some err) \<Rightarrow> (m', Some (wrap_issue ''failed to transition to failed state'' err))
                   | (m', None) \<Rightarrow> (m', if activationError \<noteq> None then activationError else AsError validationIssues)))"

definition post_update :: "machine_env \<Rightarrow> action" where
  "post_update e m =
     (case me_PostUpdate e (sm_Invoice m) of
        (i, err) \<Rightarrow> (set_invoice i m, wrap_opt ''error calling post update hooks for invoice'' err))"

definition FireAndActivate :: "machine_env \<Rightarrow> InvoiceTrigger \<Rightarrow> ChangeSource option \<Rightarrow> action" where
  "FireAndActivate e trigger args m =
     (case Fire e args trigger m of
        (m1, Some err) \<Rightarrow>
          if si_Status (sm_Invoice m1) = si_Status (sm_Invoice m) then (m1, Some err) else after_fire_error e err m1
      | (m1, None) \<Rightarrow>
          (case Activate e m1 of
             (m2, activationError) \<Rightarrow>
               if activationError \<noteq> None \<or> SI_HasCritical (sm_Invoice m2) then after_activation_error e activationError m2
               else post_update e m2))"

section \<open>Updating an invoice\<close>

definition resolveStatusDetails :: "machine_env \<Rightarrow> StandardInvoice \<Rightarrow> issue_error + StandardInvoice" where
  "resolveStatusDetails e invoice =
     (if si_Status invoice = Gathering then Inr invoice
      else if si_StatusDetails invoice \<noteq> no_status_details \<and>
        si_Status invoice \<notin> set [DraftWaitingForCollection, DraftWaitingAutoApproval] then Inr invoice
      else case StatusDetails status_fuel e \<lparr>sm_Invoice = invoice, sm_NeedsDBSave = False, sm_Published = []\<rparr> of
             (m, sd, Some err) \<Rightarrow>
               Inl (wrap_issue ''resolving status details'' (wrap_issue ''error resolving status details'' err))
           | (m, sd, None) \<Rightarrow> Inr ((sm_Invoice m)\<lparr>si_StatusDetails := sd\<rparr>))"

text \<open>The adapter is asked last; it returns the invoice with its apps resolved.\<close>

definition updateInvoice :: "machine_env \<Rightarrow> StandardInvoice \<Rightarrow> issue_error + StandardInvoice" where
  "updateInvoice e i =
     (case List.map_filter (\<lambda>l. snd (populateStandardLineEngine l)) (or_empty (si_Lines i)) of
        err # _ \<Rightarrow> Inl (wrap_issue ''line: inferring engine'' (go_error err))
      | [] \<Rightarrow>
          (case resolveStatusDetails e
             (i\<lparr>si_Lines := map_option (map (\<lambda>l. fst (populateStandardLineEngine l))) (si_Lines i)\<rparr>) of
             Inl err \<Rightarrow> Inl (wrap_issue ''error resolving status details for invoice'' err)
           | Inr invoice \<Rightarrow> me_Adapter e invoice))"

section \<open>Advancing until stable\<close>

text \<open>
  One step of the loop: \<open>Inl\<close> returns, \<open>Inr\<close> goes on. An error made of validation issues ends the loop with
  the issues on the invoice.
\<close>

definition save_if_needed :: "machine_env \<Rightarrow> InvoiceStateMachine \<Rightarrow> issue_error + InvoiceStateMachine" where
  "save_if_needed e m =
     (if \<not> sm_NeedsDBSave m then Inr m
      else case updateInvoice e (sm_Invoice m) of
             Inl err \<Rightarrow> Inl (wrap_issue ''error updating invoice'' err)
           | Inr updatedInvoice \<Rightarrow> Inr (m\<lparr>sm_NeedsDBSave := False, sm_Invoice := updatedInvoice\<rparr>))"

definition advance_step :: "machine_env \<Rightarrow> StandardInvoice \<Rightarrow> InvoiceStateMachine
    \<Rightarrow> (InvoiceStateMachine \<times> issue_error option) + InvoiceStateMachine" where
  "advance_step e preAdvanceState m =
     (case FireAndActivate e TriggerNext None m of
        (m1, Some err) \<Rightarrow>
          (case ToValidationIssues (Some err) of
             (_, Some _) \<Rightarrow> Inl (m1, Some (wrap_issue ''cannot transition to the next status'' err))
           | (validationIssues, None) \<Rightarrow>
               Inl (set_invoice ((sm_Invoice m1)\<lparr>si_ValidationIssues := validationIssues\<rparr>) m1, AsError validationIssues))
      | (m1, None) \<Rightarrow>
          (case save_if_needed e m1 of
             Inl err \<Rightarrow> Inl (m1, Some err)
           | Inr m2 \<Rightarrow>
               (case NewStandardInvoiceUpdatedEvent e (sm_Invoice m2) preAdvanceState of
                  Inl err \<Rightarrow> Inl (m2, Some (wrap_issue ''error creating invoice updated event'' (go_error err)))
                | Inr event \<Rightarrow>
                    (case Publish e event m2 of
                       (m3, Some err) \<Rightarrow> Inl (m3, Some (wrap_issue ''error emitting invoice updated event'' err))
                     | (m3, None) \<Rightarrow> Inr m3))))"

text \<open>
  Advancing, the post-advance hook of the app and the trigger it may invoke call each other; \<open>None\<close> is running
  out of fuel.
\<close>

fun AdvanceUntilStateStable :: "nat \<Rightarrow> machine_env \<Rightarrow> InvoiceStateMachine \<Rightarrow> (InvoiceStateMachine \<times> issue_error option) option"
and triggerPostAdvanceHooks :: "nat \<Rightarrow> machine_env \<Rightarrow> InvoiceStateMachine \<Rightarrow> (InvoiceStateMachine \<times> issue_error option) option"
and HandleInvoiceTrigger :: "nat \<Rightarrow> machine_env \<Rightarrow> InvoiceTriggerInput \<Rightarrow> InvoiceStateMachine
      \<Rightarrow> (InvoiceStateMachine \<times> issue_error option) option" where
  "AdvanceUntilStateStable 0 e m = None"
| "AdvanceUntilStateStable (Suc n) e m =
     (case NewEventStandardInvoice e (sm_Invoice m) of
        Inl err \<Rightarrow> Some (m, Some (go_error err))
      | Inr preAdvanceState \<Rightarrow>
          (case CanFire e TriggerNext m of
             Inl err \<Rightarrow> Some (m, Some err)
           | Inr canFire \<Rightarrow>
               if \<not> canFire
               then (case triggerPostAdvanceHooks n e m of
                       None \<Rightarrow> None
                     | Some (m', Some err) \<Rightarrow> Some (m', Some err)
                     | Some (m', None) \<Rightarrow> Some (m', AsError (si_ValidationIssues (sm_Invoice m'))))
               else (case advance_step e preAdvanceState m of
                       Inl r \<Rightarrow> Some r
                     | Inr m' \<Rightarrow> AdvanceUntilStateStable n e m')))"
| "triggerPostAdvanceHooks 0 e m = None"
| "triggerPostAdvanceHooks (Suc n) e m =
     (let report = report_app StandardInvoiceOpPostAdvanceHook (sm_Invoice m)
      in case me_App e of
           None \<Rightarrow> Some (m, Some no_invoicing_app)
         | Some app \<Rightarrow>
             (case ia_PostAdvance app of
                None \<Rightarrow> Some (report (m, None, None))
              | Some hook \<Rightarrow>
                  (case SI_Clone (sm_Invoice m) of
                     Inl err \<Rightarrow> Some (report (m, None, Some (go_error err)))
                   | Inr clonedInvoice \<Rightarrow>
                       (case hook clonedInvoice of
                          Inl err \<Rightarrow> Some (report (m, None, Some err))
                        | Inr None \<Rightarrow> Some (report (m, None, None))
                        | Inr (Some trigger) \<Rightarrow>
                            (case HandleInvoiceTrigger n e trigger m of
                               None \<Rightarrow> None
                             | Some (m', err) \<Rightarrow> Some (report (m', map_option tv_Operation (ti_ValidationErrors trigger), err)))))))"
| "HandleInvoiceTrigger 0 e trigger m = None"
| "HandleInvoiceTrigger (Suc n) e trigger m =
     (case TI_Validate trigger of
        Some err \<Rightarrow> Some (m, Some (go_error err))
      | None \<Rightarrow>
          if (ti_Namespace trigger, ti_ID trigger) \<noteq> (si_Namespace (sm_Invoice m), si_ID (sm_Invoice m))
          then Some (m, Some (PlainError ''trigger invoice ID does not match the current invoice ID''))
          else
            (case NewEventStandardInvoice e (sm_Invoice m) of
               Inl err \<Rightarrow> Some (m, Some (go_error err))
             | Inr preAdvanceState \<Rightarrow>
                 (case FireAndActivate e (ti_Trigger trigger) None m of
                    (m1, Some err) \<Rightarrow> Some (m1, Some err)
                  | (m1, None) \<Rightarrow>
                      (case NewStandardInvoiceUpdatedEvent e (sm_Invoice m1) preAdvanceState of
                         Inl err \<Rightarrow> Some (m1, Some (go_error err))
                       | Inr event \<Rightarrow>
                           (case Publish e event m1 of
                              (m2, Some err) \<Rightarrow> Some (m2, Some err)
                            | (m2, None) \<Rightarrow>
                                (case AdvanceUntilStateStable n e m2 of
                                   None \<Rightarrow> None
                                 | Some (m3, Some err) \<Rightarrow> Some (m3, Some err)
                                 | Some (m3, None) \<Rightarrow>
                                     Some (m3, Option.bind (ti_ValidationErrors trigger) (\<lambda>v. join_issue_errors (tv_Errors v)))))))))"

section \<open>Triggers from apps\<close>

text \<open>
  A trigger that an app sends to the service (\<open>TriggerInvoice\<close> of openmeter/billing/service/invoiceapp.go). The
  invoice has been loaded and locked; whatever the machine reports becomes the issues of the component of the
  app, and the invoice is stored by \<open>update\<close>, which stands for the adapter.
\<close>

record InvoiceTriggerServiceInput =
  ts_Input :: InvoiceTriggerInput
  ts_AppType :: string
  ts_Capability :: string

definition TS_Validate :: "InvoiceTriggerServiceInput \<Rightarrow> error option" where
  "TS_Validate i =
     (case TI_Validate (ts_Input i) of
        Some e \<Rightarrow> Some (Wrap ''trigger'' e)
      | None \<Rightarrow>
          if ts_AppType i = [] then Some (Err ''app type is required'')
          else if ts_Capability i = [] then Some (Err ''capability is required'') else None)"

definition trigger_component :: "InvoiceTriggerServiceInput \<Rightarrow> string" where
  "trigger_component input =
     (let op' = (case ti_ValidationErrors (ts_Input input) of None \<Rightarrow> StandardInvoiceOpTriggerInvoice | Some v \<Rightarrow> tv_Operation v)
      in AppTypeCapabilityToComponent (ts_AppType input) (ts_Capability input) (operation_string op'))"

definition TriggerInvoice :: "nat \<Rightarrow> machine_env \<Rightarrow> (StandardInvoice \<Rightarrow> issue_error + StandardInvoice) \<Rightarrow> InvoiceTriggerServiceInput
    \<Rightarrow> InvoiceStateMachine \<Rightarrow> (InvoiceStateMachine \<times> issue_error option) option" where
  "TriggerInvoice n e update input m =
     (case TS_Validate input of
        Some err \<Rightarrow> Some (m, Some (go_error err))
      | None \<Rightarrow>
          (case HandleInvoiceTrigger n e (ts_Input input) m of
             None \<Rightarrow> None
           | Some (m', errOrValidationErrors) \<Rightarrow>
               (case SI_MergeValidationIssues (ValidationWithComponent (trigger_component input) errOrValidationErrors)
                   (trigger_component input) (sm_Invoice m') of
                  (i, Some remainingErrors) \<Rightarrow> Some (set_invoice i m', Some remainingErrors)
                | (i, None) \<Rightarrow> Some (set_invoice i m', error_of (update i)))))"

end
