(* ===== verification/InvoiceLife.thy ===== *)
theory InvoiceLife
  imports InvoiceMachine
begin

text \<open>
  What the state machine of \<open>InvoiceMachine\<close> guarantees: resolving the actions of a status leaves no trace,
  advancing ends, and every run follows the abstract life of an invoice.
\<close>

section \<open>The package for state machines\<close>

text \<open>The destinations whose guards all hold.\<close>

definition enabled_of :: "permits \<Rightarrow> StandardInvoiceStatus list" where
  "enabled_of ps = map fst (filter (\<lambda>p. list_all (\<lambda>g. g) (snd p)) ps)"

text \<open>
  The documentation of the package: a trigger can be fired if the guards of one of its transitions hold; then
  the destination is stored and entered, and without one firing is an error that changes nothing. Activating
  runs the action of the current state. With two transitions enabled nothing is assumed.
\<close>

definition stateless_ok :: "stateless \<Rightarrow> bool" where
  "stateless_ok s \<longleftrightarrow>
     (\<forall>ps. sl_CanFire s ps = Inr (enabled_of ps \<noteq> [])) \<and>
     (\<forall>ps d store entry m. enabled_of ps = [d] \<longrightarrow> sl_Fire s ps store entry m =
        (case store d m of (m', Some err) \<Rightarrow> (m', Some err) | (m', None) \<Rightarrow> entry d m')) \<and>
     (\<forall>ps store entry m. enabled_of ps = [] \<longrightarrow> (\<exists>err. sl_Fire s ps store entry m = (m, Some err))) \<and>
     (\<forall>act. sl_Activate s act = act)"

text \<open>An instance.\<close>

definition std_stateless :: stateless where
  "std_stateless = \<lparr>sl_CanFire = (\<lambda>ps. Inr (enabled_of ps \<noteq> [])),
     sl_Fire = (\<lambda>ps store entry m. case enabled_of ps of
        [] \<Rightarrow> (m, Some (PlainError ''no valid leaving transitions are permitted for trigger''))
      | d # _ \<Rightarrow> (case store d m of (m', Some err) \<Rightarrow> (m', Some err) | (m', None) \<Rightarrow> entry d m')),
     sl_Activate = (\<lambda>act. act)\<rparr>"

lemma std_stateless_ok: "stateless_ok std_stateless"
  by (simp add: stateless_ok_def std_stateless_def)

section \<open>The transitions\<close>

definition destination :: "machine_env \<Rightarrow> StandardInvoice \<Rightarrow> InvoiceTrigger \<Rightarrow> StandardInvoiceStatus option" where
  "destination e i t = (case enabled_of (permits_of e i t) of [] \<Rightarrow> None | d # _ \<Rightarrow> Some d)"

lemmas configurations = permits_of_def configured_def draft_config_def issuing_config_def payment_config_def

text \<open>At most one transition of a trigger is enabled: the package never has to choose.\<close>

lemma enabled_unique: "enabled_of (permits_of e i t) = (case destination e i t of None \<Rightarrow> [] | Some d \<Rightarrow> [d])"
proof -
  have "length (enabled_of (permits_of e i t)) \<le> 1"
    by (cases "si_Status i"; cases t) (simp_all add: configurations enabled_of_def NotFn_def)
  then show ?thesis
    by (cases "enabled_of (permits_of e i t)") (auto simp: destination_def)
qed

lemma destination_permitted: "destination e i t = Some d \<Longrightarrow> d \<in> fst ` set (permits_of e i t)"
  by (auto simp: destination_def enabled_of_def filter_eq_Cons_iff Cons_eq_map_conv split: list.splits)

text \<open>
  The triggers that the resolution of status details fires on the machine, and a number that they lower: how far
  a status is from rest.
\<close>

fun distance :: "StandardInvoiceStatus \<Rightarrow> nat" where
  "distance DraftInvalidCreated = 12"
| "distance DraftCreated = 11"
| "distance DraftUpdating = 11"
| "distance DraftWaitingForCollection = 10"
| "distance DraftCollecting = 9"
| "distance DraftInvalid = 9"
| "distance DraftSyncFailed = 9"
| "distance DraftValidating = 8"
| "distance DraftSyncing = 7"
| "distance DraftWaitingAutoApproval = 6"
| "distance DraftManualApprovalNeeded = 6"
| "distance DraftReadyToIssue = 5"
| "distance IssuingLineFinalizationFailed = 5"
| "distance IssuingLineFinalization = 4"
| "distance IssuingSyncFailed = 4"
| "distance IssuingSyncing = 3"
| "distance IssuingChargeBookingFailed = 3"
| "distance IssuingChargeBooking = 2"
| "distance DeleteInProgress = 2"
| "distance Issued = 1"
| "distance DeleteSyncing = 1"
| "distance PaymentProcessingBookingAuthorizedFailed = 2"
| "distance PaymentProcessingBookingAuthorizedAndSettledFailed = 2"
| "distance PaymentProcessingBookingSettledFailed = 2"
| "distance PaymentProcessingBookingAuthorized = 1"
| "distance PaymentProcessingBookingAuthorizedAndSettled = 1"
| "distance PaymentProcessingBookingSettled = 1"
| "distance PaymentProcessingFailed = 1"
| "distance PaymentProcessingActionRequired = 1"
| "distance Overdue = 1"
| "distance _ = 0"

definition emulated :: "InvoiceTrigger set" where
  "emulated = {TriggerNext, TriggerRetry, TriggerApprove, TriggerForceCollect}"

lemma emulated_permits:
  assumes "t \<in> emulated" and "d \<in> fst ` set (permits_of e i t)"
  shows "distance d < distance (si_Status i) \<and> d \<noteq> DeleteInProgress"
  using assms
  by (cases "si_Status i") (auto simp: configurations emulated_def resolveStateAfterDraftReadyToIssue_def split: if_splits)

lemma distance_fuel: "distance s < status_fuel"
  by (cases s) (simp_all add: status_fuel_def)

section \<open>Firing\<close>

lemma CanFire_destination: "stateless_ok (me_Lib e) \<Longrightarrow> CanFire e t m = Inr (destination e (sm_Invoice m) t \<noteq> None)"
  by (simp add: CanFire_def stateless_ok_def enabled_unique split: option.splits)

lemma fire_Some:
  assumes "stateless_ok (me_Lib e)" and "destination e (sm_Invoice m) t = Some d"
  shows "fire D e args t m =
    (case set_state D e d m of (m', Some err) \<Rightarrow> (m', Some err) | (m', None) \<Rightarrow> on_entry e args d m')"
proof -
  have "enabled_of (permits_of e (sm_Invoice m) t) = [d]" by (simp add: enabled_unique assms(2))
  then show ?thesis using assms(1) by (simp add: fire_def stateless_ok_def)
qed

lemma fire_None:
  assumes "stateless_ok (me_Lib e)" and "destination e (sm_Invoice m) t = None"
  shows "\<exists>err. fire D e args t m = (m, Some err)"
proof -
  have "enabled_of (permits_of e (sm_Invoice m) t) = []" by (simp add: enabled_unique assms(2))
  then show ?thesis using assms(1) by (simp add: fire_def stateless_ok_def)
qed

lemma destination_emulated:
  assumes "destination e i t = Some d" and "t \<in> emulated"
  shows "distance d < distance (si_Status i)" and "d \<noteq> DeleteInProgress"
  using emulated_permits [OF assms(2) destination_permitted [OF assms(1)]] by simp_all

lemma destination_distance: "distance (si_Status i) = 0 \<Longrightarrow> t \<in> emulated \<Longrightarrow> destination e i t = None"
  using destination_emulated(1) [of e i t] by (cases "destination e i t") auto

section \<open>Resolving the available actions\<close>

text \<open>A machine whose status, payment entry time and status details differ.\<close>

definition moved :: "StandardInvoiceStatus \<Rightarrow> time option \<Rightarrow> StandardInvoiceStatusDetails \<Rightarrow> InvoiceStateMachine \<Rightarrow> InvoiceStateMachine" where
  "moved s pt d m = set_invoice ((sm_Invoice m)\<lparr>si_Status := s, si_PaymentProcessingEnteredAt := pt, si_StatusDetails := d\<rparr>) m"

definition redetailed :: "StandardInvoiceStatusDetails \<Rightarrow> InvoiceStateMachine \<Rightarrow> InvoiceStateMachine" where
  "redetailed d m = set_invoice ((sm_Invoice m)\<lparr>si_StatusDetails := d\<rparr>) m"

lemma set_invoice_simps [simp]:
  "sm_Invoice (set_invoice i m) = i" "set_invoice j (set_invoice i m) = set_invoice j m"
  "set_invoice (sm_Invoice m) m = m" "sm_NeedsDBSave (set_invoice i m) = sm_NeedsDBSave m"
  "sm_Published (set_invoice i m) = sm_Published m"
  by (simp_all add: set_invoice_def)

lemma moved_simps [simp]:
  "moved s pt d (moved s' pt' d' m) = moved s pt d m" "si_Status (sm_Invoice (moved s pt d m)) = s"
  "redetailed d' (moved s pt d m) = moved s pt d' m" "si_ValidationIssues (sm_Invoice (moved s pt d m)) = si_ValidationIssues (sm_Invoice m)"
  "moved s pt d (redetailed d' m) = moved s pt d m" "redetailed d (redetailed d' m) = redetailed d m"
  "redetailed (si_StatusDetails (sm_Invoice m)) m = m"
  by (simp_all add: moved_def redetailed_def)

text \<open>A resolution that leaves nothing but status details behind.\<close>

definition traceless :: "details_fn \<Rightarrow> InvoiceStateMachine \<Rightarrow> bool" where
  "traceless D m \<longleftrightarrow> (\<exists>d sd. D m = (redetailed d m, sd, None))"

lemma set_state_moves:
  assumes "\<And>pt. traceless D (set_invoice ((sm_Invoice m)\<lparr>si_Status := d, si_PaymentProcessingEnteredAt := pt\<rparr>) m)"
  shows "\<exists>pt sd. set_state D e d m = (moved d pt sd m, None)"
proof -
  let ?pt = "if d = PaymentProcessingPending \<and> si_Status (sm_Invoice m) \<noteq> PaymentProcessingPending \<and>
    si_PaymentProcessingEnteredAt (sm_Invoice m) = None then Some (me_Now e) else si_PaymentProcessingEnteredAt (sm_Invoice m)"
  let ?m = "set_invoice ((sm_Invoice m)\<lparr>si_Status := d, si_PaymentProcessingEnteredAt := ?pt\<rparr>) m"
  obtain x sd where D: "D ?m = (redetailed x ?m, sd, None)"
    using assms [of ?pt] unfolding traceless_def by blast
  have i: "(if d = PaymentProcessingPending \<and> si_Status (sm_Invoice m) \<noteq> PaymentProcessingPending \<and>
      si_PaymentProcessingEnteredAt ((sm_Invoice m)\<lparr>si_Status := d\<rparr>) = None
     then (sm_Invoice m)\<lparr>si_Status := d, si_PaymentProcessingEnteredAt := Some (me_Now e)\<rparr> else (sm_Invoice m)\<lparr>si_Status := d\<rparr>) =
     (sm_Invoice m)\<lparr>si_Status := d, si_PaymentProcessingEnteredAt := ?pt\<rparr>" by simp
  have "set_state D e d m = (set_invoice ((sm_Invoice (redetailed x ?m))\<lparr>si_StatusDetails := sd\<rparr>) (redetailed x ?m), None)"
    unfolding set_state_def Let_def i D by simp
  also have "\<dots> = (moved d ?pt sd m, None)" by (simp add: redetailed_def moved_def)
  finally show ?thesis by blast
qed

lemma fire_moves:
  assumes ok: "stateless_ok (me_Lib e)" and d: "destination e (sm_Invoice m) t = Some d" and t: "t \<in> emulated"
    and D: "\<And>m'. distance (si_Status (sm_Invoice m')) < distance (si_Status (sm_Invoice m)) \<Longrightarrow> traceless D m'"
  shows "\<exists>pt sd. fire D e None t m = (moved d pt sd m, None)"
proof -
  have "traceless D (set_invoice ((sm_Invoice m)\<lparr>si_Status := d, si_PaymentProcessingEnteredAt := pt\<rparr>) m)" for pt
    by (rule D) (simp add: destination_emulated [OF d t])
  from set_state_moves [where e = e, OF this] obtain pt sd where s: "set_state D e d m = (moved d pt sd m, None)" by blast
  have "fire D e None t m = (moved d pt sd m, None)"
    unfolding fire_Some [OF ok d] s by (simp add: on_entry_def destination_emulated [OF d t])
  then show ?thesis by blast
qed

text \<open>
  The checks of an asynchronous app look at what was synchronised, not at where the machine stands: the status,
  its details, the payment entry time and the issues make no difference to them. Resolving the status
  details relies on it, since it fires the machine with the issues taken off.
\<close>

definition checks_stable :: "machine_env \<Rightarrow> bool" where
  "checks_stable e \<longleftrightarrow> (\<forall>i s pt d v. let j = i\<lparr>si_Status := s, si_PaymentProcessingEnteredAt := pt, si_StatusDetails := d,
      si_ValidationIssues := v\<rparr>
    in canDraftSyncAdvance e j = canDraftSyncAdvance e i \<and> canIssuingSyncAdvance e j = canIssuingSyncAdvance e i)"

lemma checks_stable_updates:
  assumes "checks_stable e"
  shows "canDraftSyncAdvance e (i\<lparr>si_ValidationIssues := v\<rparr>) = canDraftSyncAdvance e i"
    "canIssuingSyncAdvance e (i\<lparr>si_ValidationIssues := v\<rparr>) = canIssuingSyncAdvance e i"
    "canDraftSyncAdvance e (i\<lparr>si_StatusDetails := d\<rparr>) = canDraftSyncAdvance e i"
    "canIssuingSyncAdvance e (i\<lparr>si_StatusDetails := d\<rparr>) = canIssuingSyncAdvance e i"
proof -
  have j: "i\<lparr>si_ValidationIssues := v\<rparr> = i\<lparr>si_Status := si_Status i, si_PaymentProcessingEnteredAt := si_PaymentProcessingEnteredAt i,
      si_StatusDetails := si_StatusDetails i, si_ValidationIssues := v\<rparr>"
    and k: "i\<lparr>si_StatusDetails := d\<rparr> = i\<lparr>si_Status := si_Status i, si_PaymentProcessingEnteredAt := si_PaymentProcessingEnteredAt i,
      si_StatusDetails := d, si_ValidationIssues := si_ValidationIssues i\<rparr>" by simp_all
  note c = assms [unfolded checks_stable_def Let_def, rule_format]
  show "canDraftSyncAdvance e (i\<lparr>si_ValidationIssues := v\<rparr>) = canDraftSyncAdvance e i"
    "canIssuingSyncAdvance e (i\<lparr>si_ValidationIssues := v\<rparr>) = canIssuingSyncAdvance e i"
    unfolding j using c [where i = i] by blast+
  show "canDraftSyncAdvance e (i\<lparr>si_StatusDetails := d\<rparr>) = canDraftSyncAdvance e i"
    "canIssuingSyncAdvance e (i\<lparr>si_StatusDetails := d\<rparr>) = canIssuingSyncAdvance e i"
    unfolding k using c [where i = i] by blast+
qed

lemma checks_stable_moved:
  assumes "checks_stable e"
  shows "canDraftSyncAdvance e (i\<lparr>si_Status := s, si_PaymentProcessingEnteredAt := pt, si_StatusDetails := d\<rparr>) = canDraftSyncAdvance e i"
    "canIssuingSyncAdvance e (i\<lparr>si_Status := s, si_PaymentProcessingEnteredAt := pt, si_StatusDetails := d\<rparr>) = canIssuingSyncAdvance e i"
    "canDraftSyncAdvance e (i\<lparr>si_Status := s\<rparr>) = canDraftSyncAdvance e i"
    "canIssuingSyncAdvance e (i\<lparr>si_Status := s\<rparr>) = canIssuingSyncAdvance e i"
proof -
  have j: "i\<lparr>si_Status := s, si_PaymentProcessingEnteredAt := pt, si_StatusDetails := d\<rparr> =
      i\<lparr>si_Status := s, si_PaymentProcessingEnteredAt := pt, si_StatusDetails := d, si_ValidationIssues := si_ValidationIssues i\<rparr>"
    and k: "i\<lparr>si_Status := s\<rparr> = i\<lparr>si_Status := s, si_PaymentProcessingEnteredAt := si_PaymentProcessingEnteredAt i,
      si_StatusDetails := si_StatusDetails i, si_ValidationIssues := si_ValidationIssues i\<rparr>" by simp_all
  note c = assms [unfolded checks_stable_def Let_def, rule_format]
  show "canDraftSyncAdvance e (i\<lparr>si_Status := s, si_PaymentProcessingEnteredAt := pt, si_StatusDetails := d\<rparr>) = canDraftSyncAdvance e i"
    "canIssuingSyncAdvance e (i\<lparr>si_Status := s, si_PaymentProcessingEnteredAt := pt, si_StatusDetails := d\<rparr>) = canIssuingSyncAdvance e i"
    by (subst j, use c [where i = i] in blast)+
  show "canDraftSyncAdvance e (i\<lparr>si_Status := s\<rparr>) = canDraftSyncAdvance e i"
    "canIssuingSyncAdvance e (i\<lparr>si_Status := s\<rparr>) = canIssuingSyncAdvance e i"
    by (subst k, use c [where i = i] in blast)+
qed

lemma destination_without_issues:
  assumes "checks_stable e" and "destination e i t = Some d"
  shows "destination e (i\<lparr>si_ValidationIssues := []\<rparr>) t = Some d"
  using assms(2)
  by (cases "si_Status i"; cases t)
    (auto simp: destination_def configurations enabled_of_def NotFn_def checks_stable_updates [OF assms(1)]
      noCriticalValidationErrors_def SI_HasCritical_def HasCriticalValidationIssues_def isAutoAdvanceEnabled_def
      shouldAutoAdvance_def isReadyForCollection_def resolveStateAfterDraftReadyToIssue_def split: if_splits option.splits)

lemma destination_redetailed:
  assumes "checks_stable e"
  shows "destination e (i\<lparr>si_StatusDetails := d\<rparr>) t = destination e i t"
  by (cases "si_Status i"; cases t)
    (simp_all add: destination_def configurations enabled_of_def NotFn_def checks_stable_updates [OF assms]
      noCriticalValidationErrors_def SI_HasCritical_def isAutoAdvanceEnabled_def
      shouldAutoAdvance_def isReadyForCollection_def resolveStateAfterDraftReadyToIssue_def)

text \<open>Where the payment entry time and the status details make no difference, the status alone decides.\<close>

lemma destination_moved:
  assumes "checks_stable e"
  shows "destination e (i\<lparr>si_Status := s, si_PaymentProcessingEnteredAt := pt, si_StatusDetails := d\<rparr>) t =
    destination e (i\<lparr>si_Status := s\<rparr>) t"
  by (cases s; cases t)
    (simp_all add: destination_def configurations enabled_of_def NotFn_def checks_stable_moved [OF assms]
      noCriticalValidationErrors_def SI_HasCritical_def isAutoAdvanceEnabled_def
      shouldAutoAdvance_def isReadyForCollection_def resolveStateAfterDraftReadyToIssue_def)

text \<open>
  The invoice in a status and without issues; the status it moves on to by itself from there; and the status in
  which it comes to rest: the one at the end of these moves from a status, where it cannot move on any more.
\<close>

definition at_status :: "StandardInvoice \<Rightarrow> StandardInvoiceStatus \<Rightarrow> StandardInvoice" where
  "at_status i s = i\<lparr>si_Status := s, si_ValidationIssues := []\<rparr>"

definition next_status :: "machine_env \<Rightarrow> StandardInvoice \<Rightarrow> StandardInvoiceStatus \<Rightarrow> StandardInvoiceStatus \<Rightarrow> bool" where
  "next_status e i s s' \<longleftrightarrow> destination e (at_status i s) TriggerNext = Some s'"

definition rests_in :: "machine_env \<Rightarrow> StandardInvoice \<Rightarrow> StandardInvoiceStatus \<Rightarrow> StandardInvoiceStatus \<Rightarrow> bool" where
  "rests_in e i d s \<longleftrightarrow> (next_status e i)\<^sup>*\<^sup>* d s \<and> destination e (at_status i s) TriggerNext = None"

lemma destination_at_status:
  assumes "checks_stable e"
  shows "destination e (at_status (i\<lparr>si_Status := s', si_PaymentProcessingEnteredAt := pt, si_StatusDetails := d\<rparr>) s) t =
    destination e (at_status i s) t"
proof -
  have "at_status (i\<lparr>si_Status := s', si_PaymentProcessingEnteredAt := pt, si_StatusDetails := d\<rparr>) s =
      (at_status i s)\<lparr>si_Status := s, si_PaymentProcessingEnteredAt := pt, si_StatusDetails := d\<rparr>"
    by (simp add: at_status_def)
  moreover have "(at_status i s)\<lparr>si_Status := s\<rparr> = at_status i s" by (simp add: at_status_def)
  ultimately show ?thesis using destination_moved [OF assms, where i = "at_status i s" and s = s and pt = pt and d = d and t = t] by argo
qed

lemma rests_in_moved:
  assumes "checks_stable e"
  shows "rests_in e (sm_Invoice (moved s' pt x m)) = rests_in e (sm_Invoice m)"
    "rests_in e (sm_Invoice (redetailed x m)) = rests_in e (sm_Invoice m)"
proof -
  have r: "rests_in e (i\<lparr>si_Status := s', si_PaymentProcessingEnteredAt := pt, si_StatusDetails := x\<rparr>) = rests_in e i" for i s' pt
  proof -
    have "next_status e (i\<lparr>si_Status := s', si_PaymentProcessingEnteredAt := pt, si_StatusDetails := x\<rparr>) = next_status e i"
      by (simp add: next_status_def fun_eq_iff destination_at_status [OF assms])
    then show ?thesis unfolding rests_in_def [abs_def] destination_at_status [OF assms] by (rule arg_cong)
  qed
  show "rests_in e (sm_Invoice (moved s' pt x m)) = rests_in e (sm_Invoice m)" by (simp add: moved_def r)
  show "rests_in e (sm_Invoice (redetailed x m)) = rests_in e (sm_Invoice m)"
    using r [where i = "sm_Invoice m" and s' = "si_Status (sm_Invoice m)" and pt = "si_PaymentProcessingEnteredAt (sm_Invoice m)"]
    by (simp add: redetailed_def)
qed

lemma rests_without_issues:
  "rests_in e (i\<lparr>si_ValidationIssues := v\<rparr>) = rests_in e i"
proof -
  have a: "at_status (i\<lparr>si_ValidationIssues := v\<rparr>) s = at_status i s" for s by (simp add: at_status_def)
  then have "next_status e (i\<lparr>si_ValidationIssues := v\<rparr>) = next_status e i" by (simp add: next_status_def fun_eq_iff)
  then show ?thesis unfolding rests_in_def [abs_def] a by (rule arg_cong)
qed

lemma run_next_rests:
  assumes ok: "stateless_ok (me_Lib e)" and checks: "checks_stable e" and n: "distance (si_Status (sm_Invoice m)) < n"
    and v: "si_ValidationIssues (sm_Invoice m) = []"
    and D: "\<And>m'. distance (si_Status (sm_Invoice m')) < distance (si_Status (sm_Invoice m)) \<Longrightarrow> traceless D m'"
  shows "\<exists>s pt sd. run_next n D e m = (moved s pt sd m, None) \<and> rests_in e (sm_Invoice m) (si_Status (sm_Invoice m)) s"
  using n v D
proof (induction n arbitrary: m)
  case (Suc n)
  have at: "at_status (sm_Invoice m) (si_Status (sm_Invoice m)) = sm_Invoice m" using Suc.prems(2) by (simp add: at_status_def)
  show ?case
  proof (cases "destination e (sm_Invoice m) TriggerNext")
    case None
    have m: "m = moved (si_Status (sm_Invoice m)) (si_PaymentProcessingEnteredAt (sm_Invoice m)) (si_StatusDetails (sm_Invoice m)) m"
      by (simp add: moved_def)
    have "run_next (Suc n) D e m = (m, None)" by (simp add: CanFire_destination [OF ok] None)
    moreover have "rests_in e (sm_Invoice m) (si_Status (sm_Invoice m)) (si_Status (sm_Invoice m))"
      by (simp add: rests_in_def at None)
    ultimately show ?thesis using m by metis
  next
    case (Some d)
    have t: "TriggerNext \<in> emulated" by (simp add: emulated_def)
    obtain pt sd where f: "fire D e None TriggerNext m = (moved d pt sd m, None)"
      using fire_moves [OF ok Some t Suc.prems(3)] by blast
    have less: "distance d < distance (si_Status (sm_Invoice m))" by (rule destination_emulated [OF Some t])
    obtain s pt' sd' where r: "run_next n D e (moved d pt sd m) = (moved s pt' sd' (moved d pt sd m), None)"
      "rests_in e (sm_Invoice (moved d pt sd m)) d s"
      using Suc.IH [of "moved d pt sd m"] Suc.prems less by fastforce
    have "next_status e (sm_Invoice m) (si_Status (sm_Invoice m)) d" by (simp add: next_status_def at Some)
    then have "rests_in e (sm_Invoice m) (si_Status (sm_Invoice m)) s"
      using r(2) unfolding rests_in_moved [OF checks] by (simp add: rests_in_def converse_rtranclp_into_rtranclp)
    moreover have "run_next (Suc n) D e m = (moved s pt' sd' m, None)"
      using r(1) by (simp add: CanFire_destination [OF ok] Some f)
    ultimately show ?thesis by blast
  qed
qed simp

text \<open>
  What the resolution says of a trigger: none if it cannot be fired, else the status in which the invoice comes
  to rest from where the trigger takes it.
\<close>

definition action_ok :: "machine_env \<Rightarrow> StandardInvoice \<Rightarrow> InvoiceTrigger \<Rightarrow> StandardInvoiceStatus option \<Rightarrow> bool" where
  "action_ok e i t r \<longleftrightarrow>
     (case destination e i t of None \<Rightarrow> r = None | Some d \<Rightarrow> (case r of None \<Rightarrow> False | Some s \<Rightarrow> rests_in e i d s))"

lemma available_action:
  assumes ok: "stateless_ok (me_Lib e)" and checks: "checks_stable e" and t: "t \<in> emulated"
    and D: "\<And>m'. distance (si_Status (sm_Invoice m')) < distance (si_Status (sm_Invoice m)) \<Longrightarrow> traceless D m'"
  shows "\<exists>x r. calculateAvailableActionDetails D e t m = (redetailed x m, Inr r) \<and> action_ok e (sm_Invoice m) t r"
proof (cases "destination e (sm_Invoice m) t")
  case None
  then have "calculateAvailableActionDetails D e t m = (redetailed (si_StatusDetails (sm_Invoice m)) m, Inr None)"
    by (simp add: calculateAvailableActionDetails_def CanFire_destination [OF ok])
  then show ?thesis using None by (fastforce simp: action_ok_def)
next
  case (Some d)
  let ?m = "set_invoice ((sm_Invoice m)\<lparr>si_ValidationIssues := []\<rparr>) m"
  have d: "destination e (sm_Invoice ?m) t = Some d" using destination_without_issues [OF checks Some] by simp
  have D': "traceless D m'" if "distance (si_Status (sm_Invoice m')) < distance (si_Status (sm_Invoice ?m))" for m'
    by (rule D) (use that in simp)
  obtain pt sd where f: "fire D e None t ?m = (moved d pt sd ?m, None)" using fire_moves [OF ok d t D'] by blast
  have less: "distance d < distance (si_Status (sm_Invoice m))" using destination_emulated(1) [OF Some t] .
  have D'': "traceless D m'" if "distance (si_Status (sm_Invoice m')) < distance (si_Status (sm_Invoice (moved d pt sd ?m)))" for m'
    by (rule D) (use that less in simp)
  have n: "distance (si_Status (sm_Invoice (moved d pt sd ?m))) < status_fuel" by (simp add: distance_fuel)
  have v: "si_ValidationIssues (sm_Invoice (moved d pt sd ?m)) = []" by simp
  obtain s pt' sd' where r: "run_next status_fuel D e (moved d pt sd ?m) = (moved s pt' sd' (moved d pt sd ?m), None)"
    "rests_in e (sm_Invoice (moved d pt sd ?m)) d s"
    using run_next_rests [OF ok checks n v D''] by auto
  have b: "set_invoice ((sm_Invoice (moved s pt' sd' ?m))\<lparr>si_Status := si_Status (sm_Invoice m),
      si_PaymentProcessingEnteredAt := si_PaymentProcessingEnteredAt (sm_Invoice m),
      si_ValidationIssues := si_ValidationIssues (sm_Invoice m)\<rparr>) (moved s pt' sd' ?m) = redetailed sd' m"
    by (simp add: moved_def redetailed_def)
  have "calculateAvailableActionDetails D e t m = (redetailed sd' m, Inr (Some s))"
    unfolding calculateAvailableActionDetails_def CanFire_destination [OF ok] Some
    by (simp add: Let_def f r(1) b [simplified])
  moreover have "rests_in e (sm_Invoice m) d s"
    using r(2) unfolding rests_in_moved [OF checks] by (simp add: rests_without_issues)
  ultimately show ?thesis using Some by (fastforce simp: action_ok_def)
qed

text \<open>What a resolution of status details must say.\<close>

definition details_ok :: "machine_env \<Rightarrow> StandardInvoice \<Rightarrow> StandardInvoiceStatusDetails \<Rightarrow> bool" where
  "details_ok e i sd \<longleftrightarrow>
     sd_Immutable sd = (destination e i TriggerUpdated = None) \<and> sd_Failed sd = IsFailed (si_Status i) \<and>
     av_Delete (sd_AvailableActions sd) = (if destination e i TriggerDelete = None then None else Some Deleted) \<and>
     action_ok e i TriggerNext (av_Advance (sd_AvailableActions sd)) \<and>
     action_ok e i TriggerRetry (av_Retry (sd_AvailableActions sd)) \<and>
     action_ok e i TriggerApprove (av_Approve (sd_AvailableActions sd)) \<and>
     action_ok e i TriggerForceCollect (av_SnapshotQuantities (sd_AvailableActions sd))"

lemma action_ok_redetailed:
  "checks_stable e \<Longrightarrow> action_ok e (sm_Invoice (redetailed x m)) t r = action_ok e (sm_Invoice m) t r"
proof -
  assume checks: "checks_stable e"
  then have "destination e (sm_Invoice (redetailed x m)) t = destination e (sm_Invoice m) t"
    by (simp add: redetailed_def destination_redetailed)
  then show ?thesis unfolding action_ok_def rests_in_moved(2) [OF checks] by (rule arg_cong)
qed

lemma resolve_details_ok:
  assumes ok: "stateless_ok (me_Lib e)" and checks: "checks_stable e" and s: "si_Status (sm_Invoice m) \<noteq> Gathering"
    and D: "\<And>m'. distance (si_Status (sm_Invoice m')) < distance (si_Status (sm_Invoice m)) \<Longrightarrow> traceless D m'"
  shows "\<exists>x sd. resolve_details D e m = (redetailed x m, sd, None) \<and> details_ok e (sm_Invoice m) sd"
proof -
  have st: "si_Status (sm_Invoice (redetailed x m)) = si_Status (sm_Invoice m)" for x by (simp add: redetailed_def)
  have a: "\<exists>y r. calculateAvailableActionDetails D e t (redetailed x m) = (redetailed y m, Inr r) \<and> action_ok e (sm_Invoice m) t r"
    if "t \<in> emulated" for t x
    using available_action [OF ok checks that, of "redetailed x m" D] D
    by (simp add: st action_ok_redetailed [OF checks])
  have f: "CanFire e t (redetailed x m) = Inr (destination e (sm_Invoice m) t \<noteq> None)" for t x
    by (simp add: CanFire_destination [OF ok] redetailed_def destination_redetailed [OF checks])
  let ?x0 = "si_StatusDetails (sm_Invoice m)"
  obtain x1 r1 where 1: "calculateAvailableActionDetails D e TriggerNext m = (redetailed x1 m, Inr r1)"
    "action_ok e (sm_Invoice m) TriggerNext r1" using a [of TriggerNext ?x0] by (auto simp: emulated_def)
  obtain x2 r2 where 2: "calculateAvailableActionDetails D e TriggerRetry (redetailed x1 m) = (redetailed x2 m, Inr r2)"
    "action_ok e (sm_Invoice m) TriggerRetry r2" using a [of TriggerRetry x1] by (auto simp: emulated_def)
  obtain x3 r3 where 3: "calculateAvailableActionDetails D e TriggerApprove (redetailed x2 m) = (redetailed x3 m, Inr r3)"
    "action_ok e (sm_Invoice m) TriggerApprove r3" using a [of TriggerApprove x2] by (auto simp: emulated_def)
  obtain x4 r4 where 4: "calculateAvailableActionDetails D e TriggerForceCollect (redetailed x3 m) = (redetailed x4 m, Inr r4)"
    "action_ok e (sm_Invoice m) TriggerForceCollect r4" using a [of TriggerForceCollect x3] by (auto simp: emulated_def)
  have "\<exists>sd. resolve_details D e m = (redetailed x4 m, sd, None) \<and> details_ok e (sm_Invoice m) sd"
    unfolding resolve_details_def using s 1(2) 2(2) 3(2) 4(2)
    by (simp add: 1(1) 2(1) 3(1) 4(1) f st error_of_def value_of_def join_opt_def details_ok_def)
  then show ?thesis by blast
qed

lemma StatusDetails_traceless:
  assumes "stateless_ok (me_Lib e)" and "checks_stable e"
  shows "distance (si_Status (sm_Invoice m)) < n \<Longrightarrow> traceless (StatusDetails n e) m"
proof (induction n arbitrary: m)
  case (Suc n)
  show ?case
  proof (cases "si_Status (sm_Invoice m) = Gathering")
    case True
    then have "StatusDetails (Suc n) e m = (redetailed (si_StatusDetails (sm_Invoice m)) m, no_status_details, None)"
      by (simp add: resolve_details_def)
    then show ?thesis unfolding traceless_def by blast
  next
    case False
    have "traceless (StatusDetails n e) m'" if "distance (si_Status (sm_Invoice m')) < distance (si_Status (sm_Invoice m))" for m'
      by (rule Suc.IH) (use that Suc.prems in simp)
    from resolve_details_ok [OF assms False this] show ?thesis unfolding traceless_def by (auto simp: StatusDetails.simps)
  qed
qed simp

section \<open>Actions keep the status\<close>

text \<open>
  The hook and the adapter keep the status of the invoice: the adapter returns what it stored, and the hooks
  registered in the program do not touch the status.
\<close>

definition keeps_status :: "machine_env \<Rightarrow> bool" where
  "keeps_status e \<longleftrightarrow> (\<forall>i. si_Status (fst (me_PostUpdate e i)) = si_Status i) \<and>
     (\<forall>i j. me_Adapter e i = Inr j \<longrightarrow> si_Status j = si_Status i)"

text \<open>A step on an invoice, and an action of the machine, that keep the status.\<close>

definition status_kept :: "(StandardInvoice \<Rightarrow> StandardInvoice \<times> issue_error option) \<Rightarrow> bool" where
  "status_kept f \<longleftrightarrow> (\<forall>i. si_Status (fst (f i)) = si_Status i)"

definition action_keeps :: "action \<Rightarrow> bool" where
  "action_keeps a \<longleftrightarrow> (\<forall>m. si_Status (sm_Invoice (fst (a m))) = si_Status (sm_Invoice m))"

named_theorems keeps

lemma calculations_keep [keeps]:
  "status_kept (StandardInvoiceCollectionAt positive)" "status_kept CalculateDraftUntil" "status_kept CalculateDueAt"
  "status_kept (UpsertDiscountCorrelationIDs ulid)" "status_kept (RecalculateTotals now)"
  "status_kept CalculateStandardInvoiceServicePeriod" "status_kept (SnapshotTaxConfigIntoLines deps)"
  by (simp_all add: status_kept_def StandardInvoiceCollectionAt_def CalculateDraftUntil_def CalculateDueAt_def
      UpsertDiscountCorrelationIDs_def RecalculateTotals_def CalculateStandardInvoiceServicePeriod_def
      SnapshotTaxConfigIntoLines_def Let_def split: option.splits)

lemma status_keptD: "status_kept f \<Longrightarrow> f i = (j, err) \<Longrightarrow> si_Status j = si_Status i"
  by (metis status_kept_def fst_conv)

lemma recalculate_groups_keep: "si_Status (fst (recalculate_groups deps active types i)) = si_Status i"
proof (induction types arbitrary: i)
  case (Cons t ts)
  then show ?case
    by (auto simp: Let_def split: sum.splits option.splits prod.splits)
qed simp

lemma RecalculateDetailedLinesAndTotals_keep [keeps]: "status_kept (RecalculateDetailedLinesAndTotals deps)"
  unfolding status_kept_def
proof
  fix i
  show "si_Status (fst (RecalculateDetailedLinesAndTotals deps i)) = si_Status i"
  proof (cases "si_Lines i")
    case (Some ls)
    obtain j err where r: "recalculate_groups deps (filter (\<lambda>l. \<not> IsDeleted (cd_Now deps) l) ls)
      (cd_Order deps (uniq (map ln_Engine (filter (\<lambda>l. \<not> IsDeleted (cd_Now deps) l) ls)))) i = (j, err)" by fastforce
    then have "si_Status j = si_Status i" by (metis recalculate_groups_keep fst_conv)
    then show ?thesis using status_keptD [OF calculations_keep(5), of "cd_Now deps" j]
      by (auto simp: RecalculateDetailedLinesAndTotals_def Some Let_def r split: option.splits prod.splits)
  qed (simp add: RecalculateDetailedLinesAndTotals_def)
qed

lemma SI_Merge_keep: "si_Status (fst (SI_MergeValidationIssues err c i)) = si_Status i"
  by (simp add: SI_MergeValidationIssues_def split: prod.splits)

lemma run_calculations_keep:
  "list_all status_kept calcs \<Longrightarrow> si_Status (fst (run_calculations calcs outErr i)) = si_Status i"
proof (induction calcs arbitrary: outErr i)
  case (Cons c cs)
  obtain j err where c: "c i = (j, err)" by fastforce
  have "si_Status j = si_Status i" using Cons.prems status_keptD [of c i j err] c by simp
  then show ?case using Cons by (simp add: c)
qed simp

lemma Calculate_keeps [keeps]: "status_kept (Calculate deps)"
  unfolding status_kept_def
proof
  fix i
  obtain j err where r: "run_calculations (InvoiceCalculations deps) None i = (j, err)" by fastforce
  have "list_all status_kept (InvoiceCalculations deps)" by (simp add: InvoiceCalculations_def keeps)
  from run_calculations_keep [OF this, of None i] have "si_Status j = si_Status i" by (simp add: r)
  then show "si_Status (fst (Calculate deps i)) = si_Status i"
    by (simp add: Calculate_def applyCalculations_def r SI_Merge_keep)
qed

lemma results_keep [keeps]: "status_kept (UR_MergeIntoInvoice u)" "status_kept (FR_MergeIntoInvoice f)"
  by (auto simp: status_kept_def UR_MergeIntoInvoice_def FR_MergeIntoInvoice_def Let_def split: option.splits prod.splits)

lemma action_keepsD: "action_keeps a \<Longrightarrow> a m = (m', err) \<Longrightarrow> si_Status (sm_Invoice m') = si_Status (sm_Invoice m)"
  by (metis action_keeps_def fst_conv)

lemma all_of_keeps: "list_all action_keeps fs \<Longrightarrow> si_Status (sm_Invoice (fst (all_of fs outErr m))) = si_Status (sm_Invoice m)"
proof (induction fs arbitrary: outErr m)
  case (Cons f fs)
  obtain m' err where f: "f m = (m', err)" by fastforce
  then show ?case using Cons action_keepsD [of f m m' err] by simp
qed simp

lemma AllOf_keeps [keeps]: "list_all action_keeps fs \<Longrightarrow> action_keeps (AllOf fs)"
  by (simp add: action_keeps_def AllOf_def all_of_keeps)

lemma simple_keeps [keeps]: "action_keeps requireDBSave" "action_keeps (notify e hook what)" "action_keeps (\<lambda>m. (m, None))"
  by (simp_all add: action_keeps_def requireDBSave_def notify_def)

lemma payments_keep [keeps]:
  "action_keeps (onInvoiceIssued e)" "action_keeps (onPaymentAuthorized e)" "action_keeps (onPaymentSettled e)"
  "action_keeps (onPaymentAuthorizedAndSettled e)"
  by (auto simp: action_keeps_def onInvoiceIssued_def onPaymentAuthorized_def onPaymentSettled_def
      onPaymentAuthorizedAndSettled_def notify_def split: option.splits)

lemma calculateInvoice_keeps [keeps]: "action_keeps (calculateInvoice e)"
  using status_keptD [OF Calculate_keeps]
  by (auto simp: action_keeps_def calculateInvoice_def Let_def split: option.splits sum.splits prod.splits)

text \<open>Callbacks of the app.\<close>

definition callback_keeps :: "(InvoiceStateMachine \<Rightarrow> InvoiceStateMachine \<times> StandardInvoiceOperation option \<times> issue_error option) \<Rightarrow> bool" where
  "callback_keeps f \<longleftrightarrow> (\<forall>m. si_Status (sm_Invoice (fst (f m))) = si_Status (sm_Invoice m))"

lemma report_app_keeps: "si_Status (sm_Invoice (fst (report_app op i (m, r)))) = si_Status (sm_Invoice m)"
  using SI_Merge_keep by (auto simp: report_app_def Let_def split: option.splits prod.splits) (metis fst_conv)+

lemma withInvoicingApp_keeps: "(\<And>app. callback_keeps (cb app)) \<Longrightarrow> action_keeps (withInvoicingApp e op cb)"
  unfolding action_keeps_def withInvoicingApp_def callback_keeps_def
  by (auto split: option.splits) (metis report_app_keeps prod.collapse)

lemma on_clone_keeps: "(\<And>cloned. callback_keeps (f cloned)) \<Longrightarrow> callback_keeps (on_clone f)"
  by (simp add: callback_keeps_def on_clone_def split: sum.splits)

lemma locked_keeps: "action_keeps a \<Longrightarrow>
  action_keeps (\<lambda>m. case validateNamespaceLockdown e (sm_Invoice m) of Some err \<Rightarrow> (m, Some err) | None \<Rightarrow> a m)"
  by (simp add: action_keeps_def split: option.splits)

lemma mergeUpsert_keeps: "mergeUpsertInvoiceResult r m = (m', err) \<Longrightarrow> si_Status (sm_Invoice m') = si_Status (sm_Invoice m)"
  using status_keptD [OF results_keep(1)] by (auto simp: mergeUpsertInvoiceResult_def split: option.splits prod.splits)

lemma app_actions_keep [keeps]:
  "action_keeps (validateDraftInvoice e)" "action_keeps (syncDraftInvoice e)" "action_keeps (syncDeletedInvoice e)"
proof -
  have v: "callback_keeps (on_clone (\<lambda>cloned m. (m, None, f app cloned)))" for f :: "invoicing_app \<Rightarrow> StandardInvoice \<Rightarrow> issue_error option" and app
    by (rule on_clone_keeps) (simp add: callback_keeps_def)
  show "action_keeps (validateDraftInvoice e)" "action_keeps (syncDeletedInvoice e)"
    unfolding validateDraftInvoice_def [abs_def] syncDeletedInvoice_def [abs_def]
    by (rule locked_keeps, rule withInvoicingApp_keeps, rule v)+
  have "callback_keeps (on_clone (\<lambda>cloned m. case ia_Upsert app cloned of Inl err \<Rightarrow> (m, None, Some err)
      | Inr results \<Rightarrow> (case mergeUpsertInvoiceResult results m of (m', err) \<Rightarrow> (m', None, err))))" for app
    by (rule on_clone_keeps) (auto simp: callback_keeps_def dest: mergeUpsert_keeps split: sum.splits prod.splits)
  then show "action_keeps (syncDraftInvoice e)"
    unfolding syncDraftInvoice_def [abs_def] by (rule locked_keeps [OF withInvoicingApp_keeps])
qed

lemma finalize_last_keeps:
  "callback_keeps (on_clone (\<lambda>cloned m2. case ia_Finalize app cloned of Inl err \<Rightarrow> (m2, None, Some err)
     | Inr None \<Rightarrow> (m2, None, None)
     | Inr (Some r) \<Rightarrow> (case FR_MergeIntoInvoice r (sm_Invoice m2) of (i, err) \<Rightarrow> (set_invoice i m2, None, err))))"
proof (rule on_clone_keeps, unfold callback_keeps_def, rule allI)
  fix cloned m
  show "si_Status (sm_Invoice (fst (case ia_Finalize app cloned of Inl err \<Rightarrow> (m, None, Some err)
      | Inr None \<Rightarrow> (m, None, None)
      | Inr (Some r) \<Rightarrow> (case FR_MergeIntoInvoice r (sm_Invoice m) of (i, err) \<Rightarrow> (set_invoice i m, None, err))))) =
    si_Status (sm_Invoice m)"
    using status_keptD [OF results_keep(2)] by (auto split: sum.splits option.splits prod.splits)
qed

lemma finalizeInvoice_keeps [keeps]: "action_keeps (finalizeInvoice e)"
proof -
  have "callback_keeps (finalize_clone e app cloned)" for app cloned
    unfolding callback_keeps_def
  proof
    fix m
    show "si_Status (sm_Invoice (fst (finalize_clone e app cloned m))) = si_Status (sm_Invoice m)"
    proof (cases "ia_Upsert app cloned")
      case (Inr u)
      obtain m1 err1 where u: "mergeUpsertInvoiceResult u m = (m1, err1)" by fastforce
      obtain i err2 where d: "CalculateDueAt ((sm_Invoice m1)\<lparr>si_IssuedAt := Some (me_Now e)\<rparr>) = (i, err2)" by fastforce
      have s: "si_Status (sm_Invoice m1) = si_Status (sm_Invoice m)" "si_Status i = si_Status (sm_Invoice m1)"
        using mergeUpsert_keeps [OF u] status_keptD [OF calculations_keep(3) d] by simp_all
      note last = finalize_last_keeps [unfolded callback_keeps_def, rule_format, where m = "set_invoice i m1" and app = app]
      show ?thesis
        by (cases err1; cases err2) (simp_all add: finalize_clone_def Inr u d s last)
    qed (simp add: finalize_clone_def)
  qed
  then show ?thesis
    unfolding finalizeInvoice_def [abs_def] by (intro locked_keeps withInvoicingApp_keeps on_clone_keeps)
qed

lemma collect_groups_keep: "collect_groups e groups had i = (j, h, err) \<Longrightarrow> si_Status j = si_Status i"
proof (induction groups arbitrary: had i)
  case (Cons g gs)
  obtain eng ls where g: "g = (eng, ls)" by fastforce
  have m: "SI_MergeValidationIssues x c i' = (j', y) \<Longrightarrow> si_Status j' = si_Status i'" for x c i' j' y
    by (metis SI_Merge_keep fst_conv)
  show ?case using Cons.prems unfolding g
    by (auto simp: Let_def dest!: m Cons.IH split: option.splits sum.splits prod.splits)
qed simp

lemma onCollectionCompleted_keeps [keeps]: "action_keeps (onCollectionCompleted e)"
  unfolding action_keeps_def onCollectionCompleted_def
  by (auto simp: collect_groups_keep split: sum.splits option.splits prod.splits)

lemma finalize_groups_keep: "finalize_groups e groups i = Inr j \<Longrightarrow> si_Status j = si_Status i"
proof (induction groups arbitrary: i)
  case (Cons g gs)
  obtain eng ls where g: "g = (eng, ls)" by fastforce
  show ?case using Cons.prems unfolding g
    by (auto simp: Let_def dest!: Cons.IH split: option.splits sum.splits prod.splits)
qed simp

lemma SI_Clone_keep: "SI_Clone i = Inr j \<Longrightarrow> si_Status j = si_Status i"
  by (auto simp: SI_Clone_def result_simps split: option.splits)

lemma onInvoiceFinalizing_keeps [keeps]: "action_keeps (onInvoiceFinalizing e)"
  unfolding action_keeps_def
proof
  fix m
  show "si_Status (sm_Invoice (fst (onInvoiceFinalizing e m))) = si_Status (sm_Invoice m)"
  proof (cases "SI_Clone (sm_Invoice m)")
    case (Inr c)
    show ?thesis
      using SI_Clone_keep [OF Inr] finalize_groups_keep [where i = c] status_keptD [OF calculations_keep(5)]
      by (auto simp: onInvoiceFinalizing_def Inr split: sum.splits option.splits prod.splits)
  qed (simp add: onInvoiceFinalizing_def)
qed

lemma deleteInvoice_keeps [keeps]: "action_keeps (deleteInvoice e source)"
  unfolding action_keeps_def deleteInvoice_def
  by (auto simp: Let_def split: option.splits ChangeSource.splits prod.splits)

lemma ensureEmpty_keeps [keeps]: "action_keeps (ensureEmptyInvoiceDeletionPrepared e)"
  using deleteInvoice_keeps [of e ChangeSourceSystem]
  by (simp add: action_keeps_def ensureEmptyInvoiceDeletionPrepared_def Let_def)

lemma on_entry_keeps [keeps]: "action_keeps (on_entry e args s)"
  using deleteInvoice_keeps [of e]
  by (auto simp: action_keeps_def on_entry_def WithParameters_def split: option.splits)

lemma on_active_keeps [keeps]: "action_keeps (on_active e s)"
  by (cases s) (simp_all add: on_active_def keeps)

section \<open>One trigger\<close>

lemma Activate_keeps: "stateless_ok (me_Lib e) \<Longrightarrow> Activate e m = (m', err) \<Longrightarrow> si_Status (sm_Invoice m') = si_Status (sm_Invoice m)"
  using action_keepsD [OF on_active_keeps] by (simp add: Activate_def stateless_ok_def)

text \<open>Storing a state stores that state.\<close>

lemma Fire_status:
  assumes ok: "stateless_ok (me_Lib e)" and checks: "checks_stable e" and f: "Fire e args t m = (m', err)"
  shows "case destination e (sm_Invoice m) t of None \<Rightarrow> m' = m \<and> err \<noteq> None | Some d \<Rightarrow> si_Status (sm_Invoice m') = d"
proof (cases "destination e (sm_Invoice m) t")
  case None
  then show ?thesis using fire_None [OF ok None, of "StatusDetails status_fuel e" args] f by (auto simp: Fire_def)
next
  case (Some d)
  have "traceless (StatusDetails status_fuel e) x" for x
    by (rule StatusDetails_traceless [OF ok checks distance_fuel])
  from set_state_moves [where e = e and d = d, OF this] obtain pt sd
    where s: "set_state (StatusDetails status_fuel e) e d m = (moved d pt sd m, None)" by blast
  have "on_entry e args d (moved d pt sd m) = (m', err)"
    using f fire_Some [OF ok Some, of "StatusDetails status_fuel e" args] by (simp add: Fire_def s)
  then show ?thesis using action_keepsD [OF on_entry_keeps] by (fastforce simp: Some)
qed

text \<open>Only entering \<open>delete.in_progress\<close> can fail.\<close>

lemma Fire_ok:
  assumes ok: "stateless_ok (me_Lib e)" and checks: "checks_stable e" and d: "destination e (sm_Invoice m) t = Some d"
    and "d \<noteq> DeleteInProgress"
  shows "\<exists>pt sd. Fire e args t m = (moved d pt sd m, None)"
proof -
  have "traceless (StatusDetails status_fuel e) x" for x
    by (rule StatusDetails_traceless [OF ok checks distance_fuel])
  from set_state_moves [where e = e and d = d, OF this] obtain pt sd
    where s: "set_state (StatusDetails status_fuel e) e d m = (moved d pt sd m, None)" by blast
  have "Fire e args t m = (moved d pt sd m, None)"
    using fire_Some [OF ok d, of "StatusDetails status_fuel e" args] assms(4) by (simp add: Fire_def s on_entry_def)
  then show ?thesis by blast
qed

lemma post_update_keeps: "keeps_status e \<Longrightarrow> action_keeps (post_update e)"
  by (simp add: action_keeps_def keeps_status_def post_update_def split: prod.splits) (metis fst_conv)

text \<open>The transition relation of the machine, whatever the guards.\<close>

inductive life_step :: "StandardInvoiceStatus \<Rightarrow> StandardInvoiceStatus \<Rightarrow> bool" where
  permitted: "d \<in> fst ` set (permits_of e i t) \<Longrightarrow> life_step (si_Status i) d"

inductive_cases life_step_elim: "life_step s d"

lemma life_step_destination: "destination e i t = Some d \<Longrightarrow> life_step (si_Status i) d"
  by (rule life_step.permitted [OF destination_permitted])

text \<open>The failed states of a status.\<close>

definition fails_to :: "StandardInvoiceStatus \<Rightarrow> StandardInvoiceStatus \<Rightarrow> bool" where
  "fails_to s f \<longleftrightarrow> (\<exists>e i. si_Status i = s \<and> destination e i TriggerFailed = Some f)"

lemma fails_to_step: "fails_to s f \<Longrightarrow> life_step s f"
  unfolding fails_to_def using life_step_destination by blast

lemma fails_toI: "destination e i TriggerFailed = Some f \<Longrightarrow> si_Status i = s \<Longrightarrow> fails_to s f"
  unfolding fails_to_def by blast

text \<open>
  What firing a trigger can do: nothing, with an error; go where the trigger leads; or go on from there to the
  failed state of that status, with an error.
\<close>

lemma after_fire_error_status:
  assumes ok: "stateless_ok (me_Lib e)" and checks: "checks_stable e" and a: "after_fire_error e err m = (m', err')"
  shows "err' \<noteq> None \<and> (si_Status (sm_Invoice m') = si_Status (sm_Invoice m) \<or>
    (\<exists>f. destination e (sm_Invoice m) TriggerFailed = Some f \<and> si_Status (sm_Invoice m') = f))"
proof (cases "destination e (sm_Invoice m) TriggerFailed")
  case None
  then show ?thesis using a by (auto simp: after_fire_error_def CanFire_destination [OF ok])
next
  case (Some f)
  obtain m1 err1 where f: "Fire e None TriggerFailed m = (m1, err1)" by fastforce
  obtain m2 err2 where act: "Activate e m1 = (m2, err2)" by fastforce
  have s: "si_Status (sm_Invoice m1) = f" "si_Status (sm_Invoice m2) = f"
    using Fire_status [OF ok checks f] Activate_keeps [OF ok act] by (simp_all add: Some)
  have "err' \<noteq> None \<and> (m' = m1 \<or> m' = m2)" using a
    by (cases err1; cases err2) (auto simp: after_fire_error_def CanFire_destination [OF ok] Some f act)
  then show ?thesis using s Some by auto
qed

lemma after_activation_error_status:
  assumes ok: "stateless_ok (me_Lib e)" and checks: "checks_stable e" and a: "after_activation_error e act m = (m', err')"
    and e: "act \<noteq> None \<or> SI_HasCritical (sm_Invoice m)"
  shows "err' \<noteq> None \<and> (si_Status (sm_Invoice m') = si_Status (sm_Invoice m) \<or>
    (\<exists>f. destination e (sm_Invoice m) TriggerFailed = Some f \<and> si_Status (sm_Invoice m') = f))"
proof (cases "destination e (sm_Invoice m) TriggerFailed")
  case None
  then show ?thesis using a by (auto simp: after_activation_error_def CanFire_destination [OF ok] Let_def)
next
  case (Some f)
  obtain m1 err1 where f: "Fire e None TriggerFailed m = (m1, err1)" by fastforce
  have s: "si_Status (sm_Invoice m1) = f" using Fire_status [OF ok checks f] by (simp add: Some)
  have "AsError (si_ValidationIssues (sm_Invoice m)) \<noteq> None" if "SI_HasCritical (sm_Invoice m)"
    using that by (auto simp: SI_HasCritical_def HasCriticalValidationIssues_def AsError_def)
  then have "err' \<noteq> None \<and> m' = m1" using a e
    by (cases err1) (auto simp: after_activation_error_def CanFire_destination [OF ok] Some f Let_def split: if_splits)
  then show ?thesis using s Some by auto
qed

lemma FireAndActivate_status:
  assumes ok: "stateless_ok (me_Lib e)" and checks: "checks_stable e" and keeps: "keeps_status e"
    and f: "FireAndActivate e t args m = (m', err)"
  shows "(err \<noteq> None \<and> si_Status (sm_Invoice m') = si_Status (sm_Invoice m)) \<or>
    (\<exists>d. destination e (sm_Invoice m) t = Some d \<and> (si_Status (sm_Invoice m') = d \<or>
       (err \<noteq> None \<and> fails_to d (si_Status (sm_Invoice m')))))"
proof -
  obtain m1 err1 where f1: "Fire e args t m = (m1, err1)" by fastforce
  note s1 = Fire_status [OF ok checks f1]
  show ?thesis
  proof (cases "destination e (sm_Invoice m) t")
    case None
    then show ?thesis using f s1 by (auto simp: FireAndActivate_def f1)
  next
    case (Some d)
    then have d: "si_Status (sm_Invoice m1) = d" using s1 by simp
    show ?thesis
    proof (cases err1)
      case (Some er)
      then show ?thesis
        using f d \<open>destination e (sm_Invoice m) t = Some d\<close> after_fire_error_status [OF ok checks, of er m1 m' err]
          fails_toI [of e "sm_Invoice m1"]
        by (auto simp: FireAndActivate_def f1 split: if_splits)
    next
      case None
      obtain m2 act where a: "Activate e m1 = (m2, act)" by fastforce
      have d2: "si_Status (sm_Invoice m2) = d" using Activate_keeps [OF ok a] d by simp
      show ?thesis
      proof (cases "act \<noteq> None \<or> SI_HasCritical (sm_Invoice m2)")
        case True
        then have "after_activation_error e act m2 = (m', err)" using f by (simp add: FireAndActivate_def f1 None a)
        from after_activation_error_status [OF ok checks this True] show ?thesis
          using d2 \<open>destination e (sm_Invoice m) t = Some d\<close> fails_toI [of e "sm_Invoice m2"] by auto
      next
        case False
        then have "post_update e m2 = (m', err)" using f by (simp add: FireAndActivate_def f1 None a)
        then show ?thesis using action_keepsD [OF post_update_keeps [OF keeps]] d2 \<open>destination e (sm_Invoice m) t = Some d\<close>
          by auto
      qed
    qed
  qed
qed

lemma FireAndActivate_steps:
  assumes "stateless_ok (me_Lib e)" and "checks_stable e" and "keeps_status e" and "FireAndActivate e t args m = (m', err)"
  shows "life_step\<^sup>*\<^sup>* (si_Status (sm_Invoice m)) (si_Status (sm_Invoice m'))"
  using FireAndActivate_status [OF assms] by (auto dest: life_step_destination fails_to_step intro: rtranclp.rtrancl_into_rtrancl)

section \<open>Advancing\<close>

lemma resolveStatusDetails_keeps:
  assumes "stateless_ok (me_Lib e)" and "checks_stable e" and "resolveStatusDetails e i = Inr j"
  shows "si_Status j = si_Status i"
proof -
  let ?m = "\<lparr>sm_Invoice = i, sm_NeedsDBSave = False, sm_Published = []\<rparr>"
  obtain x sd where "StatusDetails status_fuel e ?m = (redetailed x ?m, sd, None)"
    using StatusDetails_traceless [OF assms(1,2) distance_fuel, of ?m] unfolding traceless_def by blast
  then show ?thesis using assms(3) by (auto simp: resolveStatusDetails_def redetailed_def set_invoice_def split: if_splits)
qed

lemma updateInvoice_keeps:
  assumes "stateless_ok (me_Lib e)" and "checks_stable e" and "keeps_status e" and "updateInvoice e i = Inr j"
  shows "si_Status j = si_Status i"
proof -
  let ?i = "i\<lparr>si_Lines := map_option (map (\<lambda>l. fst (populateStandardLineEngine l))) (si_Lines i)\<rparr>"
  obtain k where k: "resolveStatusDetails e ?i = Inr k" "me_Adapter e k = Inr j"
    using assms(4) by (auto simp: updateInvoice_def split: list.splits sum.splits)
  then have "si_Status j = si_Status k" using assms(3) by (simp add: keeps_status_def)
  also have "\<dots> = si_Status ?i" by (rule resolveStatusDetails_keeps [OF assms(1,2) k(1)])
  finally show ?thesis by simp
qed

lemma Publish_invoice: "Publish e ev m = (m', err) \<Longrightarrow> sm_Invoice m' = sm_Invoice m"
  by (auto simp: Publish_def split: option.splits)

lemma advance_step_status:
  assumes "stateless_ok (me_Lib e)" and "checks_stable e" and "keeps_status e"
  shows "case advance_step e pre m of
      Inl (m', err) \<Rightarrow> life_step\<^sup>*\<^sup>* (si_Status (sm_Invoice m)) (si_Status (sm_Invoice m'))
    | Inr m' \<Rightarrow> destination e (sm_Invoice m) TriggerNext = Some (si_Status (sm_Invoice m'))"
proof -
  obtain m1 err where f: "FireAndActivate e TriggerNext None m = (m1, err)" by fastforce
  note steps = FireAndActivate_steps [OF assms f]
  show ?thesis
  proof (cases err)
    case (Some er)
    then show ?thesis using steps by (simp add: advance_step_def f split: prod.splits option.splits)
  next
    case None
    then have d: "destination e (sm_Invoice m) TriggerNext = Some (si_Status (sm_Invoice m1))"
      using FireAndActivate_status [OF assms f] by auto
    have s: "si_Status (sm_Invoice m2) = si_Status (sm_Invoice m1)" if "save_if_needed e m1 = Inr m2" for m2
      using that updateInvoice_keeps [OF assms] by (auto simp: save_if_needed_def split: if_splits sum.splits)
    show ?thesis
    proof (cases "save_if_needed e m1")
      case (Inl er)
      then show ?thesis using steps by (simp add: advance_step_def f None)
    next
      case (Inr m2)
      note s2 = s [OF Inr]
      show ?thesis
      proof (cases "NewStandardInvoiceUpdatedEvent e (sm_Invoice m2) pre")
        case (Inl er)
        then show ?thesis using steps by (simp add: advance_step_def f None \<open>save_if_needed e m1 = Inr m2\<close> s2)
      next
        case (Inr ev)
        obtain m3 err3 where p: "Publish e ev m2 = (m3, err3)" by fastforce
        show ?thesis using steps d Publish_invoice [OF p]
          by (cases err3) (simp_all add: advance_step_def f None \<open>save_if_needed e m1 = Inr m2\<close> Inr p s2)
      qed
    qed
  qed
qed

section \<open>The life of an invoice\<close>

text \<open>
  The abstract life: an invoice is drafted, issued and charged; a charged one is settled, written off or
  cancelled, and one written off can still be charged; a draft, or an invoice that the app failed to issue,
  can be deleted.
\<close>

datatype invoice_phase = Outside | Drafting | Issuing | Charged | WrittenOff | Settled | Cancelled | Deleting | Removed

fun phase_of :: "StandardInvoiceStatus \<Rightarrow> invoice_phase" where
  "phase_of Gathering = Outside"
| "phase_of (OtherStatus s) = Outside"
| "phase_of Paid = Settled"
| "phase_of Uncollectible = WrittenOff"
| "phase_of Voided = Cancelled"
| "phase_of DeleteInProgress = Deleting"
| "phase_of DeleteSyncing = Deleting"
| "phase_of DeleteFailed = Deleting"
| "phase_of Deleted = Removed"
| "phase_of IssuingLineFinalization = Issuing"
| "phase_of IssuingLineFinalizationFailed = Issuing"
| "phase_of IssuingSyncing = Issuing"
| "phase_of IssuingSyncFailed = Issuing"
| "phase_of IssuingChargeBooking = Issuing"
| "phase_of IssuingChargeBookingFailed = Issuing"
| "phase_of DraftCreated = Drafting"
| "phase_of DraftWaitingForCollection = Drafting"
| "phase_of DraftCollecting = Drafting"
| "phase_of DraftUpdating = Drafting"
| "phase_of DraftManualApprovalNeeded = Drafting"
| "phase_of DraftValidating = Drafting"
| "phase_of DraftInvalidCreated = Drafting"
| "phase_of DraftInvalid = Drafting"
| "phase_of DraftSyncing = Drafting"
| "phase_of DraftSyncFailed = Drafting"
| "phase_of DraftWaitingAutoApproval = Drafting"
| "phase_of DraftReadyToIssue = Drafting"
| "phase_of _ = Charged"

inductive phase_step :: "invoice_phase \<Rightarrow> invoice_phase \<Rightarrow> bool" where
  issue_draft: "phase_step Drafting Issuing"
| delete_draft: "phase_step Drafting Deleting"
| charge: "phase_step Issuing Charged"
| abandon: "phase_step Issuing Deleting"
| settle: "phase_step Charged Settled"
| write_off: "phase_step Charged WrittenOff"
| cancel: "phase_step Charged Cancelled"
| recover: "phase_step WrittenOff Charged"
| cancel_written_off: "phase_step WrittenOff Cancelled"
| remove: "phase_step Deleting Removed"

code_pred phase_step .

inductive_simps phase_step_from [simp]:
  "phase_step Settled p" "phase_step Cancelled p" "phase_step Removed p" "phase_step Outside p"
  "phase_step Charged p" "phase_step WrittenOff p" "phase_step Deleting p"

text \<open>The machine simulates the abstract life, step by step.\<close>

lemma life_step_phase: "life_step s d \<Longrightarrow> phase_step\<^sup>=\<^sup>= (phase_of s) (phase_of d)"
proof (erule life_step_elim)
  fix e i t assume s: "s = si_Status i" and d: "d \<in> fst ` set (permits_of e i t)"
  show "phase_step\<^sup>=\<^sup>= (phase_of s) (phase_of d)"
    using d unfolding s
    by (cases "si_Status i")
      (auto simp: configurations resolveStateAfterDraftReadyToIssue_def intro: phase_step.intros split: if_splits)
qed

lemma fails_to_phase: "fails_to s f \<Longrightarrow> phase_of f = phase_of s"
  unfolding fails_to_def
proof (elim exE conjE)
  fix e i assume s: "si_Status i = s" and f: "destination e i TriggerFailed = Some f"
  show "phase_of f = phase_of s"
    using destination_permitted [OF f] unfolding s [symmetric] by (cases "si_Status i") (auto simp: configurations)
qed

lemma life_steps_phase: "life_step\<^sup>*\<^sup>* s d \<Longrightarrow> phase_step\<^sup>*\<^sup>* (phase_of s) (phase_of d)"
proof (induction rule: rtranclp_induct)
  case (step d d')
  then show ?case using life_step_phase [OF step(2)] by (auto intro: rtranclp.rtrancl_into_rtrancl)
qed simp

text \<open>A set of phases that is never left, and one that never changes.\<close>

lemma phases_closed:
  assumes "\<And>p q. p \<in> P \<Longrightarrow> phase_step p q \<Longrightarrow> q \<in> P"
  shows "phase_step\<^sup>*\<^sup>* p q \<Longrightarrow> p \<in> P \<Longrightarrow> q \<in> P"
  by (induction rule: rtranclp_induct) (auto intro: assms)

lemma charged_stays: "phase_step\<^sup>*\<^sup>* p q \<Longrightarrow> p \<in> {Charged, WrittenOff, Settled, Cancelled} \<Longrightarrow>
    q \<in> {Charged, WrittenOff, Settled, Cancelled}"
  by (erule phases_closed [rotated]) auto

lemma life_step_final: "life_step s d \<Longrightarrow> phase_of s \<in> {Settled, Cancelled, Removed, Outside} \<Longrightarrow> False"
proof (erule life_step_elim)
  fix e i t assume "s = si_Status i" "d \<in> fst ` set (permits_of e i t)" "phase_of s \<in> {Settled, Cancelled, Removed, Outside}"
  then show False by (cases "si_Status i") (auto simp: configurations)
qed

lemma life_steps_final: "life_step\<^sup>*\<^sup>* s d \<Longrightarrow> phase_of s \<in> {Settled, Cancelled, Removed, Outside} \<Longrightarrow> d = s"
  by (induction rule: converse_rtranclp_induct) (auto dest: life_step_final)

end
