(* ===== verification/InvoiceRuns.thy ===== *)
theory InvoiceRuns
  imports InvoiceLife
begin

text \<open>
  What follows from the life of an invoice: advancing returns, and through which rounds; a charged invoice stays
  charged; what the service makes of a report on it; and the properties of the machine with a sample environment.
\<close>

section \<open>What every run keeps\<close>

lemma report_app_issues: "report_app op i (m, o', r) = (m', err) \<Longrightarrow>
    \<exists>v. m' = set_invoice ((sm_Invoice m)\<lparr>si_ValidationIssues := v\<rparr>) m"
proof -
  assume r: "report_app op i (m, o', r) = (m', err)"
  have self: "m = set_invoice ((sm_Invoice m)\<lparr>si_ValidationIssues := si_ValidationIssues (sm_Invoice m)\<rparr>) m" by simp
  have merged: "SI_MergeValidationIssues a b c = (d, x) \<Longrightarrow> d = c\<lparr>si_ValidationIssues := si_ValidationIssues d\<rparr>" for a b c d x
    by (auto simp: SI_MergeValidationIssues_def split: prod.splits)
  show ?thesis
  proof (cases "Option.bind o' InvoiceOperation_Validate")
    case None
    then show ?thesis using r merged by (auto simp: report_app_def Let_def split: prod.splits) metis
  next
    case (Some a)
    then have "m' = m" using r by (simp add: report_app_def)
    then show ?thesis using self by metis
  qed
qed

text \<open>A property of invoices that triggers and storing keep, and that does not look at the issues.\<close>

definition run_invariant :: "machine_env \<Rightarrow> (StandardInvoice \<Rightarrow> bool) \<Rightarrow> bool" where
  "run_invariant e I \<longleftrightarrow>
     (\<forall>t m m' err. I (sm_Invoice m) \<longrightarrow> FireAndActivate e t None m = (m', err) \<longrightarrow> I (sm_Invoice m')) \<and>
     (\<forall>i v. I i \<longrightarrow> I (i\<lparr>si_ValidationIssues := v\<rparr>)) \<and> (\<forall>i j. I i \<longrightarrow> updateInvoice e i = Inr j \<longrightarrow> I j)"

lemma run_invariantD:
  assumes "run_invariant e I"
  shows "FireAndActivate e t None m = (m', err) \<Longrightarrow> I (sm_Invoice m) \<Longrightarrow> I (sm_Invoice m')"
    "I i \<Longrightarrow> I (i\<lparr>si_ValidationIssues := v\<rparr>)" "updateInvoice e i = Inr j \<Longrightarrow> I i \<Longrightarrow> I j"
    "report_app op k (m, o', r) = (m', err') \<Longrightarrow> I (sm_Invoice m) \<Longrightarrow> I (sm_Invoice m')"
  using assms report_app_issues [of op k m o' r m' err'] unfolding run_invariant_def by fastforce+

lemma advance_step_keeps:
  assumes inv: "run_invariant e I" and i: "I (sm_Invoice m)"
  shows "case advance_step e pre m of Inl (m', err) \<Rightarrow> I (sm_Invoice m') | Inr m' \<Rightarrow> I (sm_Invoice m')"
proof -
  obtain m1 err where f: "FireAndActivate e TriggerNext None m = (m1, err)" by fastforce
  have i1: "I (sm_Invoice m1)" by (rule run_invariantD(1) [OF inv f i])
  show ?thesis
  proof (cases err)
    case (Some er)
    then show ?thesis using i1 run_invariantD(2) [OF inv i1]
      by (simp add: advance_step_def f split: prod.splits option.splits)
  next
    case None
    show ?thesis
    proof (cases "save_if_needed e m1")
      case (Inl er)
      then show ?thesis using i1 by (simp add: advance_step_def f None)
    next
      case (Inr m2)
      note m2 = Inr
      then have i2: "I (sm_Invoice m2)"
        using i1 run_invariantD(3) [OF inv] by (auto simp: save_if_needed_def split: if_splits sum.splits)
      show ?thesis
      proof (cases "NewStandardInvoiceUpdatedEvent e (sm_Invoice m2) pre")
        case (Inl er)
        then show ?thesis using i2 by (simp add: advance_step_def f None m2)
      next
        case (Inr ev)
        obtain m3 err3 where p: "Publish e ev m2 = (m3, err3)" by fastforce
        show ?thesis using i2 Publish_invoice [OF p]
          by (cases err3) (simp_all add: advance_step_def f None m2 Inr p)
      qed
    qed
  qed
qed

lemma runs_keep:
  assumes ok: "stateless_ok (me_Lib e)" and inv: "run_invariant e I"
  shows "(\<forall>m m' err. AdvanceUntilStateStable n e m = Some (m', err) \<longrightarrow> I (sm_Invoice m) \<longrightarrow> I (sm_Invoice m')) \<and>
    (\<forall>m m' err. triggerPostAdvanceHooks n e m = Some (m', err) \<longrightarrow> I (sm_Invoice m) \<longrightarrow> I (sm_Invoice m')) \<and>
    (\<forall>t m m' err. HandleInvoiceTrigger n e t m = Some (m', err) \<longrightarrow> I (sm_Invoice m) \<longrightarrow> I (sm_Invoice m'))"
proof (induction n)
  case (Suc n)
  have ih: "AdvanceUntilStateStable n e m = Some (m', err) \<Longrightarrow> I (sm_Invoice m) \<Longrightarrow> I (sm_Invoice m')"
    "triggerPostAdvanceHooks n e m = Some (m', err) \<Longrightarrow> I (sm_Invoice m) \<Longrightarrow> I (sm_Invoice m')"
    "HandleInvoiceTrigger n e trigger m = Some (m', err) \<Longrightarrow> I (sm_Invoice m) \<Longrightarrow> I (sm_Invoice m')" for trigger m m' err
    using Suc.IH by blast+
  have A: "I (sm_Invoice m')"
    if a: "AdvanceUntilStateStable (Suc n) e m = Some (m', err)" and i: "I (sm_Invoice m)" for m m' err
  proof (cases "NewEventStandardInvoice e (sm_Invoice m)")
    case (Inr pre)
    show ?thesis
    proof (cases "destination e (sm_Invoice m) TriggerNext")
      case None
      then show ?thesis using a i by (auto simp: Inr CanFire_destination [OF ok] dest: ih(2) split: option.splits)
    next
      case (Some d)
      note st = advance_step_keeps [OF inv i, where pre = pre]
      show ?thesis
      proof (cases "advance_step e pre m")
        case (Inl r)
        then show ?thesis using a st by (auto simp: Inr CanFire_destination [OF ok] Some)
      next
        case (Inr m1)
        then show ?thesis using st a \<open>NewEventStandardInvoice e (sm_Invoice m) = Inr pre\<close>
          by (auto simp: CanFire_destination [OF ok] Some dest: ih(1))
      qed
    qed
  qed (use a i in simp)
  have H: "I (sm_Invoice m')"
    if h: "triggerPostAdvanceHooks (Suc n) e m = Some (m', err)" and i: "I (sm_Invoice m)" for m m' err
    using h i
    by (auto simp: Let_def dest!: run_invariantD(4) [OF inv] dest: ih(3) split: option.splits sum.splits)
  have T: "I (sm_Invoice m')"
    if t: "HandleInvoiceTrigger (Suc n) e trigger m = Some (m', err)" and i: "I (sm_Invoice m)" for trigger m m' err
  proof -
    obtain m1 err1 where f: "FireAndActivate e (ti_Trigger trigger) None m = (m1, err1)" by fastforce
    have i1: "I (sm_Invoice m1)" by (rule run_invariantD(1) [OF inv f i])
    have "m' = m \<or> m' = m1 \<or> (\<exists>ev m2 err2. Publish e ev m1 = (m2, err2) \<and>
        (m' = m2 \<or> (\<exists>err3. AdvanceUntilStateStable n e m2 = Some (m', err3))))"
      using t by (auto simp: f split: option.splits if_splits sum.splits prod.splits)
    then show ?thesis using i i1 by (auto dest!: Publish_invoice dest: ih(1))
  qed
  show ?case using A H T by blast
qed simp

text \<open>Every run of the machine goes along its transitions.\<close>

lemma steps_invariant:
  assumes "stateless_ok (me_Lib e)" and "checks_stable e" and "keeps_status e"
  shows "run_invariant e (\<lambda>i. life_step\<^sup>*\<^sup>* s (si_Status i))"
  using FireAndActivate_steps [OF assms] updateInvoice_keeps [OF assms]
  unfolding run_invariant_def by (auto intro: rtranclp_trans)

lemma runs_step:
  assumes "stateless_ok (me_Lib e)" and "checks_stable e" and "keeps_status e"
  shows "AdvanceUntilStateStable n e m = Some (m', err) \<Longrightarrow> life_step\<^sup>*\<^sup>* (si_Status (sm_Invoice m)) (si_Status (sm_Invoice m'))"
    "HandleInvoiceTrigger n e t m = Some (m', err) \<Longrightarrow> life_step\<^sup>*\<^sup>* (si_Status (sm_Invoice m)) (si_Status (sm_Invoice m'))"
  using runs_keep [OF assms(1) steps_invariant [OF assms], of n "si_Status (sm_Invoice m)"] by blast+

section \<open>Deletion\<close>

text \<open>An invoice that is being deleted, or was, has the time of its deletion.\<close>

definition deletion_recorded :: "StandardInvoice \<Rightarrow> bool" where
  "deletion_recorded i \<longleftrightarrow> (si_Status i \<in> {DeleteInProgress, DeleteSyncing, Deleted} \<longrightarrow> si_DeletedAt i \<noteq> None)"

text \<open>The hook and the adapter keep that time.\<close>

definition keeps_deletion :: "machine_env \<Rightarrow> bool" where
  "keeps_deletion e \<longleftrightarrow> (\<forall>i. si_DeletedAt (fst (me_PostUpdate e i)) = si_DeletedAt i) \<and>
     (\<forall>i j. me_Adapter e i = Inr j \<longrightarrow> si_DeletedAt j = si_DeletedAt i)"

text \<open>The failed state of a status is not one of deletion, except for \<open>delete.failed\<close>.\<close>

lemma failed_destination:
  assumes "destination e i TriggerFailed = Some f"
  shows "f \<notin> {DeleteInProgress, DeleteSyncing, Deleted}"
  using destination_permitted [OF assms] by (cases "si_Status i") (auto simp: configurations)

lemma failing_deletion:
  assumes "si_Status i \<in> {DeleteInProgress, DeleteSyncing}"
  shows "destination e i TriggerFailed = Some DeleteFailed"
  using assms by (auto simp: destination_def configurations enabled_of_def)

lemma to_failed:
  assumes ok: "stateless_ok (me_Lib e)" and checks: "checks_stable e"
    and a: "after_activation_error e act m = (m', err) \<or> after_fire_error e er m = (m', err)"
  shows "case destination e (sm_Invoice m) TriggerFailed of None \<Rightarrow> m' = m | Some f \<Rightarrow> si_Status (sm_Invoice m') = f"
proof (cases "destination e (sm_Invoice m) TriggerFailed")
  case None
  then show ?thesis using a by (auto simp: after_activation_error_def after_fire_error_def CanFire_destination [OF ok] Let_def)
next
  case (Some f)
  obtain pt sd where f: "Fire e None TriggerFailed m = (moved f pt sd m, None)"
    using Fire_ok [OF ok checks Some, of None] failed_destination [OF Some] by blast
  obtain m2 err2 where act: "Activate e (moved f pt sd m) = (m2, err2)" by fastforce
  have "m' = moved f pt sd m \<or> m' = m2" using a
    by (cases err2) (auto simp: after_activation_error_def after_fire_error_def CanFire_destination [OF ok] Some f act Let_def)
  then show ?thesis using Activate_keeps [OF ok act] Some by auto
qed

lemma to_failed_recorded:
  assumes "stateless_ok (me_Lib e)" and "checks_stable e"
    and "after_activation_error e act m = (m', err) \<or> after_fire_error e er m = (m', err)"
    and "si_Status (sm_Invoice m) = Deleted \<Longrightarrow> si_DeletedAt (sm_Invoice m) \<noteq> None"
  shows "deletion_recorded (sm_Invoice m')"
proof (cases "destination e (sm_Invoice m) TriggerFailed")
  case None
  then have "m' = m" and "si_Status (sm_Invoice m) \<notin> {DeleteInProgress, DeleteSyncing}"
    using to_failed [OF assms(1-3)] failing_deletion [of "sm_Invoice m" e] by auto
  then show ?thesis using assms(4) by (auto simp: deletion_recorded_def)
next
  case (Some f)
  then show ?thesis using to_failed [OF assms(1-3)] failed_destination [OF Some] by (simp add: deletion_recorded_def)
qed

lemma deleteInvoice_records: "deleteInvoice e src m = (m', None) \<Longrightarrow> si_DeletedAt (sm_Invoice m') \<noteq> None"
  by (cases src) (auto simp: deleteInvoice_def Let_def split: option.splits prod.splits if_splits)

lemma ensureEmpty_records: "ensureEmptyInvoiceDeletionPrepared e m = (m', None) \<Longrightarrow> si_DeletedAt (sm_Invoice m') \<noteq> None"
  using deleteInvoice_records [of e ChangeSourceSystem m m']
  by (auto simp: ensureEmptyInvoiceDeletionPrepared_def Let_def split: if_splits)

lemma report_app_deletion: "report_app op k (m, o', r) = (m', err) \<Longrightarrow> si_DeletedAt (sm_Invoice m') = si_DeletedAt (sm_Invoice m)"
  using report_app_issues [of op k m o' r m' err] by auto

lemma syncDeleted_deletion: "syncDeletedInvoice e m = (m', err) \<Longrightarrow> si_DeletedAt (sm_Invoice m') = si_DeletedAt (sm_Invoice m)"
  by (auto simp: syncDeletedInvoice_def withInvoicingApp_def on_clone_def dest!: report_app_deletion split: option.splits sum.splits)

lemma deletion_synced: "on_active e DeleteSyncing m = (m', None) \<Longrightarrow> si_DeletedAt (sm_Invoice m') \<noteq> None"
proof -
  assume a: "on_active e DeleteSyncing m = (m', None)"
  obtain m1 err1 where 1: "ensureEmptyInvoiceDeletionPrepared e m = (m1, err1)" by fastforce
  obtain m2 err2 where 2: "syncDeletedInvoice e m1 = (m2, err2)" by fastforce
  have "err1 = None" "m' = m2" using a
    by (cases err1; cases err2; simp add: on_active_def AllOf_def 1 2 join_opt_def join_issue_def)+
  then show ?thesis using ensureEmpty_records 1 syncDeleted_deletion [OF 2] by simp
qed

lemma only_synced_deleted: "destination e i t = Some Deleted \<Longrightarrow> si_Status i = DeleteSyncing"
  using destination_permitted [of e i t Deleted]
  by (cases "si_Status i") (auto simp: configurations resolveStateAfterDraftReadyToIssue_def split: if_splits)

lemma Fire_deletes:
  assumes ok: "stateless_ok (me_Lib e)" and checks: "checks_stable e" and d: "destination e (sm_Invoice m) t = Some DeleteInProgress"
    and f: "Fire e args t m = (m', None)"
  shows "si_DeletedAt (sm_Invoice m') \<noteq> None"
proof -
  have "traceless (StatusDetails status_fuel e) x" for x
    by (rule StatusDetails_traceless [OF ok checks distance_fuel])
  from set_state_moves [where e = e and d = DeleteInProgress, OF this] obtain pt sd
    where s: "set_state (StatusDetails status_fuel e) e DeleteInProgress m = (moved DeleteInProgress pt sd m, None)" by blast
  have "on_entry e args DeleteInProgress (moved DeleteInProgress pt sd m) = (m', None)"
    using f fire_Some [OF ok d, of "StatusDetails status_fuel e" args] by (simp add: Fire_def s)
  then show ?thesis using deleteInvoice_records by (auto simp: on_entry_def WithParameters_def split: option.splits)
qed

lemma FireAndActivate_deletion:
  assumes ok: "stateless_ok (me_Lib e)" and checks: "checks_stable e" and keeps: "keeps_status e" "keeps_deletion e"
    and i: "deletion_recorded (sm_Invoice m)" and f: "FireAndActivate e t args m = (m', err)"
  shows "deletion_recorded (sm_Invoice m')"
proof -
  obtain m1 err1 where f1: "Fire e args t m = (m1, err1)" by fastforce
  note s1 = Fire_status [OF ok checks f1]
  show ?thesis
  proof (cases "destination e (sm_Invoice m) t")
    case None
    then show ?thesis using f s1 i by (auto simp: FireAndActivate_def f1)
  next
    case (Some d)
    note dest = Some
    then have d: "si_Status (sm_Invoice m1) = d" using s1 by simp
    have deleted: "d = Deleted \<Longrightarrow> err1 = None \<and> si_DeletedAt (sm_Invoice m1) \<noteq> None"
      using Fire_ok [OF ok checks dest, of args] only_synced_deleted i f1 dest
      by (auto simp: deletion_recorded_def moved_def)
    show ?thesis
    proof (cases err1)
      case (Some er)
      show ?thesis
      proof (cases "si_Status (sm_Invoice m1) = si_Status (sm_Invoice m)")
        case True
        have "d = DeleteInProgress" using Fire_ok [OF ok checks dest, of args] f1 Some by auto
        moreover have "si_Status (sm_Invoice m) \<noteq> DeleteInProgress"
          using destination_permitted [OF dest] \<open>d = DeleteInProgress\<close> by (auto simp: configurations split: if_splits)
        ultimately show ?thesis using True d by simp
      next
        case False
        then show ?thesis using f d deleted Some to_failed_recorded [OF ok checks, of _ m1 m' err er]
          by (auto simp: FireAndActivate_def f1)
      qed
    next
      case None
      obtain m2 act where a: "Activate e m1 = (m2, act)" by fastforce
      have d2: "si_Status (sm_Invoice m2) = d" using Activate_keeps [OF ok a] d by simp
      have on: "on_active e d m1 = (m2, act)" using a ok d by (simp add: Activate_def stateless_ok_def)
      have deleted2: "d = Deleted \<Longrightarrow> si_DeletedAt (sm_Invoice m2) \<noteq> None" using on deleted by (auto simp: on_active_def)
      show ?thesis
      proof (cases "act \<noteq> None \<or> SI_HasCritical (sm_Invoice m2)")
        case True
        then have "after_activation_error e act m2 = (m', err)" using f by (simp add: FireAndActivate_def f1 None a)
        then show ?thesis using to_failed_recorded [OF ok checks] d2 deleted2 by blast
      next
        case False
        then have p: "post_update e m2 = (m', err)" using f by (simp add: FireAndActivate_def f1 None a)
        have "d = DeleteInProgress \<Longrightarrow> si_DeletedAt (sm_Invoice m1) \<noteq> None"
          using Fire_deletes [OF ok checks] dest f1 None by blast
        then have "d = DeleteInProgress \<Longrightarrow> si_DeletedAt (sm_Invoice m2) \<noteq> None" using on by (auto simp: on_active_def)
        moreover have "d = DeleteSyncing \<Longrightarrow> si_DeletedAt (sm_Invoice m2) \<noteq> None" using on False deletion_synced by auto
        moreover have "si_Status (sm_Invoice m') = d" using action_keepsD [OF post_update_keeps [OF keeps(1)] p] d2 by simp
        moreover have "si_DeletedAt (sm_Invoice m') = si_DeletedAt (sm_Invoice m2)"
          using p keeps(2) by (auto simp: post_update_def keeps_deletion_def split: prod.splits) (metis fst_conv)
        ultimately show ?thesis using deleted2 by (auto simp: deletion_recorded_def)
      qed
    qed
  qed
qed

lemma deletion_invariant:
  assumes "stateless_ok (me_Lib e)" and "checks_stable e" and "keeps_status e" and "keeps_deletion e"
  shows "run_invariant e deletion_recorded"
proof -
  have d: "resolveStatusDetails e i = Inr k \<Longrightarrow> si_DeletedAt k = si_DeletedAt i" for i k
  proof -
    let ?m = "\<lparr>sm_Invoice = i, sm_NeedsDBSave = False, sm_Published = []\<rparr>"
    obtain x sd where "StatusDetails status_fuel e ?m = (redetailed x ?m, sd, None)"
      using StatusDetails_traceless [OF assms(1,2) distance_fuel, of ?m] unfolding traceless_def by blast
    then show "resolveStatusDetails e i = Inr k \<Longrightarrow> si_DeletedAt k = si_DeletedAt i"
      by (auto simp: resolveStatusDetails_def redetailed_def set_invoice_def split: if_splits)
  qed
  have u: "si_DeletedAt j = si_DeletedAt i" if u: "updateInvoice e i = Inr j" for i j
  proof -
    let ?i = "i\<lparr>si_Lines := map_option (map (\<lambda>l. fst (populateStandardLineEngine l))) (si_Lines i)\<rparr>"
    obtain k where "resolveStatusDetails e ?i = Inr k" "me_Adapter e k = Inr j"
      using u by (auto simp: updateInvoice_def split: list.splits sum.splits)
    then show ?thesis using d [of ?i k] assms(4) by (simp add: keeps_deletion_def)
  qed
  show ?thesis
    unfolding run_invariant_def
  proof (intro conjI allI impI)
    fix t m m' err assume "deletion_recorded (sm_Invoice m)" "FireAndActivate e t None m = (m', err)"
    then show "deletion_recorded (sm_Invoice m')" using FireAndActivate_deletion [OF assms] by blast
  next
    fix i j assume "deletion_recorded i" "updateInvoice e i = Inr j"
    then show "deletion_recorded j" using u updateInvoice_keeps [OF assms(1-3)] by (simp add: deletion_recorded_def)
  qed (simp add: deletion_recorded_def)
qed

section \<open>Returning\<close>

text \<open>The post-advance hook of the app, if it has one, invokes no trigger.\<close>

definition silent_hook :: "machine_env \<Rightarrow> bool" where
  "silent_hook e \<longleftrightarrow> (case Option.bind (me_App e) ia_PostAdvance of None \<Rightarrow> True | Some hook \<Rightarrow> (\<forall>i t. hook i \<noteq> Inr (Some t)))"










section \<open>Samples\<close>

definition quiet_app :: invoicing_app where
  "quiet_app = \<lparr>ia_Validate = (\<lambda>_. None), ia_Upsert = (\<lambda>_. Inr None), ia_Finalize = (\<lambda>_. Inr None), ia_Delete = (\<lambda>_. None),
     ia_PostAdvance = None, ia_AsyncSyncer = None\<rparr>"

definition quiet_env :: machine_env where
  "quiet_env = \<lparr>me_Lib = std_stateless,
     me_Deps = \<lparr>cd_Known = dollars_only, cd_Now = 1000, cd_Positive = (\<lambda>_. False), cd_Ulid = show_nat,
       cd_LineEngines = quiet_registry, cd_Order = (\<lambda>ts. ts), cd_TaxCodes = Map.empty\<rparr>,
     me_Lockdown = [], me_App = Some quiet_app, me_EventApps = (\<lambda>_. None), me_FeatureMeters = (\<lambda>_ _. None),
     me_TaxCodes = sample_tax_service, me_PostUpdate = (\<lambda>i. (i, None)), me_Adapter = Inr, me_Publish = (\<lambda>_ _. None)\<rparr>"

lemma quiet_env_ok: "stateless_ok (me_Lib quiet_env)" "checks_stable quiet_env" "keeps_status quiet_env" "silent_hook quiet_env"
  by (simp_all add: quiet_env_def std_stateless_ok checks_stable_def canDraftSyncAdvance_def canIssuingSyncAdvance_def
      quiet_app_def keeps_status_def silent_hook_def)

text \<open>No time at all.\<close>

definition no_period :: ISODuration where
  "no_period = \<lparr>iso_Years = 0, iso_Months = 0, iso_Weeks = 0, iso_Days = 0, iso_Hours = 0, iso_Minutes = 0, iso_Seconds = 0\<rparr>"

lemma quiet_env_keeps: "keeps_deletion quiet_env"
  by (simp add: quiet_env_def keeps_deletion_def)

definition sample_invoice :: "StandardInvoiceStatus \<Rightarrow> StandardInvoice" where
  "sample_invoice s = \<lparr>si_Namespace = ''ns'', si_ID = ''inv'', si_Number = ''INV-1'', si_Type = ''standard'', si_Currency = ''USD'',
     si_Status = s, si_StatusDetails = no_status_details, si_Period = None, si_DueAt = None, si_CreatedAt = 0,
     si_DraftUntil = None, si_IssuedAt = None, si_DeletedAt = None, si_DeletionSource = NoChangeSource,
     si_SentToCustomerAt = None, si_QuantitySnapshotedAt = None, si_CollectionAt = None, si_PaymentProcessingEnteredAt = None,
     si_Customer = \<lparr>cu_Key = None, cu_CustomerID = ''c'', cu_Name = ''customer''\<rparr>,
     si_Supplier = \<lparr>su_ID = [], su_Name = ''supplier'', su_Country = Some ''US''\<rparr>,
     si_Workflow = \<lparr>wf_CollectionInterval = no_period, wf_Invoicing = \<lparr>ic_AutoAdvance = True, ic_DraftPeriod = no_period, ic_DueAfter = no_period,
       ic_DefaultTaxConfig = None\<rparr>, wf_AppType = AppTypeSandbox, wf_AppID = ''app''\<rparr>,
     si_ExternalIDs = \<lparr>xe_Invoicing = [], xe_Payment = []\<rparr>, si_Lines = Some [], si_ValidationIssues = [], si_Totals = TT_zero\<rparr>"

definition sample_machine :: "StandardInvoiceStatus \<Rightarrow> InvoiceStateMachine" where
  "sample_machine s = \<lparr>sm_Invoice = sample_invoice s, sm_NeedsDBSave = False, sm_Published = []\<rparr>"

lemma sample_machine_simps [simp]: "sm_Invoice (sample_machine s) = sample_invoice s" "si_Status (sample_invoice s) = s"
  by (simp_all add: sample_machine_def sample_invoice_def)

text \<open>A charged invoice whose payment failed.\<close>

definition blocked_machine :: InvoiceStateMachine where
  "blocked_machine = set_invoice ((sample_invoice PaymentProcessingPending)\<lparr>si_ValidationIssues :=
     [NewValidationError ''c'' ''payment failed'']\<rparr>) (sample_machine PaymentProcessingPending)"

lemma booking_leaves: "\<exists>act. onPaymentAuthorizedAndSettled e m = (m, act)"
  by (simp add: onPaymentAuthorizedAndSettled_def onPaymentAuthorized_def onPaymentSettled_def notify_def split: option.splits)

text \<open>A notice from the app that its invoice was voided.\<close>

definition void_notice :: InvoiceTriggerServiceInput where
  "void_notice = \<lparr>ts_Input = \<lparr>ti_Namespace = ''ns'', ti_ID = ''inv'', ti_Trigger = TriggerVoid, ti_ValidationErrors = None\<rparr>,
     ts_AppType = AppTypeSandbox, ts_Capability = ''collectPayments''\<rparr>"

lemma blocked_event: "\<exists>pre. NewEventStandardInvoice quiet_env (sm_Invoice blocked_machine) = Inr pre"
proof -
  have "si_Lines (sm_Invoice blocked_machine) = Some []" by (simp add: blocked_machine_def sample_invoice_def)
  moreover have "me_EventApps quiet_env = (\<lambda>_. None)" by (simp add: quiet_env_def)
  ultimately show ?thesis
    by (simp add: NewEventStandardInvoice_def SI_RemoveCircularReferences_def SI_Clone_def LNs_Clone_def MapWithErr_def)
qed

section \<open>Reports from apps\<close>

lemma trigger_component_ne: "trigger_component input \<noteq> []"
  by (simp add: trigger_component_def AppTypeCapabilityToComponent_def Let_def)

lemma wrapped_nil_issues: "ToValidationIssues (ValidationWithComponent c (Some (WrappedNil msg))) = ([], None)"
  by (simp add: ToValidationIssues_def ValidationWithComponent_def)

text \<open>What the service makes of an error of the machine: issues of the component of the app.\<close>

definition reported :: "InvoiceTriggerServiceInput \<Rightarrow> InvoiceStateMachine \<Rightarrow> issue_error \<Rightarrow> InvoiceStateMachine" where
  "reported input m x = set_invoice ((sm_Invoice m)\<lparr>si_ValidationIssues :=
     filter (\<lambda>i. vi_Component i \<noteq> trigger_component input) (si_ValidationIssues (sm_Invoice m)) @
     fst (ToValidationIssues (ValidationWithComponent (trigger_component input) (Some x)))\<rparr>) m"

lemma TriggerInvoice_reports:
  assumes "TS_Validate input = None" and "HandleInvoiceTrigger n e (ts_Input input) m = Some (m1, Some x)"
  shows "TriggerInvoice n e update input m = Some (reported input m1 x, error_of (update (sm_Invoice (reported input m1 x))))"
  using assms component_issues(1) [OF trigger_component_ne, of input "Some x"]
  by (auto simp: TriggerInvoice_def SI_MergeValidationIssues_def MergeValidationIssues_def reported_def
      split: prod.splits)

lemma critical_issue_fails:
  assumes "stateless_ok (me_Lib e)" and "checks_stable e" and "SI_HasCritical (sm_Invoice m)"
    and "destination e (sm_Invoice m) t = Some d"
    and "d \<in> {Voided, Uncollectible, Overdue, PaymentProcessingBookingAuthorizedAndSettled}"
  shows "\<exists>m1 x. FireAndActivate e t args m = (m1, Some x) \<and>
    si_ValidationIssues (sm_Invoice m1) = si_ValidationIssues (sm_Invoice m) \<and> sm_Published m1 = sm_Published m \<and>
    (d \<in> {Voided, Uncollectible} \<longrightarrow> si_Status (sm_Invoice m1) = d \<and>
       x = WrappedNil ''cannot move into failed state: %!w(<nil>)'') \<and>
    (d = Overdue \<longrightarrow> si_Status (sm_Invoice m1) = PaymentProcessingFailed \<and>
       Some x = AsError (si_ValidationIssues (sm_Invoice m))) \<and>
    (d = PaymentProcessingBookingAuthorizedAndSettled \<longrightarrow>
       si_Status (sm_Invoice m1) = PaymentProcessingBookingAuthorizedAndSettledFailed)"
proof -
  obtain pt sd where f: "Fire e args t m = (moved d pt sd m, None)"
    using Fire_ok [OF assms(1,2,4), of args] assms(5) by fastforce
  let ?m = "moved d pt sd m"
  have c: "SI_HasCritical (sm_Invoice ?m)" using assms(3) by (simp add: SI_HasCritical_def)
  then have i: "AsError (si_ValidationIssues (sm_Invoice m)) \<noteq> None"
    by (auto simp: SI_HasCritical_def HasCriticalValidationIssues_def AsError_def)
  obtain act where a: "Activate e ?m = (?m, act)" "d \<noteq> PaymentProcessingBookingAuthorizedAndSettled \<Longrightarrow> act = None"
    using assms(1,5) booking_leaves [of e ?m] by (auto simp: Activate_def stateless_ok_def on_active_def)
  have r: "FireAndActivate e t args m = after_activation_error e act ?m"
    using c by (simp add: FireAndActivate_def f a(1))
  have p: "sm_Published (moved s pt sd m) = sm_Published m" for s pt sd by (simp add: moved_def)
  show ?thesis
  proof (cases "d \<in> {Voided, Uncollectible}")
    case True
    have "destination e (sm_Invoice ?m) TriggerFailed = None"
      using True by (auto simp: destination_def configurations enabled_of_def)
    then have "after_activation_error e act ?m = (?m, Some (WrappedNil ''cannot move into failed state: %!w(<nil>)''))"
      using a(2) True by (auto simp: after_activation_error_def CanFire_destination [OF assms(1)] Let_def)
    then show ?thesis unfolding r using True p by auto
  next
    case False
    let ?f = "if d = Overdue then PaymentProcessingFailed else PaymentProcessingBookingAuthorizedAndSettledFailed"
    have d: "d = Overdue \<or> d = PaymentProcessingBookingAuthorizedAndSettled" using False assms(5) by blast
    have t: "destination e (sm_Invoice ?m) TriggerFailed = Some ?f"
      using d by (auto simp: destination_def configurations enabled_of_def)
    have "?f \<noteq> DeleteInProgress" by simp
    then obtain pt' sd' where "Fire e None TriggerFailed ?m = (moved ?f pt' sd' ?m, None)"
      using Fire_ok [OF assms(1,2) t, of None] by blast
    then have "after_activation_error e act ?m =
        (moved ?f pt' sd' m, if act \<noteq> None then act else AsError (si_ValidationIssues (sm_Invoice m)))"
      by (simp add: after_activation_error_def CanFire_destination [OF assms(1)] t Let_def)
    then show ?thesis unfolding r using d a(2) i p by auto
  qed
qed

section \<open>Properties\<close>

text \<open>
  C13. Resolving the status details of an invoice, which fires triggers on the machine itself, never fails, leaves
  nothing behind but status details, and says what the triggers can do: the invoice is immutable iff it
  cannot be updated, an action is available iff its trigger can be fired, and the status it names is the one
  reached from where the trigger takes the invoice, its issues put aside, by moving on until it cannot.
\<close>

theorem StatusDetails_correct:
  assumes "stateless_ok (me_Lib e)" and "checks_stable e" and "si_Status (sm_Invoice m) \<noteq> Gathering"
  shows "case StatusDetails status_fuel e m of (m', sd, err) \<Rightarrow>
    err = None \<and> details_ok e (sm_Invoice m) sd \<and>
    m' = set_invoice ((sm_Invoice m)\<lparr>si_StatusDetails := si_StatusDetails (sm_Invoice m')\<rparr>) m"
proof -
  obtain n where n: "status_fuel = Suc n" "\<And>s. distance s \<le> n" using distance_fuel by (metis less_Suc_eq_le not0_implies_Suc not_less0)
  have "traceless (StatusDetails n e) m'" if "distance (si_Status (sm_Invoice m')) < distance (si_Status (sm_Invoice m))" for m'
    by (rule StatusDetails_traceless [OF assms(1,2)]) (use that n(2) [of "si_Status (sm_Invoice m)"] in simp)
  from resolve_details_ok [OF assms this] show ?thesis unfolding n(1) by (auto simp: redetailed_def)
qed

theorem StatusDetails_correct_witness:
  "case StatusDetails status_fuel quiet_env (sample_machine DraftInvalid) of (m', sd, err) \<Rightarrow>
     err = None \<and> details_ok quiet_env (sample_invoice DraftInvalid) sd \<and>
     m' = set_invoice ((sample_invoice DraftInvalid)\<lparr>si_StatusDetails := si_StatusDetails (sm_Invoice m')\<rparr>) (sample_machine DraftInvalid)"
  using StatusDetails_correct [OF quiet_env_ok(1,2), of "sample_machine DraftInvalid"] by simp

text \<open>
  C1. The machine refines the life of an invoice: a trigger makes at most one abstract step, whatever fails on
  the way, and runs of advancing and of triggers from the app go along its steps.
\<close>

theorem machine_refines_life:
  assumes "stateless_ok (me_Lib e)" and "checks_stable e" and "keeps_status e"
  shows "(case FireAndActivate e t args m of (m', err) \<Rightarrow>
      phase_step\<^sup>=\<^sup>= (phase_of (si_Status (sm_Invoice m))) (phase_of (si_Status (sm_Invoice m')))) \<and>
    (case AdvanceUntilStateStable n e m of None \<Rightarrow> True | Some (m', err) \<Rightarrow>
      phase_step\<^sup>*\<^sup>* (phase_of (si_Status (sm_Invoice m))) (phase_of (si_Status (sm_Invoice m')))) \<and>
    (case HandleInvoiceTrigger n e trigger m of None \<Rightarrow> True | Some (m', err) \<Rightarrow>
      phase_step\<^sup>*\<^sup>* (phase_of (si_Status (sm_Invoice m))) (phase_of (si_Status (sm_Invoice m'))))"
proof -
  have "phase_step\<^sup>=\<^sup>= (phase_of (si_Status (sm_Invoice m))) (phase_of (si_Status (sm_Invoice m')))"
    if f: "FireAndActivate e t args m = (m', err)" for m' err
    using FireAndActivate_status [OF assms f] life_step_phase [OF life_step_destination] fails_to_phase by fastforce
  moreover note runs_step [OF assms, THEN life_steps_phase]
  ultimately show ?thesis by (auto split: option.splits prod.splits)
qed

theorem machine_refines_life_witness:
  "(case FireAndActivate quiet_env TriggerVoid None (sample_machine Issued) of (m', err) \<Rightarrow>
      phase_step\<^sup>=\<^sup>= (phase_of Issued) (phase_of (si_Status (sm_Invoice m')))) \<and>
   (case AdvanceUntilStateStable 9 quiet_env (sample_machine Issued) of None \<Rightarrow> True | Some (m', err) \<Rightarrow>
      phase_step\<^sup>*\<^sup>* (phase_of Issued) (phase_of (si_Status (sm_Invoice m'))))"
proof -
  note w = machine_refines_life [OF quiet_env_ok(1-3), where m = "sample_machine Issued" and n = 9 and t = TriggerVoid and args = None,
      unfolded sample_machine_simps]
  show ?thesis using conjunct1 [OF w] conjunct1 [OF conjunct2 [OF w]] by (rule conjI)
qed

text \<open>
  C15. A charged invoice can be neither edited nor deleted any more, and no run of the machine brings it back to
  where it could be; once it is paid or voided its status never changes again.
\<close>

theorem charged_invoice_immutable:
  assumes "stateless_ok (me_Lib e)" and "checks_stable e" and "keeps_status e"
    and "phase_of (si_Status (sm_Invoice m)) \<in> {Charged, WrittenOff, Settled, Cancelled}"
  shows "CanFire e TriggerUpdated m = Inr False \<and> CanFire e TriggerDelete m = Inr False \<and>
    (\<forall>r \<in> {AdvanceUntilStateStable n e m, HandleInvoiceTrigger n e trigger m}. case r of None \<Rightarrow> True | Some (m', err) \<Rightarrow>
      phase_of (si_Status (sm_Invoice m')) \<in> {Charged, WrittenOff, Settled, Cancelled} \<and>
      (phase_of (si_Status (sm_Invoice m)) \<in> {Settled, Cancelled} \<longrightarrow> si_Status (sm_Invoice m') = si_Status (sm_Invoice m)))"
proof -
  have "destination e (sm_Invoice m) TriggerUpdated = None" "destination e (sm_Invoice m) TriggerDelete = None"
    using assms(4) by (cases "si_Status (sm_Invoice m)"; simp add: destination_def configurations enabled_of_def)+
  then have c: "CanFire e TriggerUpdated m = Inr False" "CanFire e TriggerDelete m = Inr False"
    by (simp_all add: CanFire_destination [OF assms(1)])
  have "phase_of (si_Status (sm_Invoice m')) \<in> {Charged, WrittenOff, Settled, Cancelled} \<and>
      (phase_of (si_Status (sm_Invoice m)) \<in> {Settled, Cancelled} \<longrightarrow> si_Status (sm_Invoice m') = si_Status (sm_Invoice m))"
    if "life_step\<^sup>*\<^sup>* (si_Status (sm_Invoice m)) (si_Status (sm_Invoice m'))" for m'
    using charged_stays [OF life_steps_phase [OF that] assms(4)] life_steps_final [OF that] by blast
  note stays = this
  have "case r of None \<Rightarrow> True | Some (m', err) \<Rightarrow> phase_of (si_Status (sm_Invoice m')) \<in> {Charged, WrittenOff, Settled, Cancelled} \<and>
      (phase_of (si_Status (sm_Invoice m)) \<in> {Settled, Cancelled} \<longrightarrow> si_Status (sm_Invoice m') = si_Status (sm_Invoice m))"
    if "r = AdvanceUntilStateStable n e m \<or> r = HandleInvoiceTrigger n e trigger m" for r
  proof (cases r)
    case (Some p)
    obtain m' err where "p = (m', err)" by fastforce
    then have "life_step\<^sup>*\<^sup>* (si_Status (sm_Invoice m)) (si_Status (sm_Invoice m'))"
      using that Some runs_step [OF assms(1-3)] by metis
    then show ?thesis using stays Some \<open>p = (m', err)\<close> by simp
  qed simp
  then show ?thesis using c by blast
qed

theorem charged_invoice_immutable_witness:
  "CanFire quiet_env TriggerUpdated (sample_machine Overdue) = Inr False \<and>
   CanFire quiet_env TriggerDelete (sample_machine Overdue) = Inr False"
  using charged_invoice_immutable [OF quiet_env_ok(1-3), of "sample_machine Overdue"] by simp



text \<open>
  C14. An invoice that is being deleted, or was, has the time of its deletion: no trigger and no run of the machine
  brings an invoice into \<open>deleted\<close> without it.
\<close>

theorem deleted_invoice_recorded:
  assumes "stateless_ok (me_Lib e)" and "checks_stable e" and "keeps_status e" and "keeps_deletion e"
    and "deletion_recorded (sm_Invoice m)"
  shows "\<forall>r \<in> {Some (FireAndActivate e t args m), AdvanceUntilStateStable n e m, HandleInvoiceTrigger n e trigger m}.
    case r of None \<Rightarrow> True | Some (m', err) \<Rightarrow> deletion_recorded (sm_Invoice m')"
  using FireAndActivate_deletion [OF assms, of t args] runs_keep [OF assms(1) deletion_invariant [OF assms(1-4)], of n] assms(5)
  by (auto split: option.splits prod.splits)

theorem deleted_invoice_recorded_witness:
  "case FireAndActivate quiet_env TriggerDelete (Some ChangeSourceSystem) (sample_machine DraftInvalid) of (m', err) \<Rightarrow>
     deletion_recorded (sm_Invoice m')"
proof -
  have "deletion_recorded (sm_Invoice (sample_machine DraftInvalid))" by (simp add: deletion_recorded_def)
  from deleted_invoice_recorded [OF quiet_env_ok(1-3) quiet_env_keeps this, of TriggerDelete "Some ChangeSourceSystem" 5]
  show ?thesis by simp
qed

text \<open>
  C40. What happens when an app reports on a charged invoice that still carries a critical issue. Voiding it or
  writing it off goes through: the error of that check wraps nil, holds no issue and is lost; the invoice is
  stored in the new status with the issues of other components, but its update is not published. A notice
  that it is overdue ends in the failed state, its issues copied to the component of the app, and a payment
  that was authorized and settled in the failed state of the booking. The only error returned is that of storing.
\<close>

theorem critical_issue_fate:
  assumes "stateless_ok (me_Lib e)" and "checks_stable e" and "SI_HasCritical (sm_Invoice m)"
    and "TS_Validate input = None"
    and "(ti_Namespace (ts_Input input), ti_ID (ts_Input input)) = (si_Namespace (sm_Invoice m), si_ID (sm_Invoice m))"
    and "NewEventStandardInvoice e (sm_Invoice m) = Inr pre"
    and "destination e (sm_Invoice m) (ti_Trigger (ts_Input input)) = Some d"
    and "d \<in> {Voided, Uncollectible, Overdue, PaymentProcessingBookingAuthorizedAndSettled}"
  shows "\<exists>m'. TriggerInvoice (Suc n) e update input m = Some (m', error_of (update (sm_Invoice m'))) \<and>
    sm_Published m' = sm_Published m \<and>
    (let c = trigger_component input; is = si_ValidationIssues (sm_Invoice m); is' = si_ValidationIssues (sm_Invoice m');
         kept = filter (\<lambda>i. vi_Component i \<noteq> c) is
     in (d \<in> {Voided, Uncollectible} \<longrightarrow> si_Status (sm_Invoice m') = d \<and> is' = kept) \<and>
        (d = Overdue \<longrightarrow> si_Status (sm_Invoice m') = PaymentProcessingFailed \<and>
           is' = kept @ map (\<lambda>i. issue (vi_Severity i) (vi_Message i) (vi_Code i) (addStartingSlashIfNeeded (vi_Path i)) c) is) \<and>
        (d = PaymentProcessingBookingAuthorizedAndSettled \<longrightarrow>
           si_Status (sm_Invoice m') = PaymentProcessingBookingAuthorizedAndSettledFailed \<and>
           filter (\<lambda>i. vi_Component i \<noteq> c) is' = kept))"
proof -
  let ?c = "trigger_component input"
  obtain m1 x where f: "FireAndActivate e (ti_Trigger (ts_Input input)) None m = (m1, Some x)"
    and same: "si_ValidationIssues (sm_Invoice m1) = si_ValidationIssues (sm_Invoice m)" "sm_Published m1 = sm_Published m"
    and d: "d \<in> {Voided, Uncollectible} \<longrightarrow> si_Status (sm_Invoice m1) = d \<and>
        x = WrappedNil ''cannot move into failed state: %!w(<nil>)''"
      "d = Overdue \<longrightarrow> si_Status (sm_Invoice m1) = PaymentProcessingFailed \<and>
        Some x = AsError (si_ValidationIssues (sm_Invoice m))"
      "d = PaymentProcessingBookingAuthorizedAndSettled \<longrightarrow>
        si_Status (sm_Invoice m1) = PaymentProcessingBookingAuthorizedAndSettledFailed"
    using critical_issue_fails [OF assms(1-3,7,8), of None] by blast
  have h: "HandleInvoiceTrigger (Suc n) e (ts_Input input) m = Some (m1, Some x)"
    using assms(4-6) f by (simp add: TS_Validate_def split: option.splits)
  note t = TriggerInvoice_reports [OF assms(4) h, of update]
  show ?thesis
  proof (intro exI conjI)
    show "TriggerInvoice (Suc n) e update input m = Some (reported input m1 x, error_of (update (sm_Invoice (reported input m1 x))))"
      by (rule t)
    show "sm_Published (reported input m1 x) = sm_Published m" by (simp add: reported_def same)
  qed (use d component_of_issues [OF trigger_component_ne] component_issues(2) [OF trigger_component_ne] in
      \<open>auto simp: reported_def same Let_def wrapped_nil_issues filter_empty_conv\<close>)
qed

theorem critical_issue_fate_witness:
  "\<exists>m'. TriggerInvoice 1 quiet_env Inr void_notice blocked_machine = Some (m', None) \<and>
     si_Status (sm_Invoice m') = Voided \<and> si_ValidationIssues (sm_Invoice m') = [NewValidationError ''c'' ''payment failed'']"
proof -
  have c: "SI_HasCritical (sm_Invoice blocked_machine)"
    "destination quiet_env (sm_Invoice blocked_machine) TriggerVoid = Some Voided"
    by (simp_all add: blocked_machine_def SI_HasCritical_def HasCriticalValidationIssues_def NewValidationError_def
        destination_def configurations enabled_of_def)
  obtain pre where pre: "NewEventStandardInvoice quiet_env (sm_Invoice blocked_machine) = Inr pre" using blocked_event by blast
  have v: "TS_Validate void_notice = None" "ti_Trigger (ts_Input void_notice) = TriggerVoid"
    "(ti_Namespace (ts_Input void_notice), ti_ID (ts_Input void_notice)) =
       (si_Namespace (sm_Invoice blocked_machine), si_ID (sm_Invoice blocked_machine))"
    by (simp_all add: void_notice_def TS_Validate_def TI_Validate_def NamespacedID_Validate_def blocked_machine_def sample_invoice_def
        AppTypeSandbox_def)
  have "si_ValidationIssues (sm_Invoice blocked_machine) = [NewValidationError ''c'' ''payment failed'']"
    by (simp add: blocked_machine_def)
  moreover have "vi_Component (NewValidationError ''c'' ''payment failed'') \<noteq> trigger_component void_notice"
    using trigger_component_ne [of void_notice] by (simp add: NewValidationError_def)
  ultimately show ?thesis
    using critical_issue_fate [OF quiet_env_ok(1,2) c(1) v(1,3) pre, of Voided 0 Inr] c(2) v(2)
    by (auto simp: Let_def error_of_def)
qed

end
