(* ===== verification/CurrencyRef.thy ===== *)
theory CurrencyRef
  imports Currencyx
begin

text \<open>
  References to currencies (openmeter/currencies/currency.go): a code, the ID of a custom currency and, at
  run time, the currency itself; and their stored text. Clones are the identity on values, JSON is left
  out, and of the cost bases of a currency only whether they were loaded.
\<close>

section \<open>Managed currencies\<close>

record ManagedCurrency =
  mc_Namespace :: string
  mc_ID :: string
  mc_Currency :: "Currency option"
  mc_CostBasisLoaded :: bool

record CurrencyReference =
  cr_Code :: string
  cr_CustomCurrencyID :: "string option"
  cr_resolved :: "ManagedCurrency option"

fun Currency_Validate :: "known_currencies \<Rightarrow> Currency \<Rightarrow> error option" where
  "Currency_Validate known (FiatCurrency d) = FC_Validate known (WithDefinition d)"
| "Currency_Validate known (CustomCurrency d) = CC_Validate known (WithDefinition d)"

definition MC_Validate :: "known_currencies \<Rightarrow> ManagedCurrency \<Rightarrow> error option" where
  "MC_Validate known c = nillable_validation (join_errors
     (case mc_Currency c of
        None \<Rightarrow> [Err ''currency is required'']
      | Some u \<Rightarrow> err_of (Wrap ''currency'') (Currency_Validate known u) @
          err_if (Currency_Type u = CurrencyTypeCustom \<and> mc_ID c = []) (Err ''managed custom currency ID is required'')))"

definition GetCode :: "ManagedCurrency \<Rightarrow> string" where
  "GetCode c = (case mc_Currency c of None \<Rightarrow> [] | Some u \<Rightarrow> de_Code (Currency_Details u))"

definition MC_IsFiat :: "ManagedCurrency \<Rightarrow> bool" where
  "MC_IsFiat c \<longleftrightarrow> map_option Currency_Type (mc_Currency c) = Some CurrencyTypeFiat"

definition MC_IsCustom :: "ManagedCurrency \<Rightarrow> bool" where
  "MC_IsCustom c \<longleftrightarrow> map_option Currency_Type (mc_Currency c) = Some CurrencyTypeCustom"

definition MC_Reference :: "ManagedCurrency \<Rightarrow> CurrencyReference" where
  "MC_Reference c = \<lparr>cr_Code = GetCode c, cr_CustomCurrencyID = (if MC_IsCustom c then Some (mc_ID c) else None),
     cr_resolved = Some c\<rparr>"

definition NewManagedFiatCurrency :: "known_currencies \<Rightarrow> string \<Rightarrow> ManagedCurrency result" where
  "NewManagedFiatCurrency known code = bind_result
     (wrap_result ''build fiat currency'' (Build known (WithCode code (NewCurrencyBuilder CurrencyTypeFiat))))
     (\<lambda>u. Inr \<lparr>mc_Namespace = [], mc_ID = [], mc_Currency = Some u, mc_CostBasisLoaded = False\<rparr>)"

definition MC_Identity :: "ManagedCurrency \<Rightarrow> string result" where
  "MC_Identity c =
     (if MC_IsFiat c then Inr (''FIAT:'' @ GetCode c)
      else if MC_IsCustom c then Inr (''CUSTOM:'' @ mc_Namespace c @ '':'' @ mc_ID c)
      else Inl (Err ''currency is not fiat or custom''))"

section \<open>References\<close>

definition NewCurrencyReference :: "string \<Rightarrow> CurrencyReference" where
  "NewCurrencyReference code = \<lparr>cr_Code = code, cr_CustomCurrencyID = None, cr_resolved = None\<rparr>"

definition CR_IsFiat :: "CurrencyReference \<Rightarrow> bool" where "CR_IsFiat r \<longleftrightarrow> Code_IsFiat (cr_Code r)"

definition CR_IsCustom :: "CurrencyReference \<Rightarrow> bool" where "CR_IsCustom r \<longleftrightarrow> Code_IsCustom (cr_Code r)"

definition IsResolved :: "CurrencyReference \<Rightarrow> bool" where
  "IsResolved r \<longleftrightarrow> (if CR_IsFiat r then True else cr_CustomCurrencyID r \<noteq> None \<and> cr_resolved r \<noteq> None)"

definition IsCostBasisResolved :: "CurrencyReference \<Rightarrow> bool" where
  "IsCostBasisResolved r \<longleftrightarrow> (if CR_IsFiat r then True
     else IsResolved r \<and> (case cr_resolved r of None \<Rightarrow> False | Some c \<Rightarrow> mc_CostBasisLoaded c))"

definition from_ptr :: "string option \<Rightarrow> string" where
  "from_ptr p = (case p of None \<Rightarrow> [] | Some s \<Rightarrow> s)"

definition CR_Equal :: "CurrencyReference \<Rightarrow> CurrencyReference \<Rightarrow> bool" where
  "CR_Equal r v \<longleftrightarrow> cr_Code r = cr_Code v \<and> from_ptr (cr_CustomCurrencyID r) = from_ptr (cr_CustomCurrencyID v)"

definition IdentityKey :: "CurrencyReference \<Rightarrow> string" where
  "IdentityKey r =
     (case cr_CustomCurrencyID r of
        Some i \<Rightarrow> ''CUSTOM:'' @ cr_Code r @ '':'' @ i
      | None \<Rightarrow> ''FIAT:'' @ cr_Code r)"

definition CR_Validate :: "known_currencies \<Rightarrow> CurrencyReference \<Rightarrow> error option" where
  "CR_Validate known r = nillable_validation (join_errors
     (err_of (Wrap ''code'') (Code_Validate known (cr_Code r)) @
      err_if (CR_IsFiat r \<and> cr_CustomCurrencyID r \<noteq> None) (Err ''fiat currency cannot have a custom currency id'') @
      (case cr_resolved r of None \<Rightarrow> []
       | Some c \<Rightarrow>
           (case MC_Validate known c of
              Some e \<Rightarrow> [Wrap ''resolved currency'' e]
            | None \<Rightarrow>
                err_if (cr_Code r \<noteq> GetCode c) (Err ''code mismatch between reference and resolved'') @
                (if \<not> CR_IsCustom r then []
                 else (case cr_CustomCurrencyID r of
                         None \<Rightarrow> [Err ''resolved custom currency id is required'']
                       | Some i \<Rightarrow> err_if (i \<noteq> mc_ID c) (Err ''id mismatch between reference and resolved'')))))))"

definition WithCurrency :: "known_currencies \<Rightarrow> ManagedCurrency option \<Rightarrow> CurrencyReference \<Rightarrow> CurrencyReference result" where
  "WithCurrency known currency r =
     (case currency of
        None \<Rightarrow> Inl (Err ''currency is required'')
      | Some c \<Rightarrow>
          if CR_IsFiat r then Inl (Err ''fiat currency cannot have a custom currency'')
          else if cr_Code r \<noteq> GetCode c then Inl (Err ''code mismatch between reference and currency'')
          else if (case cr_CustomCurrencyID r of None \<Rightarrow> False | Some i \<Rightarrow> mc_ID c \<noteq> i)
          then Inl (Err ''id mismatch between reference and currency'')
          else check_then (map_option (Wrap ''invalid resolved currency'') (MC_Validate known c))
            (let r' = r\<lparr>cr_CustomCurrencyID := (if mc_ID c = [] then None else Some (mc_ID c)), cr_resolved := Some c\<rparr>
             in check_then (CR_Validate known r') (Inr r')))"

section \<open>The stored text\<close>

text \<open>\<open>strings.Join\<close> and \<open>strings.Split\<close> at one character.\<close>

fun join_with :: "char \<Rightarrow> string list \<Rightarrow> string" where
  "join_with d [] = []"
| "join_with d [s] = s"
| "join_with d (s # ss) = s @ d # join_with d ss"

fun split_at :: "char \<Rightarrow> string \<Rightarrow> string list" where
  "split_at d [] = [[]]"
| "split_at d (c # s) = (if c = d then [] # split_at d s
     else (case split_at d s of [] \<Rightarrow> [[c]] | t # ts \<Rightarrow> (c # t) # ts))"

text \<open>\<open>strconv.ParseUint(s, 10, 32)\<close>.\<close>

definition is_decimal_digit :: "char \<Rightarrow> bool" where
  "is_decimal_digit c \<longleftrightarrow> 48 \<le> (of_char c :: nat) \<and> (of_char c :: nat) \<le> 57"

definition ParseUint32 :: "string \<Rightarrow> 32 word option" where
  "ParseUint32 s =
     (if s \<noteq> [] \<and> list_all is_decimal_digit s \<and> read_nat s < 2 ^ 32 then Some (of_nat (read_nat s)) else None)"

text \<open>A reference that passed validation and is resolved has a currency.\<close>

definition MarshalText :: "known_currencies \<Rightarrow> CurrencyReference \<Rightarrow> string result" where
  "MarshalText known r = check_then (CR_Validate known r)
     (if CR_IsFiat r then Inr (cr_Code r)
      else if \<not> IsResolved r then Inl (Err ''custom currency reference must be resolved'')
      else (case Option.bind (cr_resolved r) mc_Currency of
              None \<Rightarrow> Inl (Err ''currency is required'')
            | Some u \<Rightarrow> Inr (join_with CHR ''|'' [''custom'', ''v1'', cr_Code r, from_ptr (cr_CustomCurrencyID r),
                show_nat (unat (de_Precision (Currency_Details u)))])))"

definition MarshalTextPrefix :: "known_currencies \<Rightarrow> CurrencyReference \<Rightarrow> string result" where
  "MarshalTextPrefix known r = check_then (CR_Validate known r)
     (if CR_IsFiat r then Inr (cr_Code r)
      else Inr (join_with CHR ''|'' ([''custom'', ''v1'', cr_Code r] @
        (case cr_CustomCurrencyID r of None \<Rightarrow> [] | Some i \<Rightarrow> [i])) @ ''|''))"

definition ParseCurrencyReference :: "known_currencies \<Rightarrow> string \<Rightarrow> CurrencyReference result" where
  "ParseCurrencyReference known serialized =
     (case split_at CHR ''|'' serialized of
        [_] \<Rightarrow>
          let reference = NewCurrencyReference serialized
          in check_then (CR_Validate known reference)
               (if \<not> CR_IsFiat reference then Inl (Err ''custom currency reference snapshot is required'') else Inr reference)
      | [s0, s1, code, i, p] \<Rightarrow>
          if s0 \<noteq> ''custom'' then Inl (Err ''invalid currency reference'')
          else if s1 \<noteq> ''v1'' then Inl (Err ''unsupported currency reference version'')
          else if \<not> Code_IsCustom code then Inl (Err ''custom currency reference requires a custom currency code'')
          else if i = [] then Inl (Err ''custom currency id is required'')
          else (case ParseUint32 p of
                  None \<Rightarrow> Inl (Err ''invalid custom currency precision'')
                | Some precision \<Rightarrow> bind_result
                    (wrap_result ''build custom currency snapshot''
                       (Build known (WithPrecision precision (WithName code (WithCode code (NewCurrencyBuilder CurrencyTypeCustom))))))
                    (\<lambda>u. Inr (MC_Reference \<lparr>mc_Namespace = [], mc_ID = i, mc_Currency = Some u, mc_CostBasisLoaded = False\<rparr>)))
      | _ \<Rightarrow> Inl (Err ''invalid currency reference''))"

section \<open>Round trip\<close>

lemma split_at_segment: "d \<notin> set t \<Longrightarrow> split_at d t = [t]"
  by (induction t) auto

lemma split_at_append: "d \<notin> set t \<Longrightarrow> split_at d (t @ d # s) = t # split_at d s"
  by (induction t) auto

lemma split_join: "ss \<noteq> [] \<Longrightarrow> \<forall>s \<in> set ss. d \<notin> set s \<Longrightarrow> split_at d (join_with d ss) = ss"
  by (induction d ss rule: join_with.induct) (simp_all add: split_at_segment split_at_append)

lemma show_nat_digits: "show_nat n \<noteq> [] \<and> list_all is_decimal_digit (show_nat n)"
proof (induction n rule: show_nat.induct)
  case (1 n)
  have "is_decimal_digit (char_of (48 + k :: nat))" if "k < 10" for k
    using that by (simp add: is_decimal_digit_def of_char_of)
  then show ?case using 1 by (subst (1 2) show_nat.simps) auto
qed

lemma show_nat_delimiter: "CHR ''|'' \<notin> set (show_nat n)"
  using show_nat_digits [of n] by (auto simp: list_all_iff is_decimal_digit_def)

lemma ParseUint32_show: "ParseUint32 (show_nat (unat w)) = Some w"
proof -
  have "unat w < 2 ^ 32" using unsigned_less [of w] by simp
  then show ?thesis using show_nat_digits [of "unat w"] by (simp add: ParseUint32_def del: read_nat.simps)
qed

lemma no_errors [simp]:
  "join_errors es = None \<longleftrightarrow> es = []" "nillable_validation e = None \<longleftrightarrow> e = None" "err_if c x = [] \<longleftrightarrow> \<not> c"
  "err_of w e = [] \<longleftrightarrow> e = None"
  "join_errors [] = None" "nillable_validation None = None" "err_if False x = []" "err_of w None = []" "check_then None y = y"
  by (simp_all add: join_errors_def nillable_validation_def err_if_def err_of_def check_then_def split: option.split)

text \<open>What validation says of a resolved custom reference.\<close>

lemma CR_Validate_custom:
  assumes "CR_Validate known r = None" and "CR_IsCustom r" and "cr_resolved r = Some c"
  shows "\<exists>d. mc_Currency c = Some (CustomCurrency d) \<and> cd_ISOCode d = cr_Code r \<and> cr_CustomCurrencyID r = Some (mc_ID c) \<and>
    mc_ID c \<noteq> [] \<and> validateCustomCurrencyCode known (cr_Code r) = None \<and> cd_Subunits d \<le> CustomCurrencyMaxPrecision"
proof -
  have v: "MC_Validate known c = None" and code: "cr_Code r = GetCode c" and i: "cr_CustomCurrencyID r = Some (mc_ID c)"
    using assms by (auto simp: CR_Validate_def split: option.splits)
  obtain u where u: "mc_Currency c = Some u" using v by (cases "mc_Currency c") (auto simp: MC_Validate_def)
  show ?thesis
  proof (cases u)
    case (FiatCurrency d)
    then show ?thesis using v code u assms(2)
      by (auto simp: MC_Validate_def FC_Validate_def validateFiatCurrencyCode_def GetCode_def CR_IsCustom_def Code_IsCustom_def Code_Type_def
          split: if_splits)
  next
    case (CustomCurrency d)
    then show ?thesis using v code u i by (auto simp: MC_Validate_def CC_Validate_def GetCode_def not_less)
  qed
qed

lemma Build_snapshot:
  assumes "validateCustomCurrencyCode known code = None" and "p \<le> CustomCurrencyMaxPrecision"
  shows "\<exists>d. Build known (WithPrecision p (WithName code (WithCode code (NewCurrencyBuilder CurrencyTypeCustom)))) =
    Inr (CustomCurrency d) \<and> cd_ISOCode d = code \<and> cd_Subunits d = p"
proof -
  have "code \<noteq> []" using assms(1) by (auto simp: validateCustomCurrencyCode_def)
  moreover have p: "(CustomCurrencyMaxPrecision < p) = False" using assms(2) by simp
  ultimately show ?thesis using assms(1)
    by (simp add: p Build_def WithPrecision_def WithName_def WithCode_def NewCurrencyBuilder_def newCustomCurrency_def CC_Validate_def
        bind_result_def Let_def)
qed

definition cr_precision :: "CurrencyReference \<Rightarrow> 32 word option" where
  "cr_precision r = map_option (\<lambda>u. de_Precision (Currency_Details u)) (Option.bind (cr_resolved r) mc_Currency)"

text \<open>
  C31. The stored text of a currency reference is read back as the same currency: code, ID and identity agree, and for a
  custom currency so does the precision that was stored with it.
\<close>

theorem CurrencyReference_roundtrip:
  assumes "MarshalText known r = Inr s" and "CHR ''|'' \<notin> set (cr_Code r)" and "CHR ''|'' \<notin> set (from_ptr (cr_CustomCurrencyID r))"
  shows "\<exists>r'. ParseCurrencyReference known s = Inr r' \<and> CR_Equal r' r \<and> IdentityKey r' = IdentityKey r \<and>
    (CR_IsCustom r \<longrightarrow> cr_precision r' = cr_precision r)"
proof (cases "CR_IsFiat r")
  case True
  have v: "CR_Validate known r = None" and s: "s = cr_Code r"
    using assms(1) True by (auto simp: MarshalText_def check_then_def split: option.splits)
  have i: "cr_CustomCurrencyID r = None" using v True by (simp add: CR_Validate_def)
  have c: "Code_Validate known (cr_Code r) = None" using v by (simp add: CR_Validate_def)
  have "ParseCurrencyReference known s = Inr (NewCurrencyReference (cr_Code r))"
    using True c assms(2) by (simp add: s ParseCurrencyReference_def split_at_segment CR_Validate_def
        NewCurrencyReference_def CR_IsFiat_def Let_def)
  moreover have "\<not> CR_IsCustom r" using True by (simp add: CR_IsFiat_def CR_IsCustom_def Code_IsFiat_def Code_IsCustom_def)
  ultimately show ?thesis by (simp add: NewCurrencyReference_def CR_Equal_def IdentityKey_def i)
next
  case False
  then have custom: "CR_IsCustom r" by (simp add: CR_IsFiat_def CR_IsCustom_def Code_IsFiat_def Code_IsCustom_def Code_Type_def split: if_splits)
  have v: "CR_Validate known r = None" and res: "IsResolved r"
    using assms(1) False by (auto simp: MarshalText_def check_then_def split: option.splits if_splits)
  obtain c where c: "cr_resolved r = Some c" using res False by (auto simp: IsResolved_def)
  obtain d where d: "mc_Currency c = Some (CustomCurrency d)" "cd_ISOCode d = cr_Code r" "cr_CustomCurrencyID r = Some (mc_ID c)"
    "mc_ID c \<noteq> []" "validateCustomCurrencyCode known (cr_Code r) = None" "cd_Subunits d \<le> CustomCurrencyMaxPrecision"
    using CR_Validate_custom [OF v custom c] by blast
  let ?ss = "[''custom'', ''v1'', cr_Code r, mc_ID c, show_nat (unat (cd_Subunits d))]"
  have s: "s = join_with CHR ''|'' ?ss"
    using assms(1) v False res c d by (simp add: MarshalText_def check_then_def from_ptr_def)
  have split: "split_at CHR ''|'' s = ?ss"
    unfolding s by (rule split_join) (use assms(2,3) d(3) in \<open>simp_all add: show_nat_delimiter from_ptr_def\<close>)
  obtain d' where b: "Build known (WithPrecision (cd_Subunits d) (WithName (cr_Code r) (WithCode (cr_Code r) (NewCurrencyBuilder CurrencyTypeCustom)))) =
      Inr (CustomCurrency d')" "cd_ISOCode d' = cr_Code r" "cd_Subunits d' = cd_Subunits d"
    using Build_snapshot [OF d(5,6)] by blast
  have "ParseCurrencyReference known s =
      Inr (MC_Reference \<lparr>mc_Namespace = [], mc_ID = mc_ID c, mc_Currency = Some (CustomCurrency d'), mc_CostBasisLoaded = False\<rparr>)"
    using custom d(4) b(1) by (simp add: ParseCurrencyReference_def split ParseUint32_show CR_IsCustom_def bind_result_def wrap_result_def)
  then show ?thesis using b(2,3) d c
    by (simp add: MC_Reference_def GetCode_def MC_IsCustom_def CR_Equal_def IdentityKey_def cr_precision_def)
qed

definition sample_credit_currency :: ManagedCurrency where
  "sample_credit_currency = \<lparr>mc_Namespace = ''ns'', mc_ID = ''01J'', mc_Currency = Some (CustomCurrency
     \<lparr>cd_ISOCode = ''TOKENS'', cd_ISONumeric = [], cd_Name = ''tokens'', cd_Symbol = [], cd_Subunits = 4, cd_DecimalMark = ''.'',
      cd_ThousandsSeparator = '',''\<rparr>), mc_CostBasisLoaded = False\<rparr>"

theorem CurrencyReference_roundtrip_witness:
  "\<exists>s r'. MarshalText (\<lambda>_. None) (MC_Reference sample_credit_currency) = Inr s \<and> ParseCurrencyReference (\<lambda>_. None) s = Inr r' \<and>
     CR_Equal r' (MC_Reference sample_credit_currency)"
proof -
  have v: "CR_Validate (\<lambda>_. None) (MC_Reference sample_credit_currency) = None"
    by (simp add: CR_Validate_def MC_Reference_def sample_credit_currency_def GetCode_def MC_IsCustom_def CR_IsFiat_def CR_IsCustom_def
        Code_IsFiat_def Code_IsCustom_def Code_Type_def Code_Validate_def validateCustomCurrencyCode_def TrimSpace_def is_space_def
        CustomCurrencyCodeMinLength_def CustomCurrencyCodeMaxLength_def MC_Validate_def CC_Validate_def CustomCurrencyMaxPrecision_def)
  then obtain s where s: "MarshalText (\<lambda>_. None) (MC_Reference sample_credit_currency) = Inr s"
    by (simp add: MarshalText_def check_then_def MC_Reference_def sample_credit_currency_def GetCode_def MC_IsCustom_def CR_IsFiat_def
        Code_IsFiat_def Code_Type_def IsResolved_def)
  show ?thesis
    using CurrencyReference_roundtrip [OF s] s
    by (auto simp: MC_Reference_def sample_credit_currency_def GetCode_def MC_IsCustom_def from_ptr_def)
qed

end
