(* ===== verification/LedgerRoute.thy ===== *)
theory LedgerRoute
  imports CurrencyRef "HOL-Library.List_Lexorder" "HOL-Library.Char_ord"
begin

text \<open>
  The routes of the ledger (openmeter/ledger/routing.go, with the account types of account.go and the route
  parameters of accounts.go): the values that identify a sub-account, their normal form, the filters that
  match them and the keys that encode them. The attributes of an error are left out.
\<close>

section \<open>Values of a route\<close>

datatype TransactionAuthorizationStatus =
  TransactionAuthorizationStatusOpen | TransactionAuthorizationStatusAuthorized | OtherAuthorizationStatus string

datatype LedgerTaxBehavior = TaxBehaviorInclusive | TaxBehaviorExclusive | OtherTaxBehavior string

datatype RoutingKeyVersion =
  RoutingKeyVersionV1 | RoutingKeyVersionV2 | RoutingKeyVersionV3 | RoutingKeyVersionV4 | OtherRoutingKeyVersion string

datatype AccountType =
  AccountTypeCustomerFBO | AccountTypeCustomerReceivable | AccountTypeCustomerAccrued
  | AccountTypeWash | AccountTypeEarnings | AccountTypeBrokerage | AccountTypeBreakage | OtherAccountType string

fun authorization_string :: "TransactionAuthorizationStatus \<Rightarrow> string" where
  "authorization_string TransactionAuthorizationStatusOpen = ''open''"
| "authorization_string TransactionAuthorizationStatusAuthorized = ''authorized''"
| "authorization_string (OtherAuthorizationStatus s) = s"

fun behavior_string :: "LedgerTaxBehavior \<Rightarrow> string" where
  "behavior_string TaxBehaviorInclusive = ''inclusive''"
| "behavior_string TaxBehaviorExclusive = ''exclusive''"
| "behavior_string (OtherTaxBehavior s) = s"

fun account_type_string :: "AccountType \<Rightarrow> string" where
  "account_type_string AccountTypeCustomerFBO = ''customer_fbo''"
| "account_type_string AccountTypeCustomerReceivable = ''customer_receivable''"
| "account_type_string AccountTypeCustomerAccrued = ''customer_accrued''"
| "account_type_string AccountTypeWash = ''wash''"
| "account_type_string AccountTypeEarnings = ''earnings''"
| "account_type_string AccountTypeBrokerage = ''brokerage''"
| "account_type_string AccountTypeBreakage = ''breakage''"
| "account_type_string (OtherAccountType s) = s"

definition CustomerAccountTypes :: "AccountType list" where
  "CustomerAccountTypes = [AccountTypeCustomerFBO, AccountTypeCustomerReceivable, AccountTypeCustomerAccrued]"

definition BusinessAccountTypes :: "AccountType list" where
  "BusinessAccountTypes = [AccountTypeWash, AccountTypeEarnings, AccountTypeBrokerage, AccountTypeBreakage]"

definition AccountType_Validate :: "AccountType \<Rightarrow> error option" where
  "AccountType_Validate t =
     (case t of OtherAccountType _ \<Rightarrow> Some (GenericValidation (Err ''invalid account type'')) | _ \<Rightarrow> None)"

definition ErrCurrencyInvalid :: error where "ErrCurrencyInvalid = Err ''ledger currency is invalid''"
definition ErrCreditPriorityInvalid :: error where "ErrCreditPriorityInvalid = Err ''ledger credit priority is invalid''"
definition ErrCostBasisInvalid :: error where "ErrCostBasisInvalid = Err ''ledger cost basis is invalid''"
definition ErrTransactionAuthorizationStatusInvalid :: error where
  "ErrTransactionAuthorizationStatusInvalid = Err ''ledger transaction authorization status is invalid''"
definition ErrTransactionAmountInvalid :: error where
  "ErrTransactionAmountInvalid = Err ''ledger transaction amount is invalid''"
definition ErrRoutingKeyVersionInvalid :: error where
  "ErrRoutingKeyVersionInvalid = Err ''ledger routing key version is invalid''"
definition ErrRoutingKeyVersionUnsupported :: error where
  "ErrRoutingKeyVersionUnsupported = Err ''ledger routing key version is unsupported''"
definition ErrTaxBehaviorInvalid :: error where "ErrTaxBehaviorInvalid = Err ''ledger tax behavior is invalid''"

definition AuthorizationStatus_Validate :: "TransactionAuthorizationStatus \<Rightarrow> error option" where
  "AuthorizationStatus_Validate s =
     (case s of OtherAuthorizationStatus _ \<Rightarrow> Some ErrTransactionAuthorizationStatusInvalid | _ \<Rightarrow> None)"

definition RoutingKeyVersion_Validate :: "RoutingKeyVersion \<Rightarrow> error option" where
  "RoutingKeyVersion_Validate v = (case v of OtherRoutingKeyVersion _ \<Rightarrow> Some ErrRoutingKeyVersionInvalid | _ \<Rightarrow> None)"

definition LedgerTaxBehavior_Validate :: "LedgerTaxBehavior \<Rightarrow> error option" where
  "LedgerTaxBehavior_Validate b = (case b of OtherTaxBehavior _ \<Rightarrow> Some ErrTaxBehaviorInvalid | _ \<Rightarrow> None)"

section \<open>Checks\<close>

definition ValidateTransactionAmount :: "decimal \<Rightarrow> error option" where
  "ValidateTransactionAmount x =
     (if x < 0 then Some ErrTransactionAmountInvalid else if x = 0 then Some ErrTransactionAmountInvalid else None)"

definition ValidateCreditPriority :: "int \<Rightarrow> error option" where
  "ValidateCreditPriority x = (if x < 1 then Some ErrCreditPriorityInvalid else None)"

definition ValidateCurrency :: "known_currencies \<Rightarrow> string \<Rightarrow> error option" where
  "ValidateCurrency known c = (case Code_Validate known c of Some _ \<Rightarrow> Some ErrCurrencyInvalid | None \<Rightarrow> None)"

definition ValidateCostBasisCurrency :: "known_currencies \<Rightarrow> string \<Rightarrow> string option \<Rightarrow> decimal option \<Rightarrow> error option" where
  "ValidateCostBasisCurrency known currency costBasisCurrency costBasis =
     (if costBasisCurrency = None \<or> costBasisCurrency = Some []
      then (if Code_IsCustom currency \<and> costBasis \<noteq> None then Some ErrCurrencyInvalid else None)
      else case costBasisCurrency of None \<Rightarrow> None
           | Some c \<Rightarrow>
               if ValidateCurrency known c \<noteq> None \<or> known c = None then Some ErrCurrencyInvalid
               else if known currency \<noteq> None then Some ErrCurrencyInvalid
               else None)"

definition ValidateCostBasis :: "decimal \<Rightarrow> error option" where
  "ValidateCostBasis x = (if x < 0 then Some ErrCostBasisInvalid else None)"

definition SortedFeatures :: "string list \<Rightarrow> string list" where
  "SortedFeatures features = sort_by compare_values features"

fun feature_errors :: "string list \<Rightarrow> string set \<Rightarrow> error list" where
  "feature_errors [] seen = []"
| "feature_errors (f # fs) seen =
     (if f = [] then Err ''feature key is required'' # feature_errors fs seen
      else if f \<in> seen then Err ''duplicate feature key'' # feature_errors fs seen
      else feature_errors fs (insert f seen))"

definition validateFeatures :: "string list \<Rightarrow> error option" where
  "validateFeatures features = join_errors (feature_errors features {})"

section \<open>Routes\<close>

record Route =
  ro_Version :: RoutingKeyVersion
  ro_Currency :: CurrencyReference
  ro_CostBasisCurrency :: "string option"
  ro_TaxCode :: "string option"
  ro_TaxBehavior :: "LedgerTaxBehavior option"
  ro_Features :: "string list"
  ro_CostBasis :: "decimal option"
  ro_CreditPriority :: "int option"
  ro_AuthorizationStatus :: "TransactionAuthorizationStatus option"

definition validateDimensionsOnly :: "known_currencies \<Rightarrow> Route \<Rightarrow> error option" where
  "validateDimensionsOnly known r =
     (case CR_Validate known (ro_Currency r) of Some _ \<Rightarrow> Some ErrCurrencyInvalid
      | None \<Rightarrow>
     (case ValidateCostBasisCurrency known (cr_Code (ro_Currency r)) (ro_CostBasisCurrency r) (ro_CostBasis r) of
        Some e \<Rightarrow> Some e
      | None \<Rightarrow>
     (case Option.bind (ro_CreditPriority r) ValidateCreditPriority of Some e \<Rightarrow> Some e
      | None \<Rightarrow>
     (case Option.bind (ro_CostBasis r) ValidateCostBasis of Some e \<Rightarrow> Some e
      | None \<Rightarrow>
     (case Option.bind (ro_AuthorizationStatus r) AuthorizationStatus_Validate of Some e \<Rightarrow> Some e
      | None \<Rightarrow>
     (case Option.bind (ro_TaxBehavior r) LedgerTaxBehavior_Validate of Some e \<Rightarrow> Some e
      | None \<Rightarrow> map_option (Wrap ''features'') (validateFeatures (ro_Features r))))))))"

definition Route_Validate :: "known_currencies \<Rightarrow> Route \<Rightarrow> error option" where
  "Route_Validate known r =
     (case validateDimensionsOnly known r of
        Some e \<Rightarrow> Some e
      | None \<Rightarrow> if CR_IsCustom (ro_Currency r) \<and> \<not> IsResolved (ro_Currency r) then Some ErrCurrencyInvalid else None)"

definition selectRoutingKeyVersion :: "Route \<Rightarrow> RoutingKeyVersion" where
  "selectRoutingKeyVersion r =
     (if CR_IsCustom (ro_Currency r) then RoutingKeyVersionV4
      else if ro_CostBasisCurrency r \<noteq> None then RoutingKeyVersionV3
      else if ro_TaxBehavior r \<noteq> None then RoutingKeyVersionV2
      else RoutingKeyVersionV1)"

text \<open>The normal form of a valid route.\<close>

definition canonical_route :: "Route \<Rightarrow> Route" where
  "canonical_route r =
     (let n = (if ro_CostBasisCurrency r = Some [] then r\<lparr>ro_CostBasisCurrency := None\<rparr> else r);
          n = n\<lparr>ro_Features := SortedFeatures (ro_Features r)\<rparr>
      in n\<lparr>ro_Version := selectRoutingKeyVersion n\<rparr>)"

definition Route_Normalize :: "known_currencies \<Rightarrow> Route \<Rightarrow> Route result" where
  "Route_Normalize known r = check_then (Route_Validate known r) (Inr (canonical_route r))"

section \<open>Filters\<close>

text \<open>A field that is a \<open>mo.Option\<close> of a pointer is an option of an option.\<close>

record RouteFilter =
  fi_Currency :: CurrencyReference
  fi_CostBasisCurrency :: "string option option"
  fi_TaxCode :: "string option option"
  fi_TaxBehavior :: "LedgerTaxBehavior option option"
  fi_Features :: "string list option"
  fi_MatchFeature :: string
  fi_CostBasis :: "decimal option option"
  fi_CreditPriority :: "int option"
  fi_AuthorizationStatus :: "TransactionAuthorizationStatus option"

definition Route_Filter :: "Route \<Rightarrow> RouteFilter" where
  "Route_Filter r =
     \<lparr>fi_Currency = ro_Currency r, fi_CostBasisCurrency = Some (ro_CostBasisCurrency r), fi_TaxCode = Some (ro_TaxCode r),
      fi_TaxBehavior = Some (ro_TaxBehavior r), fi_Features = Some (ro_Features r), fi_MatchFeature = [],
      fi_CostBasis = Some (ro_CostBasis r), fi_CreditPriority = ro_CreditPriority r,
      fi_AuthorizationStatus = ro_AuthorizationStatus r\<rparr>"

text \<open>A pinned optional value agrees if both are absent or both are present and equal.\<close>

definition pinned :: "'a option option \<Rightarrow> 'a option \<Rightarrow> bool" where
  "pinned p x = (case p of None \<Rightarrow> True | Some f \<Rightarrow> f = x)"

definition Route_Matches :: "Route \<Rightarrow> RouteFilter \<Rightarrow> bool" where
  "Route_Matches r f \<longleftrightarrow>
     (if cr_Code (fi_Currency f) \<noteq> [] \<and> cr_Code (ro_Currency r) \<noteq> cr_Code (fi_Currency f) then False
      else if cr_CustomCurrencyID (fi_Currency f) \<noteq> None \<and> \<not> CR_Equal (ro_Currency r) (fi_Currency f) then False
      else if \<not> pinned (fi_CostBasisCurrency f) (ro_CostBasisCurrency r) then False
      else if \<not> pinned (fi_TaxCode f) (ro_TaxCode r) then False
      else if \<not> pinned (fi_TaxBehavior f) (ro_TaxBehavior r) then False
      else if (case fi_Features f of None \<Rightarrow> False | Some features \<Rightarrow> SortedFeatures (ro_Features r) \<noteq> SortedFeatures features) then False
      else if fi_MatchFeature f \<noteq> [] \<and> ro_Features r \<noteq> [] \<and> fi_MatchFeature f \<notin> set (ro_Features r) then False
      else if \<not> pinned (fi_CostBasis f) (ro_CostBasis r) then False
      else if fi_CreditPriority f \<noteq> None \<and> ro_CreditPriority r \<noteq> fi_CreditPriority f then False
      else if fi_AuthorizationStatus f \<noteq> None \<and> ro_AuthorizationStatus r \<noteq> fi_AuthorizationStatus f then False
      else True)"

definition value_or :: "'a \<Rightarrow> 'a option \<Rightarrow> 'a" where
  "value_or d x = (case x of None \<Rightarrow> d | Some v \<Rightarrow> v)"

definition RouteFilter_Normalize :: "known_currencies \<Rightarrow> RouteFilter \<Rightarrow> RouteFilter result" where
  "RouteFilter_Normalize known f =
     (if cr_Code (fi_Currency f) = [] \<and> fi_CostBasisCurrency f = None \<and> fi_TaxCode f = None \<and> fi_Features f = None \<and>
         fi_MatchFeature f = [] \<and> fi_CostBasis f = None \<and> fi_CreditPriority f = None \<and> fi_AuthorizationStatus f = None \<and>
         fi_TaxBehavior f = None
      then Inr f
      else if fi_Features f \<noteq> None \<and> fi_MatchFeature f \<noteq> []
      then Inl (Err ''features and match feature filters cannot be combined'')
      else check_then (if fi_MatchFeature f \<noteq> [] then map_option (Wrap ''match feature'') (validateFeatures [fi_MatchFeature f]) else None)
        (check_then (if cr_Code (fi_Currency f) \<noteq> [] then map_option (Wrap ''currency'') (CR_Validate known (fi_Currency f)) else None)
          (let route = \<lparr>ro_Version = OtherRoutingKeyVersion [], ro_Currency = fi_Currency f,
                 ro_CostBasisCurrency = value_or None (fi_CostBasisCurrency f), ro_TaxCode = value_or None (fi_TaxCode f),
                 ro_TaxBehavior = value_or None (fi_TaxBehavior f), ro_Features = value_or [] (fi_Features f),
                 ro_CostBasis = value_or None (fi_CostBasis f), ro_CreditPriority = fi_CreditPriority f,
                 ro_AuthorizationStatus = fi_AuthorizationStatus f\<rparr>
           in check_then (validateDimensionsOnly known route)
                (Inr (f\<lparr>fi_CostBasisCurrency := map_option (\<lambda>c. if c = Some [] then None else c) (fi_CostBasisCurrency f),
                   fi_Features := map_option SortedFeatures (fi_Features f)\<rparr>)))))"

section \<open>Routing keys\<close>

record RoutingKey =
  rk_version :: RoutingKeyVersion
  rk_value :: string

definition NewRoutingKey :: "RoutingKeyVersion \<Rightarrow> string \<Rightarrow> RoutingKey result" where
  "NewRoutingKey version v = check_then (RoutingKeyVersion_Validate version)
     (if v = [] then Inl (Err ''routing key is required'') else Inr \<lparr>rk_version = version, rk_value = v\<rparr>)"

definition canonicalFeatures :: "string list \<Rightarrow> string" where
  "canonicalFeatures features = (if features = [] then ''null'' else join_with CHR '','' (SortedFeatures features))"

definition optionalStringValue :: "string option \<Rightarrow> string" where
  "optionalStringValue s = (if s = None \<or> s = Some [] then ''null'' else from_ptr s)"

text \<open>\<open>strconv.Itoa\<close>.\<close>

definition show_int :: "int \<Rightarrow> string" where
  "show_int i = (if i < 0 then CHR ''-'' # show_nat (nat (- i)) else show_nat (nat i))"

definition optionalIntValue :: "int option \<Rightarrow> string" where
  "optionalIntValue v = (case v of None \<Rightarrow> ''null'' | Some i \<Rightarrow> show_int i)"

definition optionalDecimalValue :: "decimal_lib \<Rightarrow> decimal option \<Rightarrow> string" where
  "optionalDecimalValue L v = (case v of None \<Rightarrow> ''null'' | Some d \<Rightarrow> dl_String L d)"

definition or_null :: "('a \<Rightarrow> string) \<Rightarrow> 'a option \<Rightarrow> string" where
  "or_null f v = (case v of None \<Rightarrow> ''null'' | Some x \<Rightarrow> f x)"

text \<open>The segments that all versions end in.\<close>

definition last_segments :: "decimal_lib \<Rightarrow> Route \<Rightarrow> string list" where
  "last_segments L r =
     [''features:'' @ canonicalFeatures (ro_Features r), ''cost_basis:'' @ optionalDecimalValue L (ro_CostBasis r),
      ''credit_priority:'' @ optionalIntValue (ro_CreditPriority r),
      ''transaction_authorization_status:'' @ or_null authorization_string (ro_AuthorizationStatus r)]"

definition tax_code_segment :: "Route \<Rightarrow> string" where
  "tax_code_segment r = ''tax_code:'' @ optionalStringValue (ro_TaxCode r)"

definition behavior_segment :: "Route \<Rightarrow> string" where
  "behavior_segment r = ''tax_behavior:'' @ or_null behavior_string (ro_TaxBehavior r)"

definition basis_currency_segment :: "Route \<Rightarrow> string" where
  "basis_currency_segment r = ''cost_basis_currency:'' @ or_null (\<lambda>c. c) (ro_CostBasisCurrency r)"

definition buildRoutingKeyV1Normalized :: "decimal_lib \<Rightarrow> Route \<Rightarrow> RoutingKey result" where
  "buildRoutingKeyV1Normalized L r = NewRoutingKey RoutingKeyVersionV1
     (join_with CHR ''|'' ([''currency:'' @ cr_Code (ro_Currency r), tax_code_segment r] @ last_segments L r))"

definition buildRoutingKeyV2Normalized :: "decimal_lib \<Rightarrow> Route \<Rightarrow> RoutingKey result" where
  "buildRoutingKeyV2Normalized L r = NewRoutingKey RoutingKeyVersionV2
     (join_with CHR ''|'' ([''currency:'' @ cr_Code (ro_Currency r), tax_code_segment r, behavior_segment r] @ last_segments L r))"

definition buildRoutingKeyV3Normalized :: "decimal_lib \<Rightarrow> Route \<Rightarrow> RoutingKey result" where
  "buildRoutingKeyV3Normalized L r = NewRoutingKey RoutingKeyVersionV3
     (join_with CHR ''|'' ([''currency:'' @ cr_Code (ro_Currency r), basis_currency_segment r, tax_code_segment r, behavior_segment r] @
       last_segments L r))"

definition buildRoutingKeyV4Normalized :: "known_currencies \<Rightarrow> decimal_lib \<Rightarrow> Route \<Rightarrow> RoutingKey result" where
  "buildRoutingKeyV4Normalized known L r =
     bind_result (wrap_result ''marshal currency reference'' (MarshalText known (ro_Currency r))) (\<lambda>currency.
       NewRoutingKey RoutingKeyVersionV4
         (join_with CHR ''|'' ([''currency:'' @ currency, basis_currency_segment r, tax_code_segment r, behavior_segment r] @ last_segments L r)))"

definition BuildRoutingKey :: "known_currencies \<Rightarrow> decimal_lib \<Rightarrow> Route \<Rightarrow> RoutingKey result" where
  "BuildRoutingKey known L route =
     bind_result (Route_Normalize known route) (\<lambda>r.
       (case ro_Version r of
          RoutingKeyVersionV1 \<Rightarrow> buildRoutingKeyV1Normalized L r
        | RoutingKeyVersionV2 \<Rightarrow> buildRoutingKeyV2Normalized L r
        | RoutingKeyVersionV3 \<Rightarrow> buildRoutingKeyV3Normalized L r
        | RoutingKeyVersionV4 \<Rightarrow> buildRoutingKeyV4Normalized known L r
        | OtherRoutingKeyVersion _ \<Rightarrow> Inl ErrRoutingKeyVersionUnsupported))"

definition BuildRoutingKeyV1 :: "known_currencies \<Rightarrow> decimal_lib \<Rightarrow> Route \<Rightarrow> RoutingKey result" where
  "BuildRoutingKeyV1 known L route =
     (if ro_TaxBehavior route \<noteq> None then Inl (Err ''TaxBehavior requires a V2 routing key'')
      else bind_result (Route_Normalize known route) (\<lambda>r.
        if ro_CostBasisCurrency r \<noteq> None then Inl (Err ''CostBasisCurrency requires a V3 routing key'')
        else buildRoutingKeyV1Normalized L r))"

definition BuildRoutingKeyV2 :: "known_currencies \<Rightarrow> decimal_lib \<Rightarrow> Route \<Rightarrow> RoutingKey result" where
  "BuildRoutingKeyV2 known L route = bind_result (Route_Normalize known route) (\<lambda>r.
     if ro_CostBasisCurrency r \<noteq> None then Inl (Err ''CostBasisCurrency requires a V3 routing key'')
     else buildRoutingKeyV2Normalized L r)"

definition BuildRoutingKeyV3 :: "known_currencies \<Rightarrow> decimal_lib \<Rightarrow> Route \<Rightarrow> RoutingKey result" where
  "BuildRoutingKeyV3 known L route = bind_result (Route_Normalize known route) (\<lambda>r.
     if CR_IsCustom (ro_Currency r) then Inl (Err ''custom currency requires a V4 routing key'')
     else buildRoutingKeyV3Normalized L r)"

definition BuildRoutingKeyV4 :: "known_currencies \<Rightarrow> decimal_lib \<Rightarrow> Route \<Rightarrow> RoutingKey result" where
  "BuildRoutingKeyV4 known L route = bind_result (Route_Normalize known route) (buildRoutingKeyV4Normalized known L)"

text \<open>The route of a stored sub-account keeps the version of its stored key.\<close>

record SubAccountRoute =
  sr_id :: string
  sr_key :: RoutingKey
  sr_route :: Route

definition NewSubAccountRouteFromData :: "known_currencies \<Rightarrow> string \<Rightarrow> RoutingKey \<Rightarrow> Route \<Rightarrow> SubAccountRoute result" where
  "NewSubAccountRouteFromData known i key route =
     (if i = [] then Inl (Err ''route id is required'')
      else check_then (map_option (Wrap ''route'') (Route_Validate known route))
        (bind_result (wrap_result ''normalize route'' (Route_Normalize known route)) (\<lambda>r.
          if rk_version key = RoutingKeyVersionV3 \<and> ro_CostBasisCurrency r = None
          then Inl (Err ''routing key version v3 requires cost basis currency'')
          else if rk_version key = RoutingKeyVersionV4 \<and> \<not> CR_IsCustom (ro_Currency r)
          then Inl (Err ''routing key version v4 requires custom currency'')
          else Inr \<lparr>sr_id = i, sr_key = key, sr_route = r\<lparr>ro_Version := rk_version key\<rparr>\<rparr>)))"

section \<open>What a key identifies\<close>

lemma SortedFeatures_idem [simp]: "SortedFeatures (SortedFeatures fs) = SortedFeatures fs"
  unfolding SortedFeatures_def
  by (rule key_comparator.sorted_idem [of "\<lambda>x. x", OF key_comparator.sorted_sort_by])

lemma canonical_route_idem [simp]: "canonical_route (canonical_route r) = canonical_route r"
  by (simp add: canonical_route_def Let_def selectRoutingKeyVersion_def)

lemma CR_Equal_refl [simp]: "CR_Equal r r"
  by (simp add: CR_Equal_def)

lemma Matches_Filter: "Route_Matches r (Route_Filter r)"
  by (simp add: Route_Matches_def Route_Filter_def pinned_def)

text \<open>Values that do not collide with the delimiters of a key or with the word for a missing value.\<close>

definition plain :: "string \<Rightarrow> bool" where "plain s \<longleftrightarrow> CHR ''|'' \<notin> set s"

definition key_safe :: "decimal_lib \<Rightarrow> Route \<Rightarrow> bool" where
  "key_safe L r \<longleftrightarrow>
     plain (cr_Code (ro_Currency r)) \<and> plain (from_ptr (cr_CustomCurrencyID (ro_Currency r))) \<and>
     (case ro_CostBasisCurrency r of None \<Rightarrow> True | Some c \<Rightarrow> plain c \<and> c \<noteq> ''null'') \<and>
     (case ro_TaxCode r of None \<Rightarrow> True | Some t \<Rightarrow> plain t \<and> t \<notin> {[], ''null''}) \<and>
     (\<forall>f \<in> set (ro_Features r). plain f \<and> CHR '','' \<notin> set f \<and> f \<noteq> ''null'') \<and>
     (case ro_CostBasis r of None \<Rightarrow> True | Some d \<Rightarrow> plain (dl_String L d) \<and> dl_String L d \<noteq> ''null'')"

text \<open>Two routes that agree in everything a sub-account is identified by.\<close>

definition same_route :: "Route \<Rightarrow> Route \<Rightarrow> bool" where
  "same_route r v \<longleftrightarrow> CR_Equal (ro_Currency r) (ro_Currency v) \<and> ro_CostBasisCurrency r = ro_CostBasisCurrency v \<and>
     ro_TaxCode r = ro_TaxCode v \<and> ro_TaxBehavior r = ro_TaxBehavior v \<and> ro_Features r = ro_Features v \<and>
     ro_CostBasis r = ro_CostBasis v \<and> ro_CreditPriority r = ro_CreditPriority v \<and>
     ro_AuthorizationStatus r = ro_AuthorizationStatus v"

lemma plain_show_int: "plain (show_int i)"
  by (simp add: plain_def show_int_def show_nat_delimiter)

lemma show_int_inj: "show_int i = show_int j \<longleftrightarrow> i = j"
proof -
  have "CHR ''-'' \<notin> set (show_nat n)" for n
    using show_nat_digits [of n] by (auto simp: list_all_iff is_decimal_digit_def)
  then have d: "CHR ''-'' # s \<noteq> show_nat n" for s n by (metis list.set_intros(1))
  show ?thesis using d d [THEN not_sym] by (auto simp: show_int_def eq_nat_nat_iff)
qed

lemma show_int_null: "show_int i \<noteq> ''null''"
proof -
  have "CHR ''n'' \<notin> set (show_nat n)" for n
    using show_nat_digits [of n] by (auto simp: list_all_iff is_decimal_digit_def)
  then have "CHR ''n'' \<notin> set (show_int i)" by (simp add: show_int_def)
  then show ?thesis by (metis list.set_intros(1))
qed

lemma optionalIntValue_inj: "optionalIntValue a = optionalIntValue b \<longleftrightarrow> a = b"
  using show_int_null show_int_null [THEN not_sym]
  by (auto simp: optionalIntValue_def show_int_inj split: option.splits)

lemma canonicalFeatures_inj:
  assumes "\<forall>f \<in> set a. CHR '','' \<notin> set f \<and> f \<noteq> ''null''" and "\<forall>f \<in> set b. CHR '','' \<notin> set f \<and> f \<noteq> ''null''"
    and "canonicalFeatures a = canonicalFeatures b"
  shows "SortedFeatures a = SortedFeatures b"
proof -
  have split: "split_at CHR '','' (canonicalFeatures x) = (if x = [] then [''null''] else SortedFeatures x)"
    if "\<forall>f \<in> set x. CHR '','' \<notin> set f \<and> f \<noteq> ''null''" for x
    using that split_join [of "SortedFeatures x" "CHR '',''"] by (simp add: canonicalFeatures_def SortedFeatures_def)
  have s: "set (SortedFeatures x) = set x" for x by (simp add: SortedFeatures_def)
  have "(if a = [] then [''null''] else SortedFeatures a) = (if b = [] then [''null''] else SortedFeatures b)"
    using split [OF assms(1)] split [OF assms(2)] assms(3) by simp
  then show ?thesis using s [of a] s [of b] assms(1,2) by (auto split: if_splits) (metis list.set_intros(1))+
qed

lemma plain_features: "\<forall>f \<in> set fs. plain f \<Longrightarrow> plain (canonicalFeatures fs)"
proof -
  have "\<forall>f \<in> set xs. plain f \<Longrightarrow> plain (join_with CHR '','' xs)" for xs
    by (induction "CHR '',''" xs rule: join_with.induct) (auto simp: plain_def)
  then show "\<forall>f \<in> set fs. plain f \<Longrightarrow> plain (canonicalFeatures fs)"
    by (simp add: canonicalFeatures_def SortedFeatures_def) (simp add: plain_def)
qed

lemma join_nested: "xs \<noteq> [] \<Longrightarrow> join_with d ((p @ join_with d xs) # ys) = join_with d ((p @ hd xs) # tl xs @ ys)"
proof (induction d xs rule: join_with.induct)
  case (2 d s)
  then show ?case by simp
next
  case (3 d s t ts)
  have "join_with d ((p @ s @ d # join_with d (t # ts)) # ys) = p @ s @ d # join_with d ((join_with d (t # ts)) # ys)"
    by (cases ys) simp_all
  moreover have "join_with d (join_with d (t # ts) # ys) = join_with d ((t # ts) @ ys)" for ys
    by (induction d "t # ts" arbitrary: t ts rule: join_with.induct) (cases ys; simp)+
  ultimately show ?case by simp
qed simp

lemma join_inj:
  "join_with d xs = join_with d ys \<Longrightarrow> xs \<noteq> [] \<Longrightarrow> ys \<noteq> [] \<Longrightarrow> \<forall>s \<in> set xs. d \<notin> set s \<Longrightarrow> \<forall>s \<in> set ys. d \<notin> set s \<Longrightarrow> xs = ys"
  by (metis split_join)

text \<open>The segments of the key of a normal route, with those of a custom currency.\<close>

definition currency_segments :: "CurrencyReference \<Rightarrow> string list" where
  "currency_segments c =
     (if CR_IsCustom c then [''currency:custom'', ''v1'', cr_Code c, from_ptr (cr_CustomCurrencyID c),
        show_nat (unat (value_or 0 (cr_precision c)))]
      else [''currency:'' @ cr_Code c])"

definition key_segments :: "decimal_lib \<Rightarrow> Route \<Rightarrow> string list" where
  "key_segments L c = currency_segments (ro_Currency c) @
     (if ro_Version c \<in> {RoutingKeyVersionV3, RoutingKeyVersionV4} then [basis_currency_segment c] else []) @ [tax_code_segment c] @
     (if ro_Version c = RoutingKeyVersionV1 then [] else [behavior_segment c]) @ last_segments L c"

lemma MarshalText_custom:
  assumes "MarshalText known c = Inr s" and "CR_IsCustom c"
  shows "s = join_with CHR ''|'' [''custom'', ''v1'', cr_Code c, from_ptr (cr_CustomCurrencyID c),
      show_nat (unat (value_or 0 (cr_precision c)))] \<and> cr_precision c \<noteq> None"
proof -
  have f: "\<not> CR_IsFiat c" using assms(2) by (simp add: CR_IsFiat_def CR_IsCustom_def Code_IsFiat_def Code_IsCustom_def)
  show ?thesis using assms(1) f
    by (auto simp: MarshalText_def check_then_def cr_precision_def value_or_def split: option.splits if_splits)
qed

lemma NewRoutingKey_ok: "NewRoutingKey v s = Inr k \<Longrightarrow> rk_version k = v \<and> rk_value k = s"
  by (auto simp: NewRoutingKey_def check_then_def split: option.splits if_splits)

lemma BuildRoutingKey_segments:
  assumes "BuildRoutingKey known L r = Inr k"
  defines "c \<equiv> canonical_route r"
  shows "rk_version k = ro_Version c" and "rk_value k = join_with CHR ''|'' (key_segments L c)"
    and "Route_Validate known r = None" and "CR_IsCustom (ro_Currency r) \<Longrightarrow> cr_precision (ro_Currency r) \<noteq> None"
proof -
  have v: "Route_Validate known r = None"
    and b: "(case ro_Version c of RoutingKeyVersionV1 \<Rightarrow> buildRoutingKeyV1Normalized L c | RoutingKeyVersionV2 \<Rightarrow> buildRoutingKeyV2Normalized L c
      | RoutingKeyVersionV3 \<Rightarrow> buildRoutingKeyV3Normalized L c | RoutingKeyVersionV4 \<Rightarrow> buildRoutingKeyV4Normalized known L c
      | OtherRoutingKeyVersion _ \<Rightarrow> Inl ErrRoutingKeyVersionUnsupported) = Inr k"
    using assms(1) by (auto simp: BuildRoutingKey_def Route_Normalize_def bind_result_def check_then_def c_def [symmetric] split: option.splits)
  then show "Route_Validate known r = None" by simp
  have cur: "ro_Currency c = ro_Currency r" by (simp add: c_def canonical_route_def Let_def)
  have ver: "ro_Version c = selectRoutingKeyVersion c" by (simp add: c_def canonical_route_def Let_def selectRoutingKeyVersion_def)
  have "rk_version k = ro_Version c \<and> rk_value k = join_with CHR ''|'' (key_segments L c) \<and>
      (CR_IsCustom (ro_Currency r) \<longrightarrow> cr_precision (ro_Currency r) \<noteq> None)"
  proof (cases "CR_IsCustom (ro_Currency c)")
    case True
    then have 4: "ro_Version c = RoutingKeyVersionV4" by (simp add: ver selectRoutingKeyVersion_def)
    then obtain t where t: "MarshalText known (ro_Currency c) = Inr t"
      using b by (auto simp: buildRoutingKeyV4Normalized_def bind_result_def wrap_result_def split: sum.splits)
    note m = MarshalText_custom [OF t True]
    show ?thesis
      using b 4 t True m join_nested [of "[''custom'', ''v1'', cr_Code (ro_Currency c), from_ptr (cr_CustomCurrencyID (ro_Currency c)),
          show_nat (unat (value_or 0 (cr_precision (ro_Currency c))))]" "CHR ''|''" "''currency:''"]
      by (auto simp: buildRoutingKeyV4Normalized_def bind_result_def wrap_result_def key_segments_def currency_segments_def cur
          dest!: NewRoutingKey_ok)
  next
    case False
    then show ?thesis using b
      by (auto simp: ver selectRoutingKeyVersion_def buildRoutingKeyV1Normalized_def buildRoutingKeyV2Normalized_def
          buildRoutingKeyV3Normalized_def key_segments_def currency_segments_def cur dest!: NewRoutingKey_ok split: if_splits)
  qed
  then show "rk_version k = ro_Version c" "rk_value k = join_with CHR ''|'' (key_segments L c)"
    "CR_IsCustom (ro_Currency r) \<Longrightarrow> cr_precision (ro_Currency r) \<noteq> None" by simp_all
qed

lemma none_chain: "(case v of Some e \<Rightarrow> Some e | None \<Rightarrow> w) = None \<longleftrightarrow> v = None \<and> w = None"
  "(case v of Some e \<Rightarrow> Some x | None \<Rightarrow> w) = None \<longleftrightarrow> v = None \<and> w = None"
  by (cases v; simp)+

lemma Route_Validate_statuses:
  assumes "Route_Validate known r = None"
  shows "ro_AuthorizationStatus r = Some s \<Longrightarrow> authorization_string s \<noteq> ''null'' \<and> plain (authorization_string s)"
    "ro_TaxBehavior r = Some b \<Longrightarrow> behavior_string b \<noteq> ''null'' \<and> plain (behavior_string b)"
    "ro_AuthorizationStatus r = Some s \<Longrightarrow> s \<in> {TransactionAuthorizationStatusOpen, TransactionAuthorizationStatusAuthorized}"
    "ro_TaxBehavior r = Some b \<Longrightarrow> b \<in> {TaxBehaviorInclusive, TaxBehaviorExclusive}"
proof -
  have "validateDimensionsOnly known r = None"
    using assms by (cases "validateDimensionsOnly known r") (simp_all add: Route_Validate_def)
  then have v: "Option.bind (ro_AuthorizationStatus r) AuthorizationStatus_Validate = None"
    "Option.bind (ro_TaxBehavior r) LedgerTaxBehavior_Validate = None"
    by (simp_all only: validateDimensionsOnly_def none_chain)
  show a: "ro_AuthorizationStatus r = Some s \<Longrightarrow> s \<in> {TransactionAuthorizationStatusOpen, TransactionAuthorizationStatusAuthorized}"
    using v(1) by (cases s) (simp_all add: AuthorizationStatus_Validate_def)
  show b: "ro_TaxBehavior r = Some b \<Longrightarrow> b \<in> {TaxBehaviorInclusive, TaxBehaviorExclusive}"
    using v(2) by (cases b) (simp_all add: LedgerTaxBehavior_Validate_def)
  show "ro_AuthorizationStatus r = Some s \<Longrightarrow> authorization_string s \<noteq> ''null'' \<and> plain (authorization_string s)"
    using a by (auto simp: plain_def)
  show "ro_TaxBehavior r = Some b \<Longrightarrow> behavior_string b \<noteq> ''null'' \<and> plain (behavior_string b)"
    using b by (auto simp: plain_def)
qed

lemma canonical_route_fields [simp]:
  "ro_Currency (canonical_route r) = ro_Currency r" "ro_TaxCode (canonical_route r) = ro_TaxCode r"
  "ro_TaxBehavior (canonical_route r) = ro_TaxBehavior r" "ro_Features (canonical_route r) = SortedFeatures (ro_Features r)"
  "ro_CostBasis (canonical_route r) = ro_CostBasis r" "ro_CreditPriority (canonical_route r) = ro_CreditPriority r"
  "ro_AuthorizationStatus (canonical_route r) = ro_AuthorizationStatus r"
  "ro_CostBasisCurrency (canonical_route r) = (if ro_CostBasisCurrency r = Some [] then None else ro_CostBasisCurrency r)"
  "ro_Version (canonical_route r) = selectRoutingKeyVersion (canonical_route r)"
  by (simp_all add: canonical_route_def Let_def selectRoutingKeyVersion_def)

lemma plain_null: "plain ''null''"
  by (simp add: plain_def)

lemma key_segments_plain:
  assumes "key_safe L r" and "Route_Validate known r = None"
  shows "\<forall>s \<in> set (key_segments L (canonical_route r)). CHR ''|'' \<notin> set s"
proof -
  have f: "plain (canonicalFeatures (SortedFeatures (ro_Features r)))"
    by (rule plain_features) (use assms(1) in \<open>auto simp: key_safe_def SortedFeatures_def\<close>)
  have p: "plain (optionalIntValue (ro_CreditPriority r))" "plain (optionalDecimalValue L (ro_CostBasis r))"
    "plain (optionalStringValue (ro_TaxCode r))" "plain (or_null (\<lambda>c. c) (ro_CostBasisCurrency r))"
    "plain (or_null authorization_string (ro_AuthorizationStatus r))" "plain (or_null behavior_string (ro_TaxBehavior r))"
    subgoal by (cases "ro_CreditPriority r") (simp_all add: optionalIntValue_def plain_show_int plain_null)
    subgoal using assms(1) by (cases "ro_CostBasis r") (simp_all add: key_safe_def optionalDecimalValue_def plain_null)
    subgoal using assms(1) by (cases "ro_TaxCode r") (simp_all add: key_safe_def optionalStringValue_def from_ptr_def plain_null)
    subgoal using assms(1) by (cases "ro_CostBasisCurrency r") (simp_all add: key_safe_def or_null_def plain_null)
    subgoal using Route_Validate_statuses(1) [OF assms(2)]
      by (cases "ro_AuthorizationStatus r") (simp_all add: or_null_def plain_null)
    subgoal using Route_Validate_statuses(2) [OF assms(2)]
      by (cases "ro_TaxBehavior r") (simp_all add: or_null_def plain_null)
    done
  have c: "\<forall>s \<in> set (currency_segments (ro_Currency r)). CHR ''|'' \<notin> set s"
    using assms(1) show_nat_delimiter by (auto simp: currency_segments_def key_safe_def plain_def)
  have n: "plain (or_null (\<lambda>c. c) (if ro_CostBasisCurrency r = Some [] then None else ro_CostBasisCurrency r))"
    using p(4) by (simp add: or_null_def plain_def)
  show ?thesis using f p c n
    by (auto simp: key_segments_def last_segments_def tax_code_segment_def behavior_segment_def basis_currency_segment_def plain_def)
qed

lemma or_null_inj:
  assumes "\<And>x. a = Some x \<Longrightarrow> f x \<noteq> ''null''" and "\<And>x. b = Some x \<Longrightarrow> f x \<noteq> ''null''"
    and "\<And>x y. a = Some x \<Longrightarrow> b = Some y \<Longrightarrow> f x = f y \<Longrightarrow> x = y"
  shows "or_null f a = or_null f b \<longleftrightarrow> a = b"
proof (cases a; cases b)
  fix y assume "a = None" and b: "b = Some y"
  then show ?thesis using assms(2) [OF b] by (simp add: or_null_def)
next
  fix x y assume a: "a = Some x" and b: "b = Some y"
  then show ?thesis using assms(3) [OF a b] by (auto simp: or_null_def)
qed (use assms in \<open>simp_all add: or_null_def\<close>)

text \<open>What equal keys say of the parts that all versions have.\<close>

lemma last_segments_inj:
  assumes "key_safe L r" and "key_safe L v" and "Route_Validate known r = None" and "Route_Validate known v = None"
    and "\<And>a b. ro_CostBasis r = Some a \<Longrightarrow> ro_CostBasis v = Some b \<Longrightarrow> dl_String L a = dl_String L b \<Longrightarrow> a = b"
  shows "tax_code_segment (canonical_route r) # last_segments L (canonical_route r) =
      tax_code_segment (canonical_route v) # last_segments L (canonical_route v) \<longleftrightarrow>
    ro_TaxCode r = ro_TaxCode v \<and> SortedFeatures (ro_Features r) = SortedFeatures (ro_Features v) \<and>
    ro_CostBasis r = ro_CostBasis v \<and> ro_CreditPriority r = ro_CreditPriority v \<and> ro_AuthorizationStatus r = ro_AuthorizationStatus v"
proof -
  have t: "optionalStringValue (ro_TaxCode r) = optionalStringValue (ro_TaxCode v) \<longleftrightarrow> ro_TaxCode r = ro_TaxCode v"
    using assms(1,2) by (cases "ro_TaxCode r"; cases "ro_TaxCode v") (auto simp: key_safe_def optionalStringValue_def from_ptr_def)
  have s: "set (SortedFeatures x) = set x" for x by (simp add: SortedFeatures_def)
  have f: "canonicalFeatures (SortedFeatures (ro_Features r)) = canonicalFeatures (SortedFeatures (ro_Features v)) \<longleftrightarrow>
      SortedFeatures (ro_Features r) = SortedFeatures (ro_Features v)"
    using canonicalFeatures_inj [of "SortedFeatures (ro_Features r)" "SortedFeatures (ro_Features v)"] assms(1,2)
    by (auto simp: key_safe_def s)
  have b: "optionalDecimalValue L (ro_CostBasis r) = optionalDecimalValue L (ro_CostBasis v) \<longleftrightarrow> ro_CostBasis r = ro_CostBasis v"
    using assms(1,2,5) by (cases "ro_CostBasis r"; cases "ro_CostBasis v") (auto simp: key_safe_def optionalDecimalValue_def)
  have a: "or_null authorization_string (ro_AuthorizationStatus r) = or_null authorization_string (ro_AuthorizationStatus v) \<longleftrightarrow>
      ro_AuthorizationStatus r = ro_AuthorizationStatus v"
    using Route_Validate_statuses(1) [OF assms(3)] Route_Validate_statuses(1) [OF assms(4)]
      Route_Validate_statuses(3) [OF assms(3)] Route_Validate_statuses(3) [OF assms(4)]
    by (intro or_null_inj) fastforce+
  show ?thesis by (simp add: tax_code_segment_def last_segments_def t f b a optionalIntValue_inj)
qed

lemma behavior_segment_inj:
  assumes "Route_Validate known r = None" and "Route_Validate known v = None"
  shows "behavior_segment (canonical_route r) = behavior_segment (canonical_route v) \<longleftrightarrow> ro_TaxBehavior r = ro_TaxBehavior v"
proof -
  have "or_null behavior_string (ro_TaxBehavior r) = or_null behavior_string (ro_TaxBehavior v) \<longleftrightarrow> ro_TaxBehavior r = ro_TaxBehavior v"
    using Route_Validate_statuses(2) [OF assms(1)] Route_Validate_statuses(2) [OF assms(2)]
      Route_Validate_statuses(4) [OF assms(1)] Route_Validate_statuses(4) [OF assms(2)]
    by (intro or_null_inj) fastforce+
  then show ?thesis by (simp add: behavior_segment_def)
qed

lemma basis_currency_segment_inj:
  assumes "key_safe L r" and "key_safe L v"
  shows "basis_currency_segment (canonical_route r) = basis_currency_segment (canonical_route v) \<longleftrightarrow>
    ro_CostBasisCurrency (canonical_route r) = ro_CostBasisCurrency (canonical_route v)"
  using assms by (cases "ro_CostBasisCurrency r"; cases "ro_CostBasisCurrency v")
    (auto simp: basis_currency_segment_def key_safe_def or_null_def)

lemma CR_cases: "CR_IsFiat c \<longleftrightarrow> \<not> CR_IsCustom c"
  by (simp add: CR_IsFiat_def CR_IsCustom_def Code_IsFiat_def Code_IsCustom_def Code_Type_def)

lemma Route_Validate_fiat_id:
  assumes "Route_Validate known r = None" and "\<not> CR_IsCustom (ro_Currency r)"
  shows "from_ptr (cr_CustomCurrencyID (ro_Currency r)) = []"
proof -
  have "validateDimensionsOnly known r = None"
    using assms(1) by (cases "validateDimensionsOnly known r") (simp_all add: Route_Validate_def)
  then have "CR_Validate known (ro_Currency r) = None" by (simp only: validateDimensionsOnly_def none_chain)
  then show ?thesis using assms(2) by (simp add: CR_Validate_def CR_cases from_ptr_def)
qed

lemma currency_segments_inj:
  assumes "Route_Validate known r = None" and "Route_Validate known v = None"
    and "CR_IsCustom (ro_Currency r) \<Longrightarrow> cr_precision (ro_Currency r) \<noteq> None"
    and "CR_IsCustom (ro_Currency v) \<Longrightarrow> cr_precision (ro_Currency v) \<noteq> None"
    and "CR_IsCustom (ro_Currency r) \<longleftrightarrow> CR_IsCustom (ro_Currency v)"
  shows "currency_segments (ro_Currency r) = currency_segments (ro_Currency v) \<longleftrightarrow> CR_Equal (ro_Currency r) (ro_Currency v) \<and>
    (CR_IsCustom (ro_Currency r) \<longrightarrow> cr_precision (ro_Currency r) = cr_precision (ro_Currency v))"
proof (cases "CR_IsCustom (ro_Currency r)")
  case True
  obtain p q where "cr_precision (ro_Currency r) = Some p" "cr_precision (ro_Currency v) = Some q"
    using True assms(3-5) by blast
  then show ?thesis using True assms(5) by (simp add: currency_segments_def CR_Equal_def show_nat_inj value_or_def word_unat_eq_iff)
next
  case False
  then show ?thesis using assms(5) Route_Validate_fiat_id [OF assms(1)] Route_Validate_fiat_id [OF assms(2)]
    by (simp add: currency_segments_def CR_Equal_def)
qed

lemma version_custom: "ro_Version (canonical_route r) = RoutingKeyVersionV4 \<longleftrightarrow> CR_IsCustom (ro_Currency r)"
  "ro_Version (canonical_route r) = RoutingKeyVersionV1 \<Longrightarrow> ro_TaxBehavior r = None"
  "ro_Version (canonical_route r) \<notin> {RoutingKeyVersionV3, RoutingKeyVersionV4} \<Longrightarrow> ro_CostBasisCurrency (canonical_route r) = None"
  by (simp_all add: selectRoutingKeyVersion_def split: if_splits)

lemma same_route_version: "same_route (canonical_route r) (canonical_route v) \<Longrightarrow>
    ro_Version (canonical_route r) = ro_Version (canonical_route v)"
  by (simp add: same_route_def selectRoutingKeyVersion_def CR_IsCustom_def CR_Equal_def)

lemma key_segments_inj:
  assumes "key_safe L r" and "key_safe L v" and "Route_Validate known r = None" and "Route_Validate known v = None"
    and "CR_IsCustom (ro_Currency r) \<Longrightarrow> cr_precision (ro_Currency r) \<noteq> None"
    and "CR_IsCustom (ro_Currency v) \<Longrightarrow> cr_precision (ro_Currency v) \<noteq> None"
    and "\<And>a b. ro_CostBasis r = Some a \<Longrightarrow> ro_CostBasis v = Some b \<Longrightarrow> dl_String L a = dl_String L b \<Longrightarrow> a = b"
    and version: "ro_Version (canonical_route r) = ro_Version (canonical_route v)"
  shows "key_segments L (canonical_route r) = key_segments L (canonical_route v) \<longleftrightarrow>
    same_route (canonical_route r) (canonical_route v) \<and>
    (CR_IsCustom (ro_Currency r) \<longrightarrow> cr_precision (ro_Currency r) = cr_precision (ro_Currency v))"
proof -
  let ?c = "canonical_route r" and ?d = "canonical_route v"
  have custom: "CR_IsCustom (ro_Currency r) \<longleftrightarrow> CR_IsCustom (ro_Currency v)" using version version_custom(1) by metis
  have len: "length (currency_segments (ro_Currency ?c)) = length (currency_segments (ro_Currency ?d))"
    using custom by (simp add: currency_segments_def)
  let ?last = "\<lambda>x. tax_code_segment x # last_segments L x"
  have parts: "key_segments L ?c = key_segments L ?d \<longleftrightarrow> currency_segments (ro_Currency ?c) = currency_segments (ro_Currency ?d) \<and>
      basis_currency_segment ?c = basis_currency_segment ?d \<and> behavior_segment ?c = behavior_segment ?d \<and> ?last ?c = ?last ?d"
  proof -
    have b: "ro_Version ?c \<notin> {RoutingKeyVersionV3, RoutingKeyVersionV4} \<Longrightarrow> basis_currency_segment ?c = basis_currency_segment ?d"
      using version_custom(3) [of r] version_custom(3) [of v] version by (metis basis_currency_segment_def)
    have t: "ro_Version ?c = RoutingKeyVersionV1 \<Longrightarrow> behavior_segment ?c = behavior_segment ?d"
      using version_custom(2) [of r] version_custom(2) [of v] version by (simp add: behavior_segment_def del: canonical_route_fields(9))
    show ?thesis using len b t
      by (auto simp: key_segments_def version simp del: canonical_route_fields)
  qed
  have last: "?last ?c = ?last ?d \<longleftrightarrow> ro_TaxCode r = ro_TaxCode v \<and> SortedFeatures (ro_Features r) = SortedFeatures (ro_Features v) \<and>
      ro_CostBasis r = ro_CostBasis v \<and> ro_CreditPriority r = ro_CreditPriority v \<and> ro_AuthorizationStatus r = ro_AuthorizationStatus v"
    by (rule last_segments_inj [OF assms(1-4,7)])
  have seg: "currency_segments (ro_Currency r) = currency_segments (ro_Currency v) \<longleftrightarrow> CR_Equal (ro_Currency r) (ro_Currency v) \<and>
    (CR_IsCustom (ro_Currency r) \<longrightarrow> cr_precision (ro_Currency r) = cr_precision (ro_Currency v))"
    by (rule currency_segments_inj) (use assms(3-6) custom in simp_all)
  have cur: "ro_Currency ?c = ro_Currency r" "ro_Currency ?d = ro_Currency v" by simp_all
  show ?thesis
    unfolding parts last cur basis_currency_segment_inj [OF assms(1,2)] behavior_segment_inj [OF assms(3,4)] seg
    by (simp only: same_route_def canonical_route_fields(1-7)) blast
qed

text \<open>
  C30. Two routes whose values do not contain the delimiters of a key get the same routing key exactly if they agree in
  every dimension a sub-account is identified by, the currency by code and ID and a custom one by its precision as well.
\<close>

theorem BuildRoutingKey_identifies:
  assumes "BuildRoutingKey known L r = Inr k" and "BuildRoutingKey known L v = Inr l" and "key_safe L r" and "key_safe L v"
    and "\<And>a b. ro_CostBasis r = Some a \<Longrightarrow> ro_CostBasis v = Some b \<Longrightarrow> dl_String L a = dl_String L b \<Longrightarrow> a = b"
  shows "k = l \<longleftrightarrow> same_route (canonical_route r) (canonical_route v) \<and>
    (CR_IsCustom (ro_Currency r) \<longrightarrow> cr_precision (ro_Currency r) = cr_precision (ro_Currency v))"
proof -
  note r = BuildRoutingKey_segments [OF assms(1)] and v = BuildRoutingKey_segments [OF assms(2)]
  have "k = l \<longleftrightarrow> rk_version k = rk_version l \<and> rk_value k = rk_value l" by (cases k; cases l) simp
  also have "\<dots> \<longleftrightarrow> ro_Version (canonical_route r) = ro_Version (canonical_route v) \<and>
      key_segments L (canonical_route r) = key_segments L (canonical_route v)"
  proof -
    have "key_segments L (canonical_route r) \<noteq> []" "key_segments L (canonical_route v) \<noteq> []"
      by (simp_all add: key_segments_def)
    then show ?thesis unfolding r(1,2) v(1,2)
      using join_inj [OF _ _ _ key_segments_plain [OF assms(3) r(3)] key_segments_plain [OF assms(4) v(3)]] by metis
  qed
  finally have k: "k = l \<longleftrightarrow> ro_Version (canonical_route r) = ro_Version (canonical_route v) \<and>
      key_segments L (canonical_route r) = key_segments L (canonical_route v)" .
  show ?thesis
    using k key_segments_inj [OF assms(3,4) r(3) v(3) r(4) v(4) assms(5)] same_route_version [of r v] by blast
qed

text \<open>A registry that knows the dollar, and a dollar route.\<close>

definition sample_currencies :: known_currencies where
  "sample_currencies c = (if c = ''USD'' then Some \<lparr>cd_ISOCode = ''USD'', cd_ISONumeric = ''840'', cd_Name = ''US Dollar'',
     cd_Symbol = ''$'', cd_Subunits = 2, cd_DecimalMark = ''.'', cd_ThousandsSeparator = '',''\<rparr> else None)"

definition sample_route :: "string list \<Rightarrow> int \<Rightarrow> Route" where
  "sample_route features priority = \<lparr>ro_Version = RoutingKeyVersionV1, ro_Currency = NewCurrencyReference ''USD'',
     ro_CostBasisCurrency = None, ro_TaxCode = Some ''txcd'', ro_TaxBehavior = None, ro_Features = features,
     ro_CostBasis = None, ro_CreditPriority = Some priority,
     ro_AuthorizationStatus = Some TransactionAuthorizationStatusOpen\<rparr>"

lemma sample_route_valid:
  "Route_Validate sample_currencies (sample_route [''b'', ''a''] 5) = None"
  "Route_Validate sample_currencies (sample_route [''a'', ''b''] 5) = None"
  by (simp_all add: Route_Validate_def validateDimensionsOnly_def sample_route_def NewCurrencyReference_def CR_Validate_def
      Code_Validate_def validateFiatCurrencyCode_def sample_currencies_def CR_IsFiat_def CR_IsCustom_def Code_IsFiat_def Code_IsCustom_def
      Code_Type_def ValidateCostBasisCurrency_def ValidateCreditPriority_def AuthorizationStatus_Validate_def validateFeatures_def)

lemma sample_route_sorted:
  "canonical_route (sample_route [''b'', ''a''] 5) = canonical_route (sample_route [''a'', ''b''] 5)"
  by (simp add: canonical_route_def Let_def sample_route_def SortedFeatures_def compare_values_def selectRoutingKeyVersion_def)

theorem BuildRoutingKey_identifies_witness:
  "\<exists>k l. BuildRoutingKey sample_currencies std_decimal_lib (sample_route [''b'', ''a''] 5) = Inr k \<and>
     BuildRoutingKey sample_currencies std_decimal_lib (sample_route [''a'', ''b''] 5) = Inr l \<and> k = l"
proof -
  let ?r = "sample_route [''b'', ''a''] 5" and ?v = "sample_route [''a'', ''b''] 5"
  have version: "ro_Version (canonical_route ?v) = RoutingKeyVersionV1"
    by (simp add: selectRoutingKeyVersion_def) (simp add: sample_route_def NewCurrencyReference_def CR_IsCustom_def Code_IsCustom_def Code_Type_def)
  obtain k where k: "buildRoutingKeyV1Normalized std_decimal_lib (canonical_route ?v) = Inr k"
    by (simp add: buildRoutingKeyV1Normalized_def NewRoutingKey_def RoutingKeyVersion_Validate_def check_then_def)
  have b: "BuildRoutingKey sample_currencies std_decimal_lib ?r = Inr k" "BuildRoutingKey sample_currencies std_decimal_lib ?v = Inr k"
    using k version by (simp_all only: BuildRoutingKey_def Route_Normalize_def sample_route_valid sample_route_sorted)
      (simp_all add: bind_result_def check_then_def)
  have "key_safe std_decimal_lib ?r" "key_safe std_decimal_lib ?v"
    by (simp_all add: key_safe_def sample_route_def plain_def NewCurrencyReference_def from_ptr_def)
  then show ?thesis
    using BuildRoutingKey_identifies [OF b(1) b(2)] b by (metis CR_Equal_refl same_route_def sample_route_sorted option.discI
        sample_route_def)
qed

end
