(* ===== verification/EntryIdentity.thy ===== *)
theory EntryIdentity
  imports LedgerRoute "HOL-Library.Sublist"
begin

text \<open>
  The identity keys of ledger entries (openmeter/ledger/entry_identity.go): which charge funds an entry, which one
  spends it, and what it was collected or corrected from, encoded in one string. \<open>url.QueryEscape\<close> and its inverse
  are written out on bytes.
\<close>

section \<open>Escaping\<close>

definition hex_digit :: "nat \<Rightarrow> char" where
  "hex_digit n = (if n < 10 then char_of (48 + n) else char_of (55 + n))"

text \<open>\<open>shouldEscape\<close> in the mode of query components: letters, digits and \<open>- _ . ~\<close> are kept.\<close>

definition unreserved :: "char \<Rightarrow> bool" where
  "unreserved c \<longleftrightarrow> (let n = of_char c :: nat in
     (97 \<le> n \<and> n \<le> 122) \<or> (65 \<le> n \<and> n \<le> 90) \<or> (48 \<le> n \<and> n \<le> 57) \<or> c \<in> {CHR ''-'', CHR ''_'', CHR ''.'', CHR ''~''})"

fun QueryEscape :: "string \<Rightarrow> string" where
  "QueryEscape [] = []"
| "QueryEscape (c # s) =
     (if c = CHR '' '' then CHR ''+'' # QueryEscape s
      else if unreserved c then c # QueryEscape s
      else CHR ''%'' # hex_digit (of_char c div 16) # hex_digit (of_char c mod 16) # QueryEscape s)"

definition unhex :: "char \<Rightarrow> nat option" where
  "unhex c = (let n = of_char c :: nat in
     if 48 \<le> n \<and> n \<le> 57 then Some (n - 48)
     else if 97 \<le> n \<and> n \<le> 102 then Some (n - 87)
     else if 65 \<le> n \<and> n \<le> 70 then Some (n - 55)
     else None)"

fun QueryUnescape :: "string \<Rightarrow> string option" where
  "QueryUnescape [] = Some []"
| "QueryUnescape (c # s) =
     (if c = CHR ''%'' then
        (case s of
           a # b # t \<Rightarrow> (case (unhex a, unhex b) of
              (Some m, Some n) \<Rightarrow> map_option (Cons (char_of (16 * m + n))) (QueryUnescape t)
            | _ \<Rightarrow> None)
         | _ \<Rightarrow> None)
      else if c = CHR ''+'' then map_option (Cons CHR '' '') (QueryUnescape s)
      else map_option (Cons c) (QueryUnescape s))"

lemma unhex_hex_digit: "n < 16 \<Longrightarrow> unhex (hex_digit n) = Some n"
  by (simp add: unhex_def hex_digit_def of_char_of Let_def)

lemma QueryUnescape_Escape: "QueryUnescape (QueryEscape s) = Some s"
proof (induction s)
  case (Cons c s)
  have n: "(of_char c :: nat) < 256" by simp
  then have "(of_char c div 16 :: nat) < 16" "(of_char c mod 16 :: nat) < 16" by (simp_all add: less_mult_imp_div_less)
  then have h: "unhex (hex_digit (of_char c div 16)) = Some (of_char c div 16)" "unhex (hex_digit (of_char c mod 16)) = Some (of_char c mod 16)"
    by (simp_all add: unhex_hex_digit)
  have u: "unreserved c \<Longrightarrow> c \<noteq> CHR ''%'' \<and> c \<noteq> CHR ''+''" by (auto simp: unreserved_def Let_def)
  have d: "char_of (16 * (of_char c div 16 :: nat) + of_char c mod 16) = c" by simp
  show ?case using Cons u h d by auto
qed simp

lemma QueryEscape_delimiter: "CHR ''|'' \<notin> set (QueryEscape s)"
proof (induction s)
  case (Cons c s)
  have "hex_digit n \<noteq> CHR ''|''" if "n < 16" for n
  proof
    assume "hex_digit n = CHR ''|''"
    then show False using unhex_hex_digit [OF that] by (simp add: unhex_def)
  qed
  moreover have "(of_char c div 16 :: nat) < 16" "(of_char c mod 16 :: nat) < 16" by (simp_all add: less_mult_imp_div_less)
  ultimately have "hex_digit (of_char c div 16) \<noteq> CHR ''|''" "hex_digit (of_char c mod 16) \<noteq> CHR ''|''" by simp_all
  moreover have "unreserved c \<Longrightarrow> c \<noteq> CHR ''|''" by (auto simp: unreserved_def Let_def)
  ultimately show ?case using Cons by (auto dest: not_sym)
qed simp

lemma QueryEscape_empty [simp]: "QueryEscape s = [] \<longleftrightarrow> s = []"
  by (cases s) simp_all

section \<open>Entries (primitives.go, account/address.go)\<close>

text \<open>The values of an annotation: a JSON number that was stored is read back as a float.\<close>

datatype annotation = AnnString string | AnnInt int | AnnFloat rat | AnnBool bool | AnnOther

type_synonym Annotations = "string \<rightharpoonup> annotation"

text \<open>Converting the float \<open>2 ^ 63\<close>, which the check lets through, wraps as it does on amd64.\<close>

definition GetInt :: "Annotations \<Rightarrow> string \<Rightarrow> int option" where
  "GetInt a key =
     (case a key of
        Some (AnnInt i) \<Rightarrow> Some i
      | Some (AnnFloat f) \<Rightarrow> if f \<noteq> of_int \<lfloor>f\<rfloor> \<or> 2 ^ 63 < f \<or> f < - (2 ^ 63) then None else Some (wrap64 \<lfloor>f\<rfloor>)
      | _ \<Rightarrow> None)"

record PostingAddress =
  pa_SubAccountID :: string
  pa_AccountType :: AccountType
  pa_Route :: SubAccountRoute

definition PA_Equal :: "PostingAddress \<Rightarrow> PostingAddress \<Rightarrow> bool" where
  "PA_Equal a v \<longleftrightarrow>
     (if pa_SubAccountID a \<noteq> pa_SubAccountID v then False
      else if pa_AccountType a \<noteq> pa_AccountType v then False
      else if sr_id (pa_Route a) \<noteq> sr_id (pa_Route v) then False
      else if rk_version (sr_key (pa_Route a)) \<noteq> rk_version (sr_key (pa_Route v)) then False
      else if rk_value (sr_key (pa_Route a)) \<noteq> rk_value (sr_key (pa_Route v)) then False
      else True)"

definition EntrySchemaVersionLegacy :: int where "EntrySchemaVersionLegacy = 1"
definition EntrySchemaVersionCurrent :: int where "EntrySchemaVersionCurrent = 2"

text \<open>The methods of an entry as fields.\<close>

record EntryInput =
  ei_PostingAddress :: PostingAddress
  ei_Amount :: decimal
  ei_IdentityKey :: string
  ei_SchemaVersion :: int
  ei_SourceChargeID :: "string option"
  ei_SpendChargeID :: "string option"
  ei_Annotations :: Annotations

section \<open>Identity keys\<close>

definition EntryIdentityVersion1 :: int where "EntryIdentityVersion1 = 1"
definition EntryIdentityVersion2 :: int where "EntryIdentityVersion2 = 2"

definition version_prefix :: "int \<Rightarrow> string" where
  "version_prefix e = (if e = EntryIdentityVersion1 then [] else ''entry-identity:v'' @ show_int e @ '':'')"

definition key_Version :: "string \<Rightarrow> int" where
  "key_Version e = (if prefix (version_prefix EntryIdentityVersion2) e then EntryIdentityVersion2 else EntryIdentityVersion1)"

text \<open>\<open>strings.TrimPrefix\<close>.\<close>

definition TrimPrefix :: "string \<Rightarrow> string \<Rightarrow> string" where
  "TrimPrefix s p = (if prefix p s then drop (length p) s else s)"

record EntryIdentityParts =
  ip_CollectionSource :: "string option"
  ip_CorrectionSource :: "string option"
  ip_SourceChargeID :: "string option"
  ip_SpendChargeID :: "string option"

definition no_parts :: EntryIdentityParts where
  "no_parts = \<lparr>ip_CollectionSource = None, ip_CorrectionSource = None, ip_SourceChargeID = None, ip_SpendChargeID = None\<rparr>"

definition v1_Text :: "string option \<Rightarrow> string option \<Rightarrow> string" where
  "v1_Text collectionSource correctionSource =
     (case collectionSource of
        Some c \<Rightarrow> ''collection-source:'' @ c
      | None \<Rightarrow> (case correctionSource of Some c \<Rightarrow> ''correction-source:'' @ c | None \<Rightarrow> []))"

definition parseV1EntryIdentityKey :: "string \<Rightarrow> EntryIdentityParts" where
  "parseV1EntryIdentityKey k =
     (if prefix ''collection-source:'' k then no_parts\<lparr>ip_CollectionSource := Some (TrimPrefix k ''collection-source:'')\<rparr>
      else if prefix ''correction-source:'' k then no_parts\<lparr>ip_CorrectionSource := Some (TrimPrefix k ''correction-source:'')\<rparr>
      else no_parts)"

definition escapeEntryIdentityPart :: "string option \<Rightarrow> string" where
  "escapeEntryIdentityPart v = QueryEscape (from_ptr v)"

definition v2_Text :: "EntryIdentityParts \<Rightarrow> string" where
  "v2_Text e = version_prefix EntryIdentityVersion2 @ escapeEntryIdentityPart (ip_CollectionSource e) @ ''|'' @
     escapeEntryIdentityPart (ip_CorrectionSource e) @ ''|'' @ escapeEntryIdentityPart (ip_SourceChargeID e) @ ''|'' @
     escapeEntryIdentityPart (ip_SpendChargeID e)"

definition parseOptionalEntryIdentityPart :: "string \<Rightarrow> string \<Rightarrow> string option result" where
  "parseOptionalEntryIdentityPart name encoded =
     (case QueryUnescape encoded of
        None \<Rightarrow> Inl (Err (''invalid '' @ name))
      | Some v \<Rightarrow> Inr (if v = [] then None else Some v))"

definition parseV2EntryIdentityKey :: "string \<Rightarrow> EntryIdentityParts result" where
  "parseV2EntryIdentityKey k =
     (if \<not> prefix (version_prefix EntryIdentityVersion2) k then Inl (Err ''identity_key version prefix is missing'')
      else case split_at CHR ''|'' (TrimPrefix k (version_prefix EntryIdentityVersion2)) of
        [p0, p1, p2, p3] \<Rightarrow>
          bind_result (parseOptionalEntryIdentityPart ''collection_source'' p0) (\<lambda>collectionSource.
          bind_result (parseOptionalEntryIdentityPart ''correction_source'' p1) (\<lambda>correctionSource.
          bind_result (parseOptionalEntryIdentityPart ''source_charge_id'' p2) (\<lambda>sourceChargeID.
          bind_result (parseOptionalEntryIdentityPart ''spend_charge_id'' p3) (\<lambda>spendChargeID.
            Inr \<lparr>ip_CollectionSource = collectionSource, ip_CorrectionSource = correctionSource,
              ip_SourceChargeID = sourceChargeID, ip_SpendChargeID = spendChargeID\<rparr>))))
      | _ \<Rightarrow> Inl (Err ''invalid ledger entry identity key format''))"

definition Parse :: "string \<Rightarrow> (int \<times> EntryIdentityParts) result" where
  "Parse e =
     (let version = key_Version e
      in if version = EntryIdentityVersion1 then Inr (version, parseV1EntryIdentityKey e)
         else bind_result (parseV2EntryIdentityKey e) (\<lambda>parts. Inr (version, parts)))"

definition parts_Text :: "EntryIdentityParts \<Rightarrow> string \<times> int" where
  "parts_Text e =
     (if ip_SourceChargeID e = None \<and> ip_SpendChargeID e = None
      then (v1_Text (ip_CollectionSource e) (ip_CorrectionSource e), EntryIdentityVersion1)
      else (v2_Text e, EntryIdentityVersion2))"

definition ValidateEntryIdentityKey :: "EntryInput \<Rightarrow> error option" where
  "ValidateEntryIdentityKey entry =
     (case Parse (ei_IdentityKey entry) of
        Inl e \<Rightarrow> Some e
      | Inr (version, parts) \<Rightarrow>
          let provenance = (ei_SourceChargeID entry \<noteq> None \<or> ei_SpendChargeID entry \<noteq> None)
          in if ei_SchemaVersion entry \<notin> {EntrySchemaVersionLegacy, EntrySchemaVersionCurrent}
             then Some (Err ''unsupported schema_version'')
             else if ei_SchemaVersion entry = EntrySchemaVersionLegacy \<and> version \<noteq> EntryIdentityVersion1
             then Some (Err ''identity_key version requires schema_version 2'')
             else if ei_SchemaVersion entry = EntrySchemaVersionLegacy \<and> provenance
             then Some (Err ''schema_version 1 cannot contain charge provenance'')
             else if provenance \<and> version \<noteq> EntryIdentityVersion2
             then Some (Err ''identity_key version must be 2 when charge provenance is present'')
             else if version = EntryIdentityVersion2 \<and> ip_SourceChargeID parts = None \<and> ip_SpendChargeID parts = None
             then Some (Err ''identity_key version 2 requires charge provenance'')
             else if ip_SourceChargeID parts \<noteq> ei_SourceChargeID entry
             then Some (Err ''source_charge_id does not match identity_key'')
             else if ip_SpendChargeID parts \<noteq> ei_SpendChargeID entry
             then Some (Err ''spend_charge_id does not match identity_key'')
             else if (ei_IdentityKey entry, version) \<noteq> parts_Text parts
             then Some (Err ''identity_key is not canonical'')
             else None)"

definition NewCollectionSourceIdentityKey :: "int \<Rightarrow> string" where
  "NewCollectionSourceIdentityKey index = fst (parts_Text (no_parts\<lparr>ip_CollectionSource := Some (show_int index)\<rparr>))"

definition NewCorrectionSourceIdentityKey :: "string \<Rightarrow> string" where
  "NewCorrectionSourceIdentityKey sourceEntryID = fst (parts_Text (no_parts\<lparr>ip_CorrectionSource := Some sourceEntryID\<rparr>))"

section \<open>What a key says\<close>

text \<open>
  Parts that a key can carry: with charge provenance any nonempty values, without it at most one of the two sources.
\<close>

definition canonical_parts :: "EntryIdentityParts \<Rightarrow> bool" where
  "canonical_parts e \<longleftrightarrow>
     (if ip_SourceChargeID e = None \<and> ip_SpendChargeID e = None
      then ip_CollectionSource e = None \<or> ip_CorrectionSource e = None
      else Some [] \<notin> {ip_CollectionSource e, ip_CorrectionSource e, ip_SourceChargeID e, ip_SpendChargeID e})"

lemma show_int_2: "show_int 2 = ''2''"
proof -
  have "of_char CHR ''2'' = (50 :: nat)" by simp
  then have "char_of (50 :: nat) = CHR ''2''" by (metis char_of_char)
  then show ?thesis by (simp add: show_int_def show_nat.simps)
qed

lemma version_prefix_2: "version_prefix EntryIdentityVersion2 = ''entry-identity:v2:''"
  by (simp add: version_prefix_def EntryIdentityVersion1_def EntryIdentityVersion2_def show_int_2)

lemma TrimPrefix_append [simp]: "TrimPrefix (p @ s) p = s"
  by (simp add: TrimPrefix_def)

lemma v1_round: "parseV1EntryIdentityKey (v1_Text a b) = no_parts\<lparr>ip_CollectionSource := a, ip_CorrectionSource := if a = None then b else None\<rparr>"
  "key_Version (v1_Text a b) = EntryIdentityVersion1"
proof -
  have c: "prefix ''collection-source:'' (''collection-source:'' @ x)" "prefix ''correction-source:'' (''correction-source:'' @ x)"
    "\<not> prefix ''collection-source:'' (''correction-source:'' @ x)" for x
    by (simp_all only: prefixI prefix_def) simp_all
  show "parseV1EntryIdentityKey (v1_Text a b) = no_parts\<lparr>ip_CollectionSource := a, ip_CorrectionSource := if a = None then b else None\<rparr>"
    by (cases a; cases b) (simp_all add: v1_Text_def parseV1EntryIdentityKey_def c TrimPrefix_append [simplified] no_parts_def del: append.simps)
  show "key_Version (v1_Text a b) = EntryIdentityVersion1"
    by (simp add: key_Version_def version_prefix_2 v1_Text_def split: option.splits)
qed

lemma optional_round: "parseOptionalEntryIdentityPart n (escapeEntryIdentityPart v) = Inr (if v = Some [] then None else v)"
  by (cases v) (simp_all add: parseOptionalEntryIdentityPart_def escapeEntryIdentityPart_def QueryUnescape_Escape from_ptr_def)

lemma v2_round: "parseV2EntryIdentityKey (v2_Text e) = Inr
    \<lparr>ip_CollectionSource = (if ip_CollectionSource e = Some [] then None else ip_CollectionSource e),
     ip_CorrectionSource = (if ip_CorrectionSource e = Some [] then None else ip_CorrectionSource e),
     ip_SourceChargeID = (if ip_SourceChargeID e = Some [] then None else ip_SourceChargeID e),
     ip_SpendChargeID = (if ip_SpendChargeID e = Some [] then None else ip_SpendChargeID e)\<rparr>"
  "key_Version (v2_Text e) = EntryIdentityVersion2"
proof -
  have p: "prefix (version_prefix EntryIdentityVersion2) (v2_Text e)" by (simp add: v2_Text_def)
  then show "key_Version (v2_Text e) = EntryIdentityVersion2" by (simp add: key_Version_def)
  have "split_at CHR ''|'' (TrimPrefix (v2_Text e) (version_prefix EntryIdentityVersion2)) =
      [escapeEntryIdentityPart (ip_CollectionSource e), escapeEntryIdentityPart (ip_CorrectionSource e),
       escapeEntryIdentityPart (ip_SourceChargeID e), escapeEntryIdentityPart (ip_SpendChargeID e)]"
    by (simp add: v2_Text_def escapeEntryIdentityPart_def split_at_append split_at_segment QueryEscape_delimiter)
  then show "parseV2EntryIdentityKey (v2_Text e) = Inr
      \<lparr>ip_CollectionSource = (if ip_CollectionSource e = Some [] then None else ip_CollectionSource e),
       ip_CorrectionSource = (if ip_CorrectionSource e = Some [] then None else ip_CorrectionSource e),
       ip_SourceChargeID = (if ip_SourceChargeID e = Some [] then None else ip_SourceChargeID e),
       ip_SpendChargeID = (if ip_SpendChargeID e = Some [] then None else ip_SpendChargeID e)\<rparr>"
    using p by (simp add: parseV2EntryIdentityKey_def optional_round)
qed

lemma Parse_Text:
  assumes "canonical_parts e"
  shows "Parse (fst (parts_Text e)) = Inr (snd (parts_Text e), e)"
proof (cases "ip_SourceChargeID e = None \<and> ip_SpendChargeID e = None")
  case True
  then have t: "parts_Text e = (v1_Text (ip_CollectionSource e) (ip_CorrectionSource e), EntryIdentityVersion1)"
    by (simp add: parts_Text_def)
  have "no_parts\<lparr>ip_CollectionSource := ip_CollectionSource e,
      ip_CorrectionSource := if ip_CollectionSource e = None then ip_CorrectionSource e else None\<rparr> = e"
    using assms True by (cases e) (auto simp: canonical_parts_def no_parts_def)
  then show ?thesis by (simp add: t Parse_def v1_round)
next
  case False
  then have t: "parts_Text e = (v2_Text e, EntryIdentityVersion2)" by (auto simp: parts_Text_def)
  have "(if x = Some [] then None else x) = x" if "x \<in> {ip_CollectionSource e, ip_CorrectionSource e, ip_SourceChargeID e, ip_SpendChargeID e}" for x
    using assms False that by (auto simp: canonical_parts_def)
  then show ?thesis by (simp add: t Parse_def v2_round EntryIdentityVersion1_def EntryIdentityVersion2_def)
qed

text \<open>What a parsed key holds.\<close>

lemma Parse_canonical: "Parse k = Inr (version, parts) \<Longrightarrow> parts_Text parts = (k, version) \<Longrightarrow> canonical_parts parts"
proof -
  assume p: "Parse k = Inr (version, parts)" and t: "parts_Text parts = (k, version)"
  show "canonical_parts parts"
  proof (cases "key_Version k = EntryIdentityVersion1")
    case True
    then have e: "parts = parseV1EntryIdentityKey k" using p by (simp add: Parse_def)
    show ?thesis by (simp add: e parseV1EntryIdentityKey_def canonical_parts_def no_parts_def)
  next
    case False
    then have v2: "parseV2EntryIdentityKey k = Inr parts" and "version = EntryIdentityVersion2"
      using p by (auto simp: Parse_def Let_def bind_result_Inr key_Version_def split: if_splits)
    then have "\<not> (ip_SourceChargeID parts = None \<and> ip_SpendChargeID parts = None)"
      using t by (cases "ip_SourceChargeID parts"; cases "ip_SpendChargeID parts")
        (simp_all add: parts_Text_def EntryIdentityVersion1_def EntryIdentityVersion2_def)
    moreover have "parseOptionalEntryIdentityPart n s \<noteq> Inr (Some [])" for n s
      by (simp add: parseOptionalEntryIdentityPart_def split: option.splits)
    ultimately show ?thesis using v2
      by (auto simp: canonical_parts_def parseV2EntryIdentityKey_def bind_result_Inr split: if_splits list.splits)
  qed
qed

lemma identity_accepted:
  assumes k: "ei_IdentityKey entry = fst (parts_Text parts)" and c: "canonical_parts parts"
    and s: "ip_SourceChargeID parts = ei_SourceChargeID entry" "ip_SpendChargeID parts = ei_SpendChargeID entry"
    and v: "ei_SchemaVersion entry = EntrySchemaVersionCurrent \<or>
      ei_SchemaVersion entry = EntrySchemaVersionLegacy \<and> ei_SourceChargeID entry = None \<and> ei_SpendChargeID entry = None"
  shows "ValidateEntryIdentityKey entry = None"
proof -
  have p: "Parse (ei_IdentityKey entry) = Inr (snd (parts_Text parts), parts)" unfolding k by (rule Parse_Text [OF c])
  have t: "parts_Text parts = (ei_IdentityKey entry, snd (parts_Text parts))" using k by (cases "parts_Text parts") simp
  have n: "snd (parts_Text parts) = (if ei_SourceChargeID entry = None \<and> ei_SpendChargeID entry = None
      then EntryIdentityVersion1 else EntryIdentityVersion2)"
    using s by (simp add: parts_Text_def)
  have schema: "EntrySchemaVersionCurrent \<noteq> EntrySchemaVersionLegacy" "EntryIdentityVersion1 \<noteq> EntryIdentityVersion2"
    by (simp_all add: EntrySchemaVersionLegacy_def EntrySchemaVersionCurrent_def EntryIdentityVersion1_def EntryIdentityVersion2_def)
  show ?thesis
    unfolding ValidateEntryIdentityKey_def p using v s t n schema by (simp add: Let_def) (metis option.distinct(1))
qed

text \<open>
  C29. An entry is accepted exactly if its identity key is the text of parts that a key can carry and that name the charges
  of the entry, where an entry of the legacy schema names none: reading the key back gives those parts.
\<close>

theorem ValidateEntryIdentityKey_exact:
  "ValidateEntryIdentityKey entry = None \<longleftrightarrow>
     (\<exists>parts. canonical_parts parts \<and> ei_IdentityKey entry = fst (parts_Text parts) \<and>
        Parse (ei_IdentityKey entry) = Inr (snd (parts_Text parts), parts) \<and>
        ip_SourceChargeID parts = ei_SourceChargeID entry \<and> ip_SpendChargeID parts = ei_SpendChargeID entry \<and>
        (ei_SchemaVersion entry = EntrySchemaVersionCurrent \<or>
         ei_SchemaVersion entry = EntrySchemaVersionLegacy \<and> ei_SourceChargeID entry = None \<and> ei_SpendChargeID entry = None))"
proof
  assume ok: "ValidateEntryIdentityKey entry = None"
  obtain version parts where p: "Parse (ei_IdentityKey entry) = Inr (version, parts)"
    using ok by (auto simp: ValidateEntryIdentityKey_def split: sum.splits)
  have c: "ei_SchemaVersion entry \<in> {EntrySchemaVersionLegacy, EntrySchemaVersionCurrent}"
    "ei_SchemaVersion entry = EntrySchemaVersionLegacy \<Longrightarrow> ei_SourceChargeID entry = None \<and> ei_SpendChargeID entry = None"
    "ip_SourceChargeID parts = ei_SourceChargeID entry" "ip_SpendChargeID parts = ei_SpendChargeID entry"
    "parts_Text parts = (ei_IdentityKey entry, version)"
    using ok by (simp_all add: ValidateEntryIdentityKey_def p Let_def split: if_splits)
  have "canonical_parts parts" by (rule Parse_canonical [OF p c(5)])
  then show "\<exists>parts. canonical_parts parts \<and> ei_IdentityKey entry = fst (parts_Text parts) \<and>
        Parse (ei_IdentityKey entry) = Inr (snd (parts_Text parts), parts) \<and>
        ip_SourceChargeID parts = ei_SourceChargeID entry \<and> ip_SpendChargeID parts = ei_SpendChargeID entry \<and>
        (ei_SchemaVersion entry = EntrySchemaVersionCurrent \<or>
         ei_SchemaVersion entry = EntrySchemaVersionLegacy \<and> ei_SourceChargeID entry = None \<and> ei_SpendChargeID entry = None)"
    using p c by auto
next
  assume "\<exists>parts. canonical_parts parts \<and> ei_IdentityKey entry = fst (parts_Text parts) \<and>
        Parse (ei_IdentityKey entry) = Inr (snd (parts_Text parts), parts) \<and>
        ip_SourceChargeID parts = ei_SourceChargeID entry \<and> ip_SpendChargeID parts = ei_SpendChargeID entry \<and>
        (ei_SchemaVersion entry = EntrySchemaVersionCurrent \<or>
         ei_SchemaVersion entry = EntrySchemaVersionLegacy \<and> ei_SourceChargeID entry = None \<and> ei_SpendChargeID entry = None)"
  then show "ValidateEntryIdentityKey entry = None" using identity_accepted by blast
qed

end
