(* ===== verification/LedgerEntries.thy ===== *)
theory LedgerEntries
  imports EntryIdentity InvoiceMachine
begin

text \<open>
  Transactions of the ledger (openmeter/ledger/primitives.go, validations.go, query.go, balance.go, impact.go) and the
  ledger that commits groups of them (historical/ledger.go). The entries of a transaction and their addresses are
  never nil, which the ledger checks first. Accounts, locks and rows are the record \<open>ledger_store\<close>.
\<close>

section \<open>Errors\<close>

definition ErrInvalidTransactionTotal :: error where "ErrInvalidTransactionTotal = Err ''transaction total is invalid, credits and debits must sum to 0''"
definition ErrEntryInvalid :: error where "ErrEntryInvalid = Err ''ledger entry is invalid''"
definition ErrAddressInvalid :: error where "ErrAddressInvalid = Err ''ledger posting address is invalid''"
definition ErrTransactionInputRequired :: error where "ErrTransactionInputRequired = Err ''transaction input is required''"
definition ErrTransactionGroupEmpty :: error where "ErrTransactionGroupEmpty = Err ''ledger transaction group must contain at least one transaction''"
definition ErrListTransactionsInputInvalid :: error where
  "ErrListTransactionsInputInvalid = Err ''ledger list transactions input is invalid''"
definition ErrLedgerQueryInvalid :: error where "ErrLedgerQueryInvalid = Err ''ledger query is invalid''"

section \<open>Transactions and cursors\<close>

record TransactionInput =
  tx_BookedAt :: int
  tx_EntryInputs :: "EntryInput list"
  tx_Annotations :: Annotations

record Entry = EntryInput +
  en_Namespace :: string
  en_ID :: string

record TransactionCursor =
  tc_BookedAt :: int
  tc_CreatedAt :: int
  tc_Namespace :: string
  tc_ID :: string

definition TC_Compare :: "TransactionCursor \<Rightarrow> TransactionCursor \<Rightarrow> int" where
  "TC_Compare c v =
     (if tc_BookedAt c < tc_BookedAt v then -1
      else if tc_BookedAt v < tc_BookedAt c then 1
      else if tc_CreatedAt c < tc_CreatedAt v then -1
      else if tc_CreatedAt v < tc_CreatedAt c then 1
      else compare_values (tc_ID c) (tc_ID v))"

definition TransactionCursor_Validate :: "TransactionCursor \<Rightarrow> error option" where
  "TransactionCursor_Validate c = join_errors
     (err_if (IsZeroTime (tc_BookedAt c)) (Err ''booked_at is zero'') @
      err_if (IsZeroTime (tc_CreatedAt c)) (Err ''created_at is zero'') @
      err_of (Wrap ''id is invalid'') (NamespacedID_Validate (tc_Namespace c) (tc_ID c)))"

record Transaction =
  tr_Namespace :: string
  tr_ID :: string
  tr_CreatedAt :: int
  tr_BookedAt :: int
  tr_Entries :: "Entry list"
  tr_Annotations :: Annotations

definition TR_Cursor :: "Transaction \<Rightarrow> TransactionCursor" where
  "TR_Cursor t = \<lparr>tc_BookedAt = tr_BookedAt t, tc_CreatedAt = tr_CreatedAt t, tc_Namespace = tr_Namespace t, tc_ID = tr_ID t\<rparr>"

section \<open>Queries\<close>

datatype ListTransactionsCreditMovement =
  ListTransactionsCreditMovementUnspecified | ListTransactionsCreditMovementPositive
  | ListTransactionsCreditMovementNegative | OtherCreditMovement nat

record ListTransactionsInput =
  lt_Namespace :: string
  lt_Cursor :: "TransactionCursor option"
  lt_Before :: "TransactionCursor option"
  lt_Limit :: int
  lt_TransactionID :: "(string \<times> string) option"
  lt_AccountIDs :: "string list"
  lt_Currency :: "string option"
  lt_AsOf :: "int option"
  lt_Route :: RouteFilter
  lt_CreditMovement :: ListTransactionsCreditMovement

definition validateListTransactionsRouteFilter :: "RouteFilter \<Rightarrow> error option" where
  "validateListTransactionsRouteFilter route = join_errors
     (err_if (fi_TaxCode route \<noteq> None) (Err ''tax code filter is not supported'') @
      err_if (fi_TaxBehavior route \<noteq> None) (Err ''tax behavior filter is not supported'') @
      err_if (fi_CostBasis route \<noteq> None) (Err ''cost basis filter is not supported'') @
      err_if (fi_CreditPriority route \<noteq> None) (Err ''credit priority filter is not supported'') @
      err_if (fi_AuthorizationStatus route \<noteq> None) (Err ''transaction authorization status filter is not supported'') @
      err_if (fi_Features route \<noteq> None \<and> fi_MatchFeature route \<noteq> []) (Err ''features and match feature filters cannot be combined'') @
      (case fi_Features route of None \<Rightarrow> [] | Some features \<Rightarrow> err_of (Wrap ''features'') (validateFeatures features)) @
      (if fi_MatchFeature route = [] then [] else err_of (Wrap ''match feature'') (validateFeatures [fi_MatchFeature route])))"

definition LT_Validate :: "known_currencies \<Rightarrow> ListTransactionsInput \<Rightarrow> error option" where
  "LT_Validate known i =
     (if lt_Limit i < 1 then Some ErrListTransactionsInputInvalid
      else if Option.bind (lt_Cursor i) TransactionCursor_Validate \<noteq> None then Some ErrListTransactionsInputInvalid
      else if Option.bind (lt_Before i) TransactionCursor_Validate \<noteq> None then Some ErrListTransactionsInputInvalid
      else if lt_Cursor i \<noteq> None \<and> lt_Before i \<noteq> None then Some ErrListTransactionsInputInvalid
      else if (case lt_TransactionID i of None \<Rightarrow> False | Some (ns, i) \<Rightarrow> NamespacedID_Validate ns i \<noteq> None)
      then Some ErrListTransactionsInputInvalid
      else if Option.bind (lt_Currency i) (ValidateCurrency known) \<noteq> None then Some ErrListTransactionsInputInvalid
      else if (case lt_AsOf i of None \<Rightarrow> False | Some t \<Rightarrow> IsZeroTime t) then Some ErrListTransactionsInputInvalid
      else if validateListTransactionsRouteFilter (lt_Route i) \<noteq> None then Some ErrListTransactionsInputInvalid
      else (case lt_CreditMovement i of OtherCreditMovement _ \<Rightarrow> Some ErrListTransactionsInputInvalid | _ \<Rightarrow> None))"

record Filters =
  lf_BookedAtPeriod :: "OpenPeriod option"
  lf_After :: "TransactionCursor option"
  lf_AsOf :: "int option"
  lf_TransactionID :: "string option"
  lf_AccountID :: "string option"
  lf_SourceChargeID :: "string option option"
  lf_SpendChargeID :: "string option option"
  lf_Route :: RouteFilter

text \<open>A query, with the time and the ID of its page cursor.\<close>

record Query =
  qu_Namespace :: string
  qu_Cursor :: "(int \<times> string) option"
  qu_Filters :: Filters

definition PageCursor_Validate :: "int \<times> string \<Rightarrow> error option" where
  "PageCursor_Validate c = join_errors
     (err_if (IsZeroTime (fst c)) (Err ''cursor time is zero'') @ err_if (snd c = []) (Err ''cursor id is empty''))"

definition validateOptionalChargeIDFilter :: "string \<Rightarrow> string option option \<Rightarrow> error option" where
  "validateOptionalChargeIDFilter name f = (if f = Some (Some []) then Some (Err (name @ '' must not be empty'')) else None)"

definition QU_Validate :: "known_currencies \<Rightarrow> Query \<Rightarrow> error option" where
  "QU_Validate known p =
     (let f = qu_Filters p
      in if qu_Namespace p = [] then Some ErrLedgerQueryInvalid
      else if Option.bind (qu_Cursor p) PageCursor_Validate \<noteq> None then Some ErrLedgerQueryInvalid
      else if lf_TransactionID f = Some [] then Some ErrLedgerQueryInvalid
      else if lf_AccountID f = Some [] then Some ErrLedgerQueryInvalid
      else if validateOptionalChargeIDFilter ''source_charge_id'' (lf_SourceChargeID f) \<noteq> None then Some ErrLedgerQueryInvalid
      else if validateOptionalChargeIDFilter ''spend_charge_id'' (lf_SpendChargeID f) \<noteq> None then Some ErrLedgerQueryInvalid
      else if Option.bind (lf_BookedAtPeriod f) OP_Validate \<noteq> None then Some ErrLedgerQueryInvalid
      else if Option.bind (lf_After f) TransactionCursor_Validate \<noteq> None then Some ErrLedgerQueryInvalid
      else if (case lf_AsOf f of None \<Rightarrow> False | Some t \<Rightarrow> IsZeroTime t) then Some ErrLedgerQueryInvalid
      else if lf_After f \<noteq> None \<and> lf_AsOf f \<noteq> None then Some ErrLedgerQueryInvalid
      else (case RouteFilter_Normalize known (lf_Route f) of Inl _ \<Rightarrow> Some ErrLedgerQueryInvalid | Inr _ \<Rightarrow> None))"

definition BalanceBucketGroupBySourceChargeID :: string where "BalanceBucketGroupBySourceChargeID = ''source_charge_id''"
definition BalanceBucketGroupBySpendChargeID :: string where "BalanceBucketGroupBySpendChargeID = ''spend_charge_id''"

record BalanceBucketQuery =
  bq_Namespace :: string
  bq_Filters :: Filters
  bq_GroupBy :: "string list"

definition BQ_Validate :: "known_currencies \<Rightarrow> BalanceBucketQuery \<Rightarrow> error option" where
  "BQ_Validate known q =
     (case QU_Validate known \<lparr>qu_Namespace = bq_Namespace q, qu_Cursor = None, qu_Filters = bq_Filters q\<rparr> of
        Some e \<Rightarrow> Some e
      | None \<Rightarrow>
          if \<not> list_all (\<lambda>g. g \<in> {BalanceBucketGroupBySourceChargeID, BalanceBucketGroupBySpendChargeID}) (bq_GroupBy q)
          then Some ErrLedgerQueryInvalid
          else if length (remdups (bq_GroupBy q)) \<noteq> length (bq_GroupBy q) then Some ErrLedgerQueryInvalid
          else None)"

text \<open>An empty account type matches all.\<close>

record ImpactFilter =
  if_AccountType :: AccountType
  if_Route :: RouteFilter

definition EntryMatchesImpactFilter :: "Entry \<Rightarrow> ImpactFilter \<Rightarrow> bool" where
  "EntryMatchesImpactFilter entry f =
     (let address = ei_PostingAddress entry
      in if account_type_string (if_AccountType f) \<noteq> [] \<and> pa_AccountType address \<noteq> if_AccountType f then False
         else if \<not> Route_Matches (sr_route (pa_Route address)) (if_Route f) then False
         else True)"

definition TransactionImpact :: "Transaction \<Rightarrow> ImpactFilter \<Rightarrow> decimal" where
  "TransactionImpact t f = foldl (\<lambda>acc entry. if EntryMatchesImpactFilter entry f then acc + ei_Amount entry else acc) 0 (tr_Entries t)"

section \<open>Validation\<close>

definition entry_currency :: "'a EntryInput_scheme \<Rightarrow> CurrencyReference" where
  "entry_currency e = ro_Currency (sr_route (pa_Route (ei_PostingAddress e)))"

definition add_entry :: "(string \<rightharpoonup> decimal) \<times> string list \<Rightarrow> EntryInput \<Rightarrow> (string \<rightharpoonup> decimal) \<times> string list" where
  "add_entry acc entry =
     (case acc of (totals, keys) \<Rightarrow>
        let key = IdentityKey (entry_currency entry)
        in (case totals key of
              None \<Rightarrow> (totals(key \<mapsto> 0 + ei_Amount entry), keys @ [key])
            | Some t \<Rightarrow> (totals(key \<mapsto> t + ei_Amount entry), keys)))"

definition ValidateInvariance :: "EntryInput list \<Rightarrow> error option" where
  "ValidateInvariance entries =
     (case foldl add_entry (Map.empty, []) entries of
        (totals, keys) \<Rightarrow> if list_all (\<lambda>k. value_or 0 (totals k) = 0) keys then None else Some ErrInvalidTransactionTotal)"

definition validateEntryAmountPrecision :: "known_currencies \<Rightarrow> decimal_lib \<Rightarrow> EntryInput \<Rightarrow> error option" where
  "validateEntryAmountPrecision known L entry =
     (let currencyReference = entry_currency entry;
          check = (\<lambda>currency. if cur_IsRoundedToPrecision (currency_ops_of L known currency) (ei_Amount entry) then None
             else Some ErrTransactionAmountInvalid)
      in if Code_IsCustom (cr_Code currencyReference)
         then (case cr_resolved currencyReference of
                 None \<Rightarrow> Some ErrCurrencyInvalid
               | Some resolved \<Rightarrow> (case mc_Currency resolved of None \<Rightarrow> Some nil_deref | Some c \<Rightarrow> check c))
         else (case Build known (WithCode (cr_Code currencyReference) (NewCurrencyBuilder CurrencyTypeFiat)) of
                 Inl _ \<Rightarrow> Some ErrCurrencyInvalid
               | Inr c \<Rightarrow> check c))"

definition ValidateEntryInput :: "known_currencies \<Rightarrow> decimal_lib \<Rightarrow> EntryInput \<Rightarrow> error option" where
  "ValidateEntryInput known L entry =
     (case validateEntryAmountPrecision known L entry of
        Some e \<Rightarrow> Some e
      | None \<Rightarrow> (case ValidateEntryIdentityKey entry of Some _ \<Rightarrow> Some ErrEntryInvalid | None \<Rightarrow> None))"

type_synonym RoutingValidator = "EntryInput list \<Rightarrow> error option"

text \<open>\<open>for _, x := range xs { if err := check(x); err != nil { return err } }\<close>.\<close>

fun first_error :: "('a \<Rightarrow> error option) \<Rightarrow> 'a list \<Rightarrow> error option" where
  "first_error check [] = None"
| "first_error check (x # xs) = (case check x of Some e \<Rightarrow> Some e | None \<Rightarrow> first_error check xs)"

definition ValidateTransactionInputWith ::
  "known_currencies \<Rightarrow> decimal_lib \<Rightarrow> TransactionInput option \<Rightarrow> RoutingValidator option \<Rightarrow> error option" where
  "ValidateTransactionInputWith known L transaction routingValidator =
     (case transaction of
        None \<Rightarrow> Some ErrTransactionInputRequired
      | Some t \<Rightarrow>
          (case first_error (ValidateEntryInput known L) (tx_EntryInputs t) of
             Some e \<Rightarrow> Some e
           | None \<Rightarrow> (case ValidateInvariance (tx_EntryInputs t) of
                Some e \<Rightarrow> Some e
              | None \<Rightarrow> (case routingValidator of None \<Rightarrow> None | Some v \<Rightarrow> v (tx_EntryInputs t)))))"

definition ValidateTransactionInput :: "known_currencies \<Rightarrow> decimal_lib \<Rightarrow> TransactionInput option \<Rightarrow> error option" where
  "ValidateTransactionInput known L transaction = ValidateTransactionInputWith known L transaction None"

section \<open>Sums\<close>

text \<open>The sum of what a list of entries books in one currency.\<close>

definition total_in :: "string \<Rightarrow> ('a EntryInput_scheme) list \<Rightarrow> decimal" where
  "total_in k es = sum_list (map ei_Amount (List.filter (\<lambda>e. IdentityKey (entry_currency e) = k) es))"

definition balanced :: "('a EntryInput_scheme) list \<Rightarrow> bool" where
  "balanced es \<longleftrightarrow> (\<forall>k. total_in k es = 0)"

lemma total_in_simps [simp]:
  "total_in k [] = 0"
  "total_in k (e # es) = (if IdentityKey (entry_currency e) = k then ei_Amount e else 0) + total_in k es"
  "total_in k (es @ fs) = total_in k es + total_in k fs"
  by (simp_all add: total_in_def)

lemma balanced_append: "balanced es \<Longrightarrow> balanced fs \<Longrightarrow> balanced (es @ fs)"
  by (simp add: balanced_def)

lemma balanced_concat: "(\<And>x. x \<in> set xs \<Longrightarrow> balanced (f x)) \<Longrightarrow> balanced (concat (map f xs))"
  by (induction xs) (simp_all add: balanced_def)

lemma add_entry_fold:
  assumes "foldl add_entry (totals, keys) es = (totals', keys')" and "dom totals = set keys"
  shows "dom totals' = set keys' \<and> (\<forall>k. value_or 0 (totals' k) = value_or 0 (totals k) + total_in k es)"
  using assms
proof (induction es arbitrary: totals keys)
  case (Cons e es)
  let ?k = "IdentityKey (entry_currency e)"
  obtain t ks where a: "add_entry (totals, keys) e = (t, ks)" by force
  have t: "t = totals(?k \<mapsto> value_or 0 (totals ?k) + ei_Amount e)" "set ks = insert ?k (set keys)"
    using a Cons.prems(2) by (auto simp: add_entry_def Let_def value_or_def split: option.splits)
  then have d: "dom t = set ks" and v: "value_or 0 (t k) = value_or 0 (totals k) + (if ?k = k then ei_Amount e else 0)" for k
    using Cons.prems(2) by (simp_all add: value_or_def)
  show ?case using Cons.IH [of t ks] Cons.prems(1) a d v by simp
qed simp

lemma ValidateInvariance_iff: "ValidateInvariance es = None \<longleftrightarrow> balanced es"
proof -
  obtain totals keys where f: "foldl add_entry (Map.empty, []) es = (totals, keys)" by force
  have d: "dom totals = set keys" and v: "\<And>k. value_or 0 (totals k) = total_in k es"
    using add_entry_fold [OF f] by (simp_all add: value_or_def)
  have "total_in k es = 0" if "k \<notin> set keys" for k
  proof -
    have "totals k = None" using d that by (metis domIff)
    then show ?thesis using v [of k] by (simp add: value_or_def)
  qed
  then show ?thesis using v by (auto simp: ValidateInvariance_def f list_all_iff balanced_def)
qed

lemma first_error_None: "first_error c xs = None \<longleftrightarrow> (\<forall>x \<in> set xs. c x = None)"
  by (induction xs) (simp_all split: option.split)

lemma ValidateTransactionInputWith_None:
  "ValidateTransactionInputWith known L (Some t) v = None \<longleftrightarrow>
     (\<forall>e \<in> set (tx_EntryInputs t). ValidateEntryInput known L e = None) \<and> balanced (tx_EntryInputs t) \<and>
     (case v of None \<Rightarrow> True | Some f \<Rightarrow> f (tx_EntryInputs t) = None)"
  by (cases v) (simp_all only: ValidateTransactionInputWith_def option.simps none_chain first_error_None ValidateInvariance_iff simp_thms)

section \<open>The ledger that commits groups (historical/ledger.go)\<close>

record TransactionGroupInput =
  tg_Namespace :: string
  tg_Transactions :: "TransactionInput list"
  tg_Annotations :: Annotations

record TransactionGroup =
  gr_GroupNamespace :: string
  gr_GroupID :: string
  gr_Transactions :: "Transaction list"
  gr_Annotations :: Annotations

text \<open>
  What the ledger calls: the account catalog (a sub-account's account, whether an account exists), the locks, and
  the rows of groups and transactions on a database \<open>'db\<close>.
\<close>

record 'db ledger_store =
  ls_GetSubAccountByID :: "'db \<Rightarrow> string \<Rightarrow> string \<Rightarrow> (string \<times> string) result"
  ls_GetAccountByID :: "'db \<Rightarrow> string \<times> string \<Rightarrow> error option"
  ls_LockAccountsForPosting :: "'db \<Rightarrow> (string \<times> string) list \<Rightarrow> error option"
  ls_CreateTransactionGroup :: "'db \<Rightarrow> string \<Rightarrow> Annotations \<Rightarrow> (string \<times> 'db) result"
  ls_BookTransaction :: "'db \<Rightarrow> string \<Rightarrow> string \<Rightarrow> TransactionInput \<Rightarrow> (Transaction \<times> 'db) result"

text \<open>\<open>transaction.Run\<close>: a function that fails leaves the database as it was.\<close>

definition Run_transaction :: "'db \<Rightarrow> ('a \<times> 'db) result \<Rightarrow> 'a result \<times> 'db" where
  "Run_transaction db r = (case r of Inl e \<Rightarrow> (Inl e, db) | Inr (x, db') \<Rightarrow> (Inr x, db'))"

text \<open>The keys of a Go map, in some order: here that of their first occurrence.\<close>

fun account_ids :: "'db ledger_store \<Rightarrow> 'db \<Rightarrow> string \<Rightarrow> string list \<Rightarrow> (string \<times> string) list result" where
  "account_ids S db ns [] = Inr []"
| "account_ids S db ns (i # is) =
     bind_result (wrap_result ''failed to get sub-account'' (ls_GetSubAccountByID S db ns i)) (\<lambda>a.
       bind_result (account_ids S db ns is) (\<lambda>as. Inr (a # as)))"

definition lockAccountsForTransactionInputs :: "'db ledger_store \<Rightarrow> 'db \<Rightarrow> string \<Rightarrow> TransactionInput list \<Rightarrow> error option" where
  "lockAccountsForTransactionInputs S db ns txInputs =
     (let subAccountIDs = remdups (concat (map (\<lambda>t. map (pa_SubAccountID \<circ> ei_PostingAddress) (tx_EntryInputs t)) txInputs))
      in case account_ids S db ns subAccountIDs of
           Inl e \<Rightarrow> Some e
         | Inr ids \<Rightarrow>
             (case first_error (\<lambda>i. map_option (Wrap ''failed to get account'') (ls_GetAccountByID S db i)) (remdups ids) of
                Some e \<Rightarrow> Some e
              | None \<Rightarrow> ls_LockAccountsForPosting S db (remdups ids)))"

definition validateAccountBalancesForTransaction :: "TransactionInput \<Rightarrow> error option" where
  "validateAccountBalancesForTransaction t = None"

fun book_all :: "'db ledger_store \<Rightarrow> 'db \<Rightarrow> string \<Rightarrow> string \<Rightarrow> TransactionInput list \<Rightarrow> (Transaction list \<times> 'db) result" where
  "book_all S db ns i [] = Inr ([], db)"
| "book_all S db ns i (t # ts) =
     bind_result (wrap_result ''failed to create transaction'' (ls_BookTransaction S db ns i t)) (\<lambda>(tx, db').
       bind_result (book_all S db' ns i ts) (\<lambda>(txs, db''). Inr (tx # txs, db'')))"

definition CommitGroup ::
  "known_currencies \<Rightarrow> decimal_lib \<Rightarrow> RoutingValidator option \<Rightarrow> 'db ledger_store \<Rightarrow> TransactionGroupInput \<Rightarrow> 'db \<Rightarrow>
     TransactionGroup result \<times> 'db" where
  "CommitGroup known L routingValidator S input db =
     (if tg_Transactions input = [] then (Inl ErrTransactionGroupEmpty, db)
      else case first_error (\<lambda>t. map_option (Wrap ''failed to validate transaction in group'')
             (ValidateTransactionInputWith known L (Some t) routingValidator)) (tg_Transactions input) of
        Some e \<Rightarrow> (Inl e, db)
      | None \<Rightarrow> Run_transaction db
          (check_then (map_option (Wrap ''failed to lock accounts for transaction inputs'')
             (lockAccountsForTransactionInputs S db (tg_Namespace input) (tg_Transactions input)))
          (check_then (map_option (Wrap ''failed to validate account balances for transaction'')
             (first_error validateAccountBalancesForTransaction (tg_Transactions input)))
          (bind_result (wrap_result ''failed to create transaction group''
             (ls_CreateTransactionGroup S db (tg_Namespace input) (tg_Annotations input))) (\<lambda>(i, db1).
           bind_result (book_all S db1 (tg_Namespace input) i (tg_Transactions input)) (\<lambda>(txs, db2).
             Inr (\<lparr>gr_GroupNamespace = tg_Namespace input, gr_GroupID = i, gr_Transactions = txs,
               gr_Annotations = tg_Annotations input\<rparr>, db2)))))))"

section \<open>The books stay balanced\<close>

text \<open>What the rows keep of an entry.\<close>

definition entry_row :: "('a EntryInput_scheme) \<Rightarrow> PostingAddress \<times> decimal \<times> string \<times> string option \<times> string option" where
  "entry_row e = (ei_PostingAddress e, ei_Amount e, ei_IdentityKey e, ei_SourceChargeID e, ei_SpendChargeID e)"

text \<open>
  The contract of the repository: \<open>booked\<close> are the entries of all transactions in the database, a new group adds
  none, and booking a transaction adds rows with the values of its entries. The adapter stores the sub-account of an
  address, not the address itself, so it keeps this contract for addresses that are those of their sub-account, as
  \<open>PostingAddress\<close> documents.
\<close>

definition store_ok :: "'db ledger_store \<Rightarrow> ('db \<Rightarrow> Entry list) \<Rightarrow> bool" where
  "store_ok S booked \<longleftrightarrow>
     (\<forall>db ns a i db'. ls_CreateTransactionGroup S db ns a = Inr (i, db') \<longrightarrow> booked db' = booked db) \<and>
     (\<forall>db ns i t tx db'. ls_BookTransaction S db ns i t = Inr (tx, db') \<longrightarrow>
        booked db' = booked db @ tr_Entries tx \<and> map entry_row (tr_Entries tx) = map entry_row (tx_EntryInputs t))"

text \<open>The databases that groups committed one after the other lead to.\<close>

inductive commits ::
  "known_currencies \<Rightarrow> decimal_lib \<Rightarrow> RoutingValidator option \<Rightarrow> 'db ledger_store \<Rightarrow> 'db \<Rightarrow> 'db \<Rightarrow> bool"
  for known L v S where
  commits_none: "commits known L v S db db"
| commits_one: "commits known L v S db db1 \<Longrightarrow> CommitGroup known L v S input db1 = (r, db2) \<Longrightarrow> commits known L v S db db2"

definition accepted_entries :: "known_currencies \<Rightarrow> decimal_lib \<Rightarrow> RoutingValidator option \<Rightarrow> EntryInput list \<Rightarrow> bool" where
  "accepted_entries known L v es \<longleftrightarrow> (\<forall>e \<in> set es. ValidateEntryInput known L e = None) \<and> balanced es \<and>
     (case v of None \<Rightarrow> True | Some f \<Rightarrow> f es = None)"

lemma total_in_rows: "map entry_row es = map entry_row fs \<Longrightarrow> total_in k es = total_in k fs"
proof (induction es arbitrary: fs)
  case (Cons e es)
  then obtain f fs' where "fs = f # fs'" "entry_row e = entry_row f" and r: "map entry_row es = map entry_row fs'" by auto
  moreover have "total_in k es = total_in k fs'" by (rule Cons.IH [OF r])
  ultimately show ?case by (simp add: entry_row_def entry_currency_def)
qed simp

lemma book_all_rows:
  assumes "store_ok S booked" and "book_all S db ns i ts = Inr (txs, db')"
  shows "map entry_row (booked db') = map entry_row (booked db) @ concat (map (map entry_row \<circ> tx_EntryInputs) ts)"
  using assms(2)
proof (induction ts arbitrary: txs db)
  case (Cons t ts)
  obtain tx db1 txs' where b: "ls_BookTransaction S db ns i t = Inr (tx, db1)" "book_all S db1 ns i ts = Inr (txs', db')"
    using Cons.prems by (auto simp: bind_result_Inr wrap_result_Inr)
  have "map entry_row (booked db1) = map entry_row (booked db) @ map entry_row (tx_EntryInputs t)"
    using assms(1) b(1) by (auto simp: store_ok_def)
  then show ?case using Cons.IH [OF b(2)] by simp
qed (simp add: store_ok_def)

text \<open>A commit books all transactions of a group, each of them accepted, or nothing.\<close>

lemma CommitGroup_rows:
  assumes "store_ok S booked" and "CommitGroup known L v S input db = (r, db')"
  shows "\<exists>tss. map entry_row (booked db') = map entry_row (booked db) @ concat (map (map entry_row) tss) \<and>
    (\<forall>es \<in> set tss. accepted_entries known L v es) \<and> (case r of Inl _ \<Rightarrow> db' = db \<and> tss = [] | Inr _ \<Rightarrow> tss = map tx_EntryInputs (tg_Transactions input))"
proof (cases r)
  case (Inl e)
  have "db' = db" using assms(2) Inl
    by (auto simp: CommitGroup_def Run_transaction_def split: if_splits option.splits sum.splits)
  then show ?thesis using Inl by (intro exI [of _ "[]"]) simp
next
  case (Inr g)
  let ?ts = "tg_Transactions input"
  have ok: "first_error (\<lambda>t. map_option (Wrap ''failed to validate transaction in group'')
      (ValidateTransactionInputWith known L (Some t) v)) ?ts = None"
    using assms(2) Inr by (auto simp: CommitGroup_def split: if_splits option.splits)
  then have a: "\<forall>t \<in> set ?ts. accepted_entries known L v (tx_EntryInputs t)"
    by (simp add: first_error_None ValidateTransactionInputWith_None accepted_entries_def)
  obtain i db1 txs where c: "ls_CreateTransactionGroup S db (tg_Namespace input) (tg_Annotations input) = Inr (i, db1)"
    and b: "book_all S db1 (tg_Namespace input) i ?ts = Inr (txs, db')"
    using assms(2) Inr ok
    by (auto simp: CommitGroup_def Run_transaction_def check_then_Inr bind_result_Inr wrap_result_Inr split: if_splits sum.splits)
  have "booked db1 = booked db" using assms(1) c unfolding store_ok_def by blast
  then have "map entry_row (booked db') = map entry_row (booked db) @ concat (map (map entry_row) (map tx_EntryInputs ?ts))"
    using book_all_rows [OF assms(1) b] by (simp add: comp_def)
  then show ?thesis using a Inr by (intro exI [of _ "map tx_EntryInputs ?ts"]) simp
qed

text \<open>
  C5. Whatever groups are committed, with or without errors, every currency stays balanced over all entries in the
  database, and what was added are transactions that each pass the checks of entries, sums and routing.
\<close>

theorem books_balanced:
  assumes "store_ok S booked" and "commits known L v S db db'" and "balanced (booked db)"
  shows "balanced (booked db') \<and>
    (\<exists>tss. map entry_row (booked db') = map entry_row (booked db) @ concat (map (map entry_row) tss) \<and>
       list_all (accepted_entries known L v) tss)"
proof -
  have rows: "\<exists>tss. map entry_row (booked db') = map entry_row (booked db) @ concat (map (map entry_row) tss) \<and>
       list_all (accepted_entries known L v) tss"
    using assms(2)
  proof induction
    case (commits_none db)
    show ?case by (intro exI [of _ "[]"]) simp
  next
    case (commits_one db db1 input r db2)
    obtain tss us where t: "map entry_row (booked db1) = map entry_row (booked db) @ concat (map (map entry_row) tss)"
        "list_all (accepted_entries known L v) tss"
      and u: "map entry_row (booked db2) = map entry_row (booked db1) @ concat (map (map entry_row) us)"
        "\<forall>es \<in> set us. accepted_entries known L v es"
      using commits_one.IH CommitGroup_rows [OF assms(1) commits_one.hyps(2)] by blast
    then show ?case by (intro exI [of _ "tss @ us"]) (auto simp: list_all_iff)
  qed
  then obtain tss where t: "map entry_row (booked db') = map entry_row (booked db) @ concat (map (map entry_row) tss)"
    "list_all (accepted_entries known L v) tss" by blast
  have "total_in k (booked db') = 0" for k
  proof -
    obtain xs ys where xy: "booked db' = xs @ ys" "map entry_row xs = map entry_row (booked db)"
        "map entry_row ys = map entry_row (concat tss)"
      using t(1) by (auto simp: map_concat append_eq_map_conv map_eq_append_conv)
    have "balanced (concat tss)"
      using balanced_concat [of tss "\<lambda>x. x"] t(2) by (simp add: list_all_iff accepted_entries_def)
    moreover have "total_in k xs = total_in k (booked db)" by (rule total_in_rows [OF xy(2)])
    moreover have "total_in k ys = total_in k (concat tss)" by (rule total_in_rows [OF xy(3)])
    ultimately show ?thesis using assms(3) by (simp add: xy(1) balanced_def)
  qed
  then show ?thesis using rows by (simp add: balanced_def)
qed

text \<open>A store in memory, and a transaction of five dollars.\<close>

definition stored_entry :: "string \<Rightarrow> EntryInput \<Rightarrow> Entry" where
  "stored_entry ns e = \<lparr>ei_PostingAddress = ei_PostingAddress e, ei_Amount = ei_Amount e, ei_IdentityKey = ei_IdentityKey e,
     ei_SchemaVersion = ei_SchemaVersion e, ei_SourceChargeID = ei_SourceChargeID e, ei_SpendChargeID = ei_SpendChargeID e,
     ei_Annotations = ei_Annotations e, en_Namespace = ns, en_ID = []\<rparr>"

definition memory_store :: "(Entry list) ledger_store" where
  "memory_store = \<lparr>ls_GetSubAccountByID = (\<lambda>db ns i. Inr (ns, i)), ls_GetAccountByID = (\<lambda>db i. None),
     ls_LockAccountsForPosting = (\<lambda>db is. None), ls_CreateTransactionGroup = (\<lambda>db ns a. Inr (''g'', db)),
     ls_BookTransaction = (\<lambda>db ns i t. Inr (\<lparr>tr_Namespace = ns, tr_ID = ''t'', tr_CreatedAt = 0, tr_BookedAt = tx_BookedAt t,
       tr_Entries = map (stored_entry ns) (tx_EntryInputs t), tr_Annotations = tx_Annotations t\<rparr>,
       db @ map (stored_entry ns) (tx_EntryInputs t)))\<rparr>"

lemma memory_store_ok: "store_ok memory_store (\<lambda>db. db)"
  by (auto simp: store_ok_def memory_store_def stored_entry_def entry_row_def)

definition sample_address :: "string \<Rightarrow> AccountType \<Rightarrow> Route \<Rightarrow> PostingAddress" where
  "sample_address i t r = \<lparr>pa_SubAccountID = i, pa_AccountType = t,
     pa_Route = \<lparr>sr_id = i, sr_key = \<lparr>rk_version = RoutingKeyVersionV1, rk_value = i\<rparr>, sr_route = r\<rparr>\<rparr>"

definition sample_entry :: "string \<Rightarrow> AccountType \<Rightarrow> decimal \<Rightarrow> EntryInput" where
  "sample_entry i t x = \<lparr>ei_PostingAddress = sample_address i t (sample_route [] 100), ei_Amount = x, ei_IdentityKey = [],
     ei_SchemaVersion = EntrySchemaVersionCurrent, ei_SourceChargeID = None, ei_SpendChargeID = None, ei_Annotations = Map.empty\<rparr>"

definition sample_transaction :: TransactionInput where
  "sample_transaction = \<lparr>tx_BookedAt = 1, tx_EntryInputs = [sample_entry ''fbo'' AccountTypeCustomerFBO 5,
     sample_entry ''receivable'' AccountTypeCustomerReceivable (-5)], tx_Annotations = Map.empty\<rparr>"

lemma sample_entry_key: "ValidateEntryIdentityKey (sample_entry i t x) = None"
  by (rule identity_accepted [of _ no_parts])
    (simp_all add: sample_entry_def no_parts_def canonical_parts_def parts_Text_def v1_Text_def)

lemma sample_entry_valid:
  assumes "on_grid 2 x"
  shows "ValidateEntryInput sample_currencies std_decimal_lib (sample_entry i t x) = None"
proof -
  have g: "at_places int_half_away 2 x = x" using assms by (simp add: at_places_fixed)
  show ?thesis unfolding ValidateEntryInput_def sample_entry_key
    by (simp add: validateEntryAmountPrecision_def entry_currency_def sample_entry_def sample_address_def sample_route_def
      NewCurrencyReference_def Code_IsCustom_def Code_Type_def Build_def WithCode_def NewCurrencyBuilder_def NewFiatCurrency_def
      validateFiatCurrencyCode_def sample_currencies_def check_then_def FC_IsRoundedToPrecision_def FC_RoundToPrecision_def
      int32_subunits_def std_decimal_lib_def g FC_Validate_def)
qed

theorem books_balanced_witness:
  "\<exists>db. commits sample_currencies std_decimal_lib None memory_store [] db \<and> length db = 2 \<and> balanced db"
proof -
  let ?g = "\<lparr>tg_Namespace = ''ns'', tg_Transactions = [sample_transaction], tg_Annotations = Map.empty\<rparr>"
  have grid: "on_grid 2 (5 :: rat)" "on_grid 2 (- 5 :: rat)" using on_grid_uminus [of 2 5] by simp_all
  have v: "ValidateTransactionInputWith sample_currencies std_decimal_lib (Some sample_transaction) None = None"
    by (simp add: ValidateTransactionInputWith_None sample_transaction_def sample_entry_valid grid balanced_def)
      (simp add: sample_entry_def sample_address_def entry_currency_def)
  have c: "commits sample_currencies std_decimal_lib None memory_store []
      (snd (CommitGroup sample_currencies std_decimal_lib None memory_store ?g []))"
    by (rule commits_one [OF commits_none]) (simp add: prod_eq_iff)
  moreover have "length (snd (CommitGroup sample_currencies std_decimal_lib None memory_store ?g [])) = 2"
    by (simp add: CommitGroup_def v Run_transaction_def lockAccountsForTransactionInputs_def memory_store_def bind_result_def
        wrap_result_def validateAccountBalancesForTransaction_def check_then_def) (simp add: sample_transaction_def bind_result_def
        wrap_result_def sample_entry_def sample_address_def)
  moreover have "balanced ([] :: Entry list)" by (simp add: balanced_def)
  ultimately show ?thesis using books_balanced [OF memory_store_ok c] by blast
qed

end
