(* ===== verification/RoutingRules.thy ===== *)
theory RoutingRules
  imports LedgerEntries
begin

text \<open>
  The rules for the routes of a transaction (openmeter/ledger/routingrules): the view of its entries, the rules and
  the default validator. The attributes of a violation are left out.
\<close>

definition ErrRoutingRuleViolated :: error where "ErrRoutingRuleViolated = Err ''ledger routing rule violated''"

section \<open>Views (view.go)\<close>

record EntryView =
  ev_entry :: EntryInput
  ev_accountType :: AccountType
  ev_route :: Route

type_synonym TxView = "EntryView list"

definition newEntryView :: "EntryInput \<Rightarrow> EntryView" where
  "newEntryView e = \<lparr>ev_entry = e, ev_accountType = pa_AccountType (ei_PostingAddress e),
     ev_route = sr_route (pa_Route (ei_PostingAddress e))\<rparr>"

definition NewTxView :: "EntryInput list \<Rightarrow> TxView" where
  "NewTxView entries = map newEntryView entries"

definition ev_Amount :: "EntryView \<Rightarrow> decimal" where
  "ev_Amount e = ei_Amount (ev_entry e)"

definition EntriesOf :: "TxView \<Rightarrow> AccountType \<Rightarrow> EntryView list" where
  "EntriesOf t accountType = List.filter (\<lambda>e. ev_accountType e = accountType) t"

definition HasAccountType :: "TxView \<Rightarrow> AccountType \<Rightarrow> bool" where
  "HasAccountType t accountType \<longleftrightarrow> list_ex (\<lambda>e. ev_accountType e = accountType) t"

definition HasAccountTypes :: "TxView \<Rightarrow> AccountType list \<Rightarrow> bool" where
  "HasAccountTypes t accountTypes \<longleftrightarrow> list_all (HasAccountType t) accountTypes"

fun first_occurrences :: "'a list \<Rightarrow> 'a set \<Rightarrow> 'a list" where
  "first_occurrences [] seen = []"
| "first_occurrences (x # xs) seen =
     (if x \<in> seen then first_occurrences xs seen else x # first_occurrences xs (insert x seen))"

definition AccountTypes :: "TxView \<Rightarrow> AccountType list" where
  "AccountTypes t = sort_by (\<lambda>a b. compare_values (account_type_string a) (account_type_string b))
     (first_occurrences (map ev_accountType t) {})"

section \<open>Rules (routingrules.go)\<close>

fun unique_entries :: "TxView \<Rightarrow> (string \<times> string) set \<Rightarrow> error option" where
  "unique_entries [] seen = None"
| "unique_entries (e # es) seen =
     (let key = (pa_SubAccountID (ei_PostingAddress (ev_entry e)), ei_IdentityKey (ev_entry e))
      in if key \<in> seen then Some ErrRoutingRuleViolated else unique_entries es (insert key seen))"

definition RequireUniqueSubAccounts :: "TxView \<Rightarrow> error option" where
  "RequireUniqueSubAccounts t = unique_entries t {}"

definition sameAccountTypeSet :: "AccountType list \<Rightarrow> AccountType list \<Rightarrow> bool" where
  "sameAccountTypeSet left right \<longleftrightarrow>
     (if length left \<noteq> length right then False else list_all (\<lambda>item. item \<in> set left) right)"

definition AllowedAccountSets :: "AccountType list list \<Rightarrow> TxView \<Rightarrow> error option" where
  "AllowedAccountSets sets t =
     (let present = AccountTypes t
      in if present = [] then None
         else if list_ex (sameAccountTypeSet present) sets then None
         else Some ErrRoutingRuleViolated)"

fun mixed_signs :: "bool \<Rightarrow> bool \<Rightarrow> EntryView list \<Rightarrow> bool" where
  "mixed_signs p n [] = False"
| "mixed_signs p n (e # es) =
     (let p = p \<or> 0 < ev_Amount e; n = n \<or> ev_Amount e < 0 in if p \<and> n then True else mixed_signs p n es)"

definition hasMixedSigns :: "EntryView list \<Rightarrow> bool" where
  "hasMixedSigns entries = mixed_signs False False entries"

definition allEntriesPositive :: "EntryView list \<Rightarrow> bool" where
  "allEntriesPositive entries \<longleftrightarrow> list_all (\<lambda>e. 0 < ev_Amount e) entries \<and> 0 < length entries"

definition allEntriesNegative :: "EntryView list \<Rightarrow> bool" where
  "allEntriesNegative entries \<longleftrightarrow> list_all (\<lambda>e. ev_Amount e < 0) entries \<and> 0 < length entries"

definition RequireFlowDirection :: "AccountType \<Rightarrow> AccountType \<Rightarrow> TxView \<Rightarrow> error option" where
  "RequireFlowDirection from to t =
     (if \<not> HasAccountTypes t [from, to] then None
      else let fromEntries = EntriesOf t from; toEntries = EntriesOf t to;
               reversed = (allEntriesPositive fromEntries \<and> allEntriesNegative toEntries)
      in if hasMixedSigns fromEntries \<or> hasMixedSigns toEntries then None
         else if list_ex (\<lambda>e. \<not> ev_Amount e < 0) fromEntries
         then (if reversed then None else Some ErrRoutingRuleViolated)
         else if list_ex (\<lambda>e. \<not> 0 < ev_Amount e) toEntries
         then (if reversed then None else Some ErrRoutingRuleViolated)
         else None)"

datatype RouteField =
  RouteFieldCurrency | RouteFieldCostBasisCurrency | RouteFieldTaxCode | RouteFieldTaxBehavior | RouteFieldFeatures
  | RouteFieldCostBasis | RouteFieldCreditPriority | RouteFieldTransactionAuthorizationStatus | OtherRouteField string

definition sameRouteField :: "Route \<Rightarrow> Route \<Rightarrow> RouteField \<Rightarrow> bool result" where
  "sameRouteField left right field =
     (case field of
        RouteFieldCurrency \<Rightarrow> Inr (CR_Equal (ro_Currency left) (ro_Currency right))
      | RouteFieldCostBasisCurrency \<Rightarrow> Inr (ro_CostBasisCurrency left = ro_CostBasisCurrency right)
      | RouteFieldTaxCode \<Rightarrow> Inr (ro_TaxCode left = ro_TaxCode right)
      | RouteFieldTaxBehavior \<Rightarrow> Inr (ro_TaxBehavior left = ro_TaxBehavior right)
      | RouteFieldFeatures \<Rightarrow> Inr (ro_Features left = ro_Features right)
      | RouteFieldCostBasis \<Rightarrow> Inr (ro_CostBasis left = ro_CostBasis right)
      | RouteFieldCreditPriority \<Rightarrow> Inr (ro_CreditPriority left = ro_CreditPriority right)
      | RouteFieldTransactionAuthorizationStatus \<Rightarrow> Inr (ro_AuthorizationStatus left = ro_AuthorizationStatus right)
      | OtherRouteField s \<Rightarrow> Inl (Err ''unknown route field''))"

fun same_fields :: "Route \<Rightarrow> Route \<Rightarrow> RouteField list \<Rightarrow> bool result" where
  "same_fields left right [] = Inr True"
| "same_fields left right (f # fs) =
     bind_result (sameRouteField left right f) (\<lambda>same. if same then same_fields left right fs else Inr False)"

fun hasMatchingRouteFields :: "EntryView \<Rightarrow> EntryView list \<Rightarrow> RouteField list \<Rightarrow> bool result" where
  "hasMatchingRouteFields entry [] flds = Inr False"
| "hasMatchingRouteFields entry (c # cs) flds =
     bind_result (same_fields (ev_route entry) (ev_route c) flds) (\<lambda>matches.
       if matches then Inr True else hasMatchingRouteFields entry cs flds)"

fun all_matched :: "EntryView list \<Rightarrow> EntryView list \<Rightarrow> RouteField list \<Rightarrow> error option" where
  "all_matched [] others flds = None"
| "all_matched (e # es) others flds =
     (case hasMatchingRouteFields e others flds of
        Inl err \<Rightarrow> Some err
      | Inr matched \<Rightarrow> if \<not> matched then Some ErrRoutingRuleViolated else all_matched es others flds)"

definition requireMatchingRouteFields :: "EntryView list \<Rightarrow> EntryView list \<Rightarrow> RouteField list \<Rightarrow> error option" where
  "requireMatchingRouteFields leftEntries rightEntries flds =
     (case all_matched leftEntries rightEntries flds of
        Some e \<Rightarrow> Some e
      | None \<Rightarrow> all_matched rightEntries leftEntries flds)"

definition RequireSameRoute :: "AccountType \<Rightarrow> AccountType \<Rightarrow> RouteField list \<Rightarrow> TxView \<Rightarrow> error option" where
  "RequireSameRoute left right flds t =
     (if \<not> HasAccountTypes t [left, right] then None
      else requireMatchingRouteFields (EntriesOf t left) (EntriesOf t right) flds)"

definition tax_scope :: "EntryView \<Rightarrow> error option" where
  "tax_scope e =
     (if ev_accountType e \<in> {AccountTypeCustomerAccrued, AccountTypeEarnings}
      then (if ro_TaxCode (ev_route e) = None \<and> ro_TaxBehavior (ev_route e) \<noteq> None then Some ErrRoutingRuleViolated else None)
      else (if ro_TaxCode (ev_route e) \<noteq> None \<or> ro_TaxBehavior (ev_route e) \<noteq> None then Some ErrRoutingRuleViolated else None))"

definition RequireTaxDimensionScope :: "TxView \<Rightarrow> error option" where
  "RequireTaxDimensionScope t = first_error tax_scope t"

definition feature_scope :: "EntryView \<Rightarrow> error option" where
  "feature_scope e =
     (if length (ro_Features (ev_route e)) = 0 then None
      else if ev_accountType e \<in> {AccountTypeCustomerFBO, AccountTypeCustomerReceivable} then None
      else Some ErrRoutingRuleViolated)"

definition RequireFeatureDimensionScope :: "TxView \<Rightarrow> error option" where
  "RequireFeatureDimensionScope t = first_error feature_scope t"

definition requireAuthorizationStatus :: "EntryView list \<Rightarrow> TransactionAuthorizationStatus \<Rightarrow> error option" where
  "requireAuthorizationStatus entries expected =
     first_error (\<lambda>e. if ro_AuthorizationStatus (ev_route e) \<noteq> Some expected then Some ErrRoutingRuleViolated else None) entries"

definition RequireAccountAuthorizationStatus ::
  "AccountType list \<Rightarrow> AccountType \<Rightarrow> TransactionAuthorizationStatus \<Rightarrow> TxView \<Rightarrow> error option" where
  "RequireAccountAuthorizationStatus whenHas accountType expected t =
     (if \<not> HasAccountTypes t whenHas then None else requireAuthorizationStatus (EntriesOf t accountType) expected)"

definition entriesBySign :: "EntryView list \<Rightarrow> EntryView list \<times> EntryView list" where
  "entriesBySign entries = (List.filter (\<lambda>e. ev_Amount e < 0) entries, List.filter (\<lambda>e. 0 < ev_Amount e) entries)"

definition allEntriesHaveAuthorizationStatus :: "EntryView list \<Rightarrow> TransactionAuthorizationStatus \<Rightarrow> bool" where
  "allEntriesHaveAuthorizationStatus entries expected \<longleftrightarrow>
     list_all (\<lambda>e. ro_AuthorizationStatus (ev_route e) = Some expected) entries"

definition requireKnownToUnknownCostBasisTranslation :: "EntryView list \<Rightarrow> EntryView list \<Rightarrow> RouteField list \<Rightarrow> error option" where
  "requireKnownToUnknownCostBasisTranslation knownEntries unknownEntries flds =
     (if list_ex (\<lambda>e. ro_CostBasis (ev_route e) = None) knownEntries then Some ErrRoutingRuleViolated
      else if list_ex (\<lambda>e. ro_CostBasis (ev_route e) \<noteq> None) unknownEntries then Some ErrRoutingRuleViolated
      else requireMatchingRouteFields knownEntries unknownEntries flds)"

definition requireKnownToUnknownCostBasisTranslationEitherDirection ::
  "EntryView list \<Rightarrow> EntryView list \<Rightarrow> RouteField list \<Rightarrow> error option" where
  "requireKnownToUnknownCostBasisTranslationEitherDirection leftEntries rightEntries flds =
     (case requireKnownToUnknownCostBasisTranslation leftEntries rightEntries flds of
        None \<Rightarrow> None
      | Some _ \<Rightarrow> requireKnownToUnknownCostBasisTranslation rightEntries leftEntries flds)"

definition RequireReceivableAuthorizationStage :: "TxView \<Rightarrow> error option" where
  "RequireReceivableAuthorizationStage t =
     (if AccountTypes t \<noteq> [AccountTypeCustomerReceivable] then None
      else case entriesBySign (EntriesOf t AccountTypeCustomerReceivable) of (negativeEntries, positiveEntries) \<Rightarrow>
        if negativeEntries = [] \<or> positiveEntries = [] then Some ErrRoutingRuleViolated
        else if allEntriesHaveAuthorizationStatus negativeEntries TransactionAuthorizationStatusAuthorized \<and>
                allEntriesHaveAuthorizationStatus positiveEntries TransactionAuthorizationStatusOpen
        then requireMatchingRouteFields negativeEntries positiveEntries
               [RouteFieldCurrency, RouteFieldTaxCode, RouteFieldFeatures, RouteFieldCostBasis, RouteFieldCreditPriority]
        else if allEntriesHaveAuthorizationStatus negativeEntries TransactionAuthorizationStatusOpen \<and>
                allEntriesHaveAuthorizationStatus positiveEntries TransactionAuthorizationStatusOpen
        then requireKnownToUnknownCostBasisTranslationEitherDirection negativeEntries positiveEntries
               [RouteFieldCurrency, RouteFieldTaxCode, RouteFieldCreditPriority, RouteFieldTransactionAuthorizationStatus]
        else Some ErrRoutingRuleViolated)"

definition RequireAccruedCostBasisTranslation :: "TxView \<Rightarrow> error option" where
  "RequireAccruedCostBasisTranslation t =
     (if AccountTypes t \<noteq> [AccountTypeCustomerAccrued] then None
      else case entriesBySign (EntriesOf t AccountTypeCustomerAccrued) of (negativeEntries, positiveEntries) \<Rightarrow>
        if negativeEntries = [] \<or> positiveEntries = [] then Some ErrRoutingRuleViolated
        else requireKnownToUnknownCostBasisTranslationEitherDirection negativeEntries positiveEntries
               [RouteFieldCurrency, RouteFieldTaxCode, RouteFieldTaxBehavior])"

definition RequireFBOCostBasisTranslation :: "TxView \<Rightarrow> error option" where
  "RequireFBOCostBasisTranslation t =
     (if AccountTypes t \<noteq> [AccountTypeCustomerFBO] then None
      else case entriesBySign (EntriesOf t AccountTypeCustomerFBO) of (negativeEntries, positiveEntries) \<Rightarrow>
        if negativeEntries = [] \<or> positiveEntries = [] then Some ErrRoutingRuleViolated
        else requireKnownToUnknownCostBasisTranslationEitherDirection positiveEntries negativeEntries
               [RouteFieldCurrency, RouteFieldFeatures, RouteFieldCreditPriority])"

section \<open>The validator (routingrules.go, defaults.go)\<close>

type_synonym RoutingRule = "TxView \<Rightarrow> error option"

definition ValidateEntries :: "RoutingRule list \<Rightarrow> EntryInput list \<Rightarrow> error option" where
  "ValidateEntries rules entries = (let view = NewTxView entries in first_error (\<lambda>rule. rule view) rules)"

definition default_account_sets :: "AccountType list list" where
  "default_account_sets =
     [[AccountTypeCustomerFBO, AccountTypeCustomerReceivable], [AccountTypeCustomerReceivable], [AccountTypeCustomerFBO],
      [AccountTypeCustomerAccrued], [AccountTypeCustomerFBO, AccountTypeCustomerAccrued],
      [AccountTypeCustomerReceivable, AccountTypeCustomerAccrued], [AccountTypeCustomerReceivable, AccountTypeWash],
      [AccountTypeCustomerAccrued, AccountTypeEarnings], [AccountTypeCustomerFBO, AccountTypeBrokerage],
      [AccountTypeCustomerReceivable, AccountTypeBrokerage], [AccountTypeCustomerFBO, AccountTypeBreakage]]"

definition DefaultValidator :: "RoutingRule list" where
  "DefaultValidator =
     [RequireUniqueSubAccounts, RequireTaxDimensionScope, RequireFeatureDimensionScope, AllowedAccountSets default_account_sets,
      RequireFlowDirection AccountTypeCustomerFBO AccountTypeCustomerAccrued,
      RequireFlowDirection AccountTypeCustomerReceivable AccountTypeCustomerAccrued,
      RequireFlowDirection AccountTypeCustomerAccrued AccountTypeEarnings,
      RequireFlowDirection AccountTypeWash AccountTypeCustomerReceivable,
      RequireFlowDirection AccountTypeCustomerFBO AccountTypeBreakage,
      RequireAccountAuthorizationStatus [AccountTypeWash, AccountTypeCustomerReceivable] AccountTypeCustomerReceivable
        TransactionAuthorizationStatusAuthorized,
      RequireReceivableAuthorizationStage, RequireFBOCostBasisTranslation, RequireAccruedCostBasisTranslation,
      RequireSameRoute AccountTypeCustomerFBO AccountTypeCustomerReceivable
        [RouteFieldCurrency, RouteFieldFeatures, RouteFieldCostBasis, RouteFieldCostBasisCurrency],
      RequireSameRoute AccountTypeCustomerFBO AccountTypeCustomerAccrued
        [RouteFieldCurrency, RouteFieldCostBasis, RouteFieldCostBasisCurrency],
      RequireSameRoute AccountTypeCustomerReceivable AccountTypeCustomerAccrued
        [RouteFieldCurrency, RouteFieldCostBasis, RouteFieldCostBasisCurrency],
      RequireSameRoute AccountTypeCustomerAccrued AccountTypeEarnings
        [RouteFieldCurrency, RouteFieldTaxCode, RouteFieldTaxBehavior, RouteFieldCostBasis, RouteFieldCostBasisCurrency],
      RequireSameRoute AccountTypeCustomerReceivable AccountTypeWash
        [RouteFieldCurrency, RouteFieldCostBasis, RouteFieldCostBasisCurrency],
      RequireSameRoute AccountTypeCustomerFBO AccountTypeBreakage
        [RouteFieldCurrency, RouteFieldCostBasis, RouteFieldCostBasisCurrency]]"

section \<open>The policy the default rules decide\<close>

text \<open>The policy in terms of sets of entries, without order, loops and early returns.\<close>

definition of_type :: "AccountType \<Rightarrow> EntryView set \<Rightarrow> EntryView set" where
  "of_type t V = {e \<in> V. ev_accountType e = t}"

definition agree :: "RouteField list \<Rightarrow> EntryView \<Rightarrow> EntryView \<Rightarrow> bool" where
  "agree flds e c \<longleftrightarrow> (\<forall>f \<in> set flds. sameRouteField (ev_route e) (ev_route c) f = Inr True)"

definition paired :: "RouteField list \<Rightarrow> EntryView set \<Rightarrow> EntryView set \<Rightarrow> bool" where
  "paired flds X Y \<longleftrightarrow> (\<forall>x \<in> X. \<exists>y \<in> Y. agree flds x y) \<and> (\<forall>y \<in> Y. \<exists>x \<in> X. agree flds y x)"

definition negative :: "EntryView set \<Rightarrow> EntryView set" where "negative X = {e \<in> X. ev_Amount e < 0}"
definition positive :: "EntryView set \<Rightarrow> EntryView set" where "positive X = {e \<in> X. 0 < ev_Amount e}"

text \<open>Value flows from one side to the other, or back, unless one side has entries of both signs.\<close>

definition flows :: "AccountType \<Rightarrow> AccountType \<Rightarrow> EntryView set \<Rightarrow> bool" where
  "flows a b V \<longleftrightarrow>
     (let F = of_type a V; T = of_type b V in
      F \<noteq> {} \<longrightarrow> T \<noteq> {} \<longrightarrow>
        negative F \<noteq> {} \<and> positive F \<noteq> {} \<or> negative T \<noteq> {} \<and> positive T \<noteq> {} \<or>
        F = negative F \<and> T = positive T \<or> F = positive F \<and> T = negative T)"

definition same_route_between :: "AccountType \<Rightarrow> AccountType \<Rightarrow> RouteField list \<Rightarrow> EntryView set \<Rightarrow> bool" where
  "same_route_between a b flds V \<longleftrightarrow>
     (of_type a V \<noteq> {} \<longrightarrow> of_type b V \<noteq> {} \<longrightarrow> paired flds (of_type a V) (of_type b V))"

definition translates :: "RouteField list \<Rightarrow> EntryView set \<Rightarrow> EntryView set \<Rightarrow> bool" where
  "translates flds X Y \<longleftrightarrow> paired flds X Y \<and>
     ((\<forall>e \<in> X. ro_CostBasis (ev_route e) \<noteq> None) \<and> (\<forall>e \<in> Y. ro_CostBasis (ev_route e) = None) \<or>
      (\<forall>e \<in> X. ro_CostBasis (ev_route e) = None) \<and> (\<forall>e \<in> Y. ro_CostBasis (ev_route e) \<noteq> None))"

text \<open>A transaction inside one account moves value from a negative to a positive side.\<close>

definition inside :: "AccountType \<Rightarrow> (EntryView set \<Rightarrow> EntryView set \<Rightarrow> bool) \<Rightarrow> EntryView set \<Rightarrow> bool" where
  "inside a P V \<longleftrightarrow> (ev_accountType ` V = {a} \<longrightarrow> negative V \<noteq> {} \<and> positive V \<noteq> {} \<and> P (negative V) (positive V))"

definition has_status :: "TransactionAuthorizationStatus \<Rightarrow> EntryView set \<Rightarrow> bool" where
  "has_status s X \<longleftrightarrow> (\<forall>e \<in> X. ro_AuthorizationStatus (ev_route e) = Some s)"

definition receivable_stage :: "EntryView set \<Rightarrow> EntryView set \<Rightarrow> bool" where
  "receivable_stage X Y \<longleftrightarrow>
     (has_status TransactionAuthorizationStatusAuthorized X \<and> has_status TransactionAuthorizationStatusOpen Y \<and>
        paired [RouteFieldCurrency, RouteFieldTaxCode, RouteFieldFeatures, RouteFieldCostBasis, RouteFieldCreditPriority] X Y) \<or>
     (has_status TransactionAuthorizationStatusOpen X \<and> has_status TransactionAuthorizationStatusOpen Y \<and>
        translates [RouteFieldCurrency, RouteFieldTaxCode, RouteFieldCreditPriority, RouteFieldTransactionAuthorizationStatus] X Y)"

definition routing_policy :: "EntryView set \<Rightarrow> bool" where
  "routing_policy V \<longleftrightarrow>
     (\<forall>e \<in> V. if ev_accountType e \<in> {AccountTypeCustomerAccrued, AccountTypeEarnings}
        then ro_TaxCode (ev_route e) = None \<longrightarrow> ro_TaxBehavior (ev_route e) = None
        else ro_TaxCode (ev_route e) = None \<and> ro_TaxBehavior (ev_route e) = None) \<and>
     (\<forall>e \<in> V. ro_Features (ev_route e) \<noteq> [] \<longrightarrow> ev_accountType e \<in> {AccountTypeCustomerFBO, AccountTypeCustomerReceivable}) \<and>
     (V \<noteq> {} \<longrightarrow> ev_accountType ` V \<in> set ` set default_account_sets) \<and>
     flows AccountTypeCustomerFBO AccountTypeCustomerAccrued V \<and>
     flows AccountTypeCustomerReceivable AccountTypeCustomerAccrued V \<and>
     flows AccountTypeCustomerAccrued AccountTypeEarnings V \<and>
     flows AccountTypeWash AccountTypeCustomerReceivable V \<and>
     flows AccountTypeCustomerFBO AccountTypeBreakage V \<and>
     (of_type AccountTypeWash V \<noteq> {} \<longrightarrow> has_status TransactionAuthorizationStatusAuthorized (of_type AccountTypeCustomerReceivable V)) \<and>
     inside AccountTypeCustomerReceivable receivable_stage V \<and>
     inside AccountTypeCustomerFBO (\<lambda>X Y. translates [RouteFieldCurrency, RouteFieldFeatures, RouteFieldCreditPriority] Y X) V \<and>
     inside AccountTypeCustomerAccrued (translates [RouteFieldCurrency, RouteFieldTaxCode, RouteFieldTaxBehavior]) V \<and>
     same_route_between AccountTypeCustomerFBO AccountTypeCustomerReceivable
       [RouteFieldCurrency, RouteFieldFeatures, RouteFieldCostBasis, RouteFieldCostBasisCurrency] V \<and>
     same_route_between AccountTypeCustomerFBO AccountTypeCustomerAccrued
       [RouteFieldCurrency, RouteFieldCostBasis, RouteFieldCostBasisCurrency] V \<and>
     same_route_between AccountTypeCustomerReceivable AccountTypeCustomerAccrued
       [RouteFieldCurrency, RouteFieldCostBasis, RouteFieldCostBasisCurrency] V \<and>
     same_route_between AccountTypeCustomerAccrued AccountTypeEarnings
       [RouteFieldCurrency, RouteFieldTaxCode, RouteFieldTaxBehavior, RouteFieldCostBasis, RouteFieldCostBasisCurrency] V \<and>
     same_route_between AccountTypeCustomerReceivable AccountTypeWash
       [RouteFieldCurrency, RouteFieldCostBasis, RouteFieldCostBasisCurrency] V \<and>
     same_route_between AccountTypeCustomerFBO AccountTypeBreakage
       [RouteFieldCurrency, RouteFieldCostBasis, RouteFieldCostBasisCurrency] V"

subsection \<open>Each rule decides its part\<close>

definition known_field :: "RouteField \<Rightarrow> bool" where
  "known_field f \<longleftrightarrow> (case f of OtherRouteField _ \<Rightarrow> False | _ \<Rightarrow> True)"

lemma sameRouteField_known: "known_field f \<Longrightarrow> \<exists>b. sameRouteField l r f = Inr b"
  by (cases f) (simp_all add: known_field_def sameRouteField_def)

lemma same_fields_known:
  "list_all known_field flds \<Longrightarrow> same_fields l r flds = Inr (\<forall>f \<in> set flds. sameRouteField l r f = Inr True)"
proof (induction flds)
  case (Cons f flds)
  then obtain b where "sameRouteField l r f = Inr b" using sameRouteField_known [of f l r] by auto
  then show ?case using Cons by simp
qed simp

lemma hasMatchingRouteFields_known:
  "list_all known_field flds \<Longrightarrow> hasMatchingRouteFields e cs flds = Inr (\<exists>c \<in> set cs. agree flds e c)"
  by (induction cs) (auto simp: same_fields_known agree_def [symmetric])

lemma all_matched_None:
  "list_all known_field flds \<Longrightarrow> all_matched es cs flds = None \<longleftrightarrow> (\<forall>e \<in> set es. \<exists>c \<in> set cs. agree flds e c)"
  by (induction es) (simp_all add: hasMatchingRouteFields_known)

lemma requireMatching_None:
  "list_all known_field flds \<Longrightarrow> requireMatchingRouteFields xs ys flds = None \<longleftrightarrow> paired flds (set xs) (set ys)"
  by (simp add: requireMatchingRouteFields_def none_chain all_matched_None paired_def)

lemma set_EntriesOf [simp]: "set (EntriesOf t a) = of_type a (set t)"
  by (auto simp: EntriesOf_def of_type_def)

lemma HasAccountTypes_iff: "HasAccountTypes t as \<longleftrightarrow> (\<forall>a \<in> set as. of_type a (set t) \<noteq> {})"
  by (auto simp: HasAccountTypes_def HasAccountType_def list_all_iff list_ex_iff of_type_def)

lemma first_occurrences_set: "set (first_occurrences xs S) = set xs - S \<and> distinct (first_occurrences xs S)"
  by (induction xs arbitrary: S) auto

lemma AccountTypes_set [simp]: "set (AccountTypes t) = ev_accountType ` set t" "distinct (AccountTypes t)"
  by (simp_all add: AccountTypes_def first_occurrences_set)

lemma AccountTypes_single: "AccountTypes t = [a] \<longleftrightarrow> ev_accountType ` set t = {a}"
proof
  assume "ev_accountType ` set t = {a}"
  then have "set (AccountTypes t) = {a}" "distinct (AccountTypes t)" by simp_all
  then show "AccountTypes t = [a]"
    by (cases "AccountTypes t"; cases "tl (AccountTypes t)") auto
qed (metis AccountTypes_set(1) list.simps(15) list.set(1))

lemma AccountTypes_Nil: "AccountTypes t = [] \<longleftrightarrow> t = []"
  by (metis AccountTypes_set(1) image_is_empty set_empty)

lemma sameAccountTypeSet_iff: "distinct xs \<Longrightarrow> distinct ys \<Longrightarrow> sameAccountTypeSet xs ys \<longleftrightarrow> set xs = set ys"
  by (auto simp: sameAccountTypeSet_def list_all_iff dest: distinct_card) (metis card_subset_eq distinct_card finite_set subsetI)+

lemma unique_entries_None:
  "unique_entries t S = None \<longleftrightarrow>
     distinct (map (\<lambda>e. (pa_SubAccountID (ei_PostingAddress (ev_entry e)), ei_IdentityKey (ev_entry e))) t) \<and>
     (\<lambda>e. (pa_SubAccountID (ei_PostingAddress (ev_entry e)), ei_IdentityKey (ev_entry e))) ` set t \<inter> S = {}"
  by (induction t arbitrary: S) (auto simp: Let_def)

lemma mixed_signs_iff:
  "\<not> (p \<and> n) \<Longrightarrow> mixed_signs p n es \<longleftrightarrow> (p \<or> (\<exists>e \<in> set es. 0 < ev_Amount e)) \<and> (n \<or> (\<exists>e \<in> set es. ev_Amount e < 0))"
  by (induction es arbitrary: p n) (auto simp: Let_def)

lemma hasMixedSigns_iff: "hasMixedSigns es \<longleftrightarrow> negative (set es) \<noteq> {} \<and> positive (set es) \<noteq> {}"
  by (auto simp: hasMixedSigns_def mixed_signs_iff negative_def positive_def)

lemma allEntries_iff:
  "allEntriesPositive es \<longleftrightarrow> set es = positive (set es) \<and> set es \<noteq> {}"
  "allEntriesNegative es \<longleftrightarrow> set es = negative (set es) \<and> set es \<noteq> {}"
  by (auto simp: allEntriesPositive_def allEntriesNegative_def list_all_iff positive_def negative_def)

lemma all_signs:
  "X = negative X \<longleftrightarrow> (\<forall>e \<in> X. ev_Amount e < 0)" "X = positive X \<longleftrightarrow> (\<forall>e \<in> X. 0 < ev_Amount e)"
  by (auto simp: negative_def positive_def)

lemma RequireFlowDirection_None: "RequireFlowDirection a b t = None \<longleftrightarrow> flows a b (set t)"
proof (cases "of_type a (set t) \<noteq> {} \<and> of_type b (set t) \<noteq> {}")
  case True
  let ?F = "of_type a (set t)" and ?T = "of_type b (set t)"
  have f: "list_ex (\<lambda>e. \<not> ev_Amount e < 0) (EntriesOf t a) \<longleftrightarrow> ?F \<noteq> negative ?F"
    "list_ex (\<lambda>e. \<not> 0 < ev_Amount e) (EntriesOf t b) \<longleftrightarrow> ?T \<noteq> positive ?T"
    by (simp_all add: list_ex_iff all_signs)
  show ?thesis
  proof (cases "negative ?F \<noteq> {} \<and> positive ?F \<noteq> {} \<or> negative ?T \<noteq> {} \<and> positive ?T \<noteq> {}")
    case mixed: True
    then show ?thesis using True by (auto simp: RequireFlowDirection_def HasAccountTypes_iff Let_def hasMixedSigns_iff flows_def)
  next
    case False
    have "RequireFlowDirection a b t = None \<longleftrightarrow> ?F = negative ?F \<and> ?T = positive ?T \<or> ?F = positive ?F \<and> ?T = negative ?T"
    proof -
      have h: "HasAccountTypes t [a, b]" "\<not> hasMixedSigns (EntriesOf t a)" "\<not> hasMixedSigns (EntriesOf t b)"
        using True False unfolding HasAccountTypes_iff hasMixedSigns_iff set_EntriesOf by auto
      have "allEntriesPositive (EntriesOf t a) \<longleftrightarrow> ?F = positive ?F" "allEntriesNegative (EntriesOf t b) \<longleftrightarrow> ?T = negative ?T"
        using True unfolding allEntries_iff set_EntriesOf by blast+
      then show ?thesis using h f unfolding RequireFlowDirection_def Let_def by (cases "?F = negative ?F"; cases "?T = positive ?T") simp_all
    qed
    then show ?thesis using True False unfolding flows_def Let_def by blast
  qed
next
  case False
  then show ?thesis by (auto simp: RequireFlowDirection_def HasAccountTypes_iff flows_def Let_def)
qed

lemma RequireSameRoute_None:
  "list_all known_field flds \<Longrightarrow> RequireSameRoute a b flds t = None \<longleftrightarrow> same_route_between a b flds (set t)"
  by (simp add: RequireSameRoute_def HasAccountTypes_iff requireMatching_None same_route_between_def)

lemma scope_None:
  "RequireTaxDimensionScope t = None \<longleftrightarrow> (\<forall>e \<in> set t. if ev_accountType e \<in> {AccountTypeCustomerAccrued, AccountTypeEarnings}
        then ro_TaxCode (ev_route e) = None \<longrightarrow> ro_TaxBehavior (ev_route e) = None
        else ro_TaxCode (ev_route e) = None \<and> ro_TaxBehavior (ev_route e) = None)"
  "RequireFeatureDimensionScope t = None \<longleftrightarrow> (\<forall>e \<in> set t. ro_Features (ev_route e) \<noteq> [] \<longrightarrow>
        ev_accountType e \<in> {AccountTypeCustomerFBO, AccountTypeCustomerReceivable})"
proof -
  have "tax_scope e = None \<longleftrightarrow> (if ev_accountType e \<in> {AccountTypeCustomerAccrued, AccountTypeEarnings}
        then ro_TaxCode (ev_route e) = None \<longrightarrow> ro_TaxBehavior (ev_route e) = None
        else ro_TaxCode (ev_route e) = None \<and> ro_TaxBehavior (ev_route e) = None)" for e
    by (cases "ev_accountType e \<in> {AccountTypeCustomerAccrued, AccountTypeEarnings}"; cases "ro_TaxCode (ev_route e)")
      (simp_all add: tax_scope_def)
  then show "RequireTaxDimensionScope t = None \<longleftrightarrow> (\<forall>e \<in> set t. if ev_accountType e \<in> {AccountTypeCustomerAccrued, AccountTypeEarnings}
        then ro_TaxCode (ev_route e) = None \<longrightarrow> ro_TaxBehavior (ev_route e) = None
        else ro_TaxCode (ev_route e) = None \<and> ro_TaxBehavior (ev_route e) = None)"
    by (simp only: RequireTaxDimensionScope_def first_error_None)
  have "feature_scope e = None \<longleftrightarrow> (ro_Features (ev_route e) \<noteq> [] \<longrightarrow>
        ev_accountType e \<in> {AccountTypeCustomerFBO, AccountTypeCustomerReceivable})" for e
    by (simp add: feature_scope_def)
  then show "RequireFeatureDimensionScope t = None \<longleftrightarrow> (\<forall>e \<in> set t. ro_Features (ev_route e) \<noteq> [] \<longrightarrow>
        ev_accountType e \<in> {AccountTypeCustomerFBO, AccountTypeCustomerReceivable})"
    by (simp only: RequireFeatureDimensionScope_def first_error_None)
qed

lemma AllowedAccountSets_None:
  assumes "\<forall>s \<in> set sets. distinct s"
  shows "AllowedAccountSets sets t = None \<longleftrightarrow> (set t \<noteq> {} \<longrightarrow> ev_accountType ` set t \<in> set ` set sets)"
  using assms by (auto simp: AllowedAccountSets_def Let_def AccountTypes_Nil list_ex_iff sameAccountTypeSet_iff)

lemma RequireAccountAuthorizationStatus_None:
  "RequireAccountAuthorizationStatus [a, b] b s t = None \<longleftrightarrow> (of_type a (set t) \<noteq> {} \<longrightarrow> has_status s (of_type b (set t)))"
  by (auto simp: RequireAccountAuthorizationStatus_def HasAccountTypes_iff requireAuthorizationStatus_def first_error_None has_status_def)

lemma either_direction_None:
  assumes "list_all known_field flds" and "xs \<noteq> []" and "ys \<noteq> []"
  shows "requireKnownToUnknownCostBasisTranslationEitherDirection xs ys flds = None \<longleftrightarrow> translates flds (set xs) (set ys)"
proof -
  have one: "requireKnownToUnknownCostBasisTranslation us vs flds = None \<longleftrightarrow>
      (\<forall>e \<in> set us. ro_CostBasis (ev_route e) \<noteq> None) \<and> (\<forall>e \<in> set vs. ro_CostBasis (ev_route e) = None) \<and> paired flds (set us) (set vs)"
    for us vs
    using assms(1) by (simp add: requireKnownToUnknownCostBasisTranslation_def list_ex_iff requireMatching_None)
  have sym: "paired flds Y X \<longleftrightarrow> paired flds X Y" for X Y by (auto simp: paired_def)
  have "requireKnownToUnknownCostBasisTranslationEitherDirection xs ys flds = None \<longleftrightarrow>
      requireKnownToUnknownCostBasisTranslation xs ys flds = None \<or> requireKnownToUnknownCostBasisTranslation ys xs flds = None"
    by (cases "requireKnownToUnknownCostBasisTranslation xs ys flds")
      (simp_all add: requireKnownToUnknownCostBasisTranslationEitherDirection_def)
  then show ?thesis unfolding translates_def one sym [of "set ys"] by blast
qed

lemma entriesBySign_sets:
  assumes "entriesBySign (EntriesOf t a) = (ns, ps)" and "ev_accountType ` set t = {a}"
  shows "set ns = negative (set t)" "set ps = positive (set t)"
proof -
  have "of_type a (set t) = set t" using assms(2) by (auto simp: of_type_def)
  then have o: "set (EntriesOf t a) = set t" by simp
  have "ns = List.filter (\<lambda>e. ev_Amount e < 0) (EntriesOf t a)" "ps = List.filter (\<lambda>e. 0 < ev_Amount e) (EntriesOf t a)"
    using assms(1) by (simp_all add: entriesBySign_def)
  then show "set ns = negative (set t)" "set ps = positive (set t)"
    by (simp_all only: set_filter o negative_def positive_def)
qed

lemma RequireFBOCostBasisTranslation_None:
  "RequireFBOCostBasisTranslation t = None \<longleftrightarrow> inside AccountTypeCustomerFBO
     (\<lambda>X Y. translates [RouteFieldCurrency, RouteFieldFeatures, RouteFieldCreditPriority] Y X) (set t)"
  "RequireAccruedCostBasisTranslation t = None \<longleftrightarrow> inside AccountTypeCustomerAccrued
     (translates [RouteFieldCurrency, RouteFieldTaxCode, RouteFieldTaxBehavior]) (set t)"
  "RequireReceivableAuthorizationStage t = None \<longleftrightarrow> inside AccountTypeCustomerReceivable receivable_stage (set t)"
proof -
  let ?go = "\<lambda>a. ev_accountType ` set t = {a}"
  have n: "xs = [] \<longleftrightarrow> set xs = {}" for xs :: "EntryView list" by simp
  show "RequireFBOCostBasisTranslation t = None \<longleftrightarrow> inside AccountTypeCustomerFBO
     (\<lambda>X Y. translates [RouteFieldCurrency, RouteFieldFeatures, RouteFieldCreditPriority] Y X) (set t)"
  proof (cases "?go AccountTypeCustomerFBO")
    case True
    obtain ns ps where e: "entriesBySign (EntriesOf t AccountTypeCustomerFBO) = (ns, ps)" by force
    note s = entriesBySign_sets [OF e True]
    show ?thesis
    proof (cases "ns = [] \<or> ps = []")
      case empty: True
      then show ?thesis using True e s by (auto simp: RequireFBOCostBasisTranslation_def AccountTypes_single inside_def)
    next
      case False
      then show ?thesis using True e s n [of ns] n [of ps]
        by (simp add: RequireFBOCostBasisTranslation_def AccountTypes_single inside_def either_direction_None known_field_def)
    qed
  qed (simp add: RequireFBOCostBasisTranslation_def AccountTypes_single inside_def)
  show "RequireAccruedCostBasisTranslation t = None \<longleftrightarrow> inside AccountTypeCustomerAccrued
     (translates [RouteFieldCurrency, RouteFieldTaxCode, RouteFieldTaxBehavior]) (set t)"
  proof (cases "?go AccountTypeCustomerAccrued")
    case True
    obtain ns ps where e: "entriesBySign (EntriesOf t AccountTypeCustomerAccrued) = (ns, ps)" by force
    note s = entriesBySign_sets [OF e True]
    show ?thesis
    proof (cases "ns = [] \<or> ps = []")
      case empty: True
      then show ?thesis using True e s by (auto simp: RequireAccruedCostBasisTranslation_def AccountTypes_single inside_def)
    next
      case False
      then show ?thesis using True e s n [of ns] n [of ps]
        by (simp add: RequireAccruedCostBasisTranslation_def AccountTypes_single inside_def either_direction_None known_field_def)
    qed
  qed (simp add: RequireAccruedCostBasisTranslation_def AccountTypes_single inside_def)
  show "RequireReceivableAuthorizationStage t = None \<longleftrightarrow> inside AccountTypeCustomerReceivable receivable_stage (set t)"
  proof (cases "?go AccountTypeCustomerReceivable")
    case True
    obtain ns ps where e: "entriesBySign (EntriesOf t AccountTypeCustomerReceivable) = (ns, ps)" by force
    note s = entriesBySign_sets [OF e True]
    have st: "allEntriesHaveAuthorizationStatus xs a \<longleftrightarrow> has_status a (set xs)" for xs a
      by (simp add: allEntriesHaveAuthorizationStatus_def has_status_def list_all_iff)
    show ?thesis
    proof (cases "ns = [] \<or> ps = []")
      case empty: True
      then show ?thesis using True e s by (auto simp: RequireReceivableAuthorizationStage_def AccountTypes_single inside_def)
    next
      case False
      have no: "\<not> (has_status TransactionAuthorizationStatusAuthorized (set ns) \<and> has_status TransactionAuthorizationStatusOpen (set ns))"
        using False by (cases ns) (auto simp: has_status_def)
      have k: "list_all known_field [RouteFieldCurrency, RouteFieldTaxCode, RouteFieldFeatures, RouteFieldCostBasis, RouteFieldCreditPriority]"
        "list_all known_field [RouteFieldCurrency, RouteFieldTaxCode, RouteFieldCreditPriority, RouteFieldTransactionAuthorizationStatus]"
        by (simp_all add: known_field_def)
      have l: "inside AccountTypeCustomerReceivable receivable_stage (set t) \<longleftrightarrow> receivable_stage (set ns) (set ps)"
        using False True s n [of ns] n [of ps] by (simp add: inside_def)
      have "ns \<noteq> []" "ps \<noteq> []" using False by simp_all
      then show ?thesis unfolding l receivable_stage_def using True no
        by (simp add: RequireReceivableAuthorizationStage_def AccountTypes_single e st requireMatching_None [OF k(1)]
            either_direction_None [OF k(2)]) blast
    qed
  qed (simp add: RequireReceivableAuthorizationStage_def AccountTypes_single inside_def)
qed

lemma list_ex_first_error: "first_error c (x # xs) = None \<longleftrightarrow> c x = None \<and> first_error c xs = None"
  by (simp add: none_chain)

definition entry_key :: "EntryInput \<Rightarrow> string \<times> string" where
  "entry_key e = (pa_SubAccountID (ei_PostingAddress e), ei_IdentityKey e)"

lemma RequireUniqueSubAccounts_None: "RequireUniqueSubAccounts (NewTxView es) = None \<longleftrightarrow> distinct (map entry_key es)"
  by (simp add: RequireUniqueSubAccounts_def unique_entries_None NewTxView_def newEntryView_def comp_def entry_key_def [abs_def])

lemma DefaultValidator_policy:
  "ValidateEntries DefaultValidator es = None \<longleftrightarrow> distinct (map entry_key es) \<and> routing_policy (newEntryView ` set es)"
proof -
  have v: "set (NewTxView es) = newEntryView ` set es" by (simp add: NewTxView_def)
  have d: "\<forall>s \<in> set default_account_sets. distinct s" by (simp add: default_account_sets_def)
  have k: "list_all known_field [RouteFieldCurrency, RouteFieldFeatures, RouteFieldCostBasis, RouteFieldCostBasisCurrency]"
    "list_all known_field [RouteFieldCurrency, RouteFieldCostBasis, RouteFieldCostBasisCurrency]"
    "list_all known_field [RouteFieldCurrency, RouteFieldTaxCode, RouteFieldTaxBehavior, RouteFieldCostBasis, RouteFieldCostBasisCurrency]"
    by (simp_all add: known_field_def)
  show ?thesis
    unfolding ValidateEntries_def Let_def DefaultValidator_def list_ex_first_error first_error.simps(1) RequireUniqueSubAccounts_None scope_None
      AllowedAccountSets_None [OF d] RequireFlowDirection_None RequireAccountAuthorizationStatus_None
      RequireFBOCostBasisTranslation_None RequireSameRoute_None [OF k(1)] RequireSameRoute_None [OF k(2)] RequireSameRoute_None [OF k(3)]
      v routing_policy_def
    by (simp only: simp_thms)
qed

text \<open>
  C4. The default validator decides a policy on the set of entries: no sub-account is booked twice under one identity, tax
  and feature dimensions stay on their accounts, account types are combined as allowed, value flows in one direction or is
  reversed as a whole, and the sides of a flow agree in the dimensions they share. As the policy is one of sets, the order of the entries does not matter.
\<close>

theorem DefaultValidator_exact:
  "ValidateEntries DefaultValidator es = None \<longleftrightarrow> distinct (map entry_key es) \<and> routing_policy (newEntryView ` set es)"
  by (rule DefaultValidator_policy)

end
