(* ===== verification/LedgerAccounts.thy ===== *)
theory LedgerAccounts
  imports RoutingRules
begin

text \<open>
  The accounts of the ledger (openmeter/ledger/account.go, accounts.go, account/*.go, annotations.go): what a sub-account is
  built from, the parameters that select one, and how an account finds or creates it. The rows of accounts and the balances
  are parameters. Services and contexts are left out; accounts and addresses are never nil.
\<close>

section \<open>Sub-accounts (account/address.go, account/subaccount.go)\<close>

record SubAccountData =
  sd_ID :: string
  sd_Namespace :: string
  sd_AccountID :: string
  sd_AccountType :: AccountType
  sd_Route :: Route
  sd_RouteID :: string
  sd_RoutingKeyVersion :: RoutingKeyVersion
  sd_RoutingKey :: string

record SubAccount =
  sa_Address :: PostingAddress
  sa_AccountID :: "string \<times> string"
  sa_Route :: Route

record AddressData =
  ad_SubAccountID :: string
  ad_AccountType :: AccountType
  ad_Route :: Route
  ad_RouteID :: string
  ad_RoutingKey :: RoutingKey

definition newSubAccountRouteFromAddressData :: "known_currencies \<Rightarrow> AddressData \<Rightarrow> SubAccountRoute result" where
  "newSubAccountRouteFromAddressData known d =
     (if ad_SubAccountID d = [] then Inl (Err ''sub-account id is required'')
      else check_then (map_option (Wrap ''account type'') (AccountType_Validate (ad_AccountType d)))
        (if ad_RouteID d = [] then Inl (Err ''route id is required'')
         else wrap_result ''route'' (NewSubAccountRouteFromData known (ad_RouteID d) (ad_RoutingKey d) (ad_Route d))))"

definition NewAddressFromData :: "known_currencies \<Rightarrow> AddressData \<Rightarrow> PostingAddress result" where
  "NewAddressFromData known d =
     bind_result (newSubAccountRouteFromAddressData known d) (\<lambda>subRoute.
       Inr \<lparr>pa_SubAccountID = ad_SubAccountID d, pa_AccountType = ad_AccountType d, pa_Route = subRoute\<rparr>)"

definition NewSubAccountFromData :: "known_currencies \<Rightarrow> SubAccountData \<Rightarrow> SubAccount result" where
  "NewSubAccountFromData known d =
     bind_result (wrap_result ''routing key'' (NewRoutingKey (sd_RoutingKeyVersion d) (sd_RoutingKey d))) (\<lambda>key.
     bind_result (wrap_result ''posting address'' (NewAddressFromData known
         \<lparr>ad_SubAccountID = sd_ID d, ad_AccountType = sd_AccountType d, ad_Route = sd_Route d, ad_RouteID = sd_RouteID d,
          ad_RoutingKey = key\<rparr>)) (\<lambda>addr.
       Inr \<lparr>sa_Address = addr, sa_AccountID = (sd_Namespace d, sd_AccountID d), sa_Route = sd_Route d\<rparr>))"

section \<open>Finding and creating them (account.go, account/service/service.go)\<close>

record CreateSubAccountInput =
  cs_Namespace :: string
  cs_AccountID :: string
  cs_Route :: Route

definition CS_Validate :: "known_currencies \<Rightarrow> CreateSubAccountInput \<Rightarrow> error option" where
  "CS_Validate known c =
     (if cs_AccountID c = [] then Some (GenericValidation (Err ''account id is required''))
      else if cs_Namespace c = [] then Some (GenericValidation (Err ''namespace is required''))
      else map_option GenericValidation (Route_Validate known (cs_Route c)))"

text \<open>The customer and business accounts by namespace and ID.\<close>

record Account =
  an_Namespace :: string
  an_ID :: string

record CustomerAccounts =
  ca_FBOAccount :: Account
  ca_ReceivableAccount :: Account
  ca_AccruedAccount :: Account

record BusinessAccounts =
  ba_WashAccount :: Account
  ba_EarningsAccount :: Account
  ba_BrokerageAccount :: Account
  ba_BreakageAccount :: Account

record BalanceBucket =
  bb_Address :: PostingAddress
  bb_SourceChargeID :: "string option"
  bb_SpendChargeID :: "string option"
  bb_SettledAmount :: decimal

text \<open>What resolving transactions depends on: the accounts, the rows of sub-accounts and the balances.\<close>

record ResolverDependencies =
  rd_GetCustomerAccounts :: "string \<times> string \<Rightarrow> CustomerAccounts result"
  rd_GetBusinessAccounts :: "string \<Rightarrow> BusinessAccounts result"
  rd_EnsureSubAccount :: "CreateSubAccountInput \<Rightarrow> SubAccountData result"
  rd_GetBalanceBuckets :: "BalanceBucketQuery \<Rightarrow> BalanceBucket list result"

definition EnsureSubAccount :: "known_currencies \<Rightarrow> ResolverDependencies \<Rightarrow> CreateSubAccountInput \<Rightarrow> SubAccount result" where
  "EnsureSubAccount known D i = check_then (CS_Validate known i)
     (bind_result (wrap_result ''failed to create sub-account'' (rd_EnsureSubAccount D i)) (NewSubAccountFromData known))"

section \<open>Parameters of a route (accounts.go)\<close>

definition DefaultCustomerFBOPriority :: int where "DefaultCustomerFBOPriority = 100"

record CustomerFBORouteParams =
  fb_Currency :: CurrencyReference
  fb_CostBasisCurrency :: "string option"
  fb_CreditPriority :: int
  fb_Features :: "string list"
  fb_CostBasis :: "decimal option"

record CustomerReceivableRouteParams =
  rp_Currency :: CurrencyReference
  rp_CostBasisCurrency :: "string option"
  rp_TaxCode :: "string option"
  rp_Features :: "string list"
  rp_CostBasis :: "decimal option"
  rp_AuthorizationStatus :: TransactionAuthorizationStatus

text \<open>The parameters of accrued and of business accounts are alike.\<close>

record TaxedRouteParams =
  xp_Currency :: CurrencyReference
  xp_CostBasisCurrency :: "string option"
  xp_TaxCode :: "string option"
  xp_TaxBehavior :: "LedgerTaxBehavior option"
  xp_CostBasis :: "decimal option"

definition empty_route :: "CurrencyReference \<Rightarrow> Route" where
  "empty_route c = \<lparr>ro_Version = OtherRoutingKeyVersion [], ro_Currency = c, ro_CostBasisCurrency = None, ro_TaxCode = None,
     ro_TaxBehavior = None, ro_Features = [], ro_CostBasis = None, ro_CreditPriority = None, ro_AuthorizationStatus = None\<rparr>"

definition FB_Route :: "CustomerFBORouteParams \<Rightarrow> Route" where
  "FB_Route p = (empty_route (fb_Currency p))\<lparr>ro_CostBasisCurrency := fb_CostBasisCurrency p, ro_Features := fb_Features p,
     ro_CostBasis := fb_CostBasis p, ro_CreditPriority := Some (fb_CreditPriority p)\<rparr>"

definition FB_Validate :: "known_currencies \<Rightarrow> CustomerFBORouteParams \<Rightarrow> error option" where
  "FB_Validate known p =
     (case Route_Validate known (FB_Route p) of
        Some e \<Rightarrow> Some e
      | None \<Rightarrow> map_option (Wrap ''credit priority'') (ValidateCreditPriority (fb_CreditPriority p)))"

definition RP_Route :: "CustomerReceivableRouteParams \<Rightarrow> Route" where
  "RP_Route p = (empty_route (rp_Currency p))\<lparr>ro_CostBasisCurrency := rp_CostBasisCurrency p, ro_TaxCode := rp_TaxCode p,
     ro_Features := rp_Features p, ro_CostBasis := rp_CostBasis p, ro_AuthorizationStatus := Some (rp_AuthorizationStatus p)\<rparr>"

definition RP_Validate :: "known_currencies \<Rightarrow> CustomerReceivableRouteParams \<Rightarrow> error option" where
  "RP_Validate known p =
     (case AuthorizationStatus_Validate (rp_AuthorizationStatus p) of
        Some e \<Rightarrow> Some e
      | None \<Rightarrow> Route_Validate known (RP_Route p))"

definition XP_Route :: "TaxedRouteParams \<Rightarrow> Route" where
  "XP_Route p = (empty_route (xp_Currency p))\<lparr>ro_CostBasisCurrency := xp_CostBasisCurrency p, ro_TaxCode := xp_TaxCode p,
     ro_TaxBehavior := xp_TaxBehavior p, ro_CostBasis := xp_CostBasis p\<rparr>"

definition XP_Validate :: "known_currencies \<Rightarrow> TaxedRouteParams \<Rightarrow> error option" where
  "XP_Validate known p = Route_Validate known (XP_Route p)"

definition account_input :: "Account \<Rightarrow> Route \<Rightarrow> CreateSubAccountInput" where
  "account_input a r = \<lparr>cs_Namespace = an_Namespace a, cs_AccountID = an_ID a, cs_Route = r\<rparr>"

definition FBO_GetSubAccountForRoute ::
  "known_currencies \<Rightarrow> ResolverDependencies \<Rightarrow> Account \<Rightarrow> CustomerFBORouteParams \<Rightarrow> SubAccount result" where
  "FBO_GetSubAccountForRoute known D a p = check_then (FB_Validate known p) (EnsureSubAccount known D (account_input a (FB_Route p)))"

definition Receivable_GetSubAccountForRoute ::
  "known_currencies \<Rightarrow> ResolverDependencies \<Rightarrow> Account \<Rightarrow> CustomerReceivableRouteParams \<Rightarrow> SubAccount result" where
  "Receivable_GetSubAccountForRoute known D a p =
     check_then (RP_Validate known p) (EnsureSubAccount known D (account_input a (RP_Route p)))"

definition Accrued_GetSubAccountForRoute ::
  "known_currencies \<Rightarrow> ResolverDependencies \<Rightarrow> Account \<Rightarrow> TaxedRouteParams \<Rightarrow> SubAccount result" where
  "Accrued_GetSubAccountForRoute known D a p =
     check_then (XP_Validate known p) (EnsureSubAccount known D (account_input a (XP_Route p)))"

definition Business_GetSubAccountForRoute ::
  "known_currencies \<Rightarrow> ResolverDependencies \<Rightarrow> Account \<Rightarrow> TaxedRouteParams \<Rightarrow> SubAccount result" where
  "Business_GetSubAccountForRoute known D a p =
     check_then (XP_Validate known p) (EnsureSubAccount known D (account_input a (XP_Route p)))"

section \<open>Annotations (annotations.go)\<close>

datatype TransactionDirection = TransactionDirectionForward | TransactionDirectionCorrection

fun direction_string :: "TransactionDirection \<Rightarrow> string" where
  "direction_string TransactionDirectionForward = ''forward''"
| "direction_string TransactionDirectionCorrection = ''correction''"

definition AnnotationTransactionTemplateCode :: string where
  "AnnotationTransactionTemplateCode = ''ledger.transaction.template_code''"
definition AnnotationTransactionDirection :: string where "AnnotationTransactionDirection = ''ledger.transaction.direction''"
definition AnnotationCollectionSourceOrder :: string where
  "AnnotationCollectionSourceOrder = ''ledger.collection.source_order''"

definition TransactionAnnotations :: "string \<Rightarrow> TransactionDirection \<Rightarrow> Annotations" where
  "TransactionAnnotations templateCode direction =
     [AnnotationTransactionTemplateCode \<mapsto> AnnString templateCode,
      AnnotationTransactionDirection \<mapsto> AnnString (direction_string direction)]"

definition TransactionTemplateCodeFromAnnotations :: "Annotations \<Rightarrow> string result" where
  "TransactionTemplateCodeFromAnnotations annotations =
     (case annotations AnnotationTransactionTemplateCode of
        None \<Rightarrow> Inl (Err ''transaction template code annotation is required'')
      | Some (AnnString code) \<Rightarrow> if code = [] then Inl (Err ''transaction template code annotation is invalid'') else Inr code
      | Some _ \<Rightarrow> Inl (Err ''transaction template code annotation is invalid''))"

definition TransactionDirectionFromAnnotations :: "Annotations \<Rightarrow> TransactionDirection result" where
  "TransactionDirectionFromAnnotations annotations =
     (case annotations AnnotationTransactionDirection of
        None \<Rightarrow> Inl (Err ''transaction direction annotation is required'')
      | Some (AnnString v) \<Rightarrow>
          if v = [] then Inl (Err ''transaction direction annotation is invalid'')
          else if v = direction_string TransactionDirectionForward then Inr TransactionDirectionForward
          else if v = direction_string TransactionDirectionCorrection then Inr TransactionDirectionCorrection
          else Inl (Err ''invalid transaction direction annotation'')
      | Some _ \<Rightarrow> Inl (Err ''transaction direction annotation is invalid''))"

section \<open>What an account finds\<close>

text \<open>
  The contract of the rows: a sub-account belongs to the account it was asked for and has its type, its route is the
  normal form of the route asked for (the currency as it was stored), and two sub-accounts share an ID only if they are
  of the same account and route. \<open>type_of\<close> gives the type of an account.
\<close>

definition same_dimensions :: "Route \<Rightarrow> Route \<Rightarrow> bool" where
  "same_dimensions r v \<longleftrightarrow> same_route r v \<and> IdentityKey (ro_Currency r) = IdentityKey (ro_Currency v)"

definition rows_ok :: "ResolverDependencies \<Rightarrow> (string \<times> string \<Rightarrow> AccountType) \<Rightarrow> bool" where
  "rows_ok D type_of \<longleftrightarrow>
     (\<forall>i d. rd_EnsureSubAccount D i = Inr d \<longrightarrow>
        sd_AccountType d = type_of (cs_Namespace i, cs_AccountID i) \<and>
        same_dimensions (canonical_route (sd_Route d)) (canonical_route (cs_Route i))) \<and>
     (\<forall>i d j e. rd_EnsureSubAccount D i = Inr d \<longrightarrow> rd_EnsureSubAccount D j = Inr e \<longrightarrow> sd_ID d = sd_ID e \<longrightarrow>
        (cs_Namespace i, cs_AccountID i) = (cs_Namespace j, cs_AccountID j) \<and>
        same_dimensions (canonical_route (cs_Route i)) (canonical_route (cs_Route j)))"

lemma EnsureSubAccount_Inr:
  assumes "EnsureSubAccount known D i = Inr s"
  shows "\<exists>d. rd_EnsureSubAccount D i = Inr d \<and> pa_SubAccountID (sa_Address s) = sd_ID d \<and>
    pa_AccountType (sa_Address s) = sd_AccountType d \<and>
    same_dimensions (sr_route (pa_Route (sa_Address s))) (canonical_route (sd_Route d)) \<and>
    Route_Validate known (cs_Route i) = None \<and> Route_Validate known (sd_Route d) = None"
proof -
  obtain d where v: "CS_Validate known i = None" and d: "rd_EnsureSubAccount D i = Inr d" and s: "NewSubAccountFromData known d = Inr s"
    using assms by (auto simp: EnsureSubAccount_def check_then_Inr bind_result_Inr wrap_result_Inr)
  obtain key where a: "NewAddressFromData known \<lparr>ad_SubAccountID = sd_ID d, ad_AccountType = sd_AccountType d, ad_Route = sd_Route d,
      ad_RouteID = sd_RouteID d, ad_RoutingKey = key\<rparr> = Inr (sa_Address s)"
    using s by (auto simp: NewSubAccountFromData_def bind_result_Inr wrap_result_Inr)
  then obtain r where r: "NewSubAccountRouteFromData known (sd_RouteID d) key (sd_Route d) = Inr r"
    and addr: "sa_Address s = \<lparr>pa_SubAccountID = sd_ID d, pa_AccountType = sd_AccountType d, pa_Route = r\<rparr>"
    by (auto simp: NewAddressFromData_def newSubAccountRouteFromAddressData_def bind_result_Inr check_then_Inr wrap_result_Inr
        split: if_splits)
  have n: "sr_route r = (canonical_route (sd_Route d))\<lparr>ro_Version := rk_version key\<rparr>" and rv: "Route_Validate known (sd_Route d) = None"
    using r by (auto simp: NewSubAccountRouteFromData_def Route_Normalize_def bind_result_Inr check_then_Inr wrap_result_Inr split: if_splits)
  have "Route_Validate known (cs_Route i) = None" using v by (auto simp: CS_Validate_def split: if_splits)
  then show ?thesis using d addr n rv by (simp add: same_dimensions_def same_route_def)
qed

end
