(* ===== verification/LedgerTemplates.thy ===== *)
theory LedgerTemplates
  imports LedgerAccounts
begin

text \<open>
  The templates of ledger transactions (openmeter/ledger/transactions): their checks and how each is resolved into the
  entries of a transaction (customer.go, accrual.go, earnings.go, fx.go, breakage.go, legacy.go, collection.go, resolve.go,
  input.go, codes.go). A template that resolves to nothing is \<open>None\<close>.
\<close>

section \<open>Entries and annotations (input.go)\<close>

text \<open>The methods of an entry of a template.\<close>

definition template_entry :: "PostingAddress \<Rightarrow> decimal \<Rightarrow> EntryIdentityParts \<Rightarrow> Annotations \<Rightarrow> EntryInput" where
  "template_entry address amount identity annotations =
     \<lparr>ei_PostingAddress = address, ei_Amount = amount, ei_IdentityKey = fst (parts_Text identity),
      ei_SchemaVersion = EntrySchemaVersionCurrent, ei_SourceChargeID = ip_SourceChargeID identity,
      ei_SpendChargeID = ip_SpendChargeID identity, ei_Annotations = annotations\<rparr>"

definition template_transaction :: "int \<Rightarrow> EntryInput list \<Rightarrow> TransactionInput" where
  "template_transaction booked es = \<lparr>tx_BookedAt = booked, tx_EntryInputs = es, tx_Annotations = Map.empty\<rparr>"

definition WithAnnotations :: "TransactionInput \<Rightarrow> Annotations \<Rightarrow> TransactionInput" where
  "WithAnnotations input annotations = input\<lparr>tx_Annotations := tx_Annotations input ++ annotations\<rparr>"

definition charges :: "string option \<Rightarrow> string option \<Rightarrow> EntryIdentityParts" where
  "charges source spend = no_parts\<lparr>ip_SourceChargeID := source, ip_SpendChargeID := spend\<rparr>"

definition resolveCustomerFBOCreditPriority :: "int option \<Rightarrow> int" where
  "resolveCustomerFBOCreditPriority priority = (case priority of Some p \<Rightarrow> p | None \<Rightarrow> DefaultCustomerFBOPriority)"

text \<open>\<open>failed to get customer accounts\<close> and the sub-accounts found with them.\<close>

definition with_customer ::
  "ResolverDependencies \<Rightarrow> string \<times> string \<Rightarrow> (CustomerAccounts \<Rightarrow> 'a result) \<Rightarrow> 'a result" where
  "with_customer D customer f =
     bind_result (wrap_result ''failed to get customer accounts'' (rd_GetCustomerAccounts D customer)) f"

definition with_business :: "ResolverDependencies \<Rightarrow> string \<Rightarrow> (BusinessAccounts \<Rightarrow> 'a result) \<Rightarrow> 'a result" where
  "with_business D ns f = bind_result (wrap_result ''failed to get business accounts'' (rd_GetBusinessAccounts D ns)) f"

definition posting :: "string \<Rightarrow> SubAccount result \<Rightarrow> (PostingAddress \<Rightarrow> 'a result) \<Rightarrow> 'a result" where
  "posting msg s f = bind_result (wrap_result msg s) (\<lambda>s. f (sa_Address s))"

section \<open>Receivables (customer.go)\<close>

record IssueCustomerReceivableTemplate =
  is_At :: int
  is_Amount :: decimal
  is_Currency :: CurrencyReference
  is_CostBasisCurrency :: "string option"
  is_TaxCode :: "string option"
  is_CostBasis :: "decimal option"
  is_Features :: "string list"
  is_SourceChargeID :: "string option"
  is_SpendChargeID :: "string option"
  is_CreditPriority :: "int option"

definition IS_Validate :: "known_currencies \<Rightarrow> IssueCustomerReceivableTemplate \<Rightarrow> error option" where
  "IS_Validate known t = nillable_validation (join_errors
     (err_if (is_Amount t < 0) (Err ''amount must be positive'') @
      err_if (is_Amount t = 0) (Err ''amount must be non-zero'') @
      err_if (IsZeroTime (is_At t)) (Err ''at is required'') @
      err_of (Wrap ''currency'') (CR_Validate known (is_Currency t)) @
      err_of (Wrap ''cost basis currency'')
        (ValidateCostBasisCurrency known (cr_Code (is_Currency t)) (is_CostBasisCurrency t) (is_CostBasis t)) @
      err_of (Wrap ''cost basis'') (Option.bind (is_CostBasis t) ValidateCostBasis) @
      err_of (Wrap ''credit priority'') (Option.bind (is_CreditPriority t) ValidateCreditPriority)))"

definition IS_resolve ::
  "known_currencies \<Rightarrow> ResolverDependencies \<Rightarrow> string \<times> string \<Rightarrow> IssueCustomerReceivableTemplate \<Rightarrow> TransactionInput option result" where
  "IS_resolve known D customer t =
     with_customer D customer (\<lambda>accounts.
     posting ''failed to get FBO sub-account'' (FBO_GetSubAccountForRoute known D (ca_FBOAccount accounts)
       \<lparr>fb_Currency = is_Currency t, fb_CostBasisCurrency = is_CostBasisCurrency t,
        fb_CreditPriority = resolveCustomerFBOCreditPriority (is_CreditPriority t), fb_Features = is_Features t,
        fb_CostBasis = is_CostBasis t\<rparr>) (\<lambda>fbo.
     posting ''failed to get receivable sub-account'' (Receivable_GetSubAccountForRoute known D (ca_ReceivableAccount accounts)
       \<lparr>rp_Currency = is_Currency t, rp_CostBasisCurrency = is_CostBasisCurrency t, rp_TaxCode = None, rp_Features = is_Features t,
        rp_CostBasis = is_CostBasis t, rp_AuthorizationStatus = TransactionAuthorizationStatusOpen\<rparr>) (\<lambda>rec.
     Inr (Some (template_transaction (is_At t)
       [template_entry fbo (is_Amount t) (charges (is_SourceChargeID t) (is_SpendChargeID t)) Map.empty,
        template_entry rec (- is_Amount t) (charges (is_SourceChargeID t) (is_SpendChargeID t)) Map.empty])))))"

text \<open>The templates that settle and that authorize a payment have the same fields and checks.\<close>

record PaymentTemplate =
  pt_At :: int
  pt_Amount :: decimal
  pt_Currency :: CurrencyReference
  pt_CostBasisCurrency :: "string option"
  pt_TaxCode :: "string option"
  pt_CostBasis :: "decimal option"
  pt_Features :: "string list"
  pt_SourceChargeID :: "string option"
  pt_SpendChargeID :: "string option"

definition PaymentTemplate_Validate :: "known_currencies \<Rightarrow> PaymentTemplate \<Rightarrow> error option" where
  "PaymentTemplate_Validate known t = nillable_validation (join_errors
     (err_if (IsZeroTime (pt_At t)) (Err ''at is required'') @
      err_of (Wrap ''amount'') (ValidateTransactionAmount (pt_Amount t)) @
      err_of (Wrap ''currency'') (CR_Validate known (pt_Currency t)) @
      err_of (Wrap ''cost basis'') (Option.bind (pt_CostBasis t) ValidateCostBasis) @
      err_of (Wrap ''cost basis currency'')
        (ValidateCostBasisCurrency known (cr_Code (pt_Currency t)) (pt_CostBasisCurrency t) (pt_CostBasis t))))"

definition payment_receivable :: "PaymentTemplate \<Rightarrow> TransactionAuthorizationStatus \<Rightarrow> CustomerReceivableRouteParams" where
  "payment_receivable t status =
     \<lparr>rp_Currency = pt_Currency t, rp_CostBasisCurrency = pt_CostBasisCurrency t, rp_TaxCode = None, rp_Features = pt_Features t,
      rp_CostBasis = pt_CostBasis t, rp_AuthorizationStatus = status\<rparr>"

definition Settle_resolve ::
  "known_currencies \<Rightarrow> ResolverDependencies \<Rightarrow> string \<times> string \<Rightarrow> PaymentTemplate \<Rightarrow> TransactionInput option result" where
  "Settle_resolve known D customer t =
     with_customer D customer (\<lambda>accounts.
     posting ''failed to get receivable sub-account'' (Receivable_GetSubAccountForRoute known D (ca_ReceivableAccount accounts)
       (payment_receivable t TransactionAuthorizationStatusAuthorized)) (\<lambda>rec.
     with_business D (fst customer) (\<lambda>business.
     posting ''failed to get wash sub-account'' (Business_GetSubAccountForRoute known D (ba_WashAccount business)
       \<lparr>xp_Currency = pt_Currency t, xp_CostBasisCurrency = pt_CostBasisCurrency t, xp_TaxCode = None, xp_TaxBehavior = None,
        xp_CostBasis = pt_CostBasis t\<rparr>) (\<lambda>wash.
     Inr (Some (template_transaction (pt_At t)
       [template_entry wash (- pt_Amount t) (charges (pt_SourceChargeID t) (pt_SpendChargeID t)) Map.empty,
        template_entry rec (pt_Amount t) (charges (pt_SourceChargeID t) (pt_SpendChargeID t)) Map.empty]))))))"

definition Authorize_resolve ::
  "known_currencies \<Rightarrow> ResolverDependencies \<Rightarrow> string \<times> string \<Rightarrow> PaymentTemplate \<Rightarrow> TransactionInput option result" where
  "Authorize_resolve known D customer t =
     with_customer D customer (\<lambda>accounts.
     posting ''failed to get authorized receivable sub-account'' (Receivable_GetSubAccountForRoute known D
       (ca_ReceivableAccount accounts) (payment_receivable t TransactionAuthorizationStatusAuthorized)) (\<lambda>authorized.
     posting ''failed to get receivable sub-account'' (Receivable_GetSubAccountForRoute known D
       (ca_ReceivableAccount accounts) (payment_receivable t TransactionAuthorizationStatusOpen)) (\<lambda>open_receivable.
     Inr (Some (template_transaction (pt_At t)
       [template_entry authorized (- pt_Amount t) (charges (pt_SourceChargeID t) (pt_SpendChargeID t)) Map.empty,
        template_entry open_receivable (pt_Amount t) (charges (pt_SourceChargeID t) (pt_SpendChargeID t)) Map.empty])))))"

record AttributeTemplate =
  aa_At :: int
  aa_Amount :: decimal
  aa_Currency :: CurrencyReference
  aa_CostBasisCurrency :: "string option"
  aa_TaxCode :: "string option"
  aa_CostBasis :: "decimal option"
  aa_AdvanceFeatures :: "string list"
  aa_AttributedFeatures :: "string list"
  aa_SourceChargeID :: "string option"
  aa_SpendChargeID :: "string option"

definition AA_Validate :: "known_currencies \<Rightarrow> AttributeTemplate \<Rightarrow> error option" where
  "AA_Validate known t = nillable_validation (join_errors
     (err_if (IsZeroTime (aa_At t)) (Err ''at is required'') @
      err_of (Wrap ''amount'') (ValidateTransactionAmount (aa_Amount t)) @
      err_of (Wrap ''currency'') (CR_Validate known (aa_Currency t)) @
      err_of (Wrap ''cost basis currency'')
        (ValidateCostBasisCurrency known (cr_Code (aa_Currency t)) (aa_CostBasisCurrency t) (aa_CostBasis t)) @
      (case aa_CostBasis t of
         None \<Rightarrow> [Err ''cost basis is required'']
       | Some b \<Rightarrow> err_of (Wrap ''cost basis'') (ValidateCostBasis b))))"

definition AA_resolve ::
  "known_currencies \<Rightarrow> ResolverDependencies \<Rightarrow> string \<times> string \<Rightarrow> AttributeTemplate \<Rightarrow> TransactionInput option result" where
  "AA_resolve known D customer t =
     with_customer D customer (\<lambda>accounts.
     posting ''failed to get advance receivable sub-account'' (Receivable_GetSubAccountForRoute known D (ca_ReceivableAccount accounts)
       \<lparr>rp_Currency = aa_Currency t, rp_CostBasisCurrency = None, rp_TaxCode = None, rp_Features = aa_AdvanceFeatures t,
        rp_CostBasis = None, rp_AuthorizationStatus = TransactionAuthorizationStatusOpen\<rparr>) (\<lambda>advance.
     posting ''failed to get attributed receivable sub-account'' (Receivable_GetSubAccountForRoute known D (ca_ReceivableAccount accounts)
       \<lparr>rp_Currency = aa_Currency t, rp_CostBasisCurrency = aa_CostBasisCurrency t, rp_TaxCode = None,
        rp_Features = aa_AttributedFeatures t, rp_CostBasis = aa_CostBasis t,
        rp_AuthorizationStatus = TransactionAuthorizationStatusOpen\<rparr>) (\<lambda>attributed.
     Inr (Some (template_transaction (aa_At t)
       [template_entry advance (aa_Amount t) (charges None (aa_SpendChargeID t)) Map.empty,
        template_entry attributed (- aa_Amount t) (charges (aa_SourceChargeID t) (aa_SpendChargeID t)) Map.empty])))))"

section \<open>Amounts paired by route (collection.go, correction_leg.go)\<close>

record PostingAmount =
  po_Address :: PostingAddress
  po_Amount :: decimal
  po_Identity :: EntryIdentityParts
  po_Annotations :: Annotations

record routePairingKey =
  pk_currency :: string
  pk_costBasisCurrency :: string
  pk_taxCode :: string
  pk_taxBehavior :: string
  pk_features :: string
  pk_costBasis :: string
  pk_sourceChargeID :: string
  pk_spendChargeID :: string

definition costBasisKey :: "decimal_lib \<Rightarrow> decimal option \<Rightarrow> string" where
  "costBasisKey L costBasis = (case costBasis of None \<Rightarrow> ''null'' | Some b \<Rightarrow> dl_String L b)"

definition or_nullish :: "string option \<Rightarrow> string" where
  "or_nullish s = value_or ''null'' s"

text \<open>The route an address posts to.\<close>

definition address_route :: "PostingAddress \<Rightarrow> Route" where
  "address_route a = sr_route (pa_Route a)"

text \<open>The key of an address and two charges without the dimensions a template leaves out.\<close>

definition basic_key :: "decimal_lib \<Rightarrow> PostingAddress \<Rightarrow> string option \<Rightarrow> string option \<Rightarrow> routePairingKey" where
  "basic_key L a source spend =
     \<lparr>pk_currency = IdentityKey (ro_Currency (address_route a)), pk_costBasisCurrency = from_ptr (ro_CostBasisCurrency (address_route a)),
      pk_taxCode = [], pk_taxBehavior = [], pk_features = [], pk_costBasis = costBasisKey L (ro_CostBasis (address_route a)),
      pk_sourceChargeID = or_nullish source, pk_spendChargeID = or_nullish spend\<rparr>"

text \<open>
  The loops over sources that look up one counterpart per key and sum what it receives, and that append one entry per key
  in the order of the sources.
\<close>

fun resolve_counterparts ::
  "(PostingAmount \<Rightarrow> routePairingKey) \<Rightarrow> (PostingAmount \<Rightarrow> PostingAddress result) \<Rightarrow> (PostingAmount \<Rightarrow> EntryIdentityParts) \<Rightarrow>
     PostingAmount list \<Rightarrow> (routePairingKey \<rightharpoonup> PostingAmount) \<Rightarrow> (routePairingKey \<rightharpoonup> PostingAmount) result" where
  "resolve_counterparts key lookup identity [] byKey = Inr byKey"
| "resolve_counterparts key lookup identity (s # ss) byKey =
     (case byKey (key s) of
        Some current \<Rightarrow>
          resolve_counterparts key lookup identity ss (byKey(key s \<mapsto> current\<lparr>po_Amount := po_Amount current + po_Amount s\<rparr>))
      | None \<Rightarrow> bind_result (lookup s) (\<lambda>a.
          resolve_counterparts key lookup identity ss
            (byKey(key s \<mapsto> \<lparr>po_Address = a, po_Amount = 0 + po_Amount s, po_Identity = identity s, po_Annotations = Map.empty\<rparr>))))"

definition source_entry :: "PostingAmount \<Rightarrow> EntryInput" where
  "source_entry s = template_entry (po_Address s) (- po_Amount s) (po_Identity s) (po_Annotations s)"

fun credited_entries ::
  "(PostingAmount \<Rightarrow> routePairingKey) \<Rightarrow> (routePairingKey \<rightharpoonup> PostingAmount) \<Rightarrow> PostingAmount list \<Rightarrow> routePairingKey set \<Rightarrow> EntryInput list" where
  "credited_entries key byKey [] credited = []"
| "credited_entries key byKey (s # ss) credited =
     (if key s \<in> credited then credited_entries key byKey ss credited
      else (case byKey (key s) of
              None \<Rightarrow> []
            | Some c \<Rightarrow> [template_entry (po_Address c) (po_Amount c) (po_Identity c) Map.empty]) @
           credited_entries key byKey ss (insert (key s) credited))"

section \<open>Covering a receivable (customer.go)\<close>

record CoverTemplate =
  cv_At :: int
  cv_Amount :: decimal
  cv_Currency :: CurrencyReference
  cv_CostBasis :: "decimal option"
  cv_CreditPriority :: "int option"
  cv_Sources :: "PostingAmount list"

definition cover_source_errors :: "CoverTemplate \<Rightarrow> PostingAmount \<Rightarrow> error list" where
  "cover_source_errors t source =
     err_if (pa_AccountType (po_Address source) \<noteq> AccountTypeCustomerFBO) (Err ''account type must be customer_fbo'') @
     err_if (\<not> CR_Equal (ro_Currency (address_route (po_Address source))) (cv_Currency t)) (Err ''currency must be the template currency'') @
     err_of (Wrap ''sources.amount'') (ValidateTransactionAmount (po_Amount source))"

definition CV_Validate :: "known_currencies \<Rightarrow> CoverTemplate \<Rightarrow> error option" where
  "CV_Validate known t =
     (let errs = err_if (IsZeroTime (cv_At t)) (Err ''at is required'') @ err_of (Wrap ''currency'') (CR_Validate known (cv_Currency t))
      in if cv_Sources t \<noteq> []
         then nillable_validation (join_errors (errs @
           err_if (cv_Amount t \<noteq> 0) (Err ''amount must be zero when sources are provided'') @
           err_if (cv_CostBasis t \<noteq> None) (Err ''cost basis must be nil when sources are provided'') @
           err_if (cv_CreditPriority t \<noteq> None) (Err ''credit priority must be nil when sources are provided'') @
           concat (map (cover_source_errors t) (cv_Sources t))))
         else nillable_validation (join_errors (errs @
           err_of (Wrap ''amount'') (ValidateTransactionAmount (cv_Amount t)) @
           err_of (Wrap ''cost basis'') (Option.bind (cv_CostBasis t) ValidateCostBasis) @
           err_of (Wrap ''credit priority'') (Option.bind (cv_CreditPriority t) ValidateCreditPriority))))"

definition cover_key :: "decimal_lib \<Rightarrow> PostingAddress \<Rightarrow> string option \<Rightarrow> string option \<Rightarrow> routePairingKey" where
  "cover_key L a source spend =
     (basic_key L a source spend)\<lparr>pk_features := join_with (CHR 0x00) (ro_Features (address_route a))\<rparr>"

definition cover_source_key :: "decimal_lib \<Rightarrow> PostingAmount \<Rightarrow> routePairingKey" where
  "cover_source_key L s = cover_key L (po_Address s) (ip_SourceChargeID (po_Identity s)) (ip_SpendChargeID (po_Identity s))"

definition charges_of :: "PostingAmount \<Rightarrow> EntryIdentityParts" where
  "charges_of s = charges (ip_SourceChargeID (po_Identity s)) (ip_SpendChargeID (po_Identity s))"

definition cover_receivable ::
  "known_currencies \<Rightarrow> ResolverDependencies \<Rightarrow> Account \<Rightarrow> PostingAmount \<Rightarrow> PostingAddress result" where
  "cover_receivable known D account s =
     (let r = address_route (po_Address s)
      in posting ''failed to get receivable sub-account'' (Receivable_GetSubAccountForRoute known D account
           \<lparr>rp_Currency = ro_Currency r, rp_CostBasisCurrency = ro_CostBasisCurrency r, rp_TaxCode = None,
            rp_Features = ro_Features r, rp_CostBasis = ro_CostBasis r, rp_AuthorizationStatus = TransactionAuthorizationStatusOpen\<rparr>) Inr)"

definition CV_resolvePreselectedSources ::
  "known_currencies \<Rightarrow> decimal_lib \<Rightarrow> ResolverDependencies \<Rightarrow> string \<times> string \<Rightarrow> CoverTemplate \<Rightarrow> TransactionInput option result" where
  "CV_resolvePreselectedSources known L D customer t =
     with_customer D customer (\<lambda>accounts.
     bind_result (resolve_counterparts (cover_source_key L) (cover_receivable known D (ca_ReceivableAccount accounts)) charges_of
       (cv_Sources t) Map.empty) (\<lambda>byKey.
     Inr (Some (template_transaction (cv_At t)
       (map source_entry (cv_Sources t) @ credited_entries (cover_source_key L) byKey (cv_Sources t) {})))))"

definition CV_resolve ::
  "known_currencies \<Rightarrow> decimal_lib \<Rightarrow> ResolverDependencies \<Rightarrow> string \<times> string \<Rightarrow> CoverTemplate \<Rightarrow> TransactionInput option result" where
  "CV_resolve known L D customer t =
     (if cv_Sources t \<noteq> [] then CV_resolvePreselectedSources known L D customer t
      else with_customer D customer (\<lambda>accounts.
        posting ''failed to get FBO sub-account'' (FBO_GetSubAccountForRoute known D (ca_FBOAccount accounts)
          \<lparr>fb_Currency = cv_Currency t, fb_CostBasisCurrency = None,
           fb_CreditPriority = resolveCustomerFBOCreditPriority (cv_CreditPriority t), fb_Features = [], fb_CostBasis = cv_CostBasis t\<rparr>) (\<lambda>fbo.
        posting ''failed to get receivable sub-account'' (Receivable_GetSubAccountForRoute known D (ca_ReceivableAccount accounts)
          \<lparr>rp_Currency = cv_Currency t, rp_CostBasisCurrency = None, rp_TaxCode = None, rp_Features = [],
           rp_CostBasis = cv_CostBasis t, rp_AuthorizationStatus = TransactionAuthorizationStatusOpen\<rparr>) (\<lambda>rec.
        Inr (Some (template_transaction (cv_At t)
          [template_entry fbo (- cv_Amount t) no_parts Map.empty, template_entry rec (cv_Amount t) no_parts Map.empty]))))))"

section \<open>Accruing (accrual.go)\<close>

record TransferFBOTemplate =
  tf_At :: int
  tf_Currency :: CurrencyReference
  tf_TaxCode :: "string option"
  tf_TaxBehavior :: "LedgerTaxBehavior option"
  tf_Sources :: "PostingAmount list"

definition transfer_source_error :: "TransferFBOTemplate \<Rightarrow> PostingAmount \<Rightarrow> error option" where
  "transfer_source_error t source =
     (if pa_AccountType (po_Address source) \<noteq> AccountTypeCustomerFBO then Some (Err ''account type must be customer_fbo'')
      else if \<not> CR_Equal (ro_Currency (address_route (po_Address source))) (tf_Currency t)
      then Some (Err ''currency must be the template currency'')
      else map_option (Wrap ''sources.amount'') (ValidateTransactionAmount (po_Amount source)))"

definition TransferFBO_Validate :: "known_currencies \<Rightarrow> TransferFBOTemplate \<Rightarrow> error option" where
  "TransferFBO_Validate known t =
     (if IsZeroTime (tf_At t) then Some (Err ''at is required'')
      else case map_option (Wrap ''currency'') (CR_Validate known (tf_Currency t)) of Some e \<Rightarrow> Some e
      | None \<Rightarrow>
     (case map_option (Wrap ''tax behavior'') (Option.bind (tf_TaxBehavior t) LedgerTaxBehavior_Validate) of Some e \<Rightarrow> Some e
      | None \<Rightarrow> first_error (transfer_source_error t) (tf_Sources t)))"

definition transfer_source_key :: "decimal_lib \<Rightarrow> PostingAmount \<Rightarrow> routePairingKey" where
  "transfer_source_key L s = basic_key L (po_Address s) (ip_SourceChargeID (po_Identity s)) (ip_SpendChargeID (po_Identity s))"

definition transfer_accrued ::
  "known_currencies \<Rightarrow> ResolverDependencies \<Rightarrow> Account \<Rightarrow> TransferFBOTemplate \<Rightarrow> PostingAmount \<Rightarrow> PostingAddress result" where
  "transfer_accrued known D account t s =
     (let r = address_route (po_Address s)
      in posting ''failed to get accrued sub-account'' (Accrued_GetSubAccountForRoute known D account
           \<lparr>xp_Currency = ro_Currency r, xp_CostBasisCurrency = ro_CostBasisCurrency r, xp_TaxCode = tf_TaxCode t,
            xp_TaxBehavior = tf_TaxBehavior t, xp_CostBasis = ro_CostBasis r\<rparr>) Inr)"

definition TF_resolve ::
  "known_currencies \<Rightarrow> decimal_lib \<Rightarrow> ResolverDependencies \<Rightarrow> string \<times> string \<Rightarrow> TransferFBOTemplate \<Rightarrow> TransactionInput option result" where
  "TF_resolve known L D customer t =
     (if tf_Sources t = [] then Inr None
      else with_customer D customer (\<lambda>accounts.
        bind_result (resolve_counterparts (transfer_source_key L) (transfer_accrued known D (ca_AccruedAccount accounts) t) charges_of
          (tf_Sources t) Map.empty) (\<lambda>byKey.
        Inr (Some (template_transaction (tf_At t)
          (map source_entry (tf_Sources t) @ credited_entries (transfer_source_key L) byKey (tf_Sources t) {}))))))"

record TransferAdvanceTemplate =
  ta_At :: int
  ta_Amount :: decimal
  ta_Currency :: CurrencyReference
  ta_TaxCode :: "string option"
  ta_TaxBehavior :: "LedgerTaxBehavior option"
  ta_CostBasisCurrency :: "string option"
  ta_CostBasis :: "decimal option"
  ta_Features :: "string list"
  ta_SourceChargeID :: "string option"
  ta_SpendChargeID :: "string option"
  ta_CreditPriority :: "int option"

definition TransferAdvance_Validate :: "known_currencies \<Rightarrow> TransferAdvanceTemplate \<Rightarrow> error option" where
  "TransferAdvance_Validate known t =
     (if IsZeroTime (ta_At t) then Some (Err ''at is required'')
      else first_error (\<lambda>e. e)
        [map_option (Wrap ''amount'') (ValidateTransactionAmount (ta_Amount t)),
         map_option (Wrap ''currency'') (CR_Validate known (ta_Currency t)),
         map_option (Wrap ''cost basis'') (Option.bind (ta_CostBasis t) ValidateCostBasis),
         map_option (Wrap ''cost basis currency'')
           (ValidateCostBasisCurrency known (cr_Code (ta_Currency t)) (ta_CostBasisCurrency t) (ta_CostBasis t)),
         map_option (Wrap ''credit priority'') (Option.bind (ta_CreditPriority t) ValidateCreditPriority),
         map_option (Wrap ''tax behavior'') (Option.bind (ta_TaxBehavior t) LedgerTaxBehavior_Validate)])"

definition TA_resolve ::
  "known_currencies \<Rightarrow> ResolverDependencies \<Rightarrow> string \<times> string \<Rightarrow> TransferAdvanceTemplate \<Rightarrow> TransactionInput option result" where
  "TA_resolve known D customer t =
     with_customer D customer (\<lambda>accounts.
     posting ''failed to get FBO sub-account'' (FBO_GetSubAccountForRoute known D (ca_FBOAccount accounts)
       \<lparr>fb_Currency = ta_Currency t, fb_CostBasisCurrency = ta_CostBasisCurrency t,
        fb_CreditPriority = resolveCustomerFBOCreditPriority (ta_CreditPriority t), fb_Features = ta_Features t,
        fb_CostBasis = ta_CostBasis t\<rparr>) (\<lambda>fbo.
     posting ''failed to get accrued sub-account'' (Accrued_GetSubAccountForRoute known D (ca_AccruedAccount accounts)
       \<lparr>xp_Currency = ta_Currency t, xp_CostBasisCurrency = ta_CostBasisCurrency t, xp_TaxCode = ta_TaxCode t,
        xp_TaxBehavior = ta_TaxBehavior t, xp_CostBasis = ta_CostBasis t\<rparr>) (\<lambda>accrued.
     Inr (Some (template_transaction (ta_At t)
       [template_entry fbo (- ta_Amount t) (charges (ta_SourceChargeID t) (ta_SpendChargeID t)) Map.empty,
        template_entry accrued (ta_Amount t) (charges (ta_SourceChargeID t) (ta_SpendChargeID t)) Map.empty])))))"

record ReceivableToAccruedTemplate =
  ra_At :: int
  ra_Amount :: decimal
  ra_Currency :: CurrencyReference
  ra_TaxCode :: "string option"
  ra_TaxBehavior :: "LedgerTaxBehavior option"
  ra_CostBasis :: "decimal option"
  ra_SpendChargeID :: "string option"

definition RA_Validate :: "known_currencies \<Rightarrow> ReceivableToAccruedTemplate \<Rightarrow> error option" where
  "RA_Validate known t =
     (if IsZeroTime (ra_At t) then Some (Err ''at is required'')
      else first_error (\<lambda>e. e)
        [map_option (Wrap ''amount'') (ValidateTransactionAmount (ra_Amount t)),
         map_option (Wrap ''currency'') (CR_Validate known (ra_Currency t)),
         (case ra_CostBasis t of None \<Rightarrow> Some (Err ''cost basis is required'')
          | Some b \<Rightarrow> map_option (Wrap ''cost basis'') (ValidateCostBasis b)),
         map_option (Wrap ''tax behavior'') (Option.bind (ra_TaxBehavior t) LedgerTaxBehavior_Validate)])"

definition RA_resolve ::
  "known_currencies \<Rightarrow> ResolverDependencies \<Rightarrow> string \<times> string \<Rightarrow> ReceivableToAccruedTemplate \<Rightarrow> TransactionInput option result" where
  "RA_resolve known D customer t =
     with_customer D customer (\<lambda>accounts.
     posting ''failed to get receivable sub-account'' (Receivable_GetSubAccountForRoute known D (ca_ReceivableAccount accounts)
       \<lparr>rp_Currency = ra_Currency t, rp_CostBasisCurrency = None, rp_TaxCode = None, rp_Features = [],
        rp_CostBasis = ra_CostBasis t, rp_AuthorizationStatus = TransactionAuthorizationStatusOpen\<rparr>) (\<lambda>receivable.
     posting ''failed to get accrued sub-account'' (Accrued_GetSubAccountForRoute known D (ca_AccruedAccount accounts)
       \<lparr>xp_Currency = ra_Currency t, xp_CostBasisCurrency = None, xp_TaxCode = ra_TaxCode t,
        xp_TaxBehavior = ra_TaxBehavior t, xp_CostBasis = ra_CostBasis t\<rparr>) (\<lambda>accrued.
     Inr (Some (template_transaction (ra_At t)
       [template_entry receivable (- ra_Amount t) (charges None (ra_SpendChargeID t)) Map.empty,
        template_entry accrued (ra_Amount t) (charges None (ra_SpendChargeID t)) Map.empty])))))"

record TranslateTemplate =
  tl_At :: int
  tl_Amount :: decimal
  tl_Currency :: CurrencyReference
  tl_TaxCode :: "string option"
  tl_TaxBehavior :: "LedgerTaxBehavior option"
  tl_FromCostBasis :: "decimal option"
  tl_ToCostBasis :: "decimal option"
  tl_CostBasisCurrency :: "string option"
  tl_SourceChargeID :: "string option"
  tl_SpendChargeID :: "string option"

definition TL_Validate :: "known_currencies \<Rightarrow> TranslateTemplate \<Rightarrow> error option" where
  "TL_Validate known t =
     (if IsZeroTime (tl_At t) then Some (Err ''at is required'')
      else first_error (\<lambda>e. e)
        [map_option (Wrap ''amount'') (ValidateTransactionAmount (tl_Amount t)),
         map_option (Wrap ''currency'') (CR_Validate known (tl_Currency t)),
         map_option (Wrap ''from cost basis'') (Option.bind (tl_FromCostBasis t) ValidateCostBasis),
         (case tl_ToCostBasis t of None \<Rightarrow> Some (Err ''to cost basis is required'')
          | Some b \<Rightarrow> map_option (Wrap ''to cost basis'') (ValidateCostBasis b)),
         map_option (Wrap ''cost basis currency'')
           (ValidateCostBasisCurrency known (cr_Code (tl_Currency t)) (tl_CostBasisCurrency t) (tl_ToCostBasis t)),
         map_option (Wrap ''tax behavior'') (Option.bind (tl_TaxBehavior t) LedgerTaxBehavior_Validate),
         (if tl_FromCostBasis t = tl_ToCostBasis t then Some (Err ''from and to cost basis must differ'') else None)])"

definition TL_resolve ::
  "known_currencies \<Rightarrow> ResolverDependencies \<Rightarrow> string \<times> string \<Rightarrow> TranslateTemplate \<Rightarrow> TransactionInput option result" where
  "TL_resolve known D customer t =
     with_customer D customer (\<lambda>accounts.
     posting ''failed to get source accrued sub-account'' (Accrued_GetSubAccountForRoute known D (ca_AccruedAccount accounts)
       \<lparr>xp_Currency = tl_Currency t, xp_CostBasisCurrency = None, xp_TaxCode = tl_TaxCode t,
        xp_TaxBehavior = tl_TaxBehavior t, xp_CostBasis = tl_FromCostBasis t\<rparr>) (\<lambda>from.
     posting ''failed to get target accrued sub-account'' (Accrued_GetSubAccountForRoute known D (ca_AccruedAccount accounts)
       \<lparr>xp_Currency = tl_Currency t, xp_CostBasisCurrency = tl_CostBasisCurrency t, xp_TaxCode = tl_TaxCode t,
        xp_TaxBehavior = tl_TaxBehavior t, xp_CostBasis = tl_ToCostBasis t\<rparr>) (\<lambda>to.
     Inr (Some (template_transaction (tl_At t)
       [template_entry from (- tl_Amount t) (charges None (tl_SpendChargeID t)) Map.empty,
        template_entry to (tl_Amount t) (charges (tl_SourceChargeID t) (tl_SpendChargeID t)) Map.empty])))))"

section \<open>Recognizing earnings (collection.go, earnings.go)\<close>

record RecognizeTemplate =
  rt_At :: int
  rt_Amount :: decimal
  rt_Currency :: CurrencyReference

definition RT_Validate :: "known_currencies \<Rightarrow> RecognizeTemplate \<Rightarrow> error option" where
  "RT_Validate known t =
     (if IsZeroTime (rt_At t) then Some (Err ''at is required'')
      else first_error (\<lambda>e. e)
        [map_option (Wrap ''amount'') (ValidateTransactionAmount (rt_Amount t)),
         map_option (Wrap ''currency'') (CR_Validate known (rt_Currency t))])"

definition isCreditBackedAccruedIdentity :: "EntryIdentityParts \<Rightarrow> bool" where
  "isCreditBackedAccruedIdentity i \<longleftrightarrow>
     ip_SourceChargeID i \<noteq> None \<and> ip_SpendChargeID i \<noteq> None \<and> ip_SourceChargeID i \<noteq> ip_SpendChargeID i"

definition any_route :: "CurrencyReference \<Rightarrow> RouteFilter" where
  "any_route c = \<lparr>fi_Currency = c, fi_CostBasisCurrency = None, fi_TaxCode = None, fi_TaxBehavior = None, fi_Features = None,
     fi_MatchFeature = [], fi_CostBasis = None, fi_CreditPriority = None, fi_AuthorizationStatus = None\<rparr>"

definition accrued_query :: "string \<Rightarrow> Account \<Rightarrow> CurrencyReference \<Rightarrow> BalanceBucketQuery" where
  "accrued_query ns account currency =
     \<lparr>bq_Namespace = ns, bq_Filters = \<lparr>lf_BookedAtPeriod = None, lf_After = None, lf_AsOf = None, lf_TransactionID = None,
        lf_AccountID = Some (an_ID account), lf_SourceChargeID = None, lf_SpendChargeID = None, lf_Route = any_route currency\<rparr>,
      bq_GroupBy = [BalanceBucketGroupBySourceChargeID, BalanceBucketGroupBySpendChargeID]\<rparr>"

definition bucket_identity :: "BalanceBucket \<Rightarrow> EntryIdentityParts" where
  "bucket_identity b = charges (bb_SourceChargeID b) (bb_SpendChargeID b)"

definition attributable :: "CurrencyReference \<Rightarrow> BalanceBucket \<Rightarrow> bool" where
  "attributable currency b \<longleftrightarrow> CR_Equal (ro_Currency (address_route (bb_Address b))) currency \<and>
     ro_CostBasis (address_route (bb_Address b)) \<noteq> None \<and> isCreditBackedAccruedIdentity (bucket_identity b)"

definition bucket_source :: "BalanceBucket \<Rightarrow> PostingAmount" where
  "bucket_source b = \<lparr>po_Address = bb_Address b, po_Amount = bb_SettledAmount b, po_Identity = bucket_identity b,
     po_Annotations = Map.empty\<rparr>"

text \<open>By sub-account and identity; sources that agree in both have no order in the code and keep theirs here.\<close>

definition compare_sources :: "PostingAmount \<Rightarrow> PostingAmount \<Rightarrow> int" where
  "compare_sources a v =
     (let c = compare_values (pa_SubAccountID (po_Address a)) (pa_SubAccountID (po_Address v))
      in if c \<noteq> 0 then c else compare_values (fst (parts_Text (po_Identity a))) (fst (parts_Text (po_Identity v))))"

fun collectFromPostingAddressBalanceSources :: "PostingAmount list \<Rightarrow> decimal \<Rightarrow> PostingAmount list" where
  "collectFromPostingAddressBalanceSources [] remaining = []"
| "collectFromPostingAddressBalanceSources (s # ss) remaining =
     (if \<not> 0 < remaining then []
      else if \<not> 0 < po_Amount s then collectFromPostingAddressBalanceSources ss remaining
      else let amount = (if remaining < po_Amount s then remaining else po_Amount s)
           in s\<lparr>po_Amount := amount\<rparr> # collectFromPostingAddressBalanceSources ss (remaining - amount))"

definition collectFromAttributableCustomerAccrued ::
  "ResolverDependencies \<Rightarrow> string \<times> string \<Rightarrow> CurrencyReference \<Rightarrow> decimal \<Rightarrow> PostingAmount list result" where
  "collectFromAttributableCustomerAccrued D customer currency target =
     bind_result (wrap_result ''get customer accounts'' (rd_GetCustomerAccounts D customer)) (\<lambda>accounts.
     bind_result (wrap_result ''list attributable accrued buckets''
         (rd_GetBalanceBuckets D (accrued_query (fst customer) (ca_AccruedAccount accounts) currency))) (\<lambda>buckets.
       Inr (collectFromPostingAddressBalanceSources
         (sort_by compare_sources (map bucket_source (List.filter (attributable currency) buckets))) target)))"

definition recognize_key :: "decimal_lib \<Rightarrow> PostingAddress \<Rightarrow> string option \<Rightarrow> string option \<Rightarrow> routePairingKey" where
  "recognize_key L a source spend =
     (basic_key L a source spend)\<lparr>pk_taxCode := or_nullish (ro_TaxCode (address_route a)),
        pk_taxBehavior := (case ro_TaxBehavior (address_route a) of None \<Rightarrow> ''null'' | Some b \<Rightarrow> behavior_string b)\<rparr>"

definition recognize_source_key :: "decimal_lib \<Rightarrow> PostingAmount \<Rightarrow> routePairingKey" where
  "recognize_source_key L s = recognize_key L (po_Address s) (ip_SourceChargeID (po_Identity s)) (ip_SpendChargeID (po_Identity s))"

definition recognize_earnings :: "known_currencies \<Rightarrow> ResolverDependencies \<Rightarrow> Account \<Rightarrow> PostingAmount \<Rightarrow> PostingAddress result" where
  "recognize_earnings known D account s =
     (let r = address_route (po_Address s)
      in posting ''failed to get earnings sub-account'' (Business_GetSubAccountForRoute known D account
           \<lparr>xp_Currency = ro_Currency r, xp_CostBasisCurrency = ro_CostBasisCurrency r, xp_TaxCode = ro_TaxCode r,
            xp_TaxBehavior = ro_TaxBehavior r, xp_CostBasis = ro_CostBasis r\<rparr>) Inr)"

definition RT_resolve ::
  "known_currencies \<Rightarrow> decimal_lib \<Rightarrow> ResolverDependencies \<Rightarrow> string \<times> string \<Rightarrow> RecognizeTemplate \<Rightarrow> TransactionInput option result" where
  "RT_resolve known L D customer t =
     bind_result (wrap_result ''collect from attributable accrued''
         (collectFromAttributableCustomerAccrued D customer (rt_Currency t) (rt_Amount t))) (\<lambda>collections.
       if collections = [] then Inr None
       else with_business D (fst customer) (\<lambda>business.
         bind_result (resolve_counterparts (recognize_source_key L) (recognize_earnings known D (ba_EarningsAccount business)) po_Identity
           collections Map.empty) (\<lambda>byKey.
         Inr (Some (template_transaction (rt_At t)
           (map source_entry collections @ credited_entries (recognize_source_key L) byKey collections {}))))))"

section \<open>Exchanging currencies (fx.go)\<close>

record ConvertTemplate =
  cx_At :: int
  cx_SourceAmount :: decimal
  cx_TargetAmount :: decimal
  cx_CostBasis :: decimal
  cx_SourceCurrency :: CurrencyReference
  cx_TargetCurrency :: CurrencyReference
  cx_Features :: "string list"
  cx_SourceChargeID :: "string option"
  cx_SpendChargeID :: "string option"

definition CX_Validate :: "known_currencies \<Rightarrow> ConvertTemplate \<Rightarrow> error option" where
  "CX_Validate known t = nillable_validation (join_errors
     (err_if (IsZeroTime (cx_At t)) (Err ''at is required'') @
      err_of (Wrap ''source amount'') (ValidateTransactionAmount (cx_SourceAmount t)) @
      err_of (Wrap ''target amount'') (ValidateTransactionAmount (cx_TargetAmount t)) @
      (case ValidateCostBasis (cx_CostBasis t) of
         Some e \<Rightarrow> [Wrap ''cost basis'' e]
       | None \<Rightarrow> err_if (cx_CostBasis t = 0) (Err ''cost basis must be positive'')) @
      (case CR_Validate known (cx_SourceCurrency t) of
         Some e \<Rightarrow> [Wrap ''source currency'' e]
       | None \<Rightarrow> err_if (\<not> CR_IsFiat (cx_SourceCurrency t)) (Err ''source currency must be a known fiat currency'')) @
      (case CR_Validate known (cx_TargetCurrency t) of
         Some e \<Rightarrow> [Wrap ''target currency'' e]
       | None \<Rightarrow> if \<not> CR_IsCustom (cx_TargetCurrency t) then [Err ''target currency must be custom'']
                 else err_if (\<not> IsResolved (cx_TargetCurrency t)) (Err ''target custom currency must be resolved''))))"

definition CX_resolve ::
  "known_currencies \<Rightarrow> ResolverDependencies \<Rightarrow> string \<times> string \<Rightarrow> ConvertTemplate \<Rightarrow> TransactionInput option result" where
  "CX_resolve known D customer t =
     (let identity = charges (cx_SourceChargeID t) (cx_SpendChargeID t);
          basis = Some (cx_CostBasis t);
          targetCostBasisCurrency = Some (cr_Code (cx_SourceCurrency t))
      in with_customer D customer (\<lambda>accounts.
     posting ''failed to get source sub-account'' (Receivable_GetSubAccountForRoute known D (ca_ReceivableAccount accounts)
       \<lparr>rp_Currency = cx_SourceCurrency t, rp_CostBasisCurrency = None, rp_TaxCode = None, rp_Features = cx_Features t,
        rp_CostBasis = basis, rp_AuthorizationStatus = TransactionAuthorizationStatusOpen\<rparr>) (\<lambda>source.
     posting ''failed to get target sub-account'' (Receivable_GetSubAccountForRoute known D (ca_ReceivableAccount accounts)
       \<lparr>rp_Currency = cx_TargetCurrency t, rp_CostBasisCurrency = targetCostBasisCurrency, rp_TaxCode = None,
        rp_Features = cx_Features t, rp_CostBasis = basis, rp_AuthorizationStatus = TransactionAuthorizationStatusOpen\<rparr>) (\<lambda>target.
     with_business D (fst customer) (\<lambda>business.
     posting ''failed to get brokerage source sub-account'' (Business_GetSubAccountForRoute known D (ba_BrokerageAccount business)
       \<lparr>xp_Currency = cx_SourceCurrency t, xp_CostBasisCurrency = None, xp_TaxCode = None, xp_TaxBehavior = None,
        xp_CostBasis = basis\<rparr>) (\<lambda>brokerageSource.
     posting ''failed to get brokerage target sub-account'' (Business_GetSubAccountForRoute known D (ba_BrokerageAccount business)
       \<lparr>xp_Currency = cx_TargetCurrency t, xp_CostBasisCurrency = targetCostBasisCurrency, xp_TaxCode = None,
        xp_TaxBehavior = None, xp_CostBasis = basis\<rparr>) (\<lambda>brokerageTarget.
     Inr (Some (template_transaction (cx_At t)
       [template_entry source (- cx_SourceAmount t) identity Map.empty,
        template_entry brokerageSource (cx_SourceAmount t) identity Map.empty,
        template_entry target (cx_TargetAmount t) identity Map.empty,
        template_entry brokerageTarget (- cx_TargetAmount t) identity Map.empty])))))))))"

section \<open>Breakage (breakage.go)\<close>

text \<open>The three templates of breakage have the fields and checks of their base.\<close>

record BreakageTemplate =
  bk_At :: int
  bk_Amount :: decimal
  bk_FBOAddress :: PostingAddress
  bk_BreakageAddress :: PostingAddress
  bk_FBOIdentity :: EntryIdentityParts
  bk_BreakageIdentity :: EntryIdentityParts

definition BK_Validate :: "BreakageTemplate \<Rightarrow> error option" where
  "BK_Validate t =
     (if IsZeroTime (bk_At t) then Some (Err ''at is required'')
      else case map_option (Wrap ''amount'') (ValidateTransactionAmount (bk_Amount t)) of Some e \<Rightarrow> Some e
      | None \<Rightarrow>
          if pa_AccountType (bk_FBOAddress t) \<noteq> AccountTypeCustomerFBO then Some (Err ''FBO address account type must be customer_fbo'')
          else if pa_AccountType (bk_BreakageAddress t) \<noteq> AccountTypeBreakage
          then Some (Err ''breakage address account type must be breakage'')
          else if \<not> CR_Equal (ro_Currency (address_route (bk_FBOAddress t))) (ro_Currency (address_route (bk_BreakageAddress t)))
          then Some (Err ''FBO and breakage currency must match'')
          else None)"

definition BK_resolve :: "BreakageTemplate \<Rightarrow> decimal \<Rightarrow> decimal \<Rightarrow> TransactionInput" where
  "BK_resolve t fboAmount breakageAmount = template_transaction (bk_At t)
     [template_entry (bk_FBOAddress t) fboAmount (bk_FBOIdentity t) Map.empty,
      template_entry (bk_BreakageAddress t) breakageAmount (bk_BreakageIdentity t) Map.empty]"

section \<open>Archived templates (legacy.go)\<close>

record LegacyTemplate =
  lg_At :: int
  lg_Amount :: decimal
  lg_Currency :: string
  lg_CostBasis :: "decimal option"

definition LG_Validate :: "known_currencies \<Rightarrow> LegacyTemplate \<Rightarrow> error option" where
  "LG_Validate known t =
     (if IsZeroTime (lg_At t) then Some (Err ''at is required'')
      else first_error (\<lambda>e. e)
        [map_option (Wrap ''amount'') (ValidateTransactionAmount (lg_Amount t)),
         map_option (Wrap ''currency'') (ValidateCurrency known (lg_Currency t)),
         map_option (Wrap ''cost basis'') (Option.bind (lg_CostBasis t) ValidateCostBasis)])"

definition legacy_receivable :: "LegacyTemplate \<Rightarrow> TransactionAuthorizationStatus \<Rightarrow> CustomerReceivableRouteParams" where
  "legacy_receivable t status =
     \<lparr>rp_Currency = NewCurrencyReference (lg_Currency t), rp_CostBasisCurrency = None, rp_TaxCode = None, rp_Features = [],
      rp_CostBasis = lg_CostBasis t, rp_AuthorizationStatus = status\<rparr>"

definition LegacyFund_resolve ::
  "known_currencies \<Rightarrow> ResolverDependencies \<Rightarrow> string \<times> string \<Rightarrow> LegacyTemplate \<Rightarrow> TransactionInput option result" where
  "LegacyFund_resolve known D customer t =
     with_customer D customer (\<lambda>accounts.
     posting ''failed to get receivable sub-account'' (Receivable_GetSubAccountForRoute known D (ca_ReceivableAccount accounts)
       (legacy_receivable t TransactionAuthorizationStatusAuthorized)) (\<lambda>rec.
     with_business D (fst customer) (\<lambda>business.
     posting ''failed to get wash sub-account'' (Business_GetSubAccountForRoute known D (ba_WashAccount business)
       \<lparr>xp_Currency = NewCurrencyReference (lg_Currency t), xp_CostBasisCurrency = None, xp_TaxCode = None, xp_TaxBehavior = None,
        xp_CostBasis = lg_CostBasis t\<rparr>) (\<lambda>wash.
     Inr (Some (template_transaction (lg_At t)
       [template_entry wash (- lg_Amount t) no_parts Map.empty, template_entry rec (lg_Amount t) no_parts Map.empty]))))))"

definition LegacySettle_resolve ::
  "known_currencies \<Rightarrow> ResolverDependencies \<Rightarrow> string \<times> string \<Rightarrow> LegacyTemplate \<Rightarrow> TransactionInput option result" where
  "LegacySettle_resolve known D customer t =
     with_customer D customer (\<lambda>accounts.
     posting ''failed to get authorized receivable sub-account'' (Receivable_GetSubAccountForRoute known D
       (ca_ReceivableAccount accounts) (legacy_receivable t TransactionAuthorizationStatusAuthorized)) (\<lambda>authorized.
     posting ''failed to get receivable sub-account'' (Receivable_GetSubAccountForRoute known D
       (ca_ReceivableAccount accounts) (legacy_receivable t TransactionAuthorizationStatusOpen)) (\<lambda>open_receivable.
     Inr (Some (template_transaction (lg_At t)
       [template_entry authorized (- lg_Amount t) no_parts Map.empty,
        template_entry open_receivable (lg_Amount t) no_parts Map.empty])))))"

section \<open>All templates (template.go, codes.go, resolve.go)\<close>

datatype TransactionTemplate =
    IssueCustomerReceivable IssueCustomerReceivableTemplate
  | AuthorizeCustomerReceivablePayment PaymentTemplate
  | SettleCustomerReceivableFromPayment PaymentTemplate
  | AttributeCustomerAdvanceReceivableCostBasis AttributeTemplate
  | CoverCustomerReceivable CoverTemplate
  | TransferCustomerFBOToAccrued TransferFBOTemplate
  | TransferCustomerFBOAdvanceToAccrued TransferAdvanceTemplate
  | TransferCustomerReceivableToAccrued ReceivableToAccruedTemplate
  | TranslateCustomerAccruedCostBasis TranslateTemplate
  | RecognizeEarningsFromAttributableAccrued RecognizeTemplate
  | ConvertCurrency ConvertTemplate
  | PlanCustomerFBOBreakage BreakageTemplate
  | ReleaseCustomerFBOBreakage BreakageTemplate
  | ReopenCustomerFBOBreakage BreakageTemplate
  | LegacyFundCustomerReceivable LegacyTemplate
  | LegacySettleCustomerReceivablePayment LegacyTemplate

fun template_Validate :: "known_currencies \<Rightarrow> TransactionTemplate \<Rightarrow> error option" where
  "template_Validate known (IssueCustomerReceivable t) = IS_Validate known t"
| "template_Validate known (AuthorizeCustomerReceivablePayment t) = PaymentTemplate_Validate known t"
| "template_Validate known (SettleCustomerReceivableFromPayment t) = PaymentTemplate_Validate known t"
| "template_Validate known (AttributeCustomerAdvanceReceivableCostBasis t) = AA_Validate known t"
| "template_Validate known (CoverCustomerReceivable t) = CV_Validate known t"
| "template_Validate known (TransferCustomerFBOToAccrued t) = TransferFBO_Validate known t"
| "template_Validate known (TransferCustomerFBOAdvanceToAccrued t) = TransferAdvance_Validate known t"
| "template_Validate known (TransferCustomerReceivableToAccrued t) = RA_Validate known t"
| "template_Validate known (TranslateCustomerAccruedCostBasis t) = TL_Validate known t"
| "template_Validate known (RecognizeEarningsFromAttributableAccrued t) = RT_Validate known t"
| "template_Validate known (ConvertCurrency t) = CX_Validate known t"
| "template_Validate known (PlanCustomerFBOBreakage t) = BK_Validate t"
| "template_Validate known (ReleaseCustomerFBOBreakage t) = BK_Validate t"
| "template_Validate known (ReopenCustomerFBOBreakage t) = BK_Validate t"
| "template_Validate known (LegacyFundCustomerReceivable t) = LG_Validate known t"
| "template_Validate known (LegacySettleCustomerReceivablePayment t) = LG_Validate known t"

fun template_resolve ::
  "known_currencies \<Rightarrow> decimal_lib \<Rightarrow> ResolverDependencies \<Rightarrow> string \<times> string \<Rightarrow> TransactionTemplate \<Rightarrow> TransactionInput option result" where
  "template_resolve known L D c (IssueCustomerReceivable t) = IS_resolve known D c t"
| "template_resolve known L D c (AuthorizeCustomerReceivablePayment t) = Authorize_resolve known D c t"
| "template_resolve known L D c (SettleCustomerReceivableFromPayment t) = Settle_resolve known D c t"
| "template_resolve known L D c (AttributeCustomerAdvanceReceivableCostBasis t) = AA_resolve known D c t"
| "template_resolve known L D c (CoverCustomerReceivable t) = CV_resolve known L D c t"
| "template_resolve known L D c (TransferCustomerFBOToAccrued t) = TF_resolve known L D c t"
| "template_resolve known L D c (TransferCustomerFBOAdvanceToAccrued t) = TA_resolve known D c t"
| "template_resolve known L D c (TransferCustomerReceivableToAccrued t) = RA_resolve known D c t"
| "template_resolve known L D c (TranslateCustomerAccruedCostBasis t) = TL_resolve known D c t"
| "template_resolve known L D c (RecognizeEarningsFromAttributableAccrued t) = RT_resolve known L D c t"
| "template_resolve known L D c (ConvertCurrency t) = CX_resolve known D c t"
| "template_resolve known L D c (PlanCustomerFBOBreakage t) = Inr (Some (BK_resolve t (- bk_Amount t) (bk_Amount t)))"
| "template_resolve known L D c (ReleaseCustomerFBOBreakage t) = Inr (Some (BK_resolve t (bk_Amount t) (- bk_Amount t)))"
| "template_resolve known L D c (ReopenCustomerFBOBreakage t) = Inr (Some (BK_resolve t (- bk_Amount t) (bk_Amount t)))"
| "template_resolve known L D c (LegacyFundCustomerReceivable t) = LegacyFund_resolve known D c t"
| "template_resolve known L D c (LegacySettleCustomerReceivablePayment t) = LegacySettle_resolve known D c t"

text \<open>The types of templates: what the registries hold are templates without values.\<close>

datatype TemplateKind =
    IssueCustomerReceivableKind
  | AuthorizeCustomerReceivablePaymentKind
  | SettleCustomerReceivableFromPaymentKind
  | AttributeCustomerAdvanceReceivableCostBasisKind
  | CoverCustomerReceivableKind
  | TransferCustomerFBOToAccruedKind
  | TransferCustomerFBOAdvanceToAccruedKind
  | TransferCustomerReceivableToAccruedKind
  | TranslateCustomerAccruedCostBasisKind
  | RecognizeEarningsFromAttributableAccruedKind
  | ConvertCurrencyKind
  | PlanCustomerFBOBreakageKind
  | ReleaseCustomerFBOBreakageKind
  | ReopenCustomerFBOBreakageKind
  | LegacyFundCustomerReceivableKind
  | LegacySettleCustomerReceivablePaymentKind

fun kind_of :: "TransactionTemplate \<Rightarrow> TemplateKind" where
  "kind_of (IssueCustomerReceivable t) = IssueCustomerReceivableKind"
| "kind_of (AuthorizeCustomerReceivablePayment t) = AuthorizeCustomerReceivablePaymentKind"
| "kind_of (SettleCustomerReceivableFromPayment t) = SettleCustomerReceivableFromPaymentKind"
| "kind_of (AttributeCustomerAdvanceReceivableCostBasis t) = AttributeCustomerAdvanceReceivableCostBasisKind"
| "kind_of (CoverCustomerReceivable t) = CoverCustomerReceivableKind"
| "kind_of (TransferCustomerFBOToAccrued t) = TransferCustomerFBOToAccruedKind"
| "kind_of (TransferCustomerFBOAdvanceToAccrued t) = TransferCustomerFBOAdvanceToAccruedKind"
| "kind_of (TransferCustomerReceivableToAccrued t) = TransferCustomerReceivableToAccruedKind"
| "kind_of (TranslateCustomerAccruedCostBasis t) = TranslateCustomerAccruedCostBasisKind"
| "kind_of (RecognizeEarningsFromAttributableAccrued t) = RecognizeEarningsFromAttributableAccruedKind"
| "kind_of (ConvertCurrency t) = ConvertCurrencyKind"
| "kind_of (PlanCustomerFBOBreakage t) = PlanCustomerFBOBreakageKind"
| "kind_of (ReleaseCustomerFBOBreakage t) = ReleaseCustomerFBOBreakageKind"
| "kind_of (ReopenCustomerFBOBreakage t) = ReopenCustomerFBOBreakageKind"
| "kind_of (LegacyFundCustomerReceivable t) = LegacyFundCustomerReceivableKind"
| "kind_of (LegacySettleCustomerReceivablePayment t) = LegacySettleCustomerReceivablePaymentKind"

fun kind_code :: "TemplateKind \<Rightarrow> string" where
  "kind_code IssueCustomerReceivableKind = ''customer.receivable.issue''"
| "kind_code AuthorizeCustomerReceivablePaymentKind = ''customer.receivable.payment.authorize''"
| "kind_code SettleCustomerReceivableFromPaymentKind = ''customer.receivable.payment.settle''"
| "kind_code AttributeCustomerAdvanceReceivableCostBasisKind = ''customer.receivable.advance.attribute''"
| "kind_code CoverCustomerReceivableKind = ''customer.receivable.cover''"
| "kind_code TransferCustomerFBOToAccruedKind = ''customer.fbo.collect''"
| "kind_code TransferCustomerFBOAdvanceToAccruedKind = ''customer.fbo.advance.collect''"
| "kind_code TransferCustomerReceivableToAccruedKind = ''customer.receivable.collect''"
| "kind_code TranslateCustomerAccruedCostBasisKind = ''customer.accrued.cost_basis.translate''"
| "kind_code RecognizeEarningsFromAttributableAccruedKind = ''customer.accrued.earnings.recognize''"
| "kind_code ConvertCurrencyKind = ''customer.receivable.currency.exchange''"
| "kind_code PlanCustomerFBOBreakageKind = ''customer.fbo.breakage.plan''"
| "kind_code ReleaseCustomerFBOBreakageKind = ''customer.fbo.breakage.release''"
| "kind_code ReopenCustomerFBOBreakageKind = ''customer.fbo.breakage.reopen''"
| "kind_code LegacyFundCustomerReceivableKind = []"
| "kind_code LegacySettleCustomerReceivablePaymentKind = []"

definition template_code :: "TransactionTemplate \<Rightarrow> string" where
  "template_code t = kind_code (kind_of t)"

definition annotateTemplateTransaction :: "TransactionInput \<Rightarrow> string \<Rightarrow> TransactionDirection \<Rightarrow> TransactionInput result" where
  "annotateTemplateTransaction input code direction =
     (if code = [] then Inl (Err ''unknown transaction template code'')
      else Inr (WithAnnotations input (TransactionAnnotations code direction)))"

definition appendResolvedTemplateTransaction ::
  "TransactionInput list \<Rightarrow> TransactionInput option \<Rightarrow> string \<Rightarrow> TransactionDirection \<Rightarrow> TransactionInput list result" where
  "appendResolvedTemplateTransaction inputs input code direction =
     (case input of
        None \<Rightarrow> Inr inputs
      | Some i \<Rightarrow> bind_result (annotateTemplateTransaction i code direction) (\<lambda>annotated. Inr (inputs @ [annotated])))"

record ResolutionScope =
  rs_CustomerID :: "string \<times> string"
  rs_Namespace :: string

definition ErrResolutionScopeInvalid :: error where "ErrResolutionScopeInvalid = Err ''ledger resolution scope is invalid''"

definition RS_Validate :: "ResolutionScope \<Rightarrow> error option" where
  "RS_Validate s =
     (if fst (rs_CustomerID s) \<noteq> [] \<and> rs_Namespace s \<noteq> [] \<and> fst (rs_CustomerID s) \<noteq> rs_Namespace s
      then Some ErrResolutionScopeInvalid else None)"

definition validateForCustomerTransaction :: "ResolutionScope \<Rightarrow> error option" where
  "validateForCustomerTransaction s =
     (if fst (rs_CustomerID s) = [] then Some ErrResolutionScopeInvalid
      else if snd (rs_CustomerID s) = [] then Some ErrResolutionScopeInvalid else None)"

text \<open>All templates of the package are customer templates.\<close>

fun resolve_templates ::
  "known_currencies \<Rightarrow> decimal_lib \<Rightarrow> ResolverDependencies \<Rightarrow> ResolutionScope \<Rightarrow> TransactionTemplate list \<Rightarrow> TransactionInput list \<Rightarrow>
     TransactionInput list result" where
  "resolve_templates known L D scope [] inputs = Inr inputs"
| "resolve_templates known L D scope (t # ts) inputs =
     check_then (template_Validate known t)
       (check_then (validateForCustomerTransaction scope)
         (bind_result (template_resolve known L D (rs_CustomerID scope) t) (\<lambda>tx.
           bind_result (appendResolvedTemplateTransaction inputs tx (template_code t) TransactionDirectionForward)
             (resolve_templates known L D scope ts))))"

definition ResolveTransactions ::
  "known_currencies \<Rightarrow> decimal_lib \<Rightarrow> ResolverDependencies \<Rightarrow> ResolutionScope \<Rightarrow> TransactionTemplate list \<Rightarrow> TransactionInput list result" where
  "ResolveTransactions known L D scope templates = check_then (RS_Validate scope) (resolve_templates known L D scope templates [])"

end
