(* ===== verification/LedgerCorrections.thy ===== *)
theory LedgerCorrections
  imports LedgerTemplates
begin

text \<open>
  Corrections of ledger transactions (openmeter/ledger/transactions/correction.go, correction_leg.go and the \<open>correct\<close>
  methods of the templates): what is taken back of a booked transaction, by the template that booked it.
\<close>

section \<open>Input (correction.go)\<close>

record CorrectionInput =
  ci_At :: int
  ci_Amount :: decimal
  ci_CostBasis :: "decimal option"
  ci_OriginalTransaction :: "Transaction option"

definition CI_Validate :: "CorrectionInput \<Rightarrow> error option" where
  "CI_Validate i = nillable_validation (join_errors
     (err_if (IsZeroTime (ci_At i)) (Err ''at is required'') @
      err_of (Wrap ''amount'') (ValidateTransactionAmount (ci_Amount i)) @
      err_if (ci_OriginalTransaction i = None) (Err ''original transaction is required'')))"

definition templateCorrectionNotImplemented :: "string \<Rightarrow> error" where
  "templateCorrectionNotImplemented template = Err (template @ '' correction is not implemented'')"

section \<open>Corrections of one amount (customer.go, accrual.go)\<close>

text \<open>What the loops over the original entries remember of the two sides.\<close>

record sides =
  si_left :: "PostingAddress option"
  si_right :: "PostingAddress option"
  si_leftAmount :: decimal
  si_rightAmount :: decimal
  si_source :: "string option"
  si_spend :: "string option"
  si_leftIdentity :: EntryIdentityParts
  si_rightIdentity :: EntryIdentityParts

definition no_sides :: sides where
  "no_sides = \<lparr>si_left = None, si_right = None, si_leftAmount = 0, si_rightAmount = 0, si_source = None, si_spend = None,
     si_leftIdentity = no_parts, si_rightIdentity = no_parts\<rparr>"

definition account_type :: "Entry \<Rightarrow> AccountType" where
  "account_type e = pa_AccountType (ei_PostingAddress e)"

definition see_left :: "Entry \<Rightarrow> sides \<Rightarrow> sides" where
  "see_left e s = s\<lparr>si_left := Some (ei_PostingAddress e), si_leftAmount := si_leftAmount s + \<bar>ei_Amount e\<bar>\<rparr>"

definition see_right :: "Entry \<Rightarrow> sides \<Rightarrow> sides" where
  "see_right e s = s\<lparr>si_right := Some (ei_PostingAddress e), si_rightAmount := si_rightAmount s + \<bar>ei_Amount e\<bar>\<rparr>"

text \<open>The checks that follow each loop.\<close>

definition two_sided :: "string \<Rightarrow> string \<Rightarrow> decimal \<Rightarrow> sides \<Rightarrow> (PostingAddress \<Rightarrow> PostingAddress \<Rightarrow> 'a) \<Rightarrow> 'a result" where
  "two_sided missing exceeds amount s f =
     (case (si_left s, si_right s) of
        (Some l, Some r) \<Rightarrow>
          if si_leftAmount s < amount \<or> si_rightAmount s < amount then Inl (Err exceeds) else Inr (f l r)
      | _ \<Rightarrow> Inl (Err missing))"

definition issue_sides :: "sides \<Rightarrow> Entry \<Rightarrow> sides" where
  "issue_sides s e =
     (if account_type e = AccountTypeCustomerFBO \<and> 0 < ei_Amount e
      then (see_left e s)\<lparr>si_source := ei_SourceChargeID e, si_spend := ei_SpendChargeID e\<rparr>
      else if account_type e = AccountTypeCustomerReceivable \<and> ei_Amount e < 0
      then (see_right e s)\<lparr>si_source := ei_SourceChargeID e, si_spend := ei_SpendChargeID e\<rparr>
      else s)"

definition IS_correct :: "CorrectionInput \<Rightarrow> Transaction \<Rightarrow> TransactionInput list result" where
  "IS_correct scope original =
     (let s = foldl issue_sides no_sides (tr_Entries original)
      in two_sided ''issue receivable correction requires original FBO and receivable entries''
           ''issue receivable correction amount exceeds original transaction amount'' (ci_Amount scope) s (\<lambda>fbo receivable.
           [template_transaction (ci_At scope)
              [template_entry fbo (- ci_Amount scope) (charges (si_source s) (si_spend s)) Map.empty,
               template_entry receivable (ci_Amount scope) (charges (si_source s) (si_spend s)) Map.empty]]))"

definition attribute_sides :: "sides \<Rightarrow> Entry \<Rightarrow> sides" where
  "attribute_sides s e =
     (if account_type e \<noteq> AccountTypeCustomerReceivable then s
      else if 0 < ei_Amount e then (see_left e s)\<lparr>si_spend := ei_SpendChargeID e\<rparr>
      else if ei_Amount e < 0 then (see_right e s)\<lparr>si_source := ei_SourceChargeID e, si_spend := ei_SpendChargeID e\<rparr>
      else s)"

definition AA_correct :: "CorrectionInput \<Rightarrow> Transaction \<Rightarrow> TransactionInput list result" where
  "AA_correct scope original =
     (let s = foldl attribute_sides no_sides (tr_Entries original)
      in two_sided ''advance receivable attribution correction requires original receivable entries''
           ''advance receivable attribution correction amount exceeds original transaction amount'' (ci_Amount scope) s (\<lambda>advance attributed.
           [template_transaction (ci_At scope)
              [template_entry advance (- ci_Amount scope) (charges None (si_spend s)) Map.empty,
               template_entry attributed (ci_Amount scope) (charges (si_source s) (si_spend s)) Map.empty]]))"

definition advance_sides :: "sides \<Rightarrow> Entry \<Rightarrow> sides" where
  "advance_sides s e =
     (if account_type e = AccountTypeCustomerFBO \<and> ei_Amount e < 0
      then (see_left e s)\<lparr>si_leftIdentity := charges (ei_SourceChargeID e) None\<rparr>
      else if account_type e = AccountTypeCustomerAccrued \<and> 0 < ei_Amount e
      then (see_right e s)\<lparr>si_rightIdentity := charges (ei_SourceChargeID e) (ei_SpendChargeID e)\<rparr>
      else s)"

definition TA_correct :: "CorrectionInput \<Rightarrow> Transaction \<Rightarrow> TransactionInput list result" where
  "TA_correct scope original =
     (let s = foldl advance_sides no_sides (tr_Entries original)
      in two_sided ''bucket accrual correction requires original FBO and accrued entries''
           ''bucket accrual correction amount exceeds original transaction amount'' (ci_Amount scope) s (\<lambda>fbo accrued.
           [template_transaction (ci_At scope)
              [template_entry fbo (ci_Amount scope) (si_leftIdentity s) Map.empty,
               template_entry accrued (- ci_Amount scope) (si_rightIdentity s) Map.empty]]))"

definition translate_sides :: "sides \<Rightarrow> Entry \<Rightarrow> sides" where
  "translate_sides s e =
     (if account_type e \<noteq> AccountTypeCustomerAccrued then s
      else if ei_Amount e < 0 then (see_left e s)\<lparr>si_spend := ei_SpendChargeID e\<rparr>
      else if 0 < ei_Amount e then (see_right e s)\<lparr>si_source := ei_SourceChargeID e, si_spend := ei_SpendChargeID e\<rparr>
      else s)"

definition TL_correct :: "CorrectionInput \<Rightarrow> Transaction \<Rightarrow> TransactionInput list result" where
  "TL_correct scope original =
     (let s = foldl translate_sides no_sides (tr_Entries original)
      in two_sided ''accrued cost-basis translation correction requires original accrued entries''
           ''accrued cost-basis translation correction amount exceeds original transaction amount'' (ci_Amount scope) s (\<lambda>from to.
           [template_transaction (ci_At scope)
              [template_entry from (ci_Amount scope) (charges None (si_spend s)) Map.empty,
               template_entry to (- ci_Amount scope) (charges (si_source s) (si_spend s)) Map.empty]]))"

section \<open>Correcting an exchange (fx.go)\<close>

record exchange =
  ex_sourceReceivable :: "Entry option"
  ex_brokerageSource :: "Entry option"
  ex_targetReceivable :: "Entry option"
  ex_brokerageTarget :: "Entry option"
  ex_sourceAmount :: decimal
  ex_targetAmount :: decimal
  ex_costBasis :: "decimal option"

definition no_exchange :: exchange where
  "no_exchange = \<lparr>ex_sourceReceivable = None, ex_brokerageSource = None, ex_targetReceivable = None, ex_brokerageTarget = None,
     ex_sourceAmount = 0, ex_targetAmount = 0, ex_costBasis = None\<rparr>"

definition exchange_step :: "exchange \<Rightarrow> Entry \<Rightarrow> exchange" where
  "exchange_step x e =
     (let route = address_route (ei_PostingAddress e)
      in if account_type e = AccountTypeCustomerReceivable \<and> ei_Amount e < 0
         then x\<lparr>ex_sourceReceivable := Some e, ex_sourceAmount := ex_sourceAmount x + \<bar>ei_Amount e\<bar>, ex_costBasis := ro_CostBasis route\<rparr>
         else if account_type e = AccountTypeCustomerReceivable \<and> 0 < ei_Amount e
         then x\<lparr>ex_targetReceivable := Some e, ex_targetAmount := ex_targetAmount x + ei_Amount e\<rparr>
         else if account_type e = AccountTypeBrokerage \<and> 0 < ei_Amount e \<and> ro_CostBasisCurrency route = None
         then x\<lparr>ex_brokerageSource := Some e\<rparr>
         else if account_type e = AccountTypeBrokerage \<and> ei_Amount e < 0 \<and> ro_CostBasisCurrency route \<noteq> None
         then x\<lparr>ex_brokerageTarget := Some e\<rparr>
         else x)"

definition correction_entry :: "Entry \<Rightarrow> decimal \<Rightarrow> EntryInput" where
  "correction_entry e amount = template_entry (ei_PostingAddress e) amount (charges (ei_SourceChargeID e) (ei_SpendChargeID e)) Map.empty"

definition CX_correct :: "CorrectionInput \<Rightarrow> Transaction \<Rightarrow> TransactionInput list result" where
  "CX_correct scope original =
     (case ci_CostBasis scope of
        None \<Rightarrow> Inl (Err ''cost basis is required to correct a currency conversion'')
      | Some basis \<Rightarrow>
          let x = foldl exchange_step no_exchange (tr_Entries original)
          in (case (ex_sourceReceivable x, ex_brokerageSource x, ex_targetReceivable x, ex_brokerageTarget x) of
                (Some sourceReceivable, Some brokerageSource, Some targetReceivable, Some brokerageTarget) \<Rightarrow>
                  if ex_costBasis x \<noteq> Some basis then Inl (Err ''correction cost basis does not match the original booking'')
                  else if ci_Amount scope \<noteq> ex_targetAmount x
                  then Inl (Err ''currency conversion correction requires full original target amount'')
                  else Inr [template_transaction (ci_At scope)
                    [correction_entry sourceReceivable (ex_sourceAmount x), correction_entry brokerageSource (- ex_sourceAmount x),
                     correction_entry targetReceivable (- ci_Amount scope), correction_entry brokerageTarget (ci_Amount scope)]]
              | _ \<Rightarrow> Inl (Err ''currency conversion correction requires the original source and target receivable and brokerage entries'')))"

section \<open>Corrections leg by leg (correction_leg.go)\<close>

record correctionLeg =
  cl_sourceAddress :: PostingAddress
  cl_sourceEntryID :: string
  cl_counterpartAddress :: PostingAddress
  cl_amount :: decimal
  cl_source :: "string option"
  cl_spend :: "string option"

record correctionPosting =
  cp_address :: PostingAddress
  cp_amount :: decimal
  cp_identity :: EntryIdentityParts

fun counterpart_addresses ::
  "(Entry \<Rightarrow> routePairingKey) \<Rightarrow> Entry list \<Rightarrow> (routePairingKey \<rightharpoonup> PostingAddress) \<Rightarrow> (routePairingKey \<rightharpoonup> PostingAddress) result" where
  "counterpart_addresses key [] byKey = Inr byKey"
| "counterpart_addresses key (e # es) byKey =
     (case byKey (key e) of
        Some a \<Rightarrow> if \<not> PA_Equal a (ei_PostingAddress e) then Inl (Err ''multiple counterpart addresses for correction key'')
                  else counterpart_addresses key es (byKey(key e \<mapsto> ei_PostingAddress e))
      | None \<Rightarrow> counterpart_addresses key es (byKey(key e \<mapsto> ei_PostingAddress e)))"

fun correction_legs ::
  "(Entry \<Rightarrow> routePairingKey) \<Rightarrow> (Entry \<Rightarrow> decimal) \<Rightarrow> (routePairingKey \<rightharpoonup> PostingAddress) \<Rightarrow> Entry list \<Rightarrow> correctionLeg list result" where
  "correction_legs key sourceAmount byKey [] = Inr []"
| "correction_legs key sourceAmount byKey (e # es) =
     (if \<not> 0 < sourceAmount e then correction_legs key sourceAmount byKey es
      else case byKey (key e) of
        None \<Rightarrow> Inl (Err ''missing counterpart entry for correction key'')
      | Some a \<Rightarrow> bind_result (correction_legs key sourceAmount byKey es) (\<lambda>legs.
          Inr (\<lparr>cl_sourceAddress = ei_PostingAddress e, cl_sourceEntryID = en_ID e, cl_counterpartAddress = a,
                cl_amount = sourceAmount e, cl_source = ei_SourceChargeID e, cl_spend = ei_SpendChargeID e\<rparr> # legs)))"

text \<open>The postings so far and the indices of those that can be joined, by sub-account and identity.\<close>

type_synonym postings = "correctionPosting list \<times> (string \<rightharpoonup> nat)"

definition coalesce_key :: "PostingAddress \<Rightarrow> EntryIdentityParts \<Rightarrow> string" where
  "coalesce_key a identity = pa_SubAccountID a @ '':'' @ fst (parts_Text identity)"

definition addPosting :: "PostingAddress \<Rightarrow> decimal \<Rightarrow> EntryIdentityParts \<Rightarrow> bool \<Rightarrow> postings \<Rightarrow> postings" where
  "addPosting address amount identity joined st =
     (case st of (ps, byIdentity) \<Rightarrow>
        let key = coalesce_key address identity
        in (case (if joined then byIdentity key else None) of
              Some i \<Rightarrow> (ps[i := (ps ! i)\<lparr>cp_amount := cp_amount (ps ! i) + amount\<rparr>], byIdentity)
            | None \<Rightarrow> (ps @ [\<lparr>cp_address = address, cp_amount = amount, cp_identity = identity\<rparr>],
                 if joined then byIdentity(key \<mapsto> length ps) else byIdentity)))"

text \<open>The loop over the legs from the last to the first, here over the legs in that order.\<close>

fun post_legs :: "correctionLeg list \<Rightarrow> decimal \<Rightarrow> postings \<Rightarrow> correctionPosting list" where
  "post_legs [] remaining st = fst st"
| "post_legs (l # ls) remaining st =
     (if \<not> 0 < remaining then fst st
      else let amount = (if remaining < cl_amount l then remaining else cl_amount l);
               st = addPosting (cl_sourceAddress l) amount
                 ((charges (cl_source l) (cl_spend l))\<lparr>ip_CorrectionSource := Some (cl_sourceEntryID l)\<rparr>) False st;
               st = addPosting (cl_counterpartAddress l) (- amount) (charges (cl_source l) (cl_spend l)) True st
           in post_legs ls (remaining - amount) st)"

definition allocateCorrectionLegs ::
  "Entry list \<Rightarrow> Entry list \<Rightarrow> (Entry \<Rightarrow> routePairingKey) \<Rightarrow> (Entry \<Rightarrow> decimal) \<Rightarrow> decimal \<Rightarrow> correctionPosting list result" where
  "allocateCorrectionLegs sourceEntries counterpartEntries key sourceAmount amount =
     bind_result (counterpart_addresses key counterpartEntries Map.empty) (\<lambda>byKey.
     bind_result (correction_legs key sourceAmount byKey sourceEntries) (\<lambda>legs.
       if sum_list (map cl_amount legs) < amount then Inl (Err ''correction amount exceeds available amount'')
       else Inr (post_legs (rev legs) amount ([], Map.empty))))"

definition mapCorrectionPostingsToEntryInputs :: "correctionPosting list \<Rightarrow> EntryInput list" where
  "mapCorrectionPostingsToEntryInputs ps = map (\<lambda>p. template_entry (cp_address p) (cp_amount p) (cp_identity p) Map.empty) ps"

definition fboCorrectionPriority :: "PostingAddress \<Rightarrow> int" where
  "fboCorrectionPriority a = resolveCustomerFBOCreditPriority (ro_CreditPriority (address_route a))"

definition compareFBOCollectionCorrectionSourceEntries :: "Entry \<Rightarrow> Entry \<Rightarrow> int" where
  "compareFBOCollectionCorrectionSourceEntries left right =
     (let leftOrder = GetInt (ei_Annotations left) AnnotationCollectionSourceOrder;
          rightOrder = GetInt (ei_Annotations right) AnnotationCollectionSourceOrder;
          leftPriority = fboCorrectionPriority (ei_PostingAddress left);
          rightPriority = fboCorrectionPriority (ei_PostingAddress right);
          c = compare_values (pa_SubAccountID (ei_PostingAddress left)) (pa_SubAccountID (ei_PostingAddress right))
      in if leftOrder \<noteq> None \<and> rightOrder \<noteq> None \<and> leftOrder \<noteq> rightOrder
         then compare_values (value_or 0 leftOrder) (value_or 0 rightOrder)
         else if leftPriority \<noteq> rightPriority then compare_values leftPriority rightPriority
         else if c \<noteq> 0 then c
         else compare_values (ei_IdentityKey left) (ei_IdentityKey right))"

definition compareSubAccountID :: "Entry \<Rightarrow> Entry \<Rightarrow> int" where
  "compareSubAccountID left right =
     compare_values (pa_SubAccountID (ei_PostingAddress left)) (pa_SubAccountID (ei_PostingAddress right))"

definition entries_of :: "AccountType \<Rightarrow> (decimal \<Rightarrow> bool) \<Rightarrow> Transaction \<Rightarrow> Entry list" where
  "entries_of t sign original = List.filter (\<lambda>e. account_type e = t \<and> sign (ei_Amount e)) (tr_Entries original)"

text \<open>The correction of a template whose sources and counterparts are paired by route.\<close>

definition leg_correction ::
  "string \<Rightarrow> CorrectionInput \<Rightarrow> Entry list \<Rightarrow> Entry list \<Rightarrow> (Entry \<Rightarrow> routePairingKey) \<Rightarrow> TransactionInput list result" where
  "leg_correction msg scope sources counterparts key =
     bind_result (wrap_result msg (allocateCorrectionLegs sources counterparts key (\<lambda>e. \<bar>ei_Amount e\<bar>) (ci_Amount scope))) (\<lambda>ps.
       Inr [template_transaction (ci_At scope) (mapCorrectionPostingsToEntryInputs ps)])"

definition CV_correct :: "decimal_lib \<Rightarrow> CorrectionInput \<Rightarrow> Transaction \<Rightarrow> TransactionInput list result" where
  "CV_correct L scope original = leg_correction ''allocate receivable cover correction legs'' scope
     (sort_by compareFBOCollectionCorrectionSourceEntries (entries_of AccountTypeCustomerFBO (\<lambda>x. x < 0) original))
     (entries_of AccountTypeCustomerReceivable (\<lambda>x. 0 < x) original)
     (\<lambda>e. cover_key L (ei_PostingAddress e) (ei_SourceChargeID e) (ei_SpendChargeID e))"

definition TF_correct :: "decimal_lib \<Rightarrow> CorrectionInput \<Rightarrow> Transaction \<Rightarrow> TransactionInput list result" where
  "TF_correct L scope original = leg_correction ''allocate accrual correction legs'' scope
     (sort_by compareFBOCollectionCorrectionSourceEntries (entries_of AccountTypeCustomerFBO (\<lambda>x. x < 0) original))
     (entries_of AccountTypeCustomerAccrued (\<lambda>x. 0 < x) original)
     (\<lambda>e. basic_key L (ei_PostingAddress e) (ei_SourceChargeID e) (ei_SpendChargeID e))"

definition RT_correct :: "decimal_lib \<Rightarrow> CorrectionInput \<Rightarrow> Transaction \<Rightarrow> TransactionInput list result" where
  "RT_correct L scope original = leg_correction ''allocate earnings correction legs'' scope
     (sort_by compareSubAccountID (entries_of AccountTypeCustomerAccrued (\<lambda>x. x < 0) original))
     (entries_of AccountTypeEarnings (\<lambda>x. 0 < x) original)
     (\<lambda>e. recognize_key L (ei_PostingAddress e) (ei_SourceChargeID e) (ei_SpendChargeID e))"

section \<open>Correcting a transaction (correction.go, codes.go)\<close>

text \<open>The names that transactions carried before codes, and the code that an exchange had.\<close>

definition legacyAnnotationTransactionTemplateName :: string where
  "legacyAnnotationTransactionTemplateName = ''ledger.transaction.template_name''"

definition transactionTemplateCodeConvertCurrencyLegacy :: string where
  "transactionTemplateCodeConvertCurrencyLegacy = ''customer.fbo.currency.convert''"

definition registered_kinds :: "TemplateKind list" where
  "registered_kinds =
     [IssueCustomerReceivableKind, AuthorizeCustomerReceivablePaymentKind, SettleCustomerReceivableFromPaymentKind,
      AttributeCustomerAdvanceReceivableCostBasisKind, CoverCustomerReceivableKind, TransferCustomerFBOToAccruedKind,
      TransferCustomerFBOAdvanceToAccruedKind, TransferCustomerReceivableToAccruedKind, TranslateCustomerAccruedCostBasisKind,
      RecognizeEarningsFromAttributableAccruedKind, ConvertCurrencyKind, PlanCustomerFBOBreakageKind,
      ReleaseCustomerFBOBreakageKind, ReopenCustomerFBOBreakageKind]"

definition transactionTemplatesByCode :: "string \<rightharpoonup> TemplateKind" where
  "transactionTemplatesByCode =
     map_of (map (\<lambda>k. (kind_code k, k)) registered_kinds @ [(transactionTemplateCodeConvertCurrencyLegacy, ConvertCurrencyKind)])"

definition transactionTemplatesByLegacyName :: "string \<rightharpoonup> TemplateKind" where
  "transactionTemplatesByLegacyName = map_of
     [(''IssueCustomerReceivableTemplate'', IssueCustomerReceivableKind),
      (''FundCustomerReceivableTemplate'', LegacyFundCustomerReceivableKind),
      (''SettleCustomerReceivablePaymentTemplate'', LegacySettleCustomerReceivablePaymentKind),
      (''AuthorizeCustomerReceivablePaymentTemplate'', AuthorizeCustomerReceivablePaymentKind),
      (''SettleCustomerReceivableFromPaymentTemplate'', SettleCustomerReceivableFromPaymentKind),
      (''AttributeCustomerAdvanceReceivableCostBasisTemplate'', AttributeCustomerAdvanceReceivableCostBasisKind),
      (''CoverCustomerReceivableTemplate'', CoverCustomerReceivableKind),
      (''TransferCustomerFBOToAccruedTemplate'', TransferCustomerFBOToAccruedKind),
      (''TransferCustomerFBOAdvanceToAccruedTemplate'', TransferCustomerFBOAdvanceToAccruedKind),
      (''TransferCustomerReceivableToAccruedTemplate'', TransferCustomerReceivableToAccruedKind),
      (''TranslateCustomerAccruedCostBasisTemplate'', TranslateCustomerAccruedCostBasisKind),
      (''RecognizeEarningsFromAttributableAccruedTemplate'', RecognizeEarningsFromAttributableAccruedKind),
      (''ConvertCurrencyTemplate'', ConvertCurrencyKind),
      (''PlanCustomerFBOBreakageTemplate'', PlanCustomerFBOBreakageKind),
      (''ReleaseCustomerFBOBreakageTemplate'', ReleaseCustomerFBOBreakageKind),
      (''ReopenCustomerFBOBreakageTemplate'', ReopenCustomerFBOBreakageKind)]"

definition transactionTemplateNameFromAnnotations :: "Annotations \<Rightarrow> string result" where
  "transactionTemplateNameFromAnnotations annotations =
     (case annotations legacyAnnotationTransactionTemplateName of
        None \<Rightarrow> Inl (Err ''transaction template name annotation is required'')
      | Some (AnnString n) \<Rightarrow> if n = [] then Inl (Err ''transaction template name annotation is invalid'') else Inr n
      | Some _ \<Rightarrow> Inl (Err ''transaction template name annotation is invalid''))"

definition transactionTemplateFromAnnotations :: "Annotations \<Rightarrow> TemplateKind result" where
  "transactionTemplateFromAnnotations annotations =
     (if annotations AnnotationTransactionTemplateCode \<noteq> None
      then bind_result (wrap_result ''code'' (TransactionTemplateCodeFromAnnotations annotations)) (\<lambda>code.
        case transactionTemplatesByCode code of None \<Rightarrow> Inl (Err ''unknown correction template code'') | Some k \<Rightarrow> Inr k)
      else bind_result (wrap_result ''name'' (transactionTemplateNameFromAnnotations annotations)) (\<lambda>name.
        case transactionTemplatesByLegacyName name of None \<Rightarrow> Inl (Err ''unknown correction template name'') | Some k \<Rightarrow> Inr k))"

fun correctTemplate :: "decimal_lib \<Rightarrow> CorrectionInput \<Rightarrow> Transaction \<Rightarrow> TemplateKind \<Rightarrow> TransactionInput list result" where
  "correctTemplate L scope original IssueCustomerReceivableKind = IS_correct scope original"
| "correctTemplate L scope original AttributeCustomerAdvanceReceivableCostBasisKind = AA_correct scope original"
| "correctTemplate L scope original CoverCustomerReceivableKind = CV_correct L scope original"
| "correctTemplate L scope original TransferCustomerFBOToAccruedKind = TF_correct L scope original"
| "correctTemplate L scope original TransferCustomerFBOAdvanceToAccruedKind = TA_correct scope original"
| "correctTemplate L scope original TranslateCustomerAccruedCostBasisKind = TL_correct scope original"
| "correctTemplate L scope original RecognizeEarningsFromAttributableAccruedKind = RT_correct L scope original"
| "correctTemplate L scope original ConvertCurrencyKind = CX_correct scope original"
| "correctTemplate L scope original LegacyFundCustomerReceivableKind =
     Inl (templateCorrectionNotImplemented ''FundCustomerReceivableTemplate'')"
| "correctTemplate L scope original LegacySettleCustomerReceivablePaymentKind =
     Inl (templateCorrectionNotImplemented ''SettleCustomerReceivablePaymentTemplate'')"
| "correctTemplate L scope original kind = Inl (templateCorrectionNotImplemented (kind_code kind))"

fun annotate_all :: "TransactionInput list \<Rightarrow> string \<Rightarrow> TransactionInput list result" where
  "annotate_all [] code = Inr []"
| "annotate_all (t # ts) code =
     bind_result (annotateTemplateTransaction t code TransactionDirectionCorrection) (\<lambda>a.
       bind_result (annotate_all ts code) (\<lambda>as. Inr (a # as)))"

definition CorrectTransaction :: "decimal_lib \<Rightarrow> CorrectionInput \<Rightarrow> TransactionInput list result" where
  "CorrectTransaction L scope = check_then (map_option (Wrap ''validate correction input'') (CI_Validate scope))
     (case ci_OriginalTransaction scope of
        None \<Rightarrow> Inl nil_deref
      | Some original \<Rightarrow>
     bind_result (wrap_result ''transaction direction'' (TransactionDirectionFromAnnotations (tr_Annotations original))) (\<lambda>direction.
       if direction = TransactionDirectionCorrection then Inl (Err ''cannot correct a correction transaction'')
       else bind_result (wrap_result ''transaction template'' (transactionTemplateFromAnnotations (tr_Annotations original))) (\<lambda>kind.
         bind_result (correctTemplate L scope original kind) (\<lambda>outputs. annotate_all outputs (kind_code kind)))))"

end
