(* ===== verification/LedgerBooks.thy ===== *)
theory LedgerBooks
  imports LedgerCorrections
begin

text \<open>
  What the templates of the ledger promise: the transactions they resolve to balance in every currency and follow the
  routing rules, and their corrections take back no more than was booked.
\<close>

section \<open>Resolved sub-accounts\<close>

text \<open>The contract of the account resolver: the accounts it returns are of the types they stand for.\<close>

definition account_key :: "Account \<Rightarrow> string \<times> string" where
  "account_key a = (an_Namespace a, an_ID a)"

definition accounts_ok :: "ResolverDependencies \<Rightarrow> (string \<times> string \<Rightarrow> AccountType) \<Rightarrow> bool" where
  "accounts_ok D T \<longleftrightarrow> rows_ok D T \<and>
     (\<forall>c a. rd_GetCustomerAccounts D c = Inr a \<longrightarrow>
        T (account_key (ca_FBOAccount a)) = AccountTypeCustomerFBO \<and>
        T (account_key (ca_ReceivableAccount a)) = AccountTypeCustomerReceivable \<and>
        T (account_key (ca_AccruedAccount a)) = AccountTypeCustomerAccrued) \<and>
     (\<forall>ns b. rd_GetBusinessAccounts D ns = Inr b \<longrightarrow>
        T (account_key (ba_WashAccount b)) = AccountTypeWash \<and> T (account_key (ba_EarningsAccount b)) = AccountTypeEarnings \<and>
        T (account_key (ba_BrokerageAccount b)) = AccountTypeBrokerage \<and>
        T (account_key (ba_BreakageAccount b)) = AccountTypeBreakage)"

text \<open>The address of the sub-account that an account has for a route.\<close>

definition obtained :: "known_currencies \<Rightarrow> ResolverDependencies \<Rightarrow> Account \<Rightarrow> Route \<Rightarrow> PostingAddress \<Rightarrow> bool" where
  "obtained known D a r x \<longleftrightarrow> (\<exists>s. EnsureSubAccount known D (account_input a r) = Inr s \<and> sa_Address s = x)"

lemma same_dimensions_trans: "same_dimensions r v \<Longrightarrow> same_dimensions v w \<Longrightarrow> same_dimensions r w"
  by (simp add: same_dimensions_def same_route_def CR_Equal_def)

lemma same_dimensions_sym: "same_dimensions r v \<Longrightarrow> same_dimensions v r"
  by (simp add: same_dimensions_def same_route_def CR_Equal_def)

lemma rows_ok_row:
  assumes "rows_ok D T" and "rd_EnsureSubAccount D i = Inr d"
  shows "sd_AccountType d = T (cs_Namespace i, cs_AccountID i)" "same_dimensions (canonical_route (sd_Route d)) (canonical_route (cs_Route i))"
  using assms unfolding rows_ok_def by blast+

lemma obtained_address:
  assumes "obtained known D a r x" and "rows_ok D T"
  shows "pa_AccountType x = T (account_key a)" "same_dimensions (address_route x) (canonical_route r)" "Route_Validate known r = None"
proof -
  obtain s where s: "EnsureSubAccount known D (account_input a r) = Inr s" "sa_Address s = x"
    using assms(1) by (auto simp: obtained_def)
  obtain d where d: "rd_EnsureSubAccount D (account_input a r) = Inr d" "pa_AccountType x = sd_AccountType d"
    "same_dimensions (address_route x) (canonical_route (sd_Route d))" "Route_Validate known r = None"
    using EnsureSubAccount_Inr [OF s(1)] s(2) by (auto simp: account_input_def address_route_def)
  have "sd_AccountType d = T (account_key a)" "same_dimensions (canonical_route (sd_Route d)) (canonical_route r)"
    using rows_ok_row [OF assms(2) d(1)] by (simp_all add: account_input_def account_key_def)
  then show "pa_AccountType x = T (account_key a)" "same_dimensions (address_route x) (canonical_route r)" "Route_Validate known r = None"
    using d same_dimensions_trans by auto
qed

lemma obtained_same:
  assumes "obtained known D a r x" and "obtained known D b v y" and "rows_ok D T" and "pa_SubAccountID x = pa_SubAccountID y"
  shows "account_key a = account_key b \<and> same_dimensions (canonical_route r) (canonical_route v)"
proof -
  obtain d e where d: "rd_EnsureSubAccount D (account_input a r) = Inr d" "pa_SubAccountID x = sd_ID d"
    and e: "rd_EnsureSubAccount D (account_input b v) = Inr e" "pa_SubAccountID y = sd_ID e"
    using assms(1,2) by (auto simp: obtained_def dest!: EnsureSubAccount_Inr)
  have "(cs_Namespace (account_input a r), cs_AccountID (account_input a r)) =
      (cs_Namespace (account_input b v), cs_AccountID (account_input b v)) \<and>
      same_dimensions (canonical_route (cs_Route (account_input a r))) (canonical_route (cs_Route (account_input b v)))"
    using assms(3,4) d e unfolding rows_ok_def by metis
  then show ?thesis by (simp add: account_input_def account_key_def)
qed

text \<open>What the steps of a template that succeeded have found.\<close>

lemma posting_Inr:
  "posting m (FBO_GetSubAccountForRoute known D a p) f = Inr y \<Longrightarrow> \<exists>x. obtained known D a (FB_Route p) x \<and> f x = Inr y"
  "posting m (Receivable_GetSubAccountForRoute known D a q) f = Inr y \<Longrightarrow> \<exists>x. obtained known D a (RP_Route q) x \<and> f x = Inr y"
  "posting m (Accrued_GetSubAccountForRoute known D a t) f = Inr y \<Longrightarrow> \<exists>x. obtained known D a (XP_Route t) x \<and> f x = Inr y"
  "posting m (Business_GetSubAccountForRoute known D a t) f = Inr y \<Longrightarrow> \<exists>x. obtained known D a (XP_Route t) x \<and> f x = Inr y"
  by (auto simp: posting_def FBO_GetSubAccountForRoute_def Receivable_GetSubAccountForRoute_def Accrued_GetSubAccountForRoute_def
      Business_GetSubAccountForRoute_def obtained_def bind_result_Inr wrap_result_Inr check_then_Inr)

lemma with_customer_Inr: "with_customer D c f = Inr y \<Longrightarrow> \<exists>a. rd_GetCustomerAccounts D c = Inr a \<and> f a = Inr y"
  by (auto simp: with_customer_def bind_result_Inr wrap_result_Inr)

lemma with_business_Inr: "with_business D ns f = Inr y \<Longrightarrow> \<exists>b. rd_GetBusinessAccounts D ns = Inr b \<and> f b = Inr y"
  by (auto simp: with_business_def bind_result_Inr wrap_result_Inr)

lemmas found = posting_Inr with_customer_Inr with_business_Inr

lemma route_fields [simp]:
  "ro_Currency (FB_Route p) = fb_Currency p" "ro_Currency (RP_Route q) = rp_Currency q" "ro_Currency (XP_Route t) = xp_Currency t"
  by (simp_all add: FB_Route_def RP_Route_def XP_Route_def empty_route_def)

text \<open>Currencies of addresses.\<close>

definition currency_key :: "PostingAddress \<Rightarrow> string" where
  "currency_key x = IdentityKey (ro_Currency (address_route x))"

lemma obtained_currency: "obtained known D a r x \<Longrightarrow> rows_ok D T \<Longrightarrow> currency_key x = IdentityKey (ro_Currency r)"
  using obtained_address(2) [of known D a r x T] by (simp add: currency_key_def same_dimensions_def)

section \<open>Resolved transactions balance\<close>

lemma template_entry_fields [simp]:
  "ei_PostingAddress (template_entry x a i n) = x" "ei_Amount (template_entry x a i n) = a"
  "ei_IdentityKey (template_entry x a i n) = fst (parts_Text i)"
  "IdentityKey (entry_currency (template_entry x a i n)) = currency_key x"
  by (simp_all add: template_entry_def entry_currency_def currency_key_def address_route_def)

lemma pair_balanced: "currency_key x = currency_key y \<Longrightarrow> a + b = 0 \<Longrightarrow> balanced [template_entry x a i n, template_entry y b j m]"
  by (simp add: balanced_def)

lemma sum_by_key:
  assumes "finite K" and "key ` set ss \<subseteq> K"
  shows "sum_list (map f ss) = (\<Sum>k \<in> K. sum_list (map f (List.filter (\<lambda>s. key s = k) ss)))"
  using assms(2)
proof (induction ss)
  case (Cons s ss)
  have "(\<Sum>k \<in> K. sum_list (map f (List.filter (\<lambda>s. key s = k) (s # ss)))) =
      (\<Sum>k \<in> K. (if key s = k then f s else 0) + sum_list (map f (List.filter (\<lambda>s. key s = k) ss)))"
    by (rule sum.cong) simp_all
  then show ?case using Cons assms(1) by (simp add: sum.distrib)
qed simp

definition pairs_ok :: "(PostingAmount \<Rightarrow> routePairingKey) \<Rightarrow> (PostingAmount \<Rightarrow> PostingAddress result) \<Rightarrow> bool" where
  "pairs_ok key lookup \<longleftrightarrow> (\<forall>s. pk_currency (key s) = currency_key (po_Address s)) \<and>
     (\<forall>s a. lookup s = Inr a \<longrightarrow> currency_key a = currency_key (po_Address s))"

lemma resolve_counterparts_sums:
  assumes "resolve_counterparts key lookup identity ss m = Inr m'" and "pairs_ok key lookup"
    and "\<And>k c. m k = Some c \<Longrightarrow> currency_key (po_Address c) = pk_currency k"
  shows "dom m' = dom m \<union> key ` set ss"
    and "\<And>k c. m' k = Some c \<Longrightarrow> currency_key (po_Address c) = pk_currency k \<and>
      po_Amount c = (case m k of None \<Rightarrow> 0 | Some b \<Rightarrow> po_Amount b) + sum_list (map po_Amount (List.filter (\<lambda>s. key s = k) ss))"
proof -
  have "dom m' = dom m \<union> key ` set ss \<and> (\<forall>k c. m' k = Some c \<longrightarrow> currency_key (po_Address c) = pk_currency k \<and>
      po_Amount c = (case m k of None \<Rightarrow> 0 | Some b \<Rightarrow> po_Amount b) + sum_list (map po_Amount (List.filter (\<lambda>s. key s = k) ss)))"
    using assms(1,3)
  proof (induction ss arbitrary: m)
    case (Cons s ss)
    obtain c where c: "resolve_counterparts key lookup identity ss (m(key s \<mapsto> c)) = Inr m'"
      and a: "po_Amount c = (case m (key s) of None \<Rightarrow> 0 | Some b \<Rightarrow> po_Amount b) + po_Amount s"
      and k: "currency_key (po_Address c) = pk_currency (key s)"
    proof (cases "m (key s)")
      case None
      then obtain a where "lookup s = Inr a" "resolve_counterparts key lookup identity ss
          (m(key s \<mapsto> \<lparr>po_Address = a, po_Amount = 0 + po_Amount s, po_Identity = identity s, po_Annotations = Map.empty\<rparr>)) = Inr m'"
        using Cons.prems(1) by (auto simp: bind_result_Inr)
      then show thesis using that None assms(2) by (auto simp: pairs_ok_def)
    next
      case (Some b)
      then show thesis using that [of "b\<lparr>po_Amount := po_Amount b + po_Amount s\<rparr>"] Cons.prems by simp
    qed
    have "\<And>k' c'. (m(key s \<mapsto> c)) k' = Some c' \<Longrightarrow> currency_key (po_Address c') = pk_currency k'"
      using Cons.prems(2) k by (auto split: if_splits)
    then have ih: "dom m' = dom (m(key s \<mapsto> c)) \<union> key ` set ss \<and> (\<forall>k c'. m' k = Some c' \<longrightarrow> currency_key (po_Address c') = pk_currency k \<and>
        po_Amount c' = (case (m(key s \<mapsto> c)) k of None \<Rightarrow> 0 | Some b \<Rightarrow> po_Amount b) +
          sum_list (map po_Amount (List.filter (\<lambda>s. key s = k) ss)))"
      by (rule Cons.IH [OF c])
    show ?case
    proof (intro conjI allI impI)
      show "dom m' = dom m \<union> key ` set (s # ss)" using ih by auto
      fix k' c' assume m': "m' k' = Some c'"
      show "currency_key (po_Address c') = pk_currency k'" using ih m' by blast
      have "po_Amount c' = (case (m(key s \<mapsto> c)) k' of None \<Rightarrow> 0 | Some b \<Rightarrow> po_Amount b) +
          sum_list (map po_Amount (List.filter (\<lambda>s. key s = k') ss))"
        using ih m' by blast
      then show "po_Amount c' = (case m k' of None \<Rightarrow> 0 | Some b \<Rightarrow> po_Amount b) +
          sum_list (map po_Amount (List.filter (\<lambda>s. key s = k') (s # ss)))"
        using a by (cases "k' = key s") simp_all
    qed
  qed simp
  then show "dom m' = dom m \<union> key ` set ss" "\<And>k c. m' k = Some c \<Longrightarrow> currency_key (po_Address c) = pk_currency k \<and>
      po_Amount c = (case m k of None \<Rightarrow> 0 | Some b \<Rightarrow> po_Amount b) + sum_list (map po_Amount (List.filter (\<lambda>s. key s = k) ss))"
    by blast+
qed

lemma credited_total:
  assumes "\<And>s. s \<in> set ss \<Longrightarrow> \<exists>c. m (key s) = Some c \<and> currency_key (po_Address c) = pk_currency (key s)"
  shows "total_in q (credited_entries key m ss C) =
    (\<Sum>k \<in> key ` set ss - C. if pk_currency k = q then po_Amount (the (m k)) else 0)"
  using assms
proof (induction ss arbitrary: C)
  case (Cons s ss)
  have c: "\<exists>c. m (key s) = Some c \<and> currency_key (po_Address c) = pk_currency (key s)" by (rule Cons.prems) simp
  have ih: "total_in q (credited_entries key m ss C) = (\<Sum>k \<in> key ` set ss - C. if pk_currency k = q then po_Amount (the (m k)) else 0)" for C
    by (rule Cons.IH) (use Cons.prems in simp)
  show ?case
  proof (cases "key s \<in> C")
    case True
    then have "key ` set (s # ss) - C = key ` set ss - C" by auto
    then show ?thesis using True ih by simp
  next
    case False
    have "key ` set (s # ss) - C = insert (key s) (key ` set ss - insert (key s) C)" using False by auto
    then have "(\<Sum>k \<in> key ` set (s # ss) - C. if pk_currency k = q then po_Amount (the (m k)) else 0) =
        (if pk_currency (key s) = q then po_Amount (the (m (key s))) else 0) +
        (\<Sum>k \<in> key ` set ss - insert (key s) C. if pk_currency k = q then po_Amount (the (m k)) else 0)"
      by simp
    then show ?thesis using False c ih [of "insert (key s) C"] by auto
  qed
qed simp

lemma sources_total:
  assumes "\<forall>s. pk_currency (key s) = currency_key (po_Address s)"
  shows "total_in q (map source_entry ss) = - sum_list (map (\<lambda>s. if pk_currency (key s) = q then po_Amount s else 0) ss)"
  using assms by (induction ss) (simp_all add: source_entry_def)

lemma counterparts_balanced:
  assumes r: "resolve_counterparts key lookup identity ss Map.empty = Inr m" and p: "pairs_ok key lookup"
  shows "balanced (map source_entry ss @ credited_entries key m ss {})"
  unfolding balanced_def
proof
  fix q
  note s = resolve_counterparts_sums [OF r p, simplified]
  have "\<exists>c. m (key x) = Some c \<and> currency_key (po_Address c) = pk_currency (key x)" if "x \<in> set ss" for x
    using s that by (metis domD image_eqI)
  then have c: "total_in q (credited_entries key m ss {}) = (\<Sum>k \<in> key ` set ss. if pk_currency k = q then po_Amount (the (m k)) else 0)"
    using credited_total [of ss m key q "{}"] by simp
  have "sum_list (map (\<lambda>s. if pk_currency (key s) = q then po_Amount s else 0) ss) =
      (\<Sum>k \<in> key ` set ss. sum_list (map (\<lambda>s. if pk_currency (key s) = q then po_Amount s else 0) (List.filter (\<lambda>s. key s = k) ss)))"
    by (rule sum_by_key) simp_all
  also have "\<dots> = (\<Sum>k \<in> key ` set ss. if pk_currency k = q then po_Amount (the (m k)) else 0)"
  proof (rule sum.cong [OF refl])
    fix k assume "k \<in> key ` set ss"
    then obtain c where "m k = Some c" using s(1) by blast
    then have "po_Amount (the (m k)) = sum_list (map po_Amount (List.filter (\<lambda>s. key s = k) ss))" using s(2) by simp
    moreover have eq: "map (\<lambda>s. if pk_currency (key s) = q then po_Amount s else 0) (List.filter (\<lambda>s. key s = k) ss) =
        map (\<lambda>s. if pk_currency k = q then po_Amount s else 0) (List.filter (\<lambda>s. key s = k) ss)"
      by (rule map_cong [OF refl]) simp
    ultimately show "sum_list (map (\<lambda>s. if pk_currency (key s) = q then po_Amount s else 0) (List.filter (\<lambda>s. key s = k) ss)) =
        (if pk_currency k = q then po_Amount (the (m k)) else 0)"
      unfolding eq by (cases "pk_currency k = q") simp_all
  qed
  finally show "total_in q (map source_entry ss @ credited_entries key m ss {}) = 0"
    using c sources_total [of key q ss] p by (simp add: pairs_ok_def)
qed

lemma template_transaction_fields [simp]:
  "tx_EntryInputs (template_transaction b es) = es" "tx_BookedAt (template_transaction b es) = b"
  "tx_Annotations (template_transaction b es) = Map.empty"
  by (simp_all add: template_transaction_def)

lemma four_balanced:
  assumes "currency_key x = currency_key y" and "currency_key v = currency_key w" and "a + b = 0" and "c + d = 0"
  shows "balanced [template_entry x a i n, template_entry y b i n, template_entry v c i n, template_entry w d i n]"
  using assms by (simp add: balanced_def)

text \<open>Templates of two entries: both are posted in the currency of the template.\<close>

lemma pair_resolve_balanced:
  assumes "rows_ok D T"
  shows "IS_resolve known D c is = Inr (Some x) \<Longrightarrow> balanced (tx_EntryInputs x)"
    and "Settle_resolve known D c pt = Inr (Some x) \<Longrightarrow> balanced (tx_EntryInputs x)"
    and "Authorize_resolve known D c pt = Inr (Some x) \<Longrightarrow> balanced (tx_EntryInputs x)"
    and "AA_resolve known D c aa = Inr (Some x) \<Longrightarrow> balanced (tx_EntryInputs x)"
    and "TA_resolve known D c ta = Inr (Some x) \<Longrightarrow> balanced (tx_EntryInputs x)"
    and "RA_resolve known D c ra = Inr (Some x) \<Longrightarrow> balanced (tx_EntryInputs x)"
    and "TL_resolve known D c tt = Inr (Some x) \<Longrightarrow> balanced (tx_EntryInputs x)"
    and "LegacyFund_resolve known D c lg = Inr (Some x) \<Longrightarrow> balanced (tx_EntryInputs x)"
    and "LegacySettle_resolve known D c lg = Inr (Some x) \<Longrightarrow> balanced (tx_EntryInputs x)"
  unfolding IS_resolve_def Settle_resolve_def Authorize_resolve_def AA_resolve_def TA_resolve_def RA_resolve_def TL_resolve_def
    LegacyFund_resolve_def LegacySettle_resolve_def payment_receivable_def legacy_receivable_def
  by (auto dest!: found intro!: pair_balanced dest!: obtained_currency [OF _ assms])

lemma CX_resolve_balanced:
  assumes "rows_ok D T" and "CX_resolve known D c t = Inr (Some x)"
  shows "balanced (tx_EntryInputs x)"
  using assms(2) unfolding CX_resolve_def Let_def
  by (auto dest!: found intro!: four_balanced dest!: obtained_currency [OF _ assms(1)])

text \<open>Templates whose counterparts are paired by route.\<close>

lemma keys_currency:
  "pk_currency (cover_source_key L s) = currency_key (po_Address s)"
  "pk_currency (transfer_source_key L s) = currency_key (po_Address s)"
  "pk_currency (recognize_source_key L s) = currency_key (po_Address s)"
  by (simp_all add: cover_source_key_def cover_key_def transfer_source_key_def recognize_source_key_def recognize_key_def basic_key_def
      currency_key_def)

lemma lookups_ok:
  assumes "rows_ok D T"
  shows "pairs_ok (cover_source_key L) (cover_receivable known D a)"
    and "pairs_ok (transfer_source_key L) (transfer_accrued known D a t)"
    and "pairs_ok (recognize_source_key L) (recognize_earnings known D a)"
  by (auto simp: pairs_ok_def keys_currency cover_receivable_def transfer_accrued_def recognize_earnings_def Let_def dest!: found
      dest!: obtained_currency [OF _ assms], simp_all add: currency_key_def)

lemma paired_resolve_balanced:
  assumes "rows_ok D T"
  shows "CV_resolve known L D c cv = Inr (Some x) \<Longrightarrow> balanced (tx_EntryInputs x)"
    and "TF_resolve known L D c tf = Inr (Some x) \<Longrightarrow> balanced (tx_EntryInputs x)"
    and "RT_resolve known L D c rt = Inr (Some x) \<Longrightarrow> balanced (tx_EntryInputs x)"
  unfolding CV_resolve_def CV_resolvePreselectedSources_def TF_resolve_def RT_resolve_def
  by (auto split: if_splits simp: bind_result_Inr dest!: found
      intro!: counterparts_balanced lookups_ok [OF assms] pair_balanced dest!: obtained_currency [OF _ assms])

text \<open>Breakage is posted to the addresses of the template; a custom currency of an address has an ID.\<close>

definition identified :: "PostingAddress \<Rightarrow> bool" where
  "identified x \<longleftrightarrow> cr_CustomCurrencyID (ro_Currency (address_route x)) \<noteq> Some []"

fun addresses_identified :: "TransactionTemplate \<Rightarrow> bool" where
  "addresses_identified (PlanCustomerFBOBreakage t) \<longleftrightarrow> identified (bk_FBOAddress t) \<and> identified (bk_BreakageAddress t)"
| "addresses_identified (ReleaseCustomerFBOBreakage t) \<longleftrightarrow> identified (bk_FBOAddress t) \<and> identified (bk_BreakageAddress t)"
| "addresses_identified (ReopenCustomerFBOBreakage t) \<longleftrightarrow> identified (bk_FBOAddress t) \<and> identified (bk_BreakageAddress t)"
| "addresses_identified t \<longleftrightarrow> True"

lemma CR_Equal_key: "CR_Equal c d \<Longrightarrow> cr_CustomCurrencyID c \<noteq> Some [] \<Longrightarrow> cr_CustomCurrencyID d \<noteq> Some [] \<Longrightarrow> IdentityKey c = IdentityKey d"
  by (auto simp: CR_Equal_def IdentityKey_def from_ptr_def split: option.splits)

lemma BK_resolve_balanced:
  assumes "BK_Validate t = None" and "identified (bk_FBOAddress t)" and "identified (bk_BreakageAddress t)" and "a + b = 0"
  shows "balanced (tx_EntryInputs (BK_resolve t a b))"
proof -
  have "CR_Equal (ro_Currency (address_route (bk_FBOAddress t))) (ro_Currency (address_route (bk_BreakageAddress t)))"
    using assms(1) by (simp add: BK_Validate_def split: if_splits option.splits)
  then have "currency_key (bk_FBOAddress t) = currency_key (bk_BreakageAddress t)"
    using assms(2,3) CR_Equal_key by (simp add: currency_key_def identified_def)
  then show ?thesis using assms(4) by (simp add: BK_resolve_def pair_balanced)
qed

lemma template_resolve_balanced:
  assumes "rows_ok D T" and "template_Validate known t = None" and "addresses_identified t"
    and "template_resolve known L D c t = Inr (Some x)"
  shows "balanced (tx_EntryInputs x)"
proof (cases "(known, L, D, c, t)" rule: template_resolve.cases)
qed (use assms pair_resolve_balanced [OF assms(1)] CX_resolve_balanced [OF assms(1)] paired_resolve_balanced [OF assms(1)]
    BK_resolve_balanced in \<open>auto\<close>)

section \<open>The codes that transactions carry\<close>

lemma code_of_registered: "kind_code k \<noteq> [] \<Longrightarrow> transactionTemplatesByCode (kind_code k) = Some k"
  by (cases k) (simp_all add: transactionTemplatesByCode_def registered_kinds_def transactionTemplateCodeConvertCurrencyLegacy_def)

lemma annotation_keys: "AnnotationTransactionTemplateCode \<noteq> AnnotationTransactionDirection"
  by (simp add: AnnotationTransactionTemplateCode_def AnnotationTransactionDirection_def)

text \<open>A booked transaction is recognised as one of its template and direction.\<close>

definition carries :: "Annotations \<Rightarrow> TemplateKind \<Rightarrow> TransactionDirection \<Rightarrow> bool" where
  "carries annotations k d \<longleftrightarrow> TransactionDirectionFromAnnotations annotations = Inr d \<and>
     transactionTemplateFromAnnotations annotations = Inr k"

lemma annotateTemplateTransaction_carries:
  assumes "annotateTemplateTransaction x (kind_code k) d = Inr y"
  shows "tx_EntryInputs y = tx_EntryInputs x" "tx_BookedAt y = tx_BookedAt x" "carries (tx_Annotations y) k d"
proof -
  have y: "kind_code k \<noteq> []" "y = x\<lparr>tx_Annotations := tx_Annotations x ++ TransactionAnnotations (kind_code k) d\<rparr>"
    using assms by (auto simp: annotateTemplateTransaction_def WithAnnotations_def split: if_splits)
  show "tx_EntryInputs y = tx_EntryInputs x" "tx_BookedAt y = tx_BookedAt x" using y by simp_all
  show "carries (tx_Annotations y) k d"
    using y annotation_keys code_of_registered [OF y(1)]
    by (cases d) (simp_all add: carries_def TransactionAnnotations_def TransactionDirectionFromAnnotations_def wrap_result_def bind_result_def
        transactionTemplateFromAnnotations_def TransactionTemplateCodeFromAnnotations_def)
qed

section \<open>Resolving\<close>

lemma resolve_templates_Inr:
  assumes "resolve_templates known L D scope ts txs = Inr txs'" and "x \<in> set txs'"
  shows "x \<in> set txs \<or> (\<exists>t \<in> set ts. \<exists>z. template_Validate known t = None \<and>
    template_resolve known L D (rs_CustomerID scope) t = Inr (Some z) \<and> tx_EntryInputs x = tx_EntryInputs z \<and>
    carries (tx_Annotations x) (kind_of t) TransactionDirectionForward)"
  using assms(1)
proof (induction ts arbitrary: txs)
  case Nil
  then show ?case using assms(2) by simp
next
  case (Cons t ts)
  obtain y ys where v: "template_Validate known t = None" and y: "template_resolve known L D (rs_CustomerID scope) t = Inr y"
    and ys: "appendResolvedTemplateTransaction txs y (kind_code (kind_of t)) TransactionDirectionForward = Inr ys"
    and r: "resolve_templates known L D scope ts ys = Inr txs'"
    using Cons.prems(1) by (auto simp: check_then_Inr bind_result_Inr template_code_def)
  have "x \<in> set txs \<or> (\<exists>z. y = Some z \<and> tx_EntryInputs x = tx_EntryInputs z \<and>
      carries (tx_Annotations x) (kind_of t) TransactionDirectionForward)" if x: "x \<in> set ys"
  proof (cases y)
    case (Some z)
    then obtain a where a: "annotateTemplateTransaction z (kind_code (kind_of t)) TransactionDirectionForward = Inr a" "ys = txs @ [a]"
      using ys by (auto simp: appendResolvedTemplateTransaction_def bind_result_Inr)
    show ?thesis using annotateTemplateTransaction_carries [OF a(1)] a(2) x Some by auto
  qed (use ys x in \<open>simp add: appendResolvedTemplateTransaction_def\<close>)
  then show ?case using Cons.IH [OF r] v y by auto
qed

lemma ResolveTransactions_Inr:
  assumes "ResolveTransactions known L D scope ts = Inr txs" and "x \<in> set txs"
  shows "\<exists>t \<in> set ts. \<exists>z. template_Validate known t = None \<and>
    template_resolve known L D (rs_CustomerID scope) t = Inr (Some z) \<and> tx_EntryInputs x = tx_EntryInputs z \<and>
    carries (tx_Annotations x) (kind_of t) TransactionDirectionForward"
proof -
  have "resolve_templates known L D scope ts [] = Inr txs" using assms(1) by (simp add: ResolveTransactions_def check_then_Inr)
  from resolve_templates_Inr [OF this assms(2)] show ?thesis by simp
qed

text \<open>
  C6. Resolving templates (\<open>ResolveTransactions\<close>, openmeter/ledger/transactions/resolve.go) gives only transactions that
  balance in every currency, whatever accounts, sub-accounts and balances the resolver finds, as long as the rows of
  sub-accounts have the routes they were asked for. Each is of a template that passed its checks, and its annotations lead
  back to that template: the registry of corrections finds the template that booked it and it is not taken for a correction.
\<close>

theorem ResolveTransactions_balanced:
  assumes "rows_ok D T" and "\<forall>t \<in> set ts. addresses_identified t" and "ResolveTransactions known L D scope ts = Inr txs"
    and "x \<in> set txs"
  shows "ValidateInvariance (tx_EntryInputs x) = None \<and>
    (\<exists>t \<in> set ts. template_Validate known t = None \<and>
       TransactionDirectionFromAnnotations (tx_Annotations x) = Inr TransactionDirectionForward \<and>
       transactionTemplateFromAnnotations (tx_Annotations x) = Inr (kind_of t))"
proof -
  obtain t z where t: "t \<in> set ts" "template_Validate known t = None" "template_resolve known L D (rs_CustomerID scope) t = Inr (Some z)"
    "tx_EntryInputs x = tx_EntryInputs z" "carries (tx_Annotations x) (kind_of t) TransactionDirectionForward"
    using ResolveTransactions_Inr [OF assms(3,4)] by blast
  have "balanced (tx_EntryInputs z)" by (rule template_resolve_balanced [OF assms(1) t(2) _ t(3)]) (use assms(2) t(1) in simp)
  then show ?thesis using t by (auto simp: carries_def ValidateInvariance_iff)
qed

text \<open>A customer with an FBO and a receivable account of one sub-account each.\<close>

definition sample_data :: "string \<Rightarrow> AccountType \<Rightarrow> Route \<Rightarrow> SubAccountData" where
  "sample_data i t r = \<lparr>sd_ID = i, sd_Namespace = ''ns'', sd_AccountID = i, sd_AccountType = t, sd_Route = r, sd_RouteID = i,
     sd_RoutingKeyVersion = RoutingKeyVersionV1, sd_RoutingKey = i\<rparr>"

definition sample_issue :: IssueCustomerReceivableTemplate where
  "sample_issue = \<lparr>is_At = 1, is_Amount = 5, is_Currency = NewCurrencyReference ''USD'', is_CostBasisCurrency = None,
     is_TaxCode = None, is_CostBasis = None, is_Features = [], is_SourceChargeID = None, is_SpendChargeID = None,
     is_CreditPriority = None\<rparr>"

definition sample_FBO_route :: Route where
  "sample_FBO_route = (empty_route (NewCurrencyReference ''USD''))\<lparr>ro_CreditPriority := Some 100\<rparr>"

definition sample_receivable_route :: Route where
  "sample_receivable_route = (empty_route (NewCurrencyReference ''USD''))\<lparr>ro_AuthorizationStatus := Some TransactionAuthorizationStatusOpen\<rparr>"

definition sample_accounts :: CustomerAccounts where
  "sample_accounts = \<lparr>ca_FBOAccount = \<lparr>an_Namespace = ''ns'', an_ID = ''fbo''\<rparr>,
     ca_ReceivableAccount = \<lparr>an_Namespace = ''ns'', an_ID = ''receivable''\<rparr>, ca_AccruedAccount = \<lparr>an_Namespace = ''ns'', an_ID = ''accrued''\<rparr>\<rparr>"

definition sample_resolver :: ResolverDependencies where
  "sample_resolver = \<lparr>rd_GetCustomerAccounts = (\<lambda>_. Inr sample_accounts), rd_GetBusinessAccounts = (\<lambda>_. Inl (Err ''not found'')),
     rd_EnsureSubAccount = (\<lambda>i.
       if i = account_input (ca_FBOAccount sample_accounts) sample_FBO_route
       then Inr (sample_data ''fbo'' AccountTypeCustomerFBO sample_FBO_route)
       else if i = account_input (ca_ReceivableAccount sample_accounts) sample_receivable_route
       then Inr (sample_data ''receivable'' AccountTypeCustomerReceivable sample_receivable_route)
       else Inl (Err ''not found'')),
     rd_GetBalanceBuckets = (\<lambda>_. Inr [])\<rparr>"

definition sample_types :: "string \<times> string \<Rightarrow> AccountType" where
  "sample_types a = (if snd a = ''fbo'' then AccountTypeCustomerFBO else if snd a = ''receivable'' then AccountTypeCustomerReceivable
     else AccountTypeCustomerAccrued)"

lemma same_dimensions_refl: "same_dimensions r r"
  by (simp add: same_dimensions_def same_route_def)

lemma sample_resolver_rows: "rows_ok sample_resolver sample_types"
  by (auto simp: rows_ok_def sample_resolver_def sample_data_def sample_types_def account_input_def sample_accounts_def same_dimensions_refl
      split: if_splits)

lemma sample_routes_valid:
  "Route_Validate sample_currencies sample_FBO_route = None" "Route_Validate sample_currencies sample_receivable_route = None"
  by (simp_all add: Route_Validate_def validateDimensionsOnly_def sample_FBO_route_def sample_receivable_route_def empty_route_def
      NewCurrencyReference_def CR_Validate_def Code_Validate_def validateFiatCurrencyCode_def sample_currencies_def CR_IsFiat_def
      CR_IsCustom_def Code_IsFiat_def Code_IsCustom_def Code_Type_def ValidateCostBasisCurrency_def ValidateCreditPriority_def
      AuthorizationStatus_Validate_def validateFeatures_def)

lemma sample_issue_routes:
  "FBO_GetSubAccountForRoute sample_currencies D a
     \<lparr>fb_Currency = is_Currency sample_issue, fb_CostBasisCurrency = is_CostBasisCurrency sample_issue,
      fb_CreditPriority = resolveCustomerFBOCreditPriority (is_CreditPriority sample_issue), fb_Features = is_Features sample_issue,
      fb_CostBasis = is_CostBasis sample_issue\<rparr> = EnsureSubAccount sample_currencies D (account_input a sample_FBO_route)"
  "Receivable_GetSubAccountForRoute sample_currencies D a
     \<lparr>rp_Currency = is_Currency sample_issue, rp_CostBasisCurrency = is_CostBasisCurrency sample_issue, rp_TaxCode = None,
      rp_Features = is_Features sample_issue, rp_CostBasis = is_CostBasis sample_issue,
      rp_AuthorizationStatus = TransactionAuthorizationStatusOpen\<rparr> = EnsureSubAccount sample_currencies D (account_input a sample_receivable_route)"
proof -
  have f: "FB_Route \<lparr>fb_Currency = is_Currency sample_issue, fb_CostBasisCurrency = is_CostBasisCurrency sample_issue,
      fb_CreditPriority = resolveCustomerFBOCreditPriority (is_CreditPriority sample_issue), fb_Features = is_Features sample_issue,
      fb_CostBasis = is_CostBasis sample_issue\<rparr> = sample_FBO_route"
    by (simp add: FB_Route_def sample_issue_def sample_FBO_route_def empty_route_def resolveCustomerFBOCreditPriority_def
        DefaultCustomerFBOPriority_def)
  have r: "RP_Route \<lparr>rp_Currency = is_Currency sample_issue, rp_CostBasisCurrency = is_CostBasisCurrency sample_issue, rp_TaxCode = None,
      rp_Features = is_Features sample_issue, rp_CostBasis = is_CostBasis sample_issue,
      rp_AuthorizationStatus = TransactionAuthorizationStatusOpen\<rparr> = sample_receivable_route"
    by (simp add: RP_Route_def sample_issue_def sample_receivable_route_def empty_route_def)
  show "FBO_GetSubAccountForRoute sample_currencies D a
     \<lparr>fb_Currency = is_Currency sample_issue, fb_CostBasisCurrency = is_CostBasisCurrency sample_issue,
      fb_CreditPriority = resolveCustomerFBOCreditPriority (is_CreditPriority sample_issue), fb_Features = is_Features sample_issue,
      fb_CostBasis = is_CostBasis sample_issue\<rparr> = EnsureSubAccount sample_currencies D (account_input a sample_FBO_route)"
    unfolding FBO_GetSubAccountForRoute_def FB_Validate_def f
    by (simp add: sample_routes_valid resolveCustomerFBOCreditPriority_def sample_issue_def DefaultCustomerFBOPriority_def
        ValidateCreditPriority_def check_then_def)
  show "Receivable_GetSubAccountForRoute sample_currencies D a
     \<lparr>rp_Currency = is_Currency sample_issue, rp_CostBasisCurrency = is_CostBasisCurrency sample_issue, rp_TaxCode = None,
      rp_Features = is_Features sample_issue, rp_CostBasis = is_CostBasis sample_issue,
      rp_AuthorizationStatus = TransactionAuthorizationStatusOpen\<rparr> = EnsureSubAccount sample_currencies D (account_input a sample_receivable_route)"
    unfolding Receivable_GetSubAccountForRoute_def RP_Validate_def r
    by (simp add: sample_routes_valid AuthorizationStatus_Validate_def check_then_def)
qed

lemma sample_sub_accounts:
  "\<exists>s. EnsureSubAccount sample_currencies sample_resolver (account_input (ca_FBOAccount sample_accounts) sample_FBO_route) = Inr s"
  "\<exists>s. EnsureSubAccount sample_currencies sample_resolver (account_input (ca_ReceivableAccount sample_accounts) sample_receivable_route) = Inr s"
  by (simp_all add: EnsureSubAccount_def CS_Validate_def account_input_def sample_accounts_def sample_routes_valid sample_resolver_def
      sample_data_def check_then_def bind_result_def wrap_result_def NewSubAccountFromData_def NewRoutingKey_def RoutingKeyVersion_Validate_def
      NewAddressFromData_def newSubAccountRouteFromAddressData_def AccountType_Validate_def NewSubAccountRouteFromData_def Route_Normalize_def)

definition sample_scope :: ResolutionScope where
  "sample_scope = \<lparr>rs_CustomerID = (''ns'', ''customer''), rs_Namespace = []\<rparr>"

lemma sample_resolved:
  "\<exists>x f r. ResolveTransactions sample_currencies std_decimal_lib sample_resolver sample_scope [IssueCustomerReceivable sample_issue] = Inr [x] \<and>
     tx_EntryInputs x = [template_entry f 5 (charges None None) Map.empty, template_entry r (- 5) (charges None None) Map.empty] \<and>
     pa_AccountType f = AccountTypeCustomerFBO \<and> pa_AccountType r = AccountTypeCustomerReceivable \<and>
     carries (tx_Annotations x) IssueCustomerReceivableKind TransactionDirectionForward"
proof -
  obtain f r where f: "EnsureSubAccount sample_currencies sample_resolver (account_input (ca_FBOAccount sample_accounts) sample_FBO_route) = Inr f"
    and r: "EnsureSubAccount sample_currencies sample_resolver (account_input (ca_ReceivableAccount sample_accounts) sample_receivable_route) = Inr r"
    using sample_sub_accounts by blast
  have o: "obtained sample_currencies sample_resolver (ca_FBOAccount sample_accounts) sample_FBO_route (sa_Address f)"
    "obtained sample_currencies sample_resolver (ca_ReceivableAccount sample_accounts) sample_receivable_route (sa_Address r)"
    using f r by (simp_all add: obtained_def)
  have types: "pa_AccountType (sa_Address f) = AccountTypeCustomerFBO" "pa_AccountType (sa_Address r) = AccountTypeCustomerReceivable"
    using obtained_address(1) [OF o(1) sample_resolver_rows] obtained_address(1) [OF o(2) sample_resolver_rows]
    by (simp_all add: account_key_def sample_accounts_def sample_types_def)
  have a: "rd_GetCustomerAccounts sample_resolver c = Inr sample_accounts" for c by (simp add: sample_resolver_def)
  let ?x = "template_transaction 1 [template_entry (sa_Address f) 5 (charges None None) Map.empty,
    template_entry (sa_Address r) (- 5) (charges None None) Map.empty]"
  have x: "IS_resolve sample_currencies sample_resolver (''ns'', ''customer'') sample_issue = Inr (Some ?x)"
    by (simp add: IS_resolve_def with_customer_def posting_def sample_issue_routes a f r bind_result_def wrap_result_def)
      (simp add: sample_issue_def)
  have v: "IS_Validate sample_currencies sample_issue = None"
    by (simp add: IS_Validate_def sample_issue_def IsZeroTime_def NewCurrencyReference_def CR_Validate_def Code_Validate_def
        validateFiatCurrencyCode_def sample_currencies_def CR_IsFiat_def Code_IsFiat_def Code_Type_def ValidateCostBasisCurrency_def
        CR_IsCustom_def Code_IsCustom_def)
  obtain y where y: "annotateTemplateTransaction ?x (kind_code IssueCustomerReceivableKind) TransactionDirectionForward = Inr y"
    by (simp add: annotateTemplateTransaction_def)
  have t: "ResolveTransactions sample_currencies std_decimal_lib sample_resolver sample_scope [IssueCustomerReceivable sample_issue] = Inr [y]"
    using x y by (simp add: ResolveTransactions_def RS_Validate_def validateForCustomerTransaction_def v check_then_def bind_result_def
        appendResolvedTemplateTransaction_def template_code_def sample_scope_def)
  then show ?thesis using annotateTemplateTransaction_carries [OF y] types by auto
qed

theorem ResolveTransactions_balanced_witness:
  "\<exists>x. ResolveTransactions sample_currencies std_decimal_lib sample_resolver sample_scope [IssueCustomerReceivable sample_issue] = Inr [x] \<and>
     map ei_Amount (tx_EntryInputs x) = [5, -5] \<and> ValidateInvariance (tx_EntryInputs x) = None \<and>
     transactionTemplateFromAnnotations (tx_Annotations x) = Inr IssueCustomerReceivableKind"
proof -
  obtain x where x: "map ei_Amount (tx_EntryInputs x) = [5, -5]"
    and t: "ResolveTransactions sample_currencies std_decimal_lib sample_resolver sample_scope [IssueCustomerReceivable sample_issue] = Inr [x]"
    using sample_resolved by fastforce
  show ?thesis using ResolveTransactions_balanced [OF sample_resolver_rows _ t, of x] t x by fastforce
qed

end
