(* ===== verification/LedgerReversals.thy ===== *)
theory LedgerReversals
  imports LedgerBooks
begin

text \<open>
  What a correction takes back: the legs of a booked transaction from the last to the first, each at most once, until the
  amount is reached, and the postings that make this up balance.
\<close>

section \<open>The legs that are taken back\<close>

text \<open>The part of an amount that each leg gives, in the order they are asked.\<close>

fun taken :: "correctionLeg list \<Rightarrow> decimal \<Rightarrow> (correctionLeg \<times> decimal) list" where
  "taken [] r = []"
| "taken (l # ls) r = (if \<not> 0 < r then [] else let a = (if r < cl_amount l then r else cl_amount l) in (l, a) # taken ls (r - a))"

definition leg_charges :: "correctionLeg \<Rightarrow> EntryIdentityParts" where
  "leg_charges l = charges (cl_source l) (cl_spend l)"

definition post_one :: "postings \<Rightarrow> correctionLeg \<times> decimal \<Rightarrow> postings" where
  "post_one st la = addPosting (cl_counterpartAddress (fst la)) (- snd la) (leg_charges (fst la)) True
     (addPosting (cl_sourceAddress (fst la)) (snd la)
       ((leg_charges (fst la))\<lparr>ip_CorrectionSource := Some (cl_sourceEntryID (fst la))\<rparr>) False st)"

lemma post_legs_taken: "post_legs ls r st = fst (foldl post_one st (taken ls r))"
  by (induction ls arbitrary: r st) (simp_all add: post_one_def leg_charges_def Let_def)

lemma taken_total:
  assumes "list_all (\<lambda>l. 0 < cl_amount l) ls" and "0 \<le> r" and "r \<le> sum_list (map cl_amount ls)"
  shows "sum_list (map snd (taken ls r)) = r"
  using assms
proof (induction ls arbitrary: r)
  case (Cons l ls)
  show ?case
  proof (cases "r < cl_amount l")
    case True
    then show ?thesis using Cons.prems by (cases ls) simp_all
  next
    case False
    then have "sum_list (map snd (taken ls (r - cl_amount l))) = r - cl_amount l" using Cons by simp
    then show ?thesis using False Cons.prems by (simp add: Let_def)
  qed
qed simp

text \<open>In closed form: what the legs asked before leave of the amount, at most the amount of the leg.\<close>

definition given :: "decimal list \<Rightarrow> decimal \<Rightarrow> nat \<Rightarrow> decimal" where
  "given xs r i = max 0 (min (xs ! i) (r - sum_list (take i xs)))"

lemma taken_given:
  assumes "list_all (\<lambda>l. 0 < cl_amount l) ls"
  shows "taken ls r = map (\<lambda>i. (ls ! i, given (map cl_amount ls) r i)) (List.filter (\<lambda>i. 0 < given (map cl_amount ls) r i) [0..<length ls])"
  using assms
proof (induction ls arbitrary: r)
  case (Cons l ls)
  let ?a = "if r < cl_amount l then r else cl_amount l"
  have pos: "0 < cl_amount l" "list_all (\<lambda>l. 0 < cl_amount l) ls" using Cons.prems by simp_all
  have nonneg: "0 \<le> sum_list (take i (map cl_amount ls))" for i
    by (rule sum_list_nonneg) (use pos(2) in \<open>fastforce simp: list_all_iff dest: in_set_takeD\<close>)
  have first: "given (map cl_amount (l # ls)) r 0 = max 0 ?a" using pos by (auto simp: given_def)
  have rest: "given (map cl_amount (l # ls)) r (Suc i) = given (map cl_amount ls) (r - cl_amount l) i" for i
    by (simp add: given_def algebra_simps)
  have upt: "[0..<length (l # ls)] = 0 # map Suc [0..<length ls]" by (simp add: upt_conv_Cons map_Suc_upt del: upt_Suc)
  show ?case
  proof (cases "0 < r")
    case False
    then have "given (map cl_amount ls) (r - cl_amount l) i = 0" for i
      using nonneg [of i] pos(1) by (simp add: given_def)
    moreover have "given (map cl_amount (l # ls)) r 0 = 0" using False first pos(1) by (simp add: max_def)
    ultimately show ?thesis using False rest by (simp only: upt filter.simps filter_map) (simp add: comp_def)
  next
    case r: True
    have ih: "taken ls (r - ?a) = map (\<lambda>i. (ls ! i, given (map cl_amount ls) (r - cl_amount l) i))
        (List.filter (\<lambda>i. 0 < given (map cl_amount ls) (r - cl_amount l) i) [0..<length ls])"
    proof (cases "r < cl_amount l")
      case True
      then have "given (map cl_amount ls) (r - cl_amount l) i = 0" for i using nonneg [of i] by (simp add: given_def)
      moreover have "taken ls 0 = []" by (cases ls) simp_all
      ultimately show ?thesis using True by simp
    qed (use Cons.IH [OF pos(2)] in simp)
    have a: "0 < ?a" "max 0 ?a = ?a" using r pos(1) by auto
    show ?thesis using r a ih first rest unfolding upt filter.simps filter_map
      by (simp add: Let_def comp_def)
  qed
qed simp

section \<open>The postings of a correction\<close>

definition is_source :: "correctionPosting \<Rightarrow> bool" where
  "is_source p \<longleftrightarrow> ip_CorrectionSource (cp_identity p) \<noteq> None"

definition posting_key :: "correctionPosting \<Rightarrow> string" where
  "posting_key p = coalesce_key (cp_address p) (cp_identity p)"

lemma charges_source [simp]: "ip_CorrectionSource (charges a b) = None"
  by (simp add: charges_def no_parts_def)

text \<open>The indices are those of the postings of counterparts, one for each key.\<close>

definition postings_indexed :: "postings \<Rightarrow> bool" where
  "postings_indexed st \<longleftrightarrow> (\<forall>i < length (fst st). \<not> is_source (fst st ! i) \<longrightarrow> snd st (posting_key (fst st ! i)) = Some i) \<and>
     (\<forall>k i. snd st k = Some i \<longrightarrow> i < length (fst st) \<and> \<not> is_source (fst st ! i) \<and> posting_key (fst st ! i) = k)"

lemma sum_list_replace:
  fixes f :: "'a \<Rightarrow> rat"
  shows "i < length xs \<Longrightarrow> sum_list (map f (xs[i := y])) = sum_list (map f xs) - f (xs ! i) + f y"
  by (induction xs arbitrary: i) (auto split: nat.splits)

lemma filter_replace: "i < length xs \<Longrightarrow> \<not> P (xs ! i) \<Longrightarrow> \<not> P y \<Longrightarrow> List.filter P (xs[i := y]) = List.filter P xs"
  by (induction xs arbitrary: i) (auto split: nat.splits)

lemma addPosting_source:
  assumes "postings_indexed st" and "ip_CorrectionSource i \<noteq> None"
  shows "postings_indexed (addPosting a x i False st)" "fst (addPosting a x i False st) = fst st @ [\<lparr>cp_address = a, cp_amount = x, cp_identity = i\<rparr>]"
  using assms by (auto simp: addPosting_def postings_indexed_def is_source_def nth_append less_Suc_eq split: prod.splits)

text \<open>A posting of a counterpart is added to the one of its key.\<close>

lemma addPosting_counterpart:
  assumes "postings_indexed st" and i: "ip_CorrectionSource i = None"
    and f: "\<forall>p \<in> set (fst st). \<not> is_source p \<longrightarrow> posting_key p = coalesce_key a i \<longrightarrow> w (cp_address p) = (w a :: bool)"
  shows "postings_indexed (addPosting a x i True st)"
    and "List.filter is_source (fst (addPosting a x i True st)) = List.filter is_source (fst st)"
    and "sum_list (map (\<lambda>p. if w (cp_address p) then cp_amount p else 0) (fst (addPosting a x i True st))) =
      sum_list (map (\<lambda>p. if w (cp_address p) then cp_amount p else 0) (fst st)) + (if w a then x else 0)"
    and "(\<lambda>p. (cp_address p, cp_identity p)) ` set (fst (addPosting a x i True st)) \<subseteq>
      insert (a, i) ((\<lambda>p. (cp_address p, cp_identity p)) ` set (fst st))"
proof -
  obtain ps ix where st: "st = (ps, ix)" by (cases st)
  let ?p = "\<lparr>cp_address = a, cp_amount = x, cp_identity = i\<rparr>"
  have p: "\<not> is_source ?p" "posting_key ?p = coalesce_key a i" using i by (simp_all add: is_source_def posting_key_def)
  have "postings_indexed (addPosting a x i True st) \<and>
    List.filter is_source (fst (addPosting a x i True st)) = List.filter is_source ps \<and>
    sum_list (map (\<lambda>p. if w (cp_address p) then cp_amount p else 0) (fst (addPosting a x i True st))) =
      sum_list (map (\<lambda>p. if w (cp_address p) then cp_amount p else 0) ps) + (if w a then x else 0) \<and>
    (\<lambda>p. (cp_address p, cp_identity p)) ` set (fst (addPosting a x i True st)) \<subseteq>
      insert (a, i) ((\<lambda>p. (cp_address p, cp_identity p)) ` set ps)"
  proof (cases "ix (coalesce_key a i)")
    case None
    have new: "addPosting a x i True st = (ps @ [?p], ix(coalesce_key a i \<mapsto> length ps))" by (simp add: addPosting_def st None)
    have "postings_indexed (ps @ [?p], ix(coalesce_key a i \<mapsto> length ps))"
      unfolding postings_indexed_def fst_conv snd_conv
    proof (intro conjI allI impI)
      fix m assume m: "m < length (ps @ [?p])" "\<not> is_source ((ps @ [?p]) ! m)"
      show "(ix(coalesce_key a i \<mapsto> length ps)) (posting_key ((ps @ [?p]) ! m)) = Some m"
      proof (cases "m < length ps")
        case True
        then have "ix (posting_key (ps ! m)) = Some m" using assms(1) m by (simp add: postings_indexed_def st nth_append)
        then show ?thesis using True None by (auto simp: nth_append)
      next
        case False
        then have "m = length ps" using m(1) by simp
        then show ?thesis using p(2) by simp
      qed
    next
      fix k m assume m: "(ix(coalesce_key a i \<mapsto> length ps)) k = Some m"
      have "m < length (ps @ [?p]) \<and> \<not> is_source ((ps @ [?p]) ! m) \<and> posting_key ((ps @ [?p]) ! m) = k"
      proof (cases "k = coalesce_key a i")
        case True
        then have "m = length ps" using m by simp
        then show ?thesis using p True by simp
      next
        case False
        then have "m < length ps \<and> \<not> is_source (ps ! m) \<and> posting_key (ps ! m) = k" using assms(1) m by (simp add: postings_indexed_def st)
        then show ?thesis by (simp add: nth_append)
      qed
      then show "m < length (ps @ [?p])" "\<not> is_source ((ps @ [?p]) ! m)" "posting_key ((ps @ [?p]) ! m) = k" by simp_all
    qed
    then show ?thesis using p by (auto simp: new)
  next
    case (Some j)
    let ?q = "(ps ! j)\<lparr>cp_amount := cp_amount (ps ! j) + x\<rparr>"
    have j: "j < length ps" "\<not> is_source (ps ! j)" "posting_key (ps ! j) = coalesce_key a i"
      using assms(1) Some unfolding postings_indexed_def st by auto
    have q: "is_source ?q = is_source (ps ! j)" "posting_key ?q = posting_key (ps ! j)" "cp_address ?q = cp_address (ps ! j)"
      by (simp_all add: is_source_def posting_key_def)
    have new: "addPosting a x i True st = (ps[j := ?q], ix)" by (simp add: addPosting_def st Some)
    have "is_source (ps[j := ?q] ! k) = is_source (ps ! k) \<and> posting_key (ps[j := ?q] ! k) = posting_key (ps ! k)" for k
      using q j(1) by (cases "k = j") simp_all
    then have "postings_indexed (ps[j := ?q], ix)" using assms(1) by (simp add: postings_indexed_def st)
    moreover have "List.filter is_source (ps[j := ?q]) = List.filter is_source ps"
      by (rule filter_replace) (use j q in simp_all)
    moreover have "w (cp_address (ps ! j)) = w a" using f j st by simp
    then have "sum_list (map (\<lambda>p. if w (cp_address p) then cp_amount p else 0) (ps[j := ?q])) =
        sum_list (map (\<lambda>p. if w (cp_address p) then cp_amount p else 0) ps) + (if w a then x else 0)"
      using j(1) by (simp add: sum_list_replace)
    moreover have "(\<lambda>p. (cp_address p, cp_identity p)) ` set (ps[j := ?q]) \<subseteq> (\<lambda>p. (cp_address p, cp_identity p)) ` set ps"
      using set_update_subset_insert [of ps j ?q] j(1) by (auto 0 3 intro: rev_image_eqI [OF nth_mem])
    ultimately show ?thesis by (auto simp: new)
  qed
  then show "postings_indexed (addPosting a x i True st)"
    "List.filter is_source (fst (addPosting a x i True st)) = List.filter is_source (fst st)"
    "sum_list (map (\<lambda>p. if w (cp_address p) then cp_amount p else 0) (fst (addPosting a x i True st))) =
      sum_list (map (\<lambda>p. if w (cp_address p) then cp_amount p else 0) (fst st)) + (if w a then x else 0)"
    "(\<lambda>p. (cp_address p, cp_identity p)) ` set (fst (addPosting a x i True st)) \<subseteq>
      insert (a, i) ((\<lambda>p. (cp_address p, cp_identity p)) ` set (fst st))"
    by (simp_all add: st)
qed

definition source_posting :: "correctionLeg \<times> decimal \<Rightarrow> correctionPosting" where
  "source_posting la = \<lparr>cp_address = cl_sourceAddress (fst la), cp_amount = snd la,
     cp_identity = (leg_charges (fst la))\<lparr>ip_CorrectionSource := Some (cl_sourceEntryID (fst la))\<rparr>\<rparr>"

text \<open>What is posted to the addresses \<open>w\<close>.\<close>

definition posted :: "(PostingAddress \<Rightarrow> bool) \<Rightarrow> correctionPosting list \<Rightarrow> decimal" where
  "posted w ps = sum_list (map (\<lambda>p. if w (cp_address p) then cp_amount p else 0) ps)"

definition consistent :: "(PostingAddress \<Rightarrow> bool) \<Rightarrow> (string \<Rightarrow> bool) \<Rightarrow> correctionPosting list \<Rightarrow> bool" where
  "consistent w g ps \<longleftrightarrow> (\<forall>p \<in> set ps. \<not> is_source p \<longrightarrow> w (cp_address p) = g (posting_key p))"

lemma post_one_step:
  assumes "postings_indexed st" and "consistent w g (fst st)"
    and l: "w (cl_counterpartAddress (fst la)) = g (coalesce_key (cl_counterpartAddress (fst la)) (leg_charges (fst la)))"
  shows "postings_indexed (post_one st la)" "consistent w g (fst (post_one st la))"
    "List.filter is_source (fst (post_one st la)) = List.filter is_source (fst st) @ [source_posting la]"
    "posted w (fst (post_one st la)) = posted w (fst st) + (if w (cl_sourceAddress (fst la)) then snd la else 0) -
       (if w (cl_counterpartAddress (fst la)) then snd la else 0)"
proof -
  let ?i = "(leg_charges (fst la))\<lparr>ip_CorrectionSource := Some (cl_sourceEntryID (fst la))\<rparr>"
  let ?st = "addPosting (cl_sourceAddress (fst la)) (snd la) ?i False st"
  let ?a = "cl_counterpartAddress (fst la)" and ?c = "leg_charges (fst la)"
  have s: "postings_indexed ?st" "fst ?st = fst st @ [source_posting la]"
    using addPosting_source [OF assms(1), of ?i] by (simp_all add: source_posting_def)
  have src: "is_source (source_posting la)" by (simp add: is_source_def source_posting_def)
  have c: "ip_CorrectionSource ?c = None" by (simp add: leg_charges_def)
  have f: "\<forall>p \<in> set (fst ?st). \<not> is_source p \<longrightarrow> posting_key p = coalesce_key ?a ?c \<longrightarrow> w (cp_address p) = w ?a"
    using assms(2) l src unfolding s(2) by (auto simp: consistent_def)
  note n = addPosting_counterpart [where w = w and a = "?a" and x = "- snd la", OF s(1) c f]
  show "postings_indexed (post_one st la)" unfolding post_one_def by (rule n(1))
  show "List.filter is_source (fst (post_one st la)) = List.filter is_source (fst st) @ [source_posting la]"
    unfolding post_one_def n(2) s(2) by (simp add: src)
  show "posted w (fst (post_one st la)) = posted w (fst st) + (if w (cl_sourceAddress (fst la)) then snd la else 0) -
       (if w ?a then snd la else 0)"
    unfolding post_one_def posted_def n(3) s(2) by (simp add: source_posting_def)
  show "consistent w g (fst (post_one st la))" unfolding consistent_def
  proof (intro ballI impI)
    fix p assume p: "p \<in> set (fst (post_one st la))" "\<not> is_source p"
    have "(cp_address p, cp_identity p) \<in> (\<lambda>p. (cp_address p, cp_identity p)) ` set (fst (post_one st la))"
      by (rule imageI [OF p(1)])
    then have "(cp_address p, cp_identity p) \<in> insert (?a, ?c) ((\<lambda>p. (cp_address p, cp_identity p)) ` set (fst ?st))"
      unfolding post_one_def by (rule subsetD [OF n(4)])
    then have "(cp_address p, cp_identity p) = (?a, ?c) \<or> (\<exists>q \<in> set (fst ?st). cp_address p = cp_address q \<and> cp_identity p = cp_identity q)"
      by (simp only: insert_iff image_iff prod.inject)
    then show "w (cp_address p) = g (posting_key p)"
    proof
      assume "\<exists>q \<in> set (fst ?st). cp_address p = cp_address q \<and> cp_identity p = cp_identity q"
      then obtain q where q: "q \<in> set (fst ?st)" "cp_address p = cp_address q" "cp_identity p = cp_identity q" by blast
      then have "\<not> is_source q" using p(2) by (simp add: is_source_def)
      then show ?thesis using q assms(2) src unfolding s(2) by (auto simp: consistent_def posting_key_def)
    qed (use l in \<open>simp add: posting_key_def\<close>)
  qed
qed

lemma post_all:
  assumes "postings_indexed st" and "consistent w g (fst st)"
    and "\<And>l x. (l, x) \<in> set ls \<Longrightarrow> w (cl_counterpartAddress l) = g (coalesce_key (cl_counterpartAddress l) (leg_charges l))"
  shows "postings_indexed (foldl post_one st ls) \<and> consistent w g (fst (foldl post_one st ls)) \<and>
    List.filter is_source (fst (foldl post_one st ls)) = List.filter is_source (fst st) @ map source_posting ls \<and>
    posted w (fst (foldl post_one st ls)) = posted w (fst st) +
      sum_list (map (\<lambda>(l, x). (if w (cl_sourceAddress l) then x else 0) - (if w (cl_counterpartAddress l) then x else 0)) ls)"
  using assms
proof (induction ls arbitrary: st)
  case (Cons la ls)
  have l: "w (cl_counterpartAddress (fst la)) = g (coalesce_key (cl_counterpartAddress (fst la)) (leg_charges (fst la)))"
    using Cons.prems(3) [of "fst la" "snd la"] by simp
  note s = post_one_step [OF Cons.prems(1,2) l]
  have "postings_indexed (foldl post_one (post_one st la) ls) \<and> consistent w g (fst (foldl post_one (post_one st la) ls)) \<and>
      List.filter is_source (fst (foldl post_one (post_one st la) ls)) = List.filter is_source (fst (post_one st la)) @ map source_posting ls \<and>
      posted w (fst (foldl post_one (post_one st la) ls)) = posted w (fst (post_one st la)) +
        sum_list (map (\<lambda>(l, x). (if w (cl_sourceAddress l) then x else 0) - (if w (cl_counterpartAddress l) then x else 0)) ls)"
    by (rule Cons.IH [OF s(1,2)], erule Cons.prems(3) [OF list.set_intros(2)])
  then show ?case using s(3,4) by (cases la) simp
qed simp

section \<open>Allocating a correction\<close>

lemma PA_Equal_equiv: "PA_Equal a a" "PA_Equal a b \<Longrightarrow> PA_Equal b a" "PA_Equal a b \<Longrightarrow> PA_Equal b c \<Longrightarrow> PA_Equal a c"
  by (simp_all add: PA_Equal_def split: if_splits)

definition one_address :: "(Entry \<Rightarrow> routePairingKey) \<Rightarrow> Entry list \<Rightarrow> bool" where
  "one_address key es \<longleftrightarrow> (\<forall>c \<in> set es. \<forall>d \<in> set es. key c = key d \<longrightarrow> PA_Equal (ei_PostingAddress c) (ei_PostingAddress d))"

lemma counterpart_addresses_spec:
  assumes "\<forall>k a. m k = Some a \<longrightarrow> (\<exists>e \<in> set seen. key e = k \<and> ei_PostingAddress e = a)" and "key ` set seen \<subseteq> dom m"
    and "one_address key seen"
  shows "(\<exists>m'. counterpart_addresses key es m = Inr m') \<longleftrightarrow> one_address key (seen @ es)"
    and "counterpart_addresses key es m = Inr m' \<Longrightarrow>
      dom m' = dom m \<union> key ` set es \<and> (\<forall>k a. m' k = Some a \<longrightarrow> (\<exists>e \<in> set (seen @ es). key e = k \<and> ei_PostingAddress e = a))"
proof -
  have "((\<exists>m'. counterpart_addresses key es m = Inr m') \<longleftrightarrow> one_address key (seen @ es)) \<and>
    (\<forall>m'. counterpart_addresses key es m = Inr m' \<longrightarrow>
      dom m' = dom m \<union> key ` set es \<and> (\<forall>k a. m' k = Some a \<longrightarrow> (\<exists>e \<in> set (seen @ es). key e = k \<and> ei_PostingAddress e = a)))"
    using assms
  proof (induction es arbitrary: m seen)
    case Nil
    then show ?case
      by (simp only: counterpart_addresses.simps append_Nil2 sum.inject list.set image_empty Un_empty_right) blast
  next
    case (Cons e es)
    let ?m = "m(key e \<mapsto> ei_PostingAddress e)"
    show ?case
    proof (cases "\<exists>a. m (key e) = Some a \<and> \<not> PA_Equal a (ei_PostingAddress e)")
      case True
      then obtain c where "c \<in> set seen" "key c = key e" "\<not> PA_Equal (ei_PostingAddress c) (ei_PostingAddress e)"
        using Cons.prems(1) by blast
      then have "\<not> one_address key (seen @ e # es)" unfolding one_address_def by auto
      then show ?thesis using True by auto
    next
      case False
      have r: "counterpart_addresses key (e # es) m = counterpart_addresses key es ?m"
        using False by (auto split: option.splits)
      have "\<forall>k a. ?m k = Some a \<longrightarrow> (\<exists>d \<in> set (seen @ [e]). key d = k \<and> ei_PostingAddress d = a)"
        using Cons.prems(1) by auto
      moreover have "key ` set (seen @ [e]) \<subseteq> dom ?m" using Cons.prems(2) by auto
      moreover have "one_address key (seen @ [e])"
      proof -
        have eq: "PA_Equal (ei_PostingAddress c) (ei_PostingAddress e)" if c: "c \<in> set seen" "key c = key e" for c
        proof -
          have "key c \<in> dom m" using Cons.prems(2) c(1) by auto
          then obtain a where a: "m (key e) = Some a" using c(2) by auto
          then obtain d where d: "d \<in> set seen" "key d = key e" "ei_PostingAddress d = a" using Cons.prems(1) by auto
          have "PA_Equal (ei_PostingAddress c) (ei_PostingAddress d)" using Cons.prems(3) c d(1,2) unfolding one_address_def by auto
          then show ?thesis using False a d(3) PA_Equal_equiv(3) by blast
        qed
        show ?thesis unfolding one_address_def
        proof (intro ballI impI)
          fix c d assume cd: "c \<in> set (seen @ [e])" "d \<in> set (seen @ [e])" "key c = key d"
          consider "c \<in> set seen" "d \<in> set seen" | "c \<in> set seen" "d = e" | "c = e" "d \<in> set seen" | "c = e" "d = e" using cd by auto
          then show "PA_Equal (ei_PostingAddress c) (ei_PostingAddress d)"
          proof cases
            case 1
            then show ?thesis using Cons.prems(3) cd(3) unfolding one_address_def by blast
          next
            case 2
            then show ?thesis using eq [of c] cd(3) by simp
          next
            case 3
            then show ?thesis using PA_Equal_equiv(2) [OF eq [of d]] cd(3) by simp
          next
            case 4
            then show ?thesis using PA_Equal_equiv(1) by simp
          qed
        qed
      qed
      ultimately have "((\<exists>m'. counterpart_addresses key es ?m = Inr m') \<longleftrightarrow> one_address key ((seen @ [e]) @ es)) \<and>
        (\<forall>m'. counterpart_addresses key es ?m = Inr m' \<longrightarrow> dom m' = dom ?m \<union> key ` set es \<and>
          (\<forall>k a. m' k = Some a \<longrightarrow> (\<exists>d \<in> set ((seen @ [e]) @ es). key d = k \<and> ei_PostingAddress d = a)))"
        by (rule Cons.IH)
      then show ?thesis unfolding r by simp
    qed
  qed
  then show "(\<exists>m'. counterpart_addresses key es m = Inr m') \<longleftrightarrow> one_address key (seen @ es)"
    and "counterpart_addresses key es m = Inr m' \<Longrightarrow>
      dom m' = dom m \<union> key ` set es \<and> (\<forall>k a. m' k = Some a \<longrightarrow> (\<exists>e \<in> set (seen @ es). key e = k \<and> ei_PostingAddress e = a))"
    by blast+
qed

definition leg_of :: "(Entry \<Rightarrow> routePairingKey) \<Rightarrow> (Entry \<Rightarrow> decimal) \<Rightarrow> (routePairingKey \<rightharpoonup> PostingAddress) \<Rightarrow> Entry \<Rightarrow> correctionLeg" where
  "leg_of key sourceAmount byKey e =
     \<lparr>cl_sourceAddress = ei_PostingAddress e, cl_sourceEntryID = en_ID e, cl_counterpartAddress = the (byKey (key e)),
      cl_amount = sourceAmount e, cl_source = ei_SourceChargeID e, cl_spend = ei_SpendChargeID e\<rparr>"

lemma correction_legs_spec:
  "correction_legs key a byKey es = Inr legs \<longleftrightarrow>
     legs = map (leg_of key a byKey) (List.filter (\<lambda>e. 0 < a e) es) \<and> (\<forall>e \<in> set es. 0 < a e \<longrightarrow> key e \<in> dom byKey)"
  by (induction es arbitrary: legs) (auto simp: leg_of_def bind_result_Inr split: option.splits)

text \<open>The entries that can be taken back, the last first.\<close>

definition available :: "(Entry \<Rightarrow> decimal) \<Rightarrow> Entry list \<Rightarrow> Entry list" where
  "available a es = rev (List.filter (\<lambda>e. 0 < a e) es)"

definition reversal :: "Entry \<Rightarrow> decimal \<Rightarrow> correctionPosting" where
  "reversal e x = \<lparr>cp_address = ei_PostingAddress e, cp_amount = x,
     cp_identity = (charges (ei_SourceChargeID e) (ei_SpendChargeID e))\<lparr>ip_CorrectionSource := Some (en_ID e)\<rparr>\<rparr>"

lemma allocate_Inr:
  "allocateCorrectionLegs es cs key a amount = Inr ps \<longleftrightarrow>
     (\<exists>m. counterpart_addresses key cs Map.empty = Inr m \<and> (\<forall>e \<in> set (available a es). key e \<in> dom m) \<and>
        amount \<le> sum_list (map a (available a es)) \<and>
        ps = fst (foldl post_one ([], Map.empty) (taken (map (leg_of key a m) (available a es)) amount)))"
proof -
  let ?es = "List.filter (\<lambda>e. 0 < a e) es"
  have "sum_list (map a (available a es)) = sum_list (map a ?es)" by (simp only: available_def rev_map [symmetric] sum_list_rev)
  then have amounts: "sum_list (map cl_amount (map (leg_of key a m) ?es)) = sum_list (map a (available a es))" for m
    by (simp add: comp_def leg_of_def)
  have rev: "rev (map (leg_of key a m) ?es) = map (leg_of key a m) (available a es)" for m
    by (simp add: available_def rev_map)
  have found: "(\<forall>e \<in> set es. 0 < a e \<longrightarrow> key e \<in> dom m) \<longleftrightarrow> (\<forall>e \<in> set (available a es). key e \<in> dom m)" for m :: "routePairingKey \<rightharpoonup> PostingAddress"
    by (auto simp: available_def)
  have choice: "((if x < amount then Inl e else Inr p) = Inr ps) \<longleftrightarrow> amount \<le> x \<and> ps = p" for x e and p :: "correctionPosting list"
    by auto
  show ?thesis
    unfolding allocateCorrectionLegs_def bind_result_Inr correction_legs_spec found choice
    by (simp only: ex_simps conj_assoc post_legs_taken amounts rev ex_simps simp_thms)
qed

lemma foldl_no_postings: "postings_indexed ([], Map.empty)" "consistent w g (fst ([], Map.empty))"
  by (simp_all add: postings_indexed_def consistent_def)

lemma allocated_sources:
  assumes "allocateCorrectionLegs es cs key a amount = Inr ps"
  shows "List.filter is_source ps = map (\<lambda>i. reversal (available a es ! i) (given (map a (available a es)) amount i))
      (List.filter (\<lambda>i. 0 < given (map a (available a es)) amount i) [0..<length (available a es)])"
    and "0 \<le> amount \<Longrightarrow> sum_list (map cp_amount (List.filter is_source ps)) = amount"
    and "sum_list (map cp_amount ps) = 0"
proof -
  obtain m where m: "amount \<le> sum_list (map a (available a es))"
    and ps: "ps = fst (foldl post_one ([], Map.empty) (taken (map (leg_of key a m) (available a es)) amount))"
    using assms by (auto simp: allocate_Inr)
  let ?es = "available a es" let ?ls = "map (leg_of key a m) ?es"
  have pos: "list_all (\<lambda>l. 0 < cl_amount l) ?ls" by (simp add: list_all_iff available_def leg_of_def)
  have amounts: "map cl_amount ?ls = map a ?es" by (simp add: leg_of_def)
  note all = post_all [OF foldl_no_postings, where w = "\<lambda>_. True" and g = "\<lambda>_. True", OF refl, of "taken ?ls amount"]
  have src: "List.filter is_source ps = map source_posting (taken ?ls amount)" using all by (simp add: ps)
  show "List.filter is_source ps = map (\<lambda>i. reversal (?es ! i) (given (map a ?es) amount i))
      (List.filter (\<lambda>i. 0 < given (map a ?es) amount i) [0..<length ?es])"
    unfolding src unfolding taken_given [OF pos] unfolding amounts unfolding map_map length_map
    by (rule map_cong [OF refl]) (auto simp: source_posting_def reversal_def leg_of_def leg_charges_def)
  show "sum_list (map cp_amount (List.filter is_source ps)) = amount" if "0 \<le> amount"
    using taken_total [OF pos that, unfolded amounts, OF m] by (simp add: src comp_def source_posting_def)
  show "sum_list (map cp_amount ps) = 0"
    using all by (simp add: ps posted_def case_prod_unfold)
qed

text \<open>
  C7. A correction takes back the sources of a transaction from the last to the first
  (\<open>allocateCorrectionLegs\<close>, openmeter/ledger/transactions/correction_leg.go): each gives what the later ones have left of
  the amount and at most what it booked, so that together they give the amount; the postings of the counterparts cancel
  theirs. It fails exactly if the sources do not cover the amount, if a source has no counterpart of its key, or if two
  counterparts of a key have different addresses.
\<close>

theorem allocateCorrectionLegs_exact:
  assumes "0 < amount"
  shows "case allocateCorrectionLegs es cs key a amount of
      Inl _ \<Rightarrow> \<not> (one_address key cs \<and> key ` set (available a es) \<subseteq> key ` set cs \<and> amount \<le> sum_list (map a (available a es)))
    | Inr ps \<Rightarrow> one_address key cs \<and> key ` set (available a es) \<subseteq> key ` set cs \<and> amount \<le> sum_list (map a (available a es)) \<and>
        List.filter is_source ps = map (\<lambda>i. reversal (available a es ! i) (given (map a (available a es)) amount i))
          (List.filter (\<lambda>i. 0 < given (map a (available a es)) amount i) [0..<length (available a es)]) \<and>
        sum_list (map cp_amount (List.filter is_source ps)) = amount \<and> sum_list (map cp_amount ps) = 0"
proof -
  have found: "(\<forall>e \<in> set (available a es). key e \<in> dom m) \<longleftrightarrow> key ` set (available a es) \<subseteq> key ` set cs"
    if "counterpart_addresses key cs Map.empty = Inr m" for m
    using counterpart_addresses_spec(2) [where seen = "[]", OF _ _ _ that] by (auto simp: one_address_def)
  have one: "(\<exists>m. counterpart_addresses key cs Map.empty = Inr m) \<longleftrightarrow> one_address key cs"
    using counterpart_addresses_spec(1) [where seen = "[]" and m = Map.empty and es = cs] by (simp add: one_address_def)
  have ok: "(\<exists>ps. allocateCorrectionLegs es cs key a amount = Inr ps) \<longleftrightarrow>
      one_address key cs \<and> key ` set (available a es) \<subseteq> key ` set cs \<and> amount \<le> sum_list (map a (available a es))"
  proof -
    have "(\<exists>ps. allocateCorrectionLegs es cs key a amount = Inr ps) \<longleftrightarrow> (\<exists>m. counterpart_addresses key cs Map.empty = Inr m \<and>
        (\<forall>e \<in> set (available a es). key e \<in> dom m) \<and> amount \<le> sum_list (map a (available a es)))"
      unfolding allocate_Inr by blast
    also have "\<dots> \<longleftrightarrow> (\<exists>m. counterpart_addresses key cs Map.empty = Inr m \<and>
        key ` set (available a es) \<subseteq> key ` set cs \<and> amount \<le> sum_list (map a (available a es)))"
      using found by (intro ex_cong1 conj_cong refl) blast
    finally show ?thesis using one by blast
  qed
  show ?thesis
  proof (cases "allocateCorrectionLegs es cs key a amount")
    case (Inl e)
    then have "\<not> (\<exists>ps. allocateCorrectionLegs es cs key a amount = Inr ps)" by simp
    then show ?thesis unfolding ok by (simp only: Inl sum.case) simp
  next
    case (Inr ps)
    then have "\<exists>ps. allocateCorrectionLegs es cs key a amount = Inr ps" by simp
    then show ?thesis unfolding ok using allocated_sources [OF Inr] assms by (simp only: Inr sum.case)
  qed
qed

definition sample_row :: "string \<Rightarrow> AccountType \<Rightarrow> decimal \<Rightarrow> Entry" where
  "sample_row i t x = EntryInput.extend (sample_entry i t x) \<lparr>en_Namespace = ''ns'', en_ID = i\<rparr>"

definition sample_key :: "Entry \<Rightarrow> routePairingKey" where
  "sample_key e = basic_key std_decimal_lib (ei_PostingAddress e) (ei_SourceChargeID e) (ei_SpendChargeID e)"

lemma sample_row_fields:
  "ei_Amount (sample_row i t x) = x" "en_ID (sample_row i t x) = i"
  "ei_SourceChargeID (sample_row i t x) = None" "ei_SpendChargeID (sample_row i t x) = None"
  "ei_PostingAddress (sample_row i t x) = sample_address i t (sample_route [] 100)"
  "sample_key (sample_row i t x) = sample_key (sample_row j v y)"
  by (simp_all add: sample_row_def sample_entry_def EntryInput.extend_def sample_key_def basic_key_def address_route_def sample_address_def)

theorem allocateCorrectionLegs_exact_witness:
  "case allocateCorrectionLegs [sample_row ''e1'' AccountTypeCustomerFBO (-3), sample_row ''e2'' AccountTypeCustomerFBO (-4)]
      [sample_row ''e3'' AccountTypeCustomerAccrued 7] sample_key (\<lambda>e. \<bar>ei_Amount e\<bar>) 5 of
     Inl _ \<Rightarrow> False
   | Inr ps \<Rightarrow> map cp_amount (List.filter is_source ps) = [4, 1] \<and> sum_list (map cp_amount ps) = 0"
proof -
  let ?es = "[sample_row ''e1'' AccountTypeCustomerFBO (-3), sample_row ''e2'' AccountTypeCustomerFBO (-4)]"
  let ?cs = "[sample_row ''e3'' AccountTypeCustomerAccrued 7]"
  have e: "available (\<lambda>e. \<bar>ei_Amount e\<bar>) ?es = rev ?es" by (simp add: available_def sample_row_fields)
  have k: "one_address sample_key ?cs" by (simp add: one_address_def PA_Equal_equiv(1))
  have f: "sample_key ` set ?es \<subseteq> sample_key ` set ?cs" using sample_row_fields(6) by auto
  have g: "map (given (map (\<lambda>e. \<bar>ei_Amount e\<bar>) (rev ?es)) 5) [0, 1] = [4, 1]" by (simp add: given_def sample_row_fields)
  have u: "[0..<length (rev ?es)] = [0, 1]" by (simp add: upt_rec)
  show ?thesis
    using allocateCorrectionLegs_exact [where amount = 5 and es = ?es and cs = ?cs and key = sample_key and a = "\<lambda>e. \<bar>ei_Amount e\<bar>"] k f g
    unfolding e u by (auto simp: sample_row_fields reversal_def split: sum.splits)
qed

section \<open>Corrections balance\<close>

text \<open>Sub-accounts are identified by their ID, which has no colon.\<close>

definition known_sub_accounts :: "PostingAddress set \<Rightarrow> bool" where
  "known_sub_accounts X \<longleftrightarrow> (\<forall>x \<in> X. CHR '':'' \<notin> set (pa_SubAccountID x)) \<and>
     (\<forall>x \<in> X. \<forall>y \<in> X. pa_SubAccountID x = pa_SubAccountID y \<longrightarrow> currency_key x = currency_key y)"

lemma known_sub_accounts_currency:
  assumes "known_sub_accounts X"
  shows "\<exists>g. \<forall>x \<in> X. \<forall>i. currency_key x = g (coalesce_key x i)"
proof -
  define g where "g k = currency_key (SOME x. x \<in> X \<and> pa_SubAccountID x = takeWhile (\<lambda>c. c \<noteq> CHR '':'') k)" for k
  have "currency_key x = g (coalesce_key x i)" if x: "x \<in> X" for x i
  proof -
    have "CHR '':'' \<notin> set (pa_SubAccountID x)" using assms x by (simp add: known_sub_accounts_def)
    then have t: "takeWhile (\<lambda>c. c \<noteq> CHR '':'') (coalesce_key x i) = pa_SubAccountID x"
      unfolding coalesce_key_def by (subst takeWhile_append2) auto
    let ?y = "SOME y. y \<in> X \<and> pa_SubAccountID y = pa_SubAccountID x"
    have "?y \<in> X \<and> pa_SubAccountID ?y = pa_SubAccountID x" using someI [of "\<lambda>y. y \<in> X \<and> pa_SubAccountID y = pa_SubAccountID x" x] x by simp
    then show ?thesis using assms x unfolding g_def t known_sub_accounts_def by metis
  qed
  then show ?thesis by blast
qed

lemma posted_total: "total_in q (mapCorrectionPostingsToEntryInputs ps) = posted (\<lambda>x. currency_key x = q) ps"
  by (induction ps) (simp_all add: mapCorrectionPostingsToEntryInputs_def posted_def)

lemma allocated_balanced:
  assumes "allocateCorrectionLegs es cs key a amount = Inr ps" and "known_sub_accounts (ei_PostingAddress ` set cs)"
    and key: "\<forall>e \<in> set es \<union> set cs. pk_currency (key e) = currency_key (ei_PostingAddress e)"
  shows "balanced (mapCorrectionPostingsToEntryInputs ps)"
  unfolding balanced_def posted_total
proof
  fix q
  obtain m where m: "counterpart_addresses key cs Map.empty = Inr m" "\<forall>e \<in> set (available a es). key e \<in> dom m"
    and ps: "ps = fst (foldl post_one ([], Map.empty) (taken (map (leg_of key a m) (available a es)) amount))"
    using assms(1) by (auto simp: allocate_Inr)
  obtain g where g: "\<forall>x \<in> ei_PostingAddress ` set cs. \<forall>i. currency_key x = g (coalesce_key x i)"
    using known_sub_accounts_currency [OF assms(2)] by blast
  have found: "\<exists>c \<in> set cs. key c = k \<and> ei_PostingAddress c = x" if "m k = Some x" for k x
    using counterpart_addresses_spec(2) [where seen = "[]", OF _ _ _ m(1)] that by (simp add: one_address_def)
  let ?ls = "taken (map (leg_of key a m) (available a es)) amount"
  have legs: "l \<in> leg_of key a m ` set (available a es)" if "(l, x) \<in> set ?ls" for l x
  proof -
    have "list_all (\<lambda>l. 0 < cl_amount l) (map (leg_of key a m) (available a es))" by (simp add: list_all_iff available_def leg_of_def)
    then show ?thesis using that by (auto simp: taken_given)
  qed
  have leg: "cl_counterpartAddress l \<in> ei_PostingAddress ` set cs \<and> currency_key (cl_counterpartAddress l) = currency_key (cl_sourceAddress l)"
    if l: "(l, x) \<in> set ?ls" for l x
  proof -
    obtain e where e: "e \<in> set (available a es)" "l = leg_of key a m e" using legs [OF l] by auto
    then obtain y where y: "m (key e) = Some y" using m(2) by auto
    then obtain c where "c \<in> set cs" "key c = key e" "ei_PostingAddress c = y" using found by blast
    moreover have "e \<in> set es" using e(1) by (simp add: available_def)
    ultimately have "currency_key y = currency_key (ei_PostingAddress e)" "y \<in> ei_PostingAddress ` set cs" using key by (metis UnCI, blast)
    then show ?thesis using e(2) y by (simp add: leg_of_def)
  qed
  have "posted (\<lambda>x. currency_key x = q) ps = sum_list (map (\<lambda>(l, x). (if currency_key (cl_sourceAddress l) = q then x else 0) -
      (if currency_key (cl_counterpartAddress l) = q then x else 0)) ?ls)"
    using post_all [OF foldl_no_postings, where w = "\<lambda>x. currency_key x = q" and g = "\<lambda>k. g k = q" and ls = ?ls] leg g
    by (simp add: ps posted_def)
  also have "\<dots> = sum_list (map (\<lambda>_. 0) ?ls)"
    by (rule arg_cong [of _ _ sum_list], rule map_cong [OF refl]) (auto dest: leg)
  finally show "posted (\<lambda>x. currency_key x = q) ps = 0" by simp
qed

end
