(* ===== verification/LedgerCycle.thy ===== *)
theory LedgerCycle
  imports LedgerReversals
begin

text \<open>
  The cycle of a ledger transaction: what it is resolved from, what is booked, and that what is taken back of it balances
  and is never taken back again.
\<close>

section \<open>What a booked transaction is made of\<close>

text \<open>Templates of two entries post one currency.\<close>

definition one_currency :: "EntryInput list \<Rightarrow> bool" where
  "one_currency es \<longleftrightarrow> (\<exists>q. \<forall>e \<in> set es. currency_key (ei_PostingAddress e) = q)"

lemma pair_one_currency: "currency_key x = currency_key y \<Longrightarrow> one_currency [template_entry x a i n, template_entry y b j m]"
  by (simp add: one_currency_def)

lemma pair_resolve_one_currency:
  assumes "rows_ok D T"
  shows "IS_resolve known D c is = Inr (Some x) \<Longrightarrow> one_currency (tx_EntryInputs x)"
    and "AA_resolve known D c aa = Inr (Some x) \<Longrightarrow> one_currency (tx_EntryInputs x)"
    and "TA_resolve known D c ta = Inr (Some x) \<Longrightarrow> one_currency (tx_EntryInputs x)"
    and "TL_resolve known D c tt = Inr (Some x) \<Longrightarrow> one_currency (tx_EntryInputs x)"
  unfolding IS_resolve_def AA_resolve_def TA_resolve_def TL_resolve_def
  by (auto dest!: found intro!: pair_one_currency dest!: obtained_currency [OF _ assms])

text \<open>The amounts that are not negative were posted to sub-accounts of the resolver.\<close>

definition resolved_address :: "known_currencies \<Rightarrow> ResolverDependencies \<Rightarrow> PostingAddress \<Rightarrow> bool" where
  "resolved_address known D x \<longleftrightarrow> (\<exists>a r. obtained known D a r x)"

lemma resolved_address_obtained: "obtained known D a r x \<Longrightarrow> resolved_address known D x"
  by (auto simp: resolved_address_def)

definition credits_resolved :: "known_currencies \<Rightarrow> ResolverDependencies \<Rightarrow> EntryInput list \<Rightarrow> bool" where
  "credits_resolved known D es \<longleftrightarrow> (\<forall>e \<in> set es. 0 < ei_Amount e \<longrightarrow> resolved_address known D (ei_PostingAddress e))"

lemma resolve_counterparts_all:
  assumes "resolve_counterparts key lookup identity ss m = Inr m'" and "\<forall>s a. lookup s = Inr a \<longrightarrow> P a"
    and "\<forall>k c. m k = Some c \<longrightarrow> P (po_Address c)"
  shows "\<forall>k c. m' k = Some c \<longrightarrow> P (po_Address c)"
  using assms(1,3)
proof (induction ss arbitrary: m)
  case (Cons s ss)
  obtain c where "resolve_counterparts key lookup identity ss (m(key s \<mapsto> c)) = Inr m'" "P (po_Address c)"
  proof (cases "m (key s)")
    case None
    then obtain a where "lookup s = Inr a" "resolve_counterparts key lookup identity ss
        (m(key s \<mapsto> \<lparr>po_Address = a, po_Amount = 0 + po_Amount s, po_Identity = identity s, po_Annotations = Map.empty\<rparr>)) = Inr m'"
      using Cons.prems(1) by (auto simp: bind_result_Inr)
    then show thesis using that assms(2) by auto
  next
    case (Some b)
    then show thesis using that [of "b\<lparr>po_Amount := po_Amount b + po_Amount s\<rparr>"] Cons.prems by simp
  qed
  moreover from this(2) have "\<forall>k d. (m(key s \<mapsto> c)) k = Some d \<longrightarrow> P (po_Address d)" using Cons.prems(2) by simp
  ultimately show ?case by (intro Cons.IH)
qed simp

lemma credited_entries_all:
  "e \<in> set (credited_entries key m ss C) \<Longrightarrow> \<exists>k c. m k = Some c \<and> ei_PostingAddress e = po_Address c"
  by (induction ss arbitrary: C) (auto split: if_splits option.splits, metis)

lemma counterparts_resolved:
  assumes "resolve_counterparts key lookup identity ss Map.empty = Inr m" and "\<forall>s a. lookup s = Inr a \<longrightarrow> resolved_address known D a"
    and "\<forall>s \<in> set ss. 0 < po_Amount s"
  shows "credits_resolved known D (map source_entry ss @ credited_entries key m ss {})"
proof -
  have "\<forall>k c. m k = Some c \<longrightarrow> resolved_address known D (po_Address c)" by (rule resolve_counterparts_all [OF assms(1,2)]) simp
  then have "\<forall>e \<in> set (credited_entries key m ss {}). resolved_address known D (ei_PostingAddress e)"
    using credited_entries_all by fastforce
  moreover have "\<forall>e \<in> set (map source_entry ss). \<not> 0 < ei_Amount e" using assms(3) by (auto simp: source_entry_def)
  ultimately show ?thesis unfolding credits_resolved_def by auto
qed

lemma collected_positive: "s \<in> set (collectFromPostingAddressBalanceSources ss r) \<Longrightarrow> 0 < po_Amount s"
  by (induction ss arbitrary: r) (auto simp: Let_def split: if_splits)

lemma positive_amount: "ValidateTransactionAmount x = None \<Longrightarrow> 0 < x"
  by (auto simp: ValidateTransactionAmount_def split: if_splits)

lemma lookups_resolved:
  "cover_receivable known D a s = Inr y \<Longrightarrow> resolved_address known D y"
  "transfer_accrued known D a t s = Inr y \<Longrightarrow> resolved_address known D y"
  "recognize_earnings known D a s = Inr y \<Longrightarrow> resolved_address known D y"
  by (auto simp: cover_receivable_def transfer_accrued_def recognize_earnings_def Let_def dest!: found dest!: resolved_address_obtained)

lemma paired_resolve_credits:
  shows "CV_resolve known L D c cv = Inr (Some x) \<Longrightarrow> CV_Validate known cv = None \<Longrightarrow> credits_resolved known D (tx_EntryInputs x)"
    and "TF_resolve known L D c tf = Inr (Some x) \<Longrightarrow> TransferFBO_Validate known tf = None \<Longrightarrow> credits_resolved known D (tx_EntryInputs x)"
    and "RT_resolve known L D c rt = Inr (Some x) \<Longrightarrow> credits_resolved known D (tx_EntryInputs x)"
proof -
  assume r: "CV_resolve known L D c cv = Inr (Some x)" and v: "CV_Validate known cv = None"
  show "credits_resolved known D (tx_EntryInputs x)"
  proof (cases "cv_Sources cv = []")
    case True
    then show ?thesis using r
      by (auto simp: CV_resolve_def credits_resolved_def dest!: found dest!: resolved_address_obtained)
  next
    case False
    then have "\<forall>s \<in> set (cv_Sources cv). 0 < po_Amount s"
      using v by (auto simp: CV_Validate_def cover_source_errors_def Let_def intro: positive_amount)
    then show ?thesis using r False
      by (auto simp: CV_resolve_def CV_resolvePreselectedSources_def bind_result_Inr dest!: found)
        (rule counterparts_resolved, assumption, auto dest: lookups_resolved)
  qed
next
  assume r: "TF_resolve known L D c tf = Inr (Some x)" and v: "TransferFBO_Validate known tf = None"
  have "\<forall>s \<in> set (tf_Sources tf). 0 < po_Amount s"
    using v by (auto simp: TransferFBO_Validate_def first_error_None transfer_source_error_def intro: positive_amount split: if_splits option.splits)
  then show "credits_resolved known D (tx_EntryInputs x)" using r
    by (auto simp: TF_resolve_def bind_result_Inr dest!: found split: if_splits)
      (rule counterparts_resolved, assumption, auto dest: lookups_resolved)
next
  assume r: "RT_resolve known L D c rt = Inr (Some x)"
  then show "credits_resolved known D (tx_EntryInputs x)"
    by (auto simp: RT_resolve_def bind_result_Inr wrap_result_Inr collectFromAttributableCustomerAccrued_def dest!: found split: if_splits)
      (rule counterparts_resolved, assumption, auto dest: lookups_resolved collected_positive)
qed

text \<open>The sub-accounts of the resolver are identified by IDs without a colon.\<close>

definition plain_ids :: "ResolverDependencies \<Rightarrow> bool" where
  "plain_ids D \<longleftrightarrow> (\<forall>i d. rd_EnsureSubAccount D i = Inr d \<longrightarrow> CHR '':'' \<notin> set (sd_ID d))"

lemma resolved_known:
  assumes "rows_ok D T" and "plain_ids D" and "\<forall>x \<in> X. resolved_address known D x"
  shows "known_sub_accounts X"
proof -
  have "CHR '':'' \<notin> set (pa_SubAccountID x)" if x: "x \<in> X" for x
  proof -
    obtain a r s where "EnsureSubAccount known D (account_input a r) = Inr s" "sa_Address s = x"
      using assms(3) x by (auto simp: resolved_address_def obtained_def)
    note e = this
    obtain d where "rd_EnsureSubAccount D (account_input a r) = Inr d" "pa_SubAccountID (sa_Address s) = sd_ID d"
      using EnsureSubAccount_Inr [OF e(1)] by auto
    then have "rd_EnsureSubAccount D (account_input a r) = Inr d" "pa_SubAccountID x = sd_ID d" using e(2) by simp_all
    then show ?thesis using assms(2) by (auto simp: plain_ids_def)
  qed
  moreover have "currency_key x = currency_key y" if xy: "x \<in> X" "y \<in> X" "pa_SubAccountID x = pa_SubAccountID y" for x y
  proof -
    obtain a r where x: "obtained known D a r x" using assms(3) xy(1) by (auto simp: resolved_address_def)
    obtain b v where y: "obtained known D b v y" using assms(3) xy(2) by (auto simp: resolved_address_def)
    have "same_dimensions (canonical_route r) (canonical_route v)" using obtained_same [OF x y assms(1) xy(3)] by simp
    then have "IdentityKey (ro_Currency r) = IdentityKey (ro_Currency v)" by (simp add: same_dimensions_def)
    then show ?thesis unfolding obtained_currency [OF x assms(1)] obtained_currency [OF y assms(1)] .
  qed
  ultimately show ?thesis unfolding known_sub_accounts_def by blast
qed

section \<open>Correcting what was resolved\<close>

text \<open>The entries of a booked transaction have the values of those it was resolved to.\<close>

definition booked_from :: "Transaction \<Rightarrow> EntryInput list \<Rightarrow> bool" where
  "booked_from original es \<longleftrightarrow> entry_row ` set (tr_Entries original) \<subseteq> entry_row ` set es"

lemma booked_entry:
  assumes "booked_from original es" and "e \<in> set (tr_Entries original)"
  shows "\<exists>i \<in> set es. ei_PostingAddress i = ei_PostingAddress e \<and> ei_Amount i = ei_Amount e"
  using assms by (fastforce simp: booked_from_def entry_row_def)

definition sides_of :: "PostingAddress set \<Rightarrow> sides \<Rightarrow> bool" where
  "sides_of X s \<longleftrightarrow> (\<forall>x. si_left s = Some x \<or> si_right s = Some x \<longrightarrow> x \<in> X)"

lemma sides_step:
  assumes "sides_of X s" and "ei_PostingAddress e \<in> X"
  shows "sides_of X (issue_sides s e)" "sides_of X (attribute_sides s e)" "sides_of X (advance_sides s e)" "sides_of X (translate_sides s e)"
  using assms by (simp_all add: sides_of_def issue_sides_def attribute_sides_def advance_sides_def translate_sides_def see_left_def see_right_def)

lemma foldl_invariant: "P s \<Longrightarrow> (\<And>s e. P s \<Longrightarrow> e \<in> set es \<Longrightarrow> P (f s e)) \<Longrightarrow> P (foldl f s es)"
  by (induction es arbitrary: s) auto

lemma sides_of_entries:
  shows "sides_of (ei_PostingAddress ` set es) (foldl issue_sides no_sides es)"
    and "sides_of (ei_PostingAddress ` set es) (foldl attribute_sides no_sides es)"
    and "sides_of (ei_PostingAddress ` set es) (foldl advance_sides no_sides es)"
    and "sides_of (ei_PostingAddress ` set es) (foldl translate_sides no_sides es)"
proof -
  have n: "sides_of (ei_PostingAddress ` set es) no_sides" by (simp add: sides_of_def no_sides_def)
  show "sides_of (ei_PostingAddress ` set es) (foldl issue_sides no_sides es)"
    by (rule foldl_invariant [where P = "sides_of (ei_PostingAddress ` set es)", OF n]) (rule sides_step, assumption, erule imageI)
  show "sides_of (ei_PostingAddress ` set es) (foldl attribute_sides no_sides es)"
    by (rule foldl_invariant [where P = "sides_of (ei_PostingAddress ` set es)", OF n]) (rule sides_step, assumption, erule imageI)
  show "sides_of (ei_PostingAddress ` set es) (foldl advance_sides no_sides es)"
    by (rule foldl_invariant [where P = "sides_of (ei_PostingAddress ` set es)", OF n]) (rule sides_step, assumption, erule imageI)
  show "sides_of (ei_PostingAddress ` set es) (foldl translate_sides no_sides es)"
    by (rule foldl_invariant [where P = "sides_of (ei_PostingAddress ` set es)", OF n]) (rule sides_step, assumption, erule imageI)
qed

lemma two_sided_Inr:
  "two_sided missing exceeds amount s f = Inr y \<Longrightarrow>
     \<exists>l r. si_left s = Some l \<and> si_right s = Some r \<and> amount \<le> si_leftAmount s \<and> amount \<le> si_rightAmount s \<and> y = f l r"
  by (auto simp: two_sided_def split: option.splits if_splits)

lemma two_sided_balanced:
  assumes "booked_from original es" and "one_currency es"
  shows "IS_correct i original = Inr ys \<Longrightarrow> y \<in> set ys \<Longrightarrow> balanced (tx_EntryInputs y)"
    and "AA_correct i original = Inr ys \<Longrightarrow> y \<in> set ys \<Longrightarrow> balanced (tx_EntryInputs y)"
    and "TA_correct i original = Inr ys \<Longrightarrow> y \<in> set ys \<Longrightarrow> balanced (tx_EntryInputs y)"
    and "TL_correct i original = Inr ys \<Longrightarrow> y \<in> set ys \<Longrightarrow> balanced (tx_EntryInputs y)"
proof -
  obtain q where q: "\<forall>e \<in> set es. currency_key (ei_PostingAddress e) = q" using assms(2) by (auto simp: one_currency_def)
  have same: "currency_key l = currency_key r"
    if "sides_of (ei_PostingAddress ` set (tr_Entries original)) s" "si_left s = Some l" "si_right s = Some r" for s l r
  proof -
    have "currency_key x = q" if x: "x \<in> ei_PostingAddress ` set (tr_Entries original)" for x
    proof -
      obtain e where e: "e \<in> set (tr_Entries original)" "x = ei_PostingAddress e" using x by blast
      obtain j where "j \<in> set es" "ei_PostingAddress j = ei_PostingAddress e" using booked_entry [OF assms(1) e(1)] by blast
      then show ?thesis using q e(2) by metis
    qed
    then show ?thesis using that by (simp add: sides_of_def)
  qed
  show "IS_correct i original = Inr ys \<Longrightarrow> y \<in> set ys \<Longrightarrow> balanced (tx_EntryInputs y)"
    by (auto simp: IS_correct_def Let_def dest!: two_sided_Inr intro!: pair_balanced dest: same [OF sides_of_entries(1)])
  show "AA_correct i original = Inr ys \<Longrightarrow> y \<in> set ys \<Longrightarrow> balanced (tx_EntryInputs y)"
    by (auto simp: AA_correct_def Let_def dest!: two_sided_Inr intro!: pair_balanced dest: same [OF sides_of_entries(2)])
  show "TA_correct i original = Inr ys \<Longrightarrow> y \<in> set ys \<Longrightarrow> balanced (tx_EntryInputs y)"
    by (auto simp: TA_correct_def Let_def dest!: two_sided_Inr intro!: pair_balanced dest: same [OF sides_of_entries(3)])
  show "TL_correct i original = Inr ys \<Longrightarrow> y \<in> set ys \<Longrightarrow> balanced (tx_EntryInputs y)"
    by (auto simp: TL_correct_def Let_def dest!: two_sided_Inr intro!: pair_balanced dest: same [OF sides_of_entries(4)])
qed

lemma paired_correct_balanced:
  assumes "booked_from original es" and "credits_resolved known D es" and "rows_ok D T" and "plain_ids D"
  shows "CV_correct L i original = Inr ys \<Longrightarrow> y \<in> set ys \<Longrightarrow> balanced (tx_EntryInputs y)"
    and "TF_correct L i original = Inr ys \<Longrightarrow> y \<in> set ys \<Longrightarrow> balanced (tx_EntryInputs y)"
    and "RT_correct L i original = Inr ys \<Longrightarrow> y \<in> set ys \<Longrightarrow> balanced (tx_EntryInputs y)"
proof -
  have known: "known_sub_accounts (ei_PostingAddress ` set (entries_of t (\<lambda>x. 0 < x) original))" for t
  proof (rule resolved_known [OF assms(3,4)], rule ballI)
    fix x assume "x \<in> ei_PostingAddress ` set (entries_of t (\<lambda>x. 0 < x) original)"
    then obtain e where e: "e \<in> set (tr_Entries original)" "0 < ei_Amount e" "x = ei_PostingAddress e" by (auto simp: entries_of_def)
    then obtain j where "j \<in> set es" "ei_PostingAddress j = x" "ei_Amount j = ei_Amount e" using booked_entry [OF assms(1) e(1)] by auto
    then show "resolved_address known D x" using assms(2) e(2) unfolding credits_resolved_def by metis
  qed
  have keys: "pk_currency (cover_key L x s c) = currency_key x" "pk_currency (basic_key L x s c) = currency_key x"
    "pk_currency (recognize_key L x s c) = currency_key x" for x s c
    by (simp_all add: cover_key_def recognize_key_def basic_key_def currency_key_def)
  have leg: "balanced (tx_EntryInputs y)"
    if c: "leg_correction msg i ss (entries_of t (\<lambda>x. 0 < x) original) key = Inr ys" "y \<in> set ys"
      and k: "\<forall>e. pk_currency (key e) = currency_key (ei_PostingAddress e)" for msg ss t key
  proof -
    obtain ps where ps: "allocateCorrectionLegs ss (entries_of t (\<lambda>x. 0 < x) original) key (\<lambda>e. \<bar>ei_Amount e\<bar>) (ci_Amount i) = Inr ps"
      and y: "y = template_transaction (ci_At i) (mapCorrectionPostingsToEntryInputs ps)"
      using c by (auto simp: leg_correction_def bind_result_Inr wrap_result_Inr)
    show ?thesis unfolding y template_transaction_fields
      by (rule allocated_balanced [OF ps known]) (use k in blast)
  qed
  show "CV_correct L i original = Inr ys \<Longrightarrow> y \<in> set ys \<Longrightarrow> balanced (tx_EntryInputs y)"
    "TF_correct L i original = Inr ys \<Longrightarrow> y \<in> set ys \<Longrightarrow> balanced (tx_EntryInputs y)"
    "RT_correct L i original = Inr ys \<Longrightarrow> y \<in> set ys \<Longrightarrow> balanced (tx_EntryInputs y)"
    unfolding CV_correct_def TF_correct_def RT_correct_def using leg keys by blast+
qed

text \<open>An exchange: on each side what the customer owes and what is brokered have one currency.\<close>

definition in_entries :: "Entry set \<Rightarrow> AccountType \<Rightarrow> (decimal \<Rightarrow> bool) \<Rightarrow> Entry option \<Rightarrow> bool" where
  "in_entries E t sign x \<longleftrightarrow> (\<forall>e. x = Some e \<longrightarrow> e \<in> E \<and> account_type e = t \<and> sign (ei_Amount e))"

definition exchange_of :: "Entry set \<Rightarrow> exchange \<Rightarrow> bool" where
  "exchange_of E x \<longleftrightarrow> in_entries E AccountTypeCustomerReceivable (\<lambda>y. y < 0) (ex_sourceReceivable x) \<and>
     in_entries E AccountTypeBrokerage (\<lambda>y. 0 < y) (ex_brokerageSource x) \<and>
     in_entries E AccountTypeCustomerReceivable (\<lambda>y. 0 < y) (ex_targetReceivable x) \<and>
     in_entries E AccountTypeBrokerage (\<lambda>y. y < 0) (ex_brokerageTarget x)"

lemma exchange_of_step: "exchange_of E x \<Longrightarrow> e \<in> E \<Longrightarrow> exchange_of E (exchange_step x e)"
  by (simp add: exchange_of_def exchange_step_def Let_def in_entries_def)

lemma exchange_of_entries: "exchange_of (set es) (foldl exchange_step no_exchange es)"
  by (rule foldl_invariant [where P = "exchange_of (set es)"]) (simp_all add: exchange_of_step, simp add: exchange_of_def no_exchange_def in_entries_def)

definition exchange_entries :: "EntryInput list \<Rightarrow> bool" where
  "exchange_entries es \<longleftrightarrow> (\<exists>p q. \<forall>e \<in> set es.
     (pa_AccountType (ei_PostingAddress e) = AccountTypeCustomerReceivable \<longrightarrow>
        currency_key (ei_PostingAddress e) = (if ei_Amount e < 0 then p else q)) \<and>
     (pa_AccountType (ei_PostingAddress e) = AccountTypeBrokerage \<longrightarrow>
        currency_key (ei_PostingAddress e) = (if ei_Amount e < 0 then q else p)))"

lemma CX_resolve_entries:
  assumes "accounts_ok D T" and "CX_resolve known D c t = Inr (Some x)" and "CX_Validate known t = None"
  shows "exchange_entries (tx_EntryInputs x)"
proof -
  have rows: "rows_ok D T" using assms(1) by (simp add: accounts_ok_def)
  have pos: "0 < cx_SourceAmount t" "0 < cx_TargetAmount t" using assms(3) by (auto simp: CX_Validate_def intro: positive_amount)
  obtain a b v w y z where
    a: "rd_GetCustomerAccounts D c = Inr a" and b: "rd_GetBusinessAccounts D (fst c) = Inr b"
    and v: "currency_key v = IdentityKey (cx_SourceCurrency t)" "pa_AccountType v = T (account_key (ca_ReceivableAccount a))"
    and w: "currency_key w = IdentityKey (cx_SourceCurrency t)" "pa_AccountType w = T (account_key (ba_BrokerageAccount b))"
    and y: "currency_key y = IdentityKey (cx_TargetCurrency t)" "pa_AccountType y = T (account_key (ca_ReceivableAccount a))"
    and z: "currency_key z = IdentityKey (cx_TargetCurrency t)" "pa_AccountType z = T (account_key (ba_BrokerageAccount b))"
    and x: "tx_EntryInputs x =
      [template_entry v (- cx_SourceAmount t) (charges (cx_SourceChargeID t) (cx_SpendChargeID t)) Map.empty,
       template_entry w (cx_SourceAmount t) (charges (cx_SourceChargeID t) (cx_SpendChargeID t)) Map.empty,
       template_entry y (cx_TargetAmount t) (charges (cx_SourceChargeID t) (cx_SpendChargeID t)) Map.empty,
       template_entry z (- cx_TargetAmount t) (charges (cx_SourceChargeID t) (cx_SpendChargeID t)) Map.empty]"
    using assms(2) unfolding CX_resolve_def Let_def
    by (auto dest!: found) (metis obtained_currency [OF _ rows] obtained_address(1) [OF _ rows] route_fields
        CustomerReceivableRouteParams.select_convs(1) TaxedRouteParams.select_convs(1) template_transaction_fields(1))
  have "T (account_key (ca_ReceivableAccount a)) = AccountTypeCustomerReceivable" "T (account_key (ba_BrokerageAccount b)) = AccountTypeBrokerage"
    using assms(1) a b unfolding accounts_ok_def by blast+
  then show ?thesis unfolding exchange_entries_def x using pos v w y z
    by (intro exI [of _ "IdentityKey (cx_SourceCurrency t)"] exI [of _ "IdentityKey (cx_TargetCurrency t)"]) simp
qed

lemma CX_correct_balanced:
  assumes "booked_from original es" and "exchange_entries es" and "CX_correct i original = Inr ys" and "y \<in> set ys"
  shows "balanced (tx_EntryInputs y)"
proof -
  let ?x = "foldl exchange_step no_exchange (tr_Entries original)"
  obtain e f g h where x: "ex_sourceReceivable ?x = Some e" "ex_brokerageSource ?x = Some f" "ex_targetReceivable ?x = Some g"
    "ex_brokerageTarget ?x = Some h"
    and y: "tx_EntryInputs y = [correction_entry e (ex_sourceAmount ?x), correction_entry f (- ex_sourceAmount ?x),
      correction_entry g (- ci_Amount i), correction_entry h (ci_Amount i)]"
    using assms(3,4) by (auto simp: CX_correct_def Let_def split: option.splits if_splits)
  have o: "exchange_of (set (tr_Entries original)) ?x" by (rule exchange_of_entries)
  obtain p q where pq: "\<forall>e \<in> set es.
     (pa_AccountType (ei_PostingAddress e) = AccountTypeCustomerReceivable \<longrightarrow>
        currency_key (ei_PostingAddress e) = (if ei_Amount e < 0 then p else q)) \<and>
     (pa_AccountType (ei_PostingAddress e) = AccountTypeBrokerage \<longrightarrow>
        currency_key (ei_PostingAddress e) = (if ei_Amount e < 0 then q else p))"
    using assms(2) by (auto simp: exchange_entries_def)
  have k: "(account_type e = AccountTypeCustomerReceivable \<longrightarrow> currency_key (ei_PostingAddress e) = (if ei_Amount e < 0 then p else q)) \<and>
     (account_type e = AccountTypeBrokerage \<longrightarrow> currency_key (ei_PostingAddress e) = (if ei_Amount e < 0 then q else p))"
    if e: "e \<in> set (tr_Entries original)" for e
  proof -
    obtain j where j: "j \<in> set es" "ei_PostingAddress j = ei_PostingAddress e" "ei_Amount j = ei_Amount e"
      using booked_entry [OF assms(1) e] by blast
    show ?thesis using bspec [OF pq j(1)] unfolding account_type_def j(2,3) .
  qed
  have "currency_key (ei_PostingAddress e) = p" "currency_key (ei_PostingAddress f) = p" "currency_key (ei_PostingAddress g) = q"
    "currency_key (ei_PostingAddress h) = q"
    using o k [of e] k [of f] k [of g] k [of h] by (auto simp: exchange_of_def in_entries_def x)
  then show ?thesis unfolding balanced_def y by (simp add: correction_entry_def)
qed

section \<open>From resolving to correcting\<close>

lemma correctTemplate_balanced:
  assumes "accounts_ok D T" and "plain_ids D" and "template_Validate known t = None" and "template_resolve known L D c t = Inr (Some z)"
    and "booked_from original (tx_EntryInputs z)" and "correctTemplate L i original (kind_of t) = Inr ys" and "y \<in> set ys"
  shows "balanced (tx_EntryInputs y)"
proof -
  have rows: "rows_ok D T" using assms(1) by (simp add: accounts_ok_def)
  show ?thesis
  proof (cases t)
    case (IssueCustomerReceivable u)
    then show ?thesis using assms(4-7) two_sided_balanced(1) [OF assms(5)] pair_resolve_one_currency(1) [OF rows] by simp
  next
    case (AttributeCustomerAdvanceReceivableCostBasis u)
    then show ?thesis using assms(4-7) two_sided_balanced(2) [OF assms(5)] pair_resolve_one_currency(2) [OF rows] by simp
  next
    case (TransferCustomerFBOAdvanceToAccrued u)
    then show ?thesis using assms(4-7) two_sided_balanced(3) [OF assms(5)] pair_resolve_one_currency(3) [OF rows] by simp
  next
    case (TranslateCustomerAccruedCostBasis u)
    then show ?thesis using assms(4-7) two_sided_balanced(4) [OF assms(5)] pair_resolve_one_currency(4) [OF rows] by simp
  next
    case (CoverCustomerReceivable u)
    have "credits_resolved known D (tx_EntryInputs z)"
      by (rule paired_resolve_credits(1)) (use assms(3,4) CoverCustomerReceivable in simp_all)
    from paired_correct_balanced(1) [OF assms(5) this rows assms(2)] show ?thesis using assms(6,7) CoverCustomerReceivable by simp
  next
    case (TransferCustomerFBOToAccrued u)
    have "credits_resolved known D (tx_EntryInputs z)"
      by (rule paired_resolve_credits(2)) (use assms(3,4) TransferCustomerFBOToAccrued in simp_all)
    from paired_correct_balanced(2) [OF assms(5) this rows assms(2)] show ?thesis using assms(6,7) TransferCustomerFBOToAccrued by simp
  next
    case (RecognizeEarningsFromAttributableAccrued u)
    have "credits_resolved known D (tx_EntryInputs z)"
      by (rule paired_resolve_credits(3)) (use assms(3,4) RecognizeEarningsFromAttributableAccrued in simp_all)
    from paired_correct_balanced(3) [OF assms(5) this rows assms(2)] show ?thesis using assms(6,7) RecognizeEarningsFromAttributableAccrued by simp
  next
    case (ConvertCurrency u)
    then show ?thesis using assms(3-7) CX_correct_balanced [OF assms(5)] CX_resolve_entries [OF assms(1)] by simp
  qed (use assms(6) in simp_all)
qed

lemma annotate_all_Inr:
  "annotate_all outs (kind_code k) = Inr ys \<Longrightarrow> y \<in> set ys \<Longrightarrow>
     \<exists>z \<in> set outs. tx_EntryInputs y = tx_EntryInputs z \<and> carries (tx_Annotations y) k TransactionDirectionCorrection"
proof (induction outs arbitrary: ys)
  case (Cons z zs)
  obtain a as where a: "annotateTemplateTransaction z (kind_code k) TransactionDirectionCorrection = Inr a"
    and as: "annotate_all zs (kind_code k) = Inr as" and ys: "ys = a # as"
    using Cons.prems(1) by (auto simp: bind_result_Inr)
  show ?case
  proof (cases "y = a")
    case True
    then show ?thesis using annotateTemplateTransaction_carries [OF a] by auto
  next
    case False
    then show ?thesis using Cons.IH [OF as] Cons.prems(2) ys by auto
  qed
qed simp

text \<open>
  C2. Resolving, booking and correcting compose (\<open>ResolveTransactions\<close>, \<open>CorrectTransaction\<close>, openmeter/ledger/transactions):
  whatever is corrected of a transaction that was resolved from a template and booked with the values it was resolved to,
  every transaction of the correction balances in every currency, names the template of the original and is marked as a
  correction, so that it is never corrected itself.
\<close>

theorem CorrectTransaction_balanced:
  assumes "accounts_ok D T" and "plain_ids D" and "ResolveTransactions known L D scope ts = Inr txs" and "x \<in> set txs"
    and "booked_from original (tx_EntryInputs x)" and "tr_Annotations original = tx_Annotations x"
    and "ci_OriginalTransaction i = Some original" and "CorrectTransaction L i = Inr ys" and "y \<in> set ys"
  shows "ValidateInvariance (tx_EntryInputs y) = None \<and>
    transactionTemplateFromAnnotations (tx_Annotations y) = transactionTemplateFromAnnotations (tx_Annotations x) \<and>
    (\<forall>j again. ci_OriginalTransaction j = Some again \<and> tr_Annotations again = tx_Annotations y \<longrightarrow> (\<exists>e. CorrectTransaction L j = Inl e))"
proof -
  obtain t z where t: "template_Validate known t = None" "template_resolve known L D (rs_CustomerID scope) t = Inr (Some z)"
    "tx_EntryInputs x = tx_EntryInputs z" "carries (tx_Annotations x) (kind_of t) TransactionDirectionForward"
    using ResolveTransactions_Inr [OF assms(3,4)] by blast
  obtain outs where o: "correctTemplate L i original (kind_of t) = Inr outs" "annotate_all outs (kind_code (kind_of t)) = Inr ys"
    using assms(8) t(4) unfolding CorrectTransaction_def assms(7) option.case assms(6)
    by (auto simp: carries_def check_then_Inr bind_result_Inr wrap_result_Inr split: if_splits)
  obtain w where w: "w \<in> set outs" "tx_EntryInputs y = tx_EntryInputs w" and c: "carries (tx_Annotations y) (kind_of t) TransactionDirectionCorrection"
    using annotate_all_Inr [OF o(2) assms(9)] by blast
  have "balanced (tx_EntryInputs w)"
    by (rule correctTemplate_balanced [OF assms(1,2) t(1,2) _ o(1) w(1)]) (use assms(5) t(3) in simp)
  moreover have "\<exists>e. CorrectTransaction L j = Inl e"
    if "ci_OriginalTransaction j = Some again" "tr_Annotations again = tx_Annotations y" for j again
    using c that by (cases "CI_Validate j") (simp_all add: CorrectTransaction_def carries_def check_then_def bind_result_def wrap_result_def)
  ultimately show ?thesis using c t(4) w(2) by (auto simp: carries_def ValidateInvariance_iff)
qed

lemma sample_resolver_accounts: "accounts_ok sample_resolver sample_types" "plain_ids sample_resolver"
proof -
  show "accounts_ok sample_resolver sample_types" unfolding accounts_ok_def
    by (intro conjI sample_resolver_rows) (simp_all add: sample_resolver_def sample_accounts_def sample_types_def account_key_def)
  show "plain_ids sample_resolver"
    by (auto simp: plain_ids_def sample_resolver_def sample_data_def split: if_splits)
qed

definition sample_booked :: "TransactionInput \<Rightarrow> Transaction" where
  "sample_booked x = \<lparr>tr_Namespace = ''ns'', tr_ID = ''tx'', tr_CreatedAt = 1, tr_BookedAt = tx_BookedAt x,
     tr_Entries = map (\<lambda>e. EntryInput.extend e \<lparr>en_Namespace = ''ns'', en_ID = ''entry''\<rparr>) (tx_EntryInputs x), tr_Annotations = tx_Annotations x\<rparr>"

definition sample_correction :: "TransactionInput \<Rightarrow> CorrectionInput" where
  "sample_correction x = \<lparr>ci_At = 2, ci_Amount = 3, ci_CostBasis = None, ci_OriginalTransaction = Some (sample_booked x)\<rparr>"

theorem CorrectTransaction_balanced_witness:
  "\<exists>x y. ResolveTransactions sample_currencies std_decimal_lib sample_resolver sample_scope [IssueCustomerReceivable sample_issue] = Inr [x] \<and>
     CorrectTransaction std_decimal_lib (sample_correction x) = Inr [y] \<and> map ei_Amount (tx_EntryInputs y) = [-3, 3] \<and>
     ValidateInvariance (tx_EntryInputs y) = None"
proof -
  obtain x f r where x: "ResolveTransactions sample_currencies std_decimal_lib sample_resolver sample_scope [IssueCustomerReceivable sample_issue] = Inr [x]"
    and es: "tx_EntryInputs x = [template_entry f 5 (charges None None) Map.empty, template_entry r (- 5) (charges None None) Map.empty]"
    and types: "pa_AccountType f = AccountTypeCustomerFBO" "pa_AccountType r = AccountTypeCustomerReceivable"
    and c: "carries (tx_Annotations x) IssueCustomerReceivableKind TransactionDirectionForward"
    using sample_resolved by blast
  have b: "booked_from (sample_booked x) (tx_EntryInputs x)"
    by (auto simp: booked_from_def sample_booked_def EntryInput.extend_def entry_row_def image_iff)
  have i: "\<exists>z. IS_correct (sample_correction x) (sample_booked x) = Inr [z] \<and> map ei_Amount (tx_EntryInputs z) = [-3, 3]"
    using types by (simp add: IS_correct_def sample_booked_def sample_correction_def es EntryInput.extend_def issue_sides_def account_type_def
        see_left_def see_right_def no_sides_def two_sided_def)
  then obtain z where z: "IS_correct (sample_correction x) (sample_booked x) = Inr [z]" "map ei_Amount (tx_EntryInputs z) = [-3, 3]" by (elim exE conjE)
  obtain y where y: "annotateTemplateTransaction z (kind_code IssueCustomerReceivableKind) TransactionDirectionCorrection = Inr y"
    by (simp add: annotateTemplateTransaction_def)
  have "CI_Validate (sample_correction x) = None"
    by (simp add: CI_Validate_def sample_correction_def ValidateTransactionAmount_def IsZeroTime_def)
  then have t: "CorrectTransaction std_decimal_lib (sample_correction x) = Inr [y]"
    using c z(1) y by (simp add: CorrectTransaction_def carries_def check_then_def bind_result_def wrap_result_def sample_correction_def)
      (simp add: sample_booked_def)
  have "map ei_Amount (tx_EntryInputs y) = [-3, 3]" using annotateTemplateTransaction_carries(1) [OF y] z(2) by simp
  then show ?thesis
    using CorrectTransaction_balanced [OF sample_resolver_accounts x _ b _ _ t] x t by (simp add: sample_correction_def sample_booked_def)
qed

end
