(* ===== verification/Spec2Isabelle.thy ===== *)
theory Spec2Isabelle
  imports Prelude Timeutil Timeline Datetime Recurrence CalendarOccurrences Floats Decimal UnitConfig Grant BurnDown
    Phases History EngineRun EngineAccounting Currencyx Allocation Meter Totals Price Discounts Rate
    Tiers Mutators Rating PostMutators Pricers RatingResults Issues StdDetails TaxCode InvoiceStatus
    StdLine StdInvoice LineEngines InvoiceCalc InvoiceMachine InvoiceLife InvoiceRuns
    CurrencyRef LedgerRoute EntryIdentity LedgerEntries RoutingRules LedgerAccounts LedgerTemplates
    LedgerCorrections LedgerBooks LedgerReversals LedgerCycle
begin

text \<open>
  OpenMeter meters usage, grants credits for it, and bills it. This development models what is at the
  heart of that: the credit engine that burns grants down by metered usage, the rating of usage into
  detailed invoice lines, the life of the invoice that holds them, and the money, period and recurrence
  arithmetic below all of them. All definitions are executable; third-party packages are parameters with named hypotheses and
  a concrete instance for which the hypotheses are proved.

  \<^bold>\<open>Shared notions.\<close> \<open>Prelude\<close>: Go errors as the datatype \<open>error\<close>, results as \<open>error + 'a\<close>, a method
  that returns only an error as \<open>error option\<close>, instants as integers (nanoseconds), the stable
  insertion sort that stands for the sorts of package slices, \<open>MapWithErr\<close>. Where Go would panic on a
  nil pointer inside a function that returns an error, the model returns \<open>Inl nil_deref\<close>; a loop that
  need not end is a \<open>partial_function (option)\<close>, and that it ends is proved separately.

  \<^bold>\<open>Time\<close> (pkg/timeutil, pkg/datetime). \<open>Timeutil\<close>: closed, open and start-bounded periods; the
  interface Period is the locale \<open>period\<close>, interpreted for each of them. \<open>Timeline\<close>: sorted instants,
  binary search and the periods between them. \<open>Datetime\<close>: adding ISO durations without overflowing
  months, on the proleptic Gregorian calendar in UTC. \<open>Recurrence\<close>: the searches for the occurrence
  before and after an instant with their iteration bound, and the iterators. \<open>CalendarOccurrences\<close>: every
  interval without negative fields, months and years included, gives increasing occurrences, so that the searches
  work on them.

  \<^bold>\<open>Numbers.\<close> \<open>Floats\<close>: float64 as rationals rounded after each operation (credit balances);
  \<open>Decimal\<close>: the decimal package as exact rationals, with \<open>decimal_ok\<close> its documented rounding laws
  and \<open>std_decimal_lib\<close> an instance (division keeps 16 places). \<open>UnitConfig\<close>: unit conversion of
  metered quantities (openmeter/productcatalog/unitconfig). \<open>Currencyx\<close>: currency codes, rounding to
  the precision of a currency, the builder (pkg/currencyx/currency.go, code.go); what the rest of the
  program calls of a currency is the locale \<open>currency_calculator\<close>, interpreted for every currency that
  validation accepts. \<open>Allocation\<close>: splitting an amount by weight or by amount (allocation.go).

  \<^bold>\<open>Credits\<close> (openmeter/credit). \<open>Grant\<close>: the life of a grant, balance maps, burn-down order.
  \<open>BurnDown\<close>: burning usage from prioritised grants. \<open>Phases\<close>: the activity changes and recurrences of
  a period and the phases they cut it into. \<open>History\<close>: segments, snapshots at their starts, chunks by
  resets. \<open>EngineRun\<close>: the run between resets, the reset, the run over a timeline. \<open>EngineAccounting\<close>
  proves what a run promises: its history covers the period without gap, grant usage plus overage is
  metered usage, balances stay non-negative, it returns.

  \<^bold>\<open>Billing\<close> (openmeter/billing, openmeter/productcatalog). \<open>Meter\<close>: meter aggregations and the
  feature meters of a customer. \<open>Totals\<close>: percentages, totals, credits applied. \<open>Price\<close>: the five
  kinds of prices. \<open>Discounts\<close>: discounts of the catalog, of billing and of lines, and how line
  discounts keep their IDs. \<open>Rate\<close>: detailed lines and the pricers (billing/rating/service/rate).
  \<open>Mutators\<close>: what runs before the pricer (unit conversion, usage discount) and after it (percentage
  discount, maximum and minimum commitment, credits). \<open>Rating\<close>: the service that chooses the pipeline,
  runs it and totals the lines, and the period of a line that can be billed. \<open>Tiers\<close> proves that
  graduated tiers bill every unit once and that billing in two lines adds up to billing in one, by
  cutting the ranges of the calculator down to the share of each tier. \<open>PostMutators\<close> states the
  contract of a mutator as the locale \<open>post_mutator\<close> (no line becomes negative) and gives the exact
  effect of commitments, credits and discounts. \<open>Pricers\<close> does the same for pricers (locale \<open>pricer\<close>),
  and \<open>RatingResults\<close> composes both into properties of a whole rating run.

  \<^bold>\<open>Invoices\<close> (openmeter/billing, openmeter/taxcode). \<open>Issues\<close>: the error trees of billing and the
  validation issues an invoice carries. \<open>StdDetails\<close>: stored detailed lines and the credits applied to
  them; the credits land where the rating of \<open>Mutators\<close> puts them. \<open>TaxCode\<close>: tax codes and the
  merge of tax configurations, where the merge of billing refines that of the catalog. \<open>InvoiceStatus\<close>:
  statuses, triggers, sources of changes, engine types. \<open>StdLine\<close>: the lines of an invoice, the
  hierarchy of lines billed in parts, and how generated detailed lines keep their IDs. \<open>StdInvoice\<close>:
  the invoice and what may replace its lines. \<open>LineEngines\<close>: engines as records of hooks, their
  registry and the events dispatched to them. \<open>InvoiceCalc\<close>: the calculations that derive the fields
  of an invoice and the results of apps merged into it.

  \<^bold>\<open>The life of an invoice\<close> (openmeter/billing/service/stdinvoicestate.go, pkg/statelessx).
  \<open>InvoiceMachine\<close>: the state machine of an invoice with its transitions, guards and actions, the actions
  available in a status, firing a trigger with its ways into failed states, advancing until nothing moves,
  and the triggers an app invokes or sends to the service (openmeter/billing/service/invoiceapp.go). The package that runs state machines is the record \<open>stateless\<close> with its
  documentation \<open>stateless_ok\<close>; apps, database, event bus and clock are fields of \<open>machine_env\<close>.
  \<open>InvoiceLife\<close>: resolving the available actions leaves no trace, every action keeps the status, and the
  abstract life \<open>phase_step\<close> with the simulation of it. \<open>InvoiceRuns\<close>: what every run keeps, that advancing
  returns, how it ends and through which rounds if the hook of the app invokes no trigger, what the service stores
  after a report on an invoice with a critical issue, and the properties of the machine. The depth of nested resolutions and the steps of each are
  bounded by \<open>status_fuel\<close> (40), more than the largest \<open>distance\<close> of a status from rest (12); advancing
  needs that distance and two more.

  \<^bold>\<open>The ledger\<close> (openmeter/currencies, openmeter/ledger). \<open>CurrencyRef\<close>: managed currencies and the
  references to them, whose stored text is read back as the same currency. \<open>LedgerRoute\<close>: the routes that
  identify a sub-account, their normal form and filters, and the routing keys of all versions, which are
  equal exactly for routes that agree. \<open>EntryIdentity\<close>: the keys that tell entries of one sub-account apart, in both
  versions, with query escaping. \<open>LedgerEntries\<close>: entries, transactions, queries, their checks, and
  \<open>CommitGroup\<close> on a database that is a parameter; every currency stays balanced. \<open>RoutingRules\<close>: the rules
  on which accounts a transaction may touch and how, and the policy in terms of sets that the default rules
  decide. \<open>LedgerAccounts\<close>: addresses and sub-accounts from their rows, the parameters of routes, how an account
  finds or creates the sub-account of a route, and the annotations of transactions. \<open>LedgerTemplates\<close>: all
  templates of transactions (openmeter/ledger/transactions), their checks, and how they are resolved into
  entries. \<open>LedgerCorrections\<close>: what is taken back of a booked transaction, by its template.
  \<open>LedgerBooks\<close>: resolved transactions balance and carry the code of their template. \<open>LedgerReversals\<close>: the
  legs that a correction takes back. \<open>LedgerCycle\<close>: resolving, booking and correcting compose. The rows of
  sub-accounts are a parameter with the contract \<open>rows_ok\<close>: a row has the route it was asked for.

  \<^bold>\<open>Bounds.\<close> Iterations of a recurrence search are bounded by \<open>MAX_SAFE_ITERATIONS\<close> as in the code,
  and the results state the range of instants for which that is enough; occurrences are claimed within the 292
  years of a \<open>time.Duration\<close> around the anchor (\<open>regular_recurrence\<close>). Amounts of the burn-down that
  are claimed exact are whole numbers below \<open>2 ^ 53\<close>. Rounding is exact on multiples of the smallest
  unit of the currency (\<open>on_grid\<close>). \<open>package_fits\<close> bounds the decimal places for which the division
  of the package count is fine enough.

  \<^bold>\<open>Not modelled.\<close> NaN and infinite floats, time zones other than UTC, JSON and database mappings,
  string formatting beyond what identifiers need, and case folding or spaces outside ASCII. Of the rest
  of the repository: HTTP drivers and generated clients and schemas, ingestion, the streaming queries,
  and the services that wrap the calculations above in database and event I/O; of the ledger the
  database adapter, the collection and breakage services, the charge adapter and customer balances; of
  billing subscriptions, charges and entitlement services.
\<close>

end
